(* ===== verification/TM_Prelude.thy ===== *)
theory TM_Prelude
  imports Main "HOL-Library.List_Lexorder" "HOL-Library.Char_ord" "HOL-Library.Sublist"
begin

text \<open>
  What every component shares. The code runs inside a Durable Object: a method reads and writes
  the object's SQLite tables, sends queue messages and may throw in the middle, and whatever it
  wrote before the throw stays written, because nothing here runs in a transaction and
  \<^verbatim>\<open>applyProviderDelta\<close> catches the exception and goes on. An operation is therefore a function
  of the state that returns the state together with either the exception or the result.

  This theory holds that type, the rules that carry an invariant (or a relation between the state
  before and after) through a composed operation, and the lemmas on tables kept as lists of rows.
\<close>

section \<open>Exceptions and operations\<close>

text \<open>
  An exception is an \<^verbatim>\<open>Error\<close> thrown by the code with its message, a constraint the SQL engine
  reports for one statement, or a queue binding whose \<^verbatim>\<open>send\<close> rejects.
\<close>

datatype tm_error =
    Thrown string
  | UniqueViolation string
  | ForeignKeyViolation
  | QueueRejected

fun error_message :: "tm_error \<Rightarrow> string" where
  "error_message (Thrown m) = m"
| "error_message (UniqueViolation t) = ''UNIQUE constraint failed: '' @ t"
| "error_message ForeignKeyViolation = ''FOREIGN KEY constraint failed''"
| "error_message QueueRejected = ''queue send failed''"

text \<open>An operation over states \<open>'s\<close>; the exceptions of most are \<^typ>\<open>tm_error\<close>.\<close>

type_synonym ('e, 's, 'a) eop = "'s \<Rightarrow> ('e + 'a) \<times> 's"
type_synonym ('s, 'a) op = "(tm_error, 's, 'a) eop"

definition ret :: "'a \<Rightarrow> ('e, 's, 'a) eop" where
  "ret x s = (Inr x, s)"

definition throw :: "'e \<Rightarrow> ('e, 's, 'a) eop" where
  "throw e s = (Inl e, s)"

definition andThen :: "('e, 's, 'a) eop \<Rightarrow> ('a \<Rightarrow> ('e, 's, 'b) eop) \<Rightarrow> ('e, 's, 'b) eop" where
  "andThen m f s = (case m s of (Inl e, t) \<Rightarrow> (Inl e, t) | (Inr x, t) \<Rightarrow> f x t)"

definition query :: "('s \<Rightarrow> 'a) \<Rightarrow> ('e, 's, 'a) eop" where
  "query f s = (Inr (f s), s)"

definition modify :: "('s \<Rightarrow> 's) \<Rightarrow> ('e, 's, unit) eop" where
  "modify f s = (Inr (), f s)"

text \<open>\<^verbatim>\<open>try { m } catch (err) { h(err) }\<close>.\<close>

definition tryCatch :: "('e, 's, 'a) eop \<Rightarrow> ('e \<Rightarrow> ('e, 's, 'a) eop) \<Rightarrow> ('e, 's, 'a) eop" where
  "tryCatch m h s = (case m s of (Inl e, t) \<Rightarrow> h e t | (Inr x, t) \<Rightarrow> (Inr x, t))"

text \<open>\<^verbatim>\<open>for (const x of xs) { ... }\<close>, and the same loop where each round adds to a counter.\<close>

fun forEach :: "'x list \<Rightarrow> ('x \<Rightarrow> ('e, 's, unit) eop) \<Rightarrow> ('e, 's, unit) eop" where
  "forEach [] f = ret ()"
| "forEach (x # xs) f = andThen (f x) (\<lambda>_. forEach xs f)"

fun sumOver :: "'x list \<Rightarrow> ('x \<Rightarrow> ('e, 's, nat) eop) \<Rightarrow> ('e, 's, nat) eop" where
  "sumOver [] f = ret 0"
| "sumOver (x # xs) f = andThen (f x) (\<lambda>n. andThen (sumOver xs f) (\<lambda>m. ret (n + m)))"

named_theorems op_run \<open>equations that run an operation on a state\<close>

lemma ret_run [op_run]: "ret x s = (Inr x, s)"
  by (simp add: ret_def)

lemma throw_run [op_run]: "throw e s = (Inl e, s)"
  by (simp add: throw_def)

lemma query_run [op_run, simp]: "query f s = (Inr (f s), s)"
  by (simp add: query_def)

lemma modify_run [op_run, simp]: "modify f s = (Inr (), f s)"
  by (simp add: modify_def)

lemma andThen_Inl [op_run]: "m s = (Inl e, t) \<Longrightarrow> andThen m f s = (Inl e, t)"
  by (simp add: andThen_def)

lemma andThen_Inr [op_run]: "m s = (Inr x, t) \<Longrightarrow> andThen m f s = f x t"
  by (simp add: andThen_def)

lemma andThen_ret [simp]: "andThen (ret x) f = f x"
  by (rule ext) (simp add: andThen_def ret_def)

lemma andThen_throw [simp]: "andThen (throw e) f = throw e"
  by (rule ext) (simp add: andThen_def throw_def)

lemma andThen_query [simp]: "andThen (query g) f s = f (g s) s"
  by (simp add: andThen_def)

lemma andThen_modify [simp]: "andThen (modify g) f s = f () (g s)"
  by (simp add: andThen_def)

lemma andThen_assoc: "andThen (andThen m f) g = andThen m (\<lambda>x. andThen (f x) g)"
  by (rule ext) (simp add: andThen_def split: prod.split sum.split)

lemma andThen_result:
  "andThen m f s = (Inr y, u) \<longleftrightarrow> (\<exists>x t. m s = (Inr x, t) \<and> f x t = (Inr y, u))"
  by (auto simp: andThen_def split: prod.splits sum.splits)

lemma forEach_append:
  "forEach (xs @ ys) f = andThen (forEach xs f) (\<lambda>_. forEach ys f)"
  by (induction xs) (simp_all add: andThen_assoc)

section \<open>Carrying an invariant through an operation\<close>

text \<open>
  \<^verbatim>\<open>keeps P m\<close>: from a state satisfying \<open>P\<close>, \<open>m\<close> ends in one, whether it returns or throws.
\<close>

definition keeps :: "('s \<Rightarrow> bool) \<Rightarrow> ('e, 's, 'a) eop \<Rightarrow> bool" where
  "keeps P m \<longleftrightarrow> (\<forall>s. P s \<longrightarrow> P (snd (m s)))"

named_theorems keeps_intro \<open>rules that build an invariant of an operation from its parts\<close>

lemma keepsI: "(\<And>s. P s \<Longrightarrow> P (snd (m s))) \<Longrightarrow> keeps P m"
  by (simp add: keeps_def)

lemma keepsD: "keeps P m \<Longrightarrow> P s \<Longrightarrow> P (snd (m s))"
  by (simp add: keeps_def)

lemma keeps_ret [keeps_intro]: "keeps P (ret x)"
  by (simp add: keeps_def ret_def)

lemma keeps_throw [keeps_intro]: "keeps P (throw e)"
  by (simp add: keeps_def throw_def)

lemma keeps_query [keeps_intro]: "keeps P (query f)"
  by (simp add: keeps_def)

lemma keeps_modify: "(\<And>s. P s \<Longrightarrow> P (f s)) \<Longrightarrow> keeps P (modify f)"
  by (simp add: keeps_def)

lemma keeps_andThen [keeps_intro]:
  assumes "keeps P m" and "\<And>x. keeps P (f x)"
  shows "keeps P (andThen m f)"
proof (rule keepsI)
  fix s assume "P s"
  with assms show "P (snd (andThen m f s))"
    by (cases "m s"; cases "fst (m s)") (force simp: keeps_def andThen_def)+
qed

lemma keeps_tryCatch [keeps_intro]:
  assumes "keeps P m" and "\<And>e. keeps P (h e)"
  shows "keeps P (tryCatch m h)"
proof (rule keepsI)
  fix s assume "P s"
  with assms show "P (snd (tryCatch m h s))"
    by (cases "m s"; cases "fst (m s)") (force simp: keeps_def tryCatch_def)+
qed

lemma keeps_if [keeps_intro]:
  "(c \<Longrightarrow> keeps P m) \<Longrightarrow> (\<not> c \<Longrightarrow> keeps P n) \<Longrightarrow> keeps P (if c then m else n)"
  by simp

lemma keeps_case_option [keeps_intro]:
  "(v = None \<Longrightarrow> keeps P m) \<Longrightarrow> (\<And>x. v = Some x \<Longrightarrow> keeps P (f x)) \<Longrightarrow>
   keeps P (case v of None \<Rightarrow> m | Some x \<Rightarrow> f x)"
  by (cases v) simp_all

lemma keeps_case_list [keeps_intro]:
  "(v = [] \<Longrightarrow> keeps P m) \<Longrightarrow> (\<And>x xs. v = x # xs \<Longrightarrow> keeps P (f x xs)) \<Longrightarrow>
   keeps P (case v of [] \<Rightarrow> m | x # xs \<Rightarrow> f x xs)"
  by (cases v) simp_all

lemma keeps_forEach [keeps_intro]:
  "(\<And>x. x \<in> set xs \<Longrightarrow> keeps P (f x)) \<Longrightarrow> keeps P (forEach xs f)"
  by (induction xs) (auto intro!: keeps_intro)

lemma keeps_sumOver [keeps_intro]:
  "(\<And>x. x \<in> set xs \<Longrightarrow> keeps P (f x)) \<Longrightarrow> keeps P (sumOver xs f)"
  by (induction xs) (auto intro!: keeps_intro)

section \<open>Relating the state before and after\<close>

text \<open>
  A contract over two states (the journal only grows, an identifier is never reused, a finished
  session stays finished) is a reflexive and transitive relation. Every composed operation whose
  parts respect it respects it: the locale proves that once and each contract interprets it.
\<close>

definition stays :: "('s \<Rightarrow> 's \<Rightarrow> bool) \<Rightarrow> ('e, 's, 'a) eop \<Rightarrow> bool" where
  "stays R m \<longleftrightarrow> (\<forall>s. R s (snd (m s)))"

lemma staysI: "(\<And>s. R s (snd (m s))) \<Longrightarrow> stays R m"
  by (simp add: stays_def)

lemma staysD: "stays R m \<Longrightarrow> R s (snd (m s))"
  by (simp add: stays_def)

locale state_contract =
  fixes R :: "'s \<Rightarrow> 's \<Rightarrow> bool"
  assumes same: "R s s"
    and chain: "R s t \<Longrightarrow> R t u \<Longrightarrow> R s u"
begin

lemma stays_ret: "stays R (ret x)"
  by (simp add: stays_def same ret_def)

lemma stays_throw: "stays R (throw e)"
  by (simp add: stays_def same throw_def)

lemma stays_query: "stays R (query f)"
  by (simp add: stays_def same)

lemma stays_modify: "(\<And>s. R s (f s)) \<Longrightarrow> stays R (modify f)"
  by (simp add: stays_def)

lemma stays_andThen:
  assumes m: "stays R m" and f: "\<And>x. stays R (f x)"
  shows "stays R (andThen m f)"
proof (rule staysI)
  fix s
  obtain r t where mt: "m s = (r, t)" by force
  then have st: "R s t" using staysD [OF m, of s] by simp
  show "R s (snd (andThen m f s))"
  proof (cases r)
    case (Inl e)
    then show ?thesis using mt st by (simp add: andThen_def)
  next
    case (Inr x)
    have "R t (snd (f x t))" by (rule staysD [OF f])
    then show ?thesis using mt st Inr chain by (simp add: andThen_def)
  qed
qed

lemma stays_tryCatch:
  assumes m: "stays R m" and h: "\<And>e. stays R (h e)"
  shows "stays R (tryCatch m h)"
proof (rule staysI)
  fix s
  obtain r t where mt: "m s = (r, t)" by force
  then have st: "R s t" using staysD [OF m, of s] by simp
  show "R s (snd (tryCatch m h s))"
  proof (cases r)
    case (Inl e)
    have "R t (snd (h e t))" by (rule staysD [OF h])
    then show ?thesis using mt st Inl chain by (simp add: tryCatch_def)
  next
    case (Inr x)
    then show ?thesis using mt st by (simp add: tryCatch_def)
  qed
qed

lemma stays_if:
  "(c \<Longrightarrow> stays R m) \<Longrightarrow> (\<not> c \<Longrightarrow> stays R n) \<Longrightarrow> stays R (if c then m else n)"
  by simp

lemma stays_case_option:
  "(v = None \<Longrightarrow> stays R m) \<Longrightarrow> (\<And>x. v = Some x \<Longrightarrow> stays R (f x)) \<Longrightarrow>
   stays R (case v of None \<Rightarrow> m | Some x \<Rightarrow> f x)"
  by (cases v) simp_all

lemma stays_case_list:
  "(v = [] \<Longrightarrow> stays R m) \<Longrightarrow> (\<And>x xs. v = x # xs \<Longrightarrow> stays R (f x xs)) \<Longrightarrow>
   stays R (case v of [] \<Rightarrow> m | x # xs \<Rightarrow> f x xs)"
  by (cases v) simp_all

lemma stays_forEach:
  "(\<And>x. x \<in> set xs \<Longrightarrow> stays R (f x)) \<Longrightarrow> stays R (forEach xs f)"
  by (induction xs) (auto intro: stays_ret stays_andThen)

lemma stays_sumOver:
  "(\<And>x. x \<in> set xs \<Longrightarrow> stays R (f x)) \<Longrightarrow> stays R (sumOver xs f)"
  by (induction xs) (auto intro: stays_ret stays_andThen)

lemmas stays_rules = stays_ret stays_throw stays_query stays_andThen stays_tryCatch stays_if
  stays_case_option stays_case_list stays_forEach stays_sumOver

end

section \<open>Tables\<close>

text \<open>
  A table is the list of its rows in insertion order. \<^verbatim>\<open>UPDATE ... WHERE\<close> and
  \<^verbatim>\<open>DELETE ... WHERE\<close> are the two functions below; \<^verbatim>\<open>SELECT ... WHERE\<close> is \<^const>\<open>filter\<close>.
  A \<^verbatim>\<open>SELECT\<close> without \<^verbatim>\<open>ORDER BY\<close> leaves the order open; the model returns insertion order.
\<close>

definition updateRows :: "('r \<Rightarrow> bool) \<Rightarrow> ('r \<Rightarrow> 'r) \<Rightarrow> 'r list \<Rightarrow> 'r list" where
  "updateRows P f rows = map (\<lambda>r. if P r then f r else r) rows"

definition deleteRows :: "('r \<Rightarrow> bool) \<Rightarrow> 'r list \<Rightarrow> 'r list" where
  "deleteRows P rows = filter (\<lambda>r. \<not> P r) rows"

named_theorems table_simps \<open>rewriting of table statements\<close>

lemma set_updateRows [table_simps]:
  "set (updateRows P f rows) = (\<lambda>r. if P r then f r else r) ` set rows"
  by (simp add: updateRows_def)

lemma set_deleteRows [table_simps, simp]: "set (deleteRows P rows) = {r \<in> set rows. \<not> P r}"
  by (auto simp: deleteRows_def)

lemma length_updateRows [table_simps, simp]: "length (updateRows P f rows) = length rows"
  by (simp add: updateRows_def)

lemma map_updateRows [table_simps]:
  "(\<And>r. r \<in> set rows \<Longrightarrow> P r \<Longrightarrow> k (f r) = k r) \<Longrightarrow> map k (updateRows P f rows) = map k rows"
  by (auto simp: updateRows_def)

lemma updateRows_none: "\<forall>r \<in> set rows. \<not> P r \<Longrightarrow> updateRows P f rows = rows"
  unfolding updateRows_def by (rule map_idI) simp

lemma updateRows_Nil [simp]: "updateRows P f [] = []"
  by (simp add: updateRows_def)

lemma updateRows_append [table_simps]:
  "updateRows P f (xs @ ys) = updateRows P f xs @ updateRows P f ys"
  by (simp add: updateRows_def)

lemma deleteRows_append [table_simps]:
  "deleteRows P (xs @ ys) = deleteRows P xs @ deleteRows P ys"
  by (simp add: deleteRows_def)

lemma distinct_map_deleteRows [table_simps]:
  "distinct (map k rows) \<Longrightarrow> distinct (map k (deleteRows P rows))"
  by (simp add: deleteRows_def distinct_map_filter)

lemma filter_updateRows:
  "(\<And>r. P r \<Longrightarrow> Q (f r) \<longleftrightarrow> Q r) \<Longrightarrow> filter Q (updateRows P f rows) = updateRows P f (filter Q rows)"
  by (induction rows) (auto simp: updateRows_def)

lemma filter_updateRows_disjoint:
  assumes "\<And>r. P r \<Longrightarrow> \<not> Q r" and "\<And>r. P r \<Longrightarrow> \<not> Q (f r)"
  shows "filter Q (updateRows P f rows) = filter Q rows"
  using assms by (induction rows) (auto simp: updateRows_def)

lemma filter_updateRows_same:
  "(\<And>r. P r \<Longrightarrow> P (f r)) \<Longrightarrow> filter P (updateRows P f rows) = map f (filter P rows)"
  by (induction rows) (auto simp: updateRows_def)

text \<open>\<^verbatim>\<open>ORDER BY k DESC\<close>, rows with equal keys in insertion order.\<close>

definition sortDesc :: "('r \<Rightarrow> 'k::linorder) \<Rightarrow> 'r list \<Rightarrow> 'r list" where
  "sortDesc k rows = rev (sort_key k (rev rows))"

lemma set_sortDesc [simp]: "set (sortDesc k rows) = set rows"
  by (simp add: sortDesc_def)

lemma length_sortDesc [simp]: "length (sortDesc k rows) = length rows"
  by (simp add: sortDesc_def)

lemma sortDesc_sorted: "sorted_wrt (\<lambda>a b. k b \<le> k a) (sortDesc k rows)"
proof -
  have "sorted (map k (sort_key k (rev rows)))" by (rule sorted_sort_key)
  then show ?thesis by (simp add: sortDesc_def sorted_wrt_rev sorted_map)
qed

lemma filter_deleteRows: "filter Q (deleteRows P rows) = filter (\<lambda>r. Q r \<and> \<not> P r) rows"
  by (auto simp: deleteRows_def intro: filter_cong)

lemma distinct_key_filter:
  "distinct (map k rows) \<Longrightarrow> r \<in> set rows \<Longrightarrow> filter (\<lambda>x. k x = k r) rows = [r]"
proof (induction rows)
  case Nil
  then show ?case by simp
next
  case (Cons a rows)
  show ?case
  proof (cases "r = a")
    case True
    with Cons.prems have "\<forall>x \<in> set rows. k x \<noteq> k r"
      by (metis distinct.simps(2) image_eqI list.set_map list.simps(9))
    with True show ?thesis by (simp add: filter_empty_conv)
  next
    case False
    with Cons.prems have "r \<in> set rows" "k a \<noteq> k r" by auto
    with Cons show ?thesis by simp
  qed
qed

lemma distinct_key_eq:
  "distinct (map k rows) \<Longrightarrow> r \<in> set rows \<Longrightarrow> q \<in> set rows \<Longrightarrow> k r = k q \<Longrightarrow> r = q"
  by (simp add: distinct_map inj_on_def)

lemma distinct_key_filter_le:
  "distinct (map k rows) \<Longrightarrow> length (filter (\<lambda>x. k x = v) rows) \<le> 1"
proof (cases "\<exists>r \<in> set rows. k r = v")
  case True
  moreover assume "distinct (map k rows)"
  ultimately show ?thesis using distinct_key_filter [of k rows] by auto
next
  case False
  then show ?thesis by (simp add: filter_False)
qed

section \<open>JavaScript idioms\<close>

text \<open>
  \<^verbatim>\<open>x ?? d\<close> (\<open>d\<close> when \<open>x\<close> is null or undefined) and \<^verbatim>\<open>x || d\<close> on strings (\<open>d\<close> also when \<open>x\<close>
  is the empty string).
\<close>

fun nullish :: "'a option \<Rightarrow> 'a \<Rightarrow> 'a" where
  "nullish (Some x) d = x"
| "nullish None d = d"

fun orNullish :: "'a option \<Rightarrow> 'a option \<Rightarrow> 'a option" where
  "orNullish (Some x) d = Some x"
| "orNullish None d = d"

fun orFalsy :: "string option \<Rightarrow> string \<Rightarrow> string" where
  "orFalsy None d = d"
| "orFalsy (Some x) d = (if x = [] then d else x)"

fun truthy :: "string option \<Rightarrow> bool" where
  "truthy None = False"
| "truthy (Some x) = (x \<noteq> [])"

text \<open>\<^verbatim>\<open>Math.max(lo, Math.min(hi, n))\<close>.\<close>

definition clampTo :: "int \<Rightarrow> int \<Rightarrow> int \<Rightarrow> int" where
  "clampTo lo hi n = max lo (min hi n)"

lemma clampTo_bounds: "lo \<le> hi \<Longrightarrow> lo \<le> clampTo lo hi n \<and> clampTo lo hi n \<le> hi"
  by (simp add: clampTo_def)

lemma clampTo_id: "lo \<le> n \<Longrightarrow> n \<le> hi \<Longrightarrow> clampTo lo hi n = n"
  by (simp add: clampTo_def)

end
