(* ===== verification/Civil_Time.thy ===== *)
theory Civil_Time
  imports TM_Prelude "HOL-Library.Monad_Syntax"
begin

text \<open>
  Timestamps. The tables keep them as text in three formats, written by three different clocks:
  \<^verbatim>\<open>Date.prototype.toISOString\<close> (\<^verbatim>\<open>2026-02-15T09:00:00.000Z\<close>), SQLite's \<^verbatim>\<open>datetime('now')\<close>
  (\<^verbatim>\<open>2026-02-15 09:00:00\<close>) and the provider's own strings, all-day events with the date only.
  The code reads them back with \<^verbatim>\<open>Date.parse\<close> or \<^verbatim>\<open>julianday\<close>, or compares the texts.

  This theory follows ECMA-262 for the calendar (\<^verbatim>\<open>DayFromYear\<close>, \<^verbatim>\<open>YearFromTime\<close>, the format of
  \<^verbatim>\<open>toISOString\<close> and the date-time string format \<^verbatim>\<open>Date.parse\<close> must accept). What ECMA-262 and
  SQLite leave to the implementation for other strings is the parameter \<open>legacy\<close> of the readers.
\<close>

section \<open>Decimal fields\<close>

definition digitChar :: "nat \<Rightarrow> char" where
  "digitChar d = char_of (48 + d)"

definition digitVal :: "char \<Rightarrow> nat option" where
  "digitVal c = (let n = of_char c in if 48 \<le> n \<and> n \<le> 57 then Some (n - 48) else None)"

fun fixedDigits :: "nat \<Rightarrow> nat \<Rightarrow> string" where
  "fixedDigits 0 n = []"
| "fixedDigits (Suc w) n = fixedDigits w (n div 10) @ [digitChar (n mod 10)]"

fun readDigitsAcc :: "nat \<Rightarrow> nat \<Rightarrow> string \<Rightarrow> (nat \<times> string) option" where
  "readDigitsAcc 0 acc s = Some (acc, s)"
| "readDigitsAcc (Suc w) acc [] = None"
| "readDigitsAcc (Suc w) acc (c # s) =
     (case digitVal c of None \<Rightarrow> None | Some d \<Rightarrow> readDigitsAcc w (10 * acc + d) s)"

definition readDigits :: "nat \<Rightarrow> string \<Rightarrow> (nat \<times> string) option" where
  "readDigits w s = readDigitsAcc w 0 s"

fun expect :: "char \<Rightarrow> string \<Rightarrow> string option" where
  "expect c [] = None"
| "expect c (x # s) = (if x = c then Some s else None)"

lemma of_char_digitChar: "d < 10 \<Longrightarrow> of_char (digitChar d) = 48 + d"
  by (simp add: digitChar_def of_char_of)

lemma digitVal_digitChar [simp]: "d < 10 \<Longrightarrow> digitVal (digitChar d) = Some d"
  by (simp add: digitVal_def of_char_digitChar)

lemma length_fixedDigits [simp]: "length (fixedDigits w n) = w"
  by (induction w arbitrary: n) auto

lemma readDigitsAcc_append:
  "readDigitsAcc (v + w) acc (s @ t) =
     (if length s = v
      then (case readDigitsAcc v acc s of None \<Rightarrow> None | Some (a, _) \<Rightarrow> readDigitsAcc w a t)
      else readDigitsAcc (v + w) acc (s @ t))"
  by (induction v acc s rule: readDigitsAcc.induct) (auto split: option.splits)

lemma readDigitsAcc_fixedDigits:
  "n < 10 ^ w \<Longrightarrow> readDigitsAcc w acc (fixedDigits w n @ s) = Some (acc * 10 ^ w + n, s)"
proof (induction w arbitrary: n acc s)
  case 0
  then show ?case by simp
next
  case (Suc w)
  have lt: "n div 10 < 10 ^ w" using Suc.prems by (simp add: less_mult_imp_div_less mult.commute)
  have "readDigitsAcc (Suc w) acc (fixedDigits (Suc w) n @ s)
      = readDigitsAcc (w + 1) acc (fixedDigits w (n div 10) @ (digitChar (n mod 10) # s))"
    by simp
  also have "\<dots> = (case readDigitsAcc w acc (fixedDigits w (n div 10)) of
      None \<Rightarrow> None | Some (a, _) \<Rightarrow> readDigitsAcc 1 a (digitChar (n mod 10) # s))"
    by (subst readDigitsAcc_append) simp
  also have "readDigitsAcc w acc (fixedDigits w (n div 10)) = Some (acc * 10 ^ w + n div 10, [])"
    using Suc.IH [OF lt, of acc "[]"] by simp
  finally show ?case by (simp add: algebra_simps)
qed

lemma readDigits_fixedDigits [simp]:
  "n < 10 ^ w \<Longrightarrow> readDigits w (fixedDigits w n @ s) = Some (n, s)"
  by (simp add: readDigits_def readDigitsAcc_fixedDigits)

section \<open>The proleptic Gregorian calendar\<close>

definition msPerDay :: int where
  "msPerDay = 86400000"

definition dayFromYear :: "int \<Rightarrow> int" where
  "dayFromYear y =
     365 * (y - 1970) + (y - 1969) div 4 - (y - 1901) div 100 + (y - 1601) div 400"

definition leapYear :: "int \<Rightarrow> bool" where
  "leapYear y \<longleftrightarrow> y mod 4 = 0 \<and> (y mod 100 \<noteq> 0 \<or> y mod 400 = 0)"

definition daysInYear :: "int \<Rightarrow> int" where
  "daysInYear y = (if leapYear y then 366 else 365)"

text \<open>The year of a day: \<^verbatim>\<open>YearFromTime\<close> asks for the largest year that does not start later.\<close>

definition yearFromDay :: "int \<Rightarrow> int" where
  "yearFromDay d =
     (let e = 1970 + (400 * d) div 146097
      in if dayFromYear (e + 1) \<le> d then e + 1
         else if d < dayFromYear e then e - 1 else e)"

text \<open>Days of the year before the first of month \<open>m\<close> (1 to 13).\<close>

definition daysBeforeMonth :: "bool \<Rightarrow> int \<Rightarrow> int" where
  "daysBeforeMonth leap m =
     (let l = (if leap then 1 else 0)
      in if m \<le> 1 then 0 else if m = 2 then 31 else if m = 3 then 59 + l
         else if m = 4 then 90 + l else if m = 5 then 120 + l else if m = 6 then 151 + l
         else if m = 7 then 181 + l else if m = 8 then 212 + l else if m = 9 then 243 + l
         else if m = 10 then 273 + l else if m = 11 then 304 + l else if m = 12 then 334 + l
         else 365 + l)"

definition daysInMonth :: "int \<Rightarrow> int \<Rightarrow> int" where
  "daysInMonth y m = daysBeforeMonth (leapYear y) (m + 1) - daysBeforeMonth (leapYear y) m"

definition monthFromYearDay :: "bool \<Rightarrow> int \<Rightarrow> int" where
  "monthFromYearDay leap n =
     (if n < daysBeforeMonth leap 2 then 1 else if n < daysBeforeMonth leap 3 then 2
      else if n < daysBeforeMonth leap 4 then 3 else if n < daysBeforeMonth leap 5 then 4
      else if n < daysBeforeMonth leap 6 then 5 else if n < daysBeforeMonth leap 7 then 6
      else if n < daysBeforeMonth leap 8 then 7 else if n < daysBeforeMonth leap 9 then 8
      else if n < daysBeforeMonth leap 10 then 9 else if n < daysBeforeMonth leap 11 then 10
      else if n < daysBeforeMonth leap 12 then 11 else 12)"

definition civilFromDay :: "int \<Rightarrow> int \<times> int \<times> int" where
  "civilFromDay d =
     (let y = yearFromDay d; n = d - dayFromYear y; m = monthFromYearDay (leapYear y) n
      in (y, m, n - daysBeforeMonth (leapYear y) m + 1))"

definition dayFromCivil :: "int \<Rightarrow> int \<Rightarrow> int \<Rightarrow> int" where
  "dayFromCivil y m d = dayFromYear y + daysBeforeMonth (leapYear y) m + d - 1"

lemma div_succ_int:
  fixes a n :: int
  assumes "0 < n"
  shows "(a + 1) div n = a div n + (if (a + 1) mod n = 0 then 1 else 0)"
proof -
  have r: "0 \<le> a mod n" "a mod n < n" using assms by simp_all
  have eq: "a + 1 = (a mod n + 1) + n * (a div n)" by simp
  show ?thesis
  proof (cases "a mod n + 1 = n")
    case True
    then have "a + 1 = n * (a div n + 1)" using eq by (simp add: distrib_left)
    then show ?thesis using assms by simp
  next
    case False
    then have lt: "a mod n + 1 < n" using r by simp
    have "((a mod n + 1) + n * (a div n)) div n = a div n + (a mod n + 1) div n"
      using assms by (intro div_mult_self2) simp
    moreover have "((a mod n + 1) + n * (a div n)) mod n = (a mod n + 1) mod n"
      by (rule mod_mult_self2)
    moreover have "(a mod n + 1) div n = 0" "(a mod n + 1) mod n = a mod n + 1"
      using r lt by (simp_all add: div_pos_pos_trivial mod_pos_pos_trivial)
    ultimately have "(a + 1) div n = a div n" "(a + 1) mod n = a mod n + 1"
      unfolding eq [symmetric] by simp_all
    then show ?thesis using r by simp
  qed
qed

lemma dayFromYear_Suc: "dayFromYear (y + 1) = dayFromYear y + daysInYear y"
proof -
  have s4: "(y + 1 - 1969) div 4 = (y - 1969) div 4 + (if (y - 1968) mod 4 = 0 then 1 else 0)"
    and s100: "(y + 1 - 1901) div 100 = (y - 1901) div 100 + (if (y - 1900) mod 100 = 0 then 1 else 0)"
    and s400: "(y + 1 - 1601) div 400 = (y - 1601) div 400 + (if (y - 1600) mod 400 = 0 then 1 else 0)"
  proof -
    have e: "y + 1 - 1969 = y - 1969 + 1" "y - 1969 + 1 = y - 1968"
      "y + 1 - 1901 = y - 1901 + 1" "y - 1901 + 1 = y - 1900"
      "y + 1 - 1601 = y - 1601 + 1" "y - 1601 + 1 = y - 1600" by simp_all
    show "(y + 1 - 1969) div 4 = (y - 1969) div 4 + (if (y - 1968) mod 4 = 0 then 1 else 0)"
      using div_succ_int [of 4 "y - 1969"] unfolding e by simp
    show "(y + 1 - 1901) div 100 = (y - 1901) div 100 + (if (y - 1900) mod 100 = 0 then 1 else 0)"
      using div_succ_int [of 100 "y - 1901"] unfolding e by simp
    show "(y + 1 - 1601) div 400 = (y - 1601) div 400 + (if (y - 1600) mod 400 = 0 then 1 else 0)"
      using div_succ_int [of 400 "y - 1601"] unfolding e by simp
  qed
  have m4: "(y - 1968) mod 4 = y mod 4"
    using mod_mult_self2 [of y 4 "- 492"] by simp
  have m100: "(y - 1900) mod 100 = y mod 100"
    using mod_mult_self2 [of y 100 "- 19"] by simp
  have m400: "(y - 1600) mod 400 = y mod 400"
    using mod_mult_self2 [of y 400 "- 4"] by simp
  have a: "y mod 400 = 0 \<Longrightarrow> y mod 100 = 0" and b: "y mod 100 = 0 \<Longrightarrow> y mod 4 = 0"
    by (auto simp: mod_eq_0_iff_dvd intro: dvd_trans [of _ 400] dvd_trans [of _ 100])
  have "365 * (y + 1 - 1970) = 365 * (y - 1970) + 365" by simp
  then show ?thesis
    unfolding dayFromYear_def daysInYear_def leapYear_def s4 s100 s400 m4 m100 m400
    using a b by (cases "y mod 4 = 0"; cases "y mod 100 = 0"; cases "y mod 400 = 0") simp_all
qed

lemma yearFromDay_spec:
  "dayFromYear (yearFromDay d) \<le> d \<and> d < dayFromYear (yearFromDay d + 1)"
proof -
  define e where "e = 1970 + (400 * d) div 146097"
  have e: "146097 * (e - 1970) \<le> 400 * d" "400 * d < 146097 * (e - 1970) + 146097"
  proof -
    have "146097 * ((400 * d) div 146097) + (400 * d) mod 146097 = 400 * d" by simp
    moreover have "0 \<le> (400 * d) mod 146097" "(400 * d) mod 146097 < 146097" by simp_all
    ultimately show "146097 * (e - 1970) \<le> 400 * d" and "400 * d < 146097 * (e - 1970) + 146097"
      unfolding e_def by simp_all
  qed
  have b1: "400 * dayFromYear y \<le> 146097 * (y - 1970) + 600"
    and b2: "146097 * (y - 1970) - 800 \<le> 400 * dayFromYear y" for y
  proof -
    have dm: "n * (x div n) \<le> x" "x < n * (x div n) + n" if "0 < n" for x n :: int
      using that mult_div_mod_eq [of n x] pos_mod_bound [of n x] pos_mod_sign [of n x]
      by linarith+
    note f = dm [of 4 "y - 1969"] dm [of 100 "y - 1901"] dm [of 400 "y - 1601"]
    show "400 * dayFromYear y \<le> 146097 * (y - 1970) + 600"
      using f unfolding dayFromYear_def by simp
    show "146097 * (y - 1970) - 800 \<le> 400 * dayFromYear y"
      using f unfolding dayFromYear_def by simp
  qed
  have lo: "dayFromYear (e - 1) \<le> d" using b1 [of "e - 1"] e by simp
  have hi: "d < dayFromYear (e + 2)" using b2 [of "e + 2"] e by simp
  show ?thesis
    unfolding yearFromDay_def Let_def e_def [symmetric] using lo hi by (auto simp: add.commute)
qed

lemma monthFromYearDay_spec:
  assumes "0 \<le> n" and "n < daysBeforeMonth leap 13"
  shows "1 \<le> monthFromYearDay leap n \<and> monthFromYearDay leap n \<le> 12 \<and>
         daysBeforeMonth leap (monthFromYearDay leap n) \<le> n \<and>
         n < daysBeforeMonth leap (monthFromYearDay leap n + 1)"
  using assms by (simp add: monthFromYearDay_def daysBeforeMonth_def)

lemma civilFromDay_spec:
  assumes "civilFromDay d = (y, m, k)"
  shows "y = yearFromDay d" and "1 \<le> m" and "m \<le> 12" and "1 \<le> k" and "k \<le> daysInMonth y m"
    and "dayFromCivil y m k = d"
proof -
  let ?n = "d - dayFromYear (yearFromDay d)" and ?l = "leapYear (yearFromDay d)"
  have n: "0 \<le> ?n" "?n < daysBeforeMonth ?l 13"
    using yearFromDay_spec [of d]
    by (auto simp: dayFromYear_Suc daysInYear_def daysBeforeMonth_def split: if_splits)
  have y: "y = yearFromDay d" and m: "m = monthFromYearDay ?l ?n"
    and k: "k = ?n - daysBeforeMonth ?l m + 1"
    using assms by (auto simp: civilFromDay_def Let_def)
  show "y = yearFromDay d" by (rule y)
  show "1 \<le> m" "m \<le> 12" "1 \<le> k" "k \<le> daysInMonth y m"
    using monthFromYearDay_spec [OF n] by (auto simp: y m k daysInMonth_def)
  show "dayFromCivil y m k = d"
    by (simp add: dayFromCivil_def y m k)
qed

lemma daysInMonth_le_31: "1 \<le> m \<Longrightarrow> m \<le> 12 \<Longrightarrow> daysInMonth y m \<le> 31"
  by (simp add: daysInMonth_def daysBeforeMonth_def)

lemma dayFromYear_mono: "x \<le> y \<Longrightarrow> dayFromYear x \<le> dayFromYear y"
proof (induction y rule: int_ge_induct)
  case base
  then show ?case by simp
next
  case (step i)
  then show ?case by (simp add: dayFromYear_Suc daysInYear_def)
qed

lemma yearFromDay_mono: "c \<le> d \<Longrightarrow> yearFromDay c \<le> yearFromDay d"
proof (rule ccontr)
  assume cd: "c \<le> d" and "\<not> yearFromDay c \<le> yearFromDay d"
  then have "dayFromYear (yearFromDay d + 1) \<le> dayFromYear (yearFromDay c)"
    by (intro dayFromYear_mono) simp
  with cd yearFromDay_spec [of c] yearFromDay_spec [of d] show False by simp
qed

lemma monthFromYearDay_mono: "n \<le> k \<Longrightarrow> monthFromYearDay l n \<le> monthFromYearDay l k"
  by (auto simp: monthFromYearDay_def daysBeforeMonth_def)

lemma yearFromDay_bound:
  assumes "- 100000000 \<le> d" and "d \<le> 100000000"
  shows "- 300000 < yearFromDay d" and "yearFromDay d < 300000"
proof -
  have "yearFromDay (- 100000000) \<le> yearFromDay d" "yearFromDay d \<le> yearFromDay 100000000"
    using assms by (auto intro: yearFromDay_mono)
  moreover have "yearFromDay (- 100000000) = - 271821" "yearFromDay 100000000 = 275760"
    by (simp_all add: yearFromDay_def dayFromYear_def)
  ultimately show "- 300000 < yearFromDay d" "yearFromDay d < 300000" by simp_all
qed

section \<open>Writing timestamps\<close>

definition isoYear :: "int \<Rightarrow> string" where
  "isoYear y =
     (if 0 \<le> y \<and> y \<le> 9999 then fixedDigits 4 (nat y)
      else if y < 0 then CHR ''-'' # fixedDigits 6 (nat (- y))
      else CHR ''+'' # fixedDigits 6 (nat y))"

definition isoDate :: "int \<Rightarrow> string" where
  "isoDate d =
     (case civilFromDay d of (y, m, k) \<Rightarrow>
        isoYear y @ CHR ''-'' # fixedDigits 2 (nat m) @ CHR ''-'' # fixedDigits 2 (nat k))"

text \<open>\<^verbatim>\<open>HH:mm:ss\<close> of the milliseconds since midnight.\<close>

definition isoClock :: "int \<Rightarrow> string" where
  "isoClock t =
     fixedDigits 2 (nat (t div 3600000)) @ CHR '':'' #
     fixedDigits 2 (nat (t div 60000 mod 60)) @ CHR '':'' #
     fixedDigits 2 (nat (t div 1000 mod 60))"

text \<open>\<^verbatim>\<open>new Date(ms).toISOString()\<close>, and SQLite's \<^verbatim>\<open>datetime('now')\<close> at that instant.\<close>

definition toISOString :: "int \<Rightarrow> string" where
  "toISOString ms =
     isoDate (ms div msPerDay) @ CHR ''T'' # isoClock (ms mod msPerDay) @ CHR ''.'' #
     fixedDigits 3 (nat (ms mod msPerDay mod 1000)) @ ''Z''"

definition sqlDatetime :: "int \<Rightarrow> string" where
  "sqlDatetime ms = isoDate (ms div msPerDay) @ CHR '' '' # isoClock (ms mod msPerDay)"

section \<open>Reading timestamps\<close>

definition readYear :: "string \<Rightarrow> (int \<times> string) option" where
  "readYear s =
     (case s of
        [] \<Rightarrow> None
      | c # r \<Rightarrow>
          if c = CHR ''+'' then map_option (\<lambda>(n, t). (int n, t)) (readDigits 6 r)
          else if c = CHR ''-'' then
            (case readDigits 6 r of
               None \<Rightarrow> None
             | Some (n, t) \<Rightarrow> if n = 0 then None else Some (- int n, t))
          else map_option (\<lambda>(n, t). (int n, t)) (readDigits 4 s))"

definition readDate :: "string \<Rightarrow> (int \<times> string) option" where
  "readDate s = do {
     (y, s) \<leftarrow> readYear s;
     s \<leftarrow> expect CHR ''-'' s;
     (m, s) \<leftarrow> readDigits 2 s;
     s \<leftarrow> expect CHR ''-'' s;
     (k, s) \<leftarrow> readDigits 2 s;
     if 1 \<le> m \<and> m \<le> 12 \<and> 1 \<le> k \<and> int k \<le> daysInMonth y (int m)
     then Some (dayFromCivil y (int m) (int k), s) else None }"

definition readMillis :: "string \<Rightarrow> (nat \<times> string) option" where
  "readMillis s =
     (case s of c # r \<Rightarrow> if c = CHR ''.'' then readDigits 3 r else Some (0, s) | [] \<Rightarrow> Some (0, []))"

text \<open>The optional \<^verbatim>\<open>:ss\<close> or \<^verbatim>\<open>:ss.sss\<close>: milliseconds past the minute.\<close>

definition readSeconds :: "string \<Rightarrow> (nat \<times> string) option" where
  "readSeconds s =
     (case s of
        [] \<Rightarrow> Some (0, [])
      | c # r \<Rightarrow>
          if c = CHR '':'' then do {
            (sec, r) \<leftarrow> readDigits 2 r;
            (ms, r) \<leftarrow> readMillis r;
            if sec < 60 then Some (1000 * sec + ms, r) else None }
          else Some (0, s))"

definition readClock :: "string \<Rightarrow> (int \<times> string) option" where
  "readClock s = do {
     (h, s) \<leftarrow> readDigits 2 s;
     s \<leftarrow> expect CHR '':'' s;
     (mi, s) \<leftarrow> readDigits 2 s;
     (x, s) \<leftarrow> readSeconds s;
     if mi < 60 \<and> (h < 24 \<or> h = 24 \<and> mi = 0 \<and> x = 0)
     then Some (int (3600000 * h + 60000 * mi + x), s) else None }"

text \<open>The offset in minutes; a time without one is local time, which is UTC in a Worker.\<close>

definition readZone :: "string \<Rightarrow> int option" where
  "readZone s =
     (case s of
        [] \<Rightarrow> Some 0
      | c # r \<Rightarrow>
          if c = CHR ''Z'' then (if r = [] then Some 0 else None)
          else if c = CHR ''+'' \<or> c = CHR ''-'' then do {
            (h, r) \<leftarrow> readDigits 2 r;
            r \<leftarrow> expect CHR '':'' r;
            (mi, r) \<leftarrow> readDigits 2 r;
            if r = [] \<and> h < 24 \<and> mi < 60
            then Some ((if c = CHR ''-'' then - 1 else 1) * int (60 * h + mi)) else None }
          else None)"

definition readTimestamp :: "string \<Rightarrow> string \<Rightarrow> int option" where
  "readTimestamp seps s = do {
     (d, s) \<leftarrow> readDate s;
     (case s of
        [] \<Rightarrow> Some (d * msPerDay)
      | c # r \<Rightarrow>
          if c \<in> set seps then do {
            (t, r) \<leftarrow> readClock r;
            off \<leftarrow> readZone r;
            Some (d * msPerDay + t - off * 60000) }
          else None) }"

text \<open>
  \<^verbatim>\<open>Date.parse\<close>: \<open>None\<close> is \<^verbatim>\<open>NaN\<close>. \<open>legacy\<close> is what the engine does with a string that is not in
  the ECMA-262 format.
\<close>

definition maxDateMs :: int where
  "maxDateMs = 8640000000000000"

definition dateParse :: "(string \<Rightarrow> int option) \<Rightarrow> string \<Rightarrow> int option" where
  "dateParse legacy s =
     (case readTimestamp ''T'' s of
        None \<Rightarrow> legacy s
      | Some ms \<Rightarrow> if \<bar>ms\<bar> \<le> maxDateMs then Some ms else None)"

text \<open>
  \<^verbatim>\<open>julianday(s)\<close>, as the millisecond SQLite computes it from: \<open>None\<close> is \<^verbatim>\<open>NULL\<close>, and a
  comparison with it is not true. \<open>legacy\<close> is SQLite's reading of any other time value.
\<close>

definition julianMs :: "(string \<Rightarrow> int option) \<Rightarrow> string \<Rightarrow> int option" where
  "julianMs legacy s =
     (if s \<noteq> [] \<and> digitVal (hd s) \<noteq> None
      then (case readTimestamp ''T '' s of None \<Rightarrow> legacy s | Some ms \<Rightarrow> Some ms)
      else legacy s)"

end
