(* ===== verification/Timestamp_Laws.thy ===== *)
theory Timestamp_Laws
  imports Civil_Time
begin

text \<open>
  What the timestamp formats guarantee: reading back what \<^verbatim>\<open>toISOString\<close> or \<^verbatim>\<open>datetime\<close> wrote
  gives the same instant, and within one format the order of the texts is the order of the
  instants. Across formats it is not, because a space sorts before the letter T.
\<close>

section \<open>Reading back what was written\<close>

lemma expect_Cons [simp]: "expect c (c # s) = Some s"
  by simp

lemma digitVal_sign [simp]: "digitVal CHR ''+'' = None" "digitVal CHR ''-'' = None"
  by (simp_all add: digitVal_def)

lemma fixedDigits_Cons:
  "0 < w \<Longrightarrow> \<exists>c s. fixedDigits w n = c # s \<and> digitVal c \<noteq> None"
proof (induction w arbitrary: n)
  case 0
  then show ?case by simp
next
  case (Suc w)
  then show ?case
  proof (cases "w = 0")
    case True
    then show ?thesis by simp
  next
    case False
    with Suc.IH [of "n div 10"] show ?thesis by auto
  qed
qed

lemma readYear_isoYear:
  assumes "- 1000000 < y" and "y < 1000000"
  shows "readYear (isoYear y @ s) = Some (y, s)"
proof -
  consider (pos) "0 \<le> y" "y \<le> 9999" | (neg) "y < 0" | (big) "9999 < y" by linarith
  then show ?thesis
  proof cases
    case pos
    obtain c t where ct: "fixedDigits 4 (nat y) = c # t" "digitVal c \<noteq> None"
      using fixedDigits_Cons [of 4 "nat y"] by auto
    have "c \<noteq> CHR ''+''" "c \<noteq> CHR ''-''" using ct(2) by auto
    moreover have "readDigits 4 ((c # t) @ s) = Some (nat y, s)"
      using pos readDigits_fixedDigits [of "nat y" 4 s] unfolding ct(1) by simp
    ultimately show ?thesis using pos ct(1) by (simp add: readYear_def isoYear_def)
  next
    case neg
    then show ?thesis using assms by (auto simp: readYear_def isoYear_def)
  next
    case big
    then show ?thesis using assms by (auto simp: readYear_def isoYear_def)
  qed
qed

lemma readDate_isoDate:
  assumes "- 100000000 \<le> d" and "d \<le> 100000000"
  shows "readDate (isoDate d @ s) = Some (d, s)"
proof -
  obtain y m k where c: "civilFromDay d = (y, m, k)" by (cases "civilFromDay d") auto
  note sp = civilFromDay_spec [OF c]
  have y: "- 1000000 < y" "y < 1000000" using yearFromDay_bound [OF assms] sp(1) by simp_all
  have k: "k \<le> 31" using sp daysInMonth_le_31 [of m y] by simp
  have n: "nat m \<le> 12" "Suc 0 \<le> nat m" "Suc 0 \<le> nat k" "nat k < 100" "nat m < 100"
    using sp(2-6) k by linarith+
  show ?thesis
    using sp(2-6) n by (simp add: readDate_def isoDate_def c readYear_isoYear [OF y])
qed

lemma isoClock_bounds:
  assumes "0 \<le> t" and "t < msPerDay"
  shows "nat (t div 3600000) < 24" and "nat (t div 60000 mod 60) < 60"
    and "nat (t div 1000 mod 60) < 60" and "nat (t mod 1000) < 1000"
    and "3600000 * (t div 3600000) + 60000 * (t div 60000 mod 60) + 1000 * (t div 1000 mod 60)
         + t mod 1000 = t"
proof -
  have h: "t div 3600000 < 24" using assms by (simp add: msPerDay_def)
  then show "nat (t div 3600000) < 24" by simp
  show "nat (t div 60000 mod 60) < 60" "nat (t div 1000 mod 60) < 60" "nat (t mod 1000) < 1000"
    by (simp_all add: nat_less_iff assms pos_imp_zdiv_nonneg_iff)
  have a: "t div 60000 = 60 * (t div 3600000) + t div 60000 mod 60"
    using mult_div_mod_eq [of 60 "t div 60000"] by (simp add: zdiv_zmult2_eq [symmetric])
  have b: "t div 1000 = 60 * (t div 60000) + t div 1000 mod 60"
    using mult_div_mod_eq [of 60 "t div 1000"] by (simp add: zdiv_zmult2_eq [symmetric])
  show "3600000 * (t div 3600000) + 60000 * (t div 60000 mod 60) + 1000 * (t div 1000 mod 60)
         + t mod 1000 = t"
    using a b mult_div_mod_eq [of 1000 t] by linarith
qed

lemma readClock_fields:
  assumes "h < 24" and "mi < 60" and "sec < 60" and "x < 1000"
  shows "readClock (fixedDigits 2 h @ CHR '':'' # fixedDigits 2 mi @ CHR '':'' #
           fixedDigits 2 sec @ CHR ''.'' # fixedDigits 3 x @ s)
         = Some (int (3600000 * h + 60000 * mi + (1000 * sec + x)), s)"
    and "c \<noteq> CHR ''.'' \<Longrightarrow> readClock (fixedDigits 2 h @ CHR '':'' # fixedDigits 2 mi @ CHR '':'' #
           fixedDigits 2 sec @ c # s)
         = Some (int (3600000 * h + 60000 * mi + 1000 * sec), c # s)"
    and "readClock (fixedDigits 2 h @ CHR '':'' # fixedDigits 2 mi @ CHR '':'' # fixedDigits 2 sec)
         = Some (int (3600000 * h + 60000 * mi + 1000 * sec), [])"
proof -
  have last: "readDigits 2 (fixedDigits 2 n) = Some (n, [])" if "n < 100" for n
    using readDigits_fixedDigits [of n 2 "[]"] that by simp
  have h: "h < 10\<^sup>2" "mi < 10\<^sup>2" "sec < 10\<^sup>2" "x < 10 ^ 3" using assms by simp_all
  note rd = h [THEN readDigits_fixedDigits]
  show "readClock (fixedDigits 2 h @ CHR '':'' # fixedDigits 2 mi @ CHR '':'' #
           fixedDigits 2 sec @ CHR ''.'' # fixedDigits 3 x @ s)
         = Some (int (3600000 * h + 60000 * mi + (1000 * sec + x)), s)"
    using assms by (simp add: readClock_def rd readSeconds_def readMillis_def)
  show "c \<noteq> CHR ''.'' \<Longrightarrow> readClock (fixedDigits 2 h @ CHR '':'' # fixedDigits 2 mi @ CHR '':'' #
           fixedDigits 2 sec @ c # s)
         = Some (int (3600000 * h + 60000 * mi + 1000 * sec), c # s)"
    using assms by (simp add: readClock_def rd readSeconds_def readMillis_def)
  show "readClock (fixedDigits 2 h @ CHR '':'' # fixedDigits 2 mi @ CHR '':'' # fixedDigits 2 sec)
         = Some (int (3600000 * h + 60000 * mi + 1000 * sec), [])"
    using assms last [of sec] by (simp add: readClock_def rd readSeconds_def readMillis_def)
qed

lemma readClock_isoClock:
  assumes t: "0 \<le> t" "t < msPerDay"
  shows "readClock (isoClock t @ CHR ''.'' # fixedDigits 3 (nat (t mod 1000)) @ s) = Some (t, s)"
    and "c \<noteq> CHR ''.'' \<Longrightarrow> readClock (isoClock t @ c # s) = Some (t - t mod 1000, c # s)"
    and "readClock (isoClock t) = Some (t - t mod 1000, [])"
proof -
  let ?h = "nat (t div 3600000)" and ?mi = "nat (t div 60000 mod 60)"
  let ?sec = "nat (t div 1000 mod 60)" and ?x = "nat (t mod 1000)"
  note b = isoClock_bounds [OF t]
  note rc = readClock_fields [OF b(1,2,3,4)]
  have nn: "0 \<le> t div 3600000" "0 \<le> t div 60000 mod 60" "0 \<le> t div 1000 mod 60" "0 \<le> t mod 1000"
    using t by (simp_all add: pos_imp_zdiv_nonneg_iff)
  have i: "int ?h = t div 3600000" "int ?mi = t div 60000 mod 60" "int ?sec = t div 1000 mod 60"
    "int ?x = t mod 1000" using nn by (simp_all only: nat_0_le)
  have full: "int (3600000 * ?h + 60000 * ?mi + (1000 * ?sec + ?x)) = t"
    unfolding of_nat_add of_nat_mult of_nat_numeral i using b(5) by linarith
  have trunc: "int (3600000 * ?h + 60000 * ?mi + 1000 * ?sec) = t - t mod 1000"
    unfolding of_nat_add of_nat_mult of_nat_numeral i using b(5) by linarith
  show "readClock (isoClock t @ CHR ''.'' # fixedDigits 3 ?x @ s) = Some (t, s)"
    using rc(1) [of s] unfolding isoClock_def full by (simp only: append_assoc append_Cons)
  show "c \<noteq> CHR ''.'' \<Longrightarrow> readClock (isoClock t @ c # s) = Some (t - t mod 1000, c # s)"
    using rc(2) [of c s] unfolding isoClock_def trunc by (simp only: append_assoc append_Cons simp_thms)
  show "readClock (isoClock t) = Some (t - t mod 1000, [])"
    using rc(3) unfolding isoClock_def trunc .
qed

lemma msPerDay_split: "0 \<le> ms mod msPerDay" "ms mod msPerDay < msPerDay"
  "ms div msPerDay * msPerDay + ms mod msPerDay = ms"
  by (simp_all add: msPerDay_def)

lemma day_bound:
  assumes "\<bar>ms\<bar> \<le> maxDateMs"
  shows "- 100000000 \<le> ms div msPerDay" and "ms div msPerDay \<le> 100000000"
  using assms msPerDay_split [of ms] unfolding maxDateMs_def msPerDay_def by linarith+

lemma readTimestamp_toISOString:
  assumes "\<bar>ms\<bar> \<le> maxDateMs" and "CHR ''T'' \<in> set seps"
  shows "readTimestamp seps (toISOString ms) = Some ms"
proof -
  have "ms mod msPerDay mod 1000 = (ms mod msPerDay) mod 1000" by simp
  then show ?thesis
    using assms(2) msPerDay_split [of ms]
    by (simp add: readTimestamp_def toISOString_def readDate_isoDate [OF day_bound [OF assms(1)]]
        readClock_isoClock(1) readZone_def)
qed

lemma readTimestamp_sqlDatetime:
  assumes "\<bar>ms\<bar> \<le> maxDateMs" and "CHR '' '' \<in> set seps"
  shows "readTimestamp seps (sqlDatetime ms) = Some (ms - ms mod 1000)"
proof -
  have "ms mod msPerDay mod 1000 = ms mod 1000"
    by (simp add: msPerDay_def mod_mod_cancel)
  then show ?thesis
    using assms(2) msPerDay_split [of ms]
    by (simp add: readTimestamp_def sqlDatetime_def readDate_isoDate [OF day_bound [OF assms(1)]]
        readClock_isoClock(3) readZone_def)
qed

lemma dateParse_toISOString:
  "\<bar>ms\<bar> \<le> maxDateMs \<Longrightarrow> dateParse legacy (toISOString ms) = Some ms"
  by (simp add: dateParse_def readTimestamp_toISOString)

section \<open>The order of the texts is the order of the instants\<close>

lemma lex_append:
  fixes a b c d :: "'a::linorder list"
  assumes "length a = length b"
  shows "a @ c < b @ d \<longleftrightarrow> a < b \<or> a = b \<and> c < d"
  using assms by (induction a b rule: list_induct2) auto

lemma digitChar_less: "a < 10 \<Longrightarrow> b < 10 \<Longrightarrow> digitChar a < digitChar b \<longleftrightarrow> a < b"
  by (simp add: less_char_def of_char_digitChar)

lemma fixedDigits_inject:
  assumes "a < 10 ^ w" and "b < 10 ^ w" and "fixedDigits w a = fixedDigits w b"
  shows "a = b"
  using readDigits_fixedDigits [OF assms(1), of "[]"] readDigits_fixedDigits [OF assms(2), of "[]"]
    assms(3) by simp

lemma fixedDigits_less:
  "a < 10 ^ w \<Longrightarrow> b < 10 ^ w \<Longrightarrow> fixedDigits w a < fixedDigits w b \<longleftrightarrow> a < b"
proof (induction w arbitrary: a b)
  case 0
  then show ?case by simp
next
  case (Suc w)
  have lt: "a div 10 < 10 ^ w" "b div 10 < 10 ^ w"
    using Suc.prems by (simp_all add: less_mult_imp_div_less mult.commute)
  have eq: "fixedDigits w (a div 10) = fixedDigits w (b div 10) \<longleftrightarrow> a div 10 = b div 10"
    using fixedDigits_inject [OF lt] by auto
  have "fixedDigits (Suc w) a < fixedDigits (Suc w) b \<longleftrightarrow>
      a div 10 < b div 10 \<or> a div 10 = b div 10 \<and> a mod 10 < b mod 10"
    by (simp add: lex_append Suc.IH [OF lt] eq digitChar_less)
  also have "\<dots> \<longleftrightarrow> a < b"
  proof -
    have "a = 10 * (a div 10) + a mod 10" "b = 10 * (b div 10) + b mod 10"
      "a mod 10 < 10" "b mod 10 < 10" by simp_all
    then show ?thesis by linarith
  qed
  finally show ?case .
qed

definition plainYear :: "int \<Rightarrow> bool" where
  "plainYear ms \<longleftrightarrow> 0 \<le> yearFromDay (ms div msPerDay) \<and> yearFromDay (ms div msPerDay) \<le> 9999"

lemma length_isoDate_plain:
  assumes "0 \<le> yearFromDay d" and "yearFromDay d \<le> 9999"
  shows "length (isoDate d) = 10"
proof -
  obtain y m k where c: "civilFromDay d = (y, m, k)" by (cases "civilFromDay d") auto
  have "0 \<le> y" "y \<le> 9999" using assms unfolding civilFromDay_spec(1) [OF c] by simp_all
  then show ?thesis by (simp add: isoDate_def isoYear_def c)
qed

lemma isoDate_less:
  assumes p: "0 \<le> yearFromDay c" "yearFromDay c \<le> 9999" "0 \<le> yearFromDay d" "yearFromDay d \<le> 9999"
    and lt: "c < d"
  shows "isoDate c < isoDate d"
proof -
  obtain y m k where C: "civilFromDay c = (y, m, k)" by (cases "civilFromDay c") auto
  obtain z n l where D: "civilFromDay d = (z, n, l)" by (cases "civilFromDay d") auto
  note c = civilFromDay_spec [OF C] and d = civilFromDay_spec [OF D]
  have b: "nat y < 10 ^ 4" "nat z < 10 ^ 4" "nat m < 10 ^ 2" "nat n < 10 ^ 2"
    "nat k < 10 ^ 2" "nat l < 10 ^ 2"
    using c(1-5) d(1-5) p daysInMonth_le_31 [of m y] daysInMonth_le_31 [of n z] by simp_all
  have yz: "y \<le> z" using yearFromDay_mono [of c d] lt c(1) d(1) by simp
  have mn: "m \<le> n" if "y = z"
    using C D that lt c(1) d(1) monthFromYearDay_mono [of "c - dayFromYear y" "d - dayFromYear y"]
    by (auto simp: civilFromDay_def Let_def)
  have kl: "k < l" if "y = z" "m = n"
    using that lt c(6) d(6) by (simp add: dayFromCivil_def)
  have le: "nat y < nat z \<or> nat y = nat z \<and> (nat m < nat n \<or> nat m = nat n \<and> nat k < nat l)"
    using yz mn kl c d p by (cases "y = z"; cases "m = n") auto
  have Y: "isoYear y = fixedDigits 4 (nat y)" "isoYear z = fixedDigits 4 (nat z)"
    using p c(1) d(1) by (simp_all add: isoYear_def)
  show ?thesis
    unfolding isoDate_def C D prod.case Y
    using le by (auto simp: lex_append fixedDigits_less [OF b(1,2)] fixedDigits_less [OF b(3,4)]
        fixedDigits_less [OF b(5,6)])
qed

lemma isoClock_less:
  assumes s: "0 \<le> s" "s < msPerDay" and t: "0 \<le> t" "t < msPerDay" and lt: "s < t"
  shows "isoClock s < isoClock t \<or> isoClock s = isoClock t \<and> s mod 1000 < t mod 1000"
proof -
  note a = isoClock_bounds [OF s] and b = isoClock_bounds [OF t]
  have nn: "0 \<le> s div 3600000" "0 \<le> s div 60000 mod 60" "0 \<le> s div 1000 mod 60"
    "0 \<le> t div 3600000" "0 \<le> t div 60000 mod 60" "0 \<le> t div 1000 mod 60"
    using s t by (simp_all add: pos_imp_zdiv_nonneg_iff)
  define h mi se h' mi' se' where "h = nat (s div 3600000)" and "mi = nat (s div 60000 mod 60)"
    and "se = nat (s div 1000 mod 60)" and "h' = nat (t div 3600000)"
    and "mi' = nat (t div 60000 mod 60)" and "se' = nat (t div 1000 mod 60)"
  have i: "int h = s div 3600000" "int mi = s div 60000 mod 60" "int se = s div 1000 mod 60"
    "int h' = t div 3600000" "int mi' = t div 60000 mod 60" "int se' = t div 1000 mod 60"
    unfolding h_def mi_def se_def h'_def mi'_def se'_def using nn by (simp_all only: nat_0_le)
  have S: "3600000 * int h + 60000 * int mi + 1000 * int se + s mod 1000 = s"
    unfolding i by (rule a(5))
  have T: "3600000 * int h' + 60000 * int mi' + 1000 * int se' + t mod 1000 = t"
    unfolding i by (rule b(5))
  have r: "0 \<le> s mod 1000" "s mod 1000 < 1000" "0 \<le> t mod 1000" "t mod 1000 < 1000" by simp_all
  have bd: "h < 24" "mi < 60" "se < 60" "h' < 24" "mi' < 60" "se' < 60"
    using a(1-3) b(1-3) by (simp_all only: h_def mi_def se_def h'_def mi'_def se'_def)
  have h: "h \<le> h'" using S T lt r bd by linarith
  have mi: "mi \<le> mi'" if "h = h'" using S T lt r bd that by linarith
  have se: "se \<le> se'" if "h = h'" "mi = mi'" using S T lt r bd that by linarith
  have ms: "s mod 1000 < t mod 1000" if "h = h'" "mi = mi'" "se = se'"
    using S T lt that by linarith
  have p: "h < 10\<^sup>2" "mi < 10\<^sup>2" "se < 10\<^sup>2" "h' < 10\<^sup>2" "mi' < 10\<^sup>2" "se' < 10\<^sup>2"
    using bd by simp_all
  show ?thesis
    unfolding isoClock_def h_def [symmetric] mi_def [symmetric] se_def [symmetric]
      h'_def [symmetric] mi'_def [symmetric] se'_def [symmetric]
    using h mi se ms
    by (auto simp: lex_append fixedDigits_less [OF p(1,4)] fixedDigits_less [OF p(2,5)]
        fixedDigits_less [OF p(3,6)])
qed

lemma toISOString_less:
  assumes "plainYear a" and "plainYear b" and "a < b"
  shows "toISOString a < toISOString b"
proof -
  let ?c = "a div msPerDay" and ?d = "b div msPerDay"
  have y: "0 \<le> yearFromDay ?c" "yearFromDay ?c \<le> 9999" "0 \<le> yearFromDay ?d" "yearFromDay ?d \<le> 9999"
    using assms by (simp_all add: plainYear_def)
  have len: "length (isoDate ?c) = length (isoDate ?d)"
    using y by (simp add: length_isoDate_plain)
  have cd: "?c \<le> ?d" using assms(3) by (simp add: msPerDay_def zdiv_mono1)
  show ?thesis
  proof (cases "?c = ?d")
    case False
    with cd have "isoDate ?c < isoDate ?d" by (intro isoDate_less y) simp
    then show ?thesis by (simp add: toISOString_def lex_append [OF len])
  next
    case True
    let ?s = "a mod msPerDay" and ?t = "b mod msPerDay"
    have st: "?s < ?t"
      using assms(3) True msPerDay_split(3) [of a] msPerDay_split(3) [of b]
      by (metis add_less_cancel_left)
    note cl = isoClock_less [OF msPerDay_split(1,2) msPerDay_split(1,2) st]
    have ms: "nat (?s mod 1000) < 10 ^ 3" "nat (?t mod 1000) < 10 ^ 3"
      by (simp_all add: nat_less_iff)
    have lc: "length (isoClock ?s) = length (isoClock ?t)" by (simp add: isoClock_def)
    have nt: "nat (?s mod 1000) < nat (?t mod 1000)" if "?s mod 1000 < ?t mod 1000"
      using that by (simp add: nat_less_eq_zless)
    show ?thesis
      using cl nt True
      by (auto simp: toISOString_def lex_append [OF len] lex_append [OF lc] lex_append
          fixedDigits_less [OF ms])
  qed
qed

lemma toISOString_le_iff:
  assumes "plainYear a" and "plainYear b"
  shows "toISOString a \<le> toISOString b \<longleftrightarrow> a \<le> b"
  using toISOString_less [OF assms] toISOString_less [OF assms(2) assms(1)]
  by (metis linorder_cases order_less_imp_le leD order_refl)

text \<open>
  The two formats at instants of one day: the text written by \<^verbatim>\<open>toISOString\<close> is never below the one
  written by \<^verbatim>\<open>datetime\<close>, however much earlier its instant.
\<close>

lemma iso_above_sql_same_day:
  assumes "plainYear a" and "a div msPerDay = b div msPerDay"
  shows "sqlDatetime b < toISOString a"
  using assms by (simp add: sqlDatetime_def toISOString_def lex_append plainYear_def less_char_def)

lemma iso_below_sql_later_day:
  assumes "plainYear a" and "plainYear b" and "a div msPerDay < b div msPerDay"
  shows "toISOString a < sqlDatetime b"
proof -
  have "isoDate (a div msPerDay) < isoDate (b div msPerDay)"
    using assms by (intro isoDate_less) (simp_all add: plainYear_def)
  then show ?thesis
    using assms by (simp add: sqlDatetime_def toISOString_def plainYear_def lex_append
        length_isoDate_plain)
qed

lemma julianMs_toISOString:
  assumes "\<bar>t\<bar> \<le> maxDateMs" and "plainYear t"
  shows "julianMs sql (toISOString t) = Some t"
proof -
  obtain y m d where c: "civilFromDay (t div msPerDay) = (y, m, d)" by (metis prod.exhaust)
  obtain x s where "fixedDigits 4 (nat y) = x # s" and x: "digitVal x \<noteq> None" using fixedDigits_Cons [of 4 "nat y"] by auto
  then have "isoYear y = x # s" using assms(2) c by (simp add: isoYear_def plainYear_def civilFromDay_def Let_def split: prod.splits)
  then have "hd (toISOString t) = x" "toISOString t \<noteq> []" by (simp_all add: toISOString_def isoDate_def c)
  with x show ?thesis using assms(1) by (simp add: julianMs_def readTimestamp_toISOString)
qed

end
