(* ===== verification/Json_Text.thy ===== *)
theory Json_Text
  imports Civil_Time
begin

text \<open>
  \<^verbatim>\<open>JSON.stringify\<close>, which the code uses for journal patches and, with the keys sorted, as the
  text it hashes. The point of this theory is that the text determines the value: two values with
  the same text are equal, so a hash of the text is a hash of the value. A JavaScript string is
  kept as its UTF-8 bytes; numbers are the integers the code puts into these objects.
\<close>

section \<open>Values and their text\<close>

datatype json =
    JNull
  | JBool bool
  | JNum int
  | JStr string
  | JArr "json list"
  | JObj "(string \<times> json) list"

definition hexChar :: "nat \<Rightarrow> char" where
  "hexChar n = (if n < 10 then char_of (48 + n) else char_of (87 + n))"

text \<open>The escapes of \<^verbatim>\<open>QuoteJSONString\<close>: 0x22 is the quote, 0x5C the backslash.\<close>

definition escapeChar :: "char \<Rightarrow> string" where
  "escapeChar c =
     (if c = CHR 0x22 then [CHR 0x5C, CHR 0x22]
      else if c = CHR 0x5C then [CHR 0x5C, CHR 0x5C]
      else if c = CHR 0x08 then [CHR 0x5C, CHR ''b'']
      else if c = CHR 0x09 then [CHR 0x5C, CHR ''t'']
      else if c = CHR 0x0A then [CHR 0x5C, CHR ''n'']
      else if c = CHR 0x0C then [CHR 0x5C, CHR ''f'']
      else if c = CHR 0x0D then [CHR 0x5C, CHR ''r'']
      else if (of_char c :: nat) < 32
           then [CHR 0x5C, CHR ''u'', CHR ''0'', CHR ''0'',
                 hexChar (of_char c div 16), hexChar (of_char c mod 16)]
      else [c])"

definition quoteString :: "string \<Rightarrow> string" where
  "quoteString s = CHR 0x22 # concat (map escapeChar s) @ [CHR 0x22]"

fun showNat :: "nat \<Rightarrow> string" where
  "showNat n = (if n < 10 then [digitChar n] else showNat (n div 10) @ [digitChar (n mod 10)])"

declare showNat.simps [simp del]

definition showInt :: "int \<Rightarrow> string" where
  "showInt n = (if n < 0 then CHR ''-'' # showNat (nat (- n)) else showNat (nat n))"

fun joinComma :: "string list \<Rightarrow> string" where
  "joinComma [] = []"
| "joinComma [x] = x"
| "joinComma (x # y # zs) = x @ CHR '','' # joinComma (y # zs)"

fun stringify :: "json \<Rightarrow> string" where
  "stringify JNull = ''null''"
| "stringify (JBool b) = (if b then ''true'' else ''false'')"
| "stringify (JNum n) = showInt n"
| "stringify (JStr s) = quoteString s"
| "stringify (JArr xs) = CHR ''['' # joinComma (map stringify xs) @ '']''"
| "stringify (JObj ms) =
     CHR ''{'' # joinComma (map (\<lambda>(k, v). quoteString k @ CHR '':'' # stringify v) ms) @ ''}''"

text \<open>The replacer of \<^verbatim>\<open>deterministicSerialize\<close>: every object with its keys in order.\<close>

fun sortKeys :: "json \<Rightarrow> json" where
  "sortKeys (JObj ms) = JObj (sort_key fst (map (\<lambda>(k, v). (k, sortKeys v)) ms))"
| "sortKeys (JArr xs) = JArr (map sortKeys xs)"
| "sortKeys j = j"

definition deterministicSerialize :: "json \<Rightarrow> string" where
  "deterministicSerialize j = stringify (sortKeys j)"

section \<open>The text determines the value\<close>

definition delimited :: "string \<Rightarrow> bool" where
  "delimited r \<longleftrightarrow> r = [] \<or> hd r \<in> {CHR '','', CHR '']'', CHR ''}''}"

lemma delimited_simps [simp]:
  "delimited []" "delimited (CHR '','' # r)" "delimited (CHR '']'' # r)" "delimited (CHR ''}'' # r)"
  by (simp_all add: delimited_def)

lemma of_char_hexChar: "n < 16 \<Longrightarrow> of_char (hexChar n) = (if n < 10 then 48 + n else 87 + n)"
  by (simp add: hexChar_def of_char_of)

lemma hexChar_inject:
  assumes "a < 16" and "b < 16" and "hexChar a = hexChar b"
  shows "a = b"
proof -
  have "(if a < 10 then 48 + a else 87 + a) = (if b < 10 then 48 + b else 87 + b :: nat)"
    using assms of_char_hexChar by metis
  then show ?thesis by (simp split: if_splits)
qed

lemma escapeChar_cases:
  obtains (plain) "escapeChar c = [c]" "c \<noteq> CHR 0x22" "c \<noteq> CHR 0x5C"
  | (short) x where "escapeChar c = [CHR 0x5C, x]" "x \<noteq> CHR ''u''"
      "(c, x) \<in> {(CHR 0x22, CHR 0x22), (CHR 0x5C, CHR 0x5C), (CHR 0x08, CHR ''b''),
        (CHR 0x09, CHR ''t''), (CHR 0x0A, CHR ''n''), (CHR 0x0C, CHR ''f''), (CHR 0x0D, CHR ''r'')}"
  | (unicode) "escapeChar c = [CHR 0x5C, CHR ''u'', CHR ''0'', CHR ''0'',
                 hexChar (of_char c div 16), hexChar (of_char c mod 16)]" "(of_char c :: nat) < 32"
  by (cases "c \<in> {CHR 0x22, CHR 0x5C, CHR 0x08, CHR 0x09, CHR 0x0A, CHR 0x0C, CHR 0x0D}";
      cases "(of_char c :: nat) < 32") (auto simp: escapeChar_def)

lemma escapeChar_first: "hd (escapeChar c) \<noteq> CHR 0x22" "escapeChar c \<noteq> []"
  by (cases c rule: escapeChar_cases; simp)+

lemma escapeChar_inject:
  assumes "escapeChar c @ r = escapeChar d @ t"
  shows "c = d \<and> r = t"
proof (cases c rule: escapeChar_cases)
  case plain
  then show ?thesis using assms by (cases d rule: escapeChar_cases) auto
next
  case (short x)
  then show ?thesis using assms by (cases d rule: escapeChar_cases) auto
next
  case unicode
  show ?thesis
  proof (cases d rule: escapeChar_cases)
    case plain
    then show ?thesis using assms unicode by auto
  next
    case (short x)
    then show ?thesis using assms unicode by auto
  next
    case u: unicode
    have l: "(of_char c div 16 :: nat) < 16" "(of_char d div 16 :: nat) < 16"
      using unicode u by simp_all
    have "of_char c div 16 = (of_char d div 16 :: nat)" "of_char c mod 16 = (of_char d mod 16 :: nat)"
      using assms unicode(1) u(1) l by (auto intro: hexChar_inject)
    then have "of_char c = (of_char d :: nat)" by (metis div_mult_mod_eq)
    then show ?thesis using assms unicode(1) u(1) by simp
  qed
qed

lemma quoteString_inject:
  "quoteString s @ r = quoteString t @ u \<Longrightarrow> s = t \<and> r = u"
proof -
  have "concat (map escapeChar s) @ CHR 0x22 # r = concat (map escapeChar t) @ CHR 0x22 # u
      \<Longrightarrow> s = t \<and> r = u"
  proof (induction s arbitrary: t)
    case Nil
    then show ?case
    proof (cases t)
      case (Cons d t')
      with Nil escapeChar_first [of d] show ?thesis by (cases "escapeChar d") auto
    qed simp
  next
    case (Cons c s)
    show ?case
    proof (cases t)
      case Nil
      with Cons.prems escapeChar_first [of c] show ?thesis by (cases "escapeChar c") auto
    next
      case t: (Cons d t')
      have "escapeChar c @ (concat (map escapeChar s) @ CHR 0x22 # r) =
          escapeChar d @ (concat (map escapeChar t') @ CHR 0x22 # u)"
        using Cons.prems t by simp
      from escapeChar_inject [OF this] Cons.IH t show ?thesis by auto
    qed
  qed
  then show "quoteString s @ r = quoteString t @ u \<Longrightarrow> s = t \<and> r = u"
    by (simp add: quoteString_def)
qed

definition digitsValue :: "string \<Rightarrow> nat" where
  "digitsValue s = foldl (\<lambda>a c. 10 * a + (of_char c - 48)) 0 s"

lemma showNat_digits: "c \<in> set (showNat n) \<Longrightarrow> digitVal c \<noteq> None"
proof (induction n rule: showNat.induct)
  case (1 n)
  then show ?case by (subst (asm) (2) showNat.simps) (auto split: if_splits)
qed

lemma digitsValue_showNat: "digitsValue (showNat n) = n"
proof (induction n rule: showNat.induct)
  case (1 n)
  show ?case
  proof (cases "n < 10")
    case True
    then show ?thesis
      by (subst showNat.simps) (simp add: digitsValue_def of_char_digitChar)
  next
    case False
    then have "digitsValue (showNat (n div 10)) = n div 10" by (rule 1)
    then show ?thesis using False
      by (subst showNat.simps) (simp add: digitsValue_def of_char_digitChar)
  qed
qed

lemma showNat_nonempty: "showNat n \<noteq> []"
  by (subst showNat.simps) simp

lemma showNat_inject:
  assumes "showNat a @ r = showNat b @ t" and "delimited r" and "delimited t"
  shows "a = b \<and> r = t"
proof -
  have tw: "takeWhile (\<lambda>c. digitVal c \<noteq> None) (showNat n @ u) = showNat n" if "delimited u" for n u
  proof -
    have "takeWhile (\<lambda>c. digitVal c \<noteq> None) u = []"
      using that by (cases u) (auto simp: delimited_def digitVal_def)
    then show ?thesis by (simp add: takeWhile_append showNat_digits)
  qed
  have "showNat a = showNat b" using tw [OF assms(2), of a] tw [OF assms(3), of b] assms(1) by simp
  moreover from this have "a = b" by (metis digitsValue_showNat)
  ultimately show ?thesis using assms(1) by simp
qed

lemma showInt_inject:
  assumes "showInt a @ r = showInt b @ t" and "delimited r" and "delimited t"
  shows "a = b \<and> r = t"
proof -
  have nm: "hd (showNat n @ u) \<noteq> CHR ''-''" for n u
    using showNat_digits [of "hd (showNat n)" n] showNat_nonempty [of n] by (auto simp: digitVal_def)
  show ?thesis
  proof (cases "a < 0"; cases "b < 0")
    assume "a < 0" "b < 0"
    with assms showNat_inject [of "nat (- a)" r "nat (- b)" t] show ?thesis by (auto simp: showInt_def)
  next
    assume "a < 0" "\<not> b < 0"
    with assms(1) nm [of "nat b" t] show ?thesis by (auto simp: showInt_def) (metis list.sel(1))+
  next
    assume "\<not> a < 0" "b < 0"
    with assms(1) nm [of "nat a" r] show ?thesis by (auto simp: showInt_def)
  next
    assume "\<not> a < 0" "\<not> b < 0"
    with assms showNat_inject [of "nat a" r "nat b" t] show ?thesis by (auto simp: showInt_def)
  qed
qed


lemma joinComma_inject:
  assumes "joinComma (map f xs) @ c # r = joinComma (map f ys) @ c # t"
    and inj: "\<And>x y u v. x \<in> set xs \<Longrightarrow> f x @ u = f y @ v \<Longrightarrow> delimited u \<Longrightarrow> delimited v
      \<Longrightarrow> x = y \<and> u = v"
    and first: "\<And>x. f x \<noteq> [] \<and> hd (f x) \<noteq> c"
    and c: "c = CHR '']'' \<or> c = CHR ''}''"
  shows "xs = ys \<and> r = t"
  using assms(1) inj
proof (induction xs arbitrary: ys)
  case Nil
  show ?case
  proof (cases ys)
    case (Cons y zs)
    with Nil first [of y] have False by (cases zs; cases "f y") auto
    then show ?thesis ..
  qed (use Nil in simp)
next
  case (Cons x xs)
  have d: "delimited (c # u)" for u using c by auto
  show ?case
  proof (cases ys)
    case Nil
    with Cons.prems(1) first [of x] have False by (cases xs; cases "f x") auto
    then show ?thesis ..
  next
    case ys: (Cons y zs)
    define u where "u = (if xs = [] then c # r else CHR '','' # joinComma (map f xs) @ c # r)"
    define v where "v = (if zs = [] then c # t else CHR '','' # joinComma (map f zs) @ c # t)"
    have "joinComma (map f (x # xs)) @ c # r = f x @ u" by (cases xs) (simp_all add: u_def)
    moreover have "joinComma (map f ys) @ c # t = f y @ v" by (cases zs) (simp_all add: v_def ys)
    ultimately have "f x @ u = f y @ v" using Cons.prems(1) by simp
    then have xy: "x = y" and uv: "u = v"
      using Cons.prems(2) [of x u y v] d by (auto simp: u_def v_def)
    have nc: "c \<noteq> CHR '',''" using c by auto
    show ?thesis
    proof (cases "xs = []")
      case True
      with uv nc have "zs = [] \<and> r = t" by (auto simp: u_def v_def split: if_splits)
      with True xy ys show ?thesis by simp
    next
      case False
      with uv nc have "zs \<noteq> []" "joinComma (map f xs) @ c # r = joinComma (map f zs) @ c # t"
        by (auto simp: u_def v_def split: if_splits)
      with Cons.IH [of zs] Cons.prems(2) xy ys show ?thesis by auto
    qed
  qed
qed

lemma quoteString_first [simp]: "quoteString s \<noteq> []" "hd (quoteString s) = CHR 0x22"
  by (simp_all add: quoteString_def)

lemma showInt_first: "showInt n \<noteq> []" "hd (showInt n) = CHR ''-'' \<or> digitVal (hd (showInt n)) \<noteq> None"
  using showNat_nonempty showNat_digits [OF hd_in_set [OF showNat_nonempty]]
  by (auto simp: showInt_def)

fun firstClass :: "json \<Rightarrow> nat" where
  "firstClass JNull = 0"
| "firstClass (JBool b) = 1"
| "firstClass (JNum n) = 2"
| "firstClass (JStr s) = 3"
| "firstClass (JArr xs) = 4"
| "firstClass (JObj ms) = 5"

definition charClass :: "char \<Rightarrow> nat" where
  "charClass c =
     (if c = CHR ''n'' then 0 else if c = CHR ''t'' \<or> c = CHR ''f'' then 1
      else if c = CHR ''-'' \<or> digitVal c \<noteq> None then 2 else if c = CHR 0x22 then 3
      else if c = CHR ''['' then 4 else if c = CHR ''{'' then 5 else 6)"

lemma charClass_digit: "digitVal c \<noteq> None \<Longrightarrow> charClass c = 2"
  by (auto simp: charClass_def digitVal_def split: if_splits)

lemma stringify_first: "stringify j \<noteq> []" "charClass (hd (stringify j)) = firstClass j"
proof -
  show "stringify j \<noteq> []" using showInt_first(1) by (cases j) simp_all
  show "charClass (hd (stringify j)) = firstClass j"
  proof (cases j)
    case (JNum n)
    have "charClass CHR ''-'' = 2" by (simp add: charClass_def digitVal_def)
    then show ?thesis using showInt_first(2) [of n] charClass_digit JNum by auto
  qed (simp_all add: charClass_def digitVal_def)
qed

lemma stringify_not_closing: "hd (stringify j) \<noteq> CHR '']''"
proof
  assume "hd (stringify j) = CHR '']''"
  then have "firstClass j = 6" using stringify_first(2) [of j] by (simp add: charClass_def digitVal_def)
  then show False by (cases j) simp_all
qed

lemma sameClass: "stringify a @ r = stringify b @ t \<Longrightarrow> firstClass a = firstClass b"
  using stringify_first [of a] stringify_first [of b] by (metis hd_append2)

lemma stringify_inject:
  "stringify a @ r = stringify b @ t \<Longrightarrow> delimited r \<Longrightarrow> delimited t \<Longrightarrow> a = b \<and> r = t"
proof (induction a arbitrary: b r t)
  case (JNum n)
  have "firstClass b = firstClass (JNum n)"
    using sameClass [OF JNum.prems(1)] by simp
  then obtain m where b: "b = JNum m" by (cases b) auto
  with JNum.prems have "showInt n @ r = showInt m @ t" by simp
  from showInt_inject [OF this JNum.prems(2,3)] b show ?case by simp
next
  case (JArr xs)
  have "firstClass b = firstClass (JArr xs)"
    using sameClass [OF JArr.prems(1)] by simp
  then obtain ys where b: "b = JArr ys" by (cases b) auto
  have "joinComma (map stringify xs) @ CHR '']'' # r = joinComma (map stringify ys) @ CHR '']'' # t"
    using JArr.prems(1) b by simp
  then have "xs = ys \<and> r = t"
    using JArr.IH stringify_first(1) stringify_not_closing by (intro joinComma_inject) auto
  with b show ?case by simp
next
  case (JObj ms)
  let ?f = "\<lambda>(k, v). quoteString k @ CHR '':'' # stringify v"
  have "firstClass b = firstClass (JObj ms)"
    using sameClass [OF JObj.prems(1)] by simp
  then obtain ns where b: "b = JObj ns" by (cases b) auto
  have "joinComma (map ?f ms) @ CHR ''}'' # r = joinComma (map ?f ns) @ CHR ''}'' # t"
    using JObj.prems(1) b by simp
  moreover have "x = y \<and> u = v"
    if x: "x \<in> set ms" and eq: "?f x @ u = ?f y @ v" and d: "delimited u" "delimited v" for x y u v
  proof -
    obtain k j l i where xy: "x = (k, j)" "y = (l, i)" by (cases x; cases y)
    have "quoteString k @ (CHR '':'' # stringify j @ u) = quoteString l @ (CHR '':'' # stringify i @ v)"
      using eq xy by simp
    from quoteString_inject [OF this] have "k = l" "stringify j @ u = stringify i @ v" by auto
    moreover from this(2) have "j = i \<and> u = v"
      using JObj.IH [of x j] x xy d by (auto simp: snds.intros)
    ultimately show ?thesis using xy by simp
  qed
  ultimately have "ms = ns \<and> r = t" by (rule joinComma_inject) auto
  with b show ?case by simp
next
  case (JStr s)
  have "firstClass b = firstClass (JStr s)"
    using sameClass [OF JStr.prems(1)] by simp
  then obtain u where b: "b = JStr u" by (cases b) auto
  with JStr.prems(1) have "quoteString s @ r = quoteString u @ t" by simp
  with b quoteString_inject show ?case by blast
next
  case (JBool x)
  have "firstClass b = firstClass (JBool x)"
    using sameClass [OF JBool.prems(1)] by simp
  then obtain y where "b = JBool y" by (cases b) auto
  with JBool show ?case by (auto split: if_splits)
next
  case JNull
  have "firstClass b = firstClass JNull"
    using sameClass [OF JNull.prems(1)] by simp
  then have "b = JNull" by (cases b) auto
  with JNull show ?case by simp
qed

lemma stringify_eq_iff: "stringify a = stringify b \<longleftrightarrow> a = b"
  using stringify_inject [of a "[]" b "[]"] by auto

lemma deterministicSerialize_eq_iff:
  "deterministicSerialize a = deterministicSerialize b \<longleftrightarrow> sortKeys a = sortKeys b"
  by (simp add: deterministicSerialize_def stringify_eq_iff)

end
