(* ===== verification/Shared_Domain.thy ===== *)
theory Shared_Domain
  imports Json_Text
begin

text \<open>
  The domain package every worker shares (\<^verbatim>\<open>packages/shared/src\<close>): the event shapes of
  \<^verbatim>\<open>types.ts\<close>, the policy compiler of \<^verbatim>\<open>policy.ts\<close>, the hashes of \<^verbatim>\<open>hash.ts\<close>, the prefixed ids of
  \<^verbatim>\<open>id.ts\<close> and the vocabularies of \<^verbatim>\<open>constants.ts\<close>. A field that may be \<^verbatim>\<open>undefined\<close> is an option.
  The SHA-256 digest of the platform is an argument of the hashes.
\<close>

section \<open>Event shapes\<close>

record event_date_time =
  dt_dateTime :: "string option"
  dt_date :: "string option"
  dt_timeZone :: "string option"

text \<open>
  The enumerations of an event (status, visibility, transparency, source) are columns of type TEXT
  that the code casts on the way out without checking, so they are strings here too.
\<close>

record canonical_event =
  ev_canonical_event_id :: string
  ev_origin_account_id :: string
  ev_origin_event_id :: string
  ev_title :: "string option"
  ev_description :: "string option"
  ev_location :: "string option"
  ev_start :: event_date_time
  ev_end :: event_date_time
  ev_all_day :: bool
  ev_status :: string
  ev_visibility :: string
  ev_transparency :: string
  ev_recurrence_rule :: "string option"
  ev_source :: string
  ev_version :: nat
  ev_created_at :: string
  ev_updated_at :: string

text \<open>
  What \<^verbatim>\<open>toEventDateTime\<close> returns: an object with the one key \<^verbatim>\<open>date\<close> (whose value may be
  undefined), or one with \<^verbatim>\<open>dateTime\<close> and, only when it is defined, \<^verbatim>\<open>timeZone\<close>.
\<close>

datatype projected_time =
    Projected_Date "string option"
  | Projected_DateTime "string option" "string option"

record projected_event =
  pr_summary :: string
  pr_description :: "string option"
  pr_location :: "string option"
  pr_start :: projected_time
  pr_end :: projected_time
  pr_transparency :: string
  pr_visibility :: string
  pr_private :: "(string \<times> string) list"

datatype delta_type = Delta_Created | Delta_Updated | Delta_Deleted

record delta_event =
  de_origin_account_id :: string
  de_origin_event_id :: string
  de_title :: "string option"
  de_description :: "string option"
  de_location :: "string option"
  de_start :: event_date_time
  de_end :: event_date_time
  de_all_day :: bool
  de_status :: "string option"
  de_visibility :: "string option"
  de_transparency :: "string option"
  de_recurrence_rule :: "string option"

record provider_delta =
  pd_type :: delta_type
  pd_origin_event_id :: string
  pd_origin_account_id :: string
  pd_event :: "delta_event option"
  pd_participant_hashes :: "string list option"

section \<open>The policy compiler\<close>

definition toEventDateTime :: "event_date_time \<Rightarrow> bool \<Rightarrow> projected_time" where
  "toEventDateTime dt allDay =
     (if allDay
      then Projected_Date
             (case dt_date dt of
                Some d \<Rightarrow> Some d
              | None \<Rightarrow> map_option (takeWhile (\<lambda>c. c \<noteq> CHR ''T'')) (dt_dateTime dt))
      else Projected_DateTime (dt_dateTime dt) (dt_timeZone dt))"

text \<open>
  \<^verbatim>\<open>x || undefined\<close>: the empty string is dropped.
\<close>

definition orUndefined :: "string option \<Rightarrow> string option" where
  "orUndefined x = (if truthy x then x else None)"

text \<open>
  The switch has one case per detail level and no default: for any other value the function
  returns \<^verbatim>\<open>undefined\<close>, which is \<^const>\<open>None\<close>.
\<close>

definition compileProjection :: "canonical_event \<Rightarrow> string \<Rightarrow> projected_event option" where
  "compileProjection e detail =
     (let base = \<lparr> pr_summary = ''Busy'', pr_description = None, pr_location = None,
                   pr_start = toEventDateTime (ev_start e) (ev_all_day e),
                   pr_end = toEventDateTime (ev_end e) (ev_all_day e),
                   pr_transparency = ev_transparency e,
                   pr_visibility = ''private'',
                   pr_private = [(''tminus'', ''true''), (''managed'', ''true''),
                                 (''canonical_event_id'', ev_canonical_event_id e),
                                 (''origin_account_id'', ev_origin_account_id e)] \<rparr>
      in if detail = ''BUSY'' then Some base
         else if detail = ''TITLE''
         then Some (base \<lparr> pr_summary := orFalsy (ev_title e) ''Busy'', pr_visibility := ''default'' \<rparr>)
         else if detail = ''FULL''
         then Some (base \<lparr> pr_summary := orFalsy (ev_title e) ''Busy'',
                           pr_description := orUndefined (ev_description e),
                           pr_location := orUndefined (ev_location e),
                           pr_visibility := ''default'' \<rparr>)
         else None)"

definition validDetail :: "string \<Rightarrow> bool" where
  "validDetail d \<longleftrightarrow> d \<in> {''BUSY'', ''TITLE'', ''FULL''}"

lemma compileProjection_defined: "compileProjection e d \<noteq> None \<longleftrightarrow> validDetail d"
  by (simp add: compileProjection_def validDetail_def Let_def)

lemma compileProjection_markers:
  "compileProjection e d = Some p \<Longrightarrow>
   map_of (pr_private p) ''tminus'' = Some ''true'' \<and> map_of (pr_private p) ''managed'' = Some ''true'' \<and>
   map_of (pr_private p) ''canonical_event_id'' = Some (ev_canonical_event_id e) \<and>
   map_of (pr_private p) ''origin_account_id'' = Some (ev_origin_account_id e)"
  by (auto simp: compileProjection_def Let_def split: if_splits)

lemma compileProjection_summary: "compileProjection e d = Some p \<Longrightarrow> pr_summary p \<noteq> []"
  by (cases "ev_title e") (auto simp: compileProjection_def Let_def split: if_splits)

text \<open>A BUSY projection is a function of the times, the transparency and the two ids alone.\<close>

lemma compileProjection_busy:
  "compileProjection e ''BUSY'' =
   Some \<lparr> pr_summary = ''Busy'', pr_description = None, pr_location = None,
          pr_start = toEventDateTime (ev_start e) (ev_all_day e),
          pr_end = toEventDateTime (ev_end e) (ev_all_day e),
          pr_transparency = ev_transparency e, pr_visibility = ''private'',
          pr_private = [(''tminus'', ''true''), (''managed'', ''true''),
                        (''canonical_event_id'', ev_canonical_event_id e),
                        (''origin_account_id'', ev_origin_account_id e)] \<rparr>"
  by (simp add: compileProjection_def)

section \<open>Hashes\<close>

definition optJson :: "string option \<Rightarrow> json" where
  "optJson x = (case x of None \<Rightarrow> JNull | Some s \<Rightarrow> JStr s)"

fun timeJson :: "projected_time \<Rightarrow> json" where
  "timeJson (Projected_Date d) = JObj [(''date'', optJson d)]"
| "timeJson (Projected_DateTime d None) = JObj [(''dateTime'', optJson d)]"
| "timeJson (Projected_DateTime d (Some z)) = JObj [(''dateTime'', optJson d), (''timeZone'', JStr z)]"

definition contentFields :: "projected_event \<Rightarrow> json" where
  "contentFields p = JObj
     [(''summary'', JStr (pr_summary p)), (''description'', optJson (pr_description p)),
      (''location'', optJson (pr_location p)), (''start'', timeJson (pr_start p)),
      (''end'', timeJson (pr_end p)), (''transparency'', JStr (pr_transparency p)),
      (''visibility'', JStr (pr_visibility p))]"

definition projectionHashInput :: "string \<Rightarrow> string \<Rightarrow> string \<Rightarrow> projected_event \<Rightarrow> string" where
  "projectionHashInput cid detail kind p = deterministicSerialize (JObj
     [(''canonical_event_id'', JStr cid), (''detail_level'', JStr detail),
      (''calendar_kind'', JStr kind), (''content'', contentFields p)])"

definition computeProjectionHash ::
  "(string \<Rightarrow> string) \<Rightarrow> string \<Rightarrow> string \<Rightarrow> string \<Rightarrow> projected_event \<Rightarrow> string" where
  "computeProjectionHash sha256 cid detail kind p = sha256 (projectionHashInput cid detail kind p)"

definition computeIdempotencyKey ::
  "(string \<Rightarrow> string) \<Rightarrow> string \<Rightarrow> string \<Rightarrow> string \<Rightarrow> string" where
  "computeIdempotencyKey sha256 cid target hash = sha256 (deterministicSerialize (JObj
     [(''canonical_event_id'', JStr cid), (''target_account_id'', JStr target),
      (''projected_hash'', JStr hash)]))"

text \<open>What the hash covers: everything of a projection except the tracking properties.\<close>

definition sameContent :: "projected_event \<Rightarrow> projected_event \<Rightarrow> bool" where
  "sameContent p q \<longleftrightarrow>
     pr_summary p = pr_summary q \<and> pr_description p = pr_description q \<and>
     pr_location p = pr_location q \<and> pr_start p = pr_start q \<and> pr_end p = pr_end q \<and>
     pr_transparency p = pr_transparency q \<and> pr_visibility p = pr_visibility q"

lemma optJson_eq [simp]: "optJson a = optJson b \<longleftrightarrow> a = b"
  by (auto simp: optJson_def split: option.splits)

lemma sortKeys_optJson [simp]: "sortKeys (optJson x) = optJson x"
  by (simp add: optJson_def split: option.split)

lemma sortKeys_timeJson [simp]: "sortKeys (timeJson t) = timeJson t"
  by (induction t rule: timeJson.induct)
     (simp_all add: less_char_def less_eq_char_def)

lemma timeJson_eq [simp]: "timeJson a = timeJson b \<longleftrightarrow> a = b"
  by (cases a rule: timeJson.cases; cases b rule: timeJson.cases) auto

lemma projectionHashInput_eq:
  "projectionHashInput cid d k p = projectionHashInput cid' d' k' p' \<longleftrightarrow>
   cid = cid' \<and> d = d' \<and> k = k' \<and> sameContent p p'"
  unfolding projectionHashInput_def deterministicSerialize_eq_iff contentFields_def sameContent_def
  by (auto simp: less_char_def less_eq_char_def insort_key.simps)

lemma idempotencyInput_eq:
  "deterministicSerialize (JObj [(''canonical_event_id'', JStr c), (''target_account_id'', JStr t),
      (''projected_hash'', JStr h)]) =
   deterministicSerialize (JObj [(''canonical_event_id'', JStr c'), (''target_account_id'', JStr t'),
      (''projected_hash'', JStr h')]) \<longleftrightarrow> c = c' \<and> t = t' \<and> h = h'"
  unfolding deterministicSerialize_eq_iff
  by (auto simp: less_char_def less_eq_char_def)

section \<open>Identifiers\<close>

definition ID_PREFIXES :: "(string \<times> string) list" where
  "ID_PREFIXES =
     [(''user'', ''usr_''), (''account'', ''acc_''), (''event'', ''evt_''), (''policy'', ''pol_''),
      (''calendar'', ''cal_''), (''journal'', ''jrn_''), (''constraint'', ''cst_''),
      (''apikey'', ''key_''), (''cert'', ''crt_''), (''session'', ''ses_''),
      (''candidate'', ''cnd_''), (''hold'', ''hld_''), (''vip'', ''vip_''),
      (''allocation'', ''alc_''), (''commitment'', ''cmt_''), (''report'', ''rpt_''),
      (''relationship'', ''rel_''), (''ledger'', ''ldg_''), (''alert'', ''alt_''),
      (''milestone'', ''mst_''), (''proof'', ''prf_''), (''schedHist'', ''shx_''),
      (''org'', ''org_''), (''onboardSession'', ''obs_''), (''orgInstall'', ''oin_''),
      (''delegation'', ''dlg_''), (''audit'', ''aud_''), (''cache'', ''cch_''),
      (''discovery'', ''dsc_'')]"

text \<open>
  \<^verbatim>\<open>generateId\<close> appends what the \<^verbatim>\<open>ulid\<close> package returns, which is an argument. The reverse map
  \<^verbatim>\<open>PREFIX_TO_ENTITY\<close> keeps the last entity of a prefix, hence the \<^const>\<open>rev\<close>.
\<close>

definition generateId :: "string \<Rightarrow> string \<Rightarrow> string" where
  "generateId entity ulid = the (map_of ID_PREFIXES entity) @ ulid"

definition PREFIX_TO_ENTITY :: "(string \<times> string) list" where
  "PREFIX_TO_ENTITY = rev (map prod.swap ID_PREFIXES)"

definition crockford :: "char \<Rightarrow> bool" where
  "crockford c \<longleftrightarrow> c \<in> set ''0123456789ABCDEFGHJKMNPQRSTVWXYZ''"

definition isUlid :: "string \<Rightarrow> bool" where
  "isUlid s \<longleftrightarrow> length s = 26 \<and> list_all crockford s"

definition parseId :: "string \<Rightarrow> (string \<times> string) option" where
  "parseId s =
     (if length s < 5 then None
      else case map_of PREFIX_TO_ENTITY (take 4 s) of
             None \<Rightarrow> None
           | Some entity \<Rightarrow> if isUlid (drop 4 s) then Some (entity, drop 4 s) else None)"

definition isValidId :: "string \<Rightarrow> string option \<Rightarrow> bool" where
  "isValidId s expected =
     (case parseId s of
        None \<Rightarrow> False
      | Some (entity, u) \<Rightarrow> (case expected of None \<Rightarrow> True | Some x \<Rightarrow> entity = x))"

lemma prefix_table:
  "list_all (\<lambda>(e, p). length p = 4 \<and> map_of PREFIX_TO_ENTITY p = Some e) ID_PREFIXES"
  by code_simp

lemma prefix_lookup:
  assumes "map_of ID_PREFIXES entity = Some p"
  shows "length p = 4" and "map_of PREFIX_TO_ENTITY p = Some entity"
  using prefix_table map_of_SomeD [OF assms] by (auto simp: list_all_iff)

lemma parse_generated:
  assumes "map_of ID_PREFIXES entity \<noteq> None" and u: "isUlid u"
  shows "parseId (generateId entity u) = Some (entity, u)"
proof -
  obtain p where p: "map_of ID_PREFIXES entity = Some p" using assms by auto
  have "length u = 26" using u by (simp add: isUlid_def)
  with prefix_lookup [OF p] p u show ?thesis by (simp add: parseId_def generateId_def)
qed

lemma parseId_inverse:
  assumes "parseId s = Some (entity, u)"
  shows "isUlid u" and "generateId entity u = s"
proof -
  from assms have u: "isUlid (drop 4 s)" "u = drop 4 s"
    and e: "map_of PREFIX_TO_ENTITY (take 4 s) = Some entity"
    by (auto simp: parseId_def split: if_splits option.splits)
  have "list_all (\<lambda>(p, e). map_of ID_PREFIXES e = Some p) PREFIX_TO_ENTITY" by code_simp
  with map_of_SomeD [OF e] have "map_of ID_PREFIXES entity = Some (take 4 s)"
    by (auto simp: list_all_iff)
  then show "generateId entity u = s" by (simp add: generateId_def u)
  show "isUlid u" using u by simp
qed

section \<open>Vocabularies\<close>

definition DEFAULT_DETAIL_LEVEL :: string where
  "DEFAULT_DETAIL_LEVEL = ''BUSY''"

definition DEFAULT_CALENDAR_KIND :: string where
  "DEFAULT_CALENDAR_KIND = ''BUSY_OVERLAY''"

definition BILLING_CATEGORIES :: "string list" where
  "BILLING_CATEGORIES = [''BILLABLE'', ''NON_BILLABLE'', ''STRATEGIC'', ''INVESTOR'', ''INTERNAL'']"

definition isValidBillingCategory :: "string \<Rightarrow> bool" where
  "isValidBillingCategory v = List.member BILLING_CATEGORIES v"

definition RELATIONSHIP_CATEGORIES :: "string list" where
  "RELATIONSHIP_CATEGORIES =
     [''FAMILY'', ''INVESTOR'', ''FRIEND'', ''CLIENT'', ''BOARD'', ''COLLEAGUE'', ''OTHER'']"

definition isValidRelationshipCategory :: "string \<Rightarrow> bool" where
  "isValidRelationshipCategory v = List.member RELATIONSHIP_CATEGORIES v"

definition INTERACTION_OUTCOMES :: "string list" where
  "INTERACTION_OUTCOMES =
     [''ATTENDED'', ''CANCELED_BY_ME'', ''CANCELED_BY_THEM'', ''NO_SHOW_THEM'', ''NO_SHOW_ME'',
      ''MOVED_LAST_MINUTE_THEM'', ''MOVED_LAST_MINUTE_ME'']"

definition isValidOutcome :: "string \<Rightarrow> bool" where
  "isValidOutcome v = List.member INTERACTION_OUTCOMES v"

end
