(* ===== verification/Provider_Events.thy ===== *)
theory Provider_Events
  imports Shared_Domain
begin

text \<open>
  The boundary with the calendar providers: what a Google or Microsoft event looks like when it
  arrives, how it is classified (\<^verbatim>\<open>classify.ts\<close>) and normalised into a delta (\<^verbatim>\<open>normalize.ts\<close>,
  \<^verbatim>\<open>normalize-microsoft.ts\<close>), and what \<^verbatim>\<open>microsoft-api.ts\<close> sends for a projection. The lemmas show
  that whatever the system writes comes back classified as a mirror and without a payload, which
  is what keeps two linked accounts from mirroring each other's mirrors for ever.
\<close>

section \<open>Google\<close>

record google_event =
  ge_id :: "string option"
  ge_summary :: "string option"
  ge_description :: "string option"
  ge_location :: "string option"
  ge_start :: "event_date_time option"
  ge_end :: "event_date_time option"
  ge_status :: "string option"
  ge_visibility :: "string option"
  ge_transparency :: "string option"
  ge_recurrence :: "string list option"
  ge_private :: "(string \<times> string) list option"

datatype event_classification = Origin | Managed_Mirror | Foreign_Managed

definition classifyEvent :: "google_event \<Rightarrow> event_classification" where
  "classifyEvent g =
     (case ge_private g of
        None \<Rightarrow> Origin
      | Some props \<Rightarrow>
          if map_of props ''tminus'' = Some ''true'' \<and> map_of props ''managed'' = Some ''true''
          then Managed_Mirror else Origin)"

definition determineChangeType :: "google_event \<Rightarrow> delta_type" where
  "determineChangeType g = (if ge_status g = Some ''cancelled'' then Delta_Deleted else Delta_Updated)"

definition normalizeDateTime :: "event_date_time option \<Rightarrow> event_date_time" where
  "normalizeDateTime dt =
     (case dt of
        None \<Rightarrow> \<lparr> dt_dateTime = None, dt_date = None, dt_timeZone = None \<rparr>
      | Some d \<Rightarrow> \<lparr> dt_dateTime = dt_dateTime d, dt_date = dt_date d, dt_timeZone = dt_timeZone d \<rparr>)"

definition isAllDay :: "event_date_time option \<Rightarrow> bool" where
  "isAllDay start = (case start of None \<Rightarrow> False | Some d \<Rightarrow> dt_date d \<noteq> None)"

definition normalizeStatus :: "string option \<Rightarrow> string" where
  "normalizeStatus st =
     (if st = Some ''tentative'' \<or> st = Some ''cancelled'' then the st else ''confirmed'')"

definition normalizeVisibility :: "string option \<Rightarrow> string" where
  "normalizeVisibility v =
     (if v = Some ''public'' \<or> v = Some ''private'' \<or> v = Some ''confidential''
      then the v else ''default'')"

definition normalizeTransparency :: "string option \<Rightarrow> string" where
  "normalizeTransparency v = (if v = Some ''transparent'' then the v else ''opaque'')"

definition extractRecurrenceRule :: "string list option \<Rightarrow> string option" where
  "extractRecurrenceRule r = (case r of None \<Rightarrow> None | Some [] \<Rightarrow> None | Some (x # xs) \<Rightarrow> Some x)"

definition normalizeGoogleEvent ::
  "google_event \<Rightarrow> string \<Rightarrow> event_classification \<Rightarrow> provider_delta" where
  "normalizeGoogleEvent g acct cls =
     (let changeType = determineChangeType g; originEventId = nullish (ge_id g) [] in
      if changeType = Delta_Deleted \<or> cls = Managed_Mirror
      then \<lparr> pd_type = changeType, pd_origin_event_id = originEventId,
             pd_origin_account_id = acct, pd_event = None, pd_participant_hashes = None \<rparr>
      else \<lparr> pd_type = changeType, pd_origin_event_id = originEventId,
             pd_origin_account_id = acct,
             pd_event = Some
               \<lparr> de_origin_account_id = acct, de_origin_event_id = originEventId,
                 de_title = ge_summary g, de_description = ge_description g,
                 de_location = ge_location g,
                 de_start = normalizeDateTime (ge_start g),
                 de_end = normalizeDateTime (ge_end g),
                 de_all_day = isAllDay (ge_start g),
                 de_status = Some (normalizeStatus (ge_status g)),
                 de_visibility = Some (normalizeVisibility (ge_visibility g)),
                 de_transparency = Some (normalizeTransparency (ge_transparency g)),
                 de_recurrence_rule = extractRecurrenceRule (ge_recurrence g) \<rparr>,
             pd_participant_hashes = None \<rparr>)"

section \<open>Microsoft\<close>

record ms_extension =
  mx_extensionName :: "string option"
  mx_fields :: "(string \<times> json) list"

record ms_event =
  ms_id :: "string option"
  ms_subject :: "string option"
  ms_body_content :: "string option"
  ms_start :: "(string option \<times> string option) option"
  ms_end :: "(string option \<times> string option) option"
  ms_isAllDay :: "bool option"
  ms_isCancelled :: "bool option"
  ms_showAs :: "string option"
  ms_sensitivity :: "string option"
  ms_location_displayName :: "string option"
  ms_categories :: "string list option"
  ms_extensions :: "ms_extension list option"
  ms_removed :: bool

definition classifyMicrosoftEvent :: "ms_event \<Rightarrow> event_classification" where
  "classifyMicrosoftEvent m =
     (let marked =
        (case ms_extensions m of
           None \<Rightarrow> False
         | Some exts \<Rightarrow>
             (case find (\<lambda>x. mx_extensionName x = Some ''com.tminus.metadata'') exts of
                None \<Rightarrow> False
              | Some x \<Rightarrow> map_of (mx_fields x) ''tminus'' = Some (JStr ''true'') \<and>
                          map_of (mx_fields x) ''managed'' = Some (JStr ''true'')));
        labelled =
        (case ms_categories m of None \<Rightarrow> False | Some cs \<Rightarrow> List.member cs ''T-Minus Managed'')
      in if marked \<or> labelled then Managed_Mirror else Origin)"

definition msChangeType :: "ms_event \<Rightarrow> delta_type" where
  "msChangeType m =
     (if ms_isCancelled m = Some True then Delta_Deleted
      else if ms_removed m then Delta_Deleted else Delta_Updated)"

definition msDateTime :: "(string option \<times> string option) option \<Rightarrow> bool option \<Rightarrow> event_date_time" where
  "msDateTime dt allDay =
     (case dt of
        None \<Rightarrow> \<lparr> dt_dateTime = None, dt_date = None, dt_timeZone = None \<rparr>
      | Some (d, z) \<Rightarrow>
          if allDay = Some True \<and> truthy d
          then \<lparr> dt_dateTime = None, dt_date = map_option (take 10) d, dt_timeZone = None \<rparr>
          else \<lparr> dt_dateTime = d, dt_date = None, dt_timeZone = z \<rparr>)"

definition msVisibility :: "string option \<Rightarrow> string" where
  "msVisibility v =
     (if v = Some ''normal'' then ''default''
      else if v = Some ''private'' then ''private''
      else if v = Some ''personal'' then ''private''
      else if v = Some ''confidential'' then ''confidential''
      else ''default'')"

definition msTransparency :: "string option \<Rightarrow> string" where
  "msTransparency v =
     (if v = Some ''free'' then ''transparent''
      else if v = Some ''tentative'' then ''transparent'' else ''opaque'')"

definition normalizeMicrosoftEvent ::
  "ms_event \<Rightarrow> string \<Rightarrow> event_classification \<Rightarrow> provider_delta" where
  "normalizeMicrosoftEvent m acct cls =
     (let changeType = msChangeType m; originEventId = nullish (ms_id m) [] in
      if changeType = Delta_Deleted \<or> cls = Managed_Mirror
      then \<lparr> pd_type = changeType, pd_origin_event_id = originEventId,
             pd_origin_account_id = acct, pd_event = None, pd_participant_hashes = None \<rparr>
      else \<lparr> pd_type = changeType, pd_origin_event_id = originEventId,
             pd_origin_account_id = acct,
             pd_event = Some
               \<lparr> de_origin_account_id = acct, de_origin_event_id = originEventId,
                 de_title = ms_subject m, de_description = ms_body_content m,
                 de_location = ms_location_displayName m,
                 de_start = msDateTime (ms_start m) (ms_isAllDay m),
                 de_end = msDateTime (ms_end m) (ms_isAllDay m),
                 de_all_day = nullish (ms_isAllDay m) False,
                 de_status = Some ''confirmed'',
                 de_visibility = Some (msVisibility (ms_sensitivity m)),
                 de_transparency = Some (msTransparency (ms_showAs m)),
                 de_recurrence_rule = None \<rparr>,
             pd_participant_hashes = None \<rparr>)"

subsection \<open>What is sent for a projection\<close>

fun toMicrosoftDateTime :: "projected_time \<Rightarrow> (string option \<times> string option) option" where
  "toMicrosoftDateTime (Projected_Date d) =
     (if truthy d then Some (Some (the d @ ''T00:00:00''), Some ''UTC'') else None)"
| "toMicrosoftDateTime (Projected_DateTime d z) =
     (if truthy d then Some (d, Some (nullish z ''UTC'')) else None)"

fun dateOnly :: "projected_time \<Rightarrow> bool" where
  "dateOnly (Projected_Date d) = truthy d"
| "dateOnly (Projected_DateTime d z) = False"

definition projectToMicrosoftEvent :: "projected_event \<Rightarrow> ms_event" where
  "projectToMicrosoftEvent p =
     \<lparr> ms_id = None,
       ms_subject = Some (pr_summary p),
       ms_body_content = pr_description p,
       ms_start = toMicrosoftDateTime (pr_start p),
       ms_end = toMicrosoftDateTime (pr_end p),
       ms_isAllDay = (if dateOnly (pr_start p) \<or> dateOnly (pr_end p) then Some True else None),
       ms_isCancelled = None,
       ms_showAs = Some (if pr_transparency p = ''transparent'' then ''free'' else ''busy''),
       ms_sensitivity = Some (if pr_visibility p = ''default'' then ''normal'' else pr_visibility p),
       ms_location_displayName = pr_location p,
       ms_categories =
         (if map_of (pr_private p) ''tminus'' = Some ''true'' \<and>
             map_of (pr_private p) ''managed'' = Some ''true''
          then Some [''T-Minus Managed''] else None),
       ms_extensions = Some
         [\<lparr> mx_extensionName = Some ''com.tminus.metadata'',
            mx_fields =
              [(''tminus'', optJson (map_of (pr_private p) ''tminus'')),
               (''managed'', optJson (map_of (pr_private p) ''managed'')),
               (''canonicalId'', optJson (map_of (pr_private p) ''canonical_event_id'')),
               (''originAccount'', optJson (map_of (pr_private p) ''origin_account_id''))] \<rparr>],
       ms_removed = False \<rparr>"

section \<open>What comes back\<close>

lemma classify_google_mirror:
  assumes "compileProjection e d = Some p" and "ge_private g = Some (pr_private p)"
  shows "classifyEvent g = Managed_Mirror"
  using compileProjection_markers [OF assms(1)] assms(2) by (simp add: classifyEvent_def)

lemma classify_microsoft_mirror:
  assumes p: "compileProjection e d = Some p"
    and sent: "s = projectToMicrosoftEvent p"
    and kept: "ms_extensions m = ms_extensions s \<or> ms_categories m = ms_categories s"
  shows "classifyMicrosoftEvent m = Managed_Mirror"
  using kept compileProjection_markers [OF p]
  by (auto simp: classifyMicrosoftEvent_def sent projectToMicrosoftEvent_def optJson_def)

lemma normalize_mirror_no_event:
  "pd_event (normalizeGoogleEvent g acct Managed_Mirror) = None"
  "pd_event (normalizeMicrosoftEvent m acct Managed_Mirror) = None"
  by (simp_all add: normalizeGoogleEvent_def normalizeMicrosoftEvent_def Let_def)

lemma normalize_deleted_iff:
  "pd_type (normalizeGoogleEvent g acct c) = Delta_Deleted \<longleftrightarrow> ge_status g = Some ''cancelled''"
  "pd_type (normalizeMicrosoftEvent m acct c) = Delta_Deleted \<longleftrightarrow>
     ms_isCancelled m = Some True \<or> ms_removed m"
  by (simp_all add: normalizeGoogleEvent_def normalizeMicrosoftEvent_def Let_def
        determineChangeType_def msChangeType_def)

definition domainEvent :: "delta_event \<Rightarrow> bool" where
  "domainEvent e \<longleftrightarrow>
     de_status e \<in> {Some ''confirmed'', Some ''tentative''} \<and>
     de_visibility e \<in> Some ` {''default'', ''public'', ''private'', ''confidential''} \<and>
     de_transparency e \<in> {Some ''opaque'', Some ''transparent''}"

lemma normalize_google_domain:
  "pd_event (normalizeGoogleEvent g acct c) = Some e \<Longrightarrow> domainEvent e"
  by (auto simp: normalizeGoogleEvent_def Let_def domainEvent_def normalizeStatus_def
        normalizeVisibility_def normalizeTransparency_def determineChangeType_def split: if_splits)

lemma normalize_microsoft_domain:
  "pd_event (normalizeMicrosoftEvent m acct c) = Some e \<Longrightarrow> domainEvent e"
  by (auto simp: normalizeMicrosoftEvent_def Let_def domainEvent_def
        msVisibility_def msTransparency_def split: if_splits)

text \<open>
  A projection written to Microsoft and read back (were it not recognised as a mirror) has the
  time, the title and the flags it was written with: the two mappings are inverse on what the
  compiler produces.
\<close>

fun readBack :: "projected_time \<Rightarrow> event_date_time" where
  "readBack (Projected_Date d) = \<lparr> dt_dateTime = None, dt_date = d, dt_timeZone = None \<rparr>"
| "readBack (Projected_DateTime d z) =
     \<lparr> dt_dateTime = d, dt_date = None, dt_timeZone = Some (nullish z ''UTC'') \<rparr>"

fun properTime :: "projected_time \<Rightarrow> bool" where
  "properTime (Projected_Date d) = (\<exists>x. d = Some x \<and> length x = 10)"
| "properTime (Projected_DateTime d z) = truthy d"

lemma msDateTime_roundtrip:
  "properTime t \<Longrightarrow>
   msDateTime (toMicrosoftDateTime t) (if dateOnly t then Some True else None) = readBack t"
  by (cases t) (auto simp: msDateTime_def)

end
