(* ===== verification/Graph_Store.thy ===== *)
theory Graph_Store
  imports Complex_Main Timestamp_Laws Provider_Events
begin

text \<open>
  The storage of one \<^verbatim>\<open>UserGraphDO\<close> (\<^verbatim>\<open>durable-objects/user-graph/src/index.ts\<close>): its SQLite tables
  (\<^verbatim>\<open>packages/shared/src/schema.ts\<close>), the two queues it sends to and the source of its identifiers.
  A table is the list of its rows; a row type has the columns the modelled methods read or write.
  Every statement is an operation that checks the constraints the schema declares and reports the
  violation, so an invariant of the tables is a theorem about the methods and not an assumption.

  The environment gives what comes from outside: the clock (read as one value during a call), the
  \<^verbatim>\<open>ulid\<close> package, SHA-256, the date formats whose reading is left to the engine, and which sends a
  queue rejects. Another request that interleaves at an \<^verbatim>\<open>await\<close> is not modelled.
\<close>

section \<open>Rows\<close>

datatype mirror_state = PENDING | ACTIVE | DELETED | TOMBSTONED | ERROR

record event_row =
  ce_canonical_event_id :: string
  ce_origin_account_id :: string
  ce_origin_event_id :: string
  ce_title :: "string option"
  ce_description :: "string option"
  ce_location :: "string option"
  ce_start_ts :: string
  ce_end_ts :: string
  ce_timezone :: "string option"
  ce_all_day :: bool
  ce_status :: string
  ce_visibility :: string
  ce_transparency :: string
  ce_recurrence_rule :: "string option"
  ce_source :: string
  ce_version :: nat
  ce_created_at :: string
  ce_updated_at :: string
  ce_constraint_id :: "string option"

record mirror_row =
  em_canonical_event_id :: string
  em_target_account_id :: string
  em_target_calendar_id :: string
  em_provider_event_id :: "string option"
  em_last_projected_hash :: "string option"
  em_last_write_ts :: "string option"
  em_state :: mirror_state
  em_error_message :: "string option"

record journal_row =
  ej_journal_id :: string
  ej_canonical_event_id :: string
  ej_ts :: string
  ej_actor :: string
  ej_change_type :: string
  ej_patch_json :: "string option"
  ej_reason :: "string option"

record calendar_row =
  ca_calendar_id :: string
  ca_account_id :: string
  ca_provider_calendar_id :: string
  ca_role :: string
  ca_kind :: string
  ca_display_name :: "string option"

record policy_row =
  po_policy_id :: string
  po_name :: string
  po_is_default :: bool
  po_created_at :: string

record edge_row =
  pe_policy_id :: string
  pe_from_account_id :: string
  pe_to_account_id :: string
  pe_detail_level :: string
  pe_calendar_kind :: string

text \<open>
  \<^verbatim>\<open>config_json\<close> is written with \<^verbatim>\<open>JSON.stringify\<close> and read with \<^verbatim>\<open>JSON.parse\<close> only; the column
  holds the value.
\<close>

record constraint_row =
  cn_constraint_id :: string
  cn_kind :: string
  cn_config_json :: json
  cn_active_from :: "string option"
  cn_active_to :: "string option"
  cn_created_at :: string

record allocation_row =
  ta_allocation_id :: string
  ta_canonical_event_id :: string
  ta_client_id :: "string option"
  ta_billing_category :: string
  ta_rate :: "rat option"
  ta_confidence :: string
  ta_locked :: bool
  ta_created_at :: string

record commitment_row =
  tc_commitment_id :: string
  tc_client_id :: string
  tc_client_name :: "string option"
  tc_window_type :: string
  tc_target_hours :: rat
  tc_rolling_window_weeks :: int
  tc_hard_minimum :: bool
  tc_proof_required :: bool
  tc_created_at :: string

record report_row =
  cr_report_id :: string
  cr_commitment_id :: string
  cr_window_start :: string
  cr_window_end :: string
  cr_actual_hours :: rat
  cr_expected_hours :: rat
  cr_status :: string
  cr_created_at :: string

record vip_row =
  vp_vip_id :: string
  vp_participant_hash :: string
  vp_display_name :: "string option"
  vp_priority_weight :: rat
  vp_conditions_json :: json
  vp_created_at :: string

record relationship_row =
  rl_relationship_id :: string
  rl_participant_hash :: string
  rl_display_name :: "string option"
  rl_category :: string
  rl_closeness_weight :: rat
  rl_last_interaction_ts :: "string option"
  rl_city :: "string option"
  rl_timezone :: "string option"
  rl_interaction_frequency_target :: "int option"
  rl_created_at :: string
  rl_updated_at :: string

record ledger_row =
  il_ledger_id :: string
  il_participant_hash :: string
  il_canonical_event_id :: "string option"
  il_outcome :: string
  il_weight :: rat
  il_note :: "string option"
  il_ts :: string

record milestone_row =
  mi_milestone_id :: string
  mi_participant_hash :: "string option"
  mi_kind :: string
  mi_date :: string
  mi_recurs_annually :: bool
  mi_note :: "string option"
  mi_created_at :: string

record drift_row =
  da_alert_id :: string
  da_relationship_id :: string
  da_display_name :: "string option"
  da_category :: string
  da_drift_ratio :: rat
  da_days_overdue :: int
  da_urgency :: rat
  da_computed_at :: string

record history_row =
  hi_id :: string
  hi_session_id :: string
  hi_participant_hash :: string
  hi_got_preferred :: bool
  hi_scheduled_ts :: string

record participant_row =
  ep_canonical_event_id :: string
  ep_participant_hash :: string

record session_row =
  ss_session_id :: string
  ss_status :: string
  ss_objective_json :: "json option"
  ss_created_at :: string

record candidate_row =
  sc_candidate_id :: string
  sc_session_id :: string
  sc_start_ts :: string
  sc_end_ts :: string
  sc_score :: "rat option"
  sc_explanation :: "string option"

record hold_row =
  sh_hold_id :: string
  sh_session_id :: string
  sh_account_id :: string
  sh_provider_event_id :: "string option"
  sh_expires_at :: string
  sh_status :: string

section \<open>Queue messages\<close>

record upsert_message =
  um_canonical_event_id :: string
  um_target_account_id :: string
  um_target_calendar_id :: string
  um_projected_hash :: "string option"
  um_projected_payload :: projected_event
  um_idempotency_key :: string

record delete_message =
  dm_canonical_event_id :: string
  dm_target_account_id :: string
  dm_target_calendar_id :: "string option"
  dm_provider_event_id :: string
  dm_idempotency_key :: "string option"

datatype queue_message =
    UPSERT_MIRROR upsert_message
  | DELETE_MIRROR delete_message

section \<open>The object\<close>

record user_graph =
  calendars :: "calendar_row list"
  canonical_events :: "event_row list"
  event_mirrors :: "mirror_row list"
  event_journal :: "journal_row list"
  policies :: "policy_row list"
  policy_edges :: "edge_row list"
  constraints :: "constraint_row list"
  time_allocations :: "allocation_row list"
  time_commitments :: "commitment_row list"
  commitment_reports :: "report_row list"
  vip_policies :: "vip_row list"
  interaction_ledger :: "ledger_row list"
  milestones :: "milestone_row list"
  drift_alerts :: "drift_row list"
  scheduling_history :: "history_row list"
  relationships :: "relationship_row list"
  event_participants :: "participant_row list"
  schedule_sessions :: "session_row list"
  schedule_candidates :: "candidate_row list"
  schedule_holds :: "hold_row list"
  write_queue :: "queue_message list"
  delete_queue :: "queue_message list"
  id_seq :: nat
  send_seq :: nat

definition emptyGraph :: user_graph where
  "emptyGraph =
     \<lparr> calendars = [], canonical_events = [], event_mirrors = [], event_journal = [],
       policies = [], policy_edges = [], constraints = [], time_allocations = [],
       time_commitments = [], commitment_reports = [], vip_policies = [],
       interaction_ledger = [], milestones = [], drift_alerts = [], scheduling_history = [],
       relationships = [], event_participants = [], schedule_sessions = [],
       schedule_candidates = [], schedule_holds = [], write_queue = [], delete_queue = [],
       id_seq = 0, send_seq = 0 \<rparr>"

record graph_env =
  now_ms :: int
  ulid :: "nat \<Rightarrow> string"
  sha256 :: "string \<Rightarrow> string"
  js_date :: "string \<Rightarrow> int option"
  sql_date :: "string \<Rightarrow> int option"
  send_fails :: "nat \<Rightarrow> bool"
  has_delete_queue :: bool

type_synonym 'a graph_op = "(user_graph, 'a) op"

text \<open>\<^verbatim>\<open>new Date().toISOString()\<close> and SQLite's \<^verbatim>\<open>datetime('now')\<close>.\<close>

definition nowIso :: "graph_env \<Rightarrow> string" where
  "nowIso env = toISOString (now_ms env)"

definition datetimeNow :: "graph_env \<Rightarrow> string" where
  "datetimeNow env = sqlDatetime (now_ms env)"

section \<open>Statements\<close>

text \<open>
  A new identifier. The code draws a ULID; here \<open>ulid\<close> is the sequence of the values drawn and \<open>id_seq\<close> says how many
  were, so that no value comes twice is the hypothesis that \<open>ulid\<close> is injective.
\<close>

definition freshId :: "graph_env \<Rightarrow> string \<Rightarrow> string graph_op" where
  "freshId env entity s =
     (Inr (generateId entity (ulid env (id_seq s))), s\<lparr> id_seq := id_seq s + 1 \<rparr>)"

definition eventsWithId :: "string \<Rightarrow> user_graph \<Rightarrow> event_row list" where
  "eventsWithId cid s = filter (\<lambda>r. ce_canonical_event_id r = cid) (canonical_events s)"

definition eventsByOrigin :: "string \<Rightarrow> string \<Rightarrow> user_graph \<Rightarrow> event_row list" where
  "eventsByOrigin acct oid s =
     filter (\<lambda>r. ce_origin_account_id r = acct \<and> ce_origin_event_id r = oid) (canonical_events s)"

definition mirrorsOf :: "string \<Rightarrow> user_graph \<Rightarrow> mirror_row list" where
  "mirrorsOf cid s = filter (\<lambda>m. em_canonical_event_id m = cid) (event_mirrors s)"

definition mirrorRows :: "string \<Rightarrow> string \<Rightarrow> user_graph \<Rightarrow> mirror_row list" where
  "mirrorRows cid target s =
     filter (\<lambda>m. em_canonical_event_id m = cid \<and> em_target_account_id m = target) (event_mirrors s)"

definition edgesFrom :: "string \<Rightarrow> user_graph \<Rightarrow> edge_row list" where
  "edgesFrom acct s = filter (\<lambda>e. pe_from_account_id e = acct) (policy_edges s)"

text \<open>\<^verbatim>\<open>INSERT INTO canonical_events\<close>: the primary key, the pair of origin keys and the constraint.\<close>

definition insertEventRow :: "event_row \<Rightarrow> unit graph_op" where
  "insertEventRow r s =
     (if eventsWithId (ce_canonical_event_id r) s \<noteq> []
      then (Inl (UniqueViolation ''canonical_events.canonical_event_id''), s)
      else if eventsByOrigin (ce_origin_account_id r) (ce_origin_event_id r) s \<noteq> []
      then (Inl (UniqueViolation ''canonical_events.origin_account_id, canonical_events.origin_event_id''), s)
      else if (\<exists>k. ce_constraint_id r = Some k \<and> k \<notin> cn_constraint_id ` set (constraints s))
      then (Inl ForeignKeyViolation, s)
      else (Inr (), s\<lparr> canonical_events := canonical_events s @ [r] \<rparr>))"

text \<open>\<^verbatim>\<open>UPDATE canonical_events SET ... WHERE canonical_event_id = ?\<close> leaving the keys alone.\<close>

definition updateEventRow :: "string \<Rightarrow> (event_row \<Rightarrow> event_row) \<Rightarrow> unit graph_op" where
  "updateEventRow cid f =
     modify (\<lambda>s. s\<lparr> canonical_events :=
       updateRows (\<lambda>r. ce_canonical_event_id r = cid) f (canonical_events s) \<rparr>)"

text \<open>The same statement with \<^verbatim>\<open>origin_account_id = ?\<close>, which can break the pair of origin keys.\<close>

definition rebindEventRow :: "string \<Rightarrow> string \<Rightarrow> (event_row \<Rightarrow> event_row) \<Rightarrow> unit graph_op" where
  "rebindEventRow cid acct f s =
     (if \<exists>r \<in> set (canonical_events s). \<exists>q \<in> set (canonical_events s).
           ce_canonical_event_id r = cid \<and> ce_canonical_event_id q \<noteq> cid \<and>
           ce_origin_account_id q = acct \<and> ce_origin_event_id q = ce_origin_event_id r
      then (Inl (UniqueViolation ''canonical_events.origin_account_id, canonical_events.origin_event_id''), s)
      else (Inr (), s\<lparr> canonical_events :=
              updateRows (\<lambda>r. ce_canonical_event_id r = cid)
                (\<lambda>r. (f r)\<lparr> ce_origin_account_id := acct \<rparr>) (canonical_events s) \<rparr>))"

text \<open>
  \<^verbatim>\<open>DELETE FROM canonical_events\<close>: rows of \<^verbatim>\<open>event_mirrors\<close> and \<^verbatim>\<open>time_allocations\<close> that reference a
  deleted event make the statement fail, those of \<^verbatim>\<open>event_participants\<close> go with it.
\<close>

definition deleteEventRows :: "(event_row \<Rightarrow> bool) \<Rightarrow> unit graph_op" where
  "deleteEventRows P s =
     (let gone = ce_canonical_event_id ` set (filter P (canonical_events s)) in
      if (\<exists>m \<in> set (event_mirrors s). em_canonical_event_id m \<in> gone) \<or>
         (\<exists>a \<in> set (time_allocations s). ta_canonical_event_id a \<in> gone)
      then (Inl ForeignKeyViolation, s)
      else (Inr (), s\<lparr> canonical_events := deleteRows P (canonical_events s),
                      event_participants :=
                        deleteRows (\<lambda>p. ep_canonical_event_id p \<in> gone) (event_participants s) \<rparr>))"

definition insertMirrorRow :: "mirror_row \<Rightarrow> unit graph_op" where
  "insertMirrorRow m s =
     (if mirrorRows (em_canonical_event_id m) (em_target_account_id m) s \<noteq> []
      then (Inl (UniqueViolation ''event_mirrors.canonical_event_id, event_mirrors.target_account_id''), s)
      else if eventsWithId (em_canonical_event_id m) s = [] then (Inl ForeignKeyViolation, s)
      else (Inr (), s\<lparr> event_mirrors := event_mirrors s @ [m] \<rparr>))"

definition updateMirrorRows ::
  "(mirror_row \<Rightarrow> bool) \<Rightarrow> (mirror_row \<Rightarrow> mirror_row) \<Rightarrow> unit graph_op" where
  "updateMirrorRows P f = modify (\<lambda>s. s\<lparr> event_mirrors := updateRows P f (event_mirrors s) \<rparr>)"

definition deleteMirrorRows :: "(mirror_row \<Rightarrow> bool) \<Rightarrow> unit graph_op" where
  "deleteMirrorRows P = modify (\<lambda>s. s\<lparr> event_mirrors := deleteRows P (event_mirrors s) \<rparr>)"

definition insertJournalRow :: "journal_row \<Rightarrow> unit graph_op" where
  "insertJournalRow j s =
     (if ej_journal_id j \<in> ej_journal_id ` set (event_journal s)
      then (Inl (UniqueViolation ''event_journal.journal_id''), s)
      else (Inr (), s\<lparr> event_journal := event_journal s @ [j] \<rparr>))"

definition writeJournal ::
  "graph_env \<Rightarrow> string \<Rightarrow> string \<Rightarrow> string \<Rightarrow> json \<Rightarrow> string option \<Rightarrow> unit graph_op" where
  "writeJournal env cid changeType actor patch reason =
     andThen (freshId env ''journal'') (\<lambda>jid.
       insertJournalRow
         \<lparr> ej_journal_id = jid, ej_canonical_event_id = cid, ej_ts = datetimeNow env,
           ej_actor = actor, ej_change_type = changeType,
           ej_patch_json = Some (stringify patch), ej_reason = reason \<rparr>)"

section \<open>Queues\<close>

text \<open>
  The constructor's \<^verbatim>\<open>deleteQueue ?? writeQueue\<close>: without a second binding both names are the write
  queue. A rejected \<^verbatim>\<open>send\<close> delivers nothing.
\<close>

definition sendWrite :: "graph_env \<Rightarrow> queue_message list \<Rightarrow> unit graph_op" where
  "sendWrite env ms s =
     (if send_fails env (send_seq s) then (Inl QueueRejected, s\<lparr> send_seq := send_seq s + 1 \<rparr>)
      else (Inr (), s\<lparr> send_seq := send_seq s + 1, write_queue := write_queue s @ ms \<rparr>))"

definition sendDelete :: "graph_env \<Rightarrow> queue_message list \<Rightarrow> unit graph_op" where
  "sendDelete env ms s =
     (if has_delete_queue env
      then if send_fails env (send_seq s) then (Inl QueueRejected, s\<lparr> send_seq := send_seq s + 1 \<rparr>)
           else (Inr (), s\<lparr> send_seq := send_seq s + 1, delete_queue := delete_queue s @ ms \<rparr>)
      else sendWrite env ms s)"

section \<open>Rows as domain objects\<close>

definition rowDateTime :: "event_row \<Rightarrow> string \<Rightarrow> event_date_time" where
  "rowDateTime r ts =
     (if ce_all_day r then \<lparr> dt_dateTime = None, dt_date = Some ts, dt_timeZone = None \<rparr>
      else \<lparr> dt_dateTime = Some ts, dt_date = None,
             dt_timeZone = (if truthy (ce_timezone r) then ce_timezone r else None) \<rparr>)"

definition rowToCanonicalEvent :: "event_row \<Rightarrow> canonical_event" where
  "rowToCanonicalEvent r =
     \<lparr> ev_canonical_event_id = ce_canonical_event_id r,
       ev_origin_account_id = ce_origin_account_id r,
       ev_origin_event_id = ce_origin_event_id r,
       ev_title = ce_title r, ev_description = ce_description r, ev_location = ce_location r,
       ev_start = rowDateTime r (ce_start_ts r), ev_end = rowDateTime r (ce_end_ts r),
       ev_all_day = ce_all_day r, ev_status = ce_status r, ev_visibility = ce_visibility r,
       ev_transparency = ce_transparency r, ev_recurrence_rule = ce_recurrence_rule r,
       ev_source = ce_source r, ev_version = ce_version r,
       ev_created_at = ce_created_at r, ev_updated_at = ce_updated_at r \<rparr>"

end
