(* ===== verification/Graph_Invariant.thy ===== *)
theory Graph_Invariant
  imports Graph_Store
begin

text \<open>
  What holds of a \<^verbatim>\<open>UserGraphDO\<close>'s tables whatever method ran and wherever it threw: the declared
  keys and references, valid policy edges, and journal identifiers that were all drawn from the
  id source. Every statement keeps it, so every method does; and what a method may never do to
  the journal and the queues is a contract between the state before and after.
\<close>

section \<open>Well-formed tables\<close>

definition eventKey :: "event_row \<Rightarrow> string \<times> string" where
  "eventKey r = (ce_origin_account_id r, ce_origin_event_id r)"

definition mirrorKey :: "mirror_row \<Rightarrow> string \<times> string" where
  "mirrorKey m = (em_canonical_event_id m, em_target_account_id m)"

definition edgeKey :: "edge_row \<Rightarrow> string \<times> string \<times> string" where
  "edgeKey e = (pe_policy_id e, pe_from_account_id e, pe_to_account_id e)"

definition participantKey :: "participant_row \<Rightarrow> string \<times> string" where
  "participantKey p = (ep_canonical_event_id p, ep_participant_hash p)"

definition eventIds :: "user_graph \<Rightarrow> string set" where
  "eventIds s = ce_canonical_event_id ` set (canonical_events s)"

definition events_ok :: "user_graph \<Rightarrow> bool" where
  "events_ok s \<longleftrightarrow>
     distinct (map ce_canonical_event_id (canonical_events s)) \<and>
     distinct (map eventKey (canonical_events s)) \<and>
     (\<forall>r \<in> set (canonical_events s). \<forall>k. ce_constraint_id r = Some k \<longrightarrow>
        k \<in> cn_constraint_id ` set (constraints s)) \<and>
     distinct (map cn_constraint_id (constraints s))"

definition mirrors_ok :: "user_graph \<Rightarrow> bool" where
  "mirrors_ok s \<longleftrightarrow>
     distinct (map mirrorKey (event_mirrors s)) \<and>
     em_canonical_event_id ` set (event_mirrors s) \<subseteq> eventIds s"

definition references_ok :: "user_graph \<Rightarrow> bool" where
  "references_ok s \<longleftrightarrow>
     ta_canonical_event_id ` set (time_allocations s) \<subseteq> eventIds s \<and>
     distinct (map participantKey (event_participants s)) \<and>
     ep_canonical_event_id ` set (event_participants s) \<subseteq> eventIds s"

definition validKind :: "string \<Rightarrow> bool" where
  "validKind k \<longleftrightarrow> k \<in> {''BUSY_OVERLAY'', ''TRUE_MIRROR''}"

definition policies_ok :: "user_graph \<Rightarrow> bool" where
  "policies_ok s \<longleftrightarrow>
     distinct (map po_policy_id (policies s)) \<and>
     distinct (map edgeKey (policy_edges s)) \<and>
     pe_policy_id ` set (policy_edges s) \<subseteq> po_policy_id ` set (policies s) \<and>
     (\<forall>e \<in> set (policy_edges s). validDetail (pe_detail_level e) \<and> validKind (pe_calendar_kind e))"

definition calendars_ok :: "user_graph \<Rightarrow> bool" where
  "calendars_ok s \<longleftrightarrow>
     distinct (map ca_calendar_id (calendars s)) \<and>
     distinct (map (\<lambda>c. (ca_account_id c, ca_provider_calendar_id c)) (calendars s))"

text \<open>
  Journal ids come from the id source, except those of the deletions \<^verbatim>\<open>unlinkAccount\<close> records, which
  are built from the account and the event.
\<close>

definition drawn :: "graph_env \<Rightarrow> nat \<Rightarrow> string \<Rightarrow> bool" where
  "drawn env n jid \<longleftrightarrow>
     prefix ''unlinkdel:'' jid \<or> (\<exists>k < n. jid = generateId ''journal'' (ulid env k))"

definition journal_ok :: "graph_env \<Rightarrow> user_graph \<Rightarrow> bool" where
  "journal_ok env s \<longleftrightarrow>
     distinct (map ej_journal_id (event_journal s)) \<and>
     (\<forall>j \<in> set (event_journal s). drawn env (id_seq s) (ej_journal_id j))"

lemma drawn_mono: "drawn env n jid \<Longrightarrow> n \<le> m \<Longrightarrow> drawn env m jid"
  unfolding drawn_def using less_le_trans [of _ n m] by blast

lemma drawn_Suc: "drawn env n jid \<Longrightarrow> drawn env (Suc n) jid"
  using drawn_mono [of env n jid "Suc n"] by simp

lemma drawn_new: "drawn env (Suc n) (generateId ''journal'' (ulid env n))"
  unfolding drawn_def by blast

lemma drawn_not_next:
  assumes "inj (ulid env)" and "drawn env n jid"
  shows "jid \<noteq> generateId ''journal'' (ulid env n)"
  using assms by (auto simp: drawn_def generateId_def ID_PREFIXES_def inj_eq)

definition sessions_ok :: "user_graph \<Rightarrow> bool" where
  "sessions_ok s \<longleftrightarrow>
     distinct (map ss_session_id (schedule_sessions s)) \<and>
     distinct (map sc_candidate_id (schedule_candidates s)) \<and>
     distinct (map sh_hold_id (schedule_holds s)) \<and>
     sc_session_id ` set (schedule_candidates s) \<subseteq> ss_session_id ` set (schedule_sessions s) \<and>
     sh_session_id ` set (schedule_holds s) \<subseteq> ss_session_id ` set (schedule_sessions s)"

text \<open>
  The tables about people and time: keys and references, and the values the methods validate before
  they write (one allocation per event and one commitment per client are checked by hand, the schema
  does not declare them).
\<close>

definition relationship_valid :: "relationship_row \<Rightarrow> bool" where
  "relationship_valid r \<longleftrightarrow>
     isValidRelationshipCategory (rl_category r) \<and>
     0 \<le> rl_closeness_weight r \<and> rl_closeness_weight r \<le> 1 \<and>
     (\<forall>n. rl_interaction_frequency_target r = Some n \<longrightarrow> 0 < n)"

definition allocation_valid :: "allocation_row \<Rightarrow> bool" where
  "allocation_valid a \<longleftrightarrow>
     isValidBillingCategory (ta_billing_category a) \<and> (\<forall>x. ta_rate a = Some x \<longrightarrow> 0 \<le> x)"

definition commitment_valid :: "commitment_row \<Rightarrow> bool" where
  "commitment_valid c \<longleftrightarrow>
     tc_window_type c \<in> {''WEEKLY'', ''MONTHLY''} \<and> 0 < tc_target_hours c \<and>
     1 \<le> tc_rolling_window_weeks c \<and> tc_client_id c \<noteq> []"

definition people_ok :: "user_graph \<Rightarrow> bool" where
  "people_ok s \<longleftrightarrow>
     distinct (map rl_relationship_id (relationships s)) \<and>
     distinct (map rl_participant_hash (relationships s)) \<and>
     Ball (set (relationships s)) relationship_valid \<and>
     da_relationship_id ` set (drift_alerts s) \<subseteq> rl_relationship_id ` set (relationships s)"

definition time_ok :: "user_graph \<Rightarrow> bool" where
  "time_ok s \<longleftrightarrow>
     distinct (map ta_allocation_id (time_allocations s)) \<and>
     distinct (map ta_canonical_event_id (time_allocations s)) \<and>
     Ball (set (time_allocations s)) allocation_valid \<and>
     distinct (map tc_commitment_id (time_commitments s)) \<and>
     distinct (map tc_client_id (time_commitments s)) \<and>
     Ball (set (time_commitments s)) commitment_valid \<and>
     cr_commitment_id ` set (commitment_reports s) \<subseteq> tc_commitment_id ` set (time_commitments s)"

definition graph_ok :: "graph_env \<Rightarrow> user_graph \<Rightarrow> bool" where
  "graph_ok env s \<longleftrightarrow>
     events_ok s \<and> mirrors_ok s \<and> references_ok s \<and> policies_ok s \<and> calendars_ok s \<and>
     journal_ok env s \<and> sessions_ok s \<and> people_ok s \<and> time_ok s"

lemma graph_ok_empty: "graph_ok env emptyGraph"
  by (simp add: graph_ok_def emptyGraph_def events_ok_def mirrors_ok_def references_ok_def
        policies_ok_def calendars_ok_def journal_ok_def sessions_ok_def people_ok_def time_ok_def)

lemmas graph_ok_parts = graph_ok_def events_ok_def mirrors_ok_def references_ok_def
  policies_ok_def calendars_ok_def journal_ok_def sessions_ok_def people_ok_def time_ok_def eventIds_def

section \<open>What the keys give\<close>

lemma ok_events_distinct: "graph_ok env s \<Longrightarrow> distinct (map ce_canonical_event_id (canonical_events s))"
  by (simp add: graph_ok_def events_ok_def)

lemma ok_mirrors_distinct: "graph_ok env s \<Longrightarrow> distinct (map mirrorKey (event_mirrors s))"
  by (simp add: graph_ok_def mirrors_ok_def)

lemma eventsWithId_unique:
  assumes "graph_ok env s" and "r \<in> set (canonical_events s)" and "ce_canonical_event_id r = cid"
  shows "eventsWithId cid s = [r]"
  using distinct_key_filter [OF ok_events_distinct [OF assms(1)] assms(2)] assms(3)
  by (simp add: eventsWithId_def)

lemma eventsWithId_cases:
  assumes "graph_ok env s"
  obtains "eventsWithId cid s = []" "cid \<notin> eventIds s"
  | r where "eventsWithId cid s = [r]" "r \<in> set (canonical_events s)" "ce_canonical_event_id r = cid"
proof (cases "cid \<in> eventIds s")
  case True
  then obtain r where "r \<in> set (canonical_events s)" "ce_canonical_event_id r = cid"
    by (auto simp: eventIds_def)
  with eventsWithId_unique [OF assms this] that(2) show thesis by blast
next
  case False
  then have "eventsWithId cid s = []" by (auto simp: eventsWithId_def eventIds_def filter_empty_conv)
  with False that(1) show thesis by blast
qed

lemma eventsWithId_nonempty: "eventsWithId cid s \<noteq> [] \<longleftrightarrow> cid \<in> eventIds s"
  by (auto simp: eventsWithId_def eventIds_def filter_empty_conv)

lemma eventsByOrigin_key: "eventsByOrigin a o' s = filter (\<lambda>r. eventKey r = (a, o')) (canonical_events s)"
  by (simp add: eventsByOrigin_def eventKey_def)

lemma eventsByOrigin_cases:
  assumes "graph_ok env s"
  obtains "eventsByOrigin a x s = []" "(a, x) \<notin> eventKey ` set (canonical_events s)"
  | r where "eventsByOrigin a x s = [r]" "r \<in> set (canonical_events s)" "eventKey r = (a, x)"
proof (cases "(a, x) \<in> eventKey ` set (canonical_events s)")
  case True
  then obtain r where r: "r \<in> set (canonical_events s)" "eventKey r = (a, x)" by force
  have "distinct (map eventKey (canonical_events s))"
    using assms by (simp add: graph_ok_def events_ok_def)
  from distinct_key_filter [OF this r(1)] r that(2) show thesis
    by (simp add: eventsByOrigin_key)
next
  case False
  then have "eventsByOrigin a x s = []" by (force simp: eventsByOrigin_key filter_empty_conv)
  with False that(1) show thesis by blast
qed

lemma mirrorRows_key: "mirrorRows c t s = filter (\<lambda>m. mirrorKey m = (c, t)) (event_mirrors s)"
  by (simp add: mirrorRows_def mirrorKey_def)

lemma mirrorRows_cases:
  assumes "graph_ok env s"
  obtains "mirrorRows c t s = []" "(c, t) \<notin> mirrorKey ` set (event_mirrors s)"
  | m where "mirrorRows c t s = [m]" "m \<in> set (event_mirrors s)" "mirrorKey m = (c, t)"
proof (cases "(c, t) \<in> mirrorKey ` set (event_mirrors s)")
  case True
  then obtain m where m: "m \<in> set (event_mirrors s)" "mirrorKey m = (c, t)" by force
  from distinct_key_filter [OF ok_mirrors_distinct [OF assms] m(1)] m that(2) show thesis
    by (simp add: mirrorRows_key)
next
  case False
  then have "mirrorRows c t s = []" by (force simp: mirrorRows_key filter_empty_conv)
  with False that(1) show thesis by blast
qed

section \<open>Every statement keeps the tables well formed\<close>

named_theorems graph_keeps \<open>methods that keep the tables well formed\<close>

lemma graph_ok_frame:
  assumes "graph_ok env s"
  shows "graph_ok env (s\<lparr> write_queue := w \<rparr>)" and "graph_ok env (s\<lparr> delete_queue := w \<rparr>)"
    and "graph_ok env (s\<lparr> send_seq := n \<rparr>)"
    and "graph_ok env (s\<lparr> vip_policies := y3 \<rparr>)" and "graph_ok env (s\<lparr> interaction_ledger := y4 \<rparr>)"
    and "graph_ok env (s\<lparr> milestones := y5 \<rparr>)" and "graph_ok env (s\<lparr> scheduling_history := y7 \<rparr>)"
    and "id_seq s \<le> n \<Longrightarrow> graph_ok env (s\<lparr> id_seq := n \<rparr>)"
  using assms by (auto simp: graph_ok_parts intro: drawn_mono)

lemma graph_ok_updateRelationships:
  assumes ok: "graph_ok env s"
    and f: "\<And>r. rl_relationship_id (f r) = rl_relationship_id r \<and> rl_participant_hash (f r) = rl_participant_hash r"
    and v: "\<And>r. r \<in> set (relationships s) \<Longrightarrow> P r \<Longrightarrow> relationship_valid r \<Longrightarrow> relationship_valid (f r)"
  shows "graph_ok env (s\<lparr> relationships := updateRows P f (relationships s) \<rparr>)"
proof -
  have ids: "map rl_relationship_id (updateRows P f (relationships s)) = map rl_relationship_id (relationships s)"
    "map rl_participant_hash (updateRows P f (relationships s)) = map rl_participant_hash (relationships s)"
    using f by (auto intro!: map_updateRows)
  have "rl_relationship_id ` set (updateRows P f (relationships s)) = rl_relationship_id ` set (relationships s)"
    using ids(1) by (metis list.set_map)
  moreover have "Ball (set (updateRows P f (relationships s))) relationship_valid"
    using ok v by (auto simp: graph_ok_def people_ok_def updateRows_def)
  ultimately show ?thesis using ok ids by (simp add: graph_ok_parts)
qed

lemma keeps_freshId [graph_keeps]: "keeps (graph_ok env) (freshId env' entity)"
  by (rule keepsI) (simp add: freshId_def graph_ok_frame)

lemma keeps_insertEventRow [graph_keeps]: "keeps (graph_ok env) (insertEventRow r)"
proof (rule keepsI)
  fix s assume ok: "graph_ok env s"
  show "graph_ok env (snd (insertEventRow r s))"
  proof (cases "fst (insertEventRow r s) = Inr ()")
    case True
    then have "ce_canonical_event_id r \<notin> eventIds s" "eventKey r \<notin> eventKey ` set (canonical_events s)"
      "\<forall>k. ce_constraint_id r = Some k \<longrightarrow> k \<in> cn_constraint_id ` set (constraints s)"
      "snd (insertEventRow r s) = s\<lparr> canonical_events := canonical_events s @ [r] \<rparr>"
      by (auto simp: insertEventRow_def eventsWithId_nonempty eventsByOrigin_def eventKey_def
            filter_empty_conv split: if_splits)
    with ok show ?thesis by (auto simp: graph_ok_parts)
  next
    case False
    then have "snd (insertEventRow r s) = s" by (auto simp: insertEventRow_def split: if_splits)
    with ok show ?thesis by simp
  qed
qed

definition keepsEventKeys :: "(event_row \<Rightarrow> event_row) \<Rightarrow> bool" where
  "keepsEventKeys f \<longleftrightarrow> (\<forall>r. ce_canonical_event_id (f r) = ce_canonical_event_id r \<and>
     ce_origin_account_id (f r) = ce_origin_account_id r \<and>
     ce_origin_event_id (f r) = ce_origin_event_id r \<and> ce_constraint_id (f r) = ce_constraint_id r)"

lemma eventIds_update:
  "keepsEventKeys f \<Longrightarrow>
   ce_canonical_event_id ` set (updateRows P f rows) = ce_canonical_event_id ` set rows"
  using arg_cong [OF map_updateRows [of rows P ce_canonical_event_id f], of set]
  by (simp add: keepsEventKeys_def)

lemma graph_ok_updateEvents:
  assumes ok: "graph_ok env s" and f: "keepsEventKeys f"
  shows "graph_ok env (s\<lparr> canonical_events := updateRows P f (canonical_events s) \<rparr>)"
proof -
  have 1: "map ce_canonical_event_id (updateRows P f (canonical_events s)) =
           map ce_canonical_event_id (canonical_events s)"
    "map eventKey (updateRows P f (canonical_events s)) = map eventKey (canonical_events s)"
    using f by (auto intro!: map_updateRows simp: keepsEventKeys_def eventKey_def)
  have 2: "\<forall>r \<in> set (updateRows P f (canonical_events s)). \<forall>k. ce_constraint_id r = Some k \<longrightarrow>
        k \<in> cn_constraint_id ` set (constraints s)"
    using ok f by (auto simp: graph_ok_def events_ok_def set_updateRows keepsEventKeys_def)
  from ok 1 2 eventIds_update [OF f] show ?thesis
    by (simp add: graph_ok_parts)
qed

lemma keeps_updateEventRow [graph_keeps]:
  "keepsEventKeys f \<Longrightarrow> keeps (graph_ok env) (updateEventRow cid f)"
  unfolding updateEventRow_def by (intro keeps_modify graph_ok_updateEvents)

lemma keeps_rebindEventRow [graph_keeps]:
  assumes f: "keepsEventKeys f"
  shows "keeps (graph_ok env) (rebindEventRow cid acct f)"
proof (rule keepsI)
  fix s assume ok: "graph_ok env s"
  let ?g = "\<lambda>r. (f r)\<lparr> ce_origin_account_id := acct \<rparr>"
  let ?rows = "updateRows (\<lambda>r. ce_canonical_event_id r = cid) ?g (canonical_events s)"
  show "graph_ok env (snd (rebindEventRow cid acct f s))"
  proof (cases "fst (rebindEventRow cid acct f s) = Inr ()")
    case True
    then have free: "\<forall>r \<in> set (canonical_events s). \<forall>q \<in> set (canonical_events s).
        ce_canonical_event_id r = cid \<longrightarrow> ce_canonical_event_id q \<noteq> cid \<longrightarrow>
        \<not> (ce_origin_account_id q = acct \<and> ce_origin_event_id q = ce_origin_event_id r)"
      and upd: "snd (rebindEventRow cid acct f s) = s\<lparr> canonical_events := ?rows \<rparr>"
      by (auto simp: rebindEventRow_def split: if_splits)
    have ids: "map ce_canonical_event_id ?rows = map ce_canonical_event_id (canonical_events s)"
      using f by (intro map_updateRows) (simp add: keepsEventKeys_def)
    have dist: "distinct (map ce_canonical_event_id (canonical_events s))"
      "distinct (map eventKey (canonical_events s))"
      using ok by (simp_all add: graph_ok_def events_ok_def)
    have "inj_on (\<lambda>r. eventKey (if ce_canonical_event_id r = cid then ?g r else r))
            (set (canonical_events s))"
    proof (rule inj_onI)
      fix r q
      assume r: "r \<in> set (canonical_events s)" and q: "q \<in> set (canonical_events s)"
        and eq: "eventKey (if ce_canonical_event_id r = cid then ?g r else r) =
                 eventKey (if ce_canonical_event_id q = cid then ?g q else q)"
      have "ce_canonical_event_id r = ce_canonical_event_id q \<or> eventKey r = eventKey q"
        using eq free [rule_format, OF r q] free [rule_format, OF q r] f
        by (auto simp: eventKey_def keepsEventKeys_def split: if_splits)
      then show "r = q" using distinct_key_eq dist r q by metis
    qed
    then have "distinct (map eventKey ?rows)"
      using dist(1) by (simp add: updateRows_def distinct_map comp_def inj_on_def)
    moreover have "\<forall>r \<in> set ?rows. \<forall>k. ce_constraint_id r = Some k \<longrightarrow>
        k \<in> cn_constraint_id ` set (constraints s)"
      using ok f by (auto simp: graph_ok_def events_ok_def set_updateRows keepsEventKeys_def)
    moreover have "ce_canonical_event_id ` set ?rows = ce_canonical_event_id ` set (canonical_events s)"
      using arg_cong [OF ids, of set] by simp
    ultimately show ?thesis using ok ids by (simp add: upd graph_ok_parts)
  next
    case False
    then have "snd (rebindEventRow cid acct f s) = s" by (auto simp: rebindEventRow_def split: if_splits)
    with ok show ?thesis by simp
  qed
qed

lemma graph_ok_deleteEvents:
  assumes ok: "graph_ok env s"
    and m: "\<forall>m \<in> set (event_mirrors s). em_canonical_event_id m \<notin> gone"
    and a: "\<forall>a \<in> set (time_allocations s). ta_canonical_event_id a \<notin> gone"
    and gone: "gone = ce_canonical_event_id ` set (filter P (canonical_events s))"
  shows "graph_ok env (s\<lparr> canonical_events := deleteRows P (canonical_events s),
           event_participants := deleteRows (\<lambda>p. ep_canonical_event_id p \<in> gone) (event_participants s) \<rparr>)"
proof -
  have ids: "eventIds s - gone \<subseteq> ce_canonical_event_id ` set (deleteRows P (canonical_events s))"
    by (auto simp: eventIds_def gone)
  from ok m have 1: "em_canonical_event_id ` set (event_mirrors s) \<subseteq> eventIds s - gone"
    by (auto simp: graph_ok_def mirrors_ok_def)
  from ok a have 2: "ta_canonical_event_id ` set (time_allocations s) \<subseteq> eventIds s - gone"
    by (auto simp: graph_ok_def references_ok_def)
  from ok have 3: "ep_canonical_event_id `
      set (deleteRows (\<lambda>p. ep_canonical_event_id p \<in> gone) (event_participants s)) \<subseteq> eventIds s - gone"
    by (auto simp: graph_ok_def references_ok_def)
  from ok have 4: "\<forall>r. r \<in> set (canonical_events s) \<and> \<not> P r \<longrightarrow>
      (\<forall>k. ce_constraint_id r = Some k \<longrightarrow> k \<in> cn_constraint_id ` set (constraints s))"
    unfolding graph_ok_def events_ok_def by blast
  from ok 4 order_trans [OF 1 ids] order_trans [OF 2 ids] order_trans [OF 3 ids] show ?thesis
    unfolding graph_ok_parts by (simp add: distinct_map_deleteRows)
qed

lemma keeps_deleteEventRows [graph_keeps]: "keeps (graph_ok env) (deleteEventRows P)"
proof (rule keepsI)
  fix s assume "graph_ok env s"
  then show "graph_ok env (snd (deleteEventRows P s))"
    by (auto simp: deleteEventRows_def Let_def intro!: graph_ok_deleteEvents)
qed

lemma keeps_insertMirrorRow [graph_keeps]: "keeps (graph_ok env) (insertMirrorRow m)"
proof (rule keepsI)
  fix s assume ok: "graph_ok env s"
  show "graph_ok env (snd (insertMirrorRow m s))"
  proof (cases "fst (insertMirrorRow m s) = Inr ()")
    case True
    then have "mirrorKey m \<notin> mirrorKey ` set (event_mirrors s)" "em_canonical_event_id m \<in> eventIds s"
      "snd (insertMirrorRow m s) = s\<lparr> event_mirrors := event_mirrors s @ [m] \<rparr>"
      using eventsWithId_nonempty [of "em_canonical_event_id m" s]
      by (auto simp: insertMirrorRow_def mirrorRows_def mirrorKey_def filter_empty_conv split: if_splits)
    with ok show ?thesis by (auto simp: graph_ok_parts)
  next
    case False
    then have "snd (insertMirrorRow m s) = s" by (auto simp: insertMirrorRow_def split: if_splits)
    with ok show ?thesis by simp
  qed
qed

definition keepsMirrorKey :: "(mirror_row \<Rightarrow> mirror_row) \<Rightarrow> bool" where
  "keepsMirrorKey f \<longleftrightarrow> (\<forall>m. em_canonical_event_id (f m) = em_canonical_event_id m \<and>
     em_target_account_id (f m) = em_target_account_id m)"

lemma graph_ok_updateMirrors:
  assumes ok: "graph_ok env s" and f: "keepsMirrorKey f"
  shows "graph_ok env (s\<lparr> event_mirrors := updateRows P f (event_mirrors s) \<rparr>)"
proof -
  have 1: "map mirrorKey (updateRows P f (event_mirrors s)) = map mirrorKey (event_mirrors s)"
    using f by (intro map_updateRows) (simp add: keepsMirrorKey_def mirrorKey_def)
  have "map em_canonical_event_id (updateRows P f (event_mirrors s)) =
        map em_canonical_event_id (event_mirrors s)"
    using f by (intro map_updateRows) (simp add: keepsMirrorKey_def)
  then have 2: "em_canonical_event_id ` set (updateRows P f (event_mirrors s)) =
        em_canonical_event_id ` set (event_mirrors s)"
    by (metis list.set_map)
  from ok 1 2 show ?thesis by (simp add: graph_ok_parts)
qed

lemma keeps_updateMirrorRows [graph_keeps]:
  "keepsMirrorKey f \<Longrightarrow> keeps (graph_ok env) (updateMirrorRows P f)"
  unfolding updateMirrorRows_def by (intro keeps_modify graph_ok_updateMirrors)

lemma graph_ok_deleteMirrors:
  "graph_ok env s \<Longrightarrow> graph_ok env (s\<lparr> event_mirrors := deleteRows P (event_mirrors s) \<rparr>)"
  by (auto simp: graph_ok_parts distinct_map_deleteRows)

lemma keeps_deleteMirrorRows [graph_keeps]: "keeps (graph_ok env) (deleteMirrorRows P)"
  unfolding deleteMirrorRows_def by (intro keeps_modify graph_ok_deleteMirrors)

lemma keeps_writeJournal [graph_keeps]: "keeps (graph_ok env) (writeJournal env cid ct actor p reason)"
proof (rule keepsI)
  fix s assume ok: "graph_ok env s"
  then have "\<forall>j \<in> set (event_journal s). drawn env (Suc (id_seq s)) (ej_journal_id j)"
    by (simp add: graph_ok_def journal_ok_def drawn_Suc)
  with ok show "graph_ok env (snd (writeJournal env cid ct actor p reason s))"
    by (auto simp: writeJournal_def freshId_def andThen_def insertJournalRow_def graph_ok_parts drawn_new)
qed

lemma keeps_sendWrite [graph_keeps]: "keeps (graph_ok env) (sendWrite env' ms)"
  by (rule keepsI) (simp add: sendWrite_def graph_ok_frame)

lemma keeps_sendDelete [graph_keeps]: "keeps (graph_ok env) (sendDelete env' ms)"
  by (rule keepsI) (simp add: sendDelete_def sendWrite_def graph_ok_frame)

text \<open>The journal insert cannot collide when the id source never repeats.\<close>

lemma writeJournal_succeeds:
  assumes ok: "graph_ok env s" and fresh: "inj (ulid env)"
  shows "writeJournal env cid ct actor p reason s =
    (Inr (), s\<lparr> id_seq := id_seq s + 1,
       event_journal := event_journal s @
         [\<lparr> ej_journal_id = generateId ''journal'' (ulid env (id_seq s)),
            ej_canonical_event_id = cid, ej_ts = datetimeNow env, ej_actor = actor,
            ej_change_type = ct, ej_patch_json = Some (stringify p), ej_reason = reason \<rparr>] \<rparr>)"
proof -
  have "generateId ''journal'' (ulid env (id_seq s)) \<notin> ej_journal_id ` set (event_journal s)"
    using ok drawn_not_next [OF fresh] by (fastforce simp: graph_ok_def journal_ok_def)
  then show ?thesis
    by (simp add: writeJournal_def freshId_def andThen_def insertJournalRow_def)
qed

section \<open>What no method takes back\<close>

text \<open>The journal is append-only (ADR-5), the queues too, and identifiers are never reissued.\<close>

definition appendOnly :: "user_graph \<Rightarrow> user_graph \<Rightarrow> bool" where
  "appendOnly s t \<longleftrightarrow>
     prefix (event_journal s) (event_journal t) \<and> prefix (write_queue s) (write_queue t) \<and>
     prefix (delete_queue s) (delete_queue t) \<and> id_seq s \<le> id_seq t \<and> send_seq s \<le> send_seq t"

interpretation log: state_contract appendOnly
  by unfold_locales (auto simp: appendOnly_def intro: prefix_order.trans)

named_theorems log_stays \<open>methods that only append to the journal and the queues\<close>

lemmas log_rules = log.stays_rules

lemma appendOnly_tables [simp]:
  "appendOnly s (s\<lparr> canonical_events := x1 \<rparr>)" "appendOnly s (s\<lparr> event_mirrors := x2 \<rparr>)"
  "appendOnly s (s\<lparr> calendars := x3 \<rparr>)" "appendOnly s (s\<lparr> policies := x4 \<rparr>)"
  "appendOnly s (s\<lparr> policy_edges := x5 \<rparr>)" "appendOnly s (s\<lparr> constraints := x6 \<rparr>)"
  "appendOnly s (s\<lparr> time_allocations := x7 \<rparr>)" "appendOnly s (s\<lparr> relationships := x8 \<rparr>)"
  "appendOnly s (s\<lparr> event_participants := x9 \<rparr>)"
  "appendOnly s (s\<lparr> canonical_events := x1, event_participants := x9 \<rparr>)"
  "appendOnly s (s\<lparr> schedule_sessions := y1 \<rparr>)" "appendOnly s (s\<lparr> schedule_candidates := y2 \<rparr>)"
  "appendOnly s (s\<lparr> schedule_holds := y3 \<rparr>)" "appendOnly s (s\<lparr> time_commitments := z1 \<rparr>)"
  "appendOnly s (s\<lparr> commitment_reports := z2 \<rparr>)" "appendOnly s (s\<lparr> vip_policies := z3 \<rparr>)"
  "appendOnly s (s\<lparr> interaction_ledger := z4 \<rparr>)" "appendOnly s (s\<lparr> milestones := z5 \<rparr>)"
  "appendOnly s (s\<lparr> drift_alerts := z6 \<rparr>)" "appendOnly s (s\<lparr> scheduling_history := z7 \<rparr>)"
  by (simp_all add: appendOnly_def)

lemma stays_statements [log_stays]:
  "stays appendOnly (freshId env entity)" "stays appendOnly (insertEventRow r)"
  "stays appendOnly (updateEventRow cid f)" "stays appendOnly (rebindEventRow cid acct f)"
  "stays appendOnly (deleteEventRows P)" "stays appendOnly (insertMirrorRow m)"
  "stays appendOnly (updateMirrorRows Q g)" "stays appendOnly (deleteMirrorRows Q)"
  "stays appendOnly (insertJournalRow j)" "stays appendOnly (sendWrite env ms)"
  "stays appendOnly (sendDelete env ms)"
  by (auto intro!: staysI simp: freshId_def insertEventRow_def updateEventRow_def rebindEventRow_def
      deleteEventRows_def insertMirrorRow_def updateMirrorRows_def deleteMirrorRows_def
      insertJournalRow_def sendWrite_def sendDelete_def Let_def)
     (auto simp: appendOnly_def)

lemma stays_writeJournal [log_stays]: "stays appendOnly (writeJournal env cid ct actor p reason)"
  unfolding writeJournal_def by (intro log_rules log_stays)

end
