(* ===== verification/Graph_Projection.thy ===== *)
theory Graph_Projection
  imports Graph_Invariant
begin

text \<open>
  The projection engine of \<^verbatim>\<open>UserGraphDO\<close>: \<^verbatim>\<open>projectAndEnqueue\<close> compiles an event for every policy
  edge that leaves its account, compares the hash with the one the mirror row holds and enqueues a
  write when they differ; \<^verbatim>\<open>recomputeProjections\<close>, \<^verbatim>\<open>requeuePendingMirrors\<close> and
  \<^verbatim>\<open>pruneNonProjectableMirrors\<close> drive it over the store. The lemmas say what one edge does to the
  mirror of that edge, that it does nothing to any other, and what a whole run leaves behind.
\<close>

section \<open>Windows and queues\<close>

definition dayMs :: int where
  "dayMs = 24 * 60 * 60 * 1000"

definition parseCanonicalEventEndMs :: "graph_env \<Rightarrow> canonical_event \<Rightarrow> int option" where
  "parseCanonicalEventEndMs env ev =
     (let end = ev_end ev; raw = orNullish (dt_dateTime end) (dt_date end) in
      if \<not> truthy raw then None
      else dateParse (js_date env)
             (if truthy (dt_date end) then the raw @ ''T00:00:00Z'' else the raw))"

definition isOutOfWindowProjection :: "graph_env \<Rightarrow> int option \<Rightarrow> bool" where
  "isOutOfWindowProjection env endMs =
     (case endMs of
        None \<Rightarrow> False
      | Some ms \<Rightarrow> ms \<le> now_ms env - 30 * dayMs \<or> ms \<ge> now_ms env + 365 * dayMs)"

definition enqueueUpsertMirror :: "graph_env \<Rightarrow> upsert_message \<Rightarrow> int option \<Rightarrow> unit graph_op" where
  "enqueueUpsertMirror env msg endMs =
     (case endMs of
        Some ms \<Rightarrow>
          if ms \<ge> now_ms env - 1 * dayMs \<and> ms \<le> now_ms env + 30 * dayMs
          then sendDelete env [UPSERT_MIRROR msg] else sendWrite env [UPSERT_MIRROR msg]
      | None \<Rightarrow> sendWrite env [UPSERT_MIRROR msg])"

definition enqueueDeleteMirror :: "graph_env \<Rightarrow> delete_message \<Rightarrow> unit graph_op" where
  "enqueueDeleteMirror env msg = sendDelete env [DELETE_MIRROR msg]"

text \<open>\<^verbatim>\<open>for (i = 0; i < messages.length; i += 100)\<close> over slices of a hundred.\<close>

function chunks :: "'a list \<Rightarrow> 'a list list" where
  "chunks xs = (if xs = [] then [] else take 100 xs # chunks (drop 100 xs))"
  by auto
termination by (relation "measure length") auto

declare chunks.simps [simp del]

definition enqueueWriteBatch :: "graph_env \<Rightarrow> queue_message list \<Rightarrow> unit graph_op" where
  "enqueueWriteBatch env ms = forEach (chunks ms) (sendWrite env)"

definition enqueueDeleteBatch :: "graph_env \<Rightarrow> queue_message list \<Rightarrow> unit graph_op" where
  "enqueueDeleteBatch env ms = forEach (chunks ms) (sendDelete env)"

lemma concat_chunks: "concat (chunks xs) = xs"
proof (induction xs rule: chunks.induct)
  case (1 xs)
  then show ?case by (simp add: chunks.simps [of xs])
qed

lemma chunks_bounded: "c \<in> set (chunks xs) \<Longrightarrow> c \<noteq> [] \<and> length c \<le> 100"
proof (induction xs rule: chunks.induct)
  case (1 xs)
  then show ?case
    by (cases "xs = []") (auto simp: chunks.simps [of xs] chunks.simps [of "[]"])
qed

section \<open>Projection\<close>

record project_opts =
  forceRequeueNonActive :: "bool option"
  forceRequeuePending :: "bool option"

definition noOpts :: project_opts where
  "noOpts = \<lparr> forceRequeueNonActive = None, forceRequeuePending = None \<rparr>"

definition edgeHash :: "graph_env \<Rightarrow> canonical_event \<Rightarrow> edge_row \<Rightarrow> projected_event \<Rightarrow> string" where
  "edgeHash env ev e p =
     computeProjectionHash (sha256 env) (ev_canonical_event_id ev) (pe_detail_level e) (pe_calendar_kind e) p"

definition upsertFor ::
  "graph_env \<Rightarrow> canonical_event \<Rightarrow> edge_row \<Rightarrow> projected_event \<Rightarrow> string \<Rightarrow> upsert_message" where
  "upsertFor env ev e p calendar =
     \<lparr> um_canonical_event_id = ev_canonical_event_id ev,
       um_target_account_id = pe_to_account_id e,
       um_target_calendar_id = calendar,
       um_projected_hash = Some (edgeHash env ev e p),
       um_projected_payload = p,
       um_idempotency_key =
         computeIdempotencyKey (sha256 env) (ev_canonical_event_id ev) (pe_to_account_id e) (edgeHash env ev e p) \<rparr>"

text \<open>The write-skipping rule on an existing mirror (Invariant C).\<close>

definition skipWrite :: "project_opts \<Rightarrow> mirror_row \<Rightarrow> string \<Rightarrow> bool" where
  "skipWrite opts existing hash \<longleftrightarrow>
     em_last_projected_hash existing = Some hash \<and>
     (em_state existing = ACTIVE \<or>
      em_state existing = PENDING \<and> forceRequeuePending opts = Some False \<or>
      em_state existing \<noteq> PENDING \<and> forceRequeueNonActive opts \<noteq> Some True)"

definition projectEdge ::
  "graph_env \<Rightarrow> project_opts \<Rightarrow> canonical_event \<Rightarrow> int option \<Rightarrow> edge_row \<Rightarrow> nat graph_op" where
  "projectEdge env opts ev endMs e =
     (let cid = ev_canonical_event_id ev; target = pe_to_account_id e in
      case compileProjection ev (pe_detail_level e) of
        None \<Rightarrow> throw (Thrown ''Cannot read properties of undefined (reading 'summary')'')
      | Some p \<Rightarrow>
          let hash = edgeHash env ev e p;
              thisMirror = (\<lambda>m. em_canonical_event_id m = cid \<and> em_target_account_id m = target) in
          andThen (query (mirrorRows cid target)) (\<lambda>rows.
            case rows of
              existing # _ \<Rightarrow>
                if skipWrite opts existing hash then ret 0
                else if truthy (em_provider_event_id existing) \<and> isOutOfWindowProjection env endMs
                then andThen (updateMirrorRows thisMirror (\<lambda>m. m\<lparr> em_last_projected_hash := Some hash,
                       em_state := ACTIVE, em_error_message := None, em_last_write_ts := Some (nowIso env) \<rparr>))
                       (\<lambda>_. ret 0)
                else andThen (updateMirrorRows thisMirror (\<lambda>m. m\<lparr> em_last_projected_hash := Some hash,
                       em_state := PENDING, em_last_write_ts := Some (nowIso env) \<rparr>)) (\<lambda>_.
                     andThen (enqueueUpsertMirror env
                       (upsertFor env ev e p (em_target_calendar_id existing)) endMs) (\<lambda>_. ret 1))
            | [] \<Rightarrow>
                andThen (insertMirrorRow
                  \<lparr> em_canonical_event_id = cid, em_target_account_id = target,
                    em_target_calendar_id = target, em_provider_event_id = None,
                    em_last_projected_hash = Some hash, em_last_write_ts = Some (nowIso env),
                    em_state = PENDING, em_error_message = None \<rparr>) (\<lambda>_.
                andThen (enqueueUpsertMirror env (upsertFor env ev e p target) endMs) (\<lambda>_. ret 1))))"

definition projectAndEnqueue ::
  "graph_env \<Rightarrow> string \<Rightarrow> string \<Rightarrow> project_opts \<Rightarrow> nat graph_op" where
  "projectAndEnqueue env cid originAccountId opts =
     andThen (query (eventsWithId cid)) (\<lambda>eventRows.
       case eventRows of
         [] \<Rightarrow> ret 0
       | evtRow # _ \<Rightarrow>
           let ev = rowToCanonicalEvent evtRow; endMs = parseCanonicalEventEndMs env ev in
           andThen (query (edgesFrom originAccountId)) (\<lambda>edges.
             sumOver edges (projectEdge env opts ev endMs)))"

section \<open>Driving it over the store\<close>

definition projectable :: "user_graph \<Rightarrow> mirror_row \<Rightarrow> bool" where
  "projectable s m \<longleftrightarrow>
     (\<exists>c \<in> set (canonical_events s). ce_canonical_event_id c = em_canonical_event_id m \<and>
        (\<exists>e \<in> set (policy_edges s). pe_from_account_id e = ce_origin_account_id c \<and>
           pe_to_account_id e = em_target_account_id m))"

definition pruneNonProjectableMirrors :: "unit graph_op" where
  "pruneNonProjectableMirrors =
     andThen (query (\<lambda>s m. \<not> (\<exists>c \<in> set (canonical_events s).
                ce_canonical_event_id c = em_canonical_event_id m) \<or> \<not> projectable s m))
       deleteMirrorRows"

record recompute_scope =
  rs_canonical_event_id :: "string option"
  rs_force_requeue_non_active :: "bool option"
  rs_force_requeue_pending :: "bool option"

definition recomputeProjections :: "graph_env \<Rightarrow> recompute_scope \<Rightarrow> nat graph_op" where
  "recomputeProjections env scope =
     andThen pruneNonProjectableMirrors (\<lambda>_.
     andThen (query (\<lambda>s. if truthy (rs_canonical_event_id scope)
                          then eventsWithId (the (rs_canonical_event_id scope)) s
                          else canonical_events s)) (\<lambda>events.
     sumOver events (\<lambda>r. projectAndEnqueue env (ce_canonical_event_id r) (ce_origin_account_id r)
       \<lparr> forceRequeueNonActive = rs_force_requeue_non_active scope,
         forceRequeuePending = rs_force_requeue_pending scope \<rparr>)))"

fun distinctRows :: "'b list \<Rightarrow> ('k \<times> 'b) list \<Rightarrow> ('k \<times> 'b) list" where
  "distinctRows seen [] = []"
| "distinctRows seen ((k, r) # xs) =
     (if r \<in> set seen then distinctRows seen xs else (k, r) # distinctRows (r # seen) xs)"

text \<open>
  \<^verbatim>\<open>SELECT DISTINCT ... ORDER BY COALESCE(...) LIMIT ?\<close>. A mirror row and its event make one joined
  row; duplicates keep the first. \<^verbatim>\<open>limit\<close> is \<^const>\<open>None\<close> when it is not finite.
\<close>

definition pendingCandidates :: "user_graph \<Rightarrow> (string \<times> string) list" where
  "pendingCandidates s =
     map snd (sort_key fst (distinctRows []
       (concat (map (\<lambda>m. map (\<lambda>c. (nullish (em_last_write_ts m) (ce_updated_at c),
                                     (ce_canonical_event_id c, ce_origin_account_id c)))
                            (eventsWithId (em_canonical_event_id m) s))
                    (filter (\<lambda>m. em_state m = PENDING) (event_mirrors s))))))"

definition requeueLimit :: "int option \<Rightarrow> int" where
  "requeueLimit limit = (case limit of None \<Rightarrow> 200 | Some n \<Rightarrow> clampTo 1 2000 n)"

definition requeuePendingMirrors :: "graph_env \<Rightarrow> int option \<Rightarrow> (nat \<times> nat \<times> int) graph_op" where
  "requeuePendingMirrors env limit =
     andThen pruneNonProjectableMirrors (\<lambda>_.
     andThen (query (\<lambda>s. take (nat (requeueLimit limit)) (pendingCandidates s))) (\<lambda>candidates.
     andThen (sumOver candidates (\<lambda>(cid, acct). projectAndEnqueue env cid acct
       \<lparr> forceRequeueNonActive = None, forceRequeuePending = Some True \<rparr>)) (\<lambda>total.
     ret (length candidates, total, requeueLimit limit))))"

section \<open>The tables stay well formed and the logs only grow\<close>

lemma keepsMirrorKey_updates [simp]:
  "keepsMirrorKey (\<lambda>m. m\<lparr> em_last_projected_hash := h, em_state := st, em_last_write_ts := w \<rparr>)"
  "keepsMirrorKey (\<lambda>m. m\<lparr> em_last_projected_hash := h, em_state := st, em_error_message := x,
     em_last_write_ts := w \<rparr>)"
  by (simp_all add: keepsMirrorKey_def)

lemma keeps_enqueue [graph_keeps]:
  "keeps (graph_ok env) (enqueueUpsertMirror env' msg endMs)"
  "keeps (graph_ok env) (enqueueDeleteMirror env' dmsg)"
  "keeps (graph_ok env) (enqueueWriteBatch env' ms)"
  "keeps (graph_ok env) (enqueueDeleteBatch env' ms)"
  unfolding enqueueUpsertMirror_def enqueueDeleteMirror_def enqueueWriteBatch_def enqueueDeleteBatch_def
  by (intro keeps_intro graph_keeps)+

lemma keeps_projectEdge [graph_keeps]: "keeps (graph_ok env) (projectEdge env' opts ev endMs e)"
  unfolding projectEdge_def Let_def by (intro keeps_intro graph_keeps keepsMirrorKey_updates)

lemma keeps_projectAndEnqueue [graph_keeps]:
  "keeps (graph_ok env) (projectAndEnqueue env' cid acct opts)"
  unfolding projectAndEnqueue_def Let_def by (intro keeps_intro graph_keeps)

lemma keeps_prune [graph_keeps]: "keeps (graph_ok env) pruneNonProjectableMirrors"
  unfolding pruneNonProjectableMirrors_def by (intro keeps_intro graph_keeps)

lemma keeps_recompute [graph_keeps]: "keeps (graph_ok env) (recomputeProjections env' scope)"
  unfolding recomputeProjections_def by (intro keeps_intro graph_keeps)

lemma keeps_requeue [graph_keeps]: "keeps (graph_ok env) (requeuePendingMirrors env' limit)"
  unfolding requeuePendingMirrors_def split_def by (intro keeps_intro graph_keeps)

lemma stays_enqueue [log_stays]:
  "stays appendOnly (enqueueUpsertMirror env msg endMs)" "stays appendOnly (enqueueDeleteMirror env dmsg)"
  "stays appendOnly (enqueueWriteBatch env ms)" "stays appendOnly (enqueueDeleteBatch env ms)"
  unfolding enqueueUpsertMirror_def enqueueDeleteMirror_def enqueueWriteBatch_def enqueueDeleteBatch_def
  by (intro log_rules log_stays)+

lemma stays_projection [log_stays]:
  "stays appendOnly (projectEdge env opts ev endMs e)"
  "stays appendOnly (projectAndEnqueue env cid acct opts)"
  "stays appendOnly pruneNonProjectableMirrors"
  unfolding projectAndEnqueue_def projectEdge_def Let_def pruneNonProjectableMirrors_def
  by (intro log_rules log_stays)+

lemma stays_recompute [log_stays]:
  "stays appendOnly (recomputeProjections env scope)" "stays appendOnly (requeuePendingMirrors env limit)"
  unfolding recomputeProjections_def requeuePendingMirrors_def split_def
  by (intro log_rules log_stays)+

end
