(* ===== verification/Projection_Laws.thy ===== *)
theory Projection_Laws
  imports Graph_Projection
begin

text \<open>
  What a projection run does to one store: which rows and queues it may touch, what it leaves in
  the mirror row of each edge, which messages it sends, and that a second run over what the first
  one established is silent.
\<close>

section \<open>What a run may touch\<close>

text \<open>
  Between the two states only mirrors of the event \<open>cid\<close>, the queues and the send counter differ.
\<close>

definition apartFromMirrors :: "user_graph \<Rightarrow> user_graph" where
  "apartFromMirrors s = s\<lparr> event_mirrors := [], write_queue := [], delete_queue := [], send_seq := 0 \<rparr>"

definition projectsOnly :: "string \<Rightarrow> user_graph \<Rightarrow> user_graph \<Rightarrow> bool" where
  "projectsOnly cid s t \<longleftrightarrow>
     apartFromMirrors t = apartFromMirrors s \<and>
     (\<forall>c. c \<noteq> cid \<longrightarrow> mirrorsOf c t = mirrorsOf c s)"

interpretation scope: state_contract "projectsOnly cid" for cid
  by unfold_locales (auto simp: projectsOnly_def)

lemma apartFromMirrors_tables:
  "canonical_events s = canonical_events (apartFromMirrors s)"
  "policy_edges s = policy_edges (apartFromMirrors s)"
  "event_journal s = event_journal (apartFromMirrors s)"
  "id_seq s = id_seq (apartFromMirrors s)"
  "calendars s = calendars (apartFromMirrors s)"
  "policies s = policies (apartFromMirrors s)"
  "constraints s = constraints (apartFromMirrors s)"
  "time_allocations s = time_allocations (apartFromMirrors s)"
  "event_participants s = event_participants (apartFromMirrors s)"
  by (simp_all add: apartFromMirrors_def)

lemma projectsOnly_tables:
  assumes "projectsOnly cid s t"
  shows "canonical_events t = canonical_events s"
    "policy_edges t = policy_edges s"
    "event_journal t = event_journal s"
    "id_seq t = id_seq s"
    "calendars t = calendars s"
    "policies t = policies s"
    "constraints t = constraints s"
    "time_allocations t = time_allocations s"
    "event_participants t = event_participants s"
proof -
  have "apartFromMirrors t = apartFromMirrors s" using assms by (simp add: projectsOnly_def)
  then show "canonical_events t = canonical_events s"
    "policy_edges t = policy_edges s"
    "event_journal t = event_journal s"
    "id_seq t = id_seq s"
    "calendars t = calendars s"
    "policies t = policies s"
    "constraints t = constraints s"
    "time_allocations t = time_allocations s"
    "event_participants t = event_participants s"
    by (simp_all only: apartFromMirrors_tables [of t] apartFromMirrors_tables [of s])
qed

text \<open>Everything a method sends satisfies \<open>Q\<close>.\<close>

definition sendsOnly :: "(queue_message \<Rightarrow> bool) \<Rightarrow> user_graph \<Rightarrow> user_graph \<Rightarrow> bool" where
  "sendsOnly Q s t \<longleftrightarrow>
     (\<exists>w d. write_queue t = write_queue s @ w \<and> delete_queue t = delete_queue s @ d \<and>
            (\<forall>m \<in> set w \<union> set d. Q m))"

interpretation sends: state_contract "sendsOnly Q" for Q
proof unfold_locales
  fix s t u :: user_graph
  show "sendsOnly Q s s" by (simp add: sendsOnly_def)
  assume "sendsOnly Q s t" and "sendsOnly Q t u"
  then obtain w d w' d' where
    "write_queue t = write_queue s @ w" "delete_queue t = delete_queue s @ d"
    "\<forall>m \<in> set w \<union> set d. Q m"
    "write_queue u = write_queue t @ w'" "delete_queue u = delete_queue t @ d'"
    "\<forall>m \<in> set w' \<union> set d'. Q m"
    unfolding sendsOnly_def by blast
  then show "sendsOnly Q s u"
    unfolding sendsOnly_def by (intro exI [of _ "w @ w'"] exI [of _ "d @ d'"]) auto
qed

definition sentBetween :: "user_graph \<Rightarrow> user_graph \<Rightarrow> queue_message list" where
  "sentBetween s t =
     drop (length (write_queue s)) (write_queue t) @ drop (length (delete_queue s)) (delete_queue t)"

lemma sendsOnly_sent: "sendsOnly Q s t \<Longrightarrow> m \<in> set (sentBetween s t) \<Longrightarrow> Q m"
  by (auto simp: sendsOnly_def sentBetween_def)

lemma sentBetween_trans:
  assumes "appendOnly s t" and "appendOnly t u"
  shows "set (sentBetween s u) = set (sentBetween s t) \<union> set (sentBetween t u)"
    and "length (sentBetween s u) = length (sentBetween s t) + length (sentBetween t u)"
  using assms by (auto simp: appendOnly_def prefix_def sentBetween_def)

lemma sentBetween_same [simp]: "sentBetween s s = []"
  by (simp add: sentBetween_def)

lemma sends_send:
  "(\<forall>m \<in> set ms. Q m) \<Longrightarrow> stays (sendsOnly Q) (sendWrite env ms)"
  "(\<forall>m \<in> set ms. Q m) \<Longrightarrow> stays (sendsOnly Q) (sendDelete env ms)"
  by (auto intro!: staysI simp: sendWrite_def sendDelete_def sendsOnly_def)

lemma sends_enqueue:
  "Q (UPSERT_MIRROR msg) \<Longrightarrow> stays (sendsOnly Q) (enqueueUpsertMirror env msg endMs)"
  "Q (DELETE_MIRROR dmsg) \<Longrightarrow> stays (sendsOnly Q) (enqueueDeleteMirror env dmsg)"
  unfolding enqueueUpsertMirror_def enqueueDeleteMirror_def
  by (intro sends.stays_rules sends_send; simp)+

lemma sends_batches:
  assumes "\<forall>m \<in> set ms. Q m"
  shows "stays (sendsOnly Q) (enqueueWriteBatch env ms)" "stays (sendsOnly Q) (enqueueDeleteBatch env ms)"
proof -
  have "\<forall>m \<in> set c. Q m" if "c \<in> set (chunks ms)" for c
    using assms that concat_chunks [of ms] by (metis UN_I set_concat)
  then show "stays (sendsOnly Q) (enqueueWriteBatch env ms)" "stays (sendsOnly Q) (enqueueDeleteBatch env ms)"
    unfolding enqueueWriteBatch_def enqueueDeleteBatch_def
    by (auto intro!: sends.stays_forEach sends_send)
qed

lemma sends_tables:
  "stays (sendsOnly Q) (insertMirrorRow m)" "stays (sendsOnly Q) (updateMirrorRows P f)"
  "stays (sendsOnly Q) (deleteMirrorRows P)" "stays (sendsOnly Q) (writeJournal env cid ct actor p reason)"
  "stays (sendsOnly Q) (deleteEventRows R)"
  by (auto intro!: staysI simp: sendsOnly_def insertMirrorRow_def updateMirrorRows_def deleteMirrorRows_def
        writeJournal_def freshId_def andThen_def insertJournalRow_def deleteEventRows_def Let_def)

section \<open>One edge\<close>

lemma scope_send:
  "stays (projectsOnly cid) (sendWrite env ms)" "stays (projectsOnly cid) (sendDelete env ms)"
  by (auto intro!: staysI
      simp: sendWrite_def sendDelete_def mirrorsOf_def projectsOnly_def apartFromMirrors_def)

lemma scope_enqueue: "stays (projectsOnly cid) (enqueueUpsertMirror env msg endMs)"
  unfolding enqueueUpsertMirror_def by (intro scope.stays_rules scope_send)

lemma scope_insertMirror:
  "em_canonical_event_id m = cid \<Longrightarrow> stays (projectsOnly cid) (insertMirrorRow m)"
  by (auto intro!: staysI
      simp: insertMirrorRow_def mirrorsOf_def projectsOnly_def apartFromMirrors_def)

lemma scope_updateMirrors:
  assumes "keepsMirrorKey f"
  shows "stays (projectsOnly cid)
           (updateMirrorRows (\<lambda>m. em_canonical_event_id m = cid \<and> em_target_account_id m = t) f)"
  using assms
  by (auto intro!: staysI filter_updateRows_disjoint simp: updateMirrorRows_def mirrorsOf_def
      projectsOnly_def apartFromMirrors_def keepsMirrorKey_def)

lemma scope_projectEdge:
  "ev_canonical_event_id ev = cid \<Longrightarrow> stays (projectsOnly cid) (projectEdge env opts ev endMs e)"
  unfolding projectEdge_def Let_def
  by (intro scope.stays_rules scope_enqueue scope_insertMirror scope_updateMirrors
        keepsMirrorKey_updates | simp)+

lemma rowToCanonicalEvent_id [simp]:
  "ev_canonical_event_id (rowToCanonicalEvent r) = ce_canonical_event_id r"
  by (simp add: rowToCanonicalEvent_def)

lemma projectAndEnqueue_run:
  "projectAndEnqueue env cid acct opts s =
     (case eventsWithId cid s of
        [] \<Rightarrow> (Inr 0, s)
      | r # _ \<Rightarrow> sumOver (edgesFrom acct s)
          (projectEdge env opts (rowToCanonicalEvent r)
            (parseCanonicalEventEndMs env (rowToCanonicalEvent r))) s)"
  by (simp add: projectAndEnqueue_def ret_run Let_def split: list.split)

lemma scope_projectAndEnqueue: "stays (projectsOnly cid) (projectAndEnqueue env cid acct opts)"
proof (rule staysI)
  fix s
  show "projectsOnly cid s (snd (projectAndEnqueue env cid acct opts s))"
  proof (cases "eventsWithId cid s")
    case Nil
    then show ?thesis by (simp add: projectAndEnqueue_run scope.same)
  next
    case (Cons r rest)
    then have "ce_canonical_event_id r = cid"
      by (auto simp: eventsWithId_def filter_eq_Cons_iff)
    then have "stays (projectsOnly cid) (sumOver (edgesFrom acct s) (projectEdge env opts
        (rowToCanonicalEvent r) (parseCanonicalEventEndMs env (rowToCanonicalEvent r))))"
      by (intro scope.stays_sumOver scope_projectEdge) simp
    from staysD [OF this, of s] Cons show ?thesis by (simp add: projectAndEnqueue_run)
  qed
qed

section \<open>What one edge leaves behind\<close>

lemma mirrorRows_scope: "projectsOnly cid s t \<Longrightarrow> c \<noteq> cid \<Longrightarrow> mirrorRows c x t = mirrorRows c x s"
proof -
  assume "projectsOnly cid s t" and "c \<noteq> cid"
  then have "mirrorsOf c t = mirrorsOf c s" by (simp add: projectsOnly_def)
  then have "filter (\<lambda>m. em_target_account_id m = x) (mirrorsOf c t) =
             filter (\<lambda>m. em_target_account_id m = x) (mirrorsOf c s)" by simp
  then show ?thesis by (simp add: mirrorsOf_def mirrorRows_def conj_commute)
qed

lemma mirrorRows_send [simp]:
  "mirrorRows c x (snd (sendWrite env ms s)) = mirrorRows c x s"
  "mirrorRows c x (snd (sendDelete env ms s)) = mirrorRows c x s"
  "mirrorRows c x (snd (enqueueUpsertMirror env msg endMs s)) = mirrorRows c x s"
  by (simp_all add: sendWrite_def sendDelete_def enqueueUpsertMirror_def mirrorRows_def
        split: option.split)

lemma mirrorRows_insert:
  "mirrorRows c x (s\<lparr> event_mirrors := event_mirrors s @ [m] \<rparr>) =
   mirrorRows c x s @ (if mirrorKey m = (c, x) then [m] else [])"
  by (simp add: mirrorRows_def mirrorKey_def)

lemma mirrorRows_update:
  assumes "keepsMirrorKey f"
  shows "mirrorRows c x (s\<lparr> event_mirrors := updateRows
           (\<lambda>m. em_canonical_event_id m = c \<and> em_target_account_id m = x) f (event_mirrors s) \<rparr>) =
         map f (mirrorRows c x s)"
  using assms unfolding mirrorRows_def keepsMirrorKey_def by (simp add: filter_updateRows_same)

lemma mirrorRows_update_other:
  assumes "keepsMirrorKey f" and "(c, x) \<noteq> (c', x')"
  shows "mirrorRows c x (s\<lparr> event_mirrors := updateRows
           (\<lambda>m. em_canonical_event_id m = c' \<and> em_target_account_id m = x') f (event_mirrors s) \<rparr>) =
         mirrorRows c x s"
  using assms unfolding mirrorRows_def keepsMirrorKey_def
  by (auto intro!: filter_updateRows_disjoint)

lemma insertMirrorRow_new:
  assumes "mirrorRows (em_canonical_event_id m) (em_target_account_id m) s = []"
    and "em_canonical_event_id m \<in> eventIds s"
  shows "insertMirrorRow m s = (Inr (), s\<lparr> event_mirrors := event_mirrors s @ [m] \<rparr>)"
  using assms eventsWithId_nonempty [of "em_canonical_event_id m" s] by (simp add: insertMirrorRow_def)

lemma enqueueUpsert_sent:
  assumes "enqueueUpsertMirror env msg endMs s = (Inr u, t)"
  shows "sentBetween s t = [UPSERT_MIRROR msg]"
  using assms by (auto simp: enqueueUpsertMirror_def sendDelete_def sendWrite_def sentBetween_def
      split: if_splits option.splits)

lemma enqueueUpsert_result:
  "enqueueUpsertMirror env msg endMs s = (Inl x, t) \<Longrightarrow> x = QueueRejected"
  by (auto simp: enqueueUpsertMirror_def sendDelete_def sendWrite_def split: if_splits option.splits)

text \<open>One edge, by its three branches: nothing, a local convergence, a write.\<close>

lemma projectEdge_cases:
  assumes ok: "graph_ok env s" and ev: "ev_canonical_event_id ev \<in> eventIds s"
    and p: "compileProjection ev (pe_detail_level e) = Some p"
    and run: "projectEdge env opts ev endMs e s = (r, t)"
  obtains
    (skip) m where "mirrorRows (ev_canonical_event_id ev) (pe_to_account_id e) s = [m]"
      "skipWrite opts m (edgeHash env ev e p)" "t = s" "r = Inr 0"
  | (converge) m m' where "mirrorRows (ev_canonical_event_id ev) (pe_to_account_id e) s = [m]"
      "truthy (em_provider_event_id m)" "isOutOfWindowProjection env endMs"
      "mirrorRows (ev_canonical_event_id ev) (pe_to_account_id e) t = [m']" "em_state m' = ACTIVE"
      "em_last_projected_hash m' = Some (edgeHash env ev e p)" "sentBetween s t = []" "r = Inr 0"
  | (enqueue) m' u where "mirrorRows (ev_canonical_event_id ev) (pe_to_account_id e) t = [m']"
      "em_state m' = PENDING" "em_last_projected_hash m' = Some (edgeHash env ev e p)"
      "mirrorRows (ev_canonical_event_id ev) (pe_to_account_id e) s = [] \<longrightarrow>
         em_target_calendar_id m' = pe_to_account_id e"
      "enqueueUpsertMirror env (upsertFor env ev e p (em_target_calendar_id m')) endMs u = (map_sum id (\<lambda>_. ()) r, t)"
      "write_queue u = write_queue s" "delete_queue u = delete_queue s"
      "r = Inr 1 \<or> r = Inl QueueRejected"
proof -
  let ?c = "ev_canonical_event_id ev" and ?x = "pe_to_account_id e"
  let ?h = "edgeHash env ev e p"
  show thesis
  proof (cases rule: mirrorRows_cases [OF ok, of ?c ?x])
    case 1
    let ?m = "\<lparr> em_canonical_event_id = ?c, em_target_account_id = ?x,
                    em_target_calendar_id = ?x, em_provider_event_id = None,
                    em_last_projected_hash = Some ?h, em_last_write_ts = Some (nowIso env),
                    em_state = PENDING, em_error_message = None \<rparr>"
    let ?u = "s\<lparr> event_mirrors := event_mirrors s @ [?m] \<rparr>"
    let ?q = "enqueueUpsertMirror env (upsertFor env ev e p ?x) endMs ?u"
    have ins: "insertMirrorRow ?m s = (Inr (), ?u)"
      using 1 ev by (intro insertMirrorRow_new) simp_all
    have run': "(r, t) = (case ?q of (Inl y, w) \<Rightarrow> (Inl y, w) | (Inr y, w) \<Rightarrow> (Inr 1, w))"
      using run 1 ins
      by (simp add: projectEdge_def Let_def p andThen_def ret_run split: prod.splits sum.splits)
    have row: "mirrorRows ?c ?x t = [?m]"
    proof -
      have "t = snd ?q" using run' by (auto split: prod.splits sum.splits)
      then show ?thesis using 1 by (simp add: mirrorRows_insert mirrorKey_def)
    qed
    have "?q = (map_sum id (\<lambda>_. ()) r, t)" using run' by (auto split: prod.splits sum.splits)
    moreover have "r = Inr 1 \<or> r = Inl QueueRejected"
      using run' enqueueUpsert_result by (fastforce split: prod.splits sum.splits)
    ultimately show thesis using enqueue [of ?m ?u] row by simp
  next
    case (2 m)
    show thesis
    proof (cases "skipWrite opts m ?h")
      case True
      with 2 run have "t = s" "r = Inr 0"
        by (simp_all add: projectEdge_def Let_def p ret_run)
      with 2 True skip show thesis by blast
    next
      case noskip: False
      show thesis
      proof (cases "truthy (em_provider_event_id m) \<and> isOutOfWindowProjection env endMs")
        case True
        let ?f = "\<lambda>m. m\<lparr> em_last_projected_hash := Some ?h, em_state := ACTIVE,
                     em_error_message := None, em_last_write_ts := Some (nowIso env) \<rparr>"
        from 2 noskip True run have t: "t = s\<lparr> event_mirrors := updateRows
            (\<lambda>m. em_canonical_event_id m = ?c \<and> em_target_account_id m = ?x) ?f (event_mirrors s) \<rparr>"
          and r: "r = Inr 0"
          by (simp_all add: projectEdge_def Let_def p ret_run updateMirrorRows_def)
        have "mirrorRows ?c ?x t = [?f m]"
          unfolding t by (subst mirrorRows_update) (simp_all add: 2)
        moreover have "sentBetween s t = []" by (simp add: t sentBetween_def)
        ultimately show thesis using converge [of m "?f m"] 2 True r by simp
      next
        case False
        let ?f = "\<lambda>m. m\<lparr> em_last_projected_hash := Some ?h, em_state := PENDING,
                     em_last_write_ts := Some (nowIso env) \<rparr>"
        let ?u = "s\<lparr> event_mirrors := updateRows
            (\<lambda>m. em_canonical_event_id m = ?c \<and> em_target_account_id m = ?x) ?f (event_mirrors s) \<rparr>"
        let ?q = "enqueueUpsertMirror env (upsertFor env ev e p (em_target_calendar_id m)) endMs ?u"
        have run': "(r, t) = (case ?q of (Inl y, w) \<Rightarrow> (Inl y, w) | (Inr y, w) \<Rightarrow> (Inr 1, w))"
          using run 2 noskip False
          by (simp add: projectEdge_def Let_def p andThen_def ret_run updateMirrorRows_def
                split: prod.splits sum.splits)
        have row: "mirrorRows ?c ?x t = [?f m]"
        proof -
          have "t = snd ?q" using run' by (auto split: prod.splits sum.splits)
          then show ?thesis
            by (simp only: mirrorRows_send) (subst mirrorRows_update, simp_all add: 2)
        qed
        have "?q = (map_sum id (\<lambda>_. ()) r, t)" using run' by (auto split: prod.splits sum.splits)
        moreover have "r = Inr 1 \<or> r = Inl QueueRejected"
          using run' enqueueUpsert_result by (fastforce split: prod.splits sum.splits)
        ultimately show thesis using enqueue [of "?f m" ?u] row 2 by simp
      qed
    qed
  qed
qed

section \<open>A whole run\<close>

definition rowStays :: "string \<Rightarrow> string \<Rightarrow> user_graph \<Rightarrow> user_graph \<Rightarrow> bool" where
  "rowStays c x s t \<longleftrightarrow> mirrorRows c x t = mirrorRows c x s"

interpretation row: state_contract "rowStays c x" for c x
  by unfold_locales (auto simp: rowStays_def)

lemma row_projectEdge:
  assumes "(c, x) \<noteq> (ev_canonical_event_id ev, pe_to_account_id e)"
  shows "stays (rowStays c x) (projectEdge env opts ev endMs e)"
proof -
  have "stays (rowStays c x) (enqueueUpsertMirror env msg endMs)" for msg
    by (rule staysI) (simp add: rowStays_def)
  moreover have "stays (rowStays c x) (insertMirrorRow m)"
    if "mirrorKey m = (ev_canonical_event_id ev, pe_to_account_id e)" for m
    using assms that by (auto intro!: staysI simp: rowStays_def insertMirrorRow_def mirrorRows_insert)
  moreover have "stays (rowStays c x) (updateMirrorRows (\<lambda>m. em_canonical_event_id m =
      ev_canonical_event_id ev \<and> em_target_account_id m = pe_to_account_id e) f)"
    if "keepsMirrorKey f" for f
    using mirrorRows_update_other [OF that assms]
    by (auto intro!: staysI simp: rowStays_def updateMirrorRows_def)
  ultimately show ?thesis
    unfolding projectEdge_def Let_def
    by (intro row.stays_rules keepsMirrorKey_updates | simp add: mirrorKey_def)+
qed

text \<open>
  What a successful run establishes for an edge: the mirror holds the hash of the current
  projection and, when it is waiting for a write, that write is among the messages of this run.
\<close>

definition edgeDone ::
  "graph_env \<Rightarrow> canonical_event \<Rightarrow> queue_message set \<Rightarrow> user_graph \<Rightarrow> edge_row \<Rightarrow> bool" where
  "edgeDone env ev sent t e \<longleftrightarrow>
     (\<exists>p m. compileProjection ev (pe_detail_level e) = Some p \<and>
        mirrorRows (ev_canonical_event_id ev) (pe_to_account_id e) t = [m] \<and>
        em_last_projected_hash m = Some (edgeHash env ev e p) \<and>
        (em_state m = PENDING \<longrightarrow>
           UPSERT_MIRROR (upsertFor env ev e p (em_target_calendar_id m)) \<in> sent))"

lemma projectEdge_undefined:
  "compileProjection ev (pe_detail_level e) = None \<Longrightarrow>
   projectEdge env opts ev endMs e s = (Inl (Thrown ''Cannot read properties of undefined (reading 'summary')''), s)"
  by (simp add: projectEdge_def Let_def throw_run)

lemma projectEdge_done:
  assumes ok: "graph_ok env s" and ev: "ev_canonical_event_id ev \<in> eventIds s"
    and opts: "forceRequeuePending opts \<noteq> Some False"
    and run: "projectEdge env opts ev endMs e s = (Inr n, t)"
  shows "edgeDone env ev (set (sentBetween s t)) t e" and "n = length (sentBetween s t)"
proof -
  obtain p where p: "compileProjection ev (pe_detail_level e) = Some p"
    using run projectEdge_undefined [of ev e env opts endMs s]
    by (cases "compileProjection ev (pe_detail_level e)") auto
  have "edgeDone env ev (set (sentBetween s t)) t e \<and> n = length (sentBetween s t)"
  proof (cases rule: projectEdge_cases [OF ok ev p run])
    case (1 m)
    then show ?thesis using opts p by (auto simp: edgeDone_def skipWrite_def)
  next
    case (2 m m')
    then show ?thesis using p by (auto simp: edgeDone_def)
  next
    case (3 m' u)
    have "sentBetween s t = [UPSERT_MIRROR (upsertFor env ev e p (em_target_calendar_id m'))]"
      using enqueueUpsert_sent [of env _ endMs u "()" t] 3 by (simp add: sentBetween_def)
    then show ?thesis using 3 p by (simp add: edgeDone_def)
  qed
  then show "edgeDone env ev (set (sentBetween s t)) t e" "n = length (sentBetween s t)" by simp_all
qed

lemma edgeDone_mono: "edgeDone env ev A t e \<Longrightarrow> A \<subseteq> B \<Longrightarrow> edgeDone env ev B t e"
  unfolding edgeDone_def by blast

lemma edgeDone_row:
  "edgeDone env ev A t e \<Longrightarrow> rowStays (ev_canonical_event_id ev) (pe_to_account_id e) t u \<Longrightarrow>
   edgeDone env ev A u e"
  by (simp add: edgeDone_def rowStays_def)

text \<open>
  Two edges may lead to one target; the mirror then shows what the last of them made. \<open>lastEdges\<close> are the edges that no
  later edge to their target follows.
\<close>

fun lastEdges :: "edge_row list \<Rightarrow> edge_row list" where
  "lastEdges [] = []"
| "lastEdges (e # es) = (if pe_to_account_id e \<in> pe_to_account_id ` set es then lastEdges es else e # lastEdges es)"

lemma lastEdges_distinct: "distinct (map pe_to_account_id es) \<Longrightarrow> lastEdges es = es"
  by (induction es) auto

lemma lastEdges_targets: "pe_to_account_id ` set (lastEdges es) = pe_to_account_id ` set es"
  by (induction es) auto

lemma sumOver_projectEdge_done:
  assumes "graph_ok env s" and "ev_canonical_event_id ev \<in> eventIds s"
    and "forceRequeuePending opts \<noteq> Some False"
    and "sumOver edges (projectEdge env opts ev endMs) s = (Inr n, t)"
  shows "(\<forall>e \<in> set (lastEdges edges). edgeDone env ev (set (sentBetween s t)) t e) \<and> n = length (sentBetween s t)"
  using assms
proof (induction edges arbitrary: s n)
  case Nil
  then show ?case by (simp add: ret_run)
next
  case (Cons e edges)
  let ?F = "projectEdge env opts ev endMs"
  from Cons.prems(4) obtain k u l where e: "?F e s = (Inr k, u)"
    and rest: "sumOver edges ?F u = (Inr l, t)" and n: "n = k + l"
    by (auto simp: andThen_result ret_run)
  have ok: "graph_ok env u" using keepsD [OF keeps_projectEdge Cons.prems(1)] e by (metis snd_conv)
  have ids: "ev_canonical_event_id ev \<in> eventIds u"
    using staysD [OF scope_projectEdge [OF refl], of ev s env opts endMs e] e Cons.prems(2)
    by (simp add: eventIds_def projectsOnly_tables)
  from projectEdge_done [OF Cons.prems(1,2,3) e]
  have e1: "edgeDone env ev (set (sentBetween s u)) u e" and k: "k = length (sentBetween s u)" .
  from Cons.IH [OF ok ids Cons.prems(3) rest]
  have r1: "\<forall>e \<in> set (lastEdges edges). edgeDone env ev (set (sentBetween u t)) t e"
    and l: "l = length (sentBetween u t)" by auto
  have su: "appendOnly s u" using staysD [OF stays_projection(1), of s env opts ev endMs e] e by simp
  have ut: "appendOnly u t"
    using staysD [OF log.stays_sumOver [where f = ?F and xs = edges, OF stays_projection(1)], of u] rest by simp
  have last: "edgeDone env ev (set (sentBetween s u)) t e" if "pe_to_account_id e \<notin> pe_to_account_id ` set edges"
  proof (rule edgeDone_row [OF e1])
    have "stays (rowStays (ev_canonical_event_id ev) (pe_to_account_id e)) (sumOver edges ?F)"
      using that by (intro row.stays_sumOver row_projectEdge) force
    from staysD [OF this, of u] rest show "rowStays (ev_canonical_event_id ev) (pe_to_account_id e) u t"
      by simp
  qed
  show ?case
    using last r1 sentBetween_trans [OF su ut] k l n by (auto intro: edgeDone_mono)
qed

lemma projectAndEnqueue_done:
  assumes ok: "graph_ok env s" and r: "eventsWithId cid s = [r]"
    and opts: "forceRequeuePending opts \<noteq> Some False"
    and run: "projectAndEnqueue env cid acct opts s = (Inr n, t)"
  shows "\<forall>e \<in> set (lastEdges (edgesFrom acct s)). edgeDone env (rowToCanonicalEvent r) (set (sentBetween s t)) t e"
    and "n = length (sentBetween s t)"
proof -
  have "ce_canonical_event_id r \<in> eventIds s" "ce_canonical_event_id r = cid"
    using r by (auto simp: eventsWithId_def eventIds_def filter_eq_Cons_iff)
  with sumOver_projectEdge_done [OF ok _ opts, of "rowToCanonicalEvent r"] run r
  show "\<forall>e \<in> set (lastEdges (edgesFrom acct s)). edgeDone env (rowToCanonicalEvent r) (set (sentBetween s t)) t e"
    and "n = length (sentBetween s t)"
    by (auto simp: projectAndEnqueue_run)
qed

section \<open>A second run is silent\<close>

definition edgeSettled :: "graph_env \<Rightarrow> canonical_event \<Rightarrow> user_graph \<Rightarrow> edge_row \<Rightarrow> bool" where
  "edgeSettled env ev s e \<longleftrightarrow>
     (\<exists>p m. compileProjection ev (pe_detail_level e) = Some p \<and>
        mirrorRows (ev_canonical_event_id ev) (pe_to_account_id e) s = [m] \<and>
        em_last_projected_hash m = Some (edgeHash env ev e p) \<and> em_state m \<noteq> PENDING)"

lemma projectEdge_settled:
  assumes "edgeSettled env ev s e"
    and "forceRequeueNonActive opts \<noteq> Some True \<or>
         (\<forall>m \<in> set (mirrorRows (ev_canonical_event_id ev) (pe_to_account_id e) s). em_state m = ACTIVE)"
  shows "projectEdge env opts ev endMs e s = (Inr 0, s)"
  using assms by (auto simp: edgeSettled_def projectEdge_def Let_def skipWrite_def ret_run)

lemma projectAndEnqueue_settled:
  assumes r: "eventsWithId cid s = [r]"
    and e: "\<forall>e \<in> set (edgesFrom acct s). edgeSettled env (rowToCanonicalEvent r) s e"
    and opts: "forceRequeueNonActive opts \<noteq> Some True"
  shows "projectAndEnqueue env cid acct opts s = (Inr 0, s)"
proof -
  have "sumOver edges (projectEdge env opts ev endMs) s = (Inr 0, s)"
    if "\<forall>e \<in> set edges. edgeSettled env ev s e" for edges ev endMs
    using that
  proof (induction edges)
    case (Cons e edges)
    then show ?case
      by (simp add: andThen_def projectEdge_settled [OF _ disjI1 [OF opts]] ret_run)
  qed (simp add: ret_run)
  from this [OF e] r show ?thesis by (simp add: projectAndEnqueue_run)
qed

section \<open>With healthy queues a run returns\<close>

lemma projectEdge_returns:
  assumes "\<forall>k. \<not> send_fails env k" and "validDetail (pe_detail_level e)"
    and "graph_ok env s" and "ev_canonical_event_id ev \<in> eventIds s"
  shows "\<exists>n. projectEdge env opts ev endMs e s = (Inr n, snd (projectEdge env opts ev endMs e s))"
proof -
  obtain p where p: "compileProjection ev (pe_detail_level e) = Some p"
    using compileProjection_defined [of ev "pe_detail_level e"] assms(2) by blast
  obtain r t where run: "projectEdge env opts ev endMs e s = (r, t)" by force
  show ?thesis
  proof (cases rule: projectEdge_cases [OF assms(3,4) p run])
    case (3 m' u)
    have "fst (enqueueUpsertMirror env msg endMs u) = Inr ()" for msg
      using assms(1) by (simp add: enqueueUpsertMirror_def sendWrite_def sendDelete_def split: option.split)
    then have "r \<noteq> Inl QueueRejected" using 3(5) by (metis fst_conv map_sum.simps(1) sum.distinct(1))
    then show ?thesis using 3(8) run by auto
  qed (use run in auto)
qed

lemma sumOver_projectEdge_returns:
  assumes up: "\<forall>k. \<not> send_fails env k" and valid: "\<forall>e \<in> set edges. validDetail (pe_detail_level e)"
    and "graph_ok env s" and "ev_canonical_event_id ev \<in> eventIds s"
  shows "\<exists>n t. sumOver edges (projectEdge env opts ev endMs) s = (Inr n, t)"
  using valid assms(3,4)
proof (induction edges arbitrary: s)
  case Nil
  then show ?case by (simp add: ret_run)
next
  case (Cons e edges)
  have "\<exists>n t. projectEdge env opts ev endMs e s = (Inr n, t)"
    using projectEdge_returns [OF up _ Cons.prems(2,3), of e opts endMs] Cons.prems(1) by auto
  then obtain n t where e: "projectEdge env opts ev endMs e s = (Inr n, t)" by blast
  have "graph_ok env t"
    using keepsD [OF keeps_projectEdge Cons.prems(2), of env opts ev endMs e] e by simp
  moreover have "ev_canonical_event_id ev \<in> eventIds t"
    using staysD [OF scope_projectEdge [OF refl], of ev s env opts endMs e] Cons.prems(3) e
    by (simp add: eventIds_def projectsOnly_tables)
  ultimately have "\<exists>m u. sumOver edges (projectEdge env opts ev endMs) t = (Inr m, u)"
    using Cons.IH [of t] Cons.prems(1) by simp
  then obtain m u where "sumOver edges (projectEdge env opts ev endMs) t = (Inr m, u)" by blast
  with e show ?case by (simp add: andThen_def ret_run)
qed

lemma projectAndEnqueue_returns:
  assumes up: "\<forall>k. \<not> send_fails env k" and ok: "graph_ok env s"
  shows "\<exists>n. projectAndEnqueue env cid acct opts s =
             (Inr n, snd (projectAndEnqueue env cid acct opts s))"
proof (cases "eventsWithId cid s")
  case Nil
  then show ?thesis by (simp add: projectAndEnqueue_run)
next
  case (Cons r rest)
  then have "ev_canonical_event_id (rowToCanonicalEvent r) \<in> eventIds s"
    by (auto simp: eventsWithId_def eventIds_def filter_eq_Cons_iff)
  moreover have "\<forall>e \<in> set (edgesFrom acct s). validDetail (pe_detail_level e)"
    using ok by (simp add: edgesFrom_def graph_ok_def policies_ok_def)
  ultimately obtain n t where "sumOver (edgesFrom acct s) (projectEdge env opts (rowToCanonicalEvent r)
      (parseCanonicalEventEndMs env (rowToCanonicalEvent r))) s = (Inr n, t)"
    using sumOver_projectEdge_returns [OF up _ ok] by blast
  then show ?thesis using Cons by (simp add: projectAndEnqueue_run)
qed

end
