(* ===== verification/Graph_Deltas.thy ===== *)
theory Graph_Deltas
  imports Projection_Laws
begin

text \<open>
  The primary sync path of \<^verbatim>\<open>UserGraphDO\<close>: \<^verbatim>\<open>applyProviderDelta\<close> and the handlers it calls, with
  the rebinding of events whose origin account left the graph, the participants of an event and
  the interaction times of relationships. A delta that throws is recorded in the result and the
  next one is processed; the statements it ran before stay.
\<close>

section \<open>Legacy rebinding\<close>

definition isLikelyOrphanOriginAccount :: "user_graph \<Rightarrow> string \<Rightarrow> bool" where
  "isLikelyOrphanOriginAccount s acct =
     (if acct = [] \<or> acct = ''internal'' then False
      else if filter (\<lambda>c. ca_account_id c = acct) (calendars s) \<noteq> [] then False
      else filter (\<lambda>e. pe_from_account_id e = acct \<or> pe_to_account_id e = acct) (policy_edges s) = [])"

definition hasCalendar :: "user_graph \<Rightarrow> string \<Rightarrow> bool" where
  "hasCalendar s acct \<longleftrightarrow> filter (\<lambda>c. ca_account_id c = acct) (calendars s) \<noteq> []"

definition findLegacyRebindCandidate :: "user_graph \<Rightarrow> string \<Rightarrow> string \<Rightarrow> event_row option" where
  "findLegacyRebindCandidate s acct oid =
     (if \<not> hasCalendar s acct then None
      else case filter (\<lambda>r. ce_origin_event_id r = oid \<and> ce_origin_account_id r \<noteq> acct \<and>
                            ce_source r = ''provider'') (canonical_events s) of
             [candidate] \<Rightarrow>
               (if isLikelyOrphanOriginAccount s (ce_origin_account_id candidate)
                then Some candidate else None)
           | _ \<Rightarrow> None)"

section \<open>Handlers\<close>

definition eventTs :: "event_date_time \<Rightarrow> string" where
  "eventTs d = nullish (orNullish (dt_dateTime d) (dt_date d)) []"

definition setEventFields :: "graph_env \<Rightarrow> delta_event \<Rightarrow> nat \<Rightarrow> event_row \<Rightarrow> event_row" where
  "setEventFields env evt version r =
     r\<lparr> ce_title := de_title evt, ce_description := de_description evt,
        ce_location := de_location evt, ce_start_ts := eventTs (de_start evt),
        ce_end_ts := eventTs (de_end evt), ce_timezone := dt_timeZone (de_start evt),
        ce_all_day := de_all_day evt, ce_status := nullish (de_status evt) ''confirmed'',
        ce_visibility := nullish (de_visibility evt) ''default'',
        ce_transparency := nullish (de_transparency evt) ''opaque'',
        ce_recurrence_rule := de_recurrence_rule evt,
        ce_version := version, ce_updated_at := datetimeNow env \<rparr>"

definition newEventRow ::
  "graph_env \<Rightarrow> string \<Rightarrow> string \<Rightarrow> string \<Rightarrow> delta_event \<Rightarrow> event_row" where
  "newEventRow env cid acct oid evt =
     \<lparr> ce_canonical_event_id = cid, ce_origin_account_id = acct, ce_origin_event_id = oid,
       ce_title = de_title evt, ce_description = de_description evt, ce_location = de_location evt,
       ce_start_ts = eventTs (de_start evt), ce_end_ts = eventTs (de_end evt),
       ce_timezone = dt_timeZone (de_start evt), ce_all_day = de_all_day evt,
       ce_status = nullish (de_status evt) ''confirmed'',
       ce_visibility = nullish (de_visibility evt) ''default'',
       ce_transparency = nullish (de_transparency evt) ''opaque'',
       ce_recurrence_rule = de_recurrence_rule evt, ce_source = ''provider'', ce_version = 1,
       ce_created_at = datetimeNow env, ce_updated_at = datetimeNow env, ce_constraint_id = None \<rparr>"

definition providerActor :: "string \<Rightarrow> string" where
  "providerActor acct = ''provider:'' @ acct"

definition handleCreated :: "graph_env \<Rightarrow> string \<Rightarrow> provider_delta \<Rightarrow> string graph_op" where
  "handleCreated env acct d =
     (case pd_event d of
        None \<Rightarrow> throw (Thrown ''Created delta must include event payload'')
      | Some evt \<Rightarrow>
          let oid = pd_origin_event_id d in
          andThen (query (eventsByOrigin acct oid)) (\<lambda>existingRows.
            case existingRows of
              row # _ \<Rightarrow>
                let cid = ce_canonical_event_id row in
                andThen (updateEventRow cid (setEventFields env evt (ce_version row + 1))) (\<lambda>_.
                andThen (writeJournal env cid ''updated'' (providerActor acct)
                  (JObj [(''origin_event_id'', JStr oid), (''dedup'', JBool True)]) None) (\<lambda>_.
                ret cid))
            | [] \<Rightarrow>
                andThen (query (\<lambda>s. findLegacyRebindCandidate s acct oid)) (\<lambda>legacy.
                  case legacy of
                    Some row \<Rightarrow>
                      let cid = ce_canonical_event_id row in
                      andThen (rebindEventRow cid acct (setEventFields env evt (ce_version row + 1))) (\<lambda>_.
                      andThen (writeJournal env cid ''updated'' (providerActor acct)
                        (JObj [(''origin_event_id'', JStr oid), (''dedup'', JBool True),
                               (''legacy_rebind_from'', JStr (ce_origin_account_id row))]) None) (\<lambda>_.
                      ret cid))
                  | None \<Rightarrow>
                      andThen (freshId env ''event'') (\<lambda>cid.
                      andThen (insertEventRow (newEventRow env cid acct oid evt)) (\<lambda>_.
                      andThen (writeJournal env cid ''created'' (providerActor acct)
                        (JObj [(''origin_event_id'', JStr oid)]) None) (\<lambda>_.
                      ret cid))))))"

text \<open>
  The patch of an update: \<^verbatim>\<open>legacy_rebind_from\<close> is set only when the old account is not empty, which
  a rebind candidate's never is.
\<close>

definition updatePatch :: "string \<Rightarrow> nat \<Rightarrow> string option \<Rightarrow> json" where
  "updatePatch oid version from' =
     JObj ([(''origin_event_id'', JStr oid), (''new_version'', JNum (int version))] @
           (if truthy from' then [(''legacy_rebind_from'', JStr (the from'))] else []))"

definition handleUpdated :: "graph_env \<Rightarrow> string \<Rightarrow> provider_delta \<Rightarrow> string option graph_op" where
  "handleUpdated env acct d =
     (case pd_event d of
        None \<Rightarrow> throw (Thrown ''Updated delta must include event payload'')
      | Some evt \<Rightarrow>
          let oid = pd_origin_event_id d;
              finish = (\<lambda>row legacyRebindFrom.
                let cid = ce_canonical_event_id row; newVersion = ce_version row + 1 in
                andThen (if truthy legacyRebindFrom
                         then rebindEventRow cid acct (setEventFields env evt newVersion)
                         else updateEventRow cid (setEventFields env evt newVersion)) (\<lambda>_.
                andThen (writeJournal env cid ''updated'' (providerActor acct)
                          (updatePatch oid newVersion legacyRebindFrom) None) (\<lambda>_.
                ret (Some cid)))) in
          andThen (query (eventsByOrigin acct oid)) (\<lambda>rows.
            case rows of
              row # _ \<Rightarrow> finish row None
            | [] \<Rightarrow>
                andThen (query (\<lambda>s. findLegacyRebindCandidate s acct oid)) (\<lambda>legacy.
                  case legacy of
                    None \<Rightarrow> andThen (handleCreated env acct d) (\<lambda>cid. ret (Some cid))
                  | Some row \<Rightarrow> finish row (Some (ce_origin_account_id row)))))"

definition deleteMessageFor :: "graph_env \<Rightarrow> string \<Rightarrow> mirror_row \<Rightarrow> delete_message" where
  "deleteMessageFor env cid m =
     \<lparr> dm_canonical_event_id = cid, dm_target_account_id = em_target_account_id m,
       dm_target_calendar_id = Some (em_target_calendar_id m),
       dm_provider_event_id = nullish (em_provider_event_id m) [],
       dm_idempotency_key = Some (computeIdempotencyKey (sha256 env) cid (em_target_account_id m)
         (''delete:'' @ nullish (em_provider_event_id m) [] @ '':'' @ em_target_calendar_id m)) \<rparr>"

definition deletePatch :: "string \<Rightarrow> string option \<Rightarrow> json" where
  "deletePatch oid from' =
     JObj ([(''origin_event_id'', JStr oid)] @
           (if truthy from' then [(''legacy_rebind_from'', JStr (the from'))] else []))"

text \<open>The shared tail of the deletions: one message per mirror, then the mirrors, then the event.\<close>

definition enqueueMirrorDeletes :: "graph_env \<Rightarrow> string \<Rightarrow> mirror_row list \<Rightarrow> nat graph_op" where
  "enqueueMirrorDeletes env cid mirrors =
     sumOver mirrors (\<lambda>m. andThen (enqueueDeleteMirror env (deleteMessageFor env cid m)) (\<lambda>_. ret 1))"

definition removeEvent :: "string \<Rightarrow> unit graph_op" where
  "removeEvent cid =
     andThen (deleteMirrorRows (\<lambda>m. em_canonical_event_id m = cid)) (\<lambda>_.
       deleteEventRows (\<lambda>r. ce_canonical_event_id r = cid))"

definition handleDeleted :: "graph_env \<Rightarrow> string \<Rightarrow> provider_delta \<Rightarrow> nat option graph_op" where
  "handleDeleted env acct d =
     (let oid = pd_origin_event_id d;
          finish = (\<lambda>cid legacyRebindFrom.
            andThen (query (mirrorsOf cid)) (\<lambda>mirrors.
            andThen (enqueueMirrorDeletes env cid mirrors) (\<lambda>mirrorsDeleted.
            andThen (removeEvent cid) (\<lambda>_.
            andThen (writeJournal env cid ''deleted'' (providerActor acct)
                       (deletePatch oid legacyRebindFrom) None) (\<lambda>_.
            ret (Some mirrorsDeleted)))))) in
      andThen (query (eventsByOrigin acct oid)) (\<lambda>rows.
        case rows of
          row # _ \<Rightarrow> finish (ce_canonical_event_id row) None
        | [] \<Rightarrow>
            andThen (query (\<lambda>s. findLegacyRebindCandidate s acct oid)) (\<lambda>legacy.
              case legacy of
                None \<Rightarrow> ret None
              | Some row \<Rightarrow> finish (ce_canonical_event_id row) (Some (ce_origin_account_id row)))))"

section \<open>Participants and interactions\<close>

definition insertOrIgnoreParticipant :: "string \<Rightarrow> string \<Rightarrow> unit graph_op" where
  "insertOrIgnoreParticipant cid h s =
     (if \<exists>p \<in> set (event_participants s). participantKey p = (cid, h) then (Inr (), s)
      else if eventsWithId cid s = [] then (Inl ForeignKeyViolation, s)
      else (Inr (), s\<lparr> event_participants := event_participants s @
              [\<lparr> ep_canonical_event_id = cid, ep_participant_hash = h \<rparr>] \<rparr>))"

definition storeEventParticipants :: "string \<Rightarrow> string list \<Rightarrow> unit graph_op" where
  "storeEventParticipants cid hashes =
     andThen (modify (\<lambda>s. s\<lparr> event_participants :=
         deleteRows (\<lambda>p. ep_canonical_event_id p = cid) (event_participants s) \<rparr>)) (\<lambda>_.
       forEach hashes (insertOrIgnoreParticipant cid))"

definition matchEventParticipants :: "string list \<Rightarrow> relationship_row list \<Rightarrow> string list" where
  "matchEventParticipants hashes rels =
     map rl_relationship_id (filter (\<lambda>r. List.member hashes (rl_participant_hash r)) rels)"

definition updateInteractions :: "graph_env \<Rightarrow> string list \<Rightarrow> string \<Rightarrow> nat graph_op" where
  "updateInteractions env hashes ts =
     (if hashes = [] then ret 0
      else andThen (query (\<lambda>s. matchEventParticipants hashes (relationships s))) (\<lambda>matching.
        if matching = [] then ret 0
        else andThen (forEach matching (\<lambda>relId. modify (\<lambda>s. s\<lparr> relationships :=
               updateRows (\<lambda>r. rl_relationship_id r = relId)
                 (\<lambda>r. r\<lparr> rl_last_interaction_ts := Some ts, rl_updated_at := nowIso env \<rparr>)
                 (relationships s) \<rparr>))) (\<lambda>_. ret (length matching))))"

section \<open>The batch\<close>

record apply_result =
  ar_created :: nat
  ar_updated :: nat
  ar_deleted :: nat
  ar_mirrors_enqueued :: nat
  ar_errors :: "(string \<times> string) list"

definition noResult :: apply_result where
  "noResult = \<lparr> ar_created = 0, ar_updated = 0, ar_deleted = 0, ar_mirrors_enqueued = 0, ar_errors = [] \<rparr>"

text \<open>
  One step inside the \<^verbatim>\<open>try\<close> of a delta: when it throws, the counters reached so far are kept and
  the message is added to the errors.
\<close>

definition orRecord ::
  "provider_delta \<Rightarrow> apply_result \<Rightarrow> 'a graph_op \<Rightarrow> ('a \<Rightarrow> apply_result graph_op) \<Rightarrow> apply_result graph_op" where
  "orRecord d res m k s =
     (case m s of
        (Inl e, t) \<Rightarrow>
          (Inr (res\<lparr> ar_errors := ar_errors res @ [(pd_origin_event_id d, error_message e)] \<rparr>), t)
      | (Inr x, t) \<Rightarrow> k x t)"

definition recordParticipants :: "graph_env \<Rightarrow> provider_delta \<Rightarrow> string \<Rightarrow> unit graph_op" where
  "recordParticipants env d cid =
     (case pd_participant_hashes d of
        None \<Rightarrow> ret ()
      | Some hashes \<Rightarrow>
          if hashes = [] then ret ()
          else andThen (storeEventParticipants cid hashes) (\<lambda>_.
            case pd_event d of
              None \<Rightarrow> ret ()
            | Some evt \<Rightarrow>
                andThen (updateInteractions env hashes
                  (nullish (orNullish (dt_dateTime (de_start evt)) (dt_date (de_start evt))) (nowIso env)))
                (\<lambda>_. ret ())))"

definition afterWrite ::
  "graph_env \<Rightarrow> string \<Rightarrow> provider_delta \<Rightarrow> string \<Rightarrow> apply_result \<Rightarrow> apply_result graph_op" where
  "afterWrite env acct d cid res =
     orRecord d res (projectAndEnqueue env cid acct noOpts) (\<lambda>n.
       let res' = res\<lparr> ar_mirrors_enqueued := ar_mirrors_enqueued res + n \<rparr> in
       orRecord d res' (recordParticipants env d cid) (\<lambda>_. ret res'))"

definition applyDelta ::
  "graph_env \<Rightarrow> string \<Rightarrow> provider_delta \<Rightarrow> apply_result \<Rightarrow> apply_result graph_op" where
  "applyDelta env acct d res =
     (case pd_type d of
        Delta_Created \<Rightarrow>
          orRecord d res (handleCreated env acct d) (\<lambda>cid.
            afterWrite env acct d cid (res\<lparr> ar_created := ar_created res + 1 \<rparr>))
      | Delta_Updated \<Rightarrow>
          orRecord d res (handleUpdated env acct d) (\<lambda>result.
            case result of
              None \<Rightarrow> ret res
            | Some cid \<Rightarrow> afterWrite env acct d cid (res\<lparr> ar_updated := ar_updated res + 1 \<rparr>))
      | Delta_Deleted \<Rightarrow>
          orRecord d res (handleDeleted env acct d) (\<lambda>result.
            case result of
              None \<Rightarrow> ret res
            | Some n \<Rightarrow> ret (res\<lparr> ar_deleted := ar_deleted res + 1,
                                 ar_mirrors_enqueued := ar_mirrors_enqueued res + n \<rparr>)))"

fun applyDeltas ::
  "graph_env \<Rightarrow> string \<Rightarrow> provider_delta list \<Rightarrow> apply_result \<Rightarrow> apply_result graph_op" where
  "applyDeltas env acct [] res = ret res"
| "applyDeltas env acct (d # ds) res =
     andThen (applyDelta env acct d res) (applyDeltas env acct ds)"

definition applyProviderDelta :: "graph_env \<Rightarrow> string \<Rightarrow> provider_delta list \<Rightarrow> apply_result graph_op" where
  "applyProviderDelta env acct deltas = applyDeltas env acct deltas noResult"

section \<open>Well-formed tables and growing logs\<close>

lemma keepsEventKeys_set [simp]: "keepsEventKeys (setEventFields env evt v)"
  by (simp add: keepsEventKeys_def setEventFields_def)

lemma keeps_handleCreated [graph_keeps]: "keeps (graph_ok env) (handleCreated env acct d)"
  unfolding handleCreated_def Let_def
  by (intro keeps_intro graph_keeps keepsEventKeys_set)

lemma keeps_handleUpdated [graph_keeps]: "keeps (graph_ok env) (handleUpdated env acct d)"
  unfolding handleUpdated_def Let_def
  by (intro keeps_intro graph_keeps keepsEventKeys_set)

lemma keeps_enqueueMirrorDeletes [graph_keeps]:
  "keeps (graph_ok env) (enqueueMirrorDeletes env' cid ms)"
  unfolding enqueueMirrorDeletes_def by (intro keeps_intro graph_keeps)

lemma keeps_removeEvent [graph_keeps]: "keeps (graph_ok env) (removeEvent cid)"
  unfolding removeEvent_def by (intro keeps_intro graph_keeps)

lemma keeps_handleDeleted [graph_keeps]: "keeps (graph_ok env) (handleDeleted env acct d)"
  unfolding handleDeleted_def Let_def by (intro keeps_intro graph_keeps)

lemma keeps_insertParticipant [graph_keeps]: "keeps (graph_ok env) (insertOrIgnoreParticipant cid h)"
proof (rule keepsI)
  fix s assume ok: "graph_ok env s"
  then show "graph_ok env (snd (insertOrIgnoreParticipant cid h s))"
    using eventsWithId_nonempty [of cid s]
    by (auto simp: insertOrIgnoreParticipant_def graph_ok_def events_ok_def mirrors_ok_def
          references_ok_def policies_ok_def calendars_ok_def journal_ok_def sessions_ok_def people_ok_def time_ok_def
          eventIds_def participantKey_def)
qed

lemma keeps_storeParticipants [graph_keeps]: "keeps (graph_ok env) (storeEventParticipants cid hs)"
proof -
  have "keeps (graph_ok env) (modify (\<lambda>s. s\<lparr> event_participants :=
      deleteRows (\<lambda>p. ep_canonical_event_id p = cid) (event_participants s) \<rparr>))"
    by (rule keeps_modify) (auto simp: graph_ok_parts distinct_map_deleteRows)
  then show ?thesis unfolding storeEventParticipants_def by (intro keeps_intro graph_keeps)
qed

lemma keeps_updateInteractions [graph_keeps]: "keeps (graph_ok env) (updateInteractions env' hs ts)"
  unfolding updateInteractions_def by (intro keeps_intro keeps_modify graph_ok_updateRelationships) (simp_all add: relationship_valid_def)

lemma keeps_recordParticipants [graph_keeps]: "keeps (graph_ok env) (recordParticipants env' d cid)"
  unfolding recordParticipants_def by (intro keeps_intro graph_keeps)

lemma orRecord_tryCatch:
  "orRecord d res m k = andThen (tryCatch (andThen m (\<lambda>x. ret (Inr x))) (\<lambda>e. ret (Inl e)))
     (\<lambda>r. case r of Inl e \<Rightarrow> ret (res\<lparr> ar_errors := ar_errors res @ [(pd_origin_event_id d, error_message e)] \<rparr>)
                  | Inr x \<Rightarrow> k x)"
  by (rule ext) (simp add: orRecord_def andThen_def tryCatch_def ret_def split: prod.split sum.split)

lemma keeps_orRecord [graph_keeps]:
  assumes "keeps P m" and "\<And>x. keeps P (k x)"
  shows "keeps P (orRecord d res m k)"
  unfolding orRecord_tryCatch using assms
  by (intro keeps_intro) (auto intro: keeps_ret split: sum.split)

lemma keeps_applyDelta [graph_keeps]: "keeps (graph_ok env) (applyDelta env acct d res)"
proof -
  have after: "keeps (graph_ok env) (afterWrite env acct d cid res)" for cid res
    unfolding afterWrite_def Let_def by (intro keeps_intro graph_keeps)
  show ?thesis
    unfolding applyDelta_def
    by (cases "pd_type d") (auto intro!: keeps_intro graph_keeps after)
qed

lemma keeps_applyDeltas [graph_keeps]: "keeps (graph_ok env) (applyDeltas env acct ds res)"
  by (induction ds arbitrary: res) (auto intro!: keeps_intro graph_keeps)

lemma keeps_applyProviderDelta [graph_keeps]: "keeps (graph_ok env) (applyProviderDelta env acct ds)"
  unfolding applyProviderDelta_def by (rule keeps_applyDeltas)

lemma stays_handlers [log_stays]:
  "stays appendOnly (handleCreated env acct d)" "stays appendOnly (enqueueMirrorDeletes env cid ms)"
  "stays appendOnly (removeEvent cid)"
  unfolding handleCreated_def enqueueMirrorDeletes_def removeEvent_def Let_def
  by (intro log_rules log_stays)+

lemma stays_handlers2 [log_stays]:
  "stays appendOnly (handleUpdated env acct d)" "stays appendOnly (handleDeleted env acct d)"
  unfolding handleUpdated_def handleDeleted_def Let_def by (intro log_rules log_stays)+

lemma stays_participants [log_stays]: "stays appendOnly (recordParticipants env d cid)"
proof -
  have "stays appendOnly (insertOrIgnoreParticipant cid h)" for cid h
    by (rule staysI) (auto simp: insertOrIgnoreParticipant_def log.same)
  then show ?thesis
    unfolding recordParticipants_def storeEventParticipants_def updateInteractions_def
    by (intro log_rules log.stays_modify appendOnly_tables)
qed

lemma stays_orRecord [log_stays]:
  assumes "stays appendOnly m" and "\<And>x. stays appendOnly (k x)"
  shows "stays appendOnly (orRecord d res m k)"
  unfolding orRecord_tryCatch using assms
  by (intro log_rules) (auto intro: log.stays_ret split: sum.split)

lemma stays_applyDelta [log_stays]: "stays appendOnly (applyDelta env acct d res)"
proof -
  have after: "stays appendOnly (afterWrite env acct d cid res)" for cid res
    unfolding afterWrite_def Let_def by (intro log_rules log_stays)
  show ?thesis
    unfolding applyDelta_def by (cases "pd_type d") (auto intro!: log_rules log_stays after)
qed

lemma stays_applyDeltas [log_stays]: "stays appendOnly (applyDeltas env acct ds res)"
  by (induction ds arbitrary: res) (auto intro!: log_rules log_stays)

end
