(* ===== verification/Delta_Laws.thy ===== *)
theory Delta_Laws
  imports Graph_Deltas
begin

text \<open>
  What the sync path does, branch by branch: a created delta makes one event or updates the one it
  already made, an update keeps the identity of its event and raises the version by one, a
  deletion removes the event with everything that hangs on it and orders the deletion of every
  mirror, and a delta delivered again changes nothing downstream.
\<close>

section \<open>Creation and redelivery\<close>

lemma graph_ok_clock [simp]: "graph_ok (env\<lparr> now_ms := t \<rparr>) s = graph_ok env s"
  by (simp add: graph_ok_def journal_ok_def drawn_def)

text \<open>The row already shows the payload: writing it again moves only the version and the date.\<close>

definition showsPayload :: "delta_event \<Rightarrow> event_row \<Rightarrow> bool" where
  "showsPayload evt r \<longleftrightarrow>
     ce_title r = de_title evt \<and> ce_description r = de_description evt \<and>
     ce_location r = de_location evt \<and> ce_start_ts r = eventTs (de_start evt) \<and>
     ce_end_ts r = eventTs (de_end evt) \<and> ce_timezone r = dt_timeZone (de_start evt) \<and>
     ce_all_day r = de_all_day evt \<and> ce_status r = nullish (de_status evt) ''confirmed'' \<and>
     ce_visibility r = nullish (de_visibility evt) ''default'' \<and>
     ce_transparency r = nullish (de_transparency evt) ''opaque'' \<and>
     ce_recurrence_rule r = de_recurrence_rule evt"

lemma showsPayload_set [simp]: "showsPayload evt (setEventFields env evt v r)"
  by (simp add: showsPayload_def setEventFields_def)

lemma showsPayload_new [simp]: "showsPayload evt (newEventRow env cid acct oid evt)"
  by (simp add: showsPayload_def newEventRow_def)

lemma showsPayload_account [simp]: "showsPayload evt (r\<lparr> ce_origin_account_id := a \<rparr>) = showsPayload evt r"
  by (simp add: showsPayload_def)

lemma setEventFields_again:
  "showsPayload evt r \<Longrightarrow>
   setEventFields env evt v r = r\<lparr> ce_version := v, ce_updated_at := datetimeNow env \<rparr>"
  by (cases r) (simp add: showsPayload_def setEventFields_def)

lemma setEventFields_keys [simp]:
  "ce_canonical_event_id (setEventFields env evt v r) = ce_canonical_event_id r"
  "ce_origin_account_id (setEventFields env evt v r) = ce_origin_account_id r"
  "ce_origin_event_id (setEventFields env evt v r) = ce_origin_event_id r"
  "ce_version (setEventFields env evt v r) = v"
  "ce_created_at (setEventFields env evt v r) = ce_created_at r"
  "ce_source (setEventFields env evt v r) = ce_source r"
  by (simp_all add: setEventFields_def)

definition journalEntry ::
  "graph_env \<Rightarrow> nat \<Rightarrow> string \<Rightarrow> string \<Rightarrow> string \<Rightarrow> json \<Rightarrow> journal_row" where
  "journalEntry env k cid change actor patch =
     \<lparr> ej_journal_id = generateId ''journal'' (ulid env k), ej_canonical_event_id = cid,
       ej_ts = datetimeNow env, ej_actor = actor, ej_change_type = change,
       ej_patch_json = Some (stringify patch), ej_reason = None \<rparr>"

lemma writeJournal_run:
  "graph_ok env s \<Longrightarrow> inj (ulid env) \<Longrightarrow>
   writeJournal env cid change actor p None s =
     (Inr (), s\<lparr> id_seq := id_seq s + 1,
        event_journal := event_journal s @ [journalEntry env (id_seq s) cid change actor p] \<rparr>)"
  by (simp add: writeJournal_succeeds journalEntry_def)

lemma handleCreated_existing:
  assumes ok: "graph_ok env s" and ids: "inj (ulid env)" and evt: "pd_event d = Some evt"
    and row: "eventsByOrigin acct (pd_origin_event_id d) s = row # rest"
  shows "handleCreated env acct d s =
    (Inr (ce_canonical_event_id row),
     s\<lparr> canonical_events := updateRows (\<lambda>r. ce_canonical_event_id r = ce_canonical_event_id row)
           (setEventFields env evt (ce_version row + 1)) (canonical_events s),
        id_seq := id_seq s + 1,
        event_journal := event_journal s @
          [journalEntry env (id_seq s) (ce_canonical_event_id row) ''updated'' (providerActor acct)
             (JObj [(''origin_event_id'', JStr (pd_origin_event_id d)), (''dedup'', JBool True)])] \<rparr>)"
proof -
  let ?u = "s\<lparr> canonical_events := updateRows (\<lambda>r. ce_canonical_event_id r = ce_canonical_event_id row)
           (setEventFields env evt (ce_version row + 1)) (canonical_events s) \<rparr>"
  have "graph_ok env ?u" by (rule graph_ok_updateEvents [OF ok keepsEventKeys_set])
  from writeJournal_run [OF this ids] show ?thesis
    by (simp add: handleCreated_def evt row Let_def updateEventRow_def andThen_def ret_run)
qed

lemma handleCreated_new:
  assumes ok: "graph_ok env s" and ids: "inj (ulid env)" and evt: "pd_event d = Some evt"
    and none: "eventsByOrigin acct (pd_origin_event_id d) s = []"
    and nolegacy: "findLegacyRebindCandidate s acct (pd_origin_event_id d) = None"
    and cid: "cid = generateId ''event'' (ulid env (id_seq s))" and fresh: "cid \<notin> eventIds s"
  shows "handleCreated env acct d s =
    (Inr cid,
     s\<lparr> canonical_events := canonical_events s @ [newEventRow env cid acct (pd_origin_event_id d) evt],
        id_seq := id_seq s + 2,
        event_journal := event_journal s @
          [journalEntry env (id_seq s + 1) cid ''created'' (providerActor acct)
             (JObj [(''origin_event_id'', JStr (pd_origin_event_id d))])] \<rparr>)"
proof -
  let ?row = "newEventRow env cid acct (pd_origin_event_id d) evt"
  let ?s = "s\<lparr> id_seq := id_seq s + 1 \<rparr>"
  have ins: "insertEventRow ?row ?s = (Inr (), ?s\<lparr> canonical_events := canonical_events s @ [?row] \<rparr>)"
    using fresh none eventsWithId_nonempty [of cid s]
    by (auto simp: insertEventRow_def newEventRow_def eventsWithId_def eventsByOrigin_def)
  have "graph_ok env ?s" using ok by (rule graph_ok_frame) simp
  then have "graph_ok env (?s\<lparr> canonical_events := canonical_events s @ [?row] \<rparr>)"
    using keepsD [OF keeps_insertEventRow, of env ?s ?row] ins by simp
  from writeJournal_run [OF this ids] ins show ?thesis
    by (simp add: handleCreated_def evt none nolegacy Let_def freshId_def cid andThen_def ret_run)
qed

text \<open>Whatever branch it took, the event is there afterwards, once, and shows the payload.\<close>

lemma eventsByOrigin_update:
  assumes row: "eventsByOrigin acct oid s = [row]"
    and f: "keepsEventKeys f"
    and dist: "distinct (map ce_canonical_event_id (canonical_events s))"
  shows "eventsByOrigin acct oid (s\<lparr> canonical_events :=
           updateRows (\<lambda>r. ce_canonical_event_id r = ce_canonical_event_id row) f (canonical_events s) \<rparr>) =
         [f row]"
proof -
  let ?P = "\<lambda>r. ce_canonical_event_id r = ce_canonical_event_id row"
  have in': "row \<in> set (canonical_events s)"
    using row by (auto simp: eventsByOrigin_def filter_eq_Cons_iff)
  have "filter (\<lambda>r. ce_origin_account_id r = acct \<and> ce_origin_event_id r = oid)
          (updateRows ?P f (canonical_events s)) =
        updateRows ?P f (eventsByOrigin acct oid s)"
    unfolding eventsByOrigin_def using f by (intro filter_updateRows) (simp add: keepsEventKeys_def)
  then show ?thesis by (simp add: eventsByOrigin_def [of acct oid "_\<lparr> canonical_events := _ \<rparr>"] row updateRows_def)
qed

definition eventHeld :: "string \<Rightarrow> provider_delta \<Rightarrow> string \<Rightarrow> user_graph \<Rightarrow> bool" where
  "eventHeld acct d cid s \<longleftrightarrow>
     (\<exists>row evt. pd_event d = Some evt \<and> eventsByOrigin acct (pd_origin_event_id d) s = [row] \<and>
        ce_canonical_event_id row = cid \<and> showsPayload evt row)"

lemma eventHeldI:
  "pd_event d = Some evt \<Longrightarrow> eventsByOrigin acct (pd_origin_event_id d) s = [row] \<Longrightarrow>
   ce_canonical_event_id row = cid \<Longrightarrow> showsPayload evt row \<Longrightarrow> eventHeld acct d cid s"
  unfolding eventHeld_def by blast

lemma eventHeld_journal:
  "writeJournal env cid' change actor p reason s = (r, t) \<Longrightarrow> eventHeld acct d cid t = eventHeld acct d cid s"
  by (auto simp: writeJournal_def andThen_def freshId_def insertJournalRow_def eventHeld_def
        eventsByOrigin_def split: if_splits)

lemma filter_updateRows_exact:
  "(\<And>r. r \<in> set rows \<Longrightarrow> Q (if P r then f r else r) \<longleftrightarrow> P r) \<Longrightarrow>
   filter Q (updateRows P f rows) = map f (filter P rows)"
  by (induction rows) (auto simp: updateRows_def)

lemma legacy_candidate:
  assumes "findLegacyRebindCandidate s acct oid = Some row"
  shows "row \<in> set (canonical_events s)" "ce_origin_event_id row = oid"
    "ce_origin_account_id row \<noteq> acct" "ce_source row = ''provider''" "ce_origin_account_id row \<noteq> []"
    "isLikelyOrphanOriginAccount s (ce_origin_account_id row)"
proof -
  from assms obtain c where c: "filter (\<lambda>r. ce_origin_event_id r = oid \<and> ce_origin_account_id r \<noteq> acct \<and>
      ce_source r = ''provider'') (canonical_events s) = [c]"
    and o': "isLikelyOrphanOriginAccount s (ce_origin_account_id c)" and eq: "c = row"
    by (auto simp: findLegacyRebindCandidate_def split: if_splits list.splits)
  from c have "c \<in> set (filter (\<lambda>r. ce_origin_event_id r = oid \<and> ce_origin_account_id r \<noteq> acct \<and>
      ce_source r = ''provider'') (canonical_events s))" by simp
  then have mem: "row \<in> set (canonical_events s) \<and> ce_origin_event_id row = oid \<and>
      ce_origin_account_id row \<noteq> acct \<and> ce_source row = ''provider''"
    unfolding eq by simp
  from mem o' show "row \<in> set (canonical_events s)" "ce_origin_event_id row = oid"
    "ce_origin_account_id row \<noteq> acct" "ce_source row = ''provider''" "ce_origin_account_id row \<noteq> []"
    "isLikelyOrphanOriginAccount s (ce_origin_account_id row)"
    unfolding eq by (simp_all, auto simp: isLikelyOrphanOriginAccount_def)
qed

lemma rebind_held:
  assumes ok: "graph_ok env s" and none: "eventsByOrigin acct oid s = []"
    and cand: "findLegacyRebindCandidate s acct oid = Some row"
    and f: "keepsEventKeys f"
    and run: "rebindEventRow (ce_canonical_event_id row) acct f s = (Inr u, t)"
  shows "eventsByOrigin acct oid t = [(f row)\<lparr> ce_origin_account_id := acct \<rparr>]"
proof -
  let ?P = "\<lambda>r. ce_canonical_event_id r = ce_canonical_event_id row"
  let ?g = "\<lambda>r. (f r)\<lparr> ce_origin_account_id := acct \<rparr>"
  note c = legacy_candidate [OF cand]
  from run have t: "t = s\<lparr> canonical_events := updateRows ?P ?g (canonical_events s) \<rparr>"
    by (auto simp: rebindEventRow_def split: if_splits)
  have one: "r = row" if "r \<in> set (canonical_events s)" "?P r" for r
    using distinct_key_eq [OF ok_events_distinct [OF ok] that(1) c(1)] that(2) by simp
  have "filter (\<lambda>r. ce_origin_account_id r = acct \<and> ce_origin_event_id r = oid)
          (updateRows ?P ?g (canonical_events s)) = map ?g (filter ?P (canonical_events s))"
  proof (rule filter_updateRows_exact)
    fix r assume r: "r \<in> set (canonical_events s)"
    show "(ce_origin_account_id (if ?P r then ?g r else r) = acct \<and>
           ce_origin_event_id (if ?P r then ?g r else r) = oid) \<longleftrightarrow> ?P r"
    proof (cases "?P r")
      case True
      with one [OF r] c f show ?thesis by (simp add: keepsEventKeys_def)
    next
      case False
      with none r show ?thesis by (auto simp: eventsByOrigin_def filter_empty_conv)
    qed
  qed
  also have "filter ?P (canonical_events s) = [row]"
    by (rule distinct_key_filter [OF ok_events_distinct [OF ok] c(1)])
  finally show ?thesis by (simp add: t eventsByOrigin_def)
qed

lemma handleCreated_held:
  assumes ok: "graph_ok env s" and run: "handleCreated env acct d s = (Inr cid, t)"
  shows "eventHeld acct d cid t"
proof -
  let ?oid = "pd_origin_event_id d"
  obtain evt where evt: "pd_event d = Some evt"
    using run by (cases "pd_event d") (auto simp: handleCreated_def throw_run)
  show ?thesis
  proof (cases rule: eventsByOrigin_cases [OF ok, of acct ?oid])
    case (2 row)
    let ?f = "setEventFields env evt (ce_version row + 1)"
    let ?u = "s\<lparr> canonical_events := updateRows
        (\<lambda>r. ce_canonical_event_id r = ce_canonical_event_id row) ?f (canonical_events s) \<rparr>"
    have "eventsByOrigin acct ?oid ?u = [?f row]"
      by (rule eventsByOrigin_update [OF 2(1) keepsEventKeys_set ok_events_distinct [OF ok]])
    then have "eventHeld acct d (ce_canonical_event_id row) ?u"
      by (rule eventHeldI [OF evt]) simp_all
    moreover have step: "andThen (writeJournal env (ce_canonical_event_id row) ''updated'' (providerActor acct)
        (JObj [(''origin_event_id'', JStr ?oid), (''dedup'', JBool True)]) None)
        (\<lambda>_. ret (ce_canonical_event_id row)) ?u = (Inr cid, t)"
      using run by (simp add: handleCreated_def evt 2(1) Let_def updateEventRow_def)
    from andThen_result [THEN iffD1, OF step] obtain v w where
      w: "writeJournal env (ce_canonical_event_id row) ''updated'' (providerActor acct)
        (JObj [(''origin_event_id'', JStr ?oid), (''dedup'', JBool True)]) None ?u = (Inr v, w)"
      and r: "ret (ce_canonical_event_id row) w = (Inr cid :: tm_error + string, t)"
      by blast
    from r have cid: "cid = ce_canonical_event_id row" and "w = t" by (simp_all add: ret_run)
    note j = w [unfolded \<open>w = t\<close>]
    ultimately show ?thesis by (simp only: cid eventHeld_journal [OF j])
  next
    case none: 1
    show ?thesis
    proof (cases "findLegacyRebindCandidate s acct ?oid")
      case (Some row)
      let ?f = "setEventFields env evt (ce_version row + 1)"
      from run none Some obtain u v w p where
        u: "rebindEventRow (ce_canonical_event_id row) acct ?f s = (Inr v, u)"
        and j: "writeJournal env (ce_canonical_event_id row) ''updated'' (providerActor acct) p None u = (Inr w, t)"
        and cid: "cid = ce_canonical_event_id row"
        by (auto simp: handleCreated_def evt Let_def andThen_result ret_run)
      have "eventHeld acct d cid u"
        by (rule eventHeldI [OF evt rebind_held [OF ok none(1) Some keepsEventKeys_set u]])
           (simp_all add: cid)
      then show ?thesis by (simp only: eventHeld_journal [OF j])
    next
      case None
      let ?s = "s\<lparr> id_seq := id_seq s + 1 \<rparr>"
      let ?cid = "generateId ''event'' (ulid env (id_seq s))"
      from run none None obtain u v w p where
        u: "insertEventRow (newEventRow env ?cid acct ?oid evt) ?s = (Inr v, u)"
        and j: "writeJournal env ?cid ''created'' (providerActor acct) p None u = (Inr w, t)"
        and cid: "cid = ?cid"
        by (auto simp: handleCreated_def evt Let_def freshId_def andThen_result ret_run)
      from u have "u = ?s\<lparr> canonical_events := canonical_events s @ [newEventRow env ?cid acct ?oid evt] \<rparr>"
        by (auto simp: insertEventRow_def split: if_splits)
      with none have "eventsByOrigin acct ?oid u = [newEventRow env ?cid acct ?oid evt]"
        by (simp add: eventsByOrigin_def newEventRow_def)
      then have "eventHeld acct d cid u"
        by (rule eventHeldI [OF evt]) (simp_all add: cid, simp add: newEventRow_def)
      then show ?thesis by (simp only: eventHeld_journal [OF j])
    qed
  qed
qed

text \<open>The version and the date of an event are not part of what is projected.\<close>

lemma projection_version:
  "compileProjection (rowToCanonicalEvent (r\<lparr> ce_version := v, ce_updated_at := u \<rparr>)) x =
   compileProjection (rowToCanonicalEvent r) x"
  by (simp add: compileProjection_def rowToCanonicalEvent_def rowDateTime_def Let_def)

lemma edgeSettled_transfer:
  assumes "edgeSettled env (rowToCanonicalEvent r) s e"
    and "event_mirrors t = event_mirrors s" and "sha256 env' = sha256 env"
  shows "edgeSettled env' (rowToCanonicalEvent (r\<lparr> ce_version := v, ce_updated_at := u \<rparr>)) t e"
  using assms by (simp add: edgeSettled_def projection_version edgeHash_def mirrorRows_def)

lemma eventHeld_row:
  assumes ok: "graph_ok env s" and held: "eventHeld acct d cid s"
  obtains row evt where "pd_event d = Some evt" "eventsByOrigin acct (pd_origin_event_id d) s = [row]"
    "ce_canonical_event_id row = cid" "showsPayload evt row" "eventsWithId cid s = [row]"
proof -
  from held obtain row evt where row: "pd_event d = Some evt"
    "eventsByOrigin acct (pd_origin_event_id d) s = [row]"
    "ce_canonical_event_id row = cid" "showsPayload evt row"
    unfolding eventHeld_def by blast
  then have "row \<in> set (canonical_events s)" by (auto simp: eventsByOrigin_def filter_eq_Cons_iff)
  from that [OF row] eventsWithId_unique [OF ok this row(3)] show thesis by blast
qed

section \<open>Deletion\<close>

text \<open>The state after messages went to the queue deletions use.\<close>

definition delivered :: "graph_env \<Rightarrow> queue_message list \<Rightarrow> user_graph \<Rightarrow> user_graph" where
  "delivered env ms s =
     (if has_delete_queue env
      then s\<lparr> send_seq := send_seq s + length ms, delete_queue := delete_queue s @ ms \<rparr>
      else s\<lparr> send_seq := send_seq s + length ms, write_queue := write_queue s @ ms \<rparr>)"

lemma sentBetween_delivered: "sentBetween s (delivered env ms s) = ms"
  by (simp add: delivered_def sentBetween_def)

lemma delivered_tables [simp]:
  "canonical_events (delivered env ms s) = canonical_events s"
  "event_mirrors (delivered env ms s) = event_mirrors s"
  "event_journal (delivered env ms s) = event_journal s"
  "time_allocations (delivered env ms s) = time_allocations s"
  "event_participants (delivered env ms s) = event_participants s"
  "policy_edges (delivered env ms s) = policy_edges s"
  "calendars (delivered env ms s) = calendars s"
  "id_seq (delivered env ms s) = id_seq s"
  by (simp_all add: delivered_def)

lemma graph_ok_delivered [simp]: "graph_ok env (delivered env' ms s) = graph_ok env s"
  by (simp add: delivered_def graph_ok_parts)

definition deleteMessages :: "graph_env \<Rightarrow> string \<Rightarrow> user_graph \<Rightarrow> queue_message list" where
  "deleteMessages env cid s = map (\<lambda>m. DELETE_MIRROR (deleteMessageFor env cid m)) (mirrorsOf cid s)"

lemma enqueueMirrorDeletes_delivered:
  assumes "\<forall>k. \<not> send_fails env k"
  shows "enqueueMirrorDeletes env cid ms s =
    (Inr (length ms), delivered env (map (\<lambda>m. DELETE_MIRROR (deleteMessageFor env cid m)) ms) s)"
proof (induction ms arbitrary: s)
  case Nil
  then show ?case by (simp add: enqueueMirrorDeletes_def delivered_def ret_run)
next
  case (Cons m ms)
  have "enqueueDeleteMirror env (deleteMessageFor env cid m) s =
        (Inr (), delivered env [DELETE_MIRROR (deleteMessageFor env cid m)] s)"
    using assms by (simp add: enqueueDeleteMirror_def sendDelete_def sendWrite_def delivered_def)
  with Cons show ?case
    by (simp add: enqueueMirrorDeletes_def andThen_def ret_run delivered_def)
qed

lemma enqueueMirrorDeletes_scope:
  assumes "\<forall>m \<in> set ms. Q (DELETE_MIRROR (deleteMessageFor env cid m))"
  shows "stays (sendsOnly Q) (enqueueMirrorDeletes env cid ms)"
  unfolding enqueueMirrorDeletes_def
  using assms by (intro sends.stays_rules sends_enqueue) auto

text \<open>The state with the event gone: its row, its mirrors and its participants.\<close>

definition withoutEvent :: "string \<Rightarrow> user_graph \<Rightarrow> user_graph" where
  "withoutEvent cid s =
     s\<lparr> event_mirrors := deleteRows (\<lambda>m. em_canonical_event_id m = cid) (event_mirrors s),
        canonical_events := deleteRows (\<lambda>r. ce_canonical_event_id r = cid) (canonical_events s),
        event_participants := deleteRows (\<lambda>p. ep_canonical_event_id p = cid) (event_participants s) \<rparr>"

lemma gone_ids:
  "cid \<in> eventIds s \<Longrightarrow>
   ce_canonical_event_id ` {r \<in> set (canonical_events s). ce_canonical_event_id r = cid} = {cid}"
  by (auto simp: eventIds_def)

lemma removeEvent_run:
  assumes "cid \<in> eventIds s" and "cid \<notin> ta_canonical_event_id ` set (time_allocations s)"
  shows "removeEvent cid s = (Inr (), withoutEvent cid s)"
  using assms gone_ids [OF assms(1)]
  by (auto simp: removeEvent_def deleteMirrorRows_def deleteEventRows_def Let_def withoutEvent_def)

lemma removeEvent_blocked:
  assumes "cid \<in> eventIds s" and "cid \<in> ta_canonical_event_id ` set (time_allocations s)"
  shows "removeEvent cid s = (Inl ForeignKeyViolation,
    s\<lparr> event_mirrors := deleteRows (\<lambda>m. em_canonical_event_id m = cid) (event_mirrors s) \<rparr>)"
  using assms gone_ids [OF assms(1)]
  by (auto simp: removeEvent_def deleteMirrorRows_def deleteEventRows_def Let_def)

lemma withoutEvent_gone:
  "cid \<notin> eventIds (withoutEvent cid s)" "mirrorsOf cid (withoutEvent cid s) = []"
  "cid \<notin> ep_canonical_event_id ` set (event_participants (withoutEvent cid s))"
  "c \<noteq> cid \<Longrightarrow> mirrorsOf c (withoutEvent cid s) = mirrorsOf c s"
  "c \<noteq> cid \<Longrightarrow> eventsWithId c (withoutEvent cid s) = eventsWithId c s"
  "eventsWithId cid (withoutEvent cid s) = []"
  by (auto simp: withoutEvent_def eventIds_def mirrorsOf_def eventsWithId_def deleteRows_def
        filter_empty_conv intro: filter_cong)

lemma graph_ok_withoutEvent:
  assumes ok: "graph_ok env s" and "cid \<notin> ta_canonical_event_id ` set (time_allocations s)"
  shows "graph_ok env (withoutEvent cid s)"
proof (cases "cid \<in> eventIds s")
  case True
  then show ?thesis using keepsD [OF keeps_removeEvent ok, of cid] removeEvent_run [OF True assms(2)] by simp
next
  case False
  then have "canonical_events s = deleteRows (\<lambda>r. ce_canonical_event_id r = cid) (canonical_events s)"
    by (auto simp: deleteRows_def eventIds_def intro!: filter_True [symmetric])
  then show ?thesis using ok
    unfolding withoutEvent_def graph_ok_parts by (auto simp: distinct_map_deleteRows)
qed

lemma mirrorsOf_delivered [simp]: "mirrorsOf c (delivered env ms s) = mirrorsOf c s"
  by (simp add: mirrorsOf_def)

lemma eventIds_delivered [simp]: "eventIds (delivered env ms s) = eventIds s"
  by (simp add: eventIds_def)

lemma handleDeleted_run:
  assumes ok: "graph_ok env s" and ids: "inj (ulid env)" and up: "\<forall>k. \<not> send_fails env k"
    and row: "eventsByOrigin acct (pd_origin_event_id d) s = row # rest"
    and cid: "cid = ce_canonical_event_id row"
    and free: "cid \<notin> ta_canonical_event_id ` set (time_allocations s)"
  shows "handleDeleted env acct d s =
    (Inr (Some (length (mirrorsOf cid s))),
     (withoutEvent cid (delivered env (deleteMessages env cid s) s))
       \<lparr> id_seq := id_seq s + 1,
          event_journal := event_journal s @
            [journalEntry env (id_seq s) cid ''deleted'' (providerActor acct)
               (deletePatch (pd_origin_event_id d) None)] \<rparr>)"
proof -
  let ?u = "delivered env (deleteMessages env cid s) s"
  have in': "cid \<in> eventIds ?u"
    using row by (force simp: eventsByOrigin_def filter_eq_Cons_iff eventIds_def cid)
  have rm: "removeEvent cid ?u = (Inr (), withoutEvent cid ?u)"
    using in' free by (intro removeEvent_run) simp_all
  have "graph_ok env (withoutEvent cid ?u)" using ok free by (intro graph_ok_withoutEvent) simp_all
  from writeJournal_run [OF this ids] rm enqueueMirrorDeletes_delivered [OF up, of cid "mirrorsOf cid s" s]
  show ?thesis
    by (simp add: handleDeleted_def row Let_def cid [symmetric] andThen_def ret_run
          deleteMessages_def withoutEvent_def)
qed

lemma deletion_views:
  "mirrorsOf c (s\<lparr> id_seq := k, event_journal := j \<rparr>) = mirrorsOf c s"
  "eventsWithId c (s\<lparr> id_seq := k, event_journal := j \<rparr>) = eventsWithId c s"
  "eventsWithId c (delivered env ms s) = eventsWithId c s"
  "sentBetween s ((withoutEvent cid (delivered env ms s))\<lparr> id_seq := k, event_journal := j \<rparr>) = ms"
  by (simp_all add: mirrorsOf_def eventsWithId_def sentBetween_def withoutEvent_def delivered_def)

lemma handleDeleted_blocked:
  assumes up: "\<forall>k. \<not> send_fails env k"
    and row: "eventsByOrigin acct (pd_origin_event_id d) s = row # rest"
    and cid: "cid = ce_canonical_event_id row"
    and held: "cid \<in> ta_canonical_event_id ` set (time_allocations s)"
  shows "handleDeleted env acct d s =
    (Inl ForeignKeyViolation,
     (delivered env (deleteMessages env cid s) s)
       \<lparr> event_mirrors := deleteRows (\<lambda>m. em_canonical_event_id m = cid) (event_mirrors s) \<rparr>)"
proof -
  let ?u = "delivered env (deleteMessages env cid s) s"
  have "cid \<in> eventIds ?u"
    using row by (force simp: eventsByOrigin_def filter_eq_Cons_iff eventIds_def cid)
  from removeEvent_blocked [OF this] held enqueueMirrorDeletes_delivered [OF up, of cid "mirrorsOf cid s" s]
  show ?thesis
    by (simp add: handleDeleted_def row Let_def cid [symmetric] andThen_def deleteMessages_def)
qed

lemma handleDeleted_absent:
  assumes "eventsByOrigin acct (pd_origin_event_id d) s = []"
    and "findLegacyRebindCandidate s acct (pd_origin_event_id d) = None"
  shows "handleDeleted env acct d s = (Inr None, s)"
  using assms by (simp add: handleDeleted_def Let_def ret_run)

section \<open>The batch never throws\<close>

definition counted :: "apply_result \<Rightarrow> nat" where
  "counted r = ar_created r + ar_updated r + ar_deleted r"

lemma applyDelta_total:
  obtains r t where "applyDelta env acct d res s = (Inr r, t)"
    "counted r \<le> counted res + 1" "counted res \<le> counted r"
    "ar_errors r = ar_errors res \<or> (\<exists>e. ar_errors r = ar_errors res @ [(pd_origin_event_id d, e)])"
proof -
  have after: "\<exists>r t. afterWrite env acct d cid rs u = (Inr r, t) \<and> counted r = counted rs \<and>
      (ar_errors r = ar_errors rs \<or> (\<exists>e. ar_errors r = ar_errors rs @ [(pd_origin_event_id d, e)]))"
    for cid rs u
    by (auto simp: afterWrite_def orRecord_def Let_def ret_run counted_def split: prod.split sum.split)
  show thesis
  proof (cases "pd_type d")
    case Delta_Created
    show thesis
    proof (cases "handleCreated env acct d s")
      case (Pair x u)
      show thesis
      proof (cases x)
        case (Inl e)
        show thesis by (rule that, simp add: applyDelta_def Delta_Created orRecord_def Pair Inl) (simp_all add: counted_def)
      next
        case (Inr cid)
        from after [of cid "res\<lparr> ar_created := ar_created res + 1 \<rparr>" u] show thesis
          using that by (auto simp: applyDelta_def Delta_Created orRecord_def Pair Inr counted_def)
      qed
    qed
  next
    case Delta_Updated
    show thesis
    proof (cases "handleUpdated env acct d s")
      case (Pair x u)
      show thesis
      proof (cases x)
        case (Inl e)
        show thesis by (rule that, simp add: applyDelta_def Delta_Updated orRecord_def Pair Inl) (simp_all add: counted_def)
      next
        case (Inr c)
        show thesis
        proof (cases c)
          case None
          show thesis
            by (rule that, simp add: applyDelta_def Delta_Updated orRecord_def Pair Inr None ret_run) simp_all
        next
          case (Some cid)
          from after [of cid "res\<lparr> ar_updated := ar_updated res + 1 \<rparr>" u] show thesis
            using that by (auto simp: applyDelta_def Delta_Updated orRecord_def Pair Inr Some counted_def)
        qed
      qed
    qed
  next
    case Delta_Deleted
    show thesis
    proof (cases "handleDeleted env acct d s")
      case (Pair x u)
      show thesis
      proof (cases x)
        case (Inl e)
        show thesis
          by (rule that, simp add: applyDelta_def Delta_Deleted orRecord_def Pair Inl) (simp_all add: counted_def)
      next
        case (Inr c)
        then show thesis
          by (cases c; intro that; simp add: applyDelta_def Delta_Deleted orRecord_def Pair ret_run)
             (auto simp: counted_def)
      qed
    qed
  qed
qed

lemma applyDeltas_total:
  "\<exists>r t. applyDeltas env acct ds res s = (Inr r, t) \<and> counted r \<le> counted res + length ds \<and>
     length (ar_errors r) \<le> length (ar_errors res) + length ds \<and>
     fst ` set (ar_errors r) \<subseteq> fst ` set (ar_errors res) \<union> pd_origin_event_id ` set ds"
proof (induction ds arbitrary: res s)
  case Nil
  then show ?case by (simp add: ret_run)
next
  case (Cons d ds)
  obtain r t where d: "applyDelta env acct d res s = (Inr r, t)" "counted r \<le> counted res + 1"
    "ar_errors r = ar_errors res \<or> (\<exists>e. ar_errors r = ar_errors res @ [(pd_origin_event_id d, e)])"
    by (rule applyDelta_total)
  from Cons.IH [of r t] obtain r' t' where r': "applyDeltas env acct ds r t = (Inr r', t')"
    "counted r' \<le> counted r + length ds" "length (ar_errors r') \<le> length (ar_errors r) + length ds"
    "fst ` set (ar_errors r') \<subseteq> fst ` set (ar_errors r) \<union> pd_origin_event_id ` set ds"
    by blast
  have "applyDeltas env acct (d # ds) res s = (Inr r', t')"
    using d(1) r'(1) by (simp add: andThen_def)
  moreover have "counted r' \<le> counted res + length (d # ds)" using d(2) r'(2) by simp
  moreover have "length (ar_errors r') \<le> length (ar_errors res) + length (d # ds)" using d(3) r'(3) by auto
  moreover have "fst ` set (ar_errors r') \<subseteq> fst ` set (ar_errors res) \<union> pd_origin_event_id ` set (d # ds)"
  proof -
    have "fst ` set (ar_errors r) \<subseteq> insert (pd_origin_event_id d) (fst ` set (ar_errors res))"
      using d(3) by auto
    with r'(4) show ?thesis by (simp del: image_subset_iff) blast
  qed
  ultimately show ?case by blast
qed

end
