(* ===== verification/Sample_State.thy ===== *)
theory Sample_State
  imports Delta_Laws
begin

text \<open>
  A concrete environment and a small store: two accounts that show each other as busy, one event
  with its mirror, one allocation slot left free. The closing theorems of the development are
  applied to them.
\<close>

definition sampleEnv :: graph_env where
  "sampleEnv = \<lparr> now_ms = 1750000000000, ulid = showNat, sha256 = (\<lambda>x. x),
                 js_date = (\<lambda>_. None), sql_date = (\<lambda>_. None), send_fails = (\<lambda>_. False),
                 has_delete_queue = True \<rparr>"

definition timed :: "string \<Rightarrow> event_date_time" where
  "timed ts = \<lparr> dt_dateTime = Some ts, dt_date = None, dt_timeZone = None \<rparr>"

definition samplePayload :: delta_event where
  "samplePayload =
     \<lparr> de_origin_account_id = ''acc_a'', de_origin_event_id = ''g1'', de_title = Some ''Board'',
       de_description = None, de_location = Some ''Room 1'',
       de_start = timed ''2025-06-16T09:00:00Z'', de_end = timed ''2025-06-16T10:00:00Z'',
       de_all_day = False, de_status = Some ''confirmed'', de_visibility = Some ''default'',
       de_transparency = Some ''opaque'', de_recurrence_rule = None \<rparr>"

definition sampleDelta :: "delta_type \<Rightarrow> provider_delta" where
  "sampleDelta ty =
     \<lparr> pd_type = ty, pd_origin_event_id = ''g1'', pd_origin_account_id = ''acc_a'',
       pd_event = (if ty = Delta_Deleted then None else Some samplePayload),
       pd_participant_hashes = None \<rparr>"

definition sampleEdge :: "string \<Rightarrow> string \<Rightarrow> edge_row" where
  "sampleEdge x y = \<lparr> pe_policy_id = ''pol_1'', pe_from_account_id = x, pe_to_account_id = y,
                      pe_detail_level = ''BUSY'', pe_calendar_kind = ''BUSY_OVERLAY'' \<rparr>"

definition sampleEvent :: event_row where
  "sampleEvent = newEventRow sampleEnv ''evt_1'' ''acc_a'' ''g1'' samplePayload"

definition sampleMirror :: mirror_row where
  "sampleMirror =
     \<lparr> em_canonical_event_id = ''evt_1'', em_target_account_id = ''acc_b'',
       em_target_calendar_id = ''cal_b'', em_provider_event_id = Some ''m1'',
       em_last_projected_hash = Some ''h'', em_last_write_ts = None, em_state = ACTIVE,
       em_error_message = None \<rparr>"

definition sampleGraph :: user_graph where
  "sampleGraph = emptyGraph
     \<lparr> policies := [\<lparr> po_policy_id = ''pol_1'', po_name = ''Default'', po_is_default = True,
                       po_created_at = ''2025-01-01 00:00:00'' \<rparr>],
       policy_edges := [sampleEdge ''acc_a'' ''acc_b'', sampleEdge ''acc_b'' ''acc_a''],
       canonical_events := [sampleEvent], event_mirrors := [sampleMirror] \<rparr>"

text \<open>The same store with a billing allocation on the event.\<close>

definition billedGraph :: user_graph where
  "billedGraph = sampleGraph
     \<lparr> time_allocations := [\<lparr> ta_allocation_id = ''alc_1'', ta_canonical_event_id = ''evt_1'',
                              ta_client_id = None, ta_billing_category = ''BILLABLE'',
                              ta_rate = None, ta_confidence = ''manual'', ta_locked = False,
                              ta_created_at = ''2025-06-01T00:00:00.000Z'' \<rparr>] \<rparr>"

lemma showNat_inj: "inj showNat"
  by (rule injI) (metis digitsValue_showNat)

lemma sampleEnv_ids: "inj (ulid sampleEnv)"
  by (simp add: sampleEnv_def showNat_inj)

lemma sampleEnv_sends: "\<forall>k. \<not> send_fails sampleEnv k"
  by (simp add: sampleEnv_def)

lemma sampleGraph_ok: "graph_ok sampleEnv sampleGraph"
  by (simp add: graph_ok_parts sampleGraph_def emptyGraph_def sampleEvent_def newEventRow_def
        sampleMirror_def sampleEdge_def eventKey_def mirrorKey_def edgeKey_def validDetail_def validKind_def)

lemma billedGraph_ok: "graph_ok sampleEnv billedGraph"
  using sampleGraph_ok
  by (simp add: billedGraph_def graph_ok_parts sampleGraph_def sampleEvent_def newEventRow_def
        emptyGraph_def allocation_valid_def isValidBillingCategory_def BILLING_CATEGORIES_def)

section \<open>What the methods do to the samples\<close>

lemma sampleGraph_edges: "edgesFrom ''acc_a'' sampleGraph = [sampleEdge ''acc_a'' ''acc_b'']"
  by (simp add: edgesFrom_def sampleGraph_def sampleEdge_def)

lemma sampleGraph_targets: "distinct (map pe_to_account_id (edgesFrom ''acc_a'' sampleGraph))"
  by (simp add: sampleGraph_edges)

lemma sampleEvent_row: "eventsWithId ''evt_1'' sampleGraph = [sampleEvent]"
  by (simp add: eventsWithId_def sampleGraph_def sampleEvent_def newEventRow_def)

lemma sampleGraph_origin:
  "eventsByOrigin ''acc_a'' (pd_origin_event_id (sampleDelta ty)) sampleGraph = [sampleEvent]"
  by (simp add: eventsByOrigin_def sampleGraph_def sampleEvent_def newEventRow_def sampleDelta_def)

lemma billedGraph_origin:
  "eventsByOrigin ''acc_a'' (pd_origin_event_id (sampleDelta ty)) billedGraph = [sampleEvent]"
  using sampleGraph_origin by (simp add: eventsByOrigin_def billedGraph_def)

lemma sampleEvent_id [simp]: "ce_canonical_event_id sampleEvent = ''evt_1''"
  by (simp add: sampleEvent_def newEventRow_def)

lemma sampleGraph_free:
  "ce_canonical_event_id sampleEvent \<notin> ta_canonical_event_id ` set (time_allocations sampleGraph)"
  by (simp add: sampleGraph_def emptyGraph_def)

lemma billedGraph_held:
  "ce_canonical_event_id sampleEvent \<in> ta_canonical_event_id ` set (time_allocations billedGraph)"
  by (simp add: billedGraph_def)

lemma sampleGraph_mirrors: "mirrorsOf ''evt_1'' sampleGraph = [sampleMirror]"
  by (simp add: mirrorsOf_def sampleGraph_def sampleMirror_def)

definition sampleCreated :: user_graph where
  "sampleCreated = snd (handleCreated sampleEnv ''acc_a'' (sampleDelta Delta_Created) sampleGraph)"

lemma sampleCreated_state:
  "handleCreated sampleEnv ''acc_a'' (sampleDelta Delta_Created) sampleGraph = (Inr ''evt_1'', sampleCreated)"
  "policy_edges sampleCreated = policy_edges sampleGraph" "event_mirrors sampleCreated = event_mirrors sampleGraph"
  using handleCreated_existing [OF sampleGraph_ok sampleEnv_ids, of "sampleDelta Delta_Created" samplePayload
      "''acc_a''" sampleEvent "[]"] sampleGraph_origin [of Delta_Created]
  by (simp_all add: sampleCreated_def sampleDelta_def)

lemmas sampleCreated_run = sampleCreated_state(1)

lemma sampleCreated_targets: "distinct (map pe_to_account_id (edgesFrom ''acc_a'' sampleCreated))"
  using sampleGraph_targets by (simp add: edgesFrom_def sampleCreated_state)

lemma sampleGraph_projected:
  "\<exists>n. projectAndEnqueue sampleEnv ''evt_1'' ''acc_a'' noOpts sampleGraph =
        (Inr n, snd (projectAndEnqueue sampleEnv ''evt_1'' ''acc_a'' noOpts sampleGraph))"
  by (rule projectAndEnqueue_returns [OF sampleEnv_sends sampleGraph_ok])

lemma sampleCreated_ok: "graph_ok sampleEnv sampleCreated"
  using keepsD [OF keeps_handleCreated sampleGraph_ok] unfolding sampleCreated_def .

lemma sampleCreated_projected:
  "\<exists>n. projectAndEnqueue sampleEnv ''evt_1'' ''acc_a'' noOpts sampleCreated =
        (Inr n, snd (projectAndEnqueue sampleEnv ''evt_1'' ''acc_a'' noOpts sampleCreated))"
  by (rule projectAndEnqueue_returns [OF sampleEnv_sends sampleCreated_ok])

definition sampleProjection :: projected_event where
  "sampleProjection = the (compileProjection (rowToCanonicalEvent sampleEvent) ''BUSY'')"

lemma sampleProjection_compiled:
  "compileProjection (rowToCanonicalEvent sampleEvent) ''BUSY'' = Some sampleProjection"
  by (simp add: sampleProjection_def compileProjection_busy)

definition sampleGoogle :: google_event where
  "sampleGoogle =
     \<lparr> ge_id = Some ''m1'', ge_summary = Some ''Busy'', ge_description = None, ge_location = None,
       ge_start = Some (timed ''2025-06-16T09:00:00Z''), ge_end = Some (timed ''2025-06-16T10:00:00Z''),
       ge_status = Some ''confirmed'', ge_visibility = Some ''private'', ge_transparency = Some ''opaque'',
       ge_recurrence = None, ge_private = None \<rparr>"

end
