(* ===== verification/Graph_Policies.thy ===== *)
theory Graph_Policies
  imports Delta_Laws
begin

text \<open>
  The policy graph of \<^verbatim>\<open>UserGraphDO\<close>: \<^verbatim>\<open>createPolicy\<close>, \<^verbatim>\<open>getPolicy\<close>, \<^verbatim>\<open>listPolicies\<close>,
  \<^verbatim>\<open>setPolicyEdges\<close>, which replaces the edges of a policy and projects the whole store again, and
  \<^verbatim>\<open>ensureDefaultPolicy\<close>, which connects every pair of accounts.
\<close>

section \<open>Operations\<close>

definition insertPolicyRow :: "policy_row \<Rightarrow> unit graph_op" where
  "insertPolicyRow p s =
     (if po_policy_id p \<in> po_policy_id ` set (policies s)
      then (Inl (UniqueViolation ''policies.policy_id''), s)
      else (Inr (), s\<lparr> policies := policies s @ [p] \<rparr>))"

definition createPolicy :: "graph_env \<Rightarrow> string \<Rightarrow> policy_row graph_op" where
  "createPolicy env name =
     andThen (freshId env ''policy'') (\<lambda>pid.
       let row = \<lparr> po_policy_id = pid, po_name = name, po_is_default = False,
                   po_created_at = datetimeNow env \<rparr> in
       andThen (insertPolicyRow row) (\<lambda>_. ret row))"

definition edgesOf :: "string \<Rightarrow> user_graph \<Rightarrow> edge_row list" where
  "edgesOf pid s = filter (\<lambda>e. pe_policy_id e = pid) (policy_edges s)"

definition getPolicy :: "string \<Rightarrow> (policy_row \<times> edge_row list) option graph_op" where
  "getPolicy pid = query (\<lambda>s.
     case filter (\<lambda>p. po_policy_id p = pid) (policies s) of
       [] \<Rightarrow> None | p # _ \<Rightarrow> Some (p, edgesOf pid s))"

definition listPolicies :: "policy_row list graph_op" where
  "listPolicies = query (\<lambda>s. sort_key po_created_at (policies s))"

definition getPolicyEdges :: "string \<Rightarrow> edge_row list graph_op" where
  "getPolicyEdges acct = query (edgesFrom acct)"

record edge_input =
  ei_from_account_id :: string
  ei_to_account_id :: string
  ei_detail_level :: string
  ei_calendar_kind :: string

text \<open>The validation loop: the message of the first edge that fails, in the order of the checks.\<close>

definition edgeError :: "edge_input \<Rightarrow> string option" where
  "edgeError e =
     (if ei_from_account_id e = ei_to_account_id e
      then Some (''Self-loop not allowed: from_account_id and to_account_id are both '' @ ei_from_account_id e)
      else if \<not> validDetail (ei_detail_level e)
      then Some (''Invalid detail_level '' @ ei_detail_level e @ ''. Must be one of: BUSY, TITLE, FULL'')
      else if \<not> validKind (ei_calendar_kind e)
      then Some (''Invalid calendar_kind '' @ ei_calendar_kind e @ ''. Must be one of: BUSY_OVERLAY, TRUE_MIRROR'')
      else None)"

fun firstEdgeError :: "edge_input list \<Rightarrow> string option" where
  "firstEdgeError [] = None"
| "firstEdgeError (e # es) = (case edgeError e of Some m \<Rightarrow> Some m | None \<Rightarrow> firstEdgeError es)"

definition edgeRow :: "string \<Rightarrow> edge_input \<Rightarrow> edge_row" where
  "edgeRow pid e =
     \<lparr> pe_policy_id = pid, pe_from_account_id = ei_from_account_id e,
       pe_to_account_id = ei_to_account_id e, pe_detail_level = ei_detail_level e,
       pe_calendar_kind = ei_calendar_kind e \<rparr>"

definition insertEdgeRow :: "edge_row \<Rightarrow> unit graph_op" where
  "insertEdgeRow e s =
     (if edgeKey e \<in> edgeKey ` set (policy_edges s)
      then (Inl (UniqueViolation ''policy_edges.policy_id, policy_edges.from_account_id, policy_edges.to_account_id''), s)
      else if pe_policy_id e \<notin> po_policy_id ` set (policies s) then (Inl ForeignKeyViolation, s)
      else (Inr (), s\<lparr> policy_edges := policy_edges s @ [e] \<rparr>))"

definition deleteEdgeRows :: "(edge_row \<Rightarrow> bool) \<Rightarrow> unit graph_op" where
  "deleteEdgeRows P = modify (\<lambda>s. s\<lparr> policy_edges := deleteRows P (policy_edges s) \<rparr>)"

definition setPolicyEdges :: "graph_env \<Rightarrow> string \<Rightarrow> edge_input list \<Rightarrow> unit graph_op" where
  "setPolicyEdges env pid edges =
     andThen (query (\<lambda>s. filter (\<lambda>p. po_policy_id p = pid) (policies s))) (\<lambda>rows.
       if rows = [] then throw (Thrown (''Policy not found: '' @ pid))
       else case firstEdgeError edges of
              Some m \<Rightarrow> throw (Thrown m)
            | None \<Rightarrow>
                andThen (deleteEdgeRows (\<lambda>e. pe_policy_id e = pid)) (\<lambda>_.
                andThen (forEach edges (\<lambda>e. insertEdgeRow (edgeRow pid e))) (\<lambda>_.
                andThen (recomputeProjections env
                  \<lparr> rs_canonical_event_id = None, rs_force_requeue_non_active = Some True,
                    rs_force_requeue_pending = None \<rparr>) (\<lambda>_. ret ()))))"

text \<open>The nested loop over the indexes \<open>i \<noteq> j\<close>.\<close>

definition accountPairs :: "string list \<Rightarrow> (string \<times> string) list" where
  "accountPairs accounts =
     concat (map (\<lambda>i. map (\<lambda>j. (accounts ! i, accounts ! j))
       (filter (\<lambda>j. i \<noteq> j) [0..<length accounts])) [0..<length accounts])"

definition insertOrIgnoreEdge :: "edge_row \<Rightarrow> unit graph_op" where
  "insertOrIgnoreEdge e s =
     (if edgeKey e \<in> edgeKey ` set (policy_edges s) then (Inr (), s)
      else if pe_policy_id e \<notin> po_policy_id ` set (policies s) then (Inl ForeignKeyViolation, s)
      else (Inr (), s\<lparr> policy_edges := policy_edges s @ [e] \<rparr>))"

definition defaultEdge :: "string \<Rightarrow> string \<times> string \<Rightarrow> edge_row" where
  "defaultEdge pid p =
     \<lparr> pe_policy_id = pid, pe_from_account_id = fst p, pe_to_account_id = snd p,
       pe_detail_level = DEFAULT_DETAIL_LEVEL, pe_calendar_kind = DEFAULT_CALENDAR_KIND \<rparr>"

definition ensureDefaultPolicy :: "graph_env \<Rightarrow> string list \<Rightarrow> unit graph_op" where
  "ensureDefaultPolicy env accounts =
     andThen (query (\<lambda>s. filter po_is_default (policies s))) (\<lambda>existing.
     andThen (case existing of
         p # _ \<Rightarrow> ret (po_policy_id p)
       | [] \<Rightarrow>
           andThen (freshId env ''policy'') (\<lambda>pid.
           andThen (insertPolicyRow
             \<lparr> po_policy_id = pid, po_name = ''Default Policy'', po_is_default = True,
               po_created_at = datetimeNow env \<rparr>) (\<lambda>_. ret pid))) (\<lambda>pid.
     forEach (accountPairs accounts) (\<lambda>p. insertOrIgnoreEdge (defaultEdge pid p))))"

section \<open>Well-formed tables and growing logs\<close>

lemma keeps_insertPolicyRow [graph_keeps]: "keeps (graph_ok env) (insertPolicyRow p)"
  by (rule keepsI) (auto simp: insertPolicyRow_def graph_ok_parts)

lemma keeps_createPolicy [graph_keeps]: "keeps (graph_ok env) (createPolicy env' name)"
  unfolding createPolicy_def Let_def by (intro keeps_intro graph_keeps)

lemma keeps_insertEdgeRow:
  "validDetail (pe_detail_level e) \<Longrightarrow> validKind (pe_calendar_kind e) \<Longrightarrow>
   keeps (graph_ok env) (insertEdgeRow e)"
  by (rule keepsI) (auto simp: insertEdgeRow_def graph_ok_parts)

lemma keeps_insertOrIgnoreEdge:
  "validDetail (pe_detail_level e) \<Longrightarrow> validKind (pe_calendar_kind e) \<Longrightarrow>
   keeps (graph_ok env) (insertOrIgnoreEdge e)"
  by (rule keepsI) (auto simp: insertOrIgnoreEdge_def graph_ok_parts)

lemma keeps_deleteEdgeRows [graph_keeps]: "keeps (graph_ok env) (deleteEdgeRows P)"
  unfolding deleteEdgeRows_def
  by (rule keeps_modify) (auto simp: graph_ok_parts distinct_map_deleteRows)

lemma firstEdgeError_none:
  "firstEdgeError es = None \<longleftrightarrow>
   (\<forall>e \<in> set es. ei_from_account_id e \<noteq> ei_to_account_id e \<and> validDetail (ei_detail_level e) \<and>
      validKind (ei_calendar_kind e))"
  by (induction es) (auto simp: edgeError_def)

lemma keeps_setPolicyEdges [graph_keeps]: "keeps (graph_ok env) (setPolicyEdges env' pid edges)"
  unfolding setPolicyEdges_def
  by (intro keeps_intro graph_keeps keeps_insertEdgeRow)
     (auto simp: firstEdgeError_none edgeRow_def)

lemma keeps_ensureDefaultPolicy [graph_keeps]: "keeps (graph_ok env) (ensureDefaultPolicy env' accounts)"
  unfolding ensureDefaultPolicy_def
  by (intro keeps_intro graph_keeps keeps_insertOrIgnoreEdge)
     (auto simp: defaultEdge_def validDetail_def validKind_def DEFAULT_DETAIL_LEVEL_def DEFAULT_CALENDAR_KIND_def)

lemma stays_policies [log_stays]:
  "stays appendOnly (insertPolicyRow p)" "stays appendOnly (insertEdgeRow e)"
  "stays appendOnly (deleteEdgeRows P)" "stays appendOnly (insertOrIgnoreEdge e)"
  by (auto intro!: staysI simp: insertPolicyRow_def insertEdgeRow_def deleteEdgeRows_def
        insertOrIgnoreEdge_def log.same)

lemma stays_policy_methods [log_stays]:
  "stays appendOnly (createPolicy env name)" "stays appendOnly (setPolicyEdges env pid edges)"
  "stays appendOnly (ensureDefaultPolicy env accounts)"
  unfolding createPolicy_def setPolicyEdges_def ensureDefaultPolicy_def Let_def
  by (intro log_rules log_stays)+

section \<open>What setPolicyEdges leaves\<close>

lemma insertEdges_run:
  assumes "pid \<in> po_policy_id ` set (policies s)"
    and "distinct (map (\<lambda>e. edgeKey (edgeRow pid e)) es)"
    and "\<forall>e \<in> set es. edgeKey (edgeRow pid e) \<notin> edgeKey ` set (policy_edges s)"
  shows "forEach es (\<lambda>e. insertEdgeRow (edgeRow pid e)) s =
    (Inr (), s\<lparr> policy_edges := policy_edges s @ map (edgeRow pid) es \<rparr>)"
  using assms
proof (induction es arbitrary: s)
  case Nil
  then show ?case by (simp add: ret_run)
next
  case (Cons e es)
  let ?t = "s\<lparr> policy_edges := policy_edges s @ [edgeRow pid e] \<rparr>"
  have "insertEdgeRow (edgeRow pid e) s = (Inr (), ?t)"
    using Cons.prems by (simp add: insertEdgeRow_def edgeRow_def)
  moreover have "forEach es (\<lambda>e. insertEdgeRow (edgeRow pid e)) ?t =
      (Inr (), ?t\<lparr> policy_edges := policy_edges ?t @ map (edgeRow pid) es \<rparr>)"
  proof (intro Cons.IH)
    have "edgeKey (edgeRow pid x) \<noteq> edgeKey (edgeRow pid e)" if "x \<in> set es" for x
      using Cons.prems(2) that by (simp add: image_iff) metis
    with Cons.prems(3) show "\<forall>x \<in> set es. edgeKey (edgeRow pid x) \<notin> edgeKey ` set (policy_edges ?t)"
      by simp
  qed (use Cons.prems in simp_all)
  ultimately show ?case by (simp add: andThen_def)
qed

definition policyKnown :: "string \<Rightarrow> user_graph \<Rightarrow> bool" where
  "policyKnown pid s \<longleftrightarrow> filter (\<lambda>p. po_policy_id p = pid) (policies s) \<noteq> []"

text \<open>The edges of one policy replaced, before anything is projected.\<close>

definition edgesReplaced :: "string \<Rightarrow> edge_input list \<Rightarrow> user_graph \<Rightarrow> user_graph" where
  "edgesReplaced pid es s =
     s\<lparr> policy_edges := deleteRows (\<lambda>e. pe_policy_id e = pid) (policy_edges s) @ map (edgeRow pid) es \<rparr>"

lemma policyKnown_in: "policyKnown pid s \<Longrightarrow> pid \<in> po_policy_id ` set (policies s)"
  by (auto simp: policyKnown_def filter_empty_conv)

lemma edgeKey_edgeRow [simp]: "edgeKey (edgeRow pid e) = (pid, ei_from_account_id e, ei_to_account_id e)"
  by (simp add: edgeKey_def edgeRow_def)

lemma setPolicyEdges_valid:
  assumes "policyKnown pid s" and "firstEdgeError es = None"
    and "distinct (map (\<lambda>e. (ei_from_account_id e, ei_to_account_id e)) es)"
  shows "setPolicyEdges env pid es s =
    andThen (recomputeProjections env \<lparr> rs_canonical_event_id = None,
       rs_force_requeue_non_active = Some True, rs_force_requeue_pending = None \<rparr>) (\<lambda>_. ret ())
      (edgesReplaced pid es s)"
proof -
  let ?s = "s\<lparr> policy_edges := deleteRows (\<lambda>e. pe_policy_id e = pid) (policy_edges s) \<rparr>"
  have "distinct (map (\<lambda>e. edgeKey (edgeRow pid e)) es)"
    using assms(3) by (auto simp: distinct_map inj_on_def)
  moreover have "\<forall>e \<in> set es. edgeKey (edgeRow pid e) \<notin> edgeKey ` set (policy_edges ?s)"
    by (auto simp: edgeKey_def edgeRow_def)
  ultimately have "forEach es (\<lambda>e. insertEdgeRow (edgeRow pid e)) ?s = (Inr (), edgesReplaced pid es s)"
    using insertEdges_run [of pid ?s es] policyKnown_in [OF assms(1)] by (simp add: edgesReplaced_def)
  then show ?thesis
    using assms(1,2)
    by (simp add: setPolicyEdges_def policyKnown_def deleteEdgeRows_def andThen_def)
qed

lemma setPolicyEdges_rejected:
  "\<not> policyKnown pid s \<Longrightarrow> setPolicyEdges env pid es s = (Inl (Thrown (''Policy not found: '' @ pid)), s)"
  "policyKnown pid s \<Longrightarrow> firstEdgeError es = Some m \<Longrightarrow> setPolicyEdges env pid es s = (Inl (Thrown m), s)"
  by (simp_all add: setPolicyEdges_def policyKnown_def throw_run)

text \<open>Two inputs with the same pair of accounts: the second insert breaks the primary key.\<close>

lemma setPolicyEdges_duplicate:
  assumes "policyKnown pid s" and "firstEdgeError (xs @ e # ys) = None"
    and "distinct (map (\<lambda>e. (ei_from_account_id e, ei_to_account_id e)) xs)"
    and "(ei_from_account_id e, ei_to_account_id e) \<in> (\<lambda>e. (ei_from_account_id e, ei_to_account_id e)) ` set xs"
  shows "\<exists>m. setPolicyEdges env pid (xs @ e # ys) s = (Inl (UniqueViolation m), edgesReplaced pid xs s)"
proof -
  let ?s = "s\<lparr> policy_edges := deleteRows (\<lambda>e. pe_policy_id e = pid) (policy_edges s) \<rparr>"
  have "distinct (map (\<lambda>e. edgeKey (edgeRow pid e)) xs)"
    using assms(3) by (auto simp: distinct_map inj_on_def)
  moreover have "\<forall>e \<in> set xs. edgeKey (edgeRow pid e) \<notin> edgeKey ` set (policy_edges ?s)"
    by (auto simp: edgeKey_def edgeRow_def)
  ultimately have run: "forEach xs (\<lambda>e. insertEdgeRow (edgeRow pid e)) ?s = (Inr (), edgesReplaced pid xs s)"
    using insertEdges_run [of pid ?s xs] policyKnown_in [OF assms(1)] by (simp add: edgesReplaced_def)
  have "edgeKey (edgeRow pid e) \<in> edgeKey ` set (policy_edges (edgesReplaced pid xs s))"
    using assms(4) by (force simp: edgesReplaced_def image_iff)
  then have "\<exists>m. insertEdgeRow (edgeRow pid e) (edgesReplaced pid xs s) =
      (Inl (UniqueViolation m), edgesReplaced pid xs s)"
    by (simp add: insertEdgeRow_def)
  then have "\<exists>m. forEach (xs @ e # ys) (\<lambda>e. insertEdgeRow (edgeRow pid e)) ?s =
      (Inl (UniqueViolation m), edgesReplaced pid xs s)"
    using run by (auto simp: forEach_append andThen_def)
  then show ?thesis
    using assms(1,2)
    by (auto simp: setPolicyEdges_def policyKnown_def deleteEdgeRows_def andThen_def)
qed

section \<open>What ensureDefaultPolicy leaves\<close>

lemma accountPairs_set:
  "(a, b) \<in> set (accountPairs accounts) \<longleftrightarrow>
   (\<exists>i j. i < length accounts \<and> j < length accounts \<and> i \<noteq> j \<and> accounts ! i = a \<and> accounts ! j = b)"
  by (auto simp: accountPairs_def)

lemma insertOrIgnoreEdges_run:
  assumes "\<forall>e \<in> set es. pe_policy_id e \<in> po_policy_id ` set (policies s)"
  shows "\<exists>new. forEach es insertOrIgnoreEdge s = (Inr (), s\<lparr> policy_edges := policy_edges s @ new \<rparr>) \<and>
     edgeKey ` set es \<subseteq> edgeKey ` set (policy_edges s @ new) \<and> set new \<subseteq> set es"
  using assms
proof (induction es arbitrary: s)
  case Nil
  show ?case by (rule exI [of _ "[]"]) (simp add: ret_run)
next
  case (Cons e es)
  define add where "add = (if edgeKey e \<in> edgeKey ` set (policy_edges s) then [] else [e])"
  let ?t = "s\<lparr> policy_edges := policy_edges s @ add \<rparr>"
  have e: "insertOrIgnoreEdge e s = (Inr (), ?t)"
    using Cons.prems by (simp add: insertOrIgnoreEdge_def add_def)
  have "\<forall>e \<in> set es. pe_policy_id e \<in> po_policy_id ` set (policies ?t)" using Cons.prems by simp
  from Cons.IH [OF this] obtain new where
    new: "forEach es insertOrIgnoreEdge ?t = (Inr (), ?t\<lparr> policy_edges := policy_edges ?t @ new \<rparr>)"
    "edgeKey ` set es \<subseteq> edgeKey ` set (policy_edges ?t @ new)" "set new \<subseteq> set es" by blast
  have "edgeKey e \<in> edgeKey ` set (policy_edges s @ add)" by (auto simp: add_def)
  with e new show ?case
    by (intro exI [of _ "add @ new"]) (auto simp: andThen_def add_def)
qed

lemma forEach_map: "forEach (map g xs) f = forEach xs (\<lambda>x. f (g x))"
  by (induction xs) simp_all

lemma ensureDefaultPolicy_existing:
  assumes "filter po_is_default (policies s) = p # ps"
  shows "\<exists>new. ensureDefaultPolicy env accounts s =
      (Inr (), s\<lparr> policy_edges := policy_edges s @ new \<rparr>) \<and>
    (\<forall>a b. (a, b) \<in> set (accountPairs accounts) \<longrightarrow>
       (\<exists>e \<in> set (policy_edges s @ new). edgeKey e = (po_policy_id p, a, b))) \<and>
    (\<forall>e \<in> set new. pe_policy_id e = po_policy_id p \<and> pe_detail_level e = ''BUSY'' \<and>
       pe_calendar_kind e = ''BUSY_OVERLAY'')"
proof -
  let ?es = "map (defaultEdge (po_policy_id p)) (accountPairs accounts)"
  have "p \<in> set (policies s)" using assms by (auto simp: filter_eq_Cons_iff)
  then have "\<forall>e \<in> set ?es. pe_policy_id e \<in> po_policy_id ` set (policies s)"
    by (auto simp: defaultEdge_def)
  from insertOrIgnoreEdges_run [OF this] obtain new where
    new: "forEach ?es insertOrIgnoreEdge s = (Inr (), s\<lparr> policy_edges := policy_edges s @ new \<rparr>)"
    "edgeKey ` set ?es \<subseteq> edgeKey ` set (policy_edges s @ new)" "set new \<subseteq> set ?es" by blast
  have "ensureDefaultPolicy env accounts s = (Inr (), s\<lparr> policy_edges := policy_edges s @ new \<rparr>)"
    using new(1) assms by (simp add: ensureDefaultPolicy_def forEach_map)
  moreover have "\<exists>e \<in> set (policy_edges s @ new). edgeKey e = (po_policy_id p, a, b)"
    if "(a, b) \<in> set (accountPairs accounts)" for a b
  proof -
    have "edgeKey (defaultEdge (po_policy_id p) (a, b)) \<in> edgeKey ` set ?es" using that by simp
    with new(2) have "edgeKey (defaultEdge (po_policy_id p) (a, b)) \<in> edgeKey ` set (policy_edges s @ new)"
      by blast
    then show ?thesis by (force simp: edgeKey_def defaultEdge_def)
  qed
  moreover have "\<forall>e \<in> set new. pe_policy_id e = po_policy_id p \<and> pe_detail_level e = ''BUSY'' \<and>
       pe_calendar_kind e = ''BUSY_OVERLAY''"
    using new(3) by (auto simp: defaultEdge_def DEFAULT_DETAIL_LEVEL_def DEFAULT_CALENDAR_KIND_def)
  ultimately show ?thesis by blast
qed

end
