(* ===== verification/Graph_Account.thy ===== *)
theory Graph_Account
  imports Graph_Policies
begin

text \<open>
  What happens when an account or a whole user goes away: the four deletion methods the erasure
  workflow calls, \<^verbatim>\<open>unlinkAccount\<close> with its cascade, \<^verbatim>\<open>getAccountEvents\<close> and
  \<^verbatim>\<open>executeUpgradePlan\<close>, which moves the events of an ICS feed under an OAuth account.
\<close>

section \<open>Erasing a user\<close>

definition deleteAllEvents :: "nat graph_op" where
  "deleteAllEvents =
     andThen (query (\<lambda>s. length (canonical_events s))) (\<lambda>count.
     andThen (modify (\<lambda>s. s\<lparr> time_allocations := [] \<rparr>)) (\<lambda>_.
     andThen (deleteMirrorRows (\<lambda>_. True)) (\<lambda>_.
     andThen (deleteEventRows (\<lambda>_. True)) (\<lambda>_. ret count))))"

definition deleteAllMirrors :: "nat graph_op" where
  "deleteAllMirrors =
     andThen (query (\<lambda>s. length (event_mirrors s))) (\<lambda>count.
     andThen (deleteMirrorRows (\<lambda>_. True)) (\<lambda>_. ret count))"

definition deleteJournal :: "nat graph_op" where
  "deleteJournal =
     andThen (query (\<lambda>s. length (event_journal s))) (\<lambda>count.
     andThen (modify (\<lambda>s. s\<lparr> event_journal := [] \<rparr>)) (\<lambda>_. ret count))"

definition relationshipRowCount :: "user_graph \<Rightarrow> nat" where
  "relationshipRowCount s =
     length (relationships s) + length (interaction_ledger s) + length (milestones s) +
     length (vip_policies s) + length (time_allocations s) + length (time_commitments s) +
     length (commitment_reports s) + length (schedule_holds s) + length (schedule_candidates s) +
     length (schedule_sessions s) + length (constraints s) + length (policy_edges s) +
     length (policies s) + length (calendars s)"

text \<open>
  The references decide which statements can fail: \<^verbatim>\<open>drift_alerts\<close> go with their relationship
  (\<^verbatim>\<open>ON DELETE CASCADE\<close>), a constraint that an event was derived from is refused.
\<close>

definition clearRelationships :: "unit graph_op" where
  "clearRelationships = modify (\<lambda>s. s\<lparr>
     drift_alerts := deleteRows (\<lambda>a. da_relationship_id a \<in> rl_relationship_id ` set (relationships s)) (drift_alerts s),
     relationships := [] \<rparr>)"

definition clearConstraints :: "unit graph_op" where
  "clearConstraints s =
     (if \<exists>r \<in> set (canonical_events s). \<exists>c \<in> set (constraints s). ce_constraint_id r = Some (cn_constraint_id c)
      then (Inl ForeignKeyViolation, s)
      else (Inr (), s\<lparr> constraints := [] \<rparr>))"

definition clearUnreferenced :: "unit graph_op" where
  "clearUnreferenced = modify (\<lambda>s. s\<lparr>
     vip_policies := [], commitment_reports := [], time_commitments := [], time_allocations := [],
     schedule_holds := [], schedule_candidates := [], schedule_sessions := [] \<rparr>)"

definition deleteRelationshipData :: "nat graph_op" where
  "deleteRelationshipData =
     andThen (query relationshipRowCount) (\<lambda>total.
     andThen (modify (\<lambda>s. s\<lparr> interaction_ledger := [], milestones := [] \<rparr>)) (\<lambda>_.
     andThen clearRelationships (\<lambda>_.
     andThen clearUnreferenced (\<lambda>_.
     andThen clearConstraints (\<lambda>_.
     andThen (modify (\<lambda>s. s\<lparr> policy_edges := [], policies := [], calendars := [] \<rparr>)) (\<lambda>_.
     ret total))))))"

section \<open>Unlinking an account\<close>

definition originIds :: "string \<Rightarrow> user_graph \<Rightarrow> string list" where
  "originIds acct s =
     map ce_canonical_event_id (filter (\<lambda>r. ce_origin_account_id r = acct) (canonical_events s))"

definition outboundMirrors :: "string \<Rightarrow> user_graph \<Rightarrow> mirror_row list" where
  "outboundMirrors acct s =
     filter (\<lambda>m. em_canonical_event_id m \<in> set (originIds acct s)) (event_mirrors s)"

definition unlinkDelete :: "mirror_row \<Rightarrow> queue_message" where
  "unlinkDelete m = DELETE_MIRROR
     \<lparr> dm_canonical_event_id = em_canonical_event_id m, dm_target_account_id = em_target_account_id m,
       dm_target_calendar_id = Some (em_target_calendar_id m),
       dm_provider_event_id = nullish (em_provider_event_id m) [], dm_idempotency_key = None \<rparr>"

text \<open>One \<^verbatim>\<open>INSERT ... SELECT\<close>: either all its rows are inserted or none.\<close>

definition insertJournalRows :: "journal_row list \<Rightarrow> unit graph_op" where
  "insertJournalRows js s =
     (if \<not> distinct (map ej_journal_id js) \<or>
         (\<exists>j \<in> set js. ej_journal_id j \<in> ej_journal_id ` set (event_journal s))
      then (Inl (UniqueViolation ''event_journal.journal_id''), s)
      else (Inr (), s\<lparr> event_journal := event_journal s @ js \<rparr>))"

definition unlinkPatch :: "string \<Rightarrow> json" where
  "unlinkPatch acct = JObj [(''reason'', JStr ''account_unlinked''), (''account_id'', JStr acct)]"

definition unlinkEntry :: "graph_env \<Rightarrow> string \<Rightarrow> string \<Rightarrow> journal_row" where
  "unlinkEntry env acct cid =
     \<lparr> ej_journal_id = ''unlinkdel:'' @ acct @ '':'' @ cid, ej_canonical_event_id = cid,
       ej_ts = datetimeNow env, ej_actor = ''system'', ej_change_type = ''deleted'',
       ej_patch_json = Some (stringify (unlinkPatch acct)), ej_reason = Some ''account_unlinked'' \<rparr>"

definition touchesAccount :: "string \<Rightarrow> edge_row \<Rightarrow> bool" where
  "touchesAccount acct e \<longleftrightarrow> pe_from_account_id e = acct \<or> pe_to_account_id e = acct"

record unlink_result =
  ur_events_deleted :: nat
  ur_mirrors_deleted :: nat
  ur_policy_edges_removed :: nat
  ur_calendars_removed :: nat

definition unlinkSummary :: "string \<Rightarrow> unlink_result \<Rightarrow> json" where
  "unlinkSummary acct r = JObj
     [(''account_id'', JStr acct),
      (''events_deleted'', JNum (int (ur_events_deleted r))),
      (''mirrors_deleted'', JNum (int (ur_mirrors_deleted r))),
      (''policy_edges_removed'', JNum (int (ur_policy_edges_removed r))),
      (''calendars_removed'', JNum (int (ur_calendars_removed r)))]"

text \<open>Steps 1 and 2: the mirrors from and to the account; the result is how many there were.\<close>

definition unlinkMirrors :: "graph_env \<Rightarrow> string \<Rightarrow> nat graph_op" where
  "unlinkMirrors env acct =
     andThen (query (outboundMirrors acct)) (\<lambda>outbound.
     andThen (enqueueDeleteBatch env (map unlinkDelete outbound)) (\<lambda>_.
     andThen (query (originIds acct)) (\<lambda>ids.
     andThen (deleteMirrorRows (\<lambda>m. em_canonical_event_id m \<in> set ids)) (\<lambda>_.
     andThen (query (\<lambda>s. length (filter (\<lambda>m. em_target_account_id m = acct) (event_mirrors s)))) (\<lambda>inbound.
     andThen (deleteMirrorRows (\<lambda>m. em_target_account_id m = acct)) (\<lambda>_.
     ret (length outbound + inbound)))))))"

text \<open>Step 3: the events, with one journal row each.\<close>

definition unlinkEvents :: "graph_env \<Rightarrow> string \<Rightarrow> nat graph_op" where
  "unlinkEvents env acct =
     andThen (query (originIds acct)) (\<lambda>ids.
     andThen (insertJournalRows (map (unlinkEntry env acct) ids)) (\<lambda>_.
     andThen (deleteEventRows (\<lambda>r. ce_origin_account_id r = acct)) (\<lambda>_.
     ret (length ids))))"

text \<open>Steps 4 to 6: edges, mirrors no edge supports any more, calendars.\<close>

definition unlinkGraph :: "string \<Rightarrow> (nat \<times> nat) graph_op" where
  "unlinkGraph acct =
     andThen (query (\<lambda>s. length (filter (touchesAccount acct) (policy_edges s)))) (\<lambda>edges.
     andThen (deleteEdgeRows (touchesAccount acct)) (\<lambda>_.
     andThen pruneNonProjectableMirrors (\<lambda>_.
     andThen (query (\<lambda>s. length (filter (\<lambda>c. ca_account_id c = acct) (calendars s)))) (\<lambda>cals.
     andThen (modify (\<lambda>s. s\<lparr> calendars := deleteRows (\<lambda>c. ca_account_id c = acct) (calendars s) \<rparr>)) (\<lambda>_.
     ret (edges, cals))))))"

definition unlinkAccount :: "graph_env \<Rightarrow> string \<Rightarrow> unlink_result graph_op" where
  "unlinkAccount env acct =
     andThen (unlinkMirrors env acct) (\<lambda>mirrors.
     andThen (unlinkEvents env acct) (\<lambda>events.
     andThen (unlinkGraph acct) (\<lambda>ec.
     let res = \<lparr> ur_events_deleted = events, ur_mirrors_deleted = mirrors,
                 ur_policy_edges_removed = fst ec, ur_calendars_removed = snd ec \<rparr> in
     andThen (writeJournal env (''unlink:'' @ acct) ''account_unlinked'' ''system''
                (unlinkSummary acct res) (Some ''account_unlinked'')) (\<lambda>_.
     ret res))))"

section \<open>Upgrading an ICS feed\<close>

definition getAccountEvents :: "string \<Rightarrow> canonical_event list graph_op" where
  "getAccountEvents acct = query (\<lambda>s.
     map rowToCanonicalEvent (sort_key ce_start_ts
       (filter (\<lambda>r. ce_origin_account_id r = acct) (canonical_events s))))"

text \<open>The events of a plan; the fields that matter here are those all three kinds share.\<close>

record plan_event =
  pl_origin_account_id :: string
  pl_origin_event_id :: string
  pl_title :: "string option"
  pl_description :: "string option"
  pl_location :: "string option"
  pl_start :: event_date_time
  pl_end :: event_date_time
  pl_all_day :: bool
  pl_status :: "string option"
  pl_visibility :: "string option"
  pl_transparency :: "string option"
  pl_recurrence_rule :: "string option"

definition planEventRow :: "graph_env \<Rightarrow> string \<Rightarrow> string \<Rightarrow> string \<Rightarrow> plan_event \<Rightarrow> event_row" where
  "planEventRow env cid acct source e =
     \<lparr> ce_canonical_event_id = cid, ce_origin_account_id = acct,
       ce_origin_event_id = pl_origin_event_id e,
       ce_title = pl_title e, ce_description = pl_description e, ce_location = pl_location e,
       ce_start_ts = eventTs (pl_start e), ce_end_ts = eventTs (pl_end e),
       ce_timezone = dt_timeZone (pl_start e), ce_all_day = pl_all_day e,
       ce_status = nullish (pl_status e) ''confirmed'',
       ce_visibility = nullish (pl_visibility e) ''default'',
       ce_transparency = nullish (pl_transparency e) ''opaque'',
       ce_recurrence_rule = pl_recurrence_rule e, ce_source = source, ce_version = 1,
       ce_created_at = datetimeNow env, ce_updated_at = datetimeNow env, ce_constraint_id = None \<rparr>"

definition insertPlanEvent ::
  "graph_env \<Rightarrow> string \<Rightarrow> string \<Rightarrow> json \<Rightarrow> plan_event \<Rightarrow> unit graph_op" where
  "insertPlanEvent env acct source patch e =
     andThen (freshId env ''event'') (\<lambda>cid.
     andThen (insertEventRow (planEventRow env cid acct source e)) (\<lambda>_.
     writeJournal env cid ''created'' ''upgrade'' patch (Some ''ics_upgrade'')))"

record upgrade_plan =
  up_ics_account_id :: string
  up_oauth_account_id :: string
  up_merged_events :: "(plan_event \<times> (string \<times> json) list) list"
  up_new_events :: "plan_event list"
  up_orphaned_events :: "plan_event list"

text \<open>
  A merged event comes with the match details the journal records (\<^verbatim>\<open>matched_by\<close>,
  \<^verbatim>\<open>confidence\<close>, \<^verbatim>\<open>enriched_fields\<close>, those that are present).
\<close>

definition upgradeRemove :: "graph_env \<Rightarrow> upgrade_plan \<Rightarrow> string \<Rightarrow> unit graph_op" where
  "upgradeRemove env p cid =
     andThen (deleteMirrorRows (\<lambda>m. em_canonical_event_id m = cid)) (\<lambda>_.
     writeJournal env cid ''deleted'' ''upgrade''
       (JObj [(''reason'', JStr ''ics_upgrade''), (''ics_account_id'', JStr (up_ics_account_id p)),
              (''oauth_account_id'', JStr (up_oauth_account_id p))]) (Some ''ics_upgrade''))"

definition executeUpgradePlan :: "graph_env \<Rightarrow> upgrade_plan \<Rightarrow> unit graph_op" where
  "executeUpgradePlan env p =
     andThen (query (originIds (up_ics_account_id p))) (\<lambda>ids.
     andThen (forEach ids (upgradeRemove env p)) (\<lambda>_.
     andThen (deleteEventRows (\<lambda>r. ce_origin_account_id r = up_ics_account_id p)) (\<lambda>_.
     andThen (forEach (up_merged_events p) (\<lambda>(e, match). insertPlanEvent env (pl_origin_account_id e) ''provider''
                (JObj ((''reason'', JStr ''ics_upgrade_merged'') # match)) e)) (\<lambda>_.
     andThen (forEach (up_new_events p) (\<lambda>e. insertPlanEvent env (pl_origin_account_id e) ''provider''
                (JObj [(''reason'', JStr ''ics_upgrade_new_provider_event'')]) e)) (\<lambda>_.
     forEach (up_orphaned_events p) (\<lambda>e. insertPlanEvent env (up_oauth_account_id p) ''ics_feed''
       (JObj [(''reason'', JStr ''ics_upgrade_orphaned_preserved''),
              (''original_account_id'', JStr (pl_origin_account_id e))]) e))))))"

section \<open>Well-formed tables\<close>

lemma keeps_deleteAll [graph_keeps]:
  "keeps (graph_ok env) deleteAllEvents" "keeps (graph_ok env) deleteAllMirrors"
  "keeps (graph_ok env) deleteJournal"
proof -
  have 1: "keeps (graph_ok env) (modify (\<lambda>s. s\<lparr> time_allocations := [] \<rparr>))"
    by (rule keeps_modify) (simp add: graph_ok_parts)
  show "keeps (graph_ok env) deleteAllEvents" "keeps (graph_ok env) deleteAllMirrors"
    unfolding deleteAllEvents_def deleteAllMirrors_def by (intro keeps_intro graph_keeps 1)+
  have "keeps (graph_ok env) (modify (\<lambda>s. s\<lparr> event_journal := [] \<rparr>))"
    by (rule keeps_modify) (simp add: graph_ok_parts)
  then show "keeps (graph_ok env) deleteJournal"
    unfolding deleteJournal_def by (intro keeps_intro)
qed

lemma keeps_deleteRelationshipData [graph_keeps]: "keeps (graph_ok env) deleteRelationshipData"
proof -
  have 1: "keeps (graph_ok env) clearRelationships" "keeps (graph_ok env) clearUnreferenced"
    "keeps (graph_ok env) (modify (\<lambda>s. s\<lparr> interaction_ledger := [], milestones := [] \<rparr>))"
    "keeps (graph_ok env) (modify (\<lambda>s. s\<lparr> policy_edges := [], policies := [], calendars := [] \<rparr>))"
    unfolding clearRelationships_def clearUnreferenced_def
    by (auto intro!: keeps_modify simp: graph_ok_parts image_subset_iff)
  have "keeps (graph_ok env) clearConstraints"
  proof (rule keepsI)
    fix s assume ok: "graph_ok env s"
    show "graph_ok env (snd (clearConstraints s))"
    proof (cases "\<exists>r \<in> set (canonical_events s). \<exists>c \<in> set (constraints s). ce_constraint_id r = Some (cn_constraint_id c)")
      case False
      with ok have "\<forall>r \<in> set (canonical_events s). ce_constraint_id r = None"
        by (fastforce simp: graph_ok_def events_ok_def)
      with ok False show ?thesis by (auto simp: clearConstraints_def graph_ok_parts)
    qed (simp add: clearConstraints_def ok)
  qed
  with 1 show ?thesis unfolding deleteRelationshipData_def by (intro keeps_intro)
qed

lemma graph_ok_journal:
  "graph_ok env s \<Longrightarrow> journal_ok env (s\<lparr> event_journal := js \<rparr>) \<Longrightarrow> graph_ok env (s\<lparr> event_journal := js \<rparr>)"
  by (simp add: graph_ok_parts)

lemma keeps_insertJournalRows:
  assumes "\<forall>j \<in> set js. prefix ''unlinkdel:'' (ej_journal_id j)"
  shows "keeps (graph_ok env) (insertJournalRows js)"
proof (rule keepsI)
  fix s assume ok: "graph_ok env s"
  show "graph_ok env (snd (insertJournalRows js s))"
  proof (cases "distinct (map ej_journal_id js) \<and> ej_journal_id ` set js \<inter> ej_journal_id ` set (event_journal s) = {}")
    case True
    then have "ej_journal_id ` set (event_journal s) \<inter> ej_journal_id ` set js = {}" by blast
    with True have "distinct (map ej_journal_id (event_journal s @ js))"
      using ok by (simp add: graph_ok_def journal_ok_def)
    moreover have "\<forall>j \<in> set js. drawn env (id_seq s) (ej_journal_id j)"
      using assms by (simp add: drawn_def)
    ultimately have "journal_ok env (s\<lparr> event_journal := event_journal s @ js \<rparr>)"
      using ok by (auto simp: graph_ok_def journal_ok_def)
    with ok True show ?thesis by (auto simp: insertJournalRows_def intro: graph_ok_journal)
  next
    case False
    then have "snd (insertJournalRows js s) = s" by (auto simp: insertJournalRows_def)
    with ok show ?thesis by simp
  qed
qed

lemma keeps_unlink [graph_keeps]:
  "keeps (graph_ok env) (unlinkMirrors env acct)" "keeps (graph_ok env) (unlinkEvents env acct)"
  "keeps (graph_ok env) (unlinkGraph acct)" "keeps (graph_ok env) (unlinkAccount env acct)"
proof -
  show 1: "keeps (graph_ok env) (unlinkMirrors env acct)"
    unfolding unlinkMirrors_def by (intro keeps_intro graph_keeps)
  show 2: "keeps (graph_ok env) (unlinkEvents env acct)"
    unfolding unlinkEvents_def
    by (intro keeps_intro graph_keeps keeps_insertJournalRows) (auto simp: unlinkEntry_def)
  have "keeps (graph_ok env) (modify (\<lambda>s. s\<lparr> calendars := deleteRows Q (calendars s) \<rparr>))" for Q
    by (auto intro!: keeps_modify simp: graph_ok_parts distinct_map_deleteRows)
  then show 3: "keeps (graph_ok env) (unlinkGraph acct)"
    unfolding unlinkGraph_def by (intro keeps_intro graph_keeps)
  show "keeps (graph_ok env) (unlinkAccount env acct)"
    unfolding unlinkAccount_def Let_def by (intro keeps_intro graph_keeps 1 2 3)
qed

lemma keeps_upgrade [graph_keeps]:
  "keeps (graph_ok env) (insertPlanEvent env acct src pj e)"
  "keeps (graph_ok env) (executeUpgradePlan env p)"
proof -
  show 1: "keeps (graph_ok env) (insertPlanEvent env acct src pj e)" for acct src pj e
    unfolding insertPlanEvent_def by (intro keeps_intro graph_keeps)
  show "keeps (graph_ok env) (executeUpgradePlan env p)"
    unfolding executeUpgradePlan_def upgradeRemove_def split_def by (intro keeps_intro graph_keeps 1)
qed

lemma stays_account [log_stays]:
  "stays appendOnly deleteAllEvents" "stays appendOnly deleteAllMirrors"
  "stays appendOnly (insertJournalRows js)" "stays appendOnly (unlinkAccount env acct)"
  "stays appendOnly (executeUpgradePlan env p)"
proof -
  have 1: "stays appendOnly (modify (\<lambda>s. s\<lparr> time_allocations := [] \<rparr>))"
    "stays appendOnly (modify (\<lambda>s. s\<lparr> calendars := deleteRows Q (calendars s) \<rparr>))" for Q
    by (auto intro: staysI)
  show js: "stays appendOnly (insertJournalRows js)" for js
    by (auto intro!: staysI simp: insertJournalRows_def appendOnly_def)
  show "stays appendOnly deleteAllEvents" "stays appendOnly deleteAllMirrors"
    unfolding deleteAllEvents_def deleteAllMirrors_def by (intro log_rules log_stays 1)+
  show "stays appendOnly (unlinkAccount env acct)"
    unfolding unlinkAccount_def unlinkMirrors_def unlinkEvents_def unlinkGraph_def Let_def
    by (intro log_rules log_stays js 1)
  show "stays appendOnly (executeUpgradePlan env p)"
    unfolding executeUpgradePlan_def upgradeRemove_def insertPlanEvent_def split_def
    by (intro log_rules log_stays)
qed

section \<open>What erasing leaves\<close>

lemma deleteAllEvents_run:
  "deleteAllEvents s = (Inr (length (canonical_events s)),
     s\<lparr> time_allocations := [], event_mirrors := [], canonical_events := [],
        event_participants := deleteRows (\<lambda>p. ep_canonical_event_id p \<in> eventIds s) (event_participants s) \<rparr>)"
  by (simp add: deleteAllEvents_def andThen_def deleteMirrorRows_def deleteEventRows_def ret_run
        eventIds_def deleteRows_def Let_def)

definition eraseUser :: "nat graph_op" where
  "eraseUser =
     andThen deleteAllEvents (\<lambda>a. andThen deleteAllMirrors (\<lambda>b.
     andThen deleteJournal (\<lambda>c. andThen deleteRelationshipData (\<lambda>d. ret (a + b + c + d)))))"

lemma eraseUser_run:
  assumes "graph_ok env s"
  shows "\<exists>n. eraseUser s = (Inr n, emptyGraph\<lparr> scheduling_history := scheduling_history s,
           write_queue := write_queue s, delete_queue := delete_queue s,
           id_seq := id_seq s, send_seq := send_seq s \<rparr>)"
proof -
  have parts: "deleteRows (\<lambda>p. ep_canonical_event_id p \<in> eventIds s) (event_participants s) = []"
    "deleteRows (\<lambda>a. da_relationship_id a \<in> rl_relationship_id ` set (relationships s)) (drift_alerts s) = []"
    using assms by (auto simp: graph_ok_parts deleteRows_def filter_empty_conv)
  show ?thesis
    unfolding eraseUser_def deleteAllMirrors_def deleteJournal_def deleteRelationshipData_def
    by (simp add: andThen_def deleteAllEvents_run deleteMirrorRows_def clearRelationships_def clearUnreferenced_def
        clearConstraints_def deleteRows_def [of "\<lambda>_. True"] ret_run parts emptyGraph_def)
qed

section \<open>What unlinking leaves\<close>

definition batchDelivered :: "graph_env \<Rightarrow> queue_message list \<Rightarrow> user_graph \<Rightarrow> user_graph" where
  "batchDelivered env ms s = (delivered env ms s)\<lparr> send_seq := send_seq s + length (chunks ms) \<rparr>"

lemma sendDeletes_run:
  assumes "\<forall>k. \<not> send_fails env k"
  shows "forEach cs (sendDelete env) s =
    (Inr (), (delivered env (concat cs) s)\<lparr> send_seq := send_seq s + length cs \<rparr>)"
proof (induction cs arbitrary: s)
  case Nil
  then show ?case by (simp add: delivered_def ret_run)
next
  case (Cons c cs)
  have "sendDelete env c s = (Inr (), (delivered env c s)\<lparr> send_seq := send_seq s + 1 \<rparr>)"
    using assms by (simp add: sendDelete_def sendWrite_def delivered_def)
  with Cons show ?case by (simp add: andThen_def delivered_def)
qed

lemma enqueueDeleteBatch_run:
  "\<forall>k. \<not> send_fails env k \<Longrightarrow> enqueueDeleteBatch env ms s = (Inr (), batchDelivered env ms s)"
  by (simp add: enqueueDeleteBatch_def sendDeletes_run concat_chunks batchDelivered_def)

lemma batchDelivered_tables [simp]:
  "canonical_events (batchDelivered env ms s) = canonical_events s"
  "event_mirrors (batchDelivered env ms s) = event_mirrors s"
  "event_journal (batchDelivered env ms s) = event_journal s"
  "time_allocations (batchDelivered env ms s) = time_allocations s"
  "policy_edges (batchDelivered env ms s) = policy_edges s"
  "calendars (batchDelivered env ms s) = calendars s"
  "id_seq (batchDelivered env ms s) = id_seq s"
  "originIds acct (batchDelivered env ms s) = originIds acct s"
  by (simp_all add: batchDelivered_def originIds_def)

lemma graph_ok_batchDelivered [simp]: "graph_ok env (batchDelivered env' ms s) = graph_ok env s"
  by (simp add: batchDelivered_def delivered_def graph_ok_parts)

definition inboundMirrors :: "string \<Rightarrow> user_graph \<Rightarrow> mirror_row list" where
  "inboundMirrors acct s =
     filter (\<lambda>m. em_target_account_id m = acct \<and> em_canonical_event_id m \<notin> set (originIds acct s)) (event_mirrors s)"

definition withoutMirrors :: "string \<Rightarrow> user_graph \<Rightarrow> user_graph" where
  "withoutMirrors acct s = s\<lparr> event_mirrors := deleteRows (\<lambda>m. em_target_account_id m = acct)
     (deleteRows (\<lambda>m. em_canonical_event_id m \<in> set (originIds acct s)) (event_mirrors s)) \<rparr>"

lemma unlinkMirrors_run:
  assumes "\<forall>k. \<not> send_fails env k"
  shows "unlinkMirrors env acct s =
    (Inr (length (outboundMirrors acct s) + length (inboundMirrors acct s)),
     withoutMirrors acct (batchDelivered env (map unlinkDelete (outboundMirrors acct s)) s))"
proof -
  have "filter (\<lambda>m. em_target_account_id m = acct)
          (deleteRows (\<lambda>m. em_canonical_event_id m \<in> set (originIds acct s)) (event_mirrors s)) =
        inboundMirrors acct s"
    by (simp add: filter_deleteRows inboundMirrors_def)
  then show ?thesis
    unfolding unlinkMirrors_def
    by (simp add: andThen_def enqueueDeleteBatch_run [OF assms] deleteMirrorRows_def withoutMirrors_def ret_run)
qed

lemma originIds_ids: "set (originIds acct s) =
    ce_canonical_event_id ` set (filter (\<lambda>r. ce_origin_account_id r = acct) (canonical_events s))"
  by (simp add: originIds_def)

definition journaled :: "graph_env \<Rightarrow> string \<Rightarrow> user_graph \<Rightarrow> user_graph" where
  "journaled env acct s =
     s\<lparr> event_journal := event_journal s @ map (unlinkEntry env acct) (originIds acct s) \<rparr>"

definition withoutEventsOf :: "string \<Rightarrow> user_graph \<Rightarrow> user_graph" where
  "withoutEventsOf acct s =
     s\<lparr> canonical_events := deleteRows (\<lambda>r. ce_origin_account_id r = acct) (canonical_events s),
        event_participants := deleteRows (\<lambda>p. ep_canonical_event_id p \<in> set (originIds acct s))
          (event_participants s) \<rparr>"

definition unlinkRecorded :: "string \<Rightarrow> user_graph \<Rightarrow> bool" where
  "unlinkRecorded acct s \<longleftrightarrow>
     (\<exists>cid \<in> set (originIds acct s). ''unlinkdel:'' @ acct @ '':'' @ cid \<in> ej_journal_id ` set (event_journal s))"

lemma insertUnlinkEntries_run:
  assumes "graph_ok env s" and "\<not> unlinkRecorded acct s"
  shows "insertJournalRows (map (unlinkEntry env' acct) (originIds acct s)) s = (Inr (), journaled env' acct s)"
proof -
  have ids: "distinct (originIds acct s)"
    using ok_events_distinct [OF assms(1)] by (simp add: originIds_def distinct_map_filter)
  have "inj_on (ej_journal_id \<circ> unlinkEntry env' acct) (set (originIds acct s))"
    by (auto simp: inj_on_def unlinkEntry_def)
  with ids have "distinct (map ej_journal_id (map (unlinkEntry env' acct) (originIds acct s)))"
    by (simp add: distinct_map comp_inj_on_iff)
  moreover have "\<forall>j \<in> set (map (unlinkEntry env' acct) (originIds acct s)).
      ej_journal_id j \<notin> ej_journal_id ` set (event_journal s)"
    using assms(2) by (auto simp: unlinkRecorded_def unlinkEntry_def)
  ultimately show ?thesis by (auto simp: insertJournalRows_def journaled_def)
qed

lemma deleteEventsOf_run:
  assumes "\<forall>m \<in> set (event_mirrors s). em_canonical_event_id m \<notin> set (originIds acct s)"
    and "\<forall>a \<in> set (time_allocations s). ta_canonical_event_id a \<notin> set (originIds acct s)"
  shows "deleteEventRows (\<lambda>r. ce_origin_account_id r = acct) s = (Inr (), withoutEventsOf acct s)"
  using assms unfolding deleteEventRows_def Let_def originIds_ids [symmetric] withoutEventsOf_def by auto

lemma deleteEventsOf_held:
  assumes "a \<in> set (time_allocations s)" and "ta_canonical_event_id a \<in> set (originIds acct s)"
  shows "deleteEventRows (\<lambda>r. ce_origin_account_id r = acct) s = (Inl ForeignKeyViolation, s)"
  using assms unfolding deleteEventRows_def Let_def originIds_ids [symmetric] by auto

lemma mirrors_withoutMirrors:
  "m \<in> set (event_mirrors (withoutMirrors acct s)) \<longleftrightarrow>
     m \<in> set (event_mirrors s) \<and> em_target_account_id m \<noteq> acct \<and>
     em_canonical_event_id m \<notin> set (originIds acct s)"
  by (auto simp: withoutMirrors_def)

lemma withoutMirrors_tables [simp]:
  "canonical_events (withoutMirrors acct s) = canonical_events s"
  "event_journal (withoutMirrors acct s) = event_journal s"
  "time_allocations (withoutMirrors acct s) = time_allocations s"
  "policy_edges (withoutMirrors acct s) = policy_edges s"
  "calendars (withoutMirrors acct s) = calendars s" "id_seq (withoutMirrors acct s) = id_seq s"
  "originIds a (withoutMirrors acct s) = originIds a s"
  by (simp_all add: withoutMirrors_def originIds_def)

lemma journaled_tables [simp]:
  "canonical_events (journaled env acct s) = canonical_events s"
  "event_mirrors (journaled env acct s) = event_mirrors s"
  "time_allocations (journaled env acct s) = time_allocations s"
  "policy_edges (journaled env acct s) = policy_edges s"
  "calendars (journaled env acct s) = calendars s" "id_seq (journaled env acct s) = id_seq s"
  "originIds a (journaled env acct s) = originIds a s"
  by (simp_all add: journaled_def originIds_def)

lemma graph_ok_withoutMirrors: "graph_ok env s \<Longrightarrow> graph_ok env (withoutMirrors acct s)"
  unfolding withoutMirrors_def
  using graph_ok_deleteMirrors [OF graph_ok_deleteMirrors, of env s] by simp

lemma unlinkEvents_run:
  assumes "graph_ok env s" and "\<not> unlinkRecorded acct s"
    and "\<forall>m \<in> set (event_mirrors s). em_canonical_event_id m \<notin> set (originIds acct s)"
    and "\<forall>a \<in> set (time_allocations s). ta_canonical_event_id a \<notin> set (originIds acct s)"
  shows "unlinkEvents env' acct s =
    (Inr (length (originIds acct s)), withoutEventsOf acct (journaled env' acct s))"
proof -
  have "deleteEventRows (\<lambda>r. ce_origin_account_id r = acct) (journaled env' acct s) =
        (Inr (), withoutEventsOf acct (journaled env' acct s))"
    by (rule deleteEventsOf_run) (use assms(3,4) in auto)
  then show ?thesis
    by (simp add: unlinkEvents_def andThen_def insertUnlinkEntries_run [OF assms(1,2)] ret_run)
qed

lemma unlinkEvents_held:
  assumes "graph_ok env s" and "\<not> unlinkRecorded acct s"
    and "a \<in> set (time_allocations s)" and "ta_canonical_event_id a \<in> set (originIds acct s)"
  shows "unlinkEvents env' acct s = (Inl ForeignKeyViolation, journaled env' acct s)"
proof -
  have "deleteEventRows (\<lambda>r. ce_origin_account_id r = acct) (journaled env' acct s) =
        (Inl ForeignKeyViolation, journaled env' acct s)"
    by (rule deleteEventsOf_held [of a]) (use assms(3,4) in simp_all)
  then show ?thesis
    by (simp add: unlinkEvents_def andThen_def insertUnlinkEntries_run [OF assms(1,2)])
qed

lemma unlinkEvents_recorded:
  assumes "unlinkRecorded acct s"
  shows "unlinkEvents env acct s = (Inl (UniqueViolation ''event_journal.journal_id''), s)"
proof -
  have "\<exists>j \<in> set (map (unlinkEntry env acct) (originIds acct s)).
      ej_journal_id j \<in> ej_journal_id ` set (event_journal s)"
    using assms by (auto simp: unlinkRecorded_def unlinkEntry_def)
  then have "insertJournalRows (map (unlinkEntry env acct) (originIds acct s)) s =
      (Inl (UniqueViolation ''event_journal.journal_id''), s)"
    unfolding insertJournalRows_def by (metis (lifting))
  then show ?thesis by (simp add: unlinkEvents_def andThen_def)
qed

text \<open>
  An allocation on one of the account's events: the mirrors are gone and their deletions sent, the
  journal says the events were deleted, and they are all still there. Every later attempt stops at
  the journal's primary key.
\<close>

lemma unlink_held:
  assumes ok: "graph_ok env s" and up: "\<forall>k. \<not> send_fails env k" and new: "\<not> unlinkRecorded acct s"
    and a: "a \<in> set (time_allocations s)" "ta_canonical_event_id a \<in> set (originIds acct s)"
  shows "unlinkAccount env acct s = (Inl ForeignKeyViolation,
    journaled env acct (withoutMirrors acct (batchDelivered env (map unlinkDelete (outboundMirrors acct s)) s)))"
proof -
  let ?u = "withoutMirrors acct (batchDelivered env (map unlinkDelete (outboundMirrors acct s)) s)"
  have "graph_ok env ?u" using ok by (simp add: graph_ok_withoutMirrors)
  moreover have "\<not> unlinkRecorded acct ?u" using new by (simp add: unlinkRecorded_def)
  ultimately have "unlinkEvents env acct ?u = (Inl ForeignKeyViolation, journaled env acct ?u)"
    by (rule unlinkEvents_held [where a = a]) (use a in simp_all)
  then show ?thesis
    unfolding unlinkAccount_def Let_def by (simp add: andThen_def unlinkMirrors_run [OF up])
qed

lemma unlink_recorded:
  assumes up: "\<forall>k. \<not> send_fails env k" and "unlinkRecorded acct s"
  shows "\<exists>t. unlinkAccount env acct s = (Inl (UniqueViolation ''event_journal.journal_id''), t) \<and>
             canonical_events t = canonical_events s \<and> event_journal t = event_journal s \<and>
             policy_edges t = policy_edges s \<and> calendars t = calendars s"
proof -
  let ?u = "withoutMirrors acct (batchDelivered env (map unlinkDelete (outboundMirrors acct s)) s)"
  have "unlinkRecorded acct ?u" using assms(2) by (simp add: unlinkRecorded_def)
  from unlinkEvents_recorded [OF this, of env]
  have "unlinkAccount env acct s = (Inl (UniqueViolation ''event_journal.journal_id''), ?u)"
    unfolding unlinkAccount_def Let_def by (simp add: andThen_def unlinkMirrors_run [OF up])
  then show ?thesis by auto
qed

lemma journaled_recorded: "originIds acct s \<noteq> [] \<Longrightarrow> unlinkRecorded acct (journaled env acct s)"
  by (cases "originIds acct s") (auto simp: unlinkRecorded_def journaled_def unlinkEntry_def originIds_def)

text \<open>The entries stay in the journal, so an event that is still there blocks every later call.\<close>

lemma journaled_blocks:
  assumes up: "\<forall>k. \<not> send_fails env' k" and "prefix (event_journal (journaled env acct s)) (event_journal u)"
    and "set (originIds acct s) \<inter> set (originIds acct u) \<noteq> {}"
  shows "\<exists>v. unlinkAccount env' acct u = (Inl (UniqueViolation ''event_journal.journal_id''), v) \<and>
             canonical_events v = canonical_events u"
proof -
  from assms(3) obtain cid where cid: "cid \<in> set (originIds acct s)" "cid \<in> set (originIds acct u)" by blast
  then have "''unlinkdel:'' @ acct @ '':'' @ cid \<in> ej_journal_id ` set (event_journal (journaled env acct s))"
    by (force simp: journaled_def unlinkEntry_def)
  then have "unlinkRecorded acct u" using cid(2) set_mono_prefix [OF assms(2)] by (auto simp: unlinkRecorded_def)
  from unlink_recorded [OF up this] show ?thesis by blast
qed

definition accountGone :: "string \<Rightarrow> user_graph \<Rightarrow> bool" where
  "accountGone acct t \<longleftrightarrow>
     originIds acct t = [] \<and>
     (\<forall>m \<in> set (event_mirrors t). em_target_account_id m \<noteq> acct) \<and>
     (\<forall>e \<in> set (policy_edges t). \<not> touchesAccount acct e) \<and>
     (\<forall>c \<in> set (calendars t). ca_account_id c \<noteq> acct)"

definition pruned :: "user_graph \<Rightarrow> user_graph" where
  "pruned s = s\<lparr> event_mirrors := deleteRows (\<lambda>m. \<not> (\<exists>c \<in> set (canonical_events s).
     ce_canonical_event_id c = em_canonical_event_id m) \<or> \<not> projectable s m) (event_mirrors s) \<rparr>"

lemma prune_run: "pruneNonProjectableMirrors s = (Inr (), pruned s)"
  by (simp add: pruneNonProjectableMirrors_def deleteMirrorRows_def pruned_def)

definition withoutEdges :: "string \<Rightarrow> user_graph \<Rightarrow> user_graph" where
  "withoutEdges acct s = s\<lparr> policy_edges := deleteRows (touchesAccount acct) (policy_edges s) \<rparr>"

definition withoutCalendars :: "string \<Rightarrow> user_graph \<Rightarrow> user_graph" where
  "withoutCalendars acct s = s\<lparr> calendars := deleteRows (\<lambda>c. ca_account_id c = acct) (calendars s) \<rparr>"

lemma unlinkGraph_run:
  "unlinkGraph acct s =
    (Inr (length (filter (touchesAccount acct) (policy_edges s)),
          length (filter (\<lambda>c. ca_account_id c = acct) (calendars s))),
     withoutCalendars acct (pruned (withoutEdges acct s)))"
  by (simp add: unlinkGraph_def andThen_def deleteEdgeRows_def prune_run ret_run withoutEdges_def
        withoutCalendars_def pruned_def)

definition unlinked :: "graph_env \<Rightarrow> string \<Rightarrow> user_graph \<Rightarrow> user_graph" where
  "unlinked env acct s =
     withoutCalendars acct (pruned (withoutEdges acct (withoutEventsOf acct (journaled env acct
       (withoutMirrors acct (batchDelivered env (map unlinkDelete (outboundMirrors acct s)) s))))))"

definition unlinkCounts :: "string \<Rightarrow> user_graph \<Rightarrow> unlink_result" where
  "unlinkCounts acct s =
     \<lparr> ur_events_deleted = length (originIds acct s),
       ur_mirrors_deleted = length (outboundMirrors acct s) + length (inboundMirrors acct s),
       ur_policy_edges_removed = length (filter (touchesAccount acct) (policy_edges s)),
       ur_calendars_removed = length (filter (\<lambda>c. ca_account_id c = acct) (calendars s)) \<rparr>"

lemma unlinked_tables:
  "canonical_events (unlinked env acct s) = deleteRows (\<lambda>r. ce_origin_account_id r = acct) (canonical_events s)"
  "policy_edges (unlinked env acct s) = deleteRows (touchesAccount acct) (policy_edges s)"
  "calendars (unlinked env acct s) = deleteRows (\<lambda>c. ca_account_id c = acct) (calendars s)"
  "event_journal (unlinked env acct s) = event_journal s @ map (unlinkEntry env acct) (originIds acct s)"
  "id_seq (unlinked env acct s) = id_seq s"
  "m \<in> set (event_mirrors (unlinked env acct s)) \<Longrightarrow>
     m \<in> set (event_mirrors s) \<and> em_target_account_id m \<noteq> acct \<and>
     em_canonical_event_id m \<notin> set (originIds acct s)"
  by (auto simp: unlinked_def withoutCalendars_def pruned_def withoutEdges_def withoutEventsOf_def
      journaled_def withoutMirrors_def originIds_def)

lemma unlinked_sent: "sentBetween s (unlinked env acct s) = map unlinkDelete (outboundMirrors acct s)"
  by (simp add: unlinked_def withoutCalendars_def pruned_def withoutEdges_def withoutEventsOf_def
      journaled_def withoutMirrors_def batchDelivered_def delivered_def sentBetween_def)

lemma unlinked_projectable:
  "m \<in> set (event_mirrors (unlinked env acct s)) \<Longrightarrow> projectable (unlinked env acct s) m"
proof -
  have same: "projectable (withoutCalendars acct (pruned t)) m = projectable t m" for t
    by (simp add: projectable_def withoutCalendars_def pruned_def)
  show "m \<in> set (event_mirrors (unlinked env acct s)) \<Longrightarrow> projectable (unlinked env acct s) m"
    unfolding unlinked_def same by (simp add: withoutCalendars_def pruned_def)
qed

lemma unlink_run:
  assumes ok: "graph_ok env s" and ids: "inj (ulid env)" and up: "\<forall>k. \<not> send_fails env k"
    and new: "\<not> unlinkRecorded acct s"
    and free: "\<forall>a \<in> set (time_allocations s). ta_canonical_event_id a \<notin> set (originIds acct s)"
  shows "unlinkAccount env acct s = (Inr (unlinkCounts acct s), (unlinked env acct s)
    \<lparr> id_seq := id_seq s + 1, event_journal := event_journal (unlinked env acct s) @
        [journalEntry env (id_seq s) (''unlink:'' @ acct) ''account_unlinked'' ''system''
           (unlinkSummary acct (unlinkCounts acct s)) \<lparr> ej_reason := Some ''account_unlinked'' \<rparr>] \<rparr>)"
proof -
  let ?u = "withoutMirrors acct (batchDelivered env (map unlinkDelete (outboundMirrors acct s)) s)"
  let ?v = "withoutEventsOf acct (journaled env acct ?u)"
  have u: "graph_ok env ?u" using ok by (simp add: graph_ok_withoutMirrors)
  have "unlinkEvents env acct ?u = (Inr (length (originIds acct ?u)), ?v)"
    by (rule unlinkEvents_run [OF u]) (use new free in \<open>auto simp: unlinkRecorded_def mirrors_withoutMirrors\<close>)
  then have events: "unlinkEvents env acct ?u = (Inr (length (originIds acct s)), ?v)" by simp
  have "graph_ok env ?v" using keepsD [OF keeps_unlink(2) u, of acct] events by simp
  then have "graph_ok env (unlinked env acct s)"
    using keepsD [OF keeps_unlink(3), of env ?v acct] by (simp add: unlinkGraph_run unlinked_def)
  note entry = writeJournal_succeeds [OF this ids]
  have graph: "unlinkGraph acct ?v =
    (Inr (ur_policy_edges_removed (unlinkCounts acct s), ur_calendars_removed (unlinkCounts acct s)), unlinked env acct s)"
    by (simp add: unlinkGraph_run unlinked_def unlinkCounts_def withoutEventsOf_def)
  show ?thesis
    unfolding unlinkAccount_def Let_def
    by (simp add: andThen_def unlinkMirrors_run [OF up] events graph entry ret_run unlinked_tables(5)
          journalEntry_def unlinkCounts_def)
qed

lemma unlinked_gone: "accountGone acct (unlinked env acct s)"
  unfolding accountGone_def
  using unlinked_tables(6) by (auto simp: unlinked_tables(1-3) originIds_def deleteRows_def)

section \<open>Upgrading sends nothing\<close>

text \<open>The mirrors of the replaced events disappear from the table and no message asks the providers to remove them.\<close>

lemma sends_more:
  "stays (sendsOnly Q) (freshId env ty)" "stays (sendsOnly Q) (insertEventRow r)"
  by (auto intro!: staysI simp: sendsOnly_def freshId_def insertEventRow_def)

lemma upgrade_silent: "sentBetween s (snd (executeUpgradePlan env p s)) = []"
proof -
  have "stays (sendsOnly (\<lambda>_. False)) (executeUpgradePlan env p)"
    unfolding executeUpgradePlan_def upgradeRemove_def insertPlanEvent_def split_def
    by (intro sends.stays_rules sends_tables sends_more)
  from staysD [OF this, of s] obtain w d where
    "write_queue (snd (executeUpgradePlan env p s)) = write_queue s @ w"
    "delete_queue (snd (executeUpgradePlan env p s)) = delete_queue s @ d" "\<forall>m \<in> set w \<union> set d. False"
    unfolding sendsOnly_def by blast
  moreover from this(3) have "w = []" by (metis Un_iff last_in_set)
  moreover from calculation(3) have "d = []" by (metis Un_iff last_in_set)
  ultimately show ?thesis by (simp add: sentBetween_def)
qed

end
