(* ===== verification/JS_Text.thy ===== *)
theory JS_Text
  imports Json_Text
begin

text \<open>
  The string functions of JavaScript the components share. A string is its list of UTF-8 bytes, so
  the white space that \<^verbatim>\<open>trim\<close> removes is recognised in its encoded form.
\<close>

section \<open>White space\<close>

definition asciiSpace :: "char \<Rightarrow> bool" where
  "asciiSpace c \<longleftrightarrow> of_char c \<in> {9, 10, 11, 12, 13, 32 :: nat}"

text \<open>The bytes of the white-space character a string starts with, none when it does not.\<close>

fun spaceLength :: "string \<Rightarrow> nat" where
  "spaceLength [] = 0"
| "spaceLength (a # s) =
     (if asciiSpace a then 1
      else let b = map of_char (take 3 (a # s)) :: nat list in
        if take 2 b = [0xC2, 0xA0] then 2
        else if b \<in> {[0xE1, 0x9A, 0x80], [0xE2, 0x80, 0xA8], [0xE2, 0x80, 0xA9], [0xE2, 0x80, 0xAF],
                       [0xE2, 0x81, 0x9F], [0xE3, 0x80, 0x80], [0xEF, 0xBB, 0xBF]} then 3
        else if take 2 b = [0xE2, 0x80] \<and> length b = 3 \<and> 0x80 \<le> b ! 2 \<and> b ! 2 \<le> 0x8A then 3
        else 0)"

function trimStart :: "string \<Rightarrow> string" where
  "trimStart s = (if spaceLength s = 0 then s else trimStart (drop (spaceLength s) s))"
  by auto
termination
proof (relation "measure length")
  fix s assume "spaceLength s \<noteq> 0"
  moreover from this have "s \<noteq> []" by auto
  ultimately show "(drop (spaceLength s) s, s) \<in> measure length" by (cases s) auto
qed simp

declare trimStart.simps [simp del]

text \<open>\<^verbatim>\<open>s.trim().length === 0\<close>.\<close>

definition blank :: "string \<Rightarrow> bool" where
  "blank s \<longleftrightarrow> trimStart s = []"

lemma trimStart_Nil [simp]: "trimStart [] = []"
  by (simp add: trimStart.simps)

lemma blank_Nil [simp]: "blank []"
  by (simp add: blank_def)

lemma trimStart_id: "spaceLength s = 0 \<Longrightarrow> trimStart s = s"
  by (simp add: trimStart.simps)

lemma trimStart_suffix: "\<exists>p. s = p @ trimStart s"
proof (induction s rule: trimStart.induct)
  case (1 s)
  show ?case
  proof (cases "spaceLength s = 0")
    case False
    from 1 [OF this] obtain p where p: "drop (spaceLength s) s = p @ trimStart (drop (spaceLength s) s)" ..
    have "s = (take (spaceLength s) s @ p) @ trimStart s"
      using False by (subst trimStart.simps) (simp flip: p)
    then show ?thesis ..
  qed (simp add: trimStart_id)
qed

lemma trimStart_no_space: "spaceLength (trimStart s) = 0"
proof (induction s rule: trimStart.induct)
  case (1 s)
  then show ?case by (cases "spaceLength s = 0") (simp_all add: trimStart.simps [of s])
qed

section \<open>Splitting and joining\<close>

text \<open>\<^verbatim>\<open>s.split(c)\<close> for a single character.\<close>

fun splitOn :: "char \<Rightarrow> string \<Rightarrow> string list" where
  "splitOn c [] = [[]]"
| "splitOn c (x # xs) =
     (if x = c then [] # splitOn c xs
      else case splitOn c xs of [] \<Rightarrow> [[x]] | p # ps \<Rightarrow> (x # p) # ps)"

lemma splitOn_absent: "c \<notin> set a \<Longrightarrow> splitOn c a = [a]"
  by (induction a) auto

lemma splitOn_two: "c \<notin> set a \<Longrightarrow> c \<notin> set b \<Longrightarrow> splitOn c (a @ c # b) = [a, b]"
  by (induction a) (auto simp: splitOn_absent)

section \<open>Clock times\<close>

text \<open>The regular expression \<^verbatim>\<open>^([01]\\d|2[0-3]):[0-5]\\d$\<close>.\<close>

definition isHHMM :: "string \<Rightarrow> bool" where
  "isHHMM s \<longleftrightarrow>
     (case s of
        [a, b, c, d, e] \<Rightarrow>
          (case (digitVal a, digitVal b, digitVal d, digitVal e) of
             (Some h, Some k, Some m, Some n) \<Rightarrow> (h \<le> 1 \<or> h = 2 \<and> k \<le> 3) \<and> c = CHR '':'' \<and> m \<le> 5
           | _ \<Rightarrow> False)
      | _ \<Rightarrow> False)"

text \<open>Minutes after midnight of such a time.\<close>

definition clockMinutes :: "string \<Rightarrow> nat" where
  "clockMinutes s =
     (case map digitVal s of
        [Some h, Some k, _, Some m, Some n] \<Rightarrow> 60 * (10 * h + k) + 10 * m + n
      | _ \<Rightarrow> 0)"

lemma digitVal_le: "digitVal c = Some d \<Longrightarrow> d \<le> 9"
  by (auto simp: digitVal_def Let_def split: if_splits)

lemma isHHMM_minutes: "isHHMM s \<Longrightarrow> clockMinutes s < 24 * 60"
  by (auto simp: isHHMM_def clockMinutes_def dest!: digitVal_le split: list.splits option.splits if_splits)

section \<open>Looking up the field of an object\<close>

definition field :: "json \<Rightarrow> string \<Rightarrow> json option" where
  "field j k = (case j of JObj fs \<Rightarrow> map_of fs k | _ \<Rightarrow> None)"

definition strField :: "json \<Rightarrow> string \<Rightarrow> string option" where
  "strField j k = (case field j k of Some (JStr s) \<Rightarrow> Some s | _ \<Rightarrow> None)"

section \<open>Reading and writing numbers\<close>

text \<open>\<^verbatim>\<open>parseInt(s, 10)\<close>: white space, a sign, then as many digits as there are; \<^const>\<open>None\<close> is NaN.\<close>

fun leadingDigits :: "nat \<Rightarrow> string \<Rightarrow> nat" where
  "leadingDigits acc [] = acc"
| "leadingDigits acc (c # s) =
     (case digitVal c of None \<Rightarrow> acc | Some d \<Rightarrow> leadingDigits (10 * acc + d) s)"

definition parseNat :: "string \<Rightarrow> nat option" where
  "parseNat s = (case s of [] \<Rightarrow> None | c # _ \<Rightarrow> if digitVal c = None then None else Some (leadingDigits 0 s))"

definition parseInt10 :: "string \<Rightarrow> int option" where
  "parseInt10 s =
     (case trimStart s of
        [] \<Rightarrow> None
      | c # r \<Rightarrow>
          if c = CHR ''-'' then map_option (\<lambda>n. - int n) (parseNat r)
          else if c = CHR ''+'' then map_option int (parseNat r)
          else map_option int (parseNat (c # r)))"

text \<open>\<^verbatim>\<open>String(n).padStart(2, "0")\<close> and \<^verbatim>\<open>s.slice(a, b)\<close>.\<close>

definition pad2 :: "nat \<Rightarrow> string" where
  "pad2 n = (let s = showNat n in if length s < 2 then CHR ''0'' # s else s)"

definition slice :: "nat \<Rightarrow> nat \<Rightarrow> string \<Rightarrow> string" where
  "slice a b s = take (b - a) (drop a s)"

lemma leadingDigits_fixed:
  "leadingDigits acc (fixedDigits w n @ s) =
     (if s = [] \<or> digitVal (hd s) = None then acc * 10 ^ w + n mod 10 ^ w
      else leadingDigits (acc * 10 ^ w + n mod 10 ^ w) s)"
proof (induction w arbitrary: acc n s)
  case 0
  then show ?case by (cases s) auto
next
  case (Suc w)
  have "n mod (10 * 10 ^ w) = 10 * (n div 10 mod 10 ^ w) + n mod 10"
    by (rule mod_mult2_eq)
  then show ?case using Suc [of acc "n div 10" "digitChar (n mod 10) # s"]
    by (cases s) (auto simp: algebra_simps)
qed

section \<open>Lower case and substrings\<close>

text \<open>The characters of ASCII and, in their two-byte form, of the Latin-1 supplement.\<close>

fun toLowerCase :: "string \<Rightarrow> string" where
  "toLowerCase [] = []"
| "toLowerCase [a] = (let n = of_char a :: nat in [if 65 \<le> n \<and> n \<le> 90 then char_of (n + 32) else a])"
| "toLowerCase (a # b # s) =
     (let n = of_char a :: nat; k = of_char b :: nat in
      if n = 0xC3 then a # (if 0x80 \<le> k \<and> k \<le> 0x9E \<and> k \<noteq> 0x97 then char_of (k + 32) else b) # toLowerCase s
      else (if 65 \<le> n \<and> n \<le> 90 then char_of (n + 32) else a) # toLowerCase (b # s))"

text \<open>\<^verbatim>\<open>s.includes(k)\<close>.\<close>

fun includesText :: "string \<Rightarrow> string \<Rightarrow> bool" where
  "includesText [] k = (k = [])"
| "includesText (c # s) k = (prefix k (c # s) \<or> includesText s k)"

lemma includesText_substring: "includesText s k \<longleftrightarrow> (\<exists>a b. s = a @ k @ b)"
proof (induction s)
  case (Cons c s)
  have "(\<exists>a b. c # s = a @ k @ b) \<longleftrightarrow> prefix k (c # s) \<or> (\<exists>a b. s = a @ k @ b)"
    by (auto simp: prefix_def Cons_eq_append_conv)
  with Cons show ?case by simp
qed auto

end
