(* ===== verification/Graph_Events.thy ===== *)
theory Graph_Events
  imports Delta_Laws JS_Text "HOL-Library.Product_Lexorder"
begin

text \<open>
  The user-facing operations of \<^verbatim>\<open>UserGraphDO\<close> on single events: \<^verbatim>\<open>upsertCanonicalEvent\<close>,
  \<^verbatim>\<open>deleteCanonicalEvent\<close>, \<^verbatim>\<open>getCanonicalEvent\<close>, \<^verbatim>\<open>findCanonicalByOrigin\<close> and the two paginated
  queries, \<^verbatim>\<open>listCanonicalEvents\<close> and \<^verbatim>\<open>queryJournal\<close>. The pagination lemmas show that following
  the cursors visits every matching row once, in order.
\<close>

section \<open>Upsert\<close>

text \<open>The event as the caller sends it: every field may be missing.\<close>

record upsert_input =
  ui_canonical_event_id :: "string option"
  ui_origin_account_id :: "string option"
  ui_origin_event_id :: "string option"
  ui_title :: "string option"
  ui_description :: "string option"
  ui_location :: "string option"
  ui_start :: "event_date_time option"
  ui_end :: "event_date_time option"
  ui_all_day :: "bool option"
  ui_status :: "string option"
  ui_visibility :: "string option"
  ui_transparency :: "string option"
  ui_recurrence_rule :: "string option"
  ui_source :: "string option"

definition inputTs :: "event_date_time option \<Rightarrow> string" where
  "inputTs d = (case d of None \<Rightarrow> [] | Some x \<Rightarrow> eventTs x)"

definition setInputFields :: "graph_env \<Rightarrow> upsert_input \<Rightarrow> nat \<Rightarrow> event_row \<Rightarrow> event_row" where
  "setInputFields env e version r =
     r\<lparr> ce_title := ui_title e, ce_description := ui_description e, ce_location := ui_location e,
        ce_start_ts := inputTs (ui_start e), ce_end_ts := inputTs (ui_end e),
        ce_timezone := (case ui_start e of None \<Rightarrow> None | Some d \<Rightarrow> dt_timeZone d),
        ce_all_day := (ui_all_day e = Some True),
        ce_status := nullish (ui_status e) ''confirmed'',
        ce_visibility := nullish (ui_visibility e) ''default'',
        ce_transparency := nullish (ui_transparency e) ''opaque'',
        ce_recurrence_rule := ui_recurrence_rule e,
        ce_version := version, ce_updated_at := datetimeNow env \<rparr>"

definition inputEventRow ::
  "graph_env \<Rightarrow> string \<Rightarrow> string \<Rightarrow> string \<Rightarrow> upsert_input \<Rightarrow> string \<Rightarrow> event_row" where
  "inputEventRow env cid acct oid e source =
     setInputFields env e 1
       \<lparr> ce_canonical_event_id = cid, ce_origin_account_id = acct, ce_origin_event_id = oid,
         ce_title = None, ce_description = None, ce_location = None, ce_start_ts = [],
         ce_end_ts = [], ce_timezone = None, ce_all_day = False, ce_status = [],
         ce_visibility = [], ce_transparency = [], ce_recurrence_rule = None,
         ce_source = nullish (ui_source e) source, ce_version = 1,
         ce_created_at = datetimeNow env, ce_updated_at = [], ce_constraint_id = None \<rparr>"

definition upsertCanonicalEvent :: "graph_env \<Rightarrow> upsert_input \<Rightarrow> string \<Rightarrow> string graph_op" where
  "upsertCanonicalEvent env e source =
     andThen (if truthy (ui_canonical_event_id e) then ret (the (ui_canonical_event_id e))
              else freshId env ''event'') (\<lambda>cid.
       let acct = orFalsy (ui_origin_account_id e) ''api'';
           oid = orFalsy (ui_origin_event_id e) cid in
       andThen (query (eventsWithId cid)) (\<lambda>existing.
       andThen (case existing of
           row # _ \<Rightarrow>
             andThen (updateEventRow cid (setInputFields env e (ce_version row + 1))) (\<lambda>_.
               writeJournal env cid ''updated'' source
                 (JObj [(''new_version'', JNum (int (ce_version row + 1)))]) None)
         | [] \<Rightarrow>
             andThen (insertEventRow (inputEventRow env cid acct oid e source)) (\<lambda>_.
               writeJournal env cid ''created'' source (JObj []) None)) (\<lambda>_.
       andThen (projectAndEnqueue env cid acct noOpts) (\<lambda>_. ret cid))))"

section \<open>Delete\<close>

definition originDelete :: "graph_env \<Rightarrow> event_row \<Rightarrow> delete_message" where
  "originDelete env r =
     \<lparr> dm_canonical_event_id = ce_canonical_event_id r,
       dm_target_account_id = ce_origin_account_id r,
       dm_target_calendar_id = Some ''primary'',
       dm_provider_event_id = ce_origin_event_id r,
       dm_idempotency_key = Some (computeIdempotencyKey (sha256 env) (ce_canonical_event_id r)
         (ce_origin_account_id r) (''delete-origin:'' @ ce_origin_event_id r @ '':primary'')) \<rparr>"

definition deleteCanonicalEvent :: "graph_env \<Rightarrow> string \<Rightarrow> string \<Rightarrow> bool graph_op" where
  "deleteCanonicalEvent env cid source =
     andThen (query (eventsWithId cid)) (\<lambda>rows.
       case rows of
         [] \<Rightarrow> ret False
       | event # _ \<Rightarrow>
           andThen (query (mirrorsOf cid)) (\<lambda>mirrors.
           andThen (enqueueMirrorDeletes env cid mirrors) (\<lambda>_.
           andThen (if prefix ''acc_'' (ce_origin_account_id event) \<and> ce_origin_event_id event \<noteq> []
                    then enqueueDeleteMirror env (originDelete env event) else ret ()) (\<lambda>_.
           andThen (removeEvent cid) (\<lambda>_.
           andThen (writeJournal env cid ''deleted'' source (JObj []) None) (\<lambda>_.
           ret True))))))"

section \<open>Queries\<close>

definition getCanonicalEvent :: "string \<Rightarrow> (canonical_event \<times> mirror_row list) option graph_op" where
  "getCanonicalEvent cid = query (\<lambda>s.
     case eventsWithId cid s of
       [] \<Rightarrow> None
     | r # _ \<Rightarrow> Some (rowToCanonicalEvent r, mirrorsOf cid s))"

definition findCanonicalByOrigin :: "string \<Rightarrow> string \<Rightarrow> canonical_event option graph_op" where
  "findCanonicalByOrigin acct oid = query (\<lambda>s.
     case eventsByOrigin acct oid s of [] \<Rightarrow> None | r # _ \<Rightarrow> Some (rowToCanonicalEvent r))"

record list_query =
  lq_time_min :: "string option"
  lq_time_max :: "string option"
  lq_origin_account_id :: "string option"
  lq_origin_event_id :: "string option"
  lq_updated_after :: "string option"
  lq_source :: "string option"
  lq_cursor :: "string option"
  lq_limit :: "nat option"

definition rowKey :: "event_row \<Rightarrow> string \<times> string" where
  "rowKey r = (ce_start_ts r, ce_canonical_event_id r)"

definition whereTruthy :: "string option \<Rightarrow> (string \<Rightarrow> bool) \<Rightarrow> bool" where
  "whereTruthy x P \<longleftrightarrow> (truthy x \<longrightarrow> P (the x))"

definition baseConditions :: "list_query \<Rightarrow> event_row \<Rightarrow> bool" where
  "baseConditions q r \<longleftrightarrow>
     whereTruthy (lq_time_min q) (\<lambda>t. ce_end_ts r > t) \<and>
     whereTruthy (lq_time_max q) (\<lambda>t. ce_start_ts r < t) \<and>
     whereTruthy (lq_origin_account_id q) (\<lambda>a. ce_origin_account_id r = a) \<and>
     whereTruthy (lq_origin_event_id q) (\<lambda>x. ce_origin_event_id r = x) \<and>
     whereTruthy (lq_updated_after q) (\<lambda>t. ce_updated_at r > t) \<and>
     whereTruthy (lq_source q) (\<lambda>x. ce_source r = x)"

definition cursorCondition :: "string option \<Rightarrow> event_row \<Rightarrow> bool" where
  "cursorCondition cursor r \<longleftrightarrow>
     (if truthy cursor
      then case splitOn (CHR ''|'') (the cursor) of
             [ts, cid] \<Rightarrow> ce_start_ts r > ts \<or> ce_start_ts r = ts \<and> ce_canonical_event_id r > cid
           | _ \<Rightarrow> True
      else True)"

definition listCanonicalEvents ::
  "list_query \<Rightarrow> (canonical_event list \<times> string option \<times> bool) graph_op" where
  "listCanonicalEvents q = query (\<lambda>s.
     let limit = nullish (lq_limit q) 50;
         rows = take (limit + 1) (sort_key rowKey
                  (filter (\<lambda>r. baseConditions q r \<and> cursorCondition (lq_cursor q) r) (canonical_events s)));
         hasMore = length rows > limit;
         items = map rowToCanonicalEvent (take limit rows);
         cursor = (if hasMore \<and> items \<noteq> []
                   then Some (eventTs (ev_start (last items)) @ ''|'' @ ev_canonical_event_id (last items))
                   else None)
     in (items, cursor, hasMore))"

definition queryJournal ::
  "string option \<Rightarrow> string option \<Rightarrow> nat option \<Rightarrow> (journal_row list \<times> string option \<times> bool) graph_op" where
  "queryJournal cid cursor limit' = query (\<lambda>s.
     let limit = nullish limit' 50;
         rows = take (limit + 1) (sort_key ej_journal_id
                  (filter (\<lambda>j. whereTruthy cid (\<lambda>c. ej_canonical_event_id j = c) \<and>
                               whereTruthy cursor (\<lambda>c. ej_journal_id j > c)) (event_journal s)));
         hasMore = length rows > limit;
         items = take limit rows;
         next' = (if hasMore \<and> items \<noteq> [] then Some (ej_journal_id (last items)) else None)
     in (items, next', hasMore))"

section \<open>Well-formed tables and growing logs\<close>

lemma keepsEventKeys_input [simp]: "keepsEventKeys (setInputFields env e v)"
  by (simp add: keepsEventKeys_def setInputFields_def)

lemma keeps_upsert [graph_keeps]: "keeps (graph_ok env) (upsertCanonicalEvent env e source)"
  unfolding upsertCanonicalEvent_def Let_def
  by (intro keeps_intro graph_keeps keepsEventKeys_input)

lemma keeps_deleteCanonicalEvent [graph_keeps]: "keeps (graph_ok env) (deleteCanonicalEvent env cid source)"
  unfolding deleteCanonicalEvent_def by (intro keeps_intro graph_keeps)

lemma stays_events [log_stays]:
  "stays appendOnly (upsertCanonicalEvent env e source)"
  "stays appendOnly (deleteCanonicalEvent env cid source)"
  unfolding upsertCanonicalEvent_def deleteCanonicalEvent_def Let_def
  by (intro log_rules log_stays)+

section \<open>Pagination visits everything once\<close>

text \<open>
  Both queries are the same walk: a sorted table with distinct keys, cut after a limit, continued
  behind the key of the last row. The locale states it for any table and key.
\<close>

locale keyed_walk =
  fixes key :: "'r \<Rightarrow> 'k :: linorder"
    and table :: "'s \<Rightarrow> 'r list"
    and inv :: "'s \<Rightarrow> bool"
  assumes keys: "inv s \<Longrightarrow> distinct (map key (table s))"
begin

definition behind :: "'s \<Rightarrow> 'k option \<Rightarrow> 'r list" where
  "behind s k = filter (\<lambda>r. case k of None \<Rightarrow> True | Some x \<Rightarrow> key r > x) (sort_key key (table s))"

definition page :: "'s \<Rightarrow> nat \<Rightarrow> 'k option \<Rightarrow> 'r list \<times> 'k option" where
  "page s limit k =
     (let got = take (limit + 1) (behind s k); items = take limit got in
      (items, if length got > limit \<and> items \<noteq> [] then Some (key (last items)) else None))"

fun pages :: "'s \<Rightarrow> nat \<Rightarrow> nat \<Rightarrow> 'k option \<Rightarrow> 'r list" where
  "pages s 0 limit k = []"
| "pages s (Suc n) limit k =
     (let (items, next') = page s limit k in
      items @ (case next' of None \<Rightarrow> [] | Some x \<Rightarrow> pages s n limit (Some x)))"

lemma strictly_ordered:
  assumes "inv s"
  shows "sorted_wrt (\<lambda>a b. key a < key b) (behind s k)"
proof -
  have "distinct (map key (sort_key key (table s)))"
    using keys [OF assms] by (simp add: distinct_map)
  then have "sorted_wrt (<) (map key (sort_key key (table s)))"
    by (simp add: strict_sorted_iff)
  then show ?thesis unfolding behind_def sorted_wrt_map by (rule sorted_wrt_filter)
qed

lemma behind_last:
  assumes "inv s" and "behind s k = xs @ ys" and "xs \<noteq> []"
  shows "behind s (Some (key (last xs))) = ys"
proof -
  have sw: "sorted_wrt (\<lambda>a b. key a < key b) (xs @ ys)"
    using strictly_ordered [OF assms(1), of k] assms(2) by simp
  have xs: "xs = butlast xs @ [last xs]" using assms(3) by simp
  have "\<forall>r \<in> set xs. \<not> key (last xs) < key r"
  proof
    fix r assume "r \<in> set xs"
    then consider "r \<in> set (butlast xs)" | "r = last xs" using xs
      by (metis UnE empty_iff empty_set insert_iff list.simps(15) set_append)
    then show "\<not> key (last xs) < key r"
      using sw xs by (metis less_imp_not_less order_less_irrefl sorted_wrt_append list.set_intros(1))
  qed
  moreover have "\<forall>r \<in> set ys. key (last xs) < key r"
    using sw assms(3) by (simp add: sorted_wrt_append)
  ultimately have "filter (\<lambda>r. key (last xs) < key r) (xs @ ys) = ys"
    by (simp add: filter_empty_conv)
  moreover have "filter (\<lambda>r. key (last xs) < key r) (behind s k) = behind s (Some (key (last xs)))"
  proof -
    have "k = Some x \<Longrightarrow> x < key (last xs)" for x
    proof -
      assume "k = Some x"
      moreover have "last xs \<in> set (behind s k)" using assms(2,3) by simp
      ultimately show "x < key (last xs)" by (simp add: behind_def)
    qed
    then show ?thesis
      by (auto simp: behind_def intro!: filter_cong split: option.split)
  qed
  ultimately show ?thesis using assms(2) by simp
qed

theorem pages_complete:
  assumes "inv s" and "0 < limit" and "length (behind s k) \<le> n"
  shows "pages s (Suc n) limit k = behind s k"
  using assms(3)
proof (induction n arbitrary: k)
  case 0
  then show ?case by (simp add: page_def Let_def)
next
  case (Suc n)
  let ?B = "behind s k"
  show ?case
  proof (cases "length ?B \<le> limit")
    case True
    then show ?thesis by (simp add: page_def Let_def)
  next
    case False
    let ?xs = "take limit ?B"
    have ne: "?xs \<noteq> []" using False assms(2) by (cases ?B) auto
    have page: "page s limit k = (?xs, Some (key (last ?xs)))"
      using False ne by (simp add: page_def Let_def min_def)
    have rest: "behind s (Some (key (last ?xs))) = drop limit ?B"
      using behind_last [OF assms(1) _ ne, of k "drop limit ?B"] by simp
    have "length (drop limit ?B) \<le> n" using Suc.prems assms(2) by simp
    then have "pages s (Suc n) limit (Some (key (last ?xs))) = drop limit ?B"
      using Suc.IH [of "Some (key (last ?xs))"] rest by simp
    then show ?thesis by (subst pages.simps(2)) (simp add: page del: pages.simps)
  qed
qed

end

interpretation events_walk: keyed_walk rowKey
    "\<lambda>s. filter (baseConditions q) (canonical_events s)" "graph_ok env" for q env
proof unfold_locales
  fix s assume "graph_ok env s"
  then have "distinct (map ce_canonical_event_id (canonical_events s))" by (rule ok_events_distinct)
  then have "distinct (map rowKey (canonical_events s))"
    by (auto simp: distinct_map inj_on_def rowKey_def)
  then show "distinct (map rowKey (filter (baseConditions q) (canonical_events s)))"
    by (rule distinct_map_filter)
qed

interpretation journal_walk: keyed_walk ej_journal_id
    "\<lambda>s. filter (\<lambda>j. whereTruthy cid (\<lambda>c. ej_canonical_event_id j = c)) (event_journal s)" "graph_ok env"
    for cid env
  by unfold_locales (simp add: graph_ok_def journal_ok_def distinct_map_filter)

text \<open>The client's loop: ask again with the returned cursor until there is none.\<close>

fun followCursors :: "nat \<Rightarrow> list_query \<Rightarrow> user_graph \<Rightarrow> canonical_event list" where
  "followCursors 0 q s = []"
| "followCursors (Suc n) q s =
     (case fst (listCanonicalEvents q s) of
        Inl e \<Rightarrow> []
      | Inr (items, cursor, hasMore) \<Rightarrow>
          items @ (case cursor of None \<Rightarrow> [] | Some c \<Rightarrow> followCursors n (q\<lparr> lq_cursor := Some c \<rparr>) s))"

definition cursorSafe :: "user_graph \<Rightarrow> bool" where
  "cursorSafe s \<longleftrightarrow> (\<forall>r \<in> set (canonical_events s).
     CHR ''|'' \<notin> set (ce_start_ts r) \<and> CHR ''|'' \<notin> set (ce_canonical_event_id r))"

definition cursorText :: "string \<times> string \<Rightarrow> string" where
  "cursorText k = fst k @ ''|'' @ snd k"

lemma cursorCondition_key:
  assumes "CHR ''|'' \<notin> set (fst k)" and "CHR ''|'' \<notin> set (snd k)"
  shows "cursorCondition (Some (cursorText k)) r \<longleftrightarrow> rowKey r > k"
  using splitOn_two [OF assms]
  by (auto simp: cursorCondition_def cursorText_def rowKey_def less_prod_def' prod_eq_iff)

lemma eventTs_row [simp]: "eventTs (ev_start (rowToCanonicalEvent r)) = ce_start_ts r"
  by (simp add: eventTs_def rowToCanonicalEvent_def rowDateTime_def)

lemma baseConditions_cursor [simp]: "baseConditions (q\<lparr> lq_cursor := c \<rparr>) = baseConditions q"
  by (rule ext) (simp add: baseConditions_def)

lemma listCanonicalEvents_page:
  assumes limit: "lq_limit q = Some limit" and safe: "cursorSafe s"
    and k: "\<forall>x. k = Some x \<longrightarrow> CHR ''|'' \<notin> set (fst x) \<and> CHR ''|'' \<notin> set (snd x)"
  shows "fst (listCanonicalEvents (q\<lparr> lq_cursor := map_option cursorText k \<rparr>) s) =
    (let (items, next') = events_walk.page q s limit k in
     Inr (map rowToCanonicalEvent items, map_option cursorText next',
          limit < length (take (limit + 1) (events_walk.behind q s k))))"
proof -
  have rows: "sort_key rowKey (filter (\<lambda>r. baseConditions q r \<and>
      cursorCondition (map_option cursorText k) r) (canonical_events s)) = events_walk.behind q s k"
  proof -
    have "cursorCondition (map_option cursorText k) r \<longleftrightarrow>
          (case k of None \<Rightarrow> True | Some x \<Rightarrow> rowKey r > x)" for r
      using k cursorCondition_key by (cases k) (auto simp: cursorCondition_def)
    then show ?thesis
      by (simp add: events_walk.behind_def filter_sort conj_commute)
  qed
  have len: "length (filter (\<lambda>r. baseConditions q r \<and>
      cursorCondition (map_option cursorText k) r) (canonical_events s)) = length (events_walk.behind q s k)"
    using arg_cong [OF rows, of length] by simp
  show ?thesis
    using limit
    by (simp add: listCanonicalEvents_def events_walk.page_def rows len Let_def cursorText_def rowKey_def
          last_map)
qed

lemma page_key_safe:
  assumes "cursorSafe s" and "events_walk.page q s limit k = (items, Some x)"
  shows "CHR ''|'' \<notin> set (fst x) \<and> CHR ''|'' \<notin> set (snd x)"
proof -
  have "items \<noteq> []" "x = rowKey (last items)" "set items \<subseteq> set (events_walk.behind q s k)"
    using assms(2) by (auto simp: events_walk.page_def Let_def split: if_splits dest: in_set_takeD)
  moreover have "set (events_walk.behind q s k) \<subseteq> set (canonical_events s)"
    by (auto simp: events_walk.behind_def)
  ultimately have "last items \<in> set (canonical_events s)" by (meson last_in_set subsetD)
  with assms(1) \<open>x = rowKey (last items)\<close> show ?thesis by (auto simp: cursorSafe_def rowKey_def)
qed

lemma followCursors_pages:
  assumes limit: "lq_limit q = Some limit" and safe: "cursorSafe s"
  shows "\<forall>x. k = Some x \<longrightarrow> CHR ''|'' \<notin> set (fst x) \<and> CHR ''|'' \<notin> set (snd x) \<Longrightarrow>
    followCursors n (q\<lparr> lq_cursor := map_option cursorText k \<rparr>) s =
    map rowToCanonicalEvent (events_walk.pages q s n limit k)"
proof (induction n arbitrary: k)
  case (Suc n)
  obtain items next' where page: "events_walk.page q s limit k = (items, next')" by force
  show ?case
  proof (cases next')
    case None
    then show ?thesis
      using listCanonicalEvents_page [OF limit safe Suc.prems] page by (simp add: Let_def)
  next
    case (Some x)
    have "followCursors n (q\<lparr> lq_cursor := map_option cursorText (Some x) \<rparr>) s =
          map rowToCanonicalEvent (events_walk.pages q s n limit (Some x))"
      using page_key_safe [OF safe] page Some by (intro Suc.IH) simp
    then show ?thesis
      using listCanonicalEvents_page [OF limit safe Suc.prems] page Some by (simp add: Let_def)
  qed
qed simp

lemma listing_complete:
  assumes "graph_ok env s" and "cursorSafe s" and "lq_cursor q = None" and "lq_limit q = Some limit"
    and "0 < limit" and "length (filter (baseConditions q) (canonical_events s)) \<le> n"
  shows "followCursors (Suc n) q s =
    map rowToCanonicalEvent (sort_key rowKey (filter (baseConditions q) (canonical_events s)))"
proof -
  have behind: "events_walk.behind q s None = sort_key rowKey (filter (baseConditions q) (canonical_events s))"
    by (simp add: events_walk.behind_def)
  have "followCursors (Suc n) (q\<lparr> lq_cursor := map_option cursorText None \<rparr>) s =
        map rowToCanonicalEvent (events_walk.pages q s (Suc n) limit None)"
    by (rule followCursors_pages [OF assms(4,2)]) simp
  also have "events_walk.pages q s (Suc n) limit None = events_walk.behind q s None"
    by (rule events_walk.pages_complete [OF assms(1,5)]) (simp add: behind assms(6))
  also have "q\<lparr> lq_cursor := map_option cursorText None \<rparr> = q" using assms(3) by (cases q) simp
  finally show ?thesis using behind by (simp del: followCursors.simps)
qed

fun followJournal :: "nat \<Rightarrow> string option \<Rightarrow> string option \<Rightarrow> nat \<Rightarrow> user_graph \<Rightarrow> journal_row list" where
  "followJournal 0 cid cursor limit s = []"
| "followJournal (Suc n) cid cursor limit s =
     (case fst (queryJournal cid cursor (Some limit) s) of
        Inl e \<Rightarrow> []
      | Inr (items, next', hasMore) \<Rightarrow>
          items @ (case next' of None \<Rightarrow> [] | Some c \<Rightarrow> followJournal n cid (Some c) limit s))"

lemma queryJournal_page:
  assumes "\<forall>x. k = Some x \<longrightarrow> x \<noteq> []"
  shows "fst (queryJournal cid k (Some limit) s) =
    (let (items, next') = journal_walk.page cid s limit k in
     Inr (items, next', limit < length (take (limit + 1) (journal_walk.behind cid s k))))"
proof -
  have rows: "sort_key ej_journal_id (filter (\<lambda>j. whereTruthy cid (\<lambda>c. ej_canonical_event_id j = c) \<and>
      whereTruthy k (\<lambda>c. ej_journal_id j > c)) (event_journal s)) = journal_walk.behind cid s k"
  proof -
    have "whereTruthy k (\<lambda>c. ej_journal_id j > c) \<longleftrightarrow>
          (case k of None \<Rightarrow> True | Some x \<Rightarrow> ej_journal_id j > x)" for j
      using assms by (cases k) (auto simp: whereTruthy_def)
    then have "filter (\<lambda>j. whereTruthy cid (\<lambda>c. ej_canonical_event_id j = c) \<and>
        whereTruthy k (\<lambda>c. ej_journal_id j > c)) (event_journal s) =
      filter (\<lambda>j. whereTruthy cid (\<lambda>c. ej_canonical_event_id j = c) \<and>
        (case k of None \<Rightarrow> True | Some x \<Rightarrow> ej_journal_id j > x)) (event_journal s)"
      by (intro filter_cong) auto
    then show ?thesis by (simp only: journal_walk.behind_def filter_sort filter_filter conj_commute)
  qed
  have len: "length (filter (\<lambda>j. whereTruthy cid (\<lambda>c. ej_canonical_event_id j = c) \<and>
      whereTruthy k (\<lambda>c. ej_journal_id j > c)) (event_journal s)) = length (journal_walk.behind cid s k)"
    using arg_cong [OF rows, of length] by simp
  show ?thesis
    by (simp add: queryJournal_def journal_walk.page_def rows len Let_def)
qed

lemma journal_key_nonempty:
  assumes "graph_ok env s" and "journal_walk.page cid s limit k = (items, Some x)"
  shows "x \<noteq> []"
proof -
  have "items \<noteq> []" "x = ej_journal_id (last items)" "set items \<subseteq> set (journal_walk.behind cid s k)"
    using assms(2) by (auto simp: journal_walk.page_def Let_def split: if_splits dest: in_set_takeD)
  moreover have "set (journal_walk.behind cid s k) \<subseteq> set (event_journal s)"
    by (auto simp: journal_walk.behind_def)
  ultimately have "last items \<in> set (event_journal s)" by (meson last_in_set subsetD)
  with assms(1) have "drawn env (id_seq s) x"
    by (simp add: graph_ok_def journal_ok_def \<open>x = ej_journal_id (last items)\<close>)
  then show ?thesis by (auto simp: drawn_def generateId_def ID_PREFIXES_def)
qed

lemma followJournal_pages:
  assumes ok: "graph_ok env s"
  shows "\<forall>x. k = Some x \<longrightarrow> x \<noteq> [] \<Longrightarrow> followJournal n cid k limit s = journal_walk.pages cid s n limit k"
proof (induction n arbitrary: k)
  case (Suc n)
  obtain items next' where page: "journal_walk.page cid s limit k = (items, next')" by force
  show ?case
  proof (cases next')
    case None
    then show ?thesis using queryJournal_page [OF Suc.prems] page by (simp add: Let_def)
  next
    case (Some x)
    have "followJournal n cid (Some x) limit s = journal_walk.pages cid s n limit (Some x)"
      using journal_key_nonempty [OF ok] page Some by (intro Suc.IH) simp
    then show ?thesis using queryJournal_page [OF Suc.prems] page Some by (simp add: Let_def)
  qed
qed simp

lemma journal_complete:
  assumes "graph_ok env s" and "0 < limit"
    and "length (filter (\<lambda>j. whereTruthy cid (\<lambda>c. ej_canonical_event_id j = c)) (event_journal s)) \<le> n"
  shows "followJournal (Suc n) cid None limit s =
    sort_key ej_journal_id (filter (\<lambda>j. whereTruthy cid (\<lambda>c. ej_canonical_event_id j = c)) (event_journal s))"
  using followJournal_pages [OF assms(1), of None "Suc n" cid limit]
    journal_walk.pages_complete [OF assms(1,2), of cid None n] assms(3)
  by (simp add: journal_walk.behind_def del: followJournal.simps journal_walk.pages.simps)

end
