(* ===== verification/Graph_Constraints.thy ===== *)
theory Graph_Constraints
  imports Graph_Account Graph_Events JS_Text
begin

text \<open>
  Constraints of a user: \<^verbatim>\<open>validateConstraintConfig\<close> and its validators, \<^verbatim>\<open>addConstraint\<close>, which for a
  trip also creates the busy block derived from it, \<^verbatim>\<open>deleteConstraint\<close>, \<^verbatim>\<open>updateConstraint\<close> and the two
  queries. \<^verbatim>\<open>tz\<close> stands for what \<^verbatim>\<open>Intl.DateTimeFormat\<close> accepts as a time zone. Numbers in a
  configuration are integers in the model, so the tests of \<^verbatim>\<open>Number.isInteger\<close> always pass.
\<close>

section \<open>Validation\<close>

text \<open>A validator returns the message it throws.\<close>

fun firstError :: "(bool \<times> string) list \<Rightarrow> string option" where
  "firstError [] = None"
| "firstError ((bad, msg) # cs) = (if bad then Some msg else firstError cs)"

definition VALID_CONSTRAINT_KINDS :: "string list" where
  "VALID_CONSTRAINT_KINDS = [''trip'', ''working_hours'', ''buffer'', ''no_meetings_after'', ''override'']"

definition badDay :: "json \<Rightarrow> bool" where
  "badDay d \<longleftrightarrow> (case d of JNum n \<Rightarrow> n < 0 \<or> n > 6 | _ \<Rightarrow> True)"

definition daysError :: "json list \<Rightarrow> string option" where
  "daysError days =
     (case filter badDay days of
        d # _ \<Rightarrow> Some (''Working hours config_json.days values must be integers 0-6 (Sunday=0 through Saturday=6), got ''
                    @ stringify d)
      | [] \<Rightarrow> if distinct days then None
              else Some ''Working hours config_json.days must not contain duplicates'')"

definition validateWorkingHoursConfig :: "(string \<Rightarrow> bool) \<Rightarrow> json \<Rightarrow> string option" where
  "validateWorkingHoursConfig tz c =
     (case field c ''days'' of
        Some (JArr (d # ds)) \<Rightarrow>
          (case daysError (d # ds) of
             Some m \<Rightarrow> Some m
           | None \<Rightarrow>
               let st = strField c ''start_time''; en = strField c ''end_time''; zone = strField c ''timezone'' in
               firstError
                 [(\<not> (case st of Some t \<Rightarrow> isHHMM t | None \<Rightarrow> False),
                   ''Working hours config_json must include 'start_time' in HH:MM 24-hour format''),
                  (\<not> (case en of Some t \<Rightarrow> isHHMM t | None \<Rightarrow> False),
                   ''Working hours config_json must include 'end_time' in HH:MM 24-hour format''),
                  (the en \<le> the st, ''Working hours config_json.end_time must be after start_time''),
                  (\<not> truthy zone, ''Working hours config_json must include a 'timezone' string''),
                  (\<not> tz (the zone), ''Working hours config_json.timezone \"'' @ the zone @ ''\" is not a valid IANA timezone'')])
      | _ \<Rightarrow> Some ''Working hours config_json must include a non-empty 'days' array'')"

definition memberField :: "json \<Rightarrow> string \<Rightarrow> string list \<Rightarrow> bool" where
  "memberField c k allowed \<longleftrightarrow> (case strField c k of Some v \<Rightarrow> v \<in> set allowed | None \<Rightarrow> False)"

definition validateBufferConfig :: "json \<Rightarrow> string option" where
  "validateBufferConfig c = firstError
     [(\<not> memberField c ''type'' [''travel'', ''prep'', ''cooldown''],
       ''Buffer config_json.type must be one of: travel, prep, cooldown''),
      (\<not> (case field c ''minutes'' of Some (JNum n) \<Rightarrow> n > 0 | _ \<Rightarrow> False),
       ''Buffer config_json.minutes must be a positive integer''),
      (\<not> memberField c ''applies_to'' [''all'', ''external''],
       ''Buffer config_json.applies_to must be one of: all, external'')]"

definition validateNoMeetingsAfterConfig :: "(string \<Rightarrow> bool) \<Rightarrow> json \<Rightarrow> string option" where
  "validateNoMeetingsAfterConfig tz c =
     (let zone = strField c ''timezone'' in firstError
     [(\<not> (case strField c ''time'' of Some t \<Rightarrow> isHHMM t | None \<Rightarrow> False),
       ''no_meetings_after config_json must include 'time' in HH:MM 24-hour format''),
      (\<not> truthy zone, ''no_meetings_after config_json must include a 'timezone' string''),
      (\<not> tz (the zone), ''no_meetings_after config_json.timezone \"'' @ the zone @ ''\" is not a valid IANA timezone'')])"

definition badDate :: "graph_env \<Rightarrow> json option \<Rightarrow> bool" where
  "badDate env v \<longleftrightarrow>
     (case v of None \<Rightarrow> False | Some (JStr s) \<Rightarrow> dateParse (js_date env) s = None | Some _ \<Rightarrow> True)"

definition notBefore :: "graph_env \<Rightarrow> string option \<Rightarrow> string option \<Rightarrow> bool" where
  "notBefore env a b \<longleftrightarrow>
     (truthy a \<and> truthy b \<and>
      (case (dateParse (js_date env) (the a), dateParse (js_date env) (the b)) of
         (Some x, Some y) \<Rightarrow> x \<ge> y | _ \<Rightarrow> False))"

definition validateOverrideConfig :: "graph_env \<Rightarrow> (string \<Rightarrow> bool) \<Rightarrow> json \<Rightarrow> string option" where
  "validateOverrideConfig env tz c = firstError
     [(case strField c ''reason'' of Some s \<Rightarrow> blank s | None \<Rightarrow> True,
       ''override config_json must include a non-empty 'reason' string''),
      (badDate env (field c ''slot_start''),
       ''override config_json.slot_start must be a valid ISO 8601 date string''),
      (badDate env (field c ''slot_end''),
       ''override config_json.slot_end must be a valid ISO 8601 date string''),
      (notBefore env (strField c ''slot_start'') (strField c ''slot_end''),
       ''override config_json.slot_start must be before slot_end''),
      (field c ''timezone'' \<noteq> None \<and> \<not> truthy (strField c ''timezone''),
       ''override config_json.timezone must be a non-empty string''),
      (field c ''timezone'' \<noteq> None \<and> \<not> tz (the (strField c ''timezone'')),
       ''override config_json.timezone \"'' @ the (strField c ''timezone'') @ ''\" is not a valid IANA timezone'')]"

definition validateTripConfig :: "json \<Rightarrow> string option \<Rightarrow> string option \<Rightarrow> string option" where
  "validateTripConfig c activeFrom activeTo = firstError
     [(\<not> truthy (strField c ''name''), ''Trip constraint config_json must include a 'name' string''),
      (\<not> truthy (strField c ''timezone''), ''Trip constraint config_json must include a 'timezone' string''),
      (\<not> memberField c ''block_policy'' [''BUSY'', ''TITLE''],
       ''Trip constraint config_json.block_policy must be one of: BUSY, TITLE''),
      (\<not> truthy activeFrom \<or> \<not> truthy activeTo, ''Trip constraint must have active_from and active_to'')]"

definition validateConstraintConfig ::
  "graph_env \<Rightarrow> (string \<Rightarrow> bool) \<Rightarrow> string \<Rightarrow> json \<Rightarrow> string option \<Rightarrow> string option \<Rightarrow> string option" where
  "validateConstraintConfig env tz kind c activeFrom activeTo =
     (if kind = ''working_hours'' then validateWorkingHoursConfig tz c
      else if kind = ''buffer'' then validateBufferConfig c
      else if kind = ''no_meetings_after'' then validateNoMeetingsAfterConfig tz c
      else if kind = ''override'' then validateOverrideConfig env tz c
      else if kind = ''trip'' then validateTripConfig c activeFrom activeTo
      else None)"

section \<open>Operations\<close>

definition insertConstraintRow :: "constraint_row \<Rightarrow> unit graph_op" where
  "insertConstraintRow c s =
     (if cn_constraint_id c \<in> cn_constraint_id ` set (constraints s)
      then (Inl (UniqueViolation ''constraints.constraint_id''), s)
      else (Inr (), s\<lparr> constraints := constraints s @ [c] \<rparr>))"

definition tripEventRow ::
  "graph_env \<Rightarrow> string \<Rightarrow> string \<Rightarrow> json \<Rightarrow> string \<Rightarrow> string \<Rightarrow> event_row" where
  "tripEventRow env cid constraintId c activeFrom activeTo =
     \<lparr> ce_canonical_event_id = cid, ce_origin_account_id = ''internal'',
       ce_origin_event_id = ''constraint:'' @ constraintId,
       ce_title = (if strField c ''block_policy'' = Some ''TITLE'' then strField c ''name'' else Some ''Busy''),
       ce_description = None, ce_location = None, ce_start_ts = activeFrom, ce_end_ts = activeTo,
       ce_timezone = strField c ''timezone'', ce_all_day = False, ce_status = ''confirmed'',
       ce_visibility = ''default'', ce_transparency = ''opaque'', ce_recurrence_rule = None,
       ce_source = ''system'', ce_version = 1, ce_created_at = datetimeNow env,
       ce_updated_at = datetimeNow env, ce_constraint_id = Some constraintId \<rparr>"

definition constraintPatch :: "string \<Rightarrow> string \<Rightarrow> json" where
  "constraintPatch reason constraintId =
     JObj [(''reason'', JStr reason), (''constraint_id'', JStr constraintId)]"

definition createTripDerivedEvents ::
  "graph_env \<Rightarrow> string \<Rightarrow> json \<Rightarrow> string \<Rightarrow> string \<Rightarrow> unit graph_op" where
  "createTripDerivedEvents env constraintId c activeFrom activeTo =
     andThen (freshId env ''event'') (\<lambda>cid.
     andThen (insertEventRow (tripEventRow env cid constraintId c activeFrom activeTo)) (\<lambda>_.
     writeJournal env cid ''created'' ''system'' (constraintPatch ''trip_constraint'' constraintId) None))"

definition tripEventsIf ::
  "graph_env \<Rightarrow> string \<Rightarrow> string \<Rightarrow> json \<Rightarrow> string option \<Rightarrow> string option \<Rightarrow> unit graph_op" where
  "tripEventsIf env kind constraintId c activeFrom activeTo =
     (if kind = ''trip'' \<and> truthy activeFrom \<and> truthy activeTo
      then createTripDerivedEvents env constraintId c (the activeFrom) (the activeTo) else ret ())"

definition readConstraint :: "string \<Rightarrow> user_graph \<Rightarrow> constraint_row list" where
  "readConstraint constraintId s = filter (\<lambda>c. cn_constraint_id c = constraintId) (constraints s)"

definition addConstraint ::
  "graph_env \<Rightarrow> (string \<Rightarrow> bool) \<Rightarrow> string \<Rightarrow> json \<Rightarrow> string option \<Rightarrow> string option \<Rightarrow> constraint_row graph_op" where
  "addConstraint env tz kind c activeFrom activeTo =
     (if \<not> List.member VALID_CONSTRAINT_KINDS kind
      then throw (Thrown (''Invalid constraint kind \"'' @ kind @
             ''\". Must be one of: trip, working_hours, buffer, no_meetings_after, override''))
      else case validateConstraintConfig env tz kind c activeFrom activeTo of
             Some m \<Rightarrow> throw (Thrown m)
           | None \<Rightarrow>
               andThen (freshId env ''constraint'') (\<lambda>constraintId.
               andThen (insertConstraintRow
                 \<lparr> cn_constraint_id = constraintId, cn_kind = kind, cn_config_json = c,
                   cn_active_from = activeFrom, cn_active_to = activeTo,
                   cn_created_at = datetimeNow env \<rparr>) (\<lambda>_.
               andThen (tripEventsIf env kind constraintId c activeFrom activeTo) (\<lambda>_.
               query (\<lambda>s. hd (readConstraint constraintId s))))))"

definition constraintDelete :: "mirror_row \<Rightarrow> delete_message" where
  "constraintDelete m =
     \<lparr> dm_canonical_event_id = em_canonical_event_id m, dm_target_account_id = em_target_account_id m,
       dm_target_calendar_id = Some (em_target_calendar_id m),
       dm_provider_event_id = nullish (em_provider_event_id m) [], dm_idempotency_key = None \<rparr>"

text \<open>One round of the loop over the derived events.\<close>

definition removeDerived :: "graph_env \<Rightarrow> string \<Rightarrow> string \<Rightarrow> string \<Rightarrow> unit graph_op" where
  "removeDerived env reason constraintId cid =
     andThen (query (mirrorsOf cid)) (\<lambda>mirrors.
     andThen (forEach mirrors (\<lambda>m. enqueueDeleteMirror env (constraintDelete m))) (\<lambda>_.
     andThen (removeEvent cid) (\<lambda>_.
     writeJournal env cid ''deleted'' ''system'' (constraintPatch reason constraintId) None)))"

definition derivedIds :: "string \<Rightarrow> user_graph \<Rightarrow> string list" where
  "derivedIds constraintId s =
     map ce_canonical_event_id (filter (\<lambda>r. ce_constraint_id r = Some constraintId) (canonical_events s))"

definition deleteConstraintRow :: "string \<Rightarrow> unit graph_op" where
  "deleteConstraintRow constraintId s =
     (if \<exists>r \<in> set (canonical_events s). ce_constraint_id r = Some constraintId
      then (Inl ForeignKeyViolation, s)
      else (Inr (), s\<lparr> constraints := deleteRows (\<lambda>c. cn_constraint_id c = constraintId) (constraints s) \<rparr>))"

definition deleteConstraint :: "graph_env \<Rightarrow> string \<Rightarrow> bool graph_op" where
  "deleteConstraint env constraintId =
     andThen (query (readConstraint constraintId)) (\<lambda>rows.
       if rows = [] then ret False
       else andThen (query (derivedIds constraintId)) (\<lambda>ids.
            andThen (forEach ids (removeDerived env ''constraint_deleted'' constraintId)) (\<lambda>_.
            andThen (deleteConstraintRow constraintId) (\<lambda>_. ret True))))"

definition listConstraints :: "string option \<Rightarrow> constraint_row list graph_op" where
  "listConstraints kind = query (\<lambda>s.
     sort_key cn_created_at (filter (\<lambda>c. whereTruthy kind (\<lambda>k. cn_kind c = k)) (constraints s)))"

definition getConstraint :: "string \<Rightarrow> constraint_row option graph_op" where
  "getConstraint constraintId = query (\<lambda>s.
     case readConstraint constraintId s of [] \<Rightarrow> None | c # _ \<Rightarrow> Some c)"

definition updateConstraint ::
  "graph_env \<Rightarrow> (string \<Rightarrow> bool) \<Rightarrow> string \<Rightarrow> json \<Rightarrow> string option \<Rightarrow> string option \<Rightarrow>
   constraint_row option graph_op" where
  "updateConstraint env tz constraintId c activeFrom activeTo =
     andThen (query (readConstraint constraintId)) (\<lambda>rows.
     case rows of
       [] \<Rightarrow> ret None
     | old # _ \<Rightarrow>
         (case validateConstraintConfig env tz (cn_kind old) c activeFrom activeTo of
            Some m \<Rightarrow> throw (Thrown m)
          | None \<Rightarrow>
              andThen (modify (\<lambda>s. s\<lparr> constraints := updateRows (\<lambda>r. cn_constraint_id r = constraintId)
                (\<lambda>r. r\<lparr> cn_config_json := c, cn_active_from := activeFrom, cn_active_to := activeTo \<rparr>)
                (constraints s) \<rparr>)) (\<lambda>_.
              andThen (if cn_kind old = ''trip''
                       then andThen (query (derivedIds constraintId)) (\<lambda>ids.
                            andThen (forEach ids (removeDerived env ''constraint_updated'' constraintId)) (\<lambda>_.
                            tripEventsIf env ''trip'' constraintId c activeFrom activeTo))
                       else ret ()) (\<lambda>_.
              query (\<lambda>s. Some (hd (readConstraint constraintId s)))))))"

section \<open>Well-formed tables and growing logs\<close>

lemma graph_ok_constraints:
  "graph_ok env s \<Longrightarrow> events_ok (s\<lparr> constraints := cs \<rparr>) \<Longrightarrow> graph_ok env (s\<lparr> constraints := cs \<rparr>)"
  by (simp add: graph_ok_parts)

lemma keeps_constraintRows [graph_keeps]:
  "keeps (graph_ok env) (insertConstraintRow c)" "keeps (graph_ok env) (deleteConstraintRow k)"
proof -
  show "keeps (graph_ok env) (insertConstraintRow c)"
  proof (rule keepsI)
    fix s assume ok: "graph_ok env s"
    then have "events_ok s" by (simp add: graph_ok_def)
    with ok show "graph_ok env (snd (insertConstraintRow c s))"
      by (auto simp: insertConstraintRow_def events_ok_def intro!: graph_ok_constraints [OF ok])
  qed
  show "keeps (graph_ok env) (deleteConstraintRow k)"
  proof (rule keepsI)
    fix s assume ok: "graph_ok env s"
    then have ev: "events_ok s" by (simp add: graph_ok_def)
    show "graph_ok env (snd (deleteConstraintRow k s))"
    proof (cases "\<exists>r \<in> set (canonical_events s). ce_constraint_id r = Some k")
      case False
      with ev have "events_ok (s\<lparr> constraints := deleteRows (\<lambda>c. cn_constraint_id c = k) (constraints s) \<rparr>)"
        by (fastforce simp: events_ok_def distinct_map_deleteRows)
      from graph_ok_constraints [OF ok this] False show ?thesis by (simp add: deleteConstraintRow_def)
    qed (simp add: deleteConstraintRow_def ok)
  qed
qed

lemma keeps_constraints [graph_keeps]:
  "keeps (graph_ok env) (tripEventsIf env kind k c f t)"
  "keeps (graph_ok env) (removeDerived env reason k cid)"
  "keeps (graph_ok env) (addConstraint env tz kind c f t)"
  "keeps (graph_ok env) (deleteConstraint env k)"
  "keeps (graph_ok env) (updateConstraint env tz k c f t)"
proof -
  show 1: "keeps (graph_ok env) (tripEventsIf env kind k c f t)" for kind k c f t
    unfolding tripEventsIf_def createTripDerivedEvents_def by (intro keeps_intro graph_keeps)
  show 2: "keeps (graph_ok env) (removeDerived env reason k cid)" for reason k cid
    unfolding removeDerived_def by (intro keeps_intro graph_keeps)
  show "keeps (graph_ok env) (addConstraint env tz kind c f t)"
    unfolding addConstraint_def by (intro keeps_intro graph_keeps 1)
  show "keeps (graph_ok env) (deleteConstraint env k)"
    unfolding deleteConstraint_def by (intro keeps_intro graph_keeps 2)
  have "keeps (graph_ok env) (modify (\<lambda>s. s\<lparr> constraints := updateRows (\<lambda>r. cn_constraint_id r = k)
      (\<lambda>r. r\<lparr> cn_config_json := c, cn_active_from := f, cn_active_to := t \<rparr>) (constraints s) \<rparr>))"
  proof (rule keeps_modify)
    fix s assume ok: "graph_ok env s"
    let ?cs = "updateRows (\<lambda>r. cn_constraint_id r = k)
      (\<lambda>r. r\<lparr> cn_config_json := c, cn_active_from := f, cn_active_to := t \<rparr>) (constraints s)"
    have ids: "map cn_constraint_id ?cs = map cn_constraint_id (constraints s)" by (rule map_updateRows) simp
    then have "cn_constraint_id ` set ?cs = cn_constraint_id ` set (constraints s)" by (metis list.set_map)
    with ids ok show "graph_ok env (s\<lparr> constraints := ?cs \<rparr>)"
      by (intro graph_ok_constraints [OF ok]) (simp add: graph_ok_def events_ok_def)
  qed
  then show "keeps (graph_ok env) (updateConstraint env tz k c f t)"
    unfolding updateConstraint_def by (intro keeps_intro graph_keeps 1 2)
qed

lemma stays_constraints [log_stays]:
  "stays appendOnly (addConstraint env tz kind c f t)" "stays appendOnly (deleteConstraint env k)"
  "stays appendOnly (updateConstraint env tz k c f t)" "stays appendOnly (removeDerived env reason k cid)"
proof -
  have rows: "stays appendOnly (insertConstraintRow r)" "stays appendOnly (deleteConstraintRow k)"
    "stays appendOnly (modify (\<lambda>s. s\<lparr> constraints := g s \<rparr>))" for r k g
    by (auto intro!: staysI simp: insertConstraintRow_def deleteConstraintRow_def log.same)
  have trip: "stays appendOnly (tripEventsIf env kind k c f t)" for kind k c f t
    unfolding tripEventsIf_def createTripDerivedEvents_def by (intro log_rules log_stays)
  have rm: "stays appendOnly (removeDerived env reason k cid)" for reason k cid
    unfolding removeDerived_def by (intro log_rules log_stays)
  show "stays appendOnly (addConstraint env tz kind c f t)" "stays appendOnly (deleteConstraint env k)"
    "stays appendOnly (updateConstraint env tz k c f t)" "stays appendOnly (removeDerived env reason k cid)"
    unfolding addConstraint_def deleteConstraint_def updateConstraint_def
    by (intro log_rules log_stays rows trip rm)+
qed

section \<open>What is stored is valid\<close>

lemma firstError_none: "firstError cs = None \<longleftrightarrow> (\<forall>c \<in> set cs. \<not> fst c)"
  by (induction cs rule: firstError.induct) auto

text \<open>The shapes the availability computation relies on.\<close>

definition workingHoursShape :: "(string \<Rightarrow> bool) \<Rightarrow> json \<Rightarrow> bool" where
  "workingHoursShape tz c \<longleftrightarrow>
     (\<exists>days st en zone. field c ''days'' = Some (JArr (map JNum days)) \<and> days \<noteq> [] \<and> distinct days \<and>
        set days \<subseteq> {0..6} \<and> strField c ''start_time'' = Some st \<and> strField c ''end_time'' = Some en \<and>
        isHHMM st \<and> isHHMM en \<and> st < en \<and> strField c ''timezone'' = Some zone \<and> tz zone)"

definition bufferShape :: "json \<Rightarrow> bool" where
  "bufferShape c \<longleftrightarrow>
     strField c ''type'' \<in> Some ` {''travel'', ''prep'', ''cooldown''} \<and>
     (\<exists>n > 0. field c ''minutes'' = Some (JNum n)) \<and> strField c ''applies_to'' \<in> Some ` {''all'', ''external''}"

lemma memberField_iff: "memberField c k vs \<longleftrightarrow> strField c k \<in> Some ` set vs"
  by (auto simp: memberField_def split: option.split)

lemma good_days:
  assumes "filter badDay days = []"
  shows "\<exists>ns. days = map JNum ns \<and> set ns \<subseteq> {0..6}"
  using assms
proof (induction days)
  case Nil
  then show ?case by simp
next
  case (Cons d days)
  then obtain ns where "days = map JNum ns" "set ns \<subseteq> {0..6}" by (auto split: if_splits)
  moreover from Cons.prems obtain n where "d = JNum n" "n \<in> {0..6}"
    by (cases d) (auto simp: badDay_def split: if_splits)
  ultimately show ?case by (intro exI [of _ "n # ns"]) simp
qed

lemma validateWorkingHours_shape:
  assumes "validateWorkingHoursConfig tz c = None"
  shows "workingHoursShape tz c"
proof -
  obtain d ds where days: "field c ''days'' = Some (JArr (d # ds))"
    using assms by (auto simp: validateWorkingHoursConfig_def split: option.splits json.splits list.splits)
  with assms have ok: "daysError (d # ds) = None"
    by (auto simp: validateWorkingHoursConfig_def split: option.splits)
  then have "filter badDay (d # ds) = []" "distinct (d # ds)"
    unfolding daysError_def by (auto split: list.splits if_splits)
  from good_days [OF this(1)] obtain ns where ns: "d # ds = map JNum ns" "set ns \<subseteq> {0..6}" by (elim exE conjE)
  with \<open>distinct (d # ds)\<close> have "distinct ns" "ns \<noteq> []" by (auto simp: distinct_map)
  moreover have "(case strField c ''start_time'' of Some t \<Rightarrow> isHHMM t | None \<Rightarrow> False)"
    "(case strField c ''end_time'' of Some t \<Rightarrow> isHHMM t | None \<Rightarrow> False)"
    "\<not> the (strField c ''end_time'') \<le> the (strField c ''start_time'')"
    "truthy (strField c ''timezone'')" "tz (the (strField c ''timezone''))"
    using assms by (simp_all add: validateWorkingHoursConfig_def days ok firstError_none Let_def del: firstError.simps)
  ultimately show ?thesis
    using ns days unfolding workingHoursShape_def
    by (cases "strField c ''start_time''"; cases "strField c ''end_time''"; cases "strField c ''timezone''")
       (auto simp: not_le)
qed

lemma validateBuffer_shape: "validateBufferConfig c = None \<longleftrightarrow> bufferShape c"
  by (auto simp: validateBufferConfig_def firstError_none memberField_iff bufferShape_def
      split: option.splits json.splits)

lemma addConstraint_cases:
  assumes ok: "graph_ok env s" and ids: "inj (ulid env)"
  obtains m where "addConstraint env tz kind c f t s = (Inl (Thrown m), s)"
    "kind \<notin> set VALID_CONSTRAINT_KINDS \<or> validateConstraintConfig env tz kind c f t = Some m"
  | "kind \<in> set VALID_CONSTRAINT_KINDS" "validateConstraintConfig env tz kind c f t = None"
proof (cases "kind \<in> set VALID_CONSTRAINT_KINDS")
  case False
  then show thesis using that(1) by (simp add: addConstraint_def throw_run)
next
  case True
  show thesis
  proof (cases "validateConstraintConfig env tz kind c f t")
    case None
    with True that(2) show thesis by blast
  next
    case (Some m)
    with True that(1) [of m] show thesis by (simp add: addConstraint_def throw_run)
  qed
qed

section \<open>Deleting removes what was derived\<close>

lemma deleteMirrors_delivered:
  assumes "\<forall>k. \<not> send_fails env k"
  shows "forEach ms (\<lambda>m. enqueueDeleteMirror env (f m)) s =
    (Inr (), delivered env (map (\<lambda>m. DELETE_MIRROR (f m)) ms) s)"
proof (induction ms arbitrary: s)
  case Nil
  then show ?case by (simp add: delivered_def ret_run)
next
  case (Cons m ms)
  have "enqueueDeleteMirror env (f m) s = (Inr (), delivered env [DELETE_MIRROR (f m)] s)"
    using assms by (simp add: enqueueDeleteMirror_def sendDelete_def sendWrite_def delivered_def)
  with Cons show ?case by (simp add: andThen_def delivered_def)
qed

lemma removeDerived_run:
  assumes ok: "graph_ok env s" and ids: "inj (ulid env)" and up: "\<forall>k. \<not> send_fails env k"
    and here: "cid \<in> eventIds s" and free: "cid \<notin> ta_canonical_event_id ` set (time_allocations s)"
  shows "removeDerived env reason k cid s =
    (Inr (), (withoutEvent cid (delivered env (map (\<lambda>m. DELETE_MIRROR (constraintDelete m)) (mirrorsOf cid s)) s))
       \<lparr> id_seq := id_seq s + 1,
          event_journal := event_journal s @
            [journalEntry env (id_seq s) cid ''deleted'' ''system'' (constraintPatch reason k)] \<rparr>)"
proof -
  let ?u = "delivered env (map (\<lambda>m. DELETE_MIRROR (constraintDelete m)) (mirrorsOf cid s)) s"
  have rm: "removeEvent cid ?u = (Inr (), withoutEvent cid ?u)"
    by (rule removeEvent_run) (use here free in \<open>simp_all add: eventIds_def\<close>)
  have "graph_ok env (withoutEvent cid ?u)"
    by (rule graph_ok_withoutEvent) (use ok free in simp_all)
  from writeJournal_run [OF this ids] rm show ?thesis
    by (simp add: removeDerived_def andThen_def deleteMirrors_delivered [OF up] withoutEvent_def)
qed

lemma removeDerived_loop:
  assumes ids: "inj (ulid env)" and up: "\<forall>k. \<not> send_fails env k"
  shows "graph_ok env s \<Longrightarrow> set cids \<subseteq> eventIds s \<Longrightarrow> distinct cids \<Longrightarrow>
    set cids \<inter> ta_canonical_event_id ` set (time_allocations s) = {} \<Longrightarrow>
    \<exists>t. forEach cids (removeDerived env reason k) s = (Inr (), t) \<and> graph_ok env t \<and>
        canonical_events t = deleteRows (\<lambda>r. ce_canonical_event_id r \<in> set cids) (canonical_events s) \<and>
        event_mirrors t = deleteRows (\<lambda>m. em_canonical_event_id m \<in> set cids) (event_mirrors s) \<and>
        constraints t = constraints s \<and> time_allocations t = time_allocations s \<and>
        appendOnly s t \<and>
        set (sentBetween s t) = (\<lambda>m. DELETE_MIRROR (constraintDelete m)) `
          {m \<in> set (event_mirrors s). em_canonical_event_id m \<in> set cids}"
proof (induction cids arbitrary: s)
  case Nil
  then show ?case by (simp add: ret_run deleteRows_def log.same)
next
  case (Cons cid cids)
  let ?msgs = "map (\<lambda>m. DELETE_MIRROR (constraintDelete m)) (mirrorsOf cid s)"
  obtain u where u: "removeDerived env reason k cid s = (Inr (), u)" and
    tables: "canonical_events u = deleteRows (\<lambda>r. ce_canonical_event_id r = cid) (canonical_events s)"
      "event_mirrors u = deleteRows (\<lambda>m. em_canonical_event_id m = cid) (event_mirrors s)"
      "constraints u = constraints s" "time_allocations u = time_allocations s" "sentBetween s u = ?msgs"
    using removeDerived_run [OF Cons.prems(1) ids up, of cid reason k] Cons.prems(2,4)
    by (simp add: withoutEvent_def delivered_def sentBetween_def)
  have ok: "graph_ok env u" using keepsD [OF keeps_constraints(2) Cons.prems(1), of reason k cid] u by simp
  have app: "appendOnly s u" using staysD [OF stays_constraints(4), of s env reason k cid] u by simp
  have "eventIds u = eventIds s - {cid}" by (auto simp: eventIds_def tables(1))
  with Cons.prems(2,3) have in': "set cids \<subseteq> eventIds u" by auto
  have "distinct cids" "set cids \<inter> ta_canonical_event_id ` set (time_allocations u) = {}"
    using Cons.prems(3,4) tables(4) by auto
  from Cons.IH [OF ok in' this] obtain t where t:
    "forEach cids (removeDerived env reason k) u = (Inr (), t)" "graph_ok env t"
    "canonical_events t = deleteRows (\<lambda>r. ce_canonical_event_id r \<in> set cids) (canonical_events u)"
    "event_mirrors t = deleteRows (\<lambda>m. em_canonical_event_id m \<in> set cids) (event_mirrors u)"
    "constraints t = constraints u" "time_allocations t = time_allocations u" "appendOnly u t"
    "set (sentBetween u t) = (\<lambda>m. DELETE_MIRROR (constraintDelete m)) `
       {m \<in> set (event_mirrors u). em_canonical_event_id m \<in> set cids}" by blast
  have "set (sentBetween s t) = (\<lambda>m. DELETE_MIRROR (constraintDelete m)) `
      ({m \<in> set (event_mirrors s). em_canonical_event_id m = cid} \<union>
       {m \<in> set (event_mirrors u). em_canonical_event_id m \<in> set cids})"
    using sentBetween_trans(1) [OF app t(7)] t(8) tables(5) by (auto simp: mirrorsOf_def)
  moreover have "{m \<in> set (event_mirrors s). em_canonical_event_id m = cid} \<union>
       {m \<in> set (event_mirrors u). em_canonical_event_id m \<in> set cids} =
       {m \<in> set (event_mirrors s). em_canonical_event_id m \<in> set (cid # cids)}"
    using Cons.prems(3) by (auto simp: tables(2))
  moreover have "canonical_events t = deleteRows (\<lambda>r. ce_canonical_event_id r \<in> set (cid # cids)) (canonical_events s)"
    "event_mirrors t = deleteRows (\<lambda>m. em_canonical_event_id m \<in> set (cid # cids)) (event_mirrors s)"
    using t(3,4) tables(1,2) by (auto simp: deleteRows_def intro: filter_cong)
  moreover have "forEach (cid # cids) (removeDerived env reason k) s = (Inr (), t)"
    using u t(1) by (simp add: andThen_def)
  ultimately show ?case using t(2,5,6) tables(3,4) log.chain [OF app t(7)] by simp
qed

lemma deleteConstraint_gone:
  assumes ok: "graph_ok env s" and ids: "inj (ulid env)" and up: "\<forall>k. \<not> send_fails env k"
    and row: "k \<in> cn_constraint_id ` set (constraints s)"
    and free: "set (derivedIds k s) \<inter> ta_canonical_event_id ` set (time_allocations s) = {}"
  shows "\<exists>t. deleteConstraint env k s = (Inr True, t) \<and> graph_ok env t \<and>
    k \<notin> cn_constraint_id ` set (constraints t) \<and> derivedIds k t = [] \<and>
    canonical_events t = deleteRows (\<lambda>r. ce_constraint_id r = Some k) (canonical_events s) \<and>
    set (sentBetween s t) = (\<lambda>m. DELETE_MIRROR (constraintDelete m)) `
      {m \<in> set (event_mirrors s). em_canonical_event_id m \<in> set (derivedIds k s)}"
proof -
  have "set (derivedIds k s) \<subseteq> eventIds s" by (auto simp: derivedIds_def eventIds_def)
  moreover have "distinct (derivedIds k s)"
    using ok_events_distinct [OF ok] by (simp add: derivedIds_def distinct_map_filter)
  ultimately obtain t where t: "forEach (derivedIds k s) (removeDerived env ''constraint_deleted'' k) s = (Inr (), t)"
    "canonical_events t = deleteRows (\<lambda>r. ce_canonical_event_id r \<in> set (derivedIds k s)) (canonical_events s)"
    "constraints t = constraints s"
    "set (sentBetween s t) = (\<lambda>m. DELETE_MIRROR (constraintDelete m)) `
      {m \<in> set (event_mirrors s). em_canonical_event_id m \<in> set (derivedIds k s)}"
    using removeDerived_loop [OF ids up ok _ _ free] by blast
  have same: "ce_canonical_event_id r \<in> set (derivedIds k s) \<longleftrightarrow> ce_constraint_id r = Some k"
    if "r \<in> set (canonical_events s)" for r
    using that distinct_key_eq [OF ok_events_distinct [OF ok]] by (auto simp: derivedIds_def)
  have events: "canonical_events t = deleteRows (\<lambda>r. ce_constraint_id r = Some k) (canonical_events s)"
    unfolding t(2) deleteRows_def by (rule filter_cong) (auto simp: same)
  have "readConstraint k s \<noteq> []" using row by (auto simp: readConstraint_def filter_empty_conv)
  then have run: "deleteConstraint env k s =
      (Inr True, t\<lparr> constraints := deleteRows (\<lambda>c. cn_constraint_id c = k) (constraints t) \<rparr>)"
    using events by (simp add: deleteConstraint_def andThen_def t(1) deleteConstraintRow_def ret_run)
  show ?thesis
    by (rule exI, intro conjI, rule run)
       (use keepsD [OF keeps_constraints(4) ok, of k] t(4) run in
         \<open>auto simp: events derivedIds_def deleteRows_def filter_empty_conv sentBetween_def\<close>)
qed

end
