(* ===== verification/Intervals.thy ===== *)
theory Intervals
  imports Main
begin

text \<open>
  Merging intervals and taking the gaps between them. \<^verbatim>\<open>mergeIntervals\<close> and
  \<^verbatim>\<open>computeFreeIntervals\<close> do it on busy times kept as timestamps, and
  \<^verbatim>\<open>expandWorkingHoursToOutsideBusy\<close> does it again on milliseconds: the same two loops over
  different end points. The loops are the two functions here, with the access to an interval as
  arguments; the locale proves once that the merged intervals cover what the given ones covered
  and that the gaps cover the rest of the range.
\<close>

section \<open>The loops\<close>

text \<open>
  The loop of a merge over the intervals sorted by start: \<open>absorb\<close> extends the current interval by one that
  begins before it ends.
\<close>

fun sweep :: "('i \<Rightarrow> 'k::linorder) \<Rightarrow> ('i \<Rightarrow> 'k) \<Rightarrow> ('i \<Rightarrow> 'i \<Rightarrow> 'i) \<Rightarrow> 'i \<Rightarrow> 'i list \<Rightarrow> 'i list" where
  "sweep lo hi absorb current [] = [current]"
| "sweep lo hi absorb current (next # rest) =
     (if lo next \<le> hi current then sweep lo hi absorb (absorb current next) rest
      else current # sweep lo hi absorb next rest)"

definition mergeBy :: "('i \<Rightarrow> 'k::linorder) \<Rightarrow> ('i \<Rightarrow> 'k) \<Rightarrow> ('i \<Rightarrow> 'i \<Rightarrow> 'i) \<Rightarrow> 'i list \<Rightarrow> 'i list" where
  "mergeBy lo hi absorb ivs =
     (case ivs of [] \<Rightarrow> [] | current # rest \<Rightarrow> sweep lo hi absorb current rest)"

text \<open>
  The loop that collects gaps: a cursor moves over the intervals, \<open>key\<close> is what end points
  are compared by, \<open>gap\<close> builds the interval between the cursor and the next start.
\<close>

fun gapsFrom ::
  "('c \<Rightarrow> 'k::linorder) \<Rightarrow> ('i \<Rightarrow> 'c) \<Rightarrow> ('i \<Rightarrow> 'c) \<Rightarrow> ('c \<Rightarrow> 'c \<Rightarrow> 'g) \<Rightarrow> 'c \<Rightarrow> 'c \<Rightarrow> 'i list \<Rightarrow> 'g list" where
  "gapsFrom key start finish gap rangeEnd cursor [] =
     (if key cursor < key rangeEnd then [gap cursor rangeEnd] else [])"
| "gapsFrom key start finish gap rangeEnd cursor (iv # rest) =
     (if key (start iv) > key cursor then [gap cursor (start iv)] else []) @
     gapsFrom key start finish gap rangeEnd (if key (finish iv) > key cursor then finish iv else cursor) rest"

section \<open>What they cover\<close>

definition covers :: "('i \<Rightarrow> 'k::linorder) \<Rightarrow> ('i \<Rightarrow> 'k) \<Rightarrow> 'i list \<Rightarrow> 'k \<Rightarrow> bool" where
  "covers lo hi ivs t \<longleftrightarrow> (\<exists>iv \<in> set ivs. lo iv \<le> t \<and> t < hi iv)"

lemma covers_Nil [simp]: "\<not> covers lo hi [] t"
  by (simp add: covers_def)

lemma covers_Cons [simp]: "covers lo hi (iv # ivs) t \<longleftrightarrow> lo iv \<le> t \<and> t < hi iv \<or> covers lo hi ivs t"
  by (auto simp: covers_def)

lemma covers_append [simp]: "covers lo hi (xs @ ys) t \<longleftrightarrow> covers lo hi xs t \<or> covers lo hi ys t"
  by (auto simp: covers_def)

lemma covers_set: "set xs = set ys \<Longrightarrow> covers lo hi xs t = covers lo hi ys t"
  by (simp add: covers_def)

text \<open>Merged intervals: each ends before the next begins.\<close>

definition separated :: "('i \<Rightarrow> 'k::linorder) \<Rightarrow> ('i \<Rightarrow> 'k) \<Rightarrow> 'i list \<Rightarrow> bool" where
  "separated lo hi ivs \<longleftrightarrow> sorted_wrt (\<lambda>a b. hi a < lo b) ivs"

locale interval_kind =
  fixes key :: "'c \<Rightarrow> 'k::linorder"
    and start finish :: "'i \<Rightarrow> 'c"
    and absorb :: "'i \<Rightarrow> 'i \<Rightarrow> 'i"
    and gap :: "'c \<Rightarrow> 'c \<Rightarrow> 'g"
    and gap_start gap_finish :: "'g \<Rightarrow> 'c"
  assumes absorb_start: "start (absorb a b) = start a"
    and absorb_finish: "key (start b) \<le> key (finish a) \<Longrightarrow>
          key (finish (absorb a b)) = max (key (finish a)) (key (finish b))"
    and gap_ends: "gap_start (gap x y) = x" "gap_finish (gap x y) = y"
begin

definition lo :: "'i \<Rightarrow> 'k" where "lo iv = key (start iv)"

definition hi :: "'i \<Rightarrow> 'k" where "hi iv = key (finish iv)"

lemma lo_absorb: "lo (absorb a b) = lo a"
  by (simp add: lo_def absorb_start)

lemma hi_absorb: "lo b \<le> hi a \<Longrightarrow> hi (absorb a b) = max (hi a) (hi b)"
  by (simp add: lo_def hi_def absorb_finish)

lemma sweep_covers:
  "sorted (map lo (current # rest)) \<Longrightarrow>
   covers lo hi (sweep lo hi absorb current rest) t = covers lo hi (current # rest) t"
proof (induction rest arbitrary: current)
  case (Cons n rest)
  show ?case
  proof (cases "lo n \<le> hi current")
    case True
    from Cons.prems have ord: "lo current \<le> lo n" by simp
    from Cons.prems have "sorted (map lo (absorb current n # rest))" by (simp add: lo_absorb)
    from Cons.IH [OF this] True ord show ?thesis
      by (auto simp: lo_absorb hi_absorb less_max_iff_disj)
  qed (use Cons in simp)
qed simp

lemma sweep_starts:
  "sorted (map lo (current # rest)) \<Longrightarrow> iv \<in> set (sweep lo hi absorb current rest) \<Longrightarrow> lo current \<le> lo iv"
proof (induction rest arbitrary: current)
  case (Cons n rest)
  show ?case
  proof (cases "lo n \<le> hi current")
    case True
    from Cons.prems have "sorted (map lo (absorb current n # rest))" by (simp add: lo_absorb)
    from Cons.IH [OF this] Cons.prems True show ?thesis by (simp add: lo_absorb)
  next
    case False
    with Cons show ?thesis by fastforce
  qed
qed simp

lemma sweep_separated:
  "sorted (map lo (current # rest)) \<Longrightarrow> separated lo hi (sweep lo hi absorb current rest)"
proof (induction rest arbitrary: current)
  case (Cons n rest)
  show ?case
  proof (cases "lo n \<le> hi current")
    case True
    from Cons.prems have "sorted (map lo (absorb current n # rest))" by (simp add: lo_absorb)
    from Cons.IH [OF this] True show ?thesis by simp
  next
    case False
    from Cons.prems have s: "sorted (map lo (n # rest))" by simp
    have "hi current < lo iv" if "iv \<in> set (sweep lo hi absorb n rest)" for iv
      using sweep_starts [OF s that] False by simp
    with Cons.IH [OF s] False show ?thesis by (simp add: separated_def)
  qed
qed (simp add: separated_def)

lemma sweep_sorted:
  "sorted (map lo (current # rest)) \<Longrightarrow> sorted (map lo (sweep lo hi absorb current rest))"
proof (induction rest arbitrary: current)
  case (Cons n rest)
  show ?case
  proof (cases "lo n \<le> hi current")
    case True
    from Cons.prems have "sorted (map lo (absorb current n # rest))" by (simp add: lo_absorb)
    from Cons.IH [OF this] True show ?thesis by simp
  next
    case False
    from Cons.prems have s: "sorted (map lo (n # rest))" "lo current \<le> lo n" by simp_all
    with sweep_starts [OF s(1)] have "\<forall>iv \<in> set (sweep lo hi absorb n rest). lo current \<le> lo iv" by force
    with Cons.IH [OF s(1)] False show ?thesis by simp
  qed
qed simp

theorem mergeBy_correct:
  assumes "sorted (map lo ivs)"
  shows "covers lo hi (mergeBy lo hi absorb ivs) t = covers lo hi ivs t"
    and "separated lo hi (mergeBy lo hi absorb ivs)"
    and "sorted (map lo (mergeBy lo hi absorb ivs))"
proof -
  show "covers lo hi (mergeBy lo hi absorb ivs) t = covers lo hi ivs t"
    using assms by (cases ivs) (simp_all only: mergeBy_def list.case sweep_covers)
  show "separated lo hi (mergeBy lo hi absorb ivs)"
    using assms by (cases ivs) (simp_all only: mergeBy_def list.case sweep_separated, simp add: separated_def)
  show "sorted (map lo (mergeBy lo hi absorb ivs))"
    using assms by (cases ivs) (simp_all only: mergeBy_def list.case sweep_sorted)
qed

definition gap_lo :: "'g \<Rightarrow> 'k" where "gap_lo g = key (gap_start g)"

definition gap_hi :: "'g \<Rightarrow> 'k" where "gap_hi g = key (gap_finish g)"

lemma gap_simps [simp]: "gap_lo (gap x y) = key x" "gap_hi (gap x y) = key y"
  by (simp_all add: gap_lo_def gap_hi_def gap_ends)

theorem gapsFrom_complement:
  "sorted (map lo ivs) \<Longrightarrow> key cursor \<le> t \<Longrightarrow> t < key rangeEnd \<Longrightarrow>
   covers gap_lo gap_hi (gapsFrom key start finish gap rangeEnd cursor ivs) t \<longleftrightarrow> \<not> covers lo hi ivs t"
proof (induction ivs arbitrary: cursor)
  case (Cons iv ivs)
  let ?cursor = "if key (finish iv) > key cursor then finish iv else cursor"
  have later: "\<forall>j \<in> set ivs. lo iv \<le> lo j" and sorted: "sorted (map lo ivs)" using Cons.prems by simp_all
  have none: "\<not> covers gap_lo gap_hi (gapsFrom key start finish gap rangeEnd c js) t" if "t < key c" for c js
    using that by (induction js arbitrary: c) (auto simp: not_le split: if_splits)
  consider (before) "t < lo iv" | (inside) "lo iv \<le> t" "t < hi iv" | (after) "lo iv \<le> t" "hi iv \<le> t" by force
  then show ?case
  proof cases
    case before
    with later have "\<not> covers lo hi (iv # ivs) t" by (auto simp: covers_def dest: order.strict_trans2)
    moreover from before Cons.prems have "key cursor < key (start iv)" by (simp add: lo_def)
    moreover from this have "covers gap_lo gap_hi (gapsFrom key start finish gap rangeEnd cursor (iv # ivs)) t"
      using before Cons.prems(2) by (simp add: lo_def)
    ultimately show ?thesis by blast
  next
    case inside
    from Cons.prems(2) inside(2) have "key cursor < key (finish iv)" by (simp add: hi_def)
    with inside have "t < key ?cursor" by (simp add: hi_def)
    from none [OF this] inside show ?thesis by (auto simp: lo_def hi_def)
  next
    case after
    then have "key ?cursor \<le> t" using Cons.prems by (simp add: hi_def)
    from Cons.IH [OF sorted this Cons.prems(3)] after show ?thesis by (auto simp: lo_def hi_def)
  qed
qed auto

theorem gapsFrom_nonempty:
  "g \<in> set (gapsFrom key start finish gap rangeEnd cursor ivs) \<Longrightarrow> gap_lo g < gap_hi g"
  by (induction ivs arbitrary: cursor) (auto split: if_splits)

end

end
