(* ===== verification/Milestones.thy ===== *)
theory Milestones
  imports JS_Text Timestamp_Laws "HOL-Library.Product_Lexorder"
begin

text \<open>
  \<^verbatim>\<open>packages/shared/src/milestones.ts\<close>: the vocabulary of milestones, the test of a milestone date, the next
  occurrence of an annual one (29 February falls on the 28th of a year without it) and the busy
  days milestones put into a range. The functions are called with dates that passed the test and
  with \<^verbatim>\<open>toISOString\<close> prefixes; a number that is not one (NaN) counts as 0 in the model.
\<close>

section \<open>Vocabulary and validation\<close>

definition MILESTONE_KINDS :: "string list" where
  "MILESTONE_KINDS = [''birthday'', ''anniversary'', ''graduation'', ''funding'', ''relocation'', ''custom'']"

definition isValidMilestoneKind :: "string \<Rightarrow> bool" where
  "isValidMilestoneKind v = List.member MILESTONE_KINDS v"

text \<open>The regular expression \<^verbatim>\<open>^(\\d{4})-(\\d{2})-(\\d{2})$\<close> with its three groups.\<close>

definition matchDate :: "string \<Rightarrow> (nat \<times> nat \<times> nat) option" where
  "matchDate s =
     (case readDigits 4 s of
        Some (y, CHR ''-'' # r) \<Rightarrow>
          (case readDigits 2 r of
             Some (m, CHR ''-'' # q) \<Rightarrow>
               (case readDigits 2 q of Some (d, []) \<Rightarrow> Some (y, m, d) | _ \<Rightarrow> None)
           | _ \<Rightarrow> None)
      | _ \<Rightarrow> None)"

text \<open>
  \<^verbatim>\<open>new Date(year, month - 1, day)\<close> rolls over days the month does not have; reading the fields back
  tells whether it did.
\<close>

definition isValidMilestoneDate :: "string \<Rightarrow> bool" where
  "isValidMilestoneDate s =
     (case matchDate s of
        None \<Rightarrow> False
      | Some (y, m, d) \<Rightarrow>
          1900 \<le> y \<and> y \<le> 2200 \<and> 1 \<le> m \<and> m \<le> 12 \<and> 1 \<le> d \<and> d \<le> 31 \<and>
          civilFromDay (dayFromCivil (int y) (int m) (int d)) = (int y, int m, int d))"

section \<open>Recurrence\<close>

definition isLeapYear :: "int \<Rightarrow> bool" where
  "isLeapYear y \<longleftrightarrow> y mod 4 = 0 \<and> y mod 100 \<noteq> 0 \<or> y mod 400 = 0"

definition resolveLeapDay :: "int \<Rightarrow> int \<times> int \<Rightarrow> int \<times> int" where
  "resolveLeapDay y md = (if md = (2, 29) \<and> \<not> isLeapYear y then (2, 28) else md)"

definition formatDate :: "int \<Rightarrow> int \<times> int \<Rightarrow> string" where
  "formatDate y md = showInt y @ ''-'' @ pad2 (nat (fst md)) @ ''-'' @ pad2 (nat (snd md))"

definition sliceInt :: "nat \<Rightarrow> nat \<Rightarrow> string \<Rightarrow> int" where
  "sliceInt a b s = nullish (parseInt10 (slice a b s)) 0"

definition monthDay :: "string \<Rightarrow> int \<times> int" where
  "monthDay s = (sliceInt 5 7 s, sliceInt 8 10 s)"

definition nextYear :: "int \<Rightarrow> int \<times> int \<Rightarrow> int \<times> int \<Rightarrow> int" where
  "nextYear refYear refMd md =
     (let occ = resolveLeapDay refYear md in
      if fst occ < fst refMd \<or> fst occ = fst refMd \<and> snd occ < snd refMd then refYear + 1 else refYear)"

definition computeNextOccurrence :: "string \<Rightarrow> string \<Rightarrow> bool \<Rightarrow> string" where
  "computeNextOccurrence date' refDate recurs =
     (if \<not> recurs then date'
      else let y = nextYear (sliceInt 0 4 refDate) (monthDay refDate) (monthDay date') in
           formatDate y (resolveLeapDay y (monthDay date')))"

text \<open>\<^verbatim>\<open>Math.round\<close> of a quotient is the floor of it plus a half.\<close>

definition daysBetween :: "(string \<Rightarrow> int option) \<Rightarrow> string \<Rightarrow> string \<Rightarrow> int option" where
  "daysBetween legacy refDate targetDate =
     (case (dateParse legacy (refDate @ ''T00:00:00Z''), dateParse legacy (targetDate @ ''T00:00:00Z'')) of
        (Some a, Some b) \<Rightarrow> Some ((2 * (b - a) + msPerDay) div (2 * msPerDay))
      | _ \<Rightarrow> None)"

section \<open>Busy days\<close>

definition makeDayInterval :: "string \<Rightarrow> string \<times> string" where
  "makeDayInterval d = (d @ ''T00:00:00Z'', d @ ''T23:59:59Z'')"

definition yearsBetween :: "int \<Rightarrow> int \<Rightarrow> int list" where
  "yearsBetween a b = map (\<lambda>i. a + int i) [0..<nat (b - a + 1)]"

definition milestoneDays :: "string \<Rightarrow> string \<Rightarrow> string \<times> bool \<Rightarrow> string list" where
  "milestoneDays startDate endDate ms =
     (case ms of (date', recurs) \<Rightarrow>
        filter (\<lambda>d. startDate \<le> d \<and> d \<le> endDate)
          (if \<not> recurs then [date']
           else map (\<lambda>y. formatDate y (resolveLeapDay y (monthDay date')))
                  (yearsBetween (sliceInt 0 4 startDate) (sliceInt 0 4 endDate))))"

definition expandMilestonesToBusy :: "(string \<times> bool) list \<Rightarrow> string \<Rightarrow> string \<Rightarrow> (string \<times> string) list" where
  "expandMilestonesToBusy milestones rangeStart rangeEnd =
     concat (map (\<lambda>ms. map makeDayInterval (milestoneDays (slice 0 10 rangeStart) (slice 0 10 rangeEnd) ms))
       milestones)"

section \<open>The next occurrence is the first on or after the reference date\<close>

definition occurrence :: "int \<times> int \<Rightarrow> int \<Rightarrow> int \<times> int \<times> int" where
  "occurrence md y = (y, resolveLeapDay y md)"

lemma nextYear_after: "(refYear, refMd) \<le> occurrence md (nextYear refYear refMd md)"
proof -
  obtain a b where r: "refMd = (a, b)" by force
  obtain c d where oc: "resolveLeapDay refYear md = (c, d)" by force
  show ?thesis by (auto simp: nextYear_def occurrence_def r oc)
qed

lemma nextYear_first:
  assumes "(refYear, refMd) \<le> occurrence md y"
  shows "nextYear refYear refMd md \<le> y"
proof -
  obtain a b where r: "refMd = (a, b)" by force
  obtain c d where oc: "resolveLeapDay refYear md = (c, d)" by force
  from assms have "refYear \<le> y" by (auto simp: occurrence_def)
  then consider "y = refYear" | "refYear + 1 \<le> y" by linarith
  then show ?thesis
  proof cases
    case 1
    with assms oc have "refMd \<le> (c, d)" by (simp add: occurrence_def)
    with 1 r oc show ?thesis by (auto simp: nextYear_def)
  next
    case 2
    then show ?thesis by (simp add: nextYear_def Let_def)
  qed
qed

lemma isLeapYear_calendar: "isLeapYear y = leapYear y"
proof -
  have "y mod 4 = 0" if "y mod 400 = 0" using that by presburger
  then show ?thesis by (auto simp: isLeapYear_def leapYear_def)
qed

lemma resolveLeapDay_real:
  assumes "1 \<le> d" and "d \<le> daysInMonth y0 m" and "1 \<le> m" and "m \<le> 12"
  shows "snd (resolveLeapDay y (m, d)) \<le> daysInMonth y m" and "1 \<le> snd (resolveLeapDay y (m, d))"
  using assms by (auto simp: resolveLeapDay_def isLeapYear_calendar daysInMonth_def daysBeforeMonth_def Let_def
      split: if_splits)

end
