(* ===== verification/Availability.thy ===== *)
theory Availability
  imports Graph_Constraints Intervals Milestones
begin

text \<open>
  Free and busy times: \<^verbatim>\<open>computeAvailability\<close> and the pure functions it composes, \<^verbatim>\<open>mergeIntervals\<close>,
  \<^verbatim>\<open>computeFreeIntervals\<close>, and the expansion of each kind of constraint into busy intervals.

  Two things come from the engine. \<open>local\<close> is what \<^verbatim>\<open>Intl.DateTimeFormat\<close> shows: the local time of an
  instant in a zone, in minutes since the epoch, so that the local day is the quotient by 1440 and
  the local clock the remainder. \<open>collate\<close> is the order of \<^verbatim>\<open>localeCompare\<close>, as a sort key. A local date that the
  code formats and parses again is its day number in the model. A configuration is one that the validators let
  through, so a clock time has the form HH:MM. A date that does not parse is \<^const>\<open>None\<close>, NaN in the code.
\<close>

section \<open>Merging and gaps\<close>

record busy_interval =
  bi_start :: string
  bi_end :: string
  bi_account_ids :: "string list"

record free_interval =
  fi_start :: string
  fi_end :: string

definition normalizeForComparison :: "string \<Rightarrow> string" where
  "normalizeForComparison ts = (if length ts = 10 then ts @ ''T00:00:00Z'' else ts)"

definition addAccounts :: "string list \<Rightarrow> string list \<Rightarrow> string list" where
  "addAccounts ids more' = foldl (\<lambda>a i. if i \<in> set a then a else a @ [i]) ids more'"

definition absorbBusy :: "busy_interval \<Rightarrow> busy_interval \<Rightarrow> busy_interval" where
  "absorbBusy current next =
     current\<lparr> bi_end := (if normalizeForComparison (bi_end next) > normalizeForComparison (bi_end current)
                         then bi_end next else bi_end current),
              bi_account_ids := addAccounts (bi_account_ids current) (bi_account_ids next) \<rparr>"

abbreviation busyLo :: "busy_interval \<Rightarrow> string" where
  "busyLo iv \<equiv> normalizeForComparison (bi_start iv)"

abbreviation busyHi :: "busy_interval \<Rightarrow> string" where
  "busyHi iv \<equiv> normalizeForComparison (bi_end iv)"

definition mergeIntervals :: "(string \<Rightarrow> string) \<Rightarrow> busy_interval list \<Rightarrow> busy_interval list" where
  "mergeIntervals collate intervals =
     mergeBy busyLo busyHi absorbBusy (sort_key (\<lambda>iv. collate (busyLo iv)) intervals)"

definition freeInterval :: "string \<Rightarrow> string \<Rightarrow> free_interval" where
  "freeInterval a b = \<lparr> fi_start = a, fi_end = b \<rparr>"

definition computeFreeIntervals :: "busy_interval list \<Rightarrow> string \<Rightarrow> string \<Rightarrow> free_interval list" where
  "computeFreeIntervals busy rangeStart rangeEnd =
     gapsFrom normalizeForComparison bi_start bi_end freeInterval rangeEnd rangeStart busy"

section \<open>Local time\<close>

type_synonym local_time = "string \<Rightarrow> int \<Rightarrow> int"

definition localDay :: "local_time \<Rightarrow> string \<Rightarrow> int \<Rightarrow> int" where
  "localDay local timezone ms = local timezone ms div 1440"

text \<open>1 January 1970 was a Thursday, day 4 of the week.\<close>

definition getDayOfWeekInTimezone :: "local_time \<Rightarrow> int \<Rightarrow> string \<Rightarrow> int" where
  "getDayOfWeekInTimezone local ms timezone = (localDay local timezone ms + 4) mod 7"

definition getLocalTimeParts :: "local_time \<Rightarrow> int \<Rightarrow> string \<Rightarrow> int \<times> int" where
  "getLocalTimeParts local ms timezone = (localDay local timezone ms, local timezone ms mod 1440)"

definition getTimestampForTimeInTimezone :: "local_time \<Rightarrow> int \<Rightarrow> string \<Rightarrow> string \<Rightarrow> int" where
  "getTimestampForTimeInTimezone local baseDate time timezone =
     (let dateParts = localDay local timezone baseDate;
          target = int (clockMinutes time);
          utcGuess = dateParts * msPerDay + target * 60000;
          (localDate, actual) = getLocalTimeParts local utcGuess timezone;
          diffMs = (target - actual) * 60000
      in if localDate \<noteq> dateParts then utcGuess + diffMs + (dateParts * msPerDay - localDate * msPerDay)
         else utcGuess + diffMs)"

text \<open>The days a scan visits: \<^verbatim>\<open>while (dayStart < scanEnd) { ...; dayStart += oneDayMs }\<close>.\<close>

function dayStarts :: "int \<Rightarrow> int \<Rightarrow> int list" where
  "dayStarts d scanEnd = (if d < scanEnd then d # dayStarts (d + msPerDay) scanEnd else [])"
  by auto
termination by (relation "measure (\<lambda>(d, e). nat (e - d))") (auto simp: msPerDay_def)

declare dayStarts.simps [simp del]

definition scanDays :: "int \<Rightarrow> int \<Rightarrow> int list" where
  "scanDays rangeStart rangeEnd = dayStarts (rangeStart - msPerDay) (rangeEnd + msPerDay)"

section \<open>Working hours\<close>

record working_hours_config =
  wh_days :: "int list"
  wh_start_time :: string
  wh_end_time :: string
  wh_timezone :: string

definition numbers :: "json option \<Rightarrow> int list" where
  "numbers v = (case v of Some (JArr xs) \<Rightarrow> concat (map (\<lambda>x. case x of JNum n \<Rightarrow> [n] | _ \<Rightarrow> []) xs) | _ \<Rightarrow> [])"

definition workingHoursConfig :: "constraint_row \<Rightarrow> working_hours_config" where
  "workingHoursConfig c =
     \<lparr> wh_days = numbers (field (cn_config_json c) ''days''),
       wh_start_time = nullish (strField (cn_config_json c) ''start_time'') [],
       wh_end_time = nullish (strField (cn_config_json c) ''end_time'') [],
       wh_timezone = nullish (strField (cn_config_json c) ''timezone'') [] \<rparr>"

definition clampInterval :: "int \<Rightarrow> int \<Rightarrow> int \<Rightarrow> int \<Rightarrow> (int \<times> int) list" where
  "clampInterval rangeStart rangeEnd a b =
     (if b > rangeStart \<and> a < rangeEnd then [(max a rangeStart, min b rangeEnd)] else [])"

definition workingOn :: "local_time \<Rightarrow> int \<Rightarrow> int \<Rightarrow> working_hours_config \<Rightarrow> int \<Rightarrow> (int \<times> int) list" where
  "workingOn local rangeStart rangeEnd config d =
     (if getDayOfWeekInTimezone local d (wh_timezone config) \<in> set (wh_days config)
      then clampInterval rangeStart rangeEnd
             (getTimestampForTimeInTimezone local d (wh_start_time config) (wh_timezone config))
             (getTimestampForTimeInTimezone local d (wh_end_time config) (wh_timezone config))
      else [])"

definition workingIntervals ::
  "local_time \<Rightarrow> int \<Rightarrow> int \<Rightarrow> working_hours_config list \<Rightarrow> (int \<times> int) list" where
  "workingIntervals local rangeStart rangeEnd configs =
     concat (map (\<lambda>config. concat (map (workingOn local rangeStart rangeEnd config) (scanDays rangeStart rangeEnd)))
       configs)"

definition absorbWork :: "int \<times> int \<Rightarrow> int \<times> int \<Rightarrow> int \<times> int" where
  "absorbWork current next = (fst current, max (snd current) (snd next))"

text \<open>An end point of a gap is an instant and the text it is shown as.\<close>

definition pointAt :: "int \<Rightarrow> int \<times> string" where
  "pointAt ms = (ms, toISOString ms)"

definition outsideWork :: "int \<times> string \<Rightarrow> int \<Rightarrow> (int \<times> int) list \<Rightarrow> ((int \<times> string) \<times> int \<times> string) list" where
  "outsideWork rangeEnd rangeStartMs work =
     gapsFrom fst (\<lambda>w. pointAt (fst w)) (\<lambda>w. pointAt (snd w)) Pair rangeEnd (pointAt rangeStartMs) work"

definition mergeWork :: "(int \<times> int) list \<Rightarrow> (int \<times> int) list" where
  "mergeWork work = mergeBy fst snd absorbWork (sort_key fst work)"

definition busyAs :: "string \<Rightarrow> string \<Rightarrow> string \<Rightarrow> busy_interval" where
  "busyAs tag a b = \<lparr> bi_start = a, bi_end = b, bi_account_ids = [tag] \<rparr>"

definition expandWorkingHoursToOutsideBusy ::
  "graph_env \<Rightarrow> local_time \<Rightarrow> constraint_row list \<Rightarrow> string \<Rightarrow> string \<Rightarrow> busy_interval list" where
  "expandWorkingHoursToOutsideBusy env local cs rangeStart rangeEnd =
     (if cs = [] then []
      else case (dateParse (js_date env) rangeStart, dateParse (js_date env) rangeEnd) of
        (Some a, Some b) \<Rightarrow>
          (if a \<ge> b then []
           else let work = workingIntervals local a b (map workingHoursConfig cs) in
             if work = [] then [busyAs ''working_hours'' rangeStart rangeEnd]
             else map (\<lambda>g. busyAs ''working_hours'' (snd (fst g)) (snd (snd g)))
                    (outsideWork (b, rangeEnd) a (mergeWork work)))
      | _ \<Rightarrow> [busyAs ''working_hours'' rangeStart rangeEnd])"

section \<open>No meetings after a time\<close>

record cutoff_config =
  co_time :: string
  co_timezone :: string

definition noMeetingsAfterConfig :: "constraint_row \<Rightarrow> cutoff_config" where
  "noMeetingsAfterConfig c =
     \<lparr> co_time = nullish (strField (cn_config_json c) ''time'') [],
       co_timezone = nullish (strField (cn_config_json c) ''timezone'') [] \<rparr>"

definition endOfDay :: "local_time \<Rightarrow> int \<Rightarrow> string \<Rightarrow> int" where
  "endOfDay local d timezone = getTimestampForTimeInTimezone local d ''23:59'' timezone + 60000"

text \<open>The inner loop: the earliest cutoff of the day whose time up to midnight meets the range.\<close>

definition tighter ::
  "local_time \<Rightarrow> int \<Rightarrow> int \<Rightarrow> int \<Rightarrow> (int \<times> string) option \<Rightarrow> cutoff_config \<Rightarrow> (int \<times> string) option" where
  "tighter local rangeStart rangeEnd d earliest config =
     (let cutoff = getTimestampForTimeInTimezone local d (co_time config) (co_timezone config) in
      if endOfDay local d (co_timezone config) \<le> rangeStart \<or> cutoff \<ge> rangeEnd then earliest
      else case earliest of
             None \<Rightarrow> Some (cutoff, co_timezone config)
           | Some (best, _) \<Rightarrow> if cutoff < best then Some (cutoff, co_timezone config) else earliest)"

definition cutOn :: "local_time \<Rightarrow> int \<Rightarrow> int \<Rightarrow> cutoff_config list \<Rightarrow> int \<Rightarrow> busy_interval list" where
  "cutOn local rangeStart rangeEnd configs d =
     (case foldl (tighter local rangeStart rangeEnd d) None configs of
        None \<Rightarrow> []
      | Some (cutoff, timezone) \<Rightarrow>
          let a = max cutoff rangeStart; b = min (endOfDay local d timezone) rangeEnd in
          if a < b then [busyAs ''no_meetings_after'' (toISOString a) (toISOString b)] else [])"

definition expandNoMeetingsAfterToBusy ::
  "graph_env \<Rightarrow> local_time \<Rightarrow> constraint_row list \<Rightarrow> string \<Rightarrow> string \<Rightarrow> busy_interval list" where
  "expandNoMeetingsAfterToBusy env local cs rangeStart rangeEnd =
     (if cs = [] then []
      else case (dateParse (js_date env) rangeStart, dateParse (js_date env) rangeEnd) of
        (Some a, Some b) \<Rightarrow>
          (if a \<ge> b then []
           else concat (map (cutOn local a b (map noMeetingsAfterConfig cs)) (scanDays a b)))
      | _ \<Rightarrow> [])"

section \<open>Buffers and trips\<close>

text \<open>\<^verbatim>\<open>toISOString\<close> of a date that is not one throws a \<^verbatim>\<open>RangeError\<close>.\<close>

definition isoOrThrow :: "int option \<Rightarrow> tm_error + string" where
  "isoOrThrow v =
     (case v of None \<Rightarrow> Inl (Thrown ''Invalid time value'')
      | Some ms \<Rightarrow> if \<bar>ms\<bar> \<le> maxDateMs then Inr (toISOString ms) else Inl (Thrown ''Invalid time value''))"

text \<open>A loop that pushes what each round gives and stops at the first exception.\<close>

fun pushAll :: "('x \<Rightarrow> tm_error + 'y list) \<Rightarrow> 'x list \<Rightarrow> tm_error + 'y list" where
  "pushAll f [] = Inr []"
| "pushAll f (x # xs) =
     (case f x of
        Inl e \<Rightarrow> Inl e
      | Inr ys \<Rightarrow> (case pushAll f xs of Inl e \<Rightarrow> Inl e | Inr zs \<Rightarrow> Inr (ys @ zs)))"

record buffer_config =
  bc_type :: string
  bc_minutes :: int
  bc_applies_to :: string

definition bufferConfig :: "constraint_row \<Rightarrow> buffer_config" where
  "bufferConfig c =
     \<lparr> bc_type = nullish (strField (cn_config_json c) ''type'') [],
       bc_minutes = (case field (cn_config_json c) ''minutes'' of Some (JNum n) \<Rightarrow> n | _ \<Rightarrow> 0),
       bc_applies_to = nullish (strField (cn_config_json c) ''applies_to'') [] \<rparr>"

definition shifted :: "graph_env \<Rightarrow> string \<Rightarrow> int \<Rightarrow> tm_error + string" where
  "shifted env ts ms = isoOrThrow (map_option (\<lambda>t. t + ms) (dateParse (js_date env) ts))"

definition bufferAround :: "graph_env \<Rightarrow> buffer_config \<Rightarrow> event_row \<Rightarrow> tm_error + busy_interval list" where
  "bufferAround env config e =
     (let bufferMs = bc_minutes config * 60 * 1000 in
      if bc_applies_to config = ''external'' \<and> ce_origin_account_id e = ''internal'' then Inr []
      else if bc_type config = ''travel'' \<or> bc_type config = ''prep''
      then map_sum id (\<lambda>a. [busyAs ''buffer'' a (ce_start_ts e)]) (shifted env (ce_start_ts e) (- bufferMs))
      else if bc_type config = ''cooldown''
      then map_sum id (\<lambda>b. [busyAs ''buffer'' (ce_end_ts e) b]) (shifted env (ce_end_ts e) bufferMs)
      else Inr [])"

definition expandBuffersToBusy ::
  "graph_env \<Rightarrow> constraint_row list \<Rightarrow> event_row list \<Rightarrow> tm_error + busy_interval list" where
  "expandBuffersToBusy env cs events =
     (if cs = [] \<or> events = [] then Inr []
      else pushAll (\<lambda>config. pushAll (bufferAround env config) events) (map bufferConfig cs))"

text \<open>Comparison and extremes of two numbers of which one may be NaN.\<close>

definition nanLe :: "int option \<Rightarrow> int option \<Rightarrow> bool" where
  "nanLe x y = (case (x, y) of (Some a, Some b) \<Rightarrow> a \<le> b | _ \<Rightarrow> False)"

definition nanWith :: "(int \<Rightarrow> int \<Rightarrow> int) \<Rightarrow> int option \<Rightarrow> int option \<Rightarrow> int option" where
  "nanWith f x y = (case (x, y) of (Some a, Some b) \<Rightarrow> Some (f a b) | _ \<Rightarrow> None)"

definition tripBlock ::
  "graph_env \<Rightarrow> int option \<Rightarrow> int option \<Rightarrow> constraint_row \<Rightarrow> tm_error + busy_interval list" where
  "tripBlock env a b c =
     (if \<not> truthy (cn_active_from c) \<or> \<not> truthy (cn_active_to c) then Inr []
      else let s = dateParse (js_date env) (the (cn_active_from c));
               e = dateParse (js_date env) (the (cn_active_to c)) in
        if nanLe e a \<or> nanLe b s then Inr []
        else case isoOrThrow (nanWith max s a) of
               Inl x \<Rightarrow> Inl x
             | Inr s' \<Rightarrow> map_sum id (\<lambda>e'. [busyAs ''trip'' s' e']) (isoOrThrow (nanWith min e b)))"

definition expandTripConstraintsToBusy ::
  "graph_env \<Rightarrow> constraint_row list \<Rightarrow> string \<Rightarrow> string \<Rightarrow> tm_error + busy_interval list" where
  "expandTripConstraintsToBusy env cs rangeStart rangeEnd =
     (let a = dateParse (js_date env) rangeStart; b = dateParse (js_date env) rangeEnd in
      if cs = [] \<or> nanLe b a then Inr [] else pushAll (tripBlock env a b) cs)"

section \<open>The computation\<close>

record availability_query =
  aq_start :: string
  aq_end :: string
  aq_accounts :: "string list option"

record availability_result =
  ar_busy_intervals :: "busy_interval list"
  ar_free_intervals :: "free_interval list"

definition occupies :: "availability_query \<Rightarrow> event_row \<Rightarrow> bool" where
  "occupies q e \<longleftrightarrow>
     ce_end_ts e > aq_start q \<and> ce_start_ts e < aq_end q \<and> ce_transparency e = ''opaque'' \<and>
     ce_status e \<noteq> ''cancelled'' \<and>
     (case aq_accounts q of
        Some (a # as) \<Rightarrow> ce_origin_account_id e \<in> insert ''internal'' (set (a # as))
      | _ \<Rightarrow> True)"

definition occupyingEvents :: "availability_query \<Rightarrow> user_graph \<Rightarrow> event_row list" where
  "occupyingEvents q s = sort_key ce_start_ts (filter (occupies q) (canonical_events s))"

definition getAllMilestones :: "user_graph \<Rightarrow> (string \<times> bool) list" where
  "getAllMilestones s = map (\<lambda>m. (mi_date m, mi_recurs_annually m)) (milestones s)"

definition eventInterval :: "event_row \<Rightarrow> busy_interval" where
  "eventInterval e = \<lparr> bi_start = ce_start_ts e, bi_end = ce_end_ts e, bi_account_ids = [ce_origin_account_id e] \<rparr>"

definition constraintsOf :: "string \<Rightarrow> user_graph \<Rightarrow> constraint_row list" where
  "constraintsOf kind s = sort_key cn_created_at (filter (\<lambda>c. cn_kind c = kind) (constraints s))"

definition rawIntervals ::
  "graph_env \<Rightarrow> local_time \<Rightarrow> availability_query \<Rightarrow> user_graph \<Rightarrow> tm_error + busy_interval list" where
  "rawIntervals env local q s =
     (let rows = occupyingEvents q s in
      map_sum id
        (\<lambda>buffers.
           map eventInterval rows @
           expandWorkingHoursToOutsideBusy env local (constraintsOf ''working_hours'' s) (aq_start q) (aq_end q) @
           expandNoMeetingsAfterToBusy env local (constraintsOf ''no_meetings_after'' s) (aq_start q) (aq_end q) @
           buffers @
           map (\<lambda>iv. busyAs ''milestones'' (fst iv) (snd iv))
             (expandMilestonesToBusy (getAllMilestones s) (aq_start q) (aq_end q)))
        (expandBuffersToBusy env (constraintsOf ''buffer'' s) rows))"

definition computeAvailability ::
  "graph_env \<Rightarrow> local_time \<Rightarrow> (string \<Rightarrow> string) \<Rightarrow> availability_query \<Rightarrow> availability_result graph_op" where
  "computeAvailability env local collate q s =
     (case rawIntervals env local q s of
        Inl e \<Rightarrow> (Inl e, s)
      | Inr raw \<Rightarrow>
          let busy = mergeIntervals collate raw in
          (Inr \<lparr> ar_busy_intervals = busy,
                 ar_free_intervals = computeFreeIntervals busy (aq_start q) (aq_end q) \<rparr>, s))"

section \<open>Correctness of merging and gaps\<close>

interpretation busy: interval_kind normalizeForComparison bi_start bi_end absorbBusy freeInterval fi_start fi_end
  by unfold_locales (auto simp: absorbBusy_def freeInterval_def max_def)

interpretation work: interval_kind fst "\<lambda>w. pointAt (fst w)" "\<lambda>w. pointAt (snd w)" absorbWork Pair fst snd
  by unfold_locales (auto simp: absorbWork_def pointAt_def)

lemma busy_ends: "busy.lo = busyLo" "busy.hi = busyHi"
  by (simp_all add: fun_eq_iff busy.lo_def busy.hi_def)

lemma work_ends: "work.lo = fst" "work.hi = snd"
  by (rule ext, simp add: work.lo_def work.hi_def, simp add: pointAt_def)+

abbreviation busyAt :: "busy_interval list \<Rightarrow> string \<Rightarrow> bool" where
  "busyAt \<equiv> covers busyLo busyHi"

abbreviation freeAt :: "free_interval list \<Rightarrow> string \<Rightarrow> bool" where
  "freeAt \<equiv> covers (\<lambda>f. normalizeForComparison (fi_start f)) (\<lambda>f. normalizeForComparison (fi_end f))"

lemma free_ends:
  "busy.gap_lo = (\<lambda>f. normalizeForComparison (fi_start f))"
  "busy.gap_hi = (\<lambda>f. normalizeForComparison (fi_end f))"
  by (simp_all add: fun_eq_iff busy.gap_lo_def busy.gap_hi_def)

text \<open>\<^verbatim>\<open>localeCompare\<close> orders the starts as their text does.\<close>

definition agrees :: "(string \<Rightarrow> string) \<Rightarrow> string set \<Rightarrow> bool" where
  "agrees collate starts \<longleftrightarrow> (\<forall>a \<in> starts. \<forall>b \<in> starts. collate a \<le> collate b \<longrightarrow> a \<le> b)"

lemma sorted_agrees:
  assumes "agrees collate (busyLo ` set ivs)"
  shows "sorted (map busyLo (sort_key (\<lambda>iv. collate (busyLo iv)) ivs))"
proof -
  have "sorted_wrt (\<lambda>a b. collate (busyLo a) \<le> collate (busyLo b)) (sort_key (\<lambda>iv. collate (busyLo iv)) ivs)"
    using sorted_sort_key [of "\<lambda>iv. collate (busyLo iv)" ivs] by (simp add: sorted_map)
  then have "sorted_wrt (\<lambda>a b. busyLo a \<le> busyLo b) (sort_key (\<lambda>iv. collate (busyLo iv)) ivs)"
    by (rule sorted_wrt_mono_rel [rotated]) (use assms in \<open>auto simp: agrees_def\<close>)
  then show ?thesis by (simp add: sorted_map)
qed

lemma mergeIntervals_laws:
  assumes "agrees collate (busyLo ` set ivs)"
  shows "busyAt (mergeIntervals collate ivs) t = busyAt ivs t"
    and "separated busyLo busyHi (mergeIntervals collate ivs)"
    and "sorted (map busyLo (mergeIntervals collate ivs))"
proof -
  note laws = busy.mergeBy_correct [unfolded busy_ends, OF sorted_agrees [OF assms]]
  show "busyAt (mergeIntervals collate ivs) t = busyAt ivs t"
    using laws(1) [of t] by (simp add: mergeIntervals_def covers_def)
  show "separated busyLo busyHi (mergeIntervals collate ivs)" "sorted (map busyLo (mergeIntervals collate ivs))"
    using laws(2,3) by (simp_all only: mergeIntervals_def)
qed

lemma computeFree_complement:
  assumes "agrees collate (busyLo ` set ivs)"
    and "normalizeForComparison a \<le> t" and "t < normalizeForComparison b"
  shows "freeAt (computeFreeIntervals (mergeIntervals collate ivs) a b) t \<longleftrightarrow> \<not> busyAt ivs t"
  using busy.gapsFrom_complement [unfolded busy_ends free_ends, OF mergeIntervals_laws(3) [OF assms(1)] assms(2,3)]
    mergeIntervals_laws(1) [OF assms(1)] by (simp add: computeFreeIntervals_def)

lemma outsideWork_complement:
  assumes "a \<le> t" and "t < b"
  shows "(\<exists>g \<in> set (outsideWork (b, txt) a (mergeWork work)). fst (fst g) \<le> t \<and> t < fst (snd g)) \<longleftrightarrow>
    \<not> covers fst snd work t"
proof -
  have sorted: "sorted (map fst (sort_key fst work))" by (rule sorted_sort_key)
  note laws = work.mergeBy_correct [unfolded work_ends, OF sorted]
  have "covers work.gap_lo work.gap_hi (outsideWork (b, txt) a (mergeWork work)) t \<longleftrightarrow>
      \<not> covers fst snd (mergeWork work) t"
    unfolding outsideWork_def mergeWork_def
    by (rule work.gapsFrom_complement [unfolded work_ends]) (use laws(3) assms in \<open>simp_all add: pointAt_def\<close>)
  moreover have "covers fst snd (mergeWork work) t = covers fst snd work t"
    using laws(1) [of t] by (simp add: mergeWork_def covers_def)
  ultimately show ?thesis by (simp only: covers_def [of work.gap_lo] work.gap_lo_def work.gap_hi_def)
qed

end
