(* ===== verification/Availability_Laws.thy ===== *)
theory Availability_Laws
  imports Availability
begin

text \<open>
  Working hours and cutoffs in a zone of fixed offset: the instant computed for a clock time shows that time
  locally, the scan visits every local day of the range, and the working intervals cover exactly the instants
  at work. Where the offset changes, the scan by 24 hours can pass over a local day of 23.
\<close>

section \<open>Zones of fixed offset\<close>

definition fixedOffset :: "local_time \<Rightarrow> string \<Rightarrow> int \<Rightarrow> bool" where
  "fixedOffset local timezone offset \<longleftrightarrow> (\<forall>t. local timezone t = t div 60000 + offset)"

lemma fixedOffset_add:
  assumes "fixedOffset local z off"
  shows "local z (t + n * 60000) = local z t + n"
  using assms by (simp add: fixedOffset_def)

lemma fixedOffset_mono:
  assumes "fixedOffset local z off" and "s \<le> t"
  shows "local z s \<le> local z t"
  using assms by (simp add: fixedOffset_def zdiv_mono1)

text \<open>The first instant at which the local clock shows a minute.\<close>

lemma fixedOffset_before:
  assumes "fixedOffset local z off"
  shows "local z t < m \<longleftrightarrow> t < (m - off) * 60000"
proof -
  define q r where "q = t div 60000" and "r = t mod 60000"
  have "t = q * 60000 + r" "0 \<le> r" "r < 60000" by (simp_all add: q_def r_def)
  then have "q < m - off \<longleftrightarrow> t < (m - off) * 60000" by auto
  then have "t div 60000 < m - off \<longleftrightarrow> t < (m - off) * 60000" by (simp add: q_def)
  then show ?thesis using assms by (auto simp: fixedOffset_def)
qed

lemma timestamp_shows_time:
  assumes "fixedOffset local z off"
  shows "getTimestampForTimeInTimezone local d time z =
    (localDay local z d * 1440 + int (clockMinutes time) - off) * 60000"
proof -
  define D m where "D = localDay local z d" and "m = int (clockMinutes time)"
  define guess where "guess = D * msPerDay + m * 60000"
  define q r where "q = local z guess div 1440" and "r = local z guess mod 1440"
  have "local z guess = D * 1440 + m + off"
    using fixedOffset_add [OF assms, of 0 "D * 1440 + m"] assms
    by (simp add: guess_def msPerDay_def algebra_simps fixedOffset_def)
  with div_mult_mod_eq [of "local z guess" 1440] have qr: "q * 1440 + r = D * 1440 + m + off"
    by (simp add: q_def r_def)
  have "getTimestampForTimeInTimezone local d time z =
      (if q \<noteq> D then guess + (m - r) * 60000 + (D * msPerDay - q * msPerDay) else guess + (m - r) * 60000)"
    by (simp add: getTimestampForTimeInTimezone_def getLocalTimeParts_def Let_def
        localDay_def [of local z guess] flip: D_def m_def guess_def q_def r_def)
  also have "\<dots> = (D * 1440 + m - off) * 60000"
    using qr by (simp add: guess_def msPerDay_def)
  finally show ?thesis by (simp add: D_def m_def)
qed

lemma timestamp_local:
  assumes "fixedOffset local z off" and "isHHMM time"
  shows "localDay local z (getTimestampForTimeInTimezone local d time z) = localDay local z d"
    and "local z (getTimestampForTimeInTimezone local d time z) mod 1440 = int (clockMinutes time)"
  using isHHMM_minutes [OF assms(2)] timestamp_shows_time [OF assms(1), of d time] assms(1)
  by (simp_all add: localDay_def fixedOffset_def)

section \<open>The scan\<close>

lemma dayStarts_member:
  "x \<in> set (dayStarts d e) \<longleftrightarrow> (\<exists>k. x = d + int k * msPerDay \<and> x < e)"
proof (induction d e rule: dayStarts.induct)
  case (1 d e)
  show ?case
  proof (cases "d < e")
    case True
    have "(\<exists>k. x = d + int k * msPerDay \<and> x < e) \<longleftrightarrow>
        x = d \<or> (\<exists>k. x = d + msPerDay + int k * msPerDay \<and> x < e)" (is "?l \<longleftrightarrow> ?r")
    proof
      assume ?l
      then obtain k where k: "x = d + int k * msPerDay" "x < e" by blast
      show ?r
      proof (cases k)
        case (Suc j)
        with k have "x = d + msPerDay + int j * msPerDay" by (simp add: algebra_simps)
        with k(2) show ?thesis by blast
      qed (use k in simp)
    next
      assume ?r
      then show ?l
      proof
        assume "x = d"
        with True have "x = d + int 0 * msPerDay \<and> x < e" by simp
        then show ?l by blast
      next
        assume "\<exists>k. x = d + msPerDay + int k * msPerDay \<and> x < e"
        then obtain k where "x = d + int (Suc k) * msPerDay" "x < e" by (auto simp: algebra_simps)
        then show ?l by blast
      qed
    qed
    with 1 [OF True] True show ?thesis by (simp add: dayStarts.simps [of d e])
  next
    case False
    then have "\<not> (\<exists>k. x = d + int k * msPerDay \<and> x < e)"
      by (auto simp: msPerDay_def)
    with False show ?thesis by (simp add: dayStarts.simps [of d e] del: not_ex)
  qed
qed

lemma localDay_scan:
  assumes "fixedOffset local z off"
  shows "localDay local z (d + int k * msPerDay) = localDay local z d + int k"
proof -
  have "local z (d + int k * msPerDay) = local z d + int k * 1440"
    using fixedOffset_add [OF assms, of d "int k * 1440"] by (simp add: msPerDay_def mult.assoc)
  then show ?thesis by (simp add: localDay_def)
qed

lemma localDay_mono:
  assumes "fixedOffset local z off" and "s \<le> t"
  shows "localDay local z s \<le> localDay local z t"
  unfolding localDay_def using fixedOffset_mono [OF assms] by (rule zdiv_mono1) simp

lemma scan_visits:
  assumes z: "fixedOffset local z off" and t: "a \<le> t" "t < b"
  shows "\<exists>d \<in> set (scanDays a b). localDay local z d = localDay local z t"
proof -
  define k where "k = nat (localDay local z t - localDay local z (a - msPerDay))"
  have "localDay local z (a - msPerDay) \<le> localDay local z t"
    by (rule localDay_mono [OF z]) (use t in \<open>simp add: msPerDay_def\<close>)
  then have day: "localDay local z (a - msPerDay + int k * msPerDay) = localDay local z t"
    by (simp only: localDay_scan [OF z]) (simp add: k_def)
  have "a - msPerDay + int k * msPerDay < b + msPerDay"
  proof (rule ccontr)
    assume "\<not> ?thesis"
    then have "t + msPerDay \<le> a - msPerDay + int k * msPerDay" using t by simp
    from localDay_mono [OF z this] day localDay_scan [OF z, of t 1] show False by simp
  qed
  with day show ?thesis
    unfolding scanDays_def by (auto simp: dayStarts_member)
qed

section \<open>Working hours\<close>

text \<open>The specification: an instant is at work when its local day is a working day and its clock is in the hours.\<close>

definition atWork :: "local_time \<Rightarrow> working_hours_config \<Rightarrow> int \<Rightarrow> bool" where
  "atWork local config t \<longleftrightarrow>
     (let minute = local (wh_timezone config) t mod 1440 in
      getDayOfWeekInTimezone local t (wh_timezone config) \<in> set (wh_days config) \<and>
      int (clockMinutes (wh_start_time config)) \<le> minute \<and> minute < int (clockMinutes (wh_end_time config)))"

lemma clamp_covers:
  assumes "a \<le> t" and "t < b"
  shows "covers fst snd (clampInterval a b s e) t \<longleftrightarrow> s \<le> t \<and> t < e"
  using assms by (auto simp: clampInterval_def covers_def)

lemma day_minutes:
  fixes s e D m :: int
  assumes "0 \<le> s" "e < 1440"
  shows "D * 1440 + s \<le> m \<and> m < D * 1440 + e \<longleftrightarrow> m div 1440 = D \<and> s \<le> m mod 1440 \<and> m mod 1440 < e"
proof -
  define q r where "q = m div 1440" and "r = m mod 1440"
  have m: "m = q * 1440 + r" and r: "0 \<le> r" "r < 1440" by (simp_all add: q_def r_def)
  have "q = D" if "D * 1440 + s \<le> m" "m < D * 1440 + e" proof -
    from that m r assms have "q * 1440 < (D + 1) * 1440" by simp
    moreover from that m r assms have "D * 1440 < (q + 1) * 1440" by simp
    ultimately show ?thesis by simp
  qed
  then have "D * 1440 + s \<le> m \<and> m < D * 1440 + e \<longleftrightarrow> q = D \<and> s \<le> r \<and> r < e" using m by auto
  then show ?thesis by (simp add: q_def r_def)
qed

lemma hours_on_day:
  assumes z: "fixedOffset local z off" and "isHHMM st" "isHHMM en"
  shows "getTimestampForTimeInTimezone local d st z \<le> t \<and> t < getTimestampForTimeInTimezone local d en z \<longleftrightarrow>
    localDay local z t = localDay local z d \<and>
    int (clockMinutes st) \<le> local z t mod 1440 \<and> local z t mod 1440 < int (clockMinutes en)"
proof -
  let ?D = "localDay local z d"
  let ?s = "int (clockMinutes st)" and ?e = "int (clockMinutes en)"
  have bounds: "0 \<le> ?s" "?s < 1440" "0 \<le> ?e" "?e < 1440"
    using isHHMM_minutes [OF assms(2)] isHHMM_minutes [OF assms(3)] by simp_all
  have "getTimestampForTimeInTimezone local d st z \<le> t \<longleftrightarrow> ?D * 1440 + ?s \<le> local z t"
    unfolding timestamp_shows_time [OF z] using fixedOffset_before [OF z, of t "?D * 1440 + ?s"] by linarith
  moreover have "t < getTimestampForTimeInTimezone local d en z \<longleftrightarrow> local z t < ?D * 1440 + ?e"
    unfolding timestamp_shows_time [OF z] using fixedOffset_before [OF z, of t "?D * 1440 + ?e"] by linarith
  moreover have "?D * 1440 + ?s \<le> m \<and> m < ?D * 1440 + ?e \<longleftrightarrow>
      m div 1440 = ?D \<and> ?s \<le> m mod 1440 \<and> m mod 1440 < ?e" for m
    using day_minutes [of ?s ?e ?D m] bounds by blast
  ultimately show ?thesis by (simp add: localDay_def)
qed

definition hoursOk :: "local_time \<Rightarrow> working_hours_config \<Rightarrow> bool" where
  "hoursOk local config \<longleftrightarrow> isHHMM (wh_start_time config) \<and> isHHMM (wh_end_time config) \<and>
     (\<exists>offset. fixedOffset local (wh_timezone config) offset)"

lemma workingIntervals_atWork:
  assumes ok: "\<forall>config \<in> set configs. hoursOk local config" and t: "a \<le> t" "t < b"
  shows "covers fst snd (workingIntervals local a b configs) t \<longleftrightarrow> (\<exists>config \<in> set configs. atWork local config t)"
proof -
  have one: "(\<exists>d \<in> set (scanDays a b). covers fst snd (workingOn local a b config d) t) \<longleftrightarrow> atWork local config t"
    if "config \<in> set configs" for config
  proof -
    let ?z = "wh_timezone config"
    from ok that obtain off where z: "fixedOffset local ?z off"
      and hhmm: "isHHMM (wh_start_time config)" "isHHMM (wh_end_time config)"
      by (auto simp: hoursOk_def)
    have "covers fst snd (workingOn local a b config d) t \<longleftrightarrow>
        localDay local ?z t = localDay local ?z d \<and> atWork local config t" for d
      using hours_on_day [OF z hhmm, of d t]
      by (auto simp: workingOn_def clamp_covers [OF t] atWork_def Let_def getDayOfWeekInTimezone_def)
    with scan_visits [OF z t] show ?thesis by metis
  qed
  have "covers fst snd (workingIntervals local a b configs) t \<longleftrightarrow>
      (\<exists>config \<in> set configs. \<exists>d \<in> set (scanDays a b). covers fst snd (workingOn local a b config d) t)"
    by (auto simp: workingIntervals_def covers_def)
  with one show ?thesis by auto
qed

text \<open>Read on text, for a range given in the printed form.\<close>

lemma outsideWork_printed:
  assumes g: "g \<in> set (outsideWork (b, toISOString b) a work)"
  shows "snd (fst g) = toISOString (fst (fst g))" and "snd (snd g) = toISOString (fst (snd g))"
proof -
  have "snd (fst g) = toISOString (fst (fst g)) \<and> snd (snd g) = toISOString (fst (snd g))"
    if "g \<in> set (gapsFrom fst (\<lambda>w. pointAt (fst w)) (\<lambda>w. pointAt (snd w)) Pair (b, toISOString b) c work)"
      and "snd c = toISOString (fst c)" for c
    using that by (induction work arbitrary: c) (auto simp: pointAt_def split: if_splits)
  from this [OF g [unfolded outsideWork_def]]
  show "snd (fst g) = toISOString (fst (fst g))" "snd (snd g) = toISOString (fst (snd g))"
    by (simp_all add: pointAt_def)
qed

lemma mergeBy_ends:
  assumes "\<forall>w \<in> set ws. P (fst w) \<and> P (snd w)"
  shows "\<forall>w \<in> set (mergeBy fst snd absorbWork ws). P (fst w) \<and> P (snd (w::int \<times> int))"
proof -
  have "\<forall>w \<in> set (sweep fst snd absorbWork c ws). P (fst w) \<and> P (snd w)"
    if "P (fst c)" "P (snd c)" "\<forall>w \<in> set ws. P (fst w) \<and> P (snd w)" for c ws
    using that
  proof (induction ws arbitrary: c)
    case (Cons w ws)
    from Cons.prems have both: "P (fst (absorbWork c w))" "P (snd (absorbWork c w))"
      and w: "P (fst w)" "P (snd w)" and ws: "\<forall>v \<in> set ws. P (fst v) \<and> P (snd v)"
      by (simp_all add: absorbWork_def max_def)
    show ?case
    proof (cases "fst w \<le> snd c")
      case True
      with Cons.IH [OF both ws] show ?thesis by (simp only: sweep.simps if_True)
    next
      case False
      then have "sweep fst snd absorbWork c (w # ws) = c # sweep fst snd absorbWork w ws" by simp
      with Cons.IH [OF w ws] Cons.prems(1,2) show ?thesis by (simp only: set_simps ball_simps)
    qed
  qed simp
  with assms show ?thesis by (cases ws) (auto simp: mergeBy_def)
qed

lemma gaps_ends:
  assumes "\<forall>w \<in> set ws. P (fst w) \<and> P (snd w)" and "P b" and "P a"
    and "g \<in> set (outsideWork (b, txt) a ws)"
  shows "P (fst (fst g)) \<and> P (fst (snd g))"
proof -
  have "P (fst (fst g)) \<and> P (fst (snd g))"
    if "g \<in> set (gapsFrom fst (\<lambda>w. pointAt (fst w)) (\<lambda>w. pointAt (snd w)) Pair (b, txt) c ws)"
      and "P (fst c)" and "\<forall>w \<in> set ws. P (fst w) \<and> P (snd w)" for c
    using that assms(2) by (induction ws arbitrary: c) (auto simp: pointAt_def split: if_splits)
  from this [OF assms(4) [unfolded outsideWork_def]] assms show ?thesis by (simp add: pointAt_def)
qed

lemma workingIntervals_in_range:
  assumes "w \<in> set (workingIntervals local a b configs)" and "a < b"
  shows "a \<le> fst w \<and> fst w \<le> b" and "a \<le> snd w \<and> snd w \<le> b"
proof -
  from assms obtain x y where "w \<in> set (clampInterval a b x y)"
    by (auto simp: workingIntervals_def workingOn_def split: if_splits)
  with assms(2) show "a \<le> fst w \<and> fst w \<le> b" "a \<le> snd w \<and> snd w \<le> b"
    by (auto simp: clampInterval_def split: if_splits)
qed

lemma plainYear_between: "plainYear a \<Longrightarrow> plainYear b \<Longrightarrow> a \<le> t \<Longrightarrow> t \<le> b \<Longrightarrow> plainYear t"
proof -
  assume "plainYear a" "plainYear b" "a \<le> t" "t \<le> b"
  moreover from this have "yearFromDay (a div msPerDay) \<le> yearFromDay (t div msPerDay)"
    "yearFromDay (t div msPerDay) \<le> yearFromDay (b div msPerDay)"
    by (auto intro!: yearFromDay_mono zdiv_mono1 simp: msPerDay_def)
  ultimately show "plainYear t" unfolding plainYear_def by linarith
qed

lemma normalize_printed: "plainYear t \<Longrightarrow> normalizeForComparison (toISOString t) = toISOString t"
  by (simp add: normalizeForComparison_def toISOString_def isoClock_def length_isoDate_plain plainYear_def)

lemma toISOString_less_iff: "plainYear a \<Longrightarrow> plainYear b \<Longrightarrow> toISOString a < toISOString b \<longleftrightarrow> a < b"
  using toISOString_le_iff [of b a] by (simp add: not_le [symmetric])

lemma printed_covers:
  assumes "plainYear a" "plainYear b" "plainYear t"
  shows "busyAt [busyAs tag (toISOString a) (toISOString b)] (toISOString t) \<longleftrightarrow> a \<le> t \<and> t < b"
  using assms by (simp add: busyAs_def normalize_printed toISOString_le_iff toISOString_less_iff)

lemma workingHours_text:
  assumes years: "plainYear a" "plainYear b" "\<bar>a\<bar> \<le> maxDateMs" "\<bar>b\<bar> \<le> maxDateMs"
    and t: "a \<le> t" "t < b" and cs: "cs \<noteq> []" "\<forall>c \<in> set cs. hoursOk local (workingHoursConfig c)"
  shows "busyAt (expandWorkingHoursToOutsideBusy env local cs (toISOString a) (toISOString b)) (toISOString t) \<longleftrightarrow>
    \<not> (\<exists>c \<in> set cs. atWork local (workingHoursConfig c) t)"
proof -
  define work where "work = workingIntervals local a b (map workingHoursConfig cs)"
  have at: "covers fst snd work t \<longleftrightarrow> (\<exists>c \<in> set cs. atWork local (workingHoursConfig c) t)"
    using workingIntervals_atWork [of "map workingHoursConfig cs" local a t b] cs t by (simp add: work_def)
  have plain_t: "plainYear t" using plainYear_between [OF years(1,2)] t by simp
  show ?thesis
  proof (cases "work = []")
    case True
    then have "expandWorkingHoursToOutsideBusy env local cs (toISOString a) (toISOString b) =
        [busyAs ''working_hours'' (toISOString a) (toISOString b)]"
      using years t cs(1) by (simp add: expandWorkingHoursToOutsideBusy_def dateParse_toISOString work_def Let_def)
    with at True printed_covers [OF years(1,2) plain_t] t show ?thesis by simp
  next
    case False
    let ?gaps = "outsideWork (b, toISOString b) a (mergeWork work)"
    let ?busy = "\<lambda>g. busyAs ''working_hours'' (snd (fst g)) (snd (snd g))"
    have out: "expandWorkingHoursToOutsideBusy env local cs (toISOString a) (toISOString b) = map ?busy ?gaps"
      using years t cs(1) False by (simp add: expandWorkingHoursToOutsideBusy_def dateParse_toISOString work_def Let_def)
    have inside: "a \<le> fst (fst g) \<and> fst (fst g) \<le> b" "a \<le> fst (snd g) \<and> fst (snd g) \<le> b" if "g \<in> set ?gaps" for g
      using gaps_ends [where P = "\<lambda>x. a \<le> x \<and> x \<le> b", OF mergeBy_ends _ _ that [unfolded mergeWork_def]]
        workingIntervals_in_range [of _ local a b "map workingHoursConfig cs"] t
      by (simp_all add: work_def)
    have "busyAt [?busy g] (toISOString t) \<longleftrightarrow> fst (fst g) \<le> t \<and> t < fst (snd g)" if "g \<in> set ?gaps" for g
      unfolding outsideWork_printed [OF that]
      by (rule printed_covers) (use plainYear_between years inside [OF that] plain_t in blast)+
    then have "busyAt (map ?busy ?gaps) (toISOString t) \<longleftrightarrow> (\<exists>g \<in> set ?gaps. fst (fst g) \<le> t \<and> t < fst (snd g))"
      by (simp add: covers_def)
    with outsideWork_complement [OF t] at out show ?thesis by simp
  qed
qed

section \<open>The result\<close>

lemma availability_complement:
  assumes run: "computeAvailability env local collate q s = (Inr r, s')"
    and raw: "rawIntervals env local q s = Inr raw" and collate: "agrees collate (busyLo ` set raw)"
    and t: "normalizeForComparison (aq_start q) \<le> t" "t < normalizeForComparison (aq_end q)"
  shows "freeAt (ar_free_intervals r) t \<longleftrightarrow> \<not> busyAt raw t" and "busyAt (ar_busy_intervals r) t = busyAt raw t"
    and "separated busyLo busyHi (ar_busy_intervals r)" and "s' = s"
proof -
  from run raw have r: "r = \<lparr> ar_busy_intervals = mergeIntervals collate raw,
      ar_free_intervals = computeFreeIntervals (mergeIntervals collate raw) (aq_start q) (aq_end q) \<rparr>" and "s' = s"
    by (simp_all add: computeAvailability_def Let_def)
  with computeFree_complement [OF collate t] mergeIntervals_laws [OF collate]
  show "freeAt (ar_free_intervals r) t \<longleftrightarrow> \<not> busyAt raw t" "busyAt (ar_busy_intervals r) t = busyAt raw t"
    "separated busyLo busyHi (ar_busy_intervals r)" "s' = s" by simp_all
qed

lemma rawIntervals_parts:
  assumes "rawIntervals env local q s = Inr raw"
  obtains buffers where "expandBuffersToBusy env (constraintsOf ''buffer'' s) (occupyingEvents q s) = Inr buffers"
    and "busyAt raw t \<longleftrightarrow>
      (\<exists>e \<in> set (canonical_events s). occupies q e \<and>
         normalizeForComparison (ce_start_ts e) \<le> t \<and> t < normalizeForComparison (ce_end_ts e)) \<or>
      busyAt (expandWorkingHoursToOutsideBusy env local (constraintsOf ''working_hours'' s) (aq_start q) (aq_end q)) t \<or>
      busyAt (expandNoMeetingsAfterToBusy env local (constraintsOf ''no_meetings_after'' s) (aq_start q) (aq_end q)) t \<or>
      busyAt buffers t \<or>
      (\<exists>iv \<in> set (expandMilestonesToBusy (getAllMilestones s) (aq_start q) (aq_end q)).
         normalizeForComparison (fst iv) \<le> t \<and> t < normalizeForComparison (snd iv))"
proof -
  from assms obtain buffers where b: "expandBuffersToBusy env (constraintsOf ''buffer'' s) (occupyingEvents q s) = Inr buffers"
    and raw: "raw = map eventInterval (occupyingEvents q s) @
           expandWorkingHoursToOutsideBusy env local (constraintsOf ''working_hours'' s) (aq_start q) (aq_end q) @
           expandNoMeetingsAfterToBusy env local (constraintsOf ''no_meetings_after'' s) (aq_start q) (aq_end q) @
           buffers @
           map (\<lambda>iv. busyAs ''milestones'' (fst iv) (snd iv))
             (expandMilestonesToBusy (getAllMilestones s) (aq_start q) (aq_end q))"
    by (cases "expandBuffersToBusy env (constraintsOf ''buffer'' s) (occupyingEvents q s)")
       (simp_all add: rawIntervals_def Let_def)
  have ev: "busyAt (map eventInterval (occupyingEvents q s)) t \<longleftrightarrow>
      (\<exists>e \<in> set (canonical_events s). occupies q e \<and>
         normalizeForComparison (ce_start_ts e) \<le> t \<and> t < normalizeForComparison (ce_end_ts e))"
    by (auto simp: covers_def occupyingEvents_def eventInterval_def)
  have ms: "busyAt (map (\<lambda>iv. busyAs ''milestones'' (fst iv) (snd iv)) ivs) t \<longleftrightarrow>
      (\<exists>iv \<in> set ivs. normalizeForComparison (fst iv) \<le> t \<and> t < normalizeForComparison (snd iv))" for ivs
    by (simp add: covers_def busyAs_def)
  show thesis by (rule that [OF b]) (simp only: raw covers_append ev ms)
qed

section \<open>A day the scan passes over\<close>

text \<open>
  New York on the weekend of 8 March 2026: five hours behind before 07:00Z on the 8th, four after. A range from
  23:30 on the 7th is scanned at 23:30 on the 7th and at 00:30 on the 9th, so the cutoff of the 8th is not applied.
\<close>

definition springForward :: local_time where
  "springForward timezone t = t div 60000 - (if t < 1772953200000 then 300 else 240)"

lemma scan_passes_over_a_day:
  "20520 \<notin> set (map (localDay springForward ''America/New_York'')
     (scanDays 1772944200000 1773030600000))"
  by (simp add: scanDays_def dayStarts.simps msPerDay_def localDay_def springForward_def)

end
