(* ===== verification/Constraint_Laws.thy ===== *)
theory Constraint_Laws
  imports Availability_Laws
begin

text \<open>
  The constraints table holds only configurations that passed validation, whatever is added, replaced or removed;
  so the availability computation reads well-typed configurations, and what it reports as free is what the
  specification of each kind of constraint leaves free.
\<close>

section \<open>The type invariant of the table\<close>

definition constraint_valid :: "graph_env \<Rightarrow> (string \<Rightarrow> bool) \<Rightarrow> constraint_row \<Rightarrow> bool" where
  "constraint_valid env tz c \<longleftrightarrow>
     cn_kind c \<in> set VALID_CONSTRAINT_KINDS \<and>
     validateConstraintConfig env tz (cn_kind c) (cn_config_json c) (cn_active_from c) (cn_active_to c) = None"

definition constraints_valid :: "graph_env \<Rightarrow> (string \<Rightarrow> bool) \<Rightarrow> user_graph \<Rightarrow> bool" where
  "constraints_valid env tz s \<longleftrightarrow>
     distinct (map cn_constraint_id (constraints s)) \<and> (\<forall>c \<in> set (constraints s). constraint_valid env tz c)"

lemma constraints_valid_same: "constraints t = constraints s \<Longrightarrow> constraints_valid env tz t = constraints_valid env tz s"
  by (simp add: constraints_valid_def)

text \<open>Operations that leave the table alone.\<close>

definition sameConstraints :: "user_graph \<Rightarrow> user_graph \<Rightarrow> bool" where
  "sameConstraints s t \<longleftrightarrow> constraints t = constraints s"

interpretation same_cons: state_contract sameConstraints
  by unfold_locales (simp_all add: sameConstraints_def)

lemma same_cons_table:
  "stays sameConstraints (freshId env ty)" "stays sameConstraints (insertEventRow r)"
  "stays sameConstraints (insertJournalRow j)" "stays sameConstraints (deleteEventRows P)"
  "stays sameConstraints (deleteMirrorRows Q)" "stays sameConstraints (enqueueDeleteMirror env d)"
  by (auto intro!: staysI simp: sameConstraints_def freshId_def insertEventRow_def insertJournalRow_def
      deleteEventRows_def deleteMirrorRows_def enqueueDeleteMirror_def sendDelete_def sendWrite_def Let_def andThen_def
      ret_run throw_run tryCatch_def split: prod.split sum.split)

lemma same_cons_derived:
  "stays sameConstraints (tripEventsIf env kind k c f t)" "stays sameConstraints (removeDerived env reason k cid)"
  unfolding tripEventsIf_def createTripDerivedEvents_def removeDerived_def removeEvent_def writeJournal_def
  by (intro same_cons.stays_rules same_cons_table)+

lemma keeps_same: "stays sameConstraints m \<Longrightarrow> keeps (constraints_valid env tz) m"
  by (intro keepsI) (metis constraints_valid_same sameConstraints_def staysD)

lemma keeps_valid_add: "keeps (constraints_valid env tz) (addConstraint env tz kind c f t)"
proof -
  have "keeps (constraints_valid env tz) (insertConstraintRow r)" if "constraint_valid env tz r" for r
    using that by (intro keepsI) (simp add: insertConstraintRow_def constraints_valid_def)
  moreover have "keeps (constraints_valid env tz) (freshId env ty)"
    "keeps (constraints_valid env tz) (tripEventsIf env kind k c f t)" for ty k
    by (rule keeps_same, rule same_cons_table same_cons_derived)+
  ultimately show ?thesis
    unfolding addConstraint_def by (intro keeps_intro) (simp_all add: constraint_valid_def)
qed

lemma keeps_valid_delete: "keeps (constraints_valid env tz) (deleteConstraint env k)"
proof -
  have "keeps (constraints_valid env tz) (deleteConstraintRow k)"
    by (intro keepsI) (simp add: deleteConstraintRow_def constraints_valid_def distinct_map_deleteRows)
  moreover have "keeps (constraints_valid env tz) (removeDerived env reason k cid)" for reason cid
    by (rule keeps_same) (rule same_cons_derived)
  ultimately show ?thesis
    unfolding deleteConstraint_def by (intro keeps_intro)
qed

lemma keeps_valid_update: "keeps (constraints_valid env tz) (updateConstraint env tz k c f t)"
proof (rule keepsI)
  fix s assume ok: "constraints_valid env tz s"
  show "constraints_valid env tz (snd (updateConstraint env tz k c f t s))"
  proof (cases "readConstraint k s")
    case Nil
    then show ?thesis using ok by (simp add: updateConstraint_def ret_run)
  next
    case (Cons old rest)
    then have "old \<in> set (filter (\<lambda>c. cn_constraint_id c = k) (constraints s))"
      by (simp add: readConstraint_def)
    then have old: "old \<in> set (constraints s)" "cn_constraint_id old = k" by simp_all
    show ?thesis
    proof (cases "validateConstraintConfig env tz (cn_kind old) c f t")
      case (Some m)
      then show ?thesis using ok Cons by (simp add: updateConstraint_def throw_run)
    next
      case None
      let ?f = "\<lambda>r. r\<lparr> cn_config_json := c, cn_active_from := f, cn_active_to := t \<rparr>"
      let ?s = "s\<lparr> constraints := updateRows (\<lambda>r. cn_constraint_id r = k) ?f (constraints s) \<rparr>"
      let ?rest = "andThen (if cn_kind old = ''trip''
          then andThen (query (derivedIds k)) (\<lambda>ids.
               andThen (forEach ids (removeDerived env ''constraint_updated'' k)) (\<lambda>_.
               tripEventsIf env ''trip'' k c f t))
          else ret ()) (\<lambda>_. query (\<lambda>s. Some (hd (readConstraint k s))))"
      have run: "updateConstraint env tz k c f t s = ?rest ?s"
        using Cons None by (simp add: updateConstraint_def)
      have "stays sameConstraints ?rest"
        by (intro same_cons.stays_rules same_cons_derived)
      moreover have "constraints_valid env tz ?s"
      proof -
        have "r = old" if "r \<in> set (constraints s)" "cn_constraint_id r = k" for r
          using ok old that distinct_key_eq [of cn_constraint_id "constraints s" r old]
          by (simp add: constraints_valid_def)
        then have "constraint_valid env tz (?f r)" if "r \<in> set (constraints s)" "cn_constraint_id r = k" for r
          using that ok old None by (simp add: constraints_valid_def constraint_valid_def)
        then have "\<forall>c \<in> set (updateRows (\<lambda>r. cn_constraint_id r = k) ?f (constraints s)). constraint_valid env tz c"
          using ok unfolding set_updateRows constraints_valid_def by fastforce
        moreover have "map cn_constraint_id (updateRows (\<lambda>r. cn_constraint_id r = k) ?f (constraints s)) =
            map cn_constraint_id (constraints s)" by (rule map_updateRows) simp
        ultimately show ?thesis using ok by (simp add: constraints_valid_def)
      qed
      ultimately show ?thesis unfolding run by (rule keepsD [OF keeps_same])
    qed
  qed
qed

section \<open>What the availability computation reads\<close>

lemma numbers_days: "numbers (Some (JArr (map JNum days))) = days"
  by (induction days) (simp_all add: numbers_def)

lemma valid_hours:
  assumes "constraints_valid env tz s" and "c \<in> set (constraintsOf ''working_hours'' s)"
  shows "workingHoursShape tz (cn_config_json c)" and "isHHMM (wh_start_time (workingHoursConfig c))"
    and "isHHMM (wh_end_time (workingHoursConfig c))" and "set (wh_days (workingHoursConfig c)) \<subseteq> {0..6}"
    and "wh_days (workingHoursConfig c) \<noteq> []"
proof -
  from assms have "validateWorkingHoursConfig tz (cn_config_json c) = None"
    by (auto simp: constraintsOf_def constraints_valid_def constraint_valid_def validateConstraintConfig_def)
  from validateWorkingHours_shape [OF this] show shape: "workingHoursShape tz (cn_config_json c)" .
  then obtain days st en zone where "field (cn_config_json c) ''days'' = Some (JArr (map JNum days))" "days \<noteq> []"
      "set days \<subseteq> {0..6}" "strField (cn_config_json c) ''start_time'' = Some st"
      "strField (cn_config_json c) ''end_time'' = Some en" "isHHMM st" "isHHMM en"
    unfolding workingHoursShape_def by blast
  then show "isHHMM (wh_start_time (workingHoursConfig c))" "isHHMM (wh_end_time (workingHoursConfig c))"
    "set (wh_days (workingHoursConfig c)) \<subseteq> {0..6}" "wh_days (workingHoursConfig c) \<noteq> []"
    by (simp_all add: workingHoursConfig_def numbers_days)
qed

lemma valid_buffers:
  assumes "constraints_valid env tz s" and "c \<in> set (constraintsOf ''buffer'' s)"
  shows "bufferShape (cn_config_json c)"
  using assms validateBuffer_shape [of "cn_config_json c"]
  by (auto simp: constraintsOf_def constraints_valid_def constraint_valid_def validateConstraintConfig_def)

section \<open>Free time against its specification\<close>

definition printedRange :: "availability_query \<Rightarrow> int \<Rightarrow> int \<Rightarrow> bool" where
  "printedRange q a b \<longleftrightarrow>
     aq_start q = toISOString a \<and> aq_end q = toISOString b \<and> plainYear a \<and> plainYear b \<and>
     \<bar>a\<bar> \<le> maxDateMs \<and> \<bar>b\<bar> \<le> maxDateMs"

text \<open>
  What the documentation promises at an instant: no opaque event, inside some working hours if there are any, and
  outside cutoffs, buffers and milestones.
\<close>

definition freeBySpec :: "graph_env \<Rightarrow> local_time \<Rightarrow> availability_query \<Rightarrow> user_graph \<Rightarrow> busy_interval list \<Rightarrow> int \<Rightarrow> bool" where
  "freeBySpec env local q s buffers t \<longleftrightarrow>
     (\<forall>e \<in> set (canonical_events s). occupies q e \<longrightarrow>
        \<not> (normalizeForComparison (ce_start_ts e) \<le> toISOString t \<and>
           toISOString t < normalizeForComparison (ce_end_ts e))) \<and>
     (constraintsOf ''working_hours'' s = [] \<or>
        (\<exists>c \<in> set (constraintsOf ''working_hours'' s). atWork local (workingHoursConfig c) t)) \<and>
     \<not> busyAt (expandNoMeetingsAfterToBusy env local (constraintsOf ''no_meetings_after'' s) (aq_start q) (aq_end q))
         (toISOString t) \<and>
     \<not> busyAt buffers (toISOString t) \<and>
     (\<forall>iv \<in> set (expandMilestonesToBusy (getAllMilestones s) (aq_start q) (aq_end q)).
        \<not> (normalizeForComparison (fst iv) \<le> toISOString t \<and> toISOString t < normalizeForComparison (snd iv)))"

lemma free_refines:
  assumes run: "computeAvailability env local collate q s = (Inr r, s')"
    and raw: "rawIntervals env local q s = Inr raw" and collate: "agrees collate (busyLo ` set raw)"
    and buffers: "expandBuffersToBusy env (constraintsOf ''buffer'' s) (occupyingEvents q s) = Inr buffers"
    and range: "printedRange q a b" and t: "a \<le> t" "t < b"
    and valid: "constraints_valid env tz s"
    and zones: "\<forall>c \<in> set (constraintsOf ''working_hours'' s). \<exists>off. fixedOffset local (wh_timezone (workingHoursConfig c)) off"
  shows "freeAt (ar_free_intervals r) (toISOString t) \<longleftrightarrow> freeBySpec env local q s buffers t"
proof -
  let ?T = "toISOString t"
  note r = range [unfolded printedRange_def]
  have plain_t: "plainYear t" using plainYear_between [of a b t] r t by simp
  have inside: "normalizeForComparison (aq_start q) \<le> ?T" "?T < normalizeForComparison (aq_end q)"
    using r t plain_t by (simp_all add: normalize_printed toISOString_le_iff toISOString_less_iff)
  have work: "busyAt (expandWorkingHoursToOutsideBusy env local (constraintsOf ''working_hours'' s) (aq_start q) (aq_end q)) ?T \<longleftrightarrow>
      \<not> (constraintsOf ''working_hours'' s = [] \<or>
         (\<exists>c \<in> set (constraintsOf ''working_hours'' s). atWork local (workingHoursConfig c) t))"
  proof (cases "constraintsOf ''working_hours'' s = []")
    case True
    then show ?thesis by (simp add: expandWorkingHoursToOutsideBusy_def)
  next
    case False
    have "\<forall>c \<in> set (constraintsOf ''working_hours'' s). hoursOk local (workingHoursConfig c)"
      using zones valid_hours(2,3) [OF valid] by (simp add: hoursOk_def)
    with False r t show ?thesis by (simp add: workingHours_text)
  qed
  obtain bs where bs: "expandBuffersToBusy env (constraintsOf ''buffer'' s) (occupyingEvents q s) = Inr bs"
    and parts: "busyAt raw ?T \<longleftrightarrow>
      (\<exists>e \<in> set (canonical_events s). occupies q e \<and>
         normalizeForComparison (ce_start_ts e) \<le> ?T \<and> ?T < normalizeForComparison (ce_end_ts e)) \<or>
      busyAt (expandWorkingHoursToOutsideBusy env local (constraintsOf ''working_hours'' s) (aq_start q) (aq_end q)) ?T \<or>
      busyAt (expandNoMeetingsAfterToBusy env local (constraintsOf ''no_meetings_after'' s) (aq_start q) (aq_end q)) ?T \<or>
      busyAt bs ?T \<or>
      (\<exists>iv \<in> set (expandMilestonesToBusy (getAllMilestones s) (aq_start q) (aq_end q)).
         normalizeForComparison (fst iv) \<le> ?T \<and> ?T < normalizeForComparison (snd iv))"
    by (rule rawIntervals_parts [OF raw, of ?T])
  from bs buffers have "bs = buffers" by simp
  with parts work availability_complement(1) [OF run raw collate inside]
  show ?thesis unfolding freeBySpec_def by blast
qed

end
