(* ===== verification/Graph_Sessions.thy ===== *)
theory Graph_Sessions
  imports Graph_Constraints
begin

text \<open>
  Scheduling sessions, their candidates and their tentative holds in \<^verbatim>\<open>UserGraphDO\<close>. A session is
  \<^verbatim>\<open>open\<close>, \<^verbatim>\<open>candidates_ready\<close> or finished (\<^verbatim>\<open>committed\<close>, \<^verbatim>\<open>cancelled\<close>, \<^verbatim>\<open>expired\<close>); a hold is
  \<^verbatim>\<open>held\<close> or finished. The methods run in any order, so the state machine is the relation that runs
  one of them at some time, and its contract says what is never taken back.
\<close>

section \<open>Storing and reading\<close>

record candidate_input =
  cd_candidateId :: string
  cd_sessionId :: string
  cd_start :: string
  cd_end :: string
  cd_score :: rat
  cd_explanation :: string

definition insertSessionRow :: "session_row \<Rightarrow> unit graph_op" where
  "insertSessionRow r s =
     (if ss_session_id r \<in> ss_session_id ` set (schedule_sessions s)
      then (Inl (UniqueViolation ''schedule_sessions.session_id''), s)
      else (Inr (), s\<lparr> schedule_sessions := schedule_sessions s @ [r] \<rparr>))"

definition insertCandidateRow :: "candidate_row \<Rightarrow> unit graph_op" where
  "insertCandidateRow c s =
     (if sc_candidate_id c \<in> sc_candidate_id ` set (schedule_candidates s)
      then (Inl (UniqueViolation ''schedule_candidates.candidate_id''), s)
      else if sc_session_id c \<notin> ss_session_id ` set (schedule_sessions s) then (Inl ForeignKeyViolation, s)
      else (Inr (), s\<lparr> schedule_candidates := schedule_candidates s @ [c] \<rparr>))"

definition candidateRow :: "candidate_input \<Rightarrow> candidate_row" where
  "candidateRow c =
     \<lparr> sc_candidate_id = cd_candidateId c, sc_session_id = cd_sessionId c,
       sc_start_ts = cd_start c, sc_end_ts = cd_end c, sc_score = Some (cd_score c),
       sc_explanation = Some (cd_explanation c) \<rparr>"

definition storeSchedulingSession :: "session_row \<Rightarrow> candidate_input list \<Rightarrow> unit graph_op" where
  "storeSchedulingSession r candidates =
     andThen (insertSessionRow r) (\<lambda>_. forEach candidates (\<lambda>c. insertCandidateRow (candidateRow c)))"

definition sessionRows :: "string \<Rightarrow> user_graph \<Rightarrow> session_row list" where
  "sessionRows sid s = filter (\<lambda>r. ss_session_id r = sid) (schedule_sessions s)"

definition setSessionStatus :: "string \<Rightarrow> string \<Rightarrow> unit graph_op" where
  "setSessionStatus sid st = modify (\<lambda>s. s\<lparr> schedule_sessions :=
     updateRows (\<lambda>r. ss_session_id r = sid) (\<lambda>r. r\<lparr> ss_status := st \<rparr>) (schedule_sessions s) \<rparr>)"

text \<open>\<^verbatim>\<open>UPDATE schedule_holds SET status = 'released' WHERE session_id = ? AND status = 'held'\<close>.\<close>

definition releaseSessionHolds :: "string \<Rightarrow> unit graph_op" where
  "releaseSessionHolds sid = modify (\<lambda>s. s\<lparr> schedule_holds :=
     updateRows (\<lambda>h. sh_session_id h = sid \<and> sh_status h = ''held'') (\<lambda>h. h\<lparr> sh_status := ''released'' \<rparr>)
       (schedule_holds s) \<rparr>)"

definition active :: "session_row \<Rightarrow> bool" where
  "active r \<longleftrightarrow> ss_status r = ''open'' \<or> ss_status r = ''candidates_ready''"

definition olderThan :: "graph_env \<Rightarrow> int \<Rightarrow> session_row \<Rightarrow> bool" where
  "olderThan env maxAgeMs r \<longleftrightarrow>
     (case dateParse (js_date env) (ss_created_at r) of None \<Rightarrow> False | Some ms \<Rightarrow> now_ms env - ms > maxAgeMs)"

definition dropKeys :: "string list \<Rightarrow> (string \<times> json) list \<Rightarrow> (string \<times> json) list" where
  "dropKeys ks fs = filter (\<lambda>(k, _). k \<notin> set ks) fs"

definition jsTruthy :: "json option \<Rightarrow> bool" where
  "jsTruthy v = (case v of
     None \<Rightarrow> False | Some JNull \<Rightarrow> False | Some (JBool b) \<Rightarrow> b | Some (JNum n) \<Rightarrow> n \<noteq> 0
   | Some (JStr t) \<Rightarrow> t \<noteq> [] | Some (JArr _) \<Rightarrow> True | Some (JObj _) \<Rightarrow> True)"

record session_view =
  sv_session_id :: string
  sv_status :: string
  sv_params :: json
  sv_candidates :: "candidate_row list"
  sv_committed_candidate :: "json option"
  sv_committed_event :: "json option"
  sv_created_at :: string

text \<open>
  \<^verbatim>\<open>objective_json\<close> holds the value, or \<^const>\<open>None\<close> for a text \<^verbatim>\<open>JSON.parse\<close> rejects.
\<close>

definition sessionParams :: "json option \<Rightarrow> json \<times> json option \<times> json option" where
  "sessionParams obj =
     (case obj of
        Some (JObj fs) \<Rightarrow>
          if jsTruthy (map_of fs ''_committedCandidateId'')
          then (JObj (dropKeys [''_committedCandidateId'', ''_committedEventId''] fs),
                map_of fs ''_committedCandidateId'', map_of fs ''_committedEventId'')
          else (JObj fs, None, None)
      | Some JNull \<Rightarrow> (JObj [], None, None)
      | Some v \<Rightarrow> (v, None, None)
      | None \<Rightarrow> (JObj [], None, None))"

definition nullScore :: "candidate_row \<Rightarrow> nat \<times> rat" where
  "nullScore c = (case sc_score c of None \<Rightarrow> (0, 0) | Some x \<Rightarrow> (1, x))"

definition candidatesOf :: "string \<Rightarrow> user_graph \<Rightarrow> candidate_row list" where
  "candidatesOf sid s = sortDesc nullScore (filter (\<lambda>c. sc_session_id c = sid) (schedule_candidates s))"

definition getSchedulingSession :: "graph_env \<Rightarrow> string \<Rightarrow> session_view graph_op" where
  "getSchedulingSession env sid =
     andThen (query (sessionRows sid)) (\<lambda>rows.
     case rows of
       [] \<Rightarrow> throw (Thrown (''Session '' @ sid @ '' not found''))
     | r # _ \<Rightarrow>
         andThen (if active r \<and> ss_created_at r \<noteq> [] \<and> olderThan env (24 * 60 * 60 * 1000) r
                  then andThen (setSessionStatus sid ''expired'') (\<lambda>_.
                       andThen (releaseSessionHolds sid) (\<lambda>_. ret (r\<lparr> ss_status := ''expired'' \<rparr>)))
                  else ret r) (\<lambda>session.
         andThen (query (candidatesOf sid)) (\<lambda>cs.
         let (params, cc, ce) = sessionParams (ss_objective_json session) in
         ret \<lparr> sv_session_id = ss_session_id session, sv_status = ss_status session, sv_params = params,
               sv_candidates = cs, sv_committed_candidate = cc, sv_committed_event = ce,
               sv_created_at = ss_created_at session \<rparr>)))"

section \<open>Committing, listing, cancelling, expiring\<close>

definition setKey :: "string \<Rightarrow> json \<Rightarrow> (string \<times> json) list \<Rightarrow> (string \<times> json) list" where
  "setKey k v fs = (if k \<in> fst ` set fs then map (\<lambda>(x, y). if x = k then (x, v) else (x, y)) fs else fs @ [(k, v)])"

text \<open>
  Assigning the two properties: on an array they are not serialised, on \<^verbatim>\<open>null\<close> and on a primitive
  the assignment throws (module code is strict).
\<close>

definition withCommit :: "json option \<Rightarrow> string \<Rightarrow> string \<Rightarrow> json option" where
  "withCommit obj candidateId eventId =
     (case obj of
        None \<Rightarrow> Some (JObj [(''_committedCandidateId'', JStr candidateId), (''_committedEventId'', JStr eventId)])
      | Some (JObj fs) \<Rightarrow>
          Some (JObj (setKey ''_committedEventId'' (JStr eventId)
            (setKey ''_committedCandidateId'' (JStr candidateId) fs)))
      | Some (JArr xs) \<Rightarrow> Some (JArr xs)
      | Some _ \<Rightarrow> None)"

definition commitSchedulingSession :: "string \<Rightarrow> string \<Rightarrow> string \<Rightarrow> unit graph_op" where
  "commitSchedulingSession sid candidateId eventId =
     andThen (query (sessionRows sid)) (\<lambda>rows.
     case rows of
       [] \<Rightarrow> throw (Thrown (''Session '' @ sid @ '' not found''))
     | r # _ \<Rightarrow>
         (case withCommit (ss_objective_json r) candidateId eventId of
            None \<Rightarrow> throw (Thrown ''Cannot set properties of a value that is not an object'')
          | Some obj \<Rightarrow> modify (\<lambda>s. s\<lparr> schedule_sessions :=
              updateRows (\<lambda>x. ss_session_id x = sid)
                (\<lambda>x. x\<lparr> ss_status := ''committed'', ss_objective_json := Some obj \<rparr>) (schedule_sessions s) \<rparr>)))"

definition hourMs :: int where
  "hourMs = 60 * 60 * 1000"

text \<open>\<^verbatim>\<open>datetime(created_at, '+' || ? || ' hours') < datetime('now')\<close>: a comparison of texts.\<close>

definition stale :: "graph_env \<Rightarrow> int \<Rightarrow> session_row \<Rightarrow> bool" where
  "stale env maxAgeHours r \<longleftrightarrow> active r \<and>
     (case julianMs (sql_date env) (ss_created_at r) of
        None \<Rightarrow> False
      | Some ms \<Rightarrow> sqlDatetime (ms + maxAgeHours * hourMs) < datetimeNow env)"

definition expireStaleSchedulingSessions :: "graph_env \<Rightarrow> int \<Rightarrow> nat graph_op" where
  "expireStaleSchedulingSessions env maxAgeHours =
     andThen (query (\<lambda>s. map ss_session_id (filter (stale env maxAgeHours) (schedule_sessions s)))) (\<lambda>ids.
     if ids = [] then ret 0
     else andThen (forEach ids (\<lambda>sid.
            andThen (setSessionStatus sid ''expired'') (\<lambda>_. releaseSessionHolds sid))) (\<lambda>_.
          ret (length ids)))"

record session_item =
  si_session_id :: string
  si_status :: string
  si_params :: json
  si_candidate_count :: nat
  si_created_at :: string

definition itemParams :: "json option \<Rightarrow> json" where
  "itemParams obj =
     (case obj of Some (JObj fs) \<Rightarrow> JObj (dropKeys [''_committedCandidateId'', ''_committedEventId''] fs)
                | _ \<Rightarrow> JObj [])"

definition sessionItem :: "user_graph \<Rightarrow> session_row \<Rightarrow> session_item" where
  "sessionItem s r =
     \<lparr> si_session_id = ss_session_id r, si_status = ss_status r, si_params = itemParams (ss_objective_json r),
       si_candidate_count = length (filter (\<lambda>c. sc_session_id c = ss_session_id r) (schedule_candidates s)),
       si_created_at = ss_created_at r \<rparr>"

definition listSchedulingSessions ::
  "graph_env \<Rightarrow> string option \<Rightarrow> nat \<Rightarrow> nat \<Rightarrow> (session_item list \<times> nat) graph_op" where
  "listSchedulingSessions env statusFilter limit offset =
     andThen (expireStaleSchedulingSessions env 24) (\<lambda>_.
     query (\<lambda>s. let rows = filter (\<lambda>r. whereTruthy statusFilter (\<lambda>st. ss_status r = st)) (schedule_sessions s) in
       (map (sessionItem s) (take limit (drop offset (sortDesc ss_created_at rows))), length rows)))"

definition cancelSchedulingSession :: "string \<Rightarrow> unit graph_op" where
  "cancelSchedulingSession sid =
     andThen (query (sessionRows sid)) (\<lambda>rows.
     case rows of
       [] \<Rightarrow> throw (Thrown (''Session '' @ sid @ '' not found''))
     | r # _ \<Rightarrow>
         if ss_status r = ''cancelled'' then throw (Thrown (''Session '' @ sid @ '' is already cancelled''))
         else if ss_status r = ''committed''
         then throw (Thrown (''Session '' @ sid @ '' is already committed and cannot be cancelled''))
         else if ss_status r = ''expired''
         then throw (Thrown (''Session '' @ sid @ '' is expired and cannot be cancelled''))
         else andThen (setSessionStatus sid ''cancelled'') (\<lambda>_. releaseSessionHolds sid))"

section \<open>Holds\<close>

definition insertHoldRow :: "hold_row \<Rightarrow> unit graph_op" where
  "insertHoldRow h s =
     (if sh_hold_id h \<in> sh_hold_id ` set (schedule_holds s)
      then (Inl (UniqueViolation ''schedule_holds.hold_id''), s)
      else if sh_session_id h \<notin> ss_session_id ` set (schedule_sessions s) then (Inl ForeignKeyViolation, s)
      else (Inr (), s\<lparr> schedule_holds := schedule_holds s @ [h] \<rparr>))"

definition storeHolds :: "hold_row list \<Rightarrow> unit graph_op" where
  "storeHolds holds = forEach holds insertHoldRow"

definition holdsOf :: "string \<Rightarrow> user_graph \<Rightarrow> hold_row list" where
  "holdsOf sid s = filter (\<lambda>h. sh_session_id h = sid) (schedule_holds s)"

definition getHoldsBySession :: "string \<Rightarrow> hold_row list graph_op" where
  "getHoldsBySession sid = query (holdsOf sid)"

definition allowedTransitions :: "string \<Rightarrow> string list" where
  "allowedTransitions st = (if st = ''held'' then [''committed'', ''released'', ''expired''] else [])"

definition updateHolds :: "(hold_row \<Rightarrow> bool) \<Rightarrow> (hold_row \<Rightarrow> hold_row) \<Rightarrow> unit graph_op" where
  "updateHolds P f = modify (\<lambda>s. s\<lparr> schedule_holds := updateRows P f (schedule_holds s) \<rparr>)"

definition updateHoldStatus :: "string \<Rightarrow> string \<Rightarrow> string option \<Rightarrow> unit graph_op" where
  "updateHoldStatus hid newStatus providerEventId =
     andThen (query (\<lambda>s. filter (\<lambda>h. sh_hold_id h = hid) (schedule_holds s))) (\<lambda>rows.
     case rows of
       [] \<Rightarrow> throw (Thrown (''Hold '' @ hid @ '' not found''))
     | h # _ \<Rightarrow>
         if newStatus \<notin> set (allowedTransitions (sh_status h))
         then throw (Thrown (''Invalid hold transition: '' @ [CHR 0x27] @ sh_status h @ [CHR 0x27] @
                '' -> '' @ [CHR 0x27] @ newStatus @ [CHR 0x27]))
         else updateHolds (\<lambda>x. sh_hold_id x = hid)
                (\<lambda>x. x\<lparr> sh_status := newStatus,
                        sh_provider_event_id := orNullish providerEventId (sh_provider_event_id x) \<rparr>))"

text \<open>The column holds what \<^verbatim>\<open>toISOString\<close> wrote, the other side is \<^verbatim>\<open>datetime('now')\<close>: texts again.\<close>

definition getExpiredHolds :: "graph_env \<Rightarrow> hold_row list graph_op" where
  "getExpiredHolds env =
     query (\<lambda>s. filter (\<lambda>h. sh_status h = ''held'' \<and> sh_expires_at h \<le> datetimeNow env) (schedule_holds s))"

definition commitSessionHolds :: "string \<Rightarrow> string \<Rightarrow> (hold_row list \<times> hold_row list) graph_op" where
  "commitSessionHolds sid committedCandidateId =
     andThen (getHoldsBySession sid) (\<lambda>holds.
     let held = filter (\<lambda>h. sh_status h = ''held'') holds in
     andThen (forEach held (\<lambda>h.
       updateHolds (\<lambda>x. sh_hold_id x = sh_hold_id h) (\<lambda>x. x\<lparr> sh_status := ''released'' \<rparr>))) (\<lambda>_.
     ret ([], map (\<lambda>h. h\<lparr> sh_status := ''released'' \<rparr>) held)))"

definition extendHolds :: "string \<Rightarrow> (string \<times> string) list \<Rightarrow> nat graph_op" where
  "extendHolds sid holds = sumOver holds (\<lambda>(hid, expires).
     andThen (updateHolds (\<lambda>h. sh_hold_id h = hid \<and> sh_session_id h = sid \<and> sh_status h = ''held'')
                (\<lambda>h. h\<lparr> sh_expires_at := expires \<rparr>)) (\<lambda>_.
     query (\<lambda>s. if \<exists>h \<in> set (schedule_holds s). sh_hold_id h = hid \<and> sh_session_id h = sid \<and>
                      sh_status h = ''held'' \<and> sh_expires_at h = expires then 1 else 0)))"

definition expireSessionIfAllHoldsTerminal :: "string \<Rightarrow> bool graph_op" where
  "expireSessionIfAllHoldsTerminal sid =
     andThen (query (\<lambda>s. filter (\<lambda>h. sh_status h = ''held'') (holdsOf sid s))) (\<lambda>activeHolds.
     if activeHolds \<noteq> [] then ret False
     else andThen (query (sessionRows sid)) (\<lambda>rows.
          case rows of
            [] \<Rightarrow> ret False
          | r # _ \<Rightarrow>
              if ss_status r \<noteq> ''candidates_ready'' then ret False
              else andThen (setSessionStatus sid ''expired'') (\<lambda>_. ret True)))"

section \<open>Well-formed tables\<close>

lemma graph_ok_sessions:
  assumes "graph_ok env s" and "sessions_ok (s\<lparr> schedule_sessions := ss, schedule_candidates := cs, schedule_holds := hs \<rparr>)"
  shows "graph_ok env (s\<lparr> schedule_sessions := ss, schedule_candidates := cs, schedule_holds := hs \<rparr>)"
  using assms by (simp add: graph_ok_parts)

lemma sessions_ok_update:
  assumes ok: "sessions_ok s" and f: "\<And>r. ss_session_id (f r) = ss_session_id r"
    and g: "\<And>h. sh_hold_id (g h) = sh_hold_id h \<and> sh_session_id (g h) = sh_session_id h"
  shows "sessions_ok (s\<lparr> schedule_sessions := updateRows P f (schedule_sessions s),
    schedule_holds := updateRows Q g (schedule_holds s) \<rparr>)"
proof -
  have 1: "map ss_session_id (updateRows P f (schedule_sessions s)) = map ss_session_id (schedule_sessions s)"
    "map sh_hold_id (updateRows Q g (schedule_holds s)) = map sh_hold_id (schedule_holds s)"
    "map sh_session_id (updateRows Q g (schedule_holds s)) = map sh_session_id (schedule_holds s)"
    using f g by (auto intro!: map_updateRows)
  then have "ss_session_id ` set (updateRows P f (schedule_sessions s)) = ss_session_id ` set (schedule_sessions s)"
    "sh_session_id ` set (updateRows Q g (schedule_holds s)) = sh_session_id ` set (schedule_holds s)"
    by (metis list.set_map)+
  with 1 ok show ?thesis by (simp add: sessions_ok_def)
qed

lemma graph_ok_sessions_update:
  assumes ok: "graph_ok env s" and f: "\<And>r. ss_session_id (f r) = ss_session_id r"
    and g: "\<And>h. sh_hold_id (g h) = sh_hold_id h \<and> sh_session_id (g h) = sh_session_id h"
  shows "graph_ok env (s\<lparr> schedule_sessions := updateRows P f (schedule_sessions s) \<rparr>)"
    and "graph_ok env (s\<lparr> schedule_holds := updateRows Q g (schedule_holds s) \<rparr>)"
proof -
  have so: "sessions_ok s" using ok by (simp add: graph_ok_def)
  from sessions_ok_update [OF so, where f = f and g = g and P = P and Q = "\<lambda>_. False"]
    sessions_ok_update [OF so, where f = f and g = g and P = "\<lambda>_. False" and Q = Q] f g
  have "sessions_ok (s\<lparr> schedule_sessions := updateRows P f (schedule_sessions s) \<rparr>)"
    "sessions_ok (s\<lparr> schedule_holds := updateRows Q g (schedule_holds s) \<rparr>)"
    by (simp_all add: updateRows_none)
  with ok show "graph_ok env (s\<lparr> schedule_sessions := updateRows P f (schedule_sessions s) \<rparr>)"
    "graph_ok env (s\<lparr> schedule_holds := updateRows Q g (schedule_holds s) \<rparr>)"
    by (simp_all add: graph_ok_def events_ok_def mirrors_ok_def references_ok_def policies_ok_def calendars_ok_def
        journal_ok_def people_ok_def time_ok_def eventIds_def)
qed

lemma keeps_sessionRows [graph_keeps]:
  "keeps (graph_ok env) (insertSessionRow r)" "keeps (graph_ok env) (insertCandidateRow c)"
  "keeps (graph_ok env) (insertHoldRow h)"
  by (rule keepsI, auto simp: insertSessionRow_def insertCandidateRow_def insertHoldRow_def graph_ok_parts)+

lemma keeps_sessionUpdates [graph_keeps]:
  "keeps (graph_ok env) (setSessionStatus sid st)" "keeps (graph_ok env) (releaseSessionHolds sid)"
  "(\<And>h. sh_hold_id (g h) = sh_hold_id h \<and> sh_session_id (g h) = sh_session_id h) \<Longrightarrow>
     keeps (graph_ok env) (updateHolds Q g)"
  unfolding setSessionStatus_def releaseSessionHolds_def updateHolds_def
  by (rule keeps_modify, rule graph_ok_sessions_update, simp_all)+

lemma keeps_commitSession [graph_keeps]: "keeps (graph_ok env) (commitSchedulingSession sid c e)"
  unfolding commitSchedulingSession_def
  by (intro keeps_intro keeps_modify graph_ok_sessions_update) simp_all

lemma keeps_sessions [graph_keeps]:
  "keeps (graph_ok env) (storeSchedulingSession r cs)"
  "keeps (graph_ok env) (getSchedulingSession env' sid)"
  "keeps (graph_ok env) (expireStaleSchedulingSessions env' h)"
  "keeps (graph_ok env) (listSchedulingSessions env' f l off)"
  "keeps (graph_ok env) (cancelSchedulingSession sid)"
  "keeps (graph_ok env) (storeHolds hs)" "keeps (graph_ok env) (updateHoldStatus hid st p)"
  "keeps (graph_ok env) (commitSessionHolds sid c)" "keeps (graph_ok env) (extendHolds sid xs)"
  "keeps (graph_ok env) (expireSessionIfAllHoldsTerminal sid)"
proof -
  show 1: "keeps (graph_ok env) (expireStaleSchedulingSessions env' h)" for env' h
    unfolding expireStaleSchedulingSessions_def by (intro keeps_intro graph_keeps)
  show "keeps (graph_ok env) (storeSchedulingSession r cs)" "keeps (graph_ok env) (storeHolds hs)"
    unfolding storeSchedulingSession_def storeHolds_def by (intro keeps_intro graph_keeps)+
  show "keeps (graph_ok env) (getSchedulingSession env' sid)"
    unfolding getSchedulingSession_def Let_def split_def by (intro keeps_intro graph_keeps)
  show "keeps (graph_ok env) (listSchedulingSessions env' f l off)"
    unfolding listSchedulingSessions_def by (intro keeps_intro graph_keeps 1)
  show "keeps (graph_ok env) (cancelSchedulingSession sid)" "keeps (graph_ok env) (updateHoldStatus hid st p)"
    "keeps (graph_ok env) (expireSessionIfAllHoldsTerminal sid)"
    unfolding cancelSchedulingSession_def updateHoldStatus_def expireSessionIfAllHoldsTerminal_def
    by (intro keeps_intro graph_keeps; simp)+
  show "keeps (graph_ok env) (commitSessionHolds sid c)" "keeps (graph_ok env) (extendHolds sid xs)"
    unfolding commitSessionHolds_def getHoldsBySession_def extendHolds_def split_def Let_def
    by (intro keeps_intro graph_keeps; simp)+
qed

end
