(* ===== verification/Session_Machine.thy ===== *)
theory Session_Machine
  imports Graph_Sessions
begin

text \<open>
  The scheduling sessions as a state machine. A step is any method of \<^verbatim>\<open>Graph_Sessions\<close> at any time;
  along every run a finished session stays finished, a committed one stays committed, and a hold
  that is no longer held is never touched again.
\<close>

section \<open>What a step may not take back\<close>

definition finished :: "session_row \<Rightarrow> bool" where
  "finished r \<longleftrightarrow> ss_status r \<in> {''committed'', ''cancelled'', ''expired''}"

definition carriesOn :: "session_row \<Rightarrow> session_row \<Rightarrow> bool" where
  "carriesOn r r' \<longleftrightarrow>
     ss_session_id r' = ss_session_id r \<and> ss_created_at r' = ss_created_at r \<and>
     (finished r \<longrightarrow> finished r') \<and> (ss_status r = ''committed'' \<longrightarrow> ss_status r' = ''committed'')"

definition noReopening :: "user_graph \<Rightarrow> user_graph \<Rightarrow> bool" where
  "noReopening s t \<longleftrightarrow>
     (\<forall>r \<in> set (schedule_sessions s). \<exists>r' \<in> set (schedule_sessions t). carriesOn r r') \<and>
     (\<forall>h \<in> set (schedule_holds s). sh_status h \<noteq> ''held'' \<longrightarrow> h \<in> set (schedule_holds t))"

definition sessionContract :: "user_graph \<Rightarrow> user_graph \<Rightarrow> bool" where
  "sessionContract s t \<longleftrightarrow> (sessions_ok s \<longrightarrow> sessions_ok t \<and> noReopening s t)"

lemma carriesOn_refl [simp]: "carriesOn r r"
  by (simp add: carriesOn_def)

lemma carriesOn_trans: "carriesOn a b \<Longrightarrow> carriesOn b c \<Longrightarrow> carriesOn a c"
  by (auto simp: carriesOn_def)

lemma carriesOn_self: "r \<in> A \<Longrightarrow> \<exists>x \<in> A. carriesOn r x"
  by (auto intro: carriesOn_refl)

lemma noReopening_refl [simp]: "noReopening s s"
  by (auto simp: noReopening_def intro: carriesOn_refl)

interpretation sess: state_contract sessionContract
proof unfold_locales
  fix s t u :: user_graph
  show "sessionContract s s" by (simp add: sessionContract_def)
  assume "sessionContract s t" and "sessionContract t u"
  then show "sessionContract s u"
    unfolding sessionContract_def noReopening_def
    by (auto simp: Ball_def) (metis carriesOn_trans)+
qed

section \<open>Updates of the two tables\<close>

lemma noReopening_updates:
  assumes f: "\<And>r. r \<in> set (schedule_sessions s) \<Longrightarrow> P r \<Longrightarrow> carriesOn r (f r)"
    and g: "\<And>h. Q h \<Longrightarrow> sh_status h = ''held''"
  shows "noReopening s (s\<lparr> schedule_sessions := updateRows P f (schedule_sessions s),
    schedule_holds := updateRows Q g (schedule_holds s) \<rparr>)"
proof -
  have "\<exists>r' \<in> set (updateRows P f (schedule_sessions s)). carriesOn r r'" if "r \<in> set (schedule_sessions s)" for r
    using f that by (intro bexI [of _ "if P r then f r else r"]) (auto simp: set_updateRows)
  moreover have "h \<in> set (updateRows Q g (schedule_holds s))"
    if "h \<in> set (schedule_holds s)" "sh_status h \<noteq> ''held''" for h
    using g that by (auto simp: set_updateRows intro!: image_eqI [of _ _ h])
  ultimately show ?thesis by (simp add: noReopening_def)
qed

text \<open>Closing sessions: a new status for them, and their holds released.\<close>

definition release :: "hold_row \<Rightarrow> hold_row" where
  "release h = h\<lparr> sh_status := ''released'' \<rparr>"

definition closing :: "string set \<Rightarrow> string \<Rightarrow> user_graph \<Rightarrow> user_graph" where
  "closing ids st s =
     s\<lparr> schedule_sessions := updateRows (\<lambda>r. ss_session_id r \<in> ids) (\<lambda>r. r\<lparr> ss_status := st \<rparr>) (schedule_sessions s),
        schedule_holds := updateRows (\<lambda>h. sh_session_id h \<in> ids \<and> sh_status h = ''held'') release (schedule_holds s) \<rparr>"

lemma closeOne_run:
  "andThen (setSessionStatus sid st) (\<lambda>_. releaseSessionHolds sid) s = (Inr (), closing {sid} st s)"
  by (simp add: setSessionStatus_def releaseSessionHolds_def closing_def release_def [abs_def])

lemma closing_closing: "closing A st (closing B st s) = closing (A \<union> B) st s"
  by (simp add: closing_def updateRows_def comp_def release_def)

lemma closeAll_run:
  "forEach ids (\<lambda>sid. andThen (setSessionStatus sid st) (\<lambda>_. releaseSessionHolds sid)) s =
     (Inr (), closing (set ids) st s)"
proof (induction ids arbitrary: s)
  case Nil
  then show ?case by (simp add: ret_run closing_def updateRows_none)
next
  case (Cons sid ids)
  then show ?case by (simp only: forEach.simps andThen_Inr [OF closeOne_run] Cons closing_closing) simp
qed

lemma unique_session:
  assumes "sessions_ok s" and "sessionRows sid s = r # rest"
  shows "r \<in> set (schedule_sessions s)" "ss_session_id r = sid"
    "q \<in> set (schedule_sessions s) \<Longrightarrow> ss_session_id q = sid \<Longrightarrow> q = r"
proof -
  have "r \<in> set (sessionRows sid s)" using assms(2) by simp
  then show r: "r \<in> set (schedule_sessions s)" "ss_session_id r = sid" by (simp_all add: sessionRows_def)
  show "q \<in> set (schedule_sessions s) \<Longrightarrow> ss_session_id q = sid \<Longrightarrow> q = r"
    using assms(1) r distinct_key_eq [of ss_session_id "schedule_sessions s" q r] by (simp add: sessions_ok_def)
qed

lemma contractI:
  assumes "\<And>r. r \<in> set (schedule_sessions s) \<Longrightarrow> P r \<Longrightarrow> carriesOn r (f r)"
    and "\<And>r. ss_session_id (f r) = ss_session_id r"
    and "\<And>h. Q h \<Longrightarrow> sh_status h = ''held''"
    and "\<And>h. sh_hold_id (g h) = sh_hold_id h \<and> sh_session_id (g h) = sh_session_id h"
  shows "sessionContract s (s\<lparr> schedule_sessions := updateRows P f (schedule_sessions s),
    schedule_holds := updateRows Q g (schedule_holds s) \<rparr>)"
  using noReopening_updates [where s = s and P = P and f = f and Q = Q and g = g]
    sessions_ok_update [where s = s and f = f and g = g and P = P and Q = Q] assms
  by (simp add: sessionContract_def)

lemma closing_contract:
  assumes "\<And>r. r \<in> set (schedule_sessions s) \<Longrightarrow> ss_session_id r \<in> ids \<Longrightarrow> \<not> finished r"
  shows "sessionContract s (closing ids st s)"
  unfolding closing_def using assms
  by (intro contractI) (auto simp: carriesOn_def finished_def release_def)

lemma holds_contract:
  assumes "\<And>h. h \<in> set (schedule_holds s) \<Longrightarrow> Q h \<Longrightarrow> sh_status h = ''held''"
    and "\<And>h. sh_hold_id (g h) = sh_hold_id h \<and> sh_session_id (g h) = sh_session_id h"
  shows "sessionContract s (s\<lparr> schedule_holds := updateRows Q g (schedule_holds s) \<rparr>)"
proof -
  have rows: "updateRows Q g (schedule_holds s) = updateRows (\<lambda>h. Q h \<and> sh_status h = ''held'') g (schedule_holds s)"
    using assms(1) by (auto simp: updateRows_def)
  have "sessionContract s (s\<lparr> schedule_sessions := updateRows (\<lambda>_. False) id (schedule_sessions s),
      schedule_holds := updateRows (\<lambda>h. Q h \<and> sh_status h = ''held'') g (schedule_holds s) \<rparr>)"
    using assms(2) by (intro contractI) auto
  then show ?thesis by (simp add: rows updateRows_none)
qed

lemma sessions_contract:
  assumes "\<And>r. r \<in> set (schedule_sessions s) \<Longrightarrow> P r \<Longrightarrow> carriesOn r (f r)"
    and "\<And>r. ss_session_id (f r) = ss_session_id r"
  shows "sessionContract s (s\<lparr> schedule_sessions := updateRows P f (schedule_sessions s) \<rparr>)"
proof -
  have "sessionContract s (s\<lparr> schedule_sessions := updateRows P f (schedule_sessions s),
      schedule_holds := updateRows (\<lambda>_. False) id (schedule_holds s) \<rparr>)"
    using assms by (intro contractI) auto
  then show ?thesis by (simp add: updateRows_none)
qed

section \<open>Every method respects the contract\<close>

named_theorems session_stays \<open>methods that reopen nothing\<close>

lemma stays_insert [session_stays]:
  "stays sessionContract (insertSessionRow r)" "stays sessionContract (insertCandidateRow c)"
  "stays sessionContract (insertHoldRow h)"
  by (auto intro!: staysI simp: sessionContract_def insertSessionRow_def insertCandidateRow_def insertHoldRow_def
      sessions_ok_def noReopening_def carriesOn_self image_subset_iff)

lemma stays_release [session_stays]: "stays sessionContract (releaseSessionHolds sid)"
  unfolding releaseSessionHolds_def by (intro sess.stays_modify holds_contract) simp_all

lemma active_not_finished: "active r \<Longrightarrow> \<not> finished r"
  by (auto simp: active_def finished_def)

lemma contract_via:
  assumes "sessions_ok s \<Longrightarrow> sessionContract s t"
  shows "sessionContract s t"
  using assms by (auto simp: sessionContract_def)

lemma stays_expireStale [session_stays]: "stays sessionContract (expireStaleSchedulingSessions env h)"
proof (rule staysI, rule contract_via)
  fix s assume ok: "sessions_ok s"
  let ?ids = "map ss_session_id (filter (stale env h) (schedule_sessions s))"
  have "\<not> finished r" if r: "r \<in> set (schedule_sessions s)" "ss_session_id r \<in> set ?ids" for r
  proof -
    obtain q where "q \<in> set (schedule_sessions s)" "stale env h q" "ss_session_id q = ss_session_id r"
      using r(2) by auto
    then have "q = r" using ok r(1) distinct_key_eq [of ss_session_id "schedule_sessions s" q r]
      by (simp add: sessions_ok_def)
    with \<open>stale env h q\<close> show ?thesis by (simp add: stale_def active_not_finished)
  qed
  then have "sessionContract s (closing (set ?ids) ''expired'' s)" by (rule closing_contract)
  then show "sessionContract s (snd (expireStaleSchedulingSessions env h s))"
    by (auto simp: expireStaleSchedulingSessions_def closeAll_run andThen_def ret_run sess.same)
qed

lemma stays_get [session_stays]: "stays sessionContract (getSchedulingSession env sid)"
proof (rule staysI, rule contract_via)
  fix s assume ok: "sessions_ok s"
  show "sessionContract s (snd (getSchedulingSession env sid s))"
  proof (cases "sessionRows sid s")
    case Nil
    then show ?thesis by (simp add: getSchedulingSession_def throw_run sess.same)
  next
    case (Cons r rest)
    note u = unique_session [OF ok Cons]
    have "sessionContract s (closing {sid} ''expired'' s)" if "active r"
      by (rule closing_contract) (use u that active_not_finished in blast)
    then show ?thesis using Cons
      by (auto simp: getSchedulingSession_def andThen_assoc [symmetric] andThen_def [of "andThen _ _"] closeOne_run
          andThen_def [of "ret _"] ret_run split_def Let_def sess.same)
  qed
qed

lemma stays_list [session_stays]: "stays sessionContract (listSchedulingSessions env f l off)"
  unfolding listSchedulingSessions_def by (intro sess.stays_rules session_stays)

lemma stays_store [session_stays]:
  "stays sessionContract (storeSchedulingSession r cs)" "stays sessionContract (storeHolds hs)"
  unfolding storeSchedulingSession_def storeHolds_def by (intro sess.stays_rules session_stays)+

lemma stays_cancel [session_stays]: "stays sessionContract (cancelSchedulingSession sid)"
proof (rule staysI, rule contract_via)
  fix s assume ok: "sessions_ok s"
  show "sessionContract s (snd (cancelSchedulingSession sid s))"
  proof (cases "sessionRows sid s")
    case Nil
    then show ?thesis by (simp add: cancelSchedulingSession_def throw_run sess.same)
  next
    case (Cons r rest)
    note u = unique_session [OF ok Cons]
    have "sessionContract s (closing {sid} ''cancelled'' s)" if "\<not> finished r"
      by (rule closing_contract) (use u that in blast)
    then show ?thesis using Cons
      by (simp add: cancelSchedulingSession_def closeOne_run throw_run sess.same finished_def)
  qed
qed

lemma stays_commit [session_stays]: "stays sessionContract (commitSchedulingSession sid c e)"
  unfolding commitSchedulingSession_def
  by (intro sess.stays_rules sess.stays_modify sessions_contract) (auto simp: carriesOn_def finished_def)

lemma stays_updateHold [session_stays]: "stays sessionContract (updateHoldStatus hid st p)"
proof (rule staysI, rule contract_via)
  fix s assume ok: "sessions_ok s"
  show "sessionContract s (snd (updateHoldStatus hid st p s))"
  proof (cases "filter (\<lambda>h. sh_hold_id h = hid) (schedule_holds s)")
    case Nil
    then show ?thesis by (simp add: updateHoldStatus_def throw_run sess.same)
  next
    case (Cons h rest)
    then have "h \<in> set (filter (\<lambda>h. sh_hold_id h = hid) (schedule_holds s))" by simp
    then have h: "h \<in> set (schedule_holds s)" "sh_hold_id h = hid" by simp_all
    then have u: "x = h" if "x \<in> set (schedule_holds s)" "sh_hold_id x = hid" for x
      using ok that distinct_key_eq [of sh_hold_id "schedule_holds s" x h] by (simp add: sessions_ok_def)
    have "sessionContract s (s\<lparr> schedule_holds := updateRows (\<lambda>x. sh_hold_id x = hid)
        (\<lambda>x. x\<lparr> sh_status := st, sh_provider_event_id := orNullish p (sh_provider_event_id x) \<rparr>) (schedule_holds s) \<rparr>)"
      if "sh_status h = ''held''"
      by (rule holds_contract) (use u that in auto)
    then show ?thesis using Cons
      by (simp add: updateHoldStatus_def updateHolds_def throw_run sess.same allowedTransitions_def)
  qed
qed

lemma stays_extend [session_stays]: "stays sessionContract (extendHolds sid hs)"
  unfolding extendHolds_def updateHolds_def split_def
  by (intro sess.stays_rules sess.stays_modify holds_contract) auto

lemma releaseEach_run:
  "forEach hs (\<lambda>h. updateHolds (\<lambda>x. sh_hold_id x = sh_hold_id h) (\<lambda>x. x\<lparr> sh_status := ''released'' \<rparr>)) s =
     (Inr (), s\<lparr> schedule_holds := updateRows (\<lambda>x. sh_hold_id x \<in> sh_hold_id ` set hs) release (schedule_holds s) \<rparr>)"
proof (induction hs arbitrary: s)
  case Nil
  then show ?case by (simp add: ret_run updateRows_none)
next
  case (Cons h hs)
  then show ?case by (simp add: andThen_def updateHolds_def updateRows_def comp_def release_def)
qed

lemma commitHolds_run:
  assumes ok: "sessions_ok s"
  shows "commitSessionHolds sid c s =
    (Inr ([], map release (filter (\<lambda>h. sh_status h = ''held'') (holdsOf sid s))),
     s\<lparr> schedule_holds := updateRows (\<lambda>h. sh_session_id h = sid \<and> sh_status h = ''held'') release (schedule_holds s) \<rparr>)"
proof -
  let ?held = "filter (\<lambda>h. sh_status h = ''held'') (holdsOf sid s)"
  have "sh_hold_id x \<in> sh_hold_id ` set ?held \<longleftrightarrow> sh_session_id x = sid \<and> sh_status x = ''held''"
    if "x \<in> set (schedule_holds s)" for x
    using ok that distinct_key_eq [of sh_hold_id "schedule_holds s" x]
    by (auto simp: sessions_ok_def holdsOf_def)
  then have "updateRows (\<lambda>x. sh_hold_id x \<in> sh_hold_id ` set ?held) release (schedule_holds s) =
      updateRows (\<lambda>h. sh_session_id h = sid \<and> sh_status h = ''held'') release (schedule_holds s)"
    by (simp add: updateRows_def cong: map_cong)
  then show ?thesis
    by (simp add: commitSessionHolds_def getHoldsBySession_def Let_def andThen_def releaseEach_run ret_run
        release_def [abs_def])
qed

lemma stays_commitHolds [session_stays]: "stays sessionContract (commitSessionHolds sid c)"
proof (rule staysI, rule contract_via)
  fix s assume "sessions_ok s"
  then show "sessionContract s (snd (commitSessionHolds sid c s))"
    by (simp add: commitHolds_run) (rule holds_contract; simp add: release_def)
qed

lemma stays_expireTerminal [session_stays]: "stays sessionContract (expireSessionIfAllHoldsTerminal sid)"
proof (rule staysI, rule contract_via)
  fix s assume ok: "sessions_ok s"
  show "sessionContract s (snd (expireSessionIfAllHoldsTerminal sid s))"
  proof (cases "sessionRows sid s")
    case Nil
    then show ?thesis by (simp add: expireSessionIfAllHoldsTerminal_def ret_run sess.same)
  next
    case (Cons r rest)
    note u = unique_session [OF ok Cons]
    have "sessionContract s (s\<lparr> schedule_sessions := updateRows (\<lambda>x. ss_session_id x = sid)
        (\<lambda>x. x\<lparr> ss_status := ''expired'' \<rparr>) (schedule_sessions s) \<rparr>)" if ready: "ss_status r = ''candidates_ready''"
    proof (rule sessions_contract)
      fix x assume "x \<in> set (schedule_sessions s)" "ss_session_id x = sid"
      then have "x = r" by (rule u(3))
      with ready show "carriesOn x (x\<lparr> ss_status := ''expired'' \<rparr>)" by (simp add: carriesOn_def finished_def)
    qed simp
    then show ?thesis using Cons
      by (simp add: expireSessionIfAllHoldsTerminal_def setSessionStatus_def andThen_def ret_run sess.same)
  qed
qed

section \<open>Runs\<close>

datatype session_command =
    Store session_row "candidate_input list"
  | Get string
  | Commit string string string
  | List_sessions "string option" nat nat
  | Cancel string
  | Expire_stale int
  | Store_holds "hold_row list"
  | Update_hold string string "string option"
  | Commit_holds string string
  | Release_holds string
  | Extend_holds string "(string \<times> string) list"
  | Expire_if_terminal string

fun runCommand :: "graph_env \<Rightarrow> session_command \<Rightarrow> user_graph \<Rightarrow> user_graph" where
  "runCommand env (Store r cs) s = snd (storeSchedulingSession r cs s)"
| "runCommand env (Get sid) s = snd (getSchedulingSession env sid s)"
| "runCommand env (Commit sid c e) s = snd (commitSchedulingSession sid c e s)"
| "runCommand env (List_sessions f l off) s = snd (listSchedulingSessions env f l off s)"
| "runCommand env (Cancel sid) s = snd (cancelSchedulingSession sid s)"
| "runCommand env (Expire_stale h) s = snd (expireStaleSchedulingSessions env h s)"
| "runCommand env (Store_holds hs) s = snd (storeHolds hs s)"
| "runCommand env (Update_hold hid st p) s = snd (updateHoldStatus hid st p s)"
| "runCommand env (Commit_holds sid c) s = snd (commitSessionHolds sid c s)"
| "runCommand env (Release_holds sid) s = snd (releaseSessionHolds sid s)"
| "runCommand env (Extend_holds sid hs) s = snd (extendHolds sid hs s)"
| "runCommand env (Expire_if_terminal sid) s = snd (expireSessionIfAllHoldsTerminal sid s)"

text \<open>A run: commands at arbitrary times, each either completing or stopping at its exception.\<close>

inductive session_run :: "user_graph \<Rightarrow> user_graph \<Rightarrow> bool" for s where
  start: "session_run s s"
| step: "session_run s t \<Longrightarrow> session_run s (runCommand env c t)"

lemma command_contract: "sessionContract s (runCommand env c s)"
  by (cases c) (simp_all only: runCommand.simps staysD [OF stays_store(1)] staysD [OF stays_get]
      staysD [OF stays_commit] staysD [OF stays_list] staysD [OF stays_cancel] staysD [OF stays_expireStale]
      staysD [OF stays_store(2)] staysD [OF stays_updateHold] staysD [OF stays_commitHolds]
      staysD [OF stays_release] staysD [OF stays_extend] staysD [OF stays_expireTerminal])

lemma session_run_contract: "session_run s t \<Longrightarrow> sessionContract s t"
proof (induction rule: session_run.induct)
  case start
  show ?case by (rule sess.same)
next
  case (step t env c)
  from sess.chain [OF step.IH command_contract] show ?case .
qed

end
