(* ===== verification/Graph_Maintenance.thy ===== *)
theory Graph_Maintenance
  imports Delta_Laws
begin

text \<open>
  Health and repair of the mirror table: \<^verbatim>\<open>getSyncHealth\<close>, \<^verbatim>\<open>listErrorMirrors\<close>, the counts of
  \<^verbatim>\<open>getMirrorDiagnostics\<close> and the three \<^verbatim>\<open>settle...Pending\<close> methods, which declare waiting mirrors
  converged. The lemmas show that settling touches only waiting mirrors that have a provider id,
  reports exactly how many, and leaves none of them behind.
\<close>

section \<open>Joins\<close>

text \<open>\<^verbatim>\<open>JOIN\<close> and \<^verbatim>\<open>LEFT JOIN\<close> of the mirrors with their events, and of an event with the edges to a target.\<close>

definition withEvents :: "user_graph \<Rightarrow> mirror_row list \<Rightarrow> (mirror_row \<times> event_row) list" where
  "withEvents s ms = concat (map (\<lambda>m. map (Pair m) (eventsWithId (em_canonical_event_id m) s)) ms)"

definition leftJoin :: "'b list \<Rightarrow> 'b option list" where
  "leftJoin xs = (if xs = [] then [None] else map Some xs)"

definition edgesBetween :: "user_graph \<Rightarrow> event_row option \<Rightarrow> string \<Rightarrow> edge_row list" where
  "edgesBetween s c target =
     (case c of
        None \<Rightarrow> []
      | Some r \<Rightarrow> filter (\<lambda>e. pe_from_account_id e = ce_origin_account_id r \<and> pe_to_account_id e = target)
                    (policy_edges s))"

definition inState :: "mirror_state \<Rightarrow> user_graph \<Rightarrow> mirror_row list" where
  "inState st s = filter (\<lambda>m. em_state m = st) (event_mirrors s)"

section \<open>Health\<close>

record sync_health =
  sy_total_events :: nat
  sy_total_mirrors :: nat
  sy_total_journal_entries :: nat
  sy_pending_mirrors :: nat
  sy_error_mirrors :: nat
  sy_last_journal_ts :: "string option"

definition getSyncHealth :: "sync_health graph_op" where
  "getSyncHealth = query (\<lambda>s.
     \<lparr> sy_total_events = length (canonical_events s), sy_total_mirrors = length (event_mirrors s),
       sy_total_journal_entries = length (event_journal s),
       sy_pending_mirrors = length (inState PENDING s), sy_error_mirrors = length (inState ERROR s),
       sy_last_journal_ts =
         (case rev (sort_key ej_ts (event_journal s)) of [] \<Rightarrow> None | j # _ \<Rightarrow> Some (ej_ts j)) \<rparr>)"

text \<open>\<^verbatim>\<open>COALESCE(m.last_write_ts, c.updated_at, c.created_at)\<close> with the event possibly missing.\<close>

definition writeOrder :: "mirror_row \<Rightarrow> event_row option \<Rightarrow> string option" where
  "writeOrder m c = orNullish (em_last_write_ts m) (map_option ce_updated_at c)"

definition pageLimit :: "int \<Rightarrow> int \<Rightarrow> int option \<Rightarrow> nat" where
  "pageLimit maximum default' limit = nat (case limit of None \<Rightarrow> default' | Some n \<Rightarrow> clampTo 1 maximum n)"

text \<open>A missing sort value is NULL, which SQLite orders below every text.\<close>

definition nullFirst :: "string option \<Rightarrow> nat \<times> string" where
  "nullFirst x = (case x of None \<Rightarrow> (0, []) | Some v \<Rightarrow> (1, v))"

definition listErrorMirrors :: "int option \<Rightarrow> (mirror_row \<times> event_row option) list graph_op" where
  "listErrorMirrors limit = query (\<lambda>s.
     take (pageLimit 500 100 limit)
       (rev (sort_key (\<lambda>(m, c). fst (nullFirst (writeOrder m c)))
         (sort_key (\<lambda>(m, c). snd (nullFirst (writeOrder m c)))
           (concat (map (\<lambda>m. map (Pair m) (leftJoin (eventsWithId (em_canonical_event_id m) s)))
             (inState ERROR s)))))))"

definition pendingWithoutProvider :: "user_graph \<Rightarrow> nat" where
  "pendingWithoutProvider s = length (filter (\<lambda>m. \<not> truthy (em_provider_event_id m)) (inState PENDING s))"

definition pendingWithProvider :: "user_graph \<Rightarrow> nat" where
  "pendingWithProvider s = length (filter (\<lambda>m. truthy (em_provider_event_id m)) (inState PENDING s))"

definition pendingNonProjectable :: "user_graph \<Rightarrow> nat" where
  "pendingNonProjectable s = length (filter (\<lambda>(c, e). c = None \<or> e = None)
     (concat (map (\<lambda>m. concat (map (\<lambda>c. map (Pair c) (leftJoin (edgesBetween s c (em_target_account_id m))))
        (leftJoin (eventsWithId (em_canonical_event_id m) s)))) (inState PENDING s))))"

text \<open>\<^verbatim>\<open>julianday(end_ts) <= julianday('now', '-n days')\<close> and its counterpart ahead.\<close>

definition endedBefore :: "graph_env \<Rightarrow> int \<Rightarrow> event_row \<Rightarrow> bool" where
  "endedBefore env days r \<longleftrightarrow> ce_end_ts r \<noteq> [] \<and>
     (case julianMs (sql_date env) (ce_end_ts r) of None \<Rightarrow> False | Some ms \<Rightarrow> ms \<le> now_ms env - days * dayMs)"

definition endsAfter :: "graph_env \<Rightarrow> int \<Rightarrow> event_row \<Rightarrow> bool" where
  "endsAfter env days r \<longleftrightarrow> ce_end_ts r \<noteq> [] \<and>
     (case julianMs (sql_date env) (ce_end_ts r) of None \<Rightarrow> False | Some ms \<Rightarrow> ms \<ge> now_ms env + days * dayMs)"

definition pendingWindow :: "graph_env \<Rightarrow> user_graph \<Rightarrow> nat \<times> nat \<times> nat" where
  "pendingWindow env s =
     (let rows = map snd (withEvents s (inState PENDING s)) in
      (length (filter (endedBefore env 30) rows),
       length (filter (endsAfter env 365) rows),
       length (filter (\<lambda>r. ce_end_ts r \<noteq> [] \<and>
         (case julianMs (sql_date env) (ce_end_ts r) of
            None \<Rightarrow> False
          | Some ms \<Rightarrow> ms > now_ms env - 30 * dayMs \<and> ms < now_ms env + 365 * dayMs)) rows)))"

section \<open>Settling\<close>

definition settleMirror :: "graph_env \<Rightarrow> mirror_row \<Rightarrow> mirror_row" where
  "settleMirror env m =
     m\<lparr> em_state := ACTIVE, em_error_message := None, em_last_write_ts := Some (nowIso env) \<rparr>"

definition waiting :: "mirror_row \<Rightarrow> bool" where
  "waiting m \<longleftrightarrow> em_state m = PENDING \<and> truthy (em_provider_event_id m)"

definition settleIfAny :: "graph_env \<Rightarrow> nat \<Rightarrow> (user_graph \<Rightarrow> mirror_row \<Rightarrow> bool) \<Rightarrow> unit graph_op" where
  "settleIfAny env n P =
     (if n > 0 then modify (\<lambda>s. s\<lparr> event_mirrors := updateRows (P s) (settleMirror env) (event_mirrors s) \<rparr>)
      else ret ())"

text \<open>\<^verbatim>\<open>canonical_event_id IN (SELECT ... WHERE Q)\<close>.\<close>

definition eventIn :: "(event_row \<Rightarrow> bool) \<Rightarrow> user_graph \<Rightarrow> mirror_row \<Rightarrow> bool" where
  "eventIn Q s m \<longleftrightarrow>
     (\<exists>r \<in> set (canonical_events s). ce_canonical_event_id r = em_canonical_event_id m \<and> Q r)"

definition settleDays :: "int \<Rightarrow> int \<Rightarrow> int option \<Rightarrow> int" where
  "settleDays maximum default' days = (case days of None \<Rightarrow> default' | Some n \<Rightarrow> clampTo 1 maximum n)"

definition settleHistoricalPending :: "graph_env \<Rightarrow> int option \<Rightarrow> (nat \<times> int) graph_op" where
  "settleHistoricalPending env cutoff =
     (let days = settleDays 3650 30 cutoff in
      andThen (query (\<lambda>s. length (filter (\<lambda>(m, c). waiting m \<and> endedBefore env days c)
                            (withEvents s (event_mirrors s))))) (\<lambda>eligible.
      andThen (settleIfAny env eligible (\<lambda>s m. waiting m \<and> eventIn (endedBefore env days) s m)) (\<lambda>_.
      ret (eligible, days))))"

definition settleOutOfWindowPending ::
  "graph_env \<Rightarrow> int option \<Rightarrow> int option \<Rightarrow> (nat \<times> nat \<times> nat \<times> int \<times> int) graph_op" where
  "settleOutOfWindowPending env past future =
     (let pastDays = settleDays 3650 30 past; futureDays = settleDays 36500 365 future in
      andThen (query (\<lambda>s.
        let rows = filter (\<lambda>(m, c). waiting m \<and> (endedBefore env pastDays c \<or> endsAfter env futureDays c))
                     (withEvents s (event_mirrors s)) in
        (length (filter (\<lambda>(m, c). endedBefore env pastDays c) rows),
         length (filter (\<lambda>(m, c). endsAfter env futureDays c) rows)))) (\<lambda>(settledPast, settledFuture).
      andThen (settleIfAny env (settledPast + settledFuture) (\<lambda>s m. waiting m \<and>
                 eventIn (\<lambda>r. endedBefore env pastDays r \<or> endsAfter env futureDays r) s m)) (\<lambda>_.
      ret (settledPast + settledFuture, settledPast, settledFuture, pastDays, futureDays))))"

definition stuck :: "graph_env \<Rightarrow> int \<Rightarrow> mirror_row \<Rightarrow> bool" where
  "stuck env minutes m \<longleftrightarrow>
     waiting m \<and> \<not> truthy (em_error_message m) \<and>
     (case julianMs (sql_date env) (nullish (em_last_write_ts m) ''1970-01-01T00:00:00Z'') of
        None \<Rightarrow> False | Some ms \<Rightarrow> ms \<le> now_ms env - minutes * 60000)"

definition settleStuckPending :: "graph_env \<Rightarrow> int option \<Rightarrow> (nat \<times> int) graph_op" where
  "settleStuckPending env minAge =
     (let minutes = settleDays (7 * 24 * 60) 120 minAge in
      andThen (query (\<lambda>s. length (filter (stuck env minutes) (event_mirrors s)))) (\<lambda>eligible.
      andThen (settleIfAny env eligible (\<lambda>s. stuck env minutes)) (\<lambda>_.
      ret (eligible, minutes))))"

section \<open>What settling does\<close>

lemma keeps_settle [graph_keeps]:
  "keeps (graph_ok env) (settleIfAny env' n P)" "keeps (graph_ok env) (settleHistoricalPending env' d)"
  "keeps (graph_ok env) (settleOutOfWindowPending env' p f)" "keeps (graph_ok env) (settleStuckPending env' k)"
proof -
  show s: "keeps (graph_ok env) (settleIfAny env' n P)" for n P
    unfolding settleIfAny_def
    by (intro keeps_intro keeps_modify graph_ok_updateMirrors)
       (simp_all add: keepsMirrorKey_def settleMirror_def)
  show "keeps (graph_ok env) (settleHistoricalPending env' d)"
    "keeps (graph_ok env) (settleOutOfWindowPending env' p f)" "keeps (graph_ok env) (settleStuckPending env' k)"
    unfolding settleHistoricalPending_def settleOutOfWindowPending_def settleStuckPending_def Let_def split_def
    by (intro keeps_intro s)+
qed

text \<open>
  Settled states, for a choice \<open>P\<close> of waiting mirrors: those change to ACTIVE, all others stay.
\<close>

definition settled :: "graph_env \<Rightarrow> (user_graph \<Rightarrow> mirror_row \<Rightarrow> bool) \<Rightarrow> user_graph \<Rightarrow> user_graph" where
  "settled env P s = s\<lparr> event_mirrors := updateRows (P s) (settleMirror env) (event_mirrors s) \<rparr>"

lemma settleIfAny_settled:
  assumes "n = 0 \<Longrightarrow> filter (P s) (event_mirrors s) = []"
  shows "settleIfAny env n P s = (Inr (), settled env P s)"
proof (cases "n = 0")
  case True
  with assms have "\<forall>m \<in> set (event_mirrors s). \<not> P s m" by (simp add: filter_empty_conv)
  then show ?thesis using True
    by (simp add: settleIfAny_def settled_def ret_run updateRows_none)
qed (simp add: settleIfAny_def settled_def)

lemma eventIn_row:
  assumes "graph_ok env s" and "m \<in> set (event_mirrors s)"
  obtains r where "eventsWithId (em_canonical_event_id m) s = [r]" "\<And>Q. eventIn Q s m \<longleftrightarrow> Q r"
proof -
  have "em_canonical_event_id m \<in> eventIds s"
    using assms by (auto simp: graph_ok_def mirrors_ok_def)
  then obtain r where r: "r \<in> set (canonical_events s)" "ce_canonical_event_id r = em_canonical_event_id m"
    by (auto simp: eventIds_def)
  have same: "q = r" if "q \<in> set (canonical_events s)"
      "ce_canonical_event_id q = em_canonical_event_id m" for q
    using distinct_key_eq [OF ok_events_distinct [OF assms(1)] that(1) r(1)] that(2) r(2) by simp
  have "eventIn Q s m \<longleftrightarrow> Q r" for Q
    unfolding eventIn_def using same r by blast
  then show thesis by (rule that [OF eventsWithId_unique [OF assms(1) r]])
qed

lemma length_withEvents:
  assumes "graph_ok env s" and "set ms \<subseteq> set (event_mirrors s)"
  shows "length (filter (\<lambda>(m, c). A m \<and> Q c) (withEvents s ms)) = length (filter (\<lambda>m. A m \<and> eventIn Q s m) ms)"
  using assms(2)
proof (induction ms)
  case (Cons m ms)
  from Cons.prems obtain r where "eventsWithId (em_canonical_event_id m) s = [r]" "\<And>Q. eventIn Q s m \<longleftrightarrow> Q r"
    using eventIn_row [OF assms(1), of m] by auto
  with Cons show ?case by (simp add: withEvents_def)
qed (simp add: withEvents_def)

lemma settleHistorical_run:
  assumes "graph_ok env s" and days: "days = settleDays 3650 30 cutoff"
    and P: "P = (\<lambda>s m. waiting m \<and> eventIn (endedBefore env days) s m)"
  shows "settleHistoricalPending env cutoff s =
    (Inr (length (filter (P s) (event_mirrors s)), days), settled env P s)"
proof -
  have n: "length (filter (\<lambda>(m, c). waiting m \<and> endedBefore env days c) (withEvents s (event_mirrors s))) =
        length (filter (P s) (event_mirrors s))"
    unfolding P by (rule length_withEvents [OF assms(1) subset_refl])
  have "settleIfAny env (length (filter (P s) (event_mirrors s))) P s = (Inr (), settled env P s)"
    by (rule settleIfAny_settled) simp
  with n show ?thesis
    by (simp add: settleHistoricalPending_def days [symmetric] Let_def P andThen_def ret_run)
qed

lemma settleStuck_run:
  "settleStuckPending env minAge s =
    (let minutes = settleDays (7 * 24 * 60) 120 minAge in
     (Inr (length (filter (stuck env minutes) (event_mirrors s)), minutes), settled env (\<lambda>s. stuck env minutes) s))"
proof -
  have "settleIfAny env (length (filter (stuck env k) (event_mirrors s))) (\<lambda>s. stuck env k) s =
        (Inr (), settled env (\<lambda>s. stuck env k) s)" for k
    by (rule settleIfAny_settled) simp
  then show ?thesis by (simp add: settleStuckPending_def Let_def andThen_def ret_run)
qed

lemma settled_rows:
  "length (event_mirrors (settled env P s)) = length (event_mirrors s)"
  "i < length (event_mirrors s) \<Longrightarrow>
   event_mirrors (settled env P s) ! i =
     (if P s (event_mirrors s ! i) then settleMirror env (event_mirrors s ! i) else event_mirrors s ! i)"
  by (simp_all add: settled_def updateRows_def)

end
