(* ===== verification/Provider_Ids.thy ===== *)
theory Provider_Ids
  imports Json_Text
begin

text \<open>
  \<^verbatim>\<open>packages/shared/src/normalize-provider-id.ts\<close>: the canonical form of a provider's event id is
  the id with every layer of URL encoding removed. \<^verbatim>\<open>decodeURIComponent\<close> and \<^verbatim>\<open>encodeURIComponent\<close>
  are the two functions of ECMA-262 on the UTF-8 bytes of the string; the first throws
  \<^verbatim>\<open>URIError\<close> (here \<open>None\<close>) on an escape that is malformed or not valid UTF-8.
\<close>

section \<open>Percent encoding\<close>

definition hexValue :: "char \<Rightarrow> nat option" where
  "hexValue c =
     (let n = of_char c
      in if 48 \<le> n \<and> n \<le> 57 then Some (n - 48)
         else if 65 \<le> n \<and> n \<le> 70 then Some (n - 55)
         else if 97 \<le> n \<and> n \<le> 102 then Some (n - 87)
         else None)"

text \<open>One escaped byte \<^verbatim>\<open>%XX\<close>.\<close>

definition pctByte :: "string \<Rightarrow> (nat \<times> string) option" where
  "pctByte s =
     (case s of
        p # a # b # r \<Rightarrow>
          if p = CHR ''%'' then
            (case (hexValue a, hexValue b) of
               (Some h, Some l) \<Rightarrow> Some (16 * h + l, r)
             | _ \<Rightarrow> None)
          else None
      | _ \<Rightarrow> None)"

text \<open>How many bytes a UTF-8 sequence starting with this one has; 0 for an invalid first byte.\<close>

definition utf8Length :: "nat \<Rightarrow> nat" where
  "utf8Length b =
     (if b < 128 then 1 else if 194 \<le> b \<and> b \<le> 223 then 2
      else if 224 \<le> b \<and> b \<le> 239 then 3 else if 240 \<le> b \<and> b \<le> 244 then 4 else 0)"

fun continuationBytes :: "nat \<Rightarrow> string \<Rightarrow> (nat list \<times> string) option" where
  "continuationBytes 0 s = Some ([], s)"
| "continuationBytes (Suc n) s =
     (case pctByte s of
        None \<Rightarrow> None
      | Some (b, r) \<Rightarrow>
          if 128 \<le> b \<and> b \<le> 191 then
            (case continuationBytes n r of None \<Rightarrow> None | Some (bs, t) \<Rightarrow> Some (b # bs, t))
          else None)"

text \<open>No overlong form, no surrogate, nothing above U+10FFFF.\<close>

definition validSecond :: "nat \<Rightarrow> nat list \<Rightarrow> bool" where
  "validSecond b cs =
     (case cs of
        [] \<Rightarrow> True
      | c # _ \<Rightarrow>
          (b = 224 \<longrightarrow> 160 \<le> c) \<and> (b = 237 \<longrightarrow> c \<le> 159) \<and> (b = 240 \<longrightarrow> 144 \<le> c) \<and> (b = 244 \<longrightarrow> c \<le> 143))"

definition decodeEscape :: "string \<Rightarrow> (string \<times> string) option" where
  "decodeEscape s =
     (case pctByte s of
        None \<Rightarrow> None
      | Some (b, r) \<Rightarrow>
          if utf8Length b = 0 then None
          else (case continuationBytes (utf8Length b - 1) r of
                  None \<Rightarrow> None
                | Some (cs, t) \<Rightarrow>
                    if validSecond b cs then Some (map char_of (b # cs), t) else None))"

lemma pctByte_length: "pctByte s = Some (b, r) \<Longrightarrow> length s = length r + 3"
  by (auto simp: pctByte_def split: list.splits if_splits option.splits)

lemma continuationBytes_length:
  "continuationBytes n s = Some (bs, r) \<Longrightarrow> length s = length r + 3 * length bs"
proof (induction n arbitrary: s bs r)
  case 0
  then show ?case by simp
next
  case (Suc n)
  then show ?case
    by (auto split: option.splits if_splits dest!: pctByte_length)
qed

lemma decodeEscape_length:
  "decodeEscape s = Some (cs, t) \<Longrightarrow> length s = length t + 3 * length cs \<and> cs \<noteq> []"
  by (auto simp: decodeEscape_def split: option.splits if_splits
      dest!: pctByte_length continuationBytes_length)

function decodeURIComponent :: "string \<Rightarrow> string option" where
  "decodeURIComponent [] = Some []"
| "decodeURIComponent (c # s) =
     (if c \<noteq> CHR ''%'' then map_option (Cons c) (decodeURIComponent s)
      else (case decodeEscape (c # s) of
              None \<Rightarrow> None
            | Some (cs, t) \<Rightarrow> map_option (append cs) (decodeURIComponent t)))"
  by pat_completeness auto
termination
  by (relation "measure length") (auto dest!: decodeEscape_length)

definition uriUnreserved :: "char \<Rightarrow> bool" where
  "uriUnreserved c \<longleftrightarrow>
     (let n = of_char c :: nat
      in 48 \<le> n \<and> n \<le> 57 \<or> 65 \<le> n \<and> n \<le> 90 \<or> 97 \<le> n \<and> n \<le> 122) \<or>
     c \<in> set ''-_.!~*()'' \<or> c = CHR 0x27"

definition upperHexChar :: "nat \<Rightarrow> char" where
  "upperHexChar n = (if n < 10 then char_of (48 + n) else char_of (55 + n))"

definition encodeChar :: "char \<Rightarrow> string" where
  "encodeChar c =
     (if uriUnreserved c then [c]
      else [CHR ''%'', upperHexChar (of_char c div 16), upperHexChar (of_char c mod 16)])"

definition encodeURIComponent :: "string \<Rightarrow> string" where
  "encodeURIComponent s = concat (map encodeChar s)"

section \<open>The canonical form\<close>

lemma decodeURIComponent_length: "decodeURIComponent s = Some t \<Longrightarrow> t = s \<or> length t < length s"
proof (induction s arbitrary: t rule: decodeURIComponent.induct)
  case 1
  then show ?case by simp
next
  case (2 c s)
  show ?case
  proof (cases "c = CHR ''%''")
    case False
    with 2 show ?thesis by auto
  next
    case True
    with "2.prems" obtain cs u v where u: "decodeEscape (c # s) = Some (cs, u)"
      "decodeURIComponent u = Some v" "t = cs @ v"
      by (auto split: option.splits)
    then have "length v \<le> length u"
      using "2.IH"(2) [OF _ u(1) refl u(2)] True by auto
    with u decodeEscape_length [OF u(1)] show ?thesis by (cases cs) auto
  qed
qed

text \<open>
  The loop decodes until nothing changes or the decoder throws. Each round that changes the string
  shortens it, so it ends.
\<close>

function canonicalizeProviderEventId :: "string \<Rightarrow> string" where
  "canonicalizeProviderEventId s =
     (case decodeURIComponent s of
        None \<Rightarrow> s
      | Some t \<Rightarrow> if t = s then s else canonicalizeProviderEventId t)"
  by pat_completeness auto
termination
  by (relation "measure length") (auto dest!: decodeURIComponent_length)

declare canonicalizeProviderEventId.simps [simp del]

lemma canonicalizeProviderEventId_final:
  "decodeURIComponent (canonicalizeProviderEventId s) = None \<or>
   decodeURIComponent (canonicalizeProviderEventId s) = Some (canonicalizeProviderEventId s)"
proof (induction s rule: canonicalizeProviderEventId.induct)
  case (1 s)
  show ?case
  proof (cases "decodeURIComponent s")
    case None
    then show ?thesis by (simp add: canonicalizeProviderEventId.simps [of s])
  next
    case (Some t)
    with 1 show ?thesis
      by (cases "t = s") (simp_all add: canonicalizeProviderEventId.simps [of s])
  qed
qed

lemma canonicalize_idem:
  "canonicalizeProviderEventId (canonicalizeProviderEventId s) = canonicalizeProviderEventId s"
  using canonicalizeProviderEventId_final [of s]
  by (subst canonicalizeProviderEventId.simps) auto

lemma canonicalize_layer:
  "decodeURIComponent s = Some t \<Longrightarrow> canonicalizeProviderEventId s = canonicalizeProviderEventId t"
  by (cases "t = s") (simp_all add: canonicalizeProviderEventId.simps [of s])

lemma canonicalize_length: "length (canonicalizeProviderEventId s) \<le> length s"
proof (induction s rule: canonicalizeProviderEventId.induct)
  case (1 s)
  show ?case
    by (subst canonicalizeProviderEventId.simps)
      (use 1 decodeURIComponent_length in \<open>fastforce split: option.split\<close>)
qed

section \<open>Decoding undoes encoding\<close>

lemma hexValue_upperHexChar: "n < 16 \<Longrightarrow> hexValue (upperHexChar n) = Some n"
  by (simp add: hexValue_def upperHexChar_def of_char_of Let_def)

lemma uriUnreserved_not_percent: "uriUnreserved c \<Longrightarrow> c \<noteq> CHR ''%''"
  by (auto simp: uriUnreserved_def)

lemma decode_encode_ascii:
  assumes "\<forall>c \<in> set s. (of_char c :: nat) < 128"
  shows "decodeURIComponent (encodeURIComponent s) = Some s"
  using assms
proof (induction s)
  case Nil
  then show ?case by (simp add: encodeURIComponent_def)
next
  case (Cons c s)
  let ?n = "of_char c :: nat"
  have IH: "decodeURIComponent (concat (map encodeChar s)) = Some s"
    using Cons by (simp add: encodeURIComponent_def)
  show ?case
  proof (cases "uriUnreserved c")
    case True
    then show ?thesis
      using IH uriUnreserved_not_percent [OF True] by (simp add: encodeURIComponent_def encodeChar_def)
  next
    case False
    have n: "?n < 128" using Cons.prems by simp
    then have d: "?n div 16 < 16" "?n mod 16 < 16" by (auto intro: less_mult_imp_div_less)
    have "pctByte (encodeChar c @ concat (map encodeChar s)) = Some (?n, concat (map encodeChar s))"
      using False n d by (simp add: encodeChar_def pctByte_def hexValue_upperHexChar)
    then have "decodeEscape (encodeChar c @ concat (map encodeChar s)) = Some ([c], concat (map encodeChar s))"
      using n by (simp add: decodeEscape_def utf8Length_def validSecond_def)
    then show ?thesis
      using IH False by (simp add: encodeURIComponent_def encodeChar_def)
  qed
qed

text \<open>Any number of layers of encoding is undone.\<close>

definition asciiOnly :: "string \<Rightarrow> bool" where
  "asciiOnly s \<longleftrightarrow> (\<forall>c \<in> set s. (of_char c :: nat) < 128)"

lemma asciiOnly_encode: "asciiOnly s \<Longrightarrow> asciiOnly (encodeURIComponent s)"
proof -
  have hex: "(of_char (upperHexChar n) :: nat) < 128" if "n < 16" for n
    using that by (simp add: upperHexChar_def of_char_of)
  have "\<forall>x \<in> set (encodeChar c). (of_char x :: nat) < 128" if "(of_char c :: nat) < 128" for c
  proof -
    have "of_char c div 16 < (16 :: nat)" "of_char c mod 16 < (16 :: nat)"
      using that by (auto intro: less_mult_imp_div_less)
    with that hex show ?thesis by (auto simp: encodeChar_def)
  qed
  then show "asciiOnly s \<Longrightarrow> asciiOnly (encodeURIComponent s)"
    by (auto simp: asciiOnly_def encodeURIComponent_def)
qed

lemma canonicalize_encode:
  "asciiOnly s \<Longrightarrow> canonicalizeProviderEventId (encodeURIComponent s) = canonicalizeProviderEventId s"
  using decode_encode_ascii [of s] canonicalize_layer by (simp add: asciiOnly_def)

lemma canonicalize_encode_power:
  "asciiOnly s \<Longrightarrow>
   asciiOnly ((encodeURIComponent ^^ n) s) \<and>
   canonicalizeProviderEventId ((encodeURIComponent ^^ n) s) = canonicalizeProviderEventId s"
  by (induction n) (auto simp: asciiOnly_encode canonicalize_encode)

end
