(* ===== verification/Graph_Mirrors.thy ===== *)
theory Graph_Mirrors
  imports Delta_Laws Provider_Ids
begin

text \<open>
  The methods of \<^verbatim>\<open>UserGraphDO\<close> that the write consumer and the reconcile workflow call: reading
  and updating a mirror row, the busy overlay calendar of an account, finding an event by a mirror's
  provider id, the daily normalisation of provider ids and the discrepancy log.
\<close>

section \<open>Mirror rows\<close>

definition getMirror :: "string \<Rightarrow> string \<Rightarrow> mirror_row option graph_op" where
  "getMirror cid target = query (\<lambda>s. case mirrorRows cid target s of [] \<Rightarrow> None | m # _ \<Rightarrow> Some m)"

record mirror_update =
  mu_provider_event_id :: "string option"
  mu_last_projected_hash :: "string option"
  mu_last_write_ts :: "string option"
  mu_state :: "mirror_state option"
  mu_error_message :: "string option option"
  mu_target_calendar_id :: "string option"

definition noUpdate :: mirror_update where
  "noUpdate = \<lparr> mu_provider_event_id = None, mu_last_projected_hash = None, mu_last_write_ts = None,
                mu_state = None, mu_error_message = None, mu_target_calendar_id = None \<rparr>"

definition applyMirrorUpdate :: "mirror_update \<Rightarrow> mirror_row \<Rightarrow> mirror_row" where
  "applyMirrorUpdate u m =
     m\<lparr> em_provider_event_id := orNullish (mu_provider_event_id u) (em_provider_event_id m),
        em_last_projected_hash := orNullish (mu_last_projected_hash u) (em_last_projected_hash m),
        em_last_write_ts := orNullish (mu_last_write_ts u) (em_last_write_ts m),
        em_state := nullish (mu_state u) (em_state m),
        em_error_message := nullish (mu_error_message u) (em_error_message m),
        em_target_calendar_id := nullish (mu_target_calendar_id u) (em_target_calendar_id m) \<rparr>"

definition updateMirrorState :: "string \<Rightarrow> string \<Rightarrow> mirror_update \<Rightarrow> unit graph_op" where
  "updateMirrorState cid target u =
     (if u = noUpdate then ret ()
      else updateMirrorRows (\<lambda>m. em_canonical_event_id m = cid \<and> em_target_account_id m = target)
             (applyMirrorUpdate u))"

definition getActiveMirrors :: "string \<Rightarrow> mirror_row list graph_op" where
  "getActiveMirrors target =
     query (\<lambda>s. filter (\<lambda>m. em_target_account_id m = target \<and> em_state m = ACTIVE) (event_mirrors s))"

section \<open>Calendars\<close>

definition getBusyOverlayCalendar :: "string \<Rightarrow> string option graph_op" where
  "getBusyOverlayCalendar acct = query (\<lambda>s.
     case filter (\<lambda>c. ca_account_id c = acct \<and> ca_kind c = ''BUSY_OVERLAY'') (calendars s) of
       [] \<Rightarrow> None | c # _ \<Rightarrow> Some (ca_provider_calendar_id c))"

text \<open>\<^verbatim>\<open>INSERT OR REPLACE\<close>: the rows the new one conflicts with are deleted first.\<close>

definition insertOrReplaceCalendar :: "calendar_row \<Rightarrow> unit graph_op" where
  "insertOrReplaceCalendar c = modify (\<lambda>s. s\<lparr> calendars :=
     deleteRows (\<lambda>x. ca_calendar_id x = ca_calendar_id c \<or>
        ca_account_id x = ca_account_id c \<and> ca_provider_calendar_id x = ca_provider_calendar_id c)
       (calendars s) @ [c] \<rparr>)"

definition storeBusyOverlayCalendar :: "graph_env \<Rightarrow> string \<Rightarrow> string \<Rightarrow> unit graph_op" where
  "storeBusyOverlayCalendar env acct providerCalendarId =
     andThen (freshId env ''calendar'') (\<lambda>calendarId.
       insertOrReplaceCalendar
         \<lparr> ca_calendar_id = calendarId, ca_account_id = acct,
           ca_provider_calendar_id = providerCalendarId, ca_role = ''writer'',
           ca_kind = ''BUSY_OVERLAY'', ca_display_name = Some ''External Busy (T-Minus)'' \<rparr>)"

record calendar_input =
  ci_account_id :: string
  ci_provider_calendar_id :: string
  ci_role :: string
  ci_kind :: string
  ci_display_name :: string

definition storeCalendars :: "graph_env \<Rightarrow> calendar_input list \<Rightarrow> unit graph_op" where
  "storeCalendars env cals = forEach cals (\<lambda>cal.
     andThen (freshId env ''calendar'') (\<lambda>calendarId.
       insertOrReplaceCalendar
         \<lparr> ca_calendar_id = calendarId, ca_account_id = ci_account_id cal,
           ca_provider_calendar_id = ci_provider_calendar_id cal, ca_role = ci_role cal,
           ca_kind = ci_kind cal, ca_display_name = Some (ci_display_name cal) \<rparr>))"

section \<open>Finding an event by its mirror\<close>

definition mirrorCandidates :: "string \<Rightarrow> string list" where
  "mirrorCandidates pid =
     (let pct = CHR ''%'' \<in> set pid;
          c1 = (if pct then case decodeURIComponent pid of
                      Some d \<Rightarrow> if d \<noteq> [] \<and> d \<noteq> pid then [pid, d] else [pid]
                    | None \<Rightarrow> [pid]
                else [pid]);
          encoded = (if pct then pid else encodeURIComponent pid)
      in if List.member c1 encoded then c1 else c1 @ [encoded])"

definition stateRank :: "mirror_state \<Rightarrow> nat" where
  "stateRank st = (case st of ACTIVE \<Rightarrow> 0 | PENDING \<Rightarrow> 1 | _ \<Rightarrow> 2)"

text \<open>\<^verbatim>\<open>ORDER BY rank, COALESCE(last_write_ts, '') DESC LIMIT 1\<close>.\<close>

definition bestMirror :: "mirror_row list \<Rightarrow> mirror_row option" where
  "bestMirror rows =
     (case sort_key (\<lambda>m. stateRank (em_state m))
             (rev (sort_key (\<lambda>m. nullish (em_last_write_ts m) []) (rev rows))) of
        [] \<Rightarrow> None | m # _ \<Rightarrow> Some m)"

fun firstFound :: "user_graph \<Rightarrow> string \<Rightarrow> string list \<Rightarrow> string option" where
  "firstFound s target [] = None"
| "firstFound s target (c # cs) =
     (case bestMirror (filter (\<lambda>m. em_target_account_id m = target \<and> em_provider_event_id m = Some c)
                         (event_mirrors s)) of
        Some m \<Rightarrow> Some (em_canonical_event_id m)
      | None \<Rightarrow> firstFound s target cs)"

definition findCanonicalByMirror :: "string \<Rightarrow> string \<Rightarrow> string option graph_op" where
  "findCanonicalByMirror target pid = query (\<lambda>s. firstFound s target (mirrorCandidates pid))"

section \<open>Normalising provider ids\<close>

definition setOriginEventId :: "string \<Rightarrow> string \<Rightarrow> unit graph_op" where
  "setOriginEventId cid oid s =
     (if \<exists>r \<in> set (canonical_events s). \<exists>q \<in> set (canonical_events s).
           ce_canonical_event_id r = cid \<and> ce_canonical_event_id q \<noteq> cid \<and>
           ce_origin_account_id q = ce_origin_account_id r \<and> ce_origin_event_id q = oid
      then (Inl (UniqueViolation ''canonical_events.origin_account_id, canonical_events.origin_event_id''), s)
      else (Inr (), s\<lparr> canonical_events :=
              updateRows (\<lambda>r. ce_canonical_event_id r = cid)
                (\<lambda>r. r\<lparr> ce_origin_event_id := oid \<rparr>) (canonical_events s) \<rparr>))"

definition normalizeProviderEventIds :: "nat graph_op" where
  "normalizeProviderEventIds =
     andThen (query (\<lambda>s. filter (\<lambda>r. CHR ''%'' \<in> set (ce_origin_event_id r)) (canonical_events s))) (\<lambda>rows.
     andThen (sumOver rows (\<lambda>r.
       let canonical = canonicalizeProviderEventId (ce_origin_event_id r) in
       if canonical \<noteq> ce_origin_event_id r
       then andThen (setOriginEventId (ce_canonical_event_id r) canonical) (\<lambda>_. ret 1)
       else ret 0)) (\<lambda>n.
     andThen (query (\<lambda>s. filter (\<lambda>m. CHR ''%'' \<in> set (nullish (em_provider_event_id m) []))
                            (event_mirrors s))) (\<lambda>mrows.
     andThen (sumOver mrows (\<lambda>m.
       let canonical = canonicalizeProviderEventId (nullish (em_provider_event_id m) []) in
       if Some canonical \<noteq> em_provider_event_id m
       then andThen (updateMirrorRows (\<lambda>x. em_canonical_event_id x = em_canonical_event_id m \<and>
                                            em_target_account_id x = em_target_account_id m)
                       (\<lambda>x. x\<lparr> em_provider_event_id := Some canonical \<rparr>)) (\<lambda>_. ret 1)
       else ret 0)) (\<lambda>k.
     ret (n + k)))))"

section \<open>Discrepancies\<close>

definition logReconcileDiscrepancy :: "graph_env \<Rightarrow> string \<Rightarrow> string \<Rightarrow> json \<Rightarrow> unit graph_op" where
  "logReconcileDiscrepancy env cid ty details =
     writeJournal env cid (''reconcile:'' @ ty) ''reconcile'' details (Some (''reconcile:'' @ ty))"

section \<open>Well-formed tables and growing logs\<close>

lemma keepsMirrorKey_apply [simp]: "keepsMirrorKey (applyMirrorUpdate u)"
  by (simp add: keepsMirrorKey_def applyMirrorUpdate_def)

lemma keeps_updateMirrorState [graph_keeps]: "keeps (graph_ok env) (updateMirrorState cid t u)"
  unfolding updateMirrorState_def by (intro keeps_intro graph_keeps keepsMirrorKey_apply)

lemma keeps_insertOrReplaceCalendar [graph_keeps]: "keeps (graph_ok env) (insertOrReplaceCalendar c)"
  unfolding insertOrReplaceCalendar_def
  by (rule keeps_modify) (auto simp: graph_ok_parts distinct_map_deleteRows)

lemma keeps_calendars [graph_keeps]:
  "keeps (graph_ok env) (storeBusyOverlayCalendar env' a c)" "keeps (graph_ok env) (storeCalendars env' cals)"
  unfolding storeBusyOverlayCalendar_def storeCalendars_def by (intro keeps_intro graph_keeps)+

lemma keeps_setOriginEventId [graph_keeps]: "keeps (graph_ok env) (setOriginEventId cid oid)"
proof (rule keepsI)
  fix s assume ok: "graph_ok env s"
  let ?g = "\<lambda>r. r\<lparr> ce_origin_event_id := oid \<rparr>"
  let ?rows = "updateRows (\<lambda>r. ce_canonical_event_id r = cid) ?g (canonical_events s)"
  show "graph_ok env (snd (setOriginEventId cid oid s))"
  proof (cases "fst (setOriginEventId cid oid s) = Inr ()")
    case True
    then have free: "\<forall>r \<in> set (canonical_events s). \<forall>q \<in> set (canonical_events s).
        ce_canonical_event_id r = cid \<longrightarrow> ce_canonical_event_id q \<noteq> cid \<longrightarrow>
        \<not> (ce_origin_account_id q = ce_origin_account_id r \<and> ce_origin_event_id q = oid)"
      and upd: "snd (setOriginEventId cid oid s) = s\<lparr> canonical_events := ?rows \<rparr>"
      by (auto simp: setOriginEventId_def split: if_splits)
    have ids: "map ce_canonical_event_id ?rows = map ce_canonical_event_id (canonical_events s)"
      by (intro map_updateRows) simp
    have dist: "distinct (map ce_canonical_event_id (canonical_events s))"
      "distinct (map eventKey (canonical_events s))"
      using ok by (simp_all add: graph_ok_def events_ok_def)
    have "inj_on (\<lambda>r. eventKey (if ce_canonical_event_id r = cid then ?g r else r)) (set (canonical_events s))"
    proof (rule inj_onI)
      fix r q
      assume r: "r \<in> set (canonical_events s)" and q: "q \<in> set (canonical_events s)"
        and eq: "eventKey (if ce_canonical_event_id r = cid then ?g r else r) =
                 eventKey (if ce_canonical_event_id q = cid then ?g q else q)"
      have "ce_canonical_event_id r = ce_canonical_event_id q \<or> eventKey r = eventKey q"
        using eq free [rule_format, OF r q] free [rule_format, OF q r]
        by (auto simp: eventKey_def split: if_splits)
      then show "r = q" using distinct_key_eq dist r q by metis
    qed
    then have "distinct (map eventKey ?rows)"
      using dist(1) by (simp add: updateRows_def distinct_map comp_def inj_on_def)
    moreover have "\<forall>r \<in> set ?rows. \<forall>k. ce_constraint_id r = Some k \<longrightarrow>
        k \<in> cn_constraint_id ` set (constraints s)"
      using ok by (auto simp: graph_ok_def events_ok_def set_updateRows)
    moreover have "ce_canonical_event_id ` set ?rows = ce_canonical_event_id ` set (canonical_events s)"
      using arg_cong [OF ids, of set] by simp
    ultimately show ?thesis using ok ids by (simp add: upd graph_ok_parts)
  next
    case False
    then have "snd (setOriginEventId cid oid s) = s" by (auto simp: setOriginEventId_def split: if_splits)
    with ok show ?thesis by simp
  qed
qed

lemma keeps_normalize [graph_keeps]: "keeps (graph_ok env) normalizeProviderEventIds"
  unfolding normalizeProviderEventIds_def Let_def
  by (intro keeps_intro graph_keeps) (simp add: keepsMirrorKey_def)

lemma keeps_logDiscrepancy [graph_keeps]: "keeps (graph_ok env) (logReconcileDiscrepancy env cid ty d)"
  unfolding logReconcileDiscrepancy_def by (rule keeps_writeJournal)

lemma stays_mirrors [log_stays]:
  "stays appendOnly (updateMirrorState cid t u)" "stays appendOnly (insertOrReplaceCalendar c)"
  "stays appendOnly (setOriginEventId cid oid)" "stays appendOnly (logReconcileDiscrepancy env cid ty d)"
  unfolding updateMirrorState_def logReconcileDiscrepancy_def
  by (intro log_rules log_stays,
      auto intro!: staysI log_stays simp: insertOrReplaceCalendar_def setOriginEventId_def log.same)

lemma stays_normalize [log_stays]:
  "stays appendOnly normalizeProviderEventIds" "stays appendOnly (storeBusyOverlayCalendar env a c)"
  "stays appendOnly (storeCalendars env cals)"
  unfolding normalizeProviderEventIds_def storeBusyOverlayCalendar_def storeCalendars_def Let_def
  by (intro log_rules log_stays)+

section \<open>What a lookup finds\<close>

lemma bestMirror_in: "bestMirror rows = Some m \<Longrightarrow> m \<in> set rows"
proof -
  assume "bestMirror rows = Some m"
  then obtain ms where "sort_key (\<lambda>m. stateRank (em_state m))
      (rev (sort_key (\<lambda>m. nullish (em_last_write_ts m) []) (rev rows))) = m # ms"
    by (auto simp: bestMirror_def split: list.splits)
  then have "m \<in> set (sort_key (\<lambda>m. stateRank (em_state m))
      (rev (sort_key (\<lambda>m. nullish (em_last_write_ts m) []) (rev rows))))"
    by simp
  then show ?thesis by simp
qed

lemma bestMirror_none: "bestMirror rows = None \<longleftrightarrow> rows = []"
proof -
  have "bestMirror rows = None \<longleftrightarrow> sort_key (\<lambda>m. stateRank (em_state m))
      (rev (sort_key (\<lambda>m. nullish (em_last_write_ts m) []) (rev rows))) = []"
    by (simp add: bestMirror_def split: list.split)
  also have "\<dots> \<longleftrightarrow> rows = []"
    by (metis length_0_conv length_rev length_sort)
  finally show ?thesis .
qed

lemma firstFound_sound:
  "firstFound s target cs = Some cid \<Longrightarrow>
   \<exists>m \<in> set (event_mirrors s). em_canonical_event_id m = cid \<and> em_target_account_id m = target \<and>
     (\<exists>c \<in> set cs. em_provider_event_id m = Some c)"
  by (induction cs) (auto split: option.splits dest!: bestMirror_in)

lemma firstFound_complete:
  "m \<in> set (event_mirrors s) \<Longrightarrow> em_target_account_id m = target \<Longrightarrow>
   em_provider_event_id m = Some c \<Longrightarrow> c \<in> set cs \<Longrightarrow> firstFound s target cs \<noteq> None"
  by (induction cs) (auto split: option.split simp: bestMirror_none filter_empty_conv)

lemma mirrorCandidates_canonical:
  assumes ascii: "asciiOnly pid" and c: "c \<in> set (mirrorCandidates pid)"
  shows "canonicalizeProviderEventId c = canonicalizeProviderEventId pid"
proof -
  have "c = pid \<or> decodeURIComponent pid = Some c \<or> c = encodeURIComponent pid"
    using c by (auto simp: mirrorCandidates_def Let_def split: if_splits option.splits)
  then show ?thesis using canonicalize_layer canonicalize_encode [OF ascii] by auto
qed

lemma mirrorCandidates_spellings:
  "pid \<in> set (mirrorCandidates pid)"
  "decodeURIComponent pid = Some d \<Longrightarrow> d \<noteq> [] \<Longrightarrow> CHR ''%'' \<in> set pid \<Longrightarrow> d \<in> set (mirrorCandidates pid)"
  "CHR ''%'' \<notin> set pid \<Longrightarrow> encodeURIComponent pid \<in> set (mirrorCandidates pid)"
  by (auto simp: mirrorCandidates_def Let_def split: option.split)

lemma lookup_by_mirror:
  assumes "asciiOnly pid" and "fst (findCanonicalByMirror target pid s) = Inr (Some cid)"
  shows "\<exists>m \<in> set (event_mirrors s). em_canonical_event_id m = cid \<and> em_target_account_id m = target \<and>
     (\<exists>c. em_provider_event_id m = Some c \<and>
          canonicalizeProviderEventId c = canonicalizeProviderEventId pid)"
  using firstFound_sound [of s target "mirrorCandidates pid" cid] mirrorCandidates_canonical [OF assms(1)] assms(2)
  by (fastforce simp: findCanonicalByMirror_def)

section \<open>Mirror updates\<close>

lemma getMirror_update:
  assumes "graph_ok env s" and "fst (getMirror cid t s) = Inr (Some m)"
  shows "fst (getMirror cid t (snd (updateMirrorState cid t u s))) = Inr (Some (applyMirrorUpdate u m))"
proof -
  have rows: "mirrorRows cid t s = [m]"
    using assms by (cases rule: mirrorRows_cases [OF assms(1), of cid t])
      (auto simp: getMirror_def split: list.splits)
  show ?thesis
  proof (cases "u = noUpdate")
    case True
    then show ?thesis using rows
      by (simp add: updateMirrorState_def getMirror_def ret_run noUpdate_def applyMirrorUpdate_def)
  next
    case False
    have "mirrorRows cid t (snd (updateMirrorState cid t u s)) = map (applyMirrorUpdate u) [m]"
      using False mirrorRows_update [OF keepsMirrorKey_apply [of u], of cid t s] rows
      by (simp add: updateMirrorState_def updateMirrorRows_def)
    then show ?thesis by (simp add: getMirror_def)
  qed
qed

end
