(* ===== verification/Sample_Calls.thy ===== *)
theory Sample_Calls
  imports Sample_State Constraint_Laws Session_Machine Graph_Maintenance Graph_Mirrors
begin

text \<open>
  More of the concrete store: a trip with its derived event, working hours in a zone without an offset, a scheduling
  session with its hold, and the queries the closing theorems are applied to.
\<close>

definition utcClock :: local_time where
  "utcClock timezone t = t div 60000"

lemma utcClock_fixed: "fixedOffset utcClock z 0"
  by (simp add: fixedOffset_def utcClock_def)

definition sampleHours :: constraint_row where
  "sampleHours =
     \<lparr> cn_constraint_id = ''cst_1'', cn_kind = ''working_hours'',
       cn_config_json = JObj [(''days'', JArr [JNum 1, JNum 2, JNum 3, JNum 4, JNum 5]),
         (''start_time'', JStr ''09:00''), (''end_time'', JStr ''17:00''), (''timezone'', JStr ''UTC'')],
       cn_active_from = None, cn_active_to = None, cn_created_at = ''2025-06-01 00:00:00'' \<rparr>"

definition sampleTrip :: constraint_row where
  "sampleTrip =
     \<lparr> cn_constraint_id = ''cst_2'', cn_kind = ''trip'',
       cn_config_json = JObj [(''name'', JStr ''Offsite''), (''timezone'', JStr ''UTC''), (''block_policy'', JStr ''BUSY'')],
       cn_active_from = Some ''2025-06-20T00:00:00Z'', cn_active_to = Some ''2025-06-22T00:00:00Z'',
       cn_created_at = ''2025-06-02 00:00:00'' \<rparr>"

definition constrainedGraph :: user_graph where
  "constrainedGraph = sampleGraph
     \<lparr> constraints := [sampleHours, sampleTrip],
       canonical_events := [sampleEvent, tripEventRow sampleEnv ''evt_2'' ''cst_2'' (cn_config_json sampleTrip)
         ''2025-06-20T00:00:00Z'' ''2025-06-22T00:00:00Z''] \<rparr>"

definition knownZone :: "string \<Rightarrow> bool" where
  "knownZone z \<longleftrightarrow> z = ''UTC''"

lemma constrainedGraph_ok: "graph_ok sampleEnv constrainedGraph"
  using sampleGraph_ok
  by (simp add: constrainedGraph_def graph_ok_parts sampleGraph_def sampleEvent_def newEventRow_def tripEventRow_def
      emptyGraph_def eventKey_def sampleHours_def sampleTrip_def)

lemma digitVal_digits [simp]:
  "digitVal CHR ''0'' = Some 0" "digitVal CHR ''1'' = Some 1" "digitVal CHR ''7'' = Some 7" "digitVal CHR ''9'' = Some 9"
  by code_simp+

lemma sampleHours_valid: "constraint_valid sampleEnv knownZone sampleHours"
  by code_simp

lemma sampleTrip_valid: "constraint_valid sampleEnv knownZone sampleTrip"
  by code_simp

lemma constrainedGraph_valid: "constraints_valid sampleEnv knownZone constrainedGraph"
  using sampleHours_valid sampleTrip_valid
  by (simp add: constraints_valid_def constrainedGraph_def sampleHours_def sampleTrip_def)

lemma constrainedGraph_trip:
  "''cst_2'' \<in> cn_constraint_id ` set (constraints constrainedGraph)"
  "set (derivedIds ''cst_2'' constrainedGraph) \<inter> ta_canonical_event_id ` set (time_allocations constrainedGraph) = {}"
  by (simp_all add: constrainedGraph_def sampleTrip_def sampleGraph_def emptyGraph_def)

text \<open>Monday 16 June 2025, from 08:00 to 18:00.\<close>

definition sampleDay :: availability_query where
  "sampleDay = \<lparr> aq_start = toISOString 1750060800000, aq_end = toISOString 1750096800000, aq_accounts = None \<rparr>"

lemma sampleDay_printed: "printedRange sampleDay 1750060800000 1750096800000"
  by (simp add: printedRange_def sampleDay_def maxDateMs_def plainYear_def msPerDay_def yearFromDay_def dayFromYear_def
      Let_def)

lemma constrained_kinds:
  "constraintsOf ''working_hours'' constrainedGraph = [sampleHours]"
  "constraintsOf ''buffer'' constrainedGraph = []"
  by (simp_all add: constraintsOf_def constrainedGraph_def sampleHours_def sampleTrip_def)

lemma sampleDay_raw:
  obtains raw where "rawIntervals sampleEnv utcClock sampleDay constrainedGraph = Inr raw"
  by (simp add: rawIntervals_def constrained_kinds expandBuffersToBusy_def Let_def)

text \<open>A scheduling session with one hold.\<close>

definition sampleSession :: session_row where
  "sampleSession =
     \<lparr> ss_session_id = ''ses_1'', ss_status = ''candidates_ready'', ss_objective_json = Some (JObj []),
       ss_created_at = ''2025-06-15T10:00:00.000Z'' \<rparr>"

definition sampleHold :: hold_row where
  "sampleHold =
     \<lparr> sh_hold_id = ''hld_1'', sh_session_id = ''ses_1'', sh_account_id = ''acc_a'', sh_provider_event_id = None,
       sh_expires_at = toISOString 1749990000000, sh_status = ''held'' \<rparr>"

definition scheduledGraph :: user_graph where
  "scheduledGraph = sampleGraph \<lparr> schedule_sessions := [sampleSession], schedule_holds := [sampleHold] \<rparr>"

lemma scheduledGraph_ok: "sessions_ok scheduledGraph"
  by (simp add: sessions_ok_def scheduledGraph_def sampleGraph_def emptyGraph_def sampleSession_def sampleHold_def)

text \<open>Every event of the sample store.\<close>

definition allEvents :: list_query where
  "allEvents = \<lparr> lq_time_min = None, lq_time_max = None, lq_origin_account_id = None, lq_origin_event_id = None,
                 lq_updated_after = None, lq_source = None, lq_cursor = None, lq_limit = Some 1 \<rparr>"

definition sampleInput :: "string \<Rightarrow> string \<Rightarrow> edge_input" where
  "sampleInput x y = \<lparr> ei_from_account_id = x, ei_to_account_id = y, ei_detail_level = ''TITLE'',
                       ei_calendar_kind = ''BUSY_OVERLAY'' \<rparr>"

end
