(* ===== verification/Reputation.thy ===== *)
theory Reputation
  imports JS_Text Timestamp_Laws Shared_Domain Complex_Main
begin

text \<open>
  \<^verbatim>\<open>packages/shared/src/reputation.ts\<close> and the outcome weights of \<^verbatim>\<open>constants.ts\<close>: reliability as the
  average of the outcome weights, older ones discounted, and reciprocity as the share of the bad outcomes that are
  the other side's. Numbers are exact rationals, so the rounding of the floating-point unit is not modelled;
  \<open>pow\<close> stands for the exponentiation operator.
\<close>

section \<open>Rounding\<close>

text \<open>\<^verbatim>\<open>Math.round\<close>: the floor of the number plus a half; and to two decimals.\<close>

definition jsRound :: "rat \<Rightarrow> int" where
  "jsRound x = \<lfloor>x + 1 / 2\<rfloor>"

definition round2 :: "rat \<Rightarrow> rat" where
  "round2 x = of_int (jsRound (x * 100)) / 100"

lemma jsRound_mono: "x \<le> y \<Longrightarrow> jsRound x \<le> jsRound y"
  by (simp add: jsRound_def floor_mono)

lemma jsRound_int [simp]: "jsRound (of_int k) = k"
  by (simp add: jsRound_def floor_eq_iff)

lemma jsRound_near: "\<bar>of_int (jsRound x) - x\<bar> \<le> 1 / 2"
  unfolding jsRound_def by linarith

lemma round2_mono: "x \<le> y \<Longrightarrow> round2 x \<le> round2 y"
  by (simp add: round2_def jsRound_mono divide_right_mono)

lemma round2_near: "\<bar>round2 x - x\<bar> \<le> 1 / 200"
  using jsRound_near [of "x * 100"] by (simp add: round2_def field_simps abs_le_iff)

lemma round2_0 [simp]: "round2 0 = 0"
  using jsRound_int [of 0] by (simp add: round2_def)

lemma round2_1 [simp]: "round2 1 = 1"
  using jsRound_int [of 100] by (simp add: round2_def)

lemma round2_idem [simp]: "round2 (round2 x) = round2 x"
  by (simp add: round2_def)

definition roundAndClamp :: "rat \<Rightarrow> rat" where
  "roundAndClamp value = round2 (max 0 (min 1 value))"

lemma roundAndClamp_bounds: "0 \<le> roundAndClamp v \<and> roundAndClamp v \<le> 1"
  using round2_mono [of 0 "max 0 (min 1 v)"] round2_mono [of "max 0 (min 1 v)" 1] by (simp add: roundAndClamp_def)

section \<open>Outcomes\<close>

definition OUTCOME_WEIGHTS :: "(string \<times> rat) list" where
  "OUTCOME_WEIGHTS =
     [(''ATTENDED'', 1), (''CANCELED_BY_ME'', 0), (''CANCELED_BY_THEM'', - 1 / 2), (''NO_SHOW_THEM'', - 1),
      (''NO_SHOW_ME'', 0), (''MOVED_LAST_MINUTE_THEM'', - 3 / 10), (''MOVED_LAST_MINUTE_ME'', 0)]"

text \<open>The callers pass a valid outcome.\<close>

definition getOutcomeWeight :: "string \<Rightarrow> rat" where
  "getOutcomeWeight outcome = nullish (map_of OUTCOME_WEIGHTS outcome) 0"

lemma outcome_weight_bounds: "- 1 \<le> getOutcomeWeight outcome \<and> getOutcomeWeight outcome \<le> 1"
  by (simp add: getOutcomeWeight_def OUTCOME_WEIGHTS_def)

lemma outcome_weights_total: "isValidOutcome v \<longleftrightarrow> v \<in> fst ` set OUTCOME_WEIGHTS"
  by (auto simp: isValidOutcome_def INTERACTION_OUTCOMES_def OUTCOME_WEIGHTS_def)

definition THEM_NEGATIVE_OUTCOMES :: "string list" where
  "THEM_NEGATIVE_OUTCOMES = [''CANCELED_BY_THEM'', ''NO_SHOW_THEM'', ''MOVED_LAST_MINUTE_THEM'']"

definition ME_NEGATIVE_OUTCOMES :: "string list" where
  "ME_NEGATIVE_OUTCOMES = [''CANCELED_BY_ME'', ''NO_SHOW_ME'', ''MOVED_LAST_MINUTE_ME'']"

section \<open>Scores\<close>

record ledger_input =
  li_outcome :: string
  li_weight :: rat
  li_ts :: string

record reputation_result =
  rr_reliability_score :: rat
  rr_reciprocity_score :: rat
  rr_total_interactions :: nat
  rr_last_30_days :: nat
  rr_computed_at :: string

definition NEUTRAL_SCORE :: rat where "NEUTRAL_SCORE = 1 / 2"

definition computeDecayFactor :: "(rat \<Rightarrow> rat \<Rightarrow> rat) \<Rightarrow> rat \<Rightarrow> rat" where
  "computeDecayFactor pow ageDays = pow (95 / 100) (ageDays / 30)"

text \<open>An age is not a number when one of the two dates is not.\<close>

definition computeAgeDays :: "(string \<Rightarrow> int option) \<Rightarrow> string \<Rightarrow> int \<Rightarrow> rat option" where
  "computeAgeDays legacy ts currentTimeMs =
     map_option (\<lambda>t. max 0 (of_int (currentTimeMs - t) / of_int msPerDay)) (dateParse legacy ts)"

definition resolveTimestamp :: "(string \<Rightarrow> int option) \<Rightarrow> int \<Rightarrow> string option \<Rightarrow> int option" where
  "resolveTimestamp legacy clock now = (if truthy now then dateParse legacy (the now) else Some clock)"

text \<open>
  The discounts of the entries at a time. The entries of the ledger have timestamps the program printed; for one that
  does not parse the code computes NaN and the model leaves the entry out.
\<close>

definition discounted :: "(rat \<Rightarrow> rat \<Rightarrow> rat) \<Rightarrow> (string \<Rightarrow> int option) \<Rightarrow> int \<Rightarrow> ledger_input list \<Rightarrow> (rat \<times> rat) list" where
  "discounted pow legacy now entries =
     concat (map (\<lambda>e. case computeAgeDays legacy (li_ts e) now of
                        None \<Rightarrow> []
                      | Some age \<Rightarrow> [(li_weight e, computeDecayFactor pow age)]) entries)"

definition weightedAverage :: "(rat \<times> rat) list \<Rightarrow> rat" where
  "weightedAverage ws = sum_list (map (\<lambda>(w, d). w * d) ws) / sum_list (map snd ws)"

definition computeReliabilityScore ::
  "(rat \<Rightarrow> rat \<Rightarrow> rat) \<Rightarrow> (string \<Rightarrow> int option) \<Rightarrow> int \<Rightarrow> ledger_input list \<Rightarrow> rat" where
  "computeReliabilityScore pow legacy now entries =
     (let ws = discounted pow legacy now entries in
      if entries = [] then NEUTRAL_SCORE
      else if sum_list (map snd ws) = 0 then NEUTRAL_SCORE
      else roundAndClamp ((weightedAverage ws + 1) / 2))"

definition computeReciprocityScore :: "ledger_input list \<Rightarrow> rat" where
  "computeReciprocityScore entries =
     (let them = length (filter (\<lambda>e. li_outcome e \<in> set THEM_NEGATIVE_OUTCOMES) entries);
          me = length (filter (\<lambda>e. li_outcome e \<notin> set THEM_NEGATIVE_OUTCOMES \<and>
                                   li_outcome e \<in> set ME_NEGATIVE_OUTCOMES) entries) in
      if entries = [] then NEUTRAL_SCORE
      else if them + me = 0 then NEUTRAL_SCORE
      else roundAndClamp (of_nat them / of_nat (them + me)))"

definition recent :: "(string \<Rightarrow> int option) \<Rightarrow> int \<Rightarrow> ledger_input \<Rightarrow> bool" where
  "recent legacy now e \<longleftrightarrow>
     (case dateParse legacy (li_ts e) of None \<Rightarrow> False | Some t \<Rightarrow> now - t \<le> 30 * msPerDay)"

text \<open>A date that is not one makes \<^verbatim>\<open>toISOString\<close> throw.\<close>

definition computeReputation ::
  "(rat \<Rightarrow> rat \<Rightarrow> rat) \<Rightarrow> (string \<Rightarrow> int option) \<Rightarrow> int \<Rightarrow> ledger_input list \<Rightarrow> string option \<Rightarrow>
   tm_error + reputation_result" where
  "computeReputation pow legacy clock entries now =
     (case resolveTimestamp legacy clock now of
        None \<Rightarrow> Inl (Thrown ''Invalid time value'')
      | Some t \<Rightarrow> Inr
          \<lparr> rr_reliability_score = computeReliabilityScore pow legacy t entries,
            rr_reciprocity_score = computeReciprocityScore entries,
            rr_total_interactions = length entries,
            rr_last_30_days = length (filter (recent legacy t) entries),
            rr_computed_at = toISOString t \<rparr>)"

section \<open>The scores are scores\<close>

lemma reliability_bounds: "0 \<le> computeReliabilityScore pow legacy now es \<and> computeReliabilityScore pow legacy now es \<le> 1"
  using roundAndClamp_bounds by (simp add: computeReliabilityScore_def Let_def NEUTRAL_SCORE_def)

lemma reciprocity_bounds: "0 \<le> computeReciprocityScore es \<and> computeReciprocityScore es \<le> 1"
  using roundAndClamp_bounds by (simp add: computeReciprocityScore_def Let_def NEUTRAL_SCORE_def)

text \<open>A weighted average stays between the bounds of the values when the weights are positive.\<close>

lemma weighted_sum_le:
  fixes ws :: "(rat \<times> rat) list"
  assumes "\<forall>(w, d) \<in> set ws. w \<le> c \<and> 0 < d"
  shows "sum_list (map (\<lambda>(w, d). w * d) ws) \<le> c * sum_list (map snd ws)"
proof -
  have "sum_list (map (\<lambda>(w, d). w * d) ws) \<le> sum_list (map (\<lambda>p. c * snd p) ws)"
    by (rule sum_list_mono) (use assms in \<open>auto simp: split_def intro: mult_right_mono less_imp_le\<close>)
  then show ?thesis by (simp add: sum_list_const_mult)
qed

lemma weights_positive:
  fixes ws :: "(rat \<times> rat) list"
  assumes "\<forall>(w, d) \<in> set ws. 0 < d" and "ws \<noteq> []"
  shows "0 < sum_list (map snd ws)"
  using assms
proof (induction ws)
  case (Cons p ws)
  have "0 \<le> sum_list (map snd ws)" by (rule sum_list_nonneg) (use Cons.prems in \<open>auto intro: less_imp_le\<close>)
  with Cons.prems show ?case by (auto simp: split_def intro: add_pos_nonneg)
qed simp

lemma weightedAverage_le:
  assumes "\<forall>(w, d) \<in> set ws. w \<le> c \<and> 0 < d" and "ws \<noteq> []"
  shows "weightedAverage ws \<le> c"
proof -
  have "0 < sum_list (map snd ws)" by (rule weights_positive) (use assms in auto)
  with weighted_sum_le [OF assms(1)] show ?thesis by (simp add: weightedAverage_def divide_le_eq)
qed

lemma weightedAverage_ge:
  assumes "\<forall>(w, d) \<in> set ws. c \<le> w \<and> 0 < d" and "ws \<noteq> []"
  shows "c \<le> weightedAverage ws"
proof -
  have pos: "0 < sum_list (map snd ws)" by (rule weights_positive) (use assms in auto)
  have neg: "sum_list (map (\<lambda>x. - (case x of (w, d) \<Rightarrow> w * d)) ws) = - sum_list (map (\<lambda>(w, d). w * d) ws)" for ws :: "(rat \<times> rat) list"
    by (induction ws) simp_all
  have "sum_list (map (\<lambda>(w, d). w * d) (map (\<lambda>(w, d). (- w, d)) ws)) \<le> - c * sum_list (map snd (map (\<lambda>(w, d). (- w, d)) ws))"
    by (rule weighted_sum_le) (use assms in auto)
  then have "c * sum_list (map snd ws) \<le> sum_list (map (\<lambda>(w, d). w * d) ws)"
    using neg [of ws] by (simp add: comp_def split_def)
  with pos show ?thesis by (simp add: weightedAverage_def le_divide_eq)
qed

text \<open>
  With a positive power the average of ledger weights lies in the range the normalisation expects, so the clamping
  never changes it.
\<close>

lemma discounted_weights:
  assumes "\<forall>x. 0 < pow (95 / 100) x" and "p \<in> set (discounted pow legacy now es)"
  shows "0 < snd p" and "\<exists>e \<in> set es. li_weight e = fst p"
  using assms by (auto simp: discounted_def computeDecayFactor_def split: option.splits)

lemma reliability_exact:
  assumes pow: "\<forall>x. 0 < pow (95 / 100) x" and w: "\<forall>e \<in> set es. - 1 \<le> li_weight e \<and> li_weight e \<le> 1"
    and some: "discounted pow legacy now es \<noteq> []"
  shows "computeReliabilityScore pow legacy now es = round2 ((weightedAverage (discounted pow legacy now es) + 1) / 2)"
proof -
  let ?ws = "discounted pow legacy now es"
  have ws: "0 < snd p \<and> - 1 \<le> fst p \<and> fst p \<le> 1" if "p \<in> set ?ws" for p
    using discounted_weights [OF pow that] w by force
  have "weightedAverage ?ws \<le> 1" "- 1 \<le> weightedAverage ?ws"
    by (rule weightedAverage_le weightedAverage_ge; use ws some in force)+
  moreover have "0 < sum_list (map snd ?ws)" by (rule weights_positive) (use ws some in auto)
  moreover have "es \<noteq> []" using some by (auto simp: discounted_def)
  ultimately show ?thesis by (simp add: computeReliabilityScore_def Let_def roundAndClamp_def)
qed

text \<open>An unbroken record of one weight gives the score of that weight, however old the entries are.\<close>

lemma reliability_uniform:
  assumes pow: "\<forall>x. 0 < pow (95 / 100) x" and w: "\<forall>e \<in> set es. li_weight e = c" and c: "- 1 \<le> c" "c \<le> 1"
    and some: "discounted pow legacy now es \<noteq> []"
  shows "computeReliabilityScore pow legacy now es = round2 ((c + 1) / 2)"
proof -
  let ?ws = "discounted pow legacy now es"
  have ws: "fst p = c \<and> 0 < snd p" if "p \<in> set ?ws" for p using discounted_weights [OF pow that] w by force
  have "weightedAverage ?ws \<le> c" "c \<le> weightedAverage ?ws"
    by (rule weightedAverage_le weightedAverage_ge; use ws some in force)+
  with reliability_exact [OF pow _ some] w c show ?thesis by simp
qed

end
