(* ===== verification/Graph_Time.thy ===== *)
theory Graph_Time
  imports Graph_Constraints Reputation
begin

text \<open>
  Time allocations, VIP policies and client commitments of the user graph. The tables take rows through statements
  that check their keys and references; hours are exact rationals, computed from the milliseconds
  of \<^verbatim>\<open>julianday\<close>.
\<close>

section \<open>Allocations\<close>

definition insertAllocationRow :: "allocation_row \<Rightarrow> unit graph_op" where
  "insertAllocationRow a s =
     (if ta_allocation_id a \<in> ta_allocation_id ` set (time_allocations s)
      then (Inl (UniqueViolation ''time_allocations.allocation_id''), s)
      else if eventsWithId (ta_canonical_event_id a) s = [] then (Inl ForeignKeyViolation, s)
      else (Inr (), s\<lparr> time_allocations := time_allocations s @ [a] \<rparr>))"

definition allocationsOf :: "string \<Rightarrow> user_graph \<Rightarrow> allocation_row list" where
  "allocationsOf cid s = filter (\<lambda>a. ta_canonical_event_id a = cid) (time_allocations s)"

definition badCategory :: "string \<Rightarrow> string" where
  "badCategory c = ''Invalid billing_category: '' @ c @
     ''. Must be one of: BILLABLE, NON_BILLABLE, STRATEGIC, INVESTOR, INTERNAL''"

definition badRate :: "rat option \<Rightarrow> bool" where
  "badRate r \<longleftrightarrow> (case r of Some x \<Rightarrow> x < 0 | None \<Rightarrow> False)"

definition createAllocation ::
  "graph_env \<Rightarrow> string \<Rightarrow> string \<Rightarrow> string \<Rightarrow> string option \<Rightarrow> rat option \<Rightarrow> allocation_row graph_op" where
  "createAllocation env allocationId cid category clientId rate =
     (if \<not> isValidBillingCategory category then throw (Thrown (badCategory category))
      else if badRate rate then throw (Thrown ''rate must be a non-negative number or null'')
      else andThen (query (eventsWithId cid)) (\<lambda>events.
        if events = [] then throw (Thrown (''Event '' @ cid @ '' not found''))
        else andThen (query (allocationsOf cid)) (\<lambda>existing.
          if existing \<noteq> []
          then throw (Thrown (''Allocation already exists for event '' @ cid @ ''. Use updateAllocation instead.''))
          else let a = \<lparr> ta_allocation_id = allocationId, ta_canonical_event_id = cid, ta_client_id = clientId,
                         ta_billing_category = category, ta_rate = rate, ta_confidence = ''manual'',
                         ta_locked = False, ta_created_at = nowIso env \<rparr> in
            andThen (insertAllocationRow a) (\<lambda>_. ret a))))"

definition getAllocation :: "string \<Rightarrow> allocation_row option graph_op" where
  "getAllocation cid = query (\<lambda>s. case allocationsOf cid s of [] \<Rightarrow> None | a # _ \<Rightarrow> Some a)"

text \<open>An update: a field that is \<^verbatim>\<open>undefined\<close> is left alone, one that is \<^verbatim>\<open>null\<close> is cleared.\<close>

record allocation_update =
  au_billing_category :: "string option"
  au_client_id :: "string option option"
  au_rate :: "rat option option"

definition applyAllocationUpdate :: "allocation_update \<Rightarrow> allocation_row \<Rightarrow> allocation_row" where
  "applyAllocationUpdate u a =
     a\<lparr> ta_billing_category := nullish (au_billing_category u) (ta_billing_category a),
        ta_client_id := nullish (au_client_id u) (ta_client_id a),
        ta_rate := nullish (au_rate u) (ta_rate a) \<rparr>"

definition updateAllocation :: "string \<Rightarrow> allocation_update \<Rightarrow> allocation_row option graph_op" where
  "updateAllocation cid u =
     (if \<exists>c. au_billing_category u = Some c \<and> \<not> isValidBillingCategory c
      then throw (Thrown (badCategory (the (au_billing_category u))))
      else if badRate (nullish (au_rate u) None) then throw (Thrown ''rate must be a non-negative number or null'')
      else andThen (getAllocation cid) (\<lambda>existing.
        case existing of
          None \<Rightarrow> ret None
        | Some a \<Rightarrow>
            if au_billing_category u = None \<and> au_client_id u = None \<and> au_rate u = None then ret (Some a)
            else andThen (modify (\<lambda>s. s\<lparr> time_allocations :=
                   updateRows (\<lambda>a. ta_canonical_event_id a = cid) (applyAllocationUpdate u) (time_allocations s) \<rparr>))
                 (\<lambda>_. getAllocation cid)))"

definition deleteAllocation :: "string \<Rightarrow> bool graph_op" where
  "deleteAllocation cid =
     andThen (query (allocationsOf cid)) (\<lambda>rows.
       if rows = [] then ret False
       else andThen (modify (\<lambda>s. s\<lparr> time_allocations :=
              deleteRows (\<lambda>a. ta_canonical_event_id a = cid) (time_allocations s) \<rparr>)) (\<lambda>_. ret True))"

definition listAllocations :: "allocation_row list graph_op" where
  "listAllocations = query (\<lambda>s. sortDesc ta_created_at (time_allocations s))"

section \<open>VIP policies\<close>

definition insertVipRow :: "vip_row \<Rightarrow> unit graph_op" where
  "insertVipRow v s =
     (if vp_vip_id v \<in> vp_vip_id ` set (vip_policies s)
      then (Inl (UniqueViolation ''vip_policies.vip_id''), s)
      else (Inr (), s\<lparr> vip_policies := vip_policies s @ [v] \<rparr>))"

definition createVipPolicy ::
  "graph_env \<Rightarrow> string \<Rightarrow> string \<Rightarrow> string option \<Rightarrow> rat \<Rightarrow> json \<Rightarrow> vip_row graph_op" where
  "createVipPolicy env vipId participantHash displayName priorityWeight conditions =
     (let v = \<lparr> vp_vip_id = vipId, vp_participant_hash = participantHash, vp_display_name = displayName,
                vp_priority_weight = priorityWeight, vp_conditions_json = conditions,
                vp_created_at = nowIso env \<rparr>
      in andThen (insertVipRow v) (\<lambda>_. ret v))"

definition listVipPolicies :: "vip_row list graph_op" where
  "listVipPolicies = query (\<lambda>s. sortDesc vp_created_at (vip_policies s))"

definition vipRows :: "string \<Rightarrow> user_graph \<Rightarrow> vip_row list" where
  "vipRows vipId s = filter (\<lambda>v. vp_vip_id v = vipId) (vip_policies s)"

definition getVipPolicy :: "string \<Rightarrow> vip_row option graph_op" where
  "getVipPolicy vipId = query (\<lambda>s. case vipRows vipId s of [] \<Rightarrow> None | v # _ \<Rightarrow> Some v)"

definition deleteVipPolicy :: "string \<Rightarrow> bool graph_op" where
  "deleteVipPolicy vipId =
     andThen (query (vipRows vipId)) (\<lambda>rows.
       if rows = [] then ret False
       else andThen (modify (\<lambda>s. s\<lparr> vip_policies := deleteRows (\<lambda>v. vp_vip_id v = vipId) (vip_policies s) \<rparr>))
              (\<lambda>_. ret True))"

section \<open>Commitments\<close>

definition WINDOW_TYPES :: "string list" where
  "WINDOW_TYPES = [''WEEKLY'', ''MONTHLY'']"

definition insertCommitmentRow :: "commitment_row \<Rightarrow> unit graph_op" where
  "insertCommitmentRow c s =
     (if tc_commitment_id c \<in> tc_commitment_id ` set (time_commitments s)
      then (Inl (UniqueViolation ''time_commitments.commitment_id''), s)
      else (Inr (), s\<lparr> time_commitments := time_commitments s @ [c] \<rparr>))"

definition createCommitment ::
  "graph_env \<Rightarrow> string \<Rightarrow> string \<Rightarrow> rat \<Rightarrow> string \<Rightarrow> string option \<Rightarrow> int \<Rightarrow> bool \<Rightarrow> bool \<Rightarrow> commitment_row graph_op" where
  "createCommitment env commitmentId clientId targetHours windowType clientName weeks hardMinimum proofRequired =
     (if windowType \<notin> set WINDOW_TYPES
      then throw (Thrown (''Invalid window_type: '' @ windowType @ ''. Must be one of: WEEKLY, MONTHLY''))
      else if targetHours \<le> 0 then throw (Thrown ''target_hours must be a positive number'')
      else if weeks < 1 then throw (Thrown ''rolling_window_weeks must be a positive integer'')
      else if blank clientId then throw (Thrown ''client_id is required'')
      else andThen (query (\<lambda>s. filter (\<lambda>c. tc_client_id c = clientId) (time_commitments s))) (\<lambda>existing.
        if existing \<noteq> []
        then throw (Thrown (''Commitment already exists for client '' @ clientId @ ''. Delete it first to create a new one.''))
        else let c = \<lparr> tc_commitment_id = commitmentId, tc_client_id = clientId, tc_client_name = clientName,
                       tc_window_type = windowType, tc_target_hours = targetHours, tc_rolling_window_weeks = weeks,
                       tc_hard_minimum = hardMinimum, tc_proof_required = proofRequired,
                       tc_created_at = nowIso env \<rparr>
             in andThen (insertCommitmentRow c) (\<lambda>_. ret c)))"

definition commitmentRows :: "string \<Rightarrow> user_graph \<Rightarrow> commitment_row list" where
  "commitmentRows k s = filter (\<lambda>c. tc_commitment_id c = k) (time_commitments s)"

definition getCommitment :: "string \<Rightarrow> commitment_row option graph_op" where
  "getCommitment k = query (\<lambda>s. case commitmentRows k s of [] \<Rightarrow> None | c # _ \<Rightarrow> Some c)"

definition listCommitments :: "commitment_row list graph_op" where
  "listCommitments = query (\<lambda>s. sortDesc tc_created_at (time_commitments s))"

definition deleteCommitment :: "string \<Rightarrow> bool graph_op" where
  "deleteCommitment k =
     andThen (query (commitmentRows k)) (\<lambda>rows.
       if rows = [] then ret False
       else andThen (modify (\<lambda>s. s\<lparr> commitment_reports :=
              deleteRows (\<lambda>r. cr_commitment_id r = k) (commitment_reports s) \<rparr>)) (\<lambda>_.
            andThen (modify (\<lambda>s. s\<lparr> time_commitments :=
              deleteRows (\<lambda>c. tc_commitment_id c = k) (time_commitments s) \<rparr>)) (\<lambda>_. ret True)))"

section \<open>Compliance\<close>

text \<open>The window that ends at a time: its two ends as printed.\<close>

definition windowStart :: "commitment_row \<Rightarrow> int \<Rightarrow> int" where
  "windowStart c now = now - tc_rolling_window_weeks c * 7 * (24 * 60 * 60 * 1000)"

text \<open>Hours of an event, \<^const>\<open>None\<close> (SQL \<^verbatim>\<open>NULL\<close>) when an end does not parse.\<close>

definition eventHours :: "graph_env \<Rightarrow> event_row \<Rightarrow> rat option" where
  "eventHours env e =
     (case (julianMs (sql_date env) (ce_end_ts e), julianMs (sql_date env) (ce_start_ts e)) of
        (Some b, Some a) \<Rightarrow> Some (of_int (b - a) / 3600000)
      | _ \<Rightarrow> None)"

text \<open>The join of allocations and events of a client in a window.\<close>

definition clientEvents ::
  "string \<Rightarrow> string \<Rightarrow> string \<Rightarrow> user_graph \<Rightarrow> (allocation_row \<times> event_row) list" where
  "clientEvents clientId windowStartIso windowEndIso s =
     concat (map (\<lambda>a. map (\<lambda>e. (a, e)) (filter (\<lambda>e. ce_canonical_event_id e = ta_canonical_event_id a \<and>
                   ta_client_id a = Some clientId \<and> ce_start_ts e \<ge> windowStartIso \<and> ce_start_ts e < windowEndIso)
                 (canonical_events s))) (time_allocations s))"

definition totalHours :: "graph_env \<Rightarrow> (allocation_row \<times> event_row) list \<Rightarrow> rat" where
  "totalHours env rows = sum_list (map (\<lambda>(a, e). nullish (eventHours env e) 0) rows)"

text \<open>
  The bound is exact here, where the code multiplies doubles: a total that equals 1.2 times the target can fall on the
  other side of \<^verbatim>\<open>target_hours * 1.2\<close> (3.6 hours for a target of 3).
\<close>

definition complianceStatus :: "rat \<Rightarrow> rat \<Rightarrow> string" where
  "complianceStatus actualHours targetHours =
     (if actualHours > targetHours * (12 / 10) then ''over''
      else if actualHours \<ge> targetHours then ''compliant'' else ''under'')"

definition insertReportRow :: "report_row \<Rightarrow> unit graph_op" where
  "insertReportRow r s =
     (if cr_report_id r \<in> cr_report_id ` set (commitment_reports s)
      then (Inl (UniqueViolation ''commitment_reports.report_id''), s)
      else if cr_commitment_id r \<notin> tc_commitment_id ` set (time_commitments s) then (Inl ForeignKeyViolation, s)
      else (Inr (), s\<lparr> commitment_reports := commitment_reports s @ [r] \<rparr>))"

record commitment_status =
  cs_commitment :: commitment_row
  cs_actual_hours :: rat
  cs_status :: string
  cs_window_start :: string
  cs_window_end :: string

definition asOfMs :: "graph_env \<Rightarrow> string option \<Rightarrow> int option" where
  "asOfMs env asOf = (if truthy asOf then dateParse (js_date env) (the asOf) else Some (now_ms env))"

definition windowIso :: "graph_env \<Rightarrow> string option \<Rightarrow> commitment_row \<Rightarrow> tm_error + string \<times> string" where
  "windowIso env asOf c =
     (case asOfMs env asOf of
        None \<Rightarrow> Inl (Thrown ''Invalid time value'')
      | Some now \<Rightarrow>
          if \<bar>windowStart c now\<bar> \<le> maxDateMs \<and> \<bar>now\<bar> \<le> maxDateMs
          then Inr (toISOString (windowStart c now), toISOString now)
          else Inl (Thrown ''Invalid time value''))"

definition getCommitmentStatus :: "graph_env \<Rightarrow> string \<Rightarrow> string option \<Rightarrow> commitment_status option graph_op" where
  "getCommitmentStatus env k asOf =
     andThen (getCommitment k) (\<lambda>commitment.
     case commitment of
       None \<Rightarrow> ret None
     | Some c \<Rightarrow>
         (case windowIso env asOf c of
            Inl e \<Rightarrow> throw e
          | Inr (start, finish) \<Rightarrow>
              andThen (query (\<lambda>s. round2 (totalHours env (clientEvents (tc_client_id c) start finish s)))) (\<lambda>actual.
              let status = complianceStatus actual (tc_target_hours c) in
              andThen (freshId env ''report'') (\<lambda>rid.
              andThen (insertReportRow
                \<lparr> cr_report_id = rid, cr_commitment_id = k, cr_window_start = start, cr_window_end = finish,
                  cr_actual_hours = actual, cr_expected_hours = tc_target_hours c, cr_status = status,
                  cr_created_at = nowIso env \<rparr>) (\<lambda>_.
              ret (Some \<lparr> cs_commitment = c, cs_actual_hours = actual, cs_status = status,
                          cs_window_start = start, cs_window_end = finish \<rparr>))))))"

record proof_event =
  pv_event :: event_row
  pv_hours :: rat
  pv_billing_category :: string

record commitment_proof =
  pf_commitment :: commitment_row
  pf_window_start :: string
  pf_window_end :: string
  pf_actual_hours :: rat
  pf_status :: string
  pf_events :: "proof_event list"

definition proofEvent :: "graph_env \<Rightarrow> allocation_row \<times> event_row \<Rightarrow> proof_event" where
  "proofEvent env p =
     \<lparr> pv_event = snd p, pv_hours = round2 (nullish (eventHours env (snd p)) 0),
       pv_billing_category = ta_billing_category (fst p) \<rparr>"

definition getCommitmentProofData :: "graph_env \<Rightarrow> string \<Rightarrow> string option \<Rightarrow> commitment_proof option graph_op" where
  "getCommitmentProofData env k asOf =
     andThen (getCommitment k) (\<lambda>commitment.
     case commitment of
       None \<Rightarrow> ret None
     | Some c \<Rightarrow>
         (case windowIso env asOf c of
            Inl e \<Rightarrow> throw e
          | Inr (start, finish) \<Rightarrow>
              andThen (query (\<lambda>s. map (proofEvent env)
                (sort_key (\<lambda>p. ce_start_ts (snd p)) (clientEvents (tc_client_id c) start finish s)))) (\<lambda>events.
              let actual = round2 (sum_list (map pv_hours events)) in
              ret (Some \<lparr> pf_commitment = c, pf_window_start = start, pf_window_end = finish,
                          pf_actual_hours = actual, pf_status = complianceStatus actual (tc_target_hours c),
                          pf_events = events \<rparr>))))"

definition getEventClientId :: "string \<Rightarrow> user_graph \<Rightarrow> string option" where
  "getEventClientId cid s = (case allocationsOf cid s of [] \<Rightarrow> None | a # _ \<Rightarrow> ta_client_id a)"

end
