(* ===== verification/Time_Laws.thy ===== *)
theory Time_Laws
  imports Graph_Time "HOL-Library.Multiset"
begin

text \<open>
  Allocations, VIP policies and commitments keep the tables well formed; a commitment is rated by its hours; the
  rating of the stored report and the rating of the proof document can differ, because one rounds the sum and the other
  sums rounded hours.
\<close>

section \<open>Well-formed tables\<close>

lemma graph_ok_allocations:
  assumes "graph_ok env s" and "references_ok (s\<lparr> time_allocations := as \<rparr>)" and "time_ok (s\<lparr> time_allocations := as \<rparr>)"
  shows "graph_ok env (s\<lparr> time_allocations := as \<rparr>)"
  using assms by (simp add: graph_ok_def events_ok_def mirrors_ok_def policies_ok_def calendars_ok_def journal_ok_def
      sessions_ok_def people_ok_def eventIds_def)

lemma graph_ok_time_parts:
  assumes "graph_ok env s"
  shows "distinct (map ta_allocation_id (time_allocations s))" "distinct (map ta_canonical_event_id (time_allocations s))"
    "Ball (set (time_allocations s)) allocation_valid" "ta_canonical_event_id ` set (time_allocations s) \<subseteq> eventIds s"
    "references_ok s" "time_ok s"
  using assms by (simp_all add: graph_ok_def time_ok_def references_ok_def)

lemma insertAllocation_ok:
  assumes ok: "graph_ok env s" and "allocation_valid a" and new: "allocationsOf (ta_canonical_event_id a) s = []"
  shows "graph_ok env (snd (insertAllocationRow a s))"
proof (cases "ta_allocation_id a \<in> ta_allocation_id ` set (time_allocations s) \<or> eventsWithId (ta_canonical_event_id a) s = []")
  case True
  then show ?thesis using ok by (auto simp: insertAllocationRow_def)
next
  case False
  then have ev: "ta_canonical_event_id a \<in> eventIds s" by (simp add: eventsWithId_nonempty [symmetric])
  have "ta_canonical_event_id a \<notin> ta_canonical_event_id ` set (time_allocations s)"
    using new by (auto simp: allocationsOf_def filter_empty_conv)
  with False ev assms(2) graph_ok_time_parts [OF ok]
  have "graph_ok env (s\<lparr> time_allocations := time_allocations s @ [a] \<rparr>)"
    by (intro graph_ok_allocations [OF ok]) (simp_all add: references_ok_def time_ok_def eventIds_def)
  with False show ?thesis by (simp add: insertAllocationRow_def)
qed

lemma keeps_createAllocation [graph_keeps]: "keeps (graph_ok env) (createAllocation env' i cid c k r)"
proof (rule keepsI)
  fix s assume ok: "graph_ok env s"
  let ?a = "\<lparr> ta_allocation_id = i, ta_canonical_event_id = cid, ta_client_id = k, ta_billing_category = c, ta_rate = r,
    ta_confidence = ''manual'', ta_locked = False, ta_created_at = nowIso env' \<rparr>"
  show "graph_ok env (snd (createAllocation env' i cid c k r s))"
  proof (cases "isValidBillingCategory c \<and> \<not> badRate r \<and> eventsWithId cid s \<noteq> [] \<and> allocationsOf cid s = []")
    case False
    then show ?thesis using ok by (auto simp: createAllocation_def throw_run)
  next
    case True
    then have "allocation_valid ?a" by (auto simp: allocation_valid_def badRate_def not_less split: option.splits)
    from insertAllocation_ok [OF ok this] True have "graph_ok env (snd (insertAllocationRow ?a s))" by simp
    with True show ?thesis by (auto simp: createAllocation_def Let_def andThen_def ret_run split: prod.split sum.split)
  qed
qed

lemma applyAllocationUpdate_keys [simp]:
  "ta_allocation_id (applyAllocationUpdate u a) = ta_allocation_id a"
  "ta_canonical_event_id (applyAllocationUpdate u a) = ta_canonical_event_id a"
  by (simp_all add: applyAllocationUpdate_def)

lemma keeps_updateAllocation [graph_keeps]: "keeps (graph_ok env) (updateAllocation cid u)"
proof -
  have "keeps (graph_ok env) (modify (\<lambda>s. s\<lparr> time_allocations :=
      updateRows (\<lambda>a. ta_canonical_event_id a = cid) (applyAllocationUpdate u) (time_allocations s) \<rparr>))"
    if c: "\<not> (\<exists>c. au_billing_category u = Some c \<and> \<not> isValidBillingCategory c)" and r: "\<not> badRate (nullish (au_rate u) None)"
  proof (rule keeps_modify)
    fix s assume ok: "graph_ok env s"
    let ?as = "updateRows (\<lambda>a. ta_canonical_event_id a = cid) (applyAllocationUpdate u) (time_allocations s)"
    have valid: "allocation_valid (applyAllocationUpdate u a)" if "allocation_valid a" for a
      using that c r by (cases "au_billing_category u"; cases "au_rate u")
        (auto simp: allocation_valid_def applyAllocationUpdate_def badRate_def not_less split: option.splits)
    have ids: "map ta_allocation_id ?as = map ta_allocation_id (time_allocations s)"
      "map ta_canonical_event_id ?as = map ta_canonical_event_id (time_allocations s)"
      by (rule map_updateRows, simp)+
    moreover have "Ball (set ?as) allocation_valid"
      using graph_ok_time_parts(3) [OF ok] valid by (auto simp: set_updateRows)
    moreover have "ta_canonical_event_id ` set ?as = ta_canonical_event_id ` set (time_allocations s)"
      using ids(2) by (metis list.set_map)
    ultimately show "graph_ok env (s\<lparr> time_allocations := ?as \<rparr>)"
      using graph_ok_time_parts [OF ok]
      by (intro graph_ok_allocations [OF ok]) (simp_all add: references_ok_def time_ok_def eventIds_def)
  qed
  then show ?thesis
    unfolding updateAllocation_def getAllocation_def by (intro keeps_intro) auto
qed

lemma keeps_deleteAllocation [graph_keeps]: "keeps (graph_ok env) (deleteAllocation cid)"
proof -
  have "keeps (graph_ok env) (modify (\<lambda>s. s\<lparr> time_allocations :=
      deleteRows (\<lambda>a. ta_canonical_event_id a = cid) (time_allocations s) \<rparr>))"
  proof (rule keeps_modify)
    fix s assume ok: "graph_ok env s"
    show "graph_ok env (s\<lparr> time_allocations := deleteRows (\<lambda>a. ta_canonical_event_id a = cid) (time_allocations s) \<rparr>)"
      using graph_ok_time_parts [OF ok]
      by (intro graph_ok_allocations [OF ok])
         (auto simp: references_ok_def time_ok_def eventIds_def distinct_map_deleteRows)
  qed
  then show ?thesis unfolding deleteAllocation_def by (intro keeps_intro)
qed

lemma keeps_vip [graph_keeps]:
  "keeps (graph_ok env) (createVipPolicy env' v h d w c)" "keeps (graph_ok env) (deleteVipPolicy v)"
proof -
  have "keeps (graph_ok env) (insertVipRow r)" for r
    by (intro keepsI) (simp add: insertVipRow_def graph_ok_frame)
  then show "keeps (graph_ok env) (createVipPolicy env' v h d w c)"
    unfolding createVipPolicy_def Let_def by (intro keeps_intro)
  have "keeps (graph_ok env) (modify (\<lambda>s. s\<lparr> vip_policies := f s \<rparr>))" for f
    by (intro keeps_modify) (simp add: graph_ok_frame)
  then show "keeps (graph_ok env) (deleteVipPolicy v)"
    unfolding deleteVipPolicy_def by (intro keeps_intro)
qed

section \<open>What allocation calls do\<close>

lemma createAllocation_once:
  assumes "graph_ok env s" and "allocationsOf cid s \<noteq> []"
  shows "\<exists>m. createAllocation env' i cid c k r s = (Inl (Thrown m), s)"
  using assms by (auto simp: createAllocation_def throw_run)

lemma createAllocation_readback:
  assumes "createAllocation env i cid c k r s = (Inr a, t)"
  shows "getAllocation cid t = (Inr (Some a), t)" and "ta_canonical_event_id a = cid" and "allocation_valid a"
proof -
  from assms have "isValidBillingCategory c" "\<not> badRate r" "allocationsOf cid s = []"
    and ins: "insertAllocationRow a s = (Inr (), t)" and a: "a = \<lparr> ta_allocation_id = i, ta_canonical_event_id = cid,
      ta_client_id = k, ta_billing_category = c, ta_rate = r, ta_confidence = ''manual'', ta_locked = False,
      ta_created_at = nowIso env \<rparr>"
    by (auto simp: createAllocation_def throw_run Let_def andThen_def ret_run split: if_splits prod.splits sum.splits)
  then show "ta_canonical_event_id a = cid" "allocation_valid a"
    by (auto simp: allocation_valid_def badRate_def not_less split: option.splits)
  with ins \<open>allocationsOf cid s = []\<close> show "getAllocation cid t = (Inr (Some a), t)"
    by (auto simp: getAllocation_def insertAllocationRow_def allocationsOf_def filter_empty_conv split: if_splits)
qed

section \<open>Rating\<close>

lemma complianceStatus_cases:
  "complianceStatus a target \<in> {''over'', ''compliant'', ''under''}"
  "complianceStatus a target = ''under'' \<longleftrightarrow> a < target \<and> a \<le> target * (12 / 10)"
  "0 \<le> target \<Longrightarrow> complianceStatus a target = ''under'' \<longleftrightarrow> a < target"
  by (auto simp: complianceStatus_def)

text \<open>The status of a commitment is recorded with the same figures it returns.\<close>

lemma status_recorded:
  assumes "getCommitmentStatus env k asOf s = (Inr (Some st), t)"
  shows "\<exists>r. commitment_reports t = commitment_reports s @ [r] \<and> cr_commitment_id r = k \<and>
     cr_actual_hours r = cs_actual_hours st \<and> cr_status r = cs_status st \<and>
     cs_status st = complianceStatus (cs_actual_hours st) (tc_target_hours (cs_commitment st)) \<and>
     cr_window_start r = cs_window_start st \<and> cr_window_end r = cs_window_end st"
  using assms
  by (auto simp: getCommitmentStatus_def getCommitment_def andThen_def ret_run throw_run Let_def freshId_def
      insertReportRow_def split: option.splits list.splits sum.splits prod.splits if_splits)

text \<open>
  Both ratings use the same rows; they agree when every event has a whole number of hundredths of an hour.
\<close>

definition wholeHundredths :: "rat \<Rightarrow> bool" where
  "wholeHundredths x \<longleftrightarrow> round2 x = x"

lemma round2_sum:
  "\<forall>x \<in> set xs. wholeHundredths x \<Longrightarrow> sum_list (map round2 xs) = sum_list xs"
  by (induction xs) (simp_all add: wholeHundredths_def)

definition proofHours :: "graph_env \<Rightarrow> (allocation_row \<times> event_row) list \<Rightarrow> rat" where
  "proofHours env rows = round2 (sum_list (map (\<lambda>p. round2 (nullish (eventHours env (snd p)) 0)) rows))"

lemma proof_hours_sorted:
  "round2 (sum_list (map pv_hours (map (proofEvent env) (sort_key f rows)))) = proofHours env rows"
proof -
  have "mset (map pv_hours (map (proofEvent env) (sort_key f rows))) =
      mset (map (\<lambda>p. round2 (nullish (eventHours env (snd p)) 0)) rows)"
    by (simp only: map_map comp_def proofEvent_def proof_event.simps mset_map mset_sort)
  then have "sum_list (map pv_hours (map (proofEvent env) (sort_key f rows))) =
      sum_list (map (\<lambda>p. round2 (nullish (eventHours env (snd p)) 0)) rows)"
    by (metis sum_mset_sum_list)
  then show ?thesis by (simp add: proofHours_def)
qed

lemma ratings_agree:
  assumes "\<forall>(a, e) \<in> set rows. wholeHundredths (nullish (eventHours env e) 0)"
  shows "proofHours env rows = round2 (totalHours env rows)"
proof -
  have "sum_list (map round2 (map (\<lambda>(a, e). nullish (eventHours env e) 0) rows)) =
      sum_list (map (\<lambda>(a, e). nullish (eventHours env e) 0) rows)"
    by (rule round2_sum) (use assms in auto)
  then show ?thesis by (simp add: proofHours_def totalHours_def split_def comp_def)
qed

text \<open>Three meetings of twenty minutes against a target of one hour: the report says compliant, the proof says under.\<close>

lemma ratings_differ:
  assumes "rows = [p, q, r]" and "\<forall>(a, e) \<in> set rows. eventHours env e = Some (1 / 3)"
  shows "complianceStatus (round2 (totalHours env rows)) 1 = ''compliant''"
    and "complianceStatus (proofHours env rows) 1 = ''under''"
proof -
  have third: "round2 (1 / 3) = 33 / 100" by (simp add: round2_def jsRound_def floor_eq_iff)
  have sum: "round2 (99 / 100) = 99 / 100" by (simp add: round2_def jsRound_def floor_eq_iff)
  have "totalHours env rows = 1" using assms by (auto simp: totalHours_def split_def)
  then show "complianceStatus (round2 (totalHours env rows)) 1 = ''compliant''" by (simp add: complianceStatus_def)
  have "proofHours env rows = 99 / 100" using assms by (auto simp: proofHours_def split_def third sum)
  then show "complianceStatus (proofHours env rows) 1 = ''under''" by (simp add: complianceStatus_def)
qed

text \<open>So the status and the proof of a commitment agree then.\<close>

lemma proof_agrees:
  assumes st: "getCommitmentStatus env k asOf s = (Inr (Some st), t)"
    and pf: "getCommitmentProofData env k asOf s = (Inr (Some pf), u)"
    and whole: "\<forall>(a, e) \<in> set (clientEvents (tc_client_id (cs_commitment st)) (cs_window_start st) (cs_window_end st) s).
      wholeHundredths (nullish (eventHours env e) 0)"
  shows "pf_actual_hours pf = cs_actual_hours st \<and> pf_status pf = cs_status st"
proof -
  obtain c cs where rows: "commitmentRows k s = c # cs"
    using st by (auto simp: getCommitmentStatus_def getCommitment_def andThen_def ret_run split: list.splits)
  obtain a b where win: "windowIso env asOf c = Inr (a, b)"
    using st rows by (auto simp: getCommitmentStatus_def getCommitment_def andThen_def throw_run split: sum.splits)
  let ?rows = "clientEvents (tc_client_id c) a b s"
  have s: "cs_commitment st = c" "cs_window_start st = a" "cs_window_end st = b"
    "cs_actual_hours st = round2 (totalHours env ?rows)"
    "cs_status st = complianceStatus (round2 (totalHours env ?rows)) (tc_target_hours c)"
    using st by (auto simp: getCommitmentStatus_def getCommitment_def rows win andThen_def ret_run Let_def
        split: sum.splits prod.splits)
  have p: "pf_actual_hours pf = proofHours env ?rows" "pf_status pf = complianceStatus (proofHours env ?rows) (tc_target_hours c)"
    using pf by (auto simp: getCommitmentProofData_def getCommitment_def rows win andThen_def ret_run Let_def
        proof_hours_sorted [unfolded map_map, simplified])
  have "proofHours env ?rows = round2 (totalHours env ?rows)"
    by (rule ratings_agree) (use whole s in simp)
  with s p show ?thesis by simp
qed

lemma clientEvents_event: "(a, e) \<in> set (clientEvents c x y s) \<Longrightarrow> e \<in> set (canonical_events s)"
  by (auto simp: clientEvents_def)

end
