(* ===== verification/Geo.thy ===== *)
theory Geo
  imports JS_Text Timestamp_Laws
begin

text \<open>
  \<^verbatim>\<open>packages/shared/src/geo.ts\<close>: city names and their aliases, time zones of cities, and the hours two
  zones work at the same time. As in the availability theory \<open>local\<close> is the local time \<^verbatim>\<open>Intl.DateTimeFormat\<close>
  shows, in minutes since the epoch; \<open>tz\<close> says which zones it accepts and \<open>midnight\<close> how it writes the hour
  of midnight, 0 or 24. Strings are UTF-8 bytes.
\<close>

section \<open>Trimming\<close>

definition endSpace :: "string \<Rightarrow> nat" where
  "endSpace s =
     (case filter (\<lambda>k. k \<le> length s \<and> spaceLength (drop (length s - k) s) = k) [1, 2, 3] of [] \<Rightarrow> 0 | k # _ \<Rightarrow> k)"

function trimEnd :: "string \<Rightarrow> string" where
  "trimEnd s = (if endSpace s = 0 then s else trimEnd (take (length s - endSpace s) s))"
  by auto
termination
proof (relation "measure length")
  fix s assume a: "endSpace s \<noteq> 0"
  then have "s \<noteq> []" by (auto simp: endSpace_def)
  with a show "(take (length s - endSpace s) s, s) \<in> measure length" by (cases s) auto
qed simp

declare trimEnd.simps [simp del]

definition trim :: "string \<Rightarrow> string" where
  "trim s = trimEnd (trimStart s)"

section \<open>Tables\<close>

definition CITY_ALIASES :: "(string \<times> string) list" where
  "CITY_ALIASES =
     [(''new york'', ''New York''),
      (''new york city'', ''New York''),
      (''nyc'', ''New York''),
      (''manhattan'', ''New York''),
      (''the big apple'', ''New York''),
      (''brooklyn'', ''New York''),
      (''queens'', ''New York''),
      (''los angeles'', ''Los Angeles''),
      (''la'', ''Los Angeles''),
      (''l.a.'', ''Los Angeles''),
      (''hollywood'', ''Los Angeles''),
      (''san francisco'', ''San Francisco''),
      (''sf'', ''San Francisco''),
      (''frisco'', ''San Francisco''),
      (''san fran'', ''San Francisco''),
      (''chicago'', ''Chicago''),
      (''chi-town'', ''Chicago''),
      (''boston'', ''Boston''),
      (''seattle'', ''Seattle''),
      (''miami'', ''Miami''),
      (''south beach'', ''Miami''),
      (''washington, d.c.'', ''Washington, D.C.''),
      (''washington dc'', ''Washington, D.C.''),
      (''washington d.c.'', ''Washington, D.C.''),
      (''dc'', ''Washington, D.C.''),
      (''d.c.'', ''Washington, D.C.''),
      (''philadelphia'', ''Philadelphia''),
      (''philly'', ''Philadelphia''),
      (''denver'', ''Denver''),
      (''austin'', ''Austin''),
      (''portland'', ''Portland''),
      (''atlanta'', ''Atlanta''),
      (''atl'', ''Atlanta''),
      (''dallas'', ''Dallas''),
      (''houston'', ''Houston''),
      (''phoenix'', ''Phoenix''),
      (''san diego'', ''San Diego''),
      (''minneapolis'', ''Minneapolis''),
      (''nashville'', ''Nashville''),
      (''detroit'', ''Detroit''),
      (''salt lake city'', ''Salt Lake City''),
      (''slc'', ''Salt Lake City''),
      (''las vegas'', ''Las Vegas''),
      (''vegas'', ''Las Vegas''),
      (''raleigh'', ''Raleigh''),
      (''charlotte'', ''Charlotte''),
      (''pittsburgh'', ''Pittsburgh''),
      (''columbus'', ''Columbus''),
      (''indianapolis'', ''Indianapolis''),
      (''indy'', ''Indianapolis''),
      (''san jose'', ''San Jose''),
      (''toronto'', ''Toronto''),
      (''to'', ''Toronto''),
      (''montreal'', ''Montreal''),
      (''vancouver'', ''Vancouver''),
      (''mexico city'', ''Mexico City''),
      (''cdmx'', ''Mexico City''),
      (''ciudad de mexico'', ''Mexico City''),
      (''ciudad de m'' @ [CHR 0xC3, CHR 0xA9] @ ''xico'', ''Mexico City''),
      (''bogota'', ''Bogota''),
      (''bogot'' @ [CHR 0xC3, CHR 0xA1], ''Bogota''),
      (''buenos aires'', ''Buenos Aires''),
      (''santiago'', ''Santiago''),
      (''sao paulo'', ''Sao Paulo''),
      (''s'' @ [CHR 0xC3, CHR 0xA3] @ ''o paulo'', ''Sao Paulo''),
      (''sp'', ''Sao Paulo''),
      (''lima'', ''Lima''),
      (''london'', ''London''),
      (''the city'', ''London''),
      (''paris'', ''Paris''),
      (''berlin'', ''Berlin''),
      (''munich'', ''Munich''),
      (''muenchen'', ''Munich''),
      (''m'' @ [CHR 0xC3, CHR 0xBC] @ ''nchen'', ''Munich''),
      (''frankfurt'', ''Frankfurt''),
      (''frankfurt am main'', ''Frankfurt''),
      (''hamburg'', ''Hamburg''),
      (''cologne'', ''Cologne''),
      (''koeln'', ''Cologne''),
      (''k'' @ [CHR 0xC3, CHR 0xB6] @ ''ln'', ''Cologne''),
      (''dusseldorf'', ''Dusseldorf''),
      (''d'' @ [CHR 0xC3, CHR 0xBC] @ ''sseldorf'', ''Dusseldorf''),
      (''stuttgart'', ''Stuttgart''),
      (''amsterdam'', ''Amsterdam''),
      (''brussels'', ''Brussels''),
      (''bruxelles'', ''Brussels''),
      (''zurich'', ''Zurich''),
      (''z'' @ [CHR 0xC3, CHR 0xBC] @ ''rich'', ''Zurich''),
      (''geneva'', ''Geneva''),
      (''geneve'', ''Geneva''),
      (''gen'' @ [CHR 0xC3, CHR 0xA8] @ ''ve'', ''Geneva''),
      (''vienna'', ''Vienna''),
      (''wien'', ''Vienna''),
      (''madrid'', ''Madrid''),
      (''barcelona'', ''Barcelona''),
      (''lisbon'', ''Lisbon''),
      (''lisboa'', ''Lisbon''),
      (''rome'', ''Rome''),
      (''roma'', ''Rome''),
      (''milan'', ''Milan''),
      (''milano'', ''Milan''),
      (''florence'', ''Florence''),
      (''firenze'', ''Florence''),
      (''naples'', ''Naples''),
      (''napoli'', ''Naples''),
      (''prague'', ''Prague''),
      (''praha'', ''Prague''),
      (''warsaw'', ''Warsaw''),
      (''warszawa'', ''Warsaw''),
      (''budapest'', ''Budapest''),
      (''copenhagen'', ''Copenhagen''),
      (''kobenhavn'', ''Copenhagen''),
      (''k'' @ [CHR 0xC3, CHR 0xB8] @ ''benhavn'', ''Copenhagen''),
      (''stockholm'', ''Stockholm''),
      (''oslo'', ''Oslo''),
      (''helsinki'', ''Helsinki''),
      (''dublin'', ''Dublin''),
      (''edinburgh'', ''Edinburgh''),
      (''manchester'', ''Manchester''),
      (''athens'', ''Athens''),
      (''istanbul'', ''Istanbul''),
      (''constantinople'', ''Istanbul''),
      (''moscow'', ''Moscow''),
      (''moskva'', ''Moscow''),
      (''saint petersburg'', ''Saint Petersburg''),
      (''st. petersburg'', ''Saint Petersburg''),
      (''st petersburg'', ''Saint Petersburg''),
      (''sankt-peterburg'', ''Saint Petersburg''),
      (''bucharest'', ''Bucharest''),
      (''bucuresti'', ''Bucharest''),
      (''dubai'', ''Dubai''),
      (''tel aviv'', ''Tel Aviv''),
      (''tlv'', ''Tel Aviv''),
      (''riyadh'', ''Riyadh''),
      (''doha'', ''Doha''),
      (''cairo'', ''Cairo''),
      (''lagos'', ''Lagos''),
      (''nairobi'', ''Nairobi''),
      (''cape town'', ''Cape Town''),
      (''johannesburg'', ''Johannesburg''),
      (''joburg'', ''Johannesburg''),
      (''casablanca'', ''Casablanca''),
      (''tokyo'', ''Tokyo''),
      (''osaka'', ''Osaka''),
      (''seoul'', ''Seoul''),
      (''beijing'', ''Beijing''),
      (''peking'', ''Beijing''),
      (''shanghai'', ''Shanghai''),
      (''guangzhou'', ''Guangzhou''),
      (''canton'', ''Guangzhou''),
      (''shenzhen'', ''Shenzhen''),
      (''hong kong'', ''Hong Kong''),
      (''hk'', ''Hong Kong''),
      (''taipei'', ''Taipei''),
      (''singapore'', ''Singapore''),
      (''bangkok'', ''Bangkok''),
      (''ho chi minh city'', ''Ho Chi Minh City''),
      (''saigon'', ''Ho Chi Minh City''),
      (''hcmc'', ''Ho Chi Minh City''),
      (''kuala lumpur'', ''Kuala Lumpur''),
      (''kl'', ''Kuala Lumpur''),
      (''jakarta'', ''Jakarta''),
      (''manila'', ''Manila''),
      (''mumbai'', ''Mumbai''),
      (''bombay'', ''Mumbai''),
      (''delhi'', ''Delhi''),
      (''new delhi'', ''Delhi''),
      (''bangalore'', ''Bangalore''),
      (''bengaluru'', ''Bangalore''),
      (''sydney'', ''Sydney''),
      (''melbourne'', ''Melbourne''),
      (''auckland'', ''Auckland'')]"

definition CITY_TIMEZONES :: "(string \<times> string) list" where
  "CITY_TIMEZONES =
     [(''new york'', ''America/New_York''),
      (''los angeles'', ''America/Los_Angeles''),
      (''san francisco'', ''America/Los_Angeles''),
      (''chicago'', ''America/Chicago''),
      (''boston'', ''America/New_York''),
      (''seattle'', ''America/Los_Angeles''),
      (''miami'', ''America/New_York''),
      (''washington, d.c.'', ''America/New_York''),
      (''philadelphia'', ''America/New_York''),
      (''denver'', ''America/Denver''),
      (''austin'', ''America/Chicago''),
      (''portland'', ''America/Los_Angeles''),
      (''atlanta'', ''America/New_York''),
      (''dallas'', ''America/Chicago''),
      (''houston'', ''America/Chicago''),
      (''phoenix'', ''America/Phoenix''),
      (''san diego'', ''America/Los_Angeles''),
      (''minneapolis'', ''America/Chicago''),
      (''nashville'', ''America/Chicago''),
      (''detroit'', ''America/Detroit''),
      (''salt lake city'', ''America/Denver''),
      (''las vegas'', ''America/Los_Angeles''),
      (''raleigh'', ''America/New_York''),
      (''charlotte'', ''America/New_York''),
      (''pittsburgh'', ''America/New_York''),
      (''columbus'', ''America/New_York''),
      (''indianapolis'', ''America/Indiana/Indianapolis''),
      (''san jose'', ''America/Los_Angeles''),
      (''toronto'', ''America/Toronto''),
      (''montreal'', ''America/Montreal''),
      (''vancouver'', ''America/Vancouver''),
      (''mexico city'', ''America/Mexico_City''),
      (''bogota'', ''America/Bogota''),
      (''buenos aires'', ''America/Argentina/Buenos_Aires''),
      (''santiago'', ''America/Santiago''),
      (''sao paulo'', ''America/Sao_Paulo''),
      (''lima'', ''America/Lima''),
      (''london'', ''Europe/London''),
      (''paris'', ''Europe/Paris''),
      (''berlin'', ''Europe/Berlin''),
      (''munich'', ''Europe/Berlin''),
      (''frankfurt'', ''Europe/Berlin''),
      (''hamburg'', ''Europe/Berlin''),
      (''cologne'', ''Europe/Berlin''),
      (''dusseldorf'', ''Europe/Berlin''),
      (''stuttgart'', ''Europe/Berlin''),
      (''amsterdam'', ''Europe/Amsterdam''),
      (''brussels'', ''Europe/Brussels''),
      (''zurich'', ''Europe/Zurich''),
      (''geneva'', ''Europe/Zurich''),
      (''vienna'', ''Europe/Vienna''),
      (''madrid'', ''Europe/Madrid''),
      (''barcelona'', ''Europe/Madrid''),
      (''lisbon'', ''Europe/Lisbon''),
      (''rome'', ''Europe/Rome''),
      (''milan'', ''Europe/Rome''),
      (''florence'', ''Europe/Rome''),
      (''naples'', ''Europe/Rome''),
      (''prague'', ''Europe/Prague''),
      (''warsaw'', ''Europe/Warsaw''),
      (''budapest'', ''Europe/Budapest''),
      (''copenhagen'', ''Europe/Copenhagen''),
      (''stockholm'', ''Europe/Stockholm''),
      (''oslo'', ''Europe/Oslo''),
      (''helsinki'', ''Europe/Helsinki''),
      (''dublin'', ''Europe/Dublin''),
      (''edinburgh'', ''Europe/London''),
      (''manchester'', ''Europe/London''),
      (''athens'', ''Europe/Athens''),
      (''istanbul'', ''Europe/Istanbul''),
      (''moscow'', ''Europe/Moscow''),
      (''saint petersburg'', ''Europe/Moscow''),
      (''bucharest'', ''Europe/Bucharest''),
      (''dubai'', ''Asia/Dubai''),
      (''tel aviv'', ''Asia/Jerusalem''),
      (''riyadh'', ''Asia/Riyadh''),
      (''doha'', ''Asia/Qatar''),
      (''cairo'', ''Africa/Cairo''),
      (''lagos'', ''Africa/Lagos''),
      (''nairobi'', ''Africa/Nairobi''),
      (''cape town'', ''Africa/Johannesburg''),
      (''johannesburg'', ''Africa/Johannesburg''),
      (''casablanca'', ''Africa/Casablanca''),
      (''tokyo'', ''Asia/Tokyo''),
      (''osaka'', ''Asia/Tokyo''),
      (''seoul'', ''Asia/Seoul''),
      (''beijing'', ''Asia/Shanghai''),
      (''shanghai'', ''Asia/Shanghai''),
      (''guangzhou'', ''Asia/Shanghai''),
      (''shenzhen'', ''Asia/Shanghai''),
      (''hong kong'', ''Asia/Hong_Kong''),
      (''taipei'', ''Asia/Taipei''),
      (''singapore'', ''Asia/Singapore''),
      (''bangkok'', ''Asia/Bangkok''),
      (''ho chi minh city'', ''Asia/Ho_Chi_Minh''),
      (''kuala lumpur'', ''Asia/Kuala_Lumpur''),
      (''jakarta'', ''Asia/Jakarta''),
      (''manila'', ''Asia/Manila''),
      (''mumbai'', ''Asia/Kolkata''),
      (''delhi'', ''Asia/Kolkata''),
      (''bangalore'', ''Asia/Kolkata''),
      (''sydney'', ''Australia/Sydney''),
      (''melbourne'', ''Australia/Melbourne''),
      (''auckland'', ''Pacific/Auckland'')]"

section \<open>Cities\<close>

text \<open>
  Looking a key up in an object literal also finds what the object inherits: of the lower-case names only
  \<^verbatim>\<open>constructor\<close> and \<^verbatim>\<open>__proto__\<close>, and neither is a string.
\<close>

datatype resolved_city = No_city | City string | Inherited

definition resolveCity :: "string option \<Rightarrow> resolved_city" where
  "resolveCity input =
     (if \<not> truthy input then No_city
      else let trimmed = trim (the input); key = toLowerCase trimmed in
        if trimmed = [] then No_city
        else case map_of CITY_ALIASES key of
               Some c \<Rightarrow> City c
             | None \<Rightarrow> if key \<in> {''constructor'', ''__proto__''} then Inherited else City trimmed)"

text \<open>\<^verbatim>\<open>toLowerCase\<close> called on a value that is not a string.\<close>

definition notAFunction :: tm_error where
  "notAFunction = Thrown ''toLowerCase is not a function''"

definition matchCityWithAliases :: "string option \<Rightarrow> string option \<Rightarrow> tm_error + bool" where
  "matchCityWithAliases a b =
     (case (resolveCity a, resolveCity b) of
        (No_city, _) \<Rightarrow> Inr False
      | (_, No_city) \<Rightarrow> Inr False
      | (City x, City y) \<Rightarrow> Inr (toLowerCase x = toLowerCase y)
      | _ \<Rightarrow> Inl notAFunction)"

definition cityToTimezone :: "string option \<Rightarrow> tm_error + string option" where
  "cityToTimezone city =
     (case resolveCity city of
        No_city \<Rightarrow> Inr None
      | City c \<Rightarrow> Inr (map_of CITY_TIMEZONES (toLowerCase c))
      | Inherited \<Rightarrow> Inl notAFunction)"

section \<open>Working hours in two zones\<close>

definition dayOfMonth :: "int \<Rightarrow> int" where
  "dayOfMonth d = snd (snd (civilFromDay d))"

definition getUtcOffset ::
  "(string \<Rightarrow> int option) \<Rightarrow> (string \<Rightarrow> bool) \<Rightarrow> (string \<Rightarrow> int \<Rightarrow> int) \<Rightarrow> int \<Rightarrow> string \<Rightarrow> string \<Rightarrow> int option" where
  "getUtcOffset legacy tz local midnight timezone dateStr =
     (case dateParse legacy (dateStr @ ''T12:00:00Z'') of
        None \<Rightarrow> None
      | Some t \<Rightarrow>
          if \<not> tz timezone then None
          else
            let m = local timezone t; h = m mod 1440 div 60;
                localHour = (if h = 0 then midnight else h);
                localDay = dayOfMonth (m div 1440); utcDay = dayOfMonth (t div msPerDay);
                offset = localHour - 12;
                offset = (if localDay > utcDay then offset + 24 else offset);
                offset = (if localDay < utcDay then offset - 24 else offset)
            in Some offset)"

record working_hours_overlap =
  wo_startHourUTC :: int
  wo_endHourUTC :: int
  wo_overlapHours :: int

text \<open>The overlap of two offsets, 09:00 to 17:00 local on both sides.\<close>

definition overlapOf :: "int \<Rightarrow> int \<Rightarrow> working_hours_overlap option" where
  "overlapOf offsetA offsetB =
     (let start = max (9 - offsetA) (9 - offsetB); finish = min (17 - offsetA) (17 - offsetB);
          hours = max 0 (finish - start) in
      if hours \<le> 0 then None
      else Some \<lparr> wo_startHourUTC = start mod 24, wo_endHourUTC = finish mod 24, wo_overlapHours = hours \<rparr>)"

definition computeWorkingHoursOverlap ::
  "(string \<Rightarrow> int option) \<Rightarrow> (string \<Rightarrow> bool) \<Rightarrow> (string \<Rightarrow> int \<Rightarrow> int) \<Rightarrow> int \<Rightarrow> string option \<Rightarrow> string option \<Rightarrow>
   string \<Rightarrow> working_hours_overlap option" where
  "computeWorkingHoursOverlap legacy tz local midnight tzA tzB refDate =
     (if \<not> truthy tzA \<or> \<not> truthy tzB then None
      else case (getUtcOffset legacy tz local midnight (the tzA) refDate,
                 getUtcOffset legacy tz local midnight (the tzB) refDate) of
             (Some a, Some b) \<Rightarrow> overlapOf a b
           | _ \<Rightarrow> None)"

record meeting_window =
  mw_earliest :: string
  mw_latest :: string
  mw_suggested_start_hour_utc :: "int option"
  mw_suggested_end_hour_utc :: "int option"
  mw_user_timezone :: "string option"
  mw_contact_timezone :: "string option"

definition suggestMeetingWindow ::
  "(string \<Rightarrow> int option) \<Rightarrow> (string \<Rightarrow> bool) \<Rightarrow> (string \<Rightarrow> int \<Rightarrow> int) \<Rightarrow> int \<Rightarrow> string option \<Rightarrow> string option \<Rightarrow>
   string option \<Rightarrow> string option \<Rightarrow> meeting_window option" where
  "suggestMeetingWindow legacy tz local midnight tripStart tripEnd userTz contactTz =
     (if \<not> truthy tripStart \<or> \<not> truthy tripEnd then None
      else let overlap = (if truthy userTz \<and> truthy contactTz
             then computeWorkingHoursOverlap legacy tz local midnight userTz contactTz (slice 0 10 (the tripStart))
             else None) in
        Some \<lparr> mw_earliest = the tripStart, mw_latest = the tripEnd,
               mw_suggested_start_hour_utc = map_option wo_startHourUTC overlap,
               mw_suggested_end_hour_utc = map_option wo_endHourUTC overlap,
               mw_user_timezone = userTz, mw_contact_timezone = contactTz \<rparr>)"

section \<open>Names\<close>

text \<open>A name that is only an inherited property of the table makes every comparison with a real city throw.\<close>

lemma inherited_name: "matchCityWithAliases (Some ''Constructor'') (Some ''Paris'') = Inl notAFunction"
  by code_simp

lemma alias_example: "matchCityWithAliases (Some '' NYC '') (Some ''new york'') = Inr True"
  by code_simp

section \<open>Overlap\<close>

lemma overlapOf_sym: "overlapOf a b = overlapOf b a"
  by (simp add: overlapOf_def Let_def max.commute min.commute)

text \<open>The overlap is the hours both work: with zones less than eight hours apart eight minus the distance, else none.\<close>

lemma overlapOf_hours:
  "overlapOf a b = (if \<bar>a - b\<bar> < 8 then
     Some \<lparr> wo_startHourUTC = (9 - min a b) mod 24, wo_endHourUTC = (17 - max a b) mod 24,
            wo_overlapHours = 8 - \<bar>a - b\<bar> \<rparr> else None)"
  by (auto simp: overlapOf_def Let_def max_def min_def)

lemma overlapOf_bounds:
  "overlapOf a b = Some w \<Longrightarrow> 0 < wo_overlapHours w \<and> wo_overlapHours w \<le> 8 \<and>
     wo_startHourUTC w \<in> {0..<24} \<and> wo_endHourUTC w \<in> {0..<24} \<and>
     wo_endHourUTC w = (wo_startHourUTC w + wo_overlapHours w) mod 24"
proof -
  assume some: "overlapOf a b = Some w"
  then have near: "\<bar>a - b\<bar> < 8" and w: "w = \<lparr> wo_startHourUTC = (9 - min a b) mod 24,
      wo_endHourUTC = (17 - max a b) mod 24, wo_overlapHours = 8 - \<bar>a - b\<bar> \<rparr>"
    by (auto simp: overlapOf_hours split: if_splits)
  have "9 - min a b + (8 - \<bar>a - b\<bar>) = 17 - max a b" by (simp add: min_def max_def)
  then have "((9 - min a b) mod 24 + (8 - \<bar>a - b\<bar>)) mod 24 = (17 - max a b) mod 24"
    by (metis mod_add_left_eq)
  with near w show ?thesis by simp
qed

section \<open>Offsets\<close>

lemma day_split: "0 \<le> r \<Longrightarrow> r < 1440 \<Longrightarrow> (k * 1440 + r) mod 1440 = r \<and> (k * 1440 + r) div 1440 = (k :: int)"
  by simp

text \<open>For zones less than twelve hours from UTC the local noon is on the same day and the offset is the true one.\<close>

lemma offset_right:
  assumes "dateParse legacy (d @ ''T12:00:00Z'') = Some (day * msPerDay + 43200000)" and "tz z"
    and off: "local z (day * msPerDay + 43200000) = (day * msPerDay + 43200000) div 60000 + 60 * h"
    and h: "- 11 \<le> h" "h \<le> 11"
  shows "getUtcOffset legacy tz local midnight z d = Some h"
proof -
  have "(day * msPerDay + 43200000) div 60000 = day * 1440 + 720" by (simp add: msPerDay_def)
  with off have "local z (day * msPerDay + 43200000) = day * 1440 + (720 + 60 * h)" by simp
  moreover have "(day * 1440 + (720 + 60 * h)) mod 1440 = 720 + 60 * h"
    "(day * 1440 + (720 + 60 * h)) div 1440 = day"
    using h by (simp_all add: int_mod_pos_eq int_div_pos_eq)
  moreover have "(720 + 60 * h) div 60 = 12 + h" "(day * msPerDay + 43200000) div msPerDay = day"
    by (simp_all add: msPerDay_def)
  ultimately show ?thesis using assms(1,2) h by (simp add: getUtcOffset_def Let_def)
qed

text \<open>
  Thirteen hours ahead, on the last day of a month: the day of the month falls from 31 to 1 and the offset comes out
  two days off.
\<close>

lemma offset_wrong_at_month_end:
  assumes "dateParse legacy (d @ ''T12:00:00Z'') = Some (day * msPerDay + 43200000)" and "tz z"
    and off: "local z (day * msPerDay + 43200000) = (day * msPerDay + 43200000) div 60000 + 60 * h"
    and h: "13 \<le> h" "h \<le> 23" and last: "dayOfMonth (day + 1) < dayOfMonth day"
  shows "getUtcOffset legacy tz local midnight z d = Some (h - 48)"
proof -
  have "(day * msPerDay + 43200000) div 60000 = day * 1440 + 720" by (simp add: msPerDay_def)
  with off have "local z (day * msPerDay + 43200000) = (day + 1) * 1440 + (60 * h - 720)" by simp
  moreover have "((day + 1) * 1440 + (60 * h - 720)) mod 1440 = 60 * h - 720"
    "((day + 1) * 1440 + (60 * h - 720)) div 1440 = day + 1"
    using h day_split [of "60 * h - 720" "day + 1"] by simp_all
  moreover have "(60 * h - 720) div 60 = h - 12" "(day * msPerDay + 43200000) div msPerDay = day"
    by (simp_all add: msPerDay_def)
  ultimately show ?thesis using assms(1,2) h last by (simp add: getUtcOffset_def Let_def)
qed

lemma january_ends: "dayOfMonth 20485 < dayOfMonth 20484"
  by (simp add: dayOfMonth_def civilFromDay_def yearFromDay_def dayFromYear_def monthFromYearDay_def leapYear_def
      daysBeforeMonth_def Let_def)

end
