(* ===== verification/Drift.thy ===== *)
theory Drift
  imports Geo Reputation
begin

text \<open>
  \<^verbatim>\<open>packages/shared/src/drift.ts\<close>: which relationships are overdue for contact and how urgently, the badge of a
  relationship, and the suggestions made from the overdue ones. Numbers are exact.
\<close>

section \<open>Drift\<close>

record drift_input =
  dr_relationship_id :: string
  dr_participant_hash :: string
  dr_display_name :: "string option"
  dr_category :: string
  dr_closeness_weight :: rat
  dr_last_interaction_ts :: "string option"
  dr_interaction_frequency_target :: "int option"

record drift_entry =
  de_relationship_id :: string
  de_participant_hash :: string
  de_display_name :: "string option"
  de_category :: string
  de_closeness_weight :: rat
  de_last_interaction_ts :: "string option"
  de_interaction_frequency_target :: int
  de_days_since_interaction :: int
  de_days_overdue :: int
  de_drift_ratio :: rat
  de_urgency :: rat

record drift_report =
  dp_overdue :: "drift_entry list"
  dp_total_tracked :: nat
  dp_total_overdue :: nat
  dp_computed_at :: string

definition tracked :: "drift_input \<Rightarrow> bool" where
  "tracked r \<longleftrightarrow> (case dr_interaction_frequency_target r of None \<Rightarrow> False | Some n \<Rightarrow> n > 0)"

text \<open>milliseconds of the last interaction: the epoch without one, \<^const>\<open>None\<close> for a text that is not a date.\<close>

definition lastInteraction :: "(string \<Rightarrow> int option) \<Rightarrow> drift_input \<Rightarrow> int option" where
  "lastInteraction legacy r =
     (if truthy (dr_last_interaction_ts r) then dateParse legacy (the (dr_last_interaction_ts r)) else Some 0)"

definition driftEntry :: "int \<Rightarrow> drift_input \<Rightarrow> int \<Rightarrow> drift_entry" where
  "driftEntry now r lastMs =
     (let target = nullish (dr_interaction_frequency_target r) 0; daysSince = (now - lastMs) div msPerDay;
          daysOverdue = daysSince - target in
      \<lparr> de_relationship_id = dr_relationship_id r, de_participant_hash = dr_participant_hash r,
        de_display_name = dr_display_name r, de_category = dr_category r,
        de_closeness_weight = dr_closeness_weight r, de_last_interaction_ts = dr_last_interaction_ts r,
        de_interaction_frequency_target = target, de_days_since_interaction = daysSince,
        de_days_overdue = daysOverdue, de_drift_ratio = round2 (of_int daysSince / of_int target),
        de_urgency = of_int daysOverdue * dr_closeness_weight r \<rparr>)"

definition overdueEntry :: "(string \<Rightarrow> int option) \<Rightarrow> int \<Rightarrow> drift_input \<Rightarrow> drift_entry list" where
  "overdueEntry legacy now r =
     (case lastInteraction legacy r of
        None \<Rightarrow> []
      | Some lastMs \<Rightarrow> let e = driftEntry now r lastMs in if de_days_overdue e > 0 then [e] else [])"

definition overdueEntries :: "(string \<Rightarrow> int option) \<Rightarrow> int \<Rightarrow> drift_input list \<Rightarrow> drift_entry list" where
  "overdueEntries legacy now rels = concat (map (overdueEntry legacy now) (filter tracked rels))"

definition computeDrift ::
  "(string \<Rightarrow> int option) \<Rightarrow> int \<Rightarrow> drift_input list \<Rightarrow> string option \<Rightarrow> tm_error + drift_report" where
  "computeDrift legacy clock rels now =
     (case resolveTimestamp legacy clock now of
        None \<Rightarrow> Inl (Thrown ''Invalid time value'')
      | Some t \<Rightarrow>
          let overdue = sortDesc de_urgency (overdueEntries legacy t rels) in
          Inr \<lparr> dp_overdue = overdue, dp_total_tracked = length (filter tracked rels),
                dp_total_overdue = length overdue, dp_computed_at = toISOString t \<rparr>)"

section \<open>Badges\<close>

datatype drift_badge = Green | Yellow | Red | No_badge

definition computeDriftBadge :: "int option \<Rightarrow> int option \<Rightarrow> drift_badge" where
  "computeDriftBadge daysSince target =
     (case target of
        None \<Rightarrow> No_badge
      | Some n \<Rightarrow>
          if n \<le> 0 then No_badge
          else case daysSince of
                 None \<Rightarrow> Red
               | Some d \<Rightarrow> let ratio = of_int d / of_int n :: rat in
                   if ratio \<le> 1 then Green else if ratio \<le> 2 then Yellow else Red)"

definition driftEntryBadge :: "drift_entry \<Rightarrow> drift_badge" where
  "driftEntryBadge e =
     computeDriftBadge (Some (de_days_since_interaction e)) (Some (de_interaction_frequency_target e))"

section \<open>Suggestions\<close>

record reconnection_suggestion = drift_entry +
  rs_suggested_duration_minutes :: int
  rs_suggested_time_window :: "(string \<times> string) option"
  rs_timezone_meeting_window :: "meeting_window option"

definition matchCity :: "string option \<Rightarrow> string option \<Rightarrow> bool" where
  "matchCity a b \<longleftrightarrow>
     truthy a \<and> truthy b \<and> trim (the a) \<noteq> [] \<and> trim (the b) \<noteq> [] \<and>
     toLowerCase (trim (the a)) = toLowerCase (trim (the b))"

definition categoryDurationMinutes :: "string \<Rightarrow> int" where
  "categoryDurationMinutes c =
     (if c = ''FRIEND'' \<or> c = ''FAMILY'' then 60
      else if c = ''COLLEAGUE'' \<or> c = ''CLIENT'' \<or> c = ''BOARD'' then 45
      else 30)"

definition suggestionFor :: "string option \<Rightarrow> string option \<Rightarrow> drift_entry \<Rightarrow> reconnection_suggestion" where
  "suggestionFor tripStart tripEnd e = drift_entry.extend e
     \<lparr> rs_suggested_duration_minutes = categoryDurationMinutes (de_category e),
       rs_suggested_time_window =
         (case (tripStart, tripEnd) of (Some a, Some b) \<Rightarrow> Some (a, b) | _ \<Rightarrow> None),
       rs_timezone_meeting_window = None \<rparr>"

definition enrichSuggestionsWithTimeWindows ::
  "drift_entry list \<Rightarrow> string option \<Rightarrow> string option \<Rightarrow> reconnection_suggestion list" where
  "enrichSuggestionsWithTimeWindows entries tripStart tripEnd = map (suggestionFor tripStart tripEnd) entries"

definition enrichWithTimezoneWindows ::
  "reconnection_suggestion list \<Rightarrow> string option \<Rightarrow> string option \<Rightarrow> string option \<Rightarrow> (string \<Rightarrow> string option) \<Rightarrow>
   (string option \<Rightarrow> string option \<Rightarrow> string option \<Rightarrow> string option \<Rightarrow> meeting_window option) \<Rightarrow>
   reconnection_suggestion list" where
  "enrichWithTimezoneWindows suggestions tripStart tripEnd userTz contactTz suggest =
     map (\<lambda>s. s\<lparr> rs_timezone_meeting_window := suggest tripStart tripEnd userTz (contactTz (de_relationship_id s)) \<rparr>)
       suggestions"

section \<open>What the report says\<close>

lemma driftEntry_fields [simp]:
  "de_relationship_id (driftEntry now r lastMs) = dr_relationship_id r"
  "de_days_since_interaction (driftEntry now r lastMs) = (now - lastMs) div msPerDay"
  "de_days_overdue (driftEntry now r lastMs) = (now - lastMs) div msPerDay - nullish (dr_interaction_frequency_target r) 0"
  "de_urgency (driftEntry now r lastMs) =
     of_int ((now - lastMs) div msPerDay - nullish (dr_interaction_frequency_target r) 0) * dr_closeness_weight r"
  "de_interaction_frequency_target (driftEntry now r lastMs) = nullish (dr_interaction_frequency_target r) 0"
  by (simp_all add: driftEntry_def Let_def)

text \<open>A relationship is reported exactly when whole days since the contact exceed its target.\<close>

definition overdueAt :: "(string \<Rightarrow> int option) \<Rightarrow> int \<Rightarrow> drift_input \<Rightarrow> bool" where
  "overdueAt legacy now r \<longleftrightarrow>
     (\<exists>n lastMs. dr_interaction_frequency_target r = Some n \<and> n > 0 \<and> lastInteraction legacy r = Some lastMs \<and>
        now - lastMs \<ge> (n + 1) * msPerDay)"

lemma whole_days: "(now - lastMs) div msPerDay > n \<longleftrightarrow> now - lastMs \<ge> (n + 1) * msPerDay"
proof -
  define q r where "q = (now - lastMs) div msPerDay" and "r = (now - lastMs) mod msPerDay"
  have "now - lastMs = q * msPerDay + r" by (simp add: q_def r_def)
  moreover have "0 \<le> r" "r < msPerDay" by (simp_all add: r_def msPerDay_def)
  ultimately have "q > n \<longleftrightarrow> now - lastMs \<ge> (n + 1) * msPerDay" unfolding msPerDay_def by auto
  then show ?thesis by (simp add: q_def)
qed

lemma overdueEntry_exact:
  assumes "tracked r"
  shows "e \<in> set (overdueEntry legacy now r) \<longleftrightarrow>
    (\<exists>lastMs. lastInteraction legacy r = Some lastMs \<and> overdueAt legacy now r \<and> e = driftEntry now r lastMs)"
proof -
  obtain n where n: "dr_interaction_frequency_target r = Some n" "n > 0"
    using assms by (auto simp: tracked_def split: option.splits)
  show ?thesis
  proof (cases "lastInteraction legacy r")
    case None
    then show ?thesis by (simp add: overdueEntry_def)
  next
    case (Some lastMs)
    have "overdueAt legacy now r \<longleftrightarrow> (now - lastMs) div msPerDay > n"
      using n Some by (simp add: overdueAt_def whole_days)
    with n Some show ?thesis by (auto simp: overdueEntry_def Let_def)
  qed
qed

lemma overdueEntries_exact:
  "set (overdueEntries legacy now rels) =
     {driftEntry now r lastMs | r lastMs. r \<in> set rels \<and> overdueAt legacy now r \<and> lastInteraction legacy r = Some lastMs}"
proof -
  have "tracked r" if "overdueAt legacy now r" for r using that by (auto simp: tracked_def overdueAt_def)
  then show ?thesis
    unfolding overdueEntries_def set_concat set_map set_filter
    by (intro set_eqI) (simp add: overdueEntry_exact; blast)
qed

lemma overdueEntries_length: "length (overdueEntries legacy now rels) \<le> length (filter tracked rels)"
proof -
  have "length (overdueEntry legacy now r) \<le> 1" for r
    by (simp add: overdueEntry_def Let_def split: option.split)
  then have "sum_list (map (\<lambda>r. length (overdueEntry legacy now r)) rs) \<le> length rs" for rs
    by (induction rs) (auto simp: add_mono_thms_linordered_semiring(1) intro: order_trans [OF add_mono])
  then show ?thesis by (simp add: overdueEntries_def length_concat comp_def)
qed

lemma computeDrift_report:
  assumes "resolveTimestamp legacy clock now = Some t"
  shows "\<exists>p. computeDrift legacy clock rels now = Inr p \<and>
     set (dp_overdue p) = {driftEntry t r lastMs | r lastMs. r \<in> set rels \<and> overdueAt legacy t r \<and> lastInteraction legacy r = Some lastMs} \<and>
     sorted_wrt (\<lambda>a b. de_urgency b \<le> de_urgency a) (dp_overdue p) \<and>
     dp_total_overdue p = length (dp_overdue p) \<and> dp_total_overdue p \<le> dp_total_tracked p"
  using overdueEntries_length [of legacy t rels]
  by (simp add: computeDrift_def assms Let_def overdueEntries_exact sortDesc_sorted)

text \<open>What is reported as overdue has a yellow or a red badge, never a green one.\<close>

lemma overdue_badge:
  assumes "overdueAt legacy now r" and "lastInteraction legacy r = Some lastMs"
  shows "driftEntryBadge (driftEntry now r lastMs) \<in> {Yellow, Red}"
proof -
  from assms obtain n where n: "dr_interaction_frequency_target r = Some n" "n > 0" "(now - lastMs) div msPerDay > n"
    by (auto simp: overdueAt_def whole_days)
  then have "\<not> (of_int ((now - lastMs) div msPerDay) / of_int n :: rat) \<le> 1" by (simp add: divide_le_eq)
  with n show ?thesis by (simp add: driftEntryBadge_def computeDriftBadge_def Let_def)
qed

end
