(* ===== verification/Briefing.thy ===== *)
theory Briefing
  imports Drift
begin

text \<open>
  \<^verbatim>\<open>packages/shared/src/briefing.ts\<close>: the topics of an event title, the sentence about the last interaction and the
  assembly of the briefing before a meeting.
\<close>

section \<open>Topics\<close>

definition TOPIC_KEYWORDS :: "string list" where
  "TOPIC_KEYWORDS =
     [''meeting'', ''sync'', ''standup'', ''stand-up'', ''retrospective'', ''retro'', ''review'', ''planning'',
      ''sprint'', ''demo'', ''kickoff'', ''kick-off'', ''brainstorm'', ''workshop'', ''interview'', ''onboarding'',
      ''training'', ''lunch'', ''dinner'', ''coffee'', ''happy hour'', ''1:1'', ''one-on-one'', ''check-in'',
      ''checkin'', ''debrief'', ''all-hands'', ''town hall'', ''quarterly'', ''weekly'', ''monthly'', ''daily'',
      ''status'', ''update'', ''handoff'', ''hand-off'', ''call'', ''presentation'', ''pitch'', ''board meeting'',
      ''investor'', ''fundraising'', ''strategy'', ''roadmap'', ''design review'', ''code review'', ''architecture'',
      ''postmortem'', ''post-mortem'', ''celebration'', ''offsite'', ''off-site'']"

text \<open>A match of \<^verbatim>\<open>\\bk\\b\<close>: word characters are ASCII letters, digits and underscore.\<close>

definition wordChar :: "char \<Rightarrow> bool" where
  "wordChar c \<longleftrightarrow> (let n = of_char c :: nat in
     48 \<le> n \<and> n \<le> 57 \<or> 65 \<le> n \<and> n \<le> 90 \<or> 97 \<le> n \<and> n \<le> 122 \<or> n = 95)"

definition wordAt :: "string \<Rightarrow> bool" where
  "wordAt s = (case s of [] \<Rightarrow> False | c # _ \<Rightarrow> wordChar c)"

text \<open>\<open>before\<close> tells whether the character before the position is a word character.\<close>

fun wholeWord :: "bool \<Rightarrow> string \<Rightarrow> string \<Rightarrow> bool" where
  "wholeWord before k [] = (k = [] \<and> before)"
| "wholeWord before k (c # s) =
     (prefix k (c # s) \<and> before \<noteq> wordChar c \<and>
        wordAt (drop (length k) (c # s)) \<noteq> (if k = [] then before else wordChar (last k)) \<or>
      wholeWord (wordChar c) k s)"

definition topicIn :: "string \<Rightarrow> string \<Rightarrow> bool" where
  "topicIn lower keyword \<longleftrightarrow>
     (if CHR '' '' \<in> set keyword \<or> CHR ''-'' \<in> set keyword then includesText lower keyword
      else wholeWord False keyword lower)"

definition extractTopics :: "string option \<Rightarrow> string list" where
  "extractTopics title =
     (if \<not> truthy title \<or> blank (the title) then []
      else sort (filter (topicIn (toLowerCase (the title))) TOPIC_KEYWORDS))"

section \<open>The last interaction in words\<close>

definition ago :: "int \<Rightarrow> string \<Rightarrow> string" where
  "ago n unit' = (if n = 1 then ''1 '' @ unit' @ '' ago'' else showInt n @ '' '' @ unit' @ ''s ago'')"

text \<open>With a date that does not parse every comparison is false and the number of years is NaN.\<close>

definition summarizeLastInteraction :: "(string \<Rightarrow> int option) \<Rightarrow> string option \<Rightarrow> string \<Rightarrow> string option" where
  "summarizeLastInteraction legacy lastTs now =
     (if \<not> truthy lastTs then None
      else case (dateParse legacy now, dateParse legacy (the lastTs)) of
        (Some n, Some l) \<Rightarrow>
          (let diff = n - l; days = diff div msPerDay in
           if diff < 0 then Some ''upcoming''
           else if days = 0 then Some ''today''
           else if days = 1 then Some ''yesterday''
           else if days < 7 then Some (showInt days @ '' days ago'')
           else if days < 30 then Some (ago (days div 7) ''week'')
           else if days < 365 then Some (ago (days div 30) ''month'')
           else Some (ago (days div 365) ''year''))
      | _ \<Rightarrow> Some ''NaN years ago'')"

section \<open>Assembly\<close>

record briefing_participant_input =
  bp_participant_hash :: string
  bp_display_name :: "string option"
  bp_category :: string
  bp_closeness_weight :: rat
  bp_last_interaction_ts :: "string option"
  bp_reputation_score :: rat
  bp_total_interactions :: nat

record briefing_participant =
  bo_participant_hash :: string
  bo_display_name :: "string option"
  bo_category :: string
  bo_last_interaction_ts :: "string option"
  bo_last_interaction_summary :: "string option"
  bo_reputation_score :: rat
  bo_mutual_connections_count :: nat

record event_briefing =
  eb_event_id :: string
  eb_event_title :: "string option"
  eb_event_start :: string
  eb_topics :: "string list"
  eb_participants :: "briefing_participant list"
  eb_computed_at :: string

definition briefingParticipant ::
  "(string \<Rightarrow> int option) \<Rightarrow> string \<Rightarrow> (string \<Rightarrow> nat option) \<Rightarrow> briefing_participant_input \<Rightarrow> briefing_participant" where
  "briefingParticipant legacy now mutual p =
     \<lparr> bo_participant_hash = bp_participant_hash p, bo_display_name = bp_display_name p,
       bo_category = bp_category p, bo_last_interaction_ts = bp_last_interaction_ts p,
       bo_last_interaction_summary = summarizeLastInteraction legacy (bp_last_interaction_ts p) now,
       bo_reputation_score = round2 (bp_reputation_score p),
       bo_mutual_connections_count = nullish (mutual (bp_participant_hash p)) 0 \<rparr>"

definition assembleBriefing ::
  "(string \<Rightarrow> int option) \<Rightarrow> string \<Rightarrow> string option \<Rightarrow> string \<Rightarrow> briefing_participant_input list \<Rightarrow>
   (string \<Rightarrow> nat option) \<Rightarrow> string \<Rightarrow> event_briefing" where
  "assembleBriefing legacy eventId eventTitle eventStart participants mutual now =
     \<lparr> eb_event_id = eventId, eb_event_title = eventTitle, eb_event_start = eventStart,
       eb_topics = extractTopics eventTitle,
       eb_participants = sortDesc bo_reputation_score (map (briefingParticipant legacy now mutual) participants),
       eb_computed_at = now \<rparr>"

section \<open>Laws\<close>

lemma topics_sorted: "sorted (extractTopics title) \<and> distinct (extractTopics title) \<and>
    set (extractTopics title) \<subseteq> set TOPIC_KEYWORDS"
proof -
  have "distinct TOPIC_KEYWORDS" by (simp add: TOPIC_KEYWORDS_def)
  then show ?thesis by (auto simp: extractTopics_def)
qed

lemma topic_examples:
  "extractTopics (Some ''Weekly 1:1 Callback'') = [''1:1'', ''weekly'']"
  "extractTopics (Some ''Board Meeting / Code review'') = [''board meeting'', ''code review'', ''meeting'', ''review'']"
  by code_simp+

end
