(* ===== verification/Graph_People.thy ===== *)
theory Graph_People
  imports Briefing Graph_Time Availability Graph_Deltas
begin

text \<open>
  The people of a user: relationships, the interaction ledger, reputation and drift, reconnection suggestions,
  milestones, scheduling history, drift alerts and the briefing before a meeting. \<open>pow\<close> is the exponentiation of the
  reputation scores; \<open>geo\<close> what the engine knows about time zones.
\<close>

section \<open>Relationships\<close>

definition insertRelationshipRow :: "relationship_row \<Rightarrow> unit graph_op" where
  "insertRelationshipRow r s =
     (if rl_relationship_id r \<in> rl_relationship_id ` set (relationships s)
      then (Inl (UniqueViolation ''relationships.relationship_id''), s)
      else if rl_participant_hash r \<in> rl_participant_hash ` set (relationships s)
      then (Inl (UniqueViolation ''relationships.participant_hash''), s)
      else (Inr (), s\<lparr> relationships := relationships s @ [r] \<rparr>))"

definition relationshipError :: "string option \<Rightarrow> rat option \<Rightarrow> int option \<Rightarrow> string option" where
  "relationshipError category closeness target = firstError
     [(case category of Some c \<Rightarrow> \<not> isValidRelationshipCategory c | None \<Rightarrow> False,
       ''Invalid category: '' @ nullish category [] @
       ''. Must be one of: FAMILY, INVESTOR, FRIEND, CLIENT, BOARD, COLLEAGUE, OTHER''),
      (case closeness of Some w \<Rightarrow> w < 0 \<or> w > 1 | None \<Rightarrow> False, ''closeness_weight must be between 0.0 and 1.0''),
      (case target of Some n \<Rightarrow> n \<le> 0 | None \<Rightarrow> False, ''interaction_frequency_target must be a positive integer (days)'')]"

definition createRelationship ::
  "graph_env \<Rightarrow> string \<Rightarrow> string \<Rightarrow> string option \<Rightarrow> string \<Rightarrow> rat \<Rightarrow> string option \<Rightarrow> string option \<Rightarrow> int option \<Rightarrow>
   relationship_row graph_op" where
  "createRelationship env rid hash displayName category closeness city timezone target =
     (case relationshipError (Some category) (Some closeness) target of
        Some m \<Rightarrow> throw (Thrown m)
      | None \<Rightarrow>
          let r = \<lparr> rl_relationship_id = rid, rl_participant_hash = hash, rl_display_name = displayName,
                    rl_category = category, rl_closeness_weight = closeness, rl_last_interaction_ts = None,
                    rl_city = city, rl_timezone = timezone, rl_interaction_frequency_target = target,
                    rl_created_at = nowIso env, rl_updated_at = nowIso env \<rparr>
          in andThen (insertRelationshipRow r) (\<lambda>_. ret r))"

definition relationshipRows :: "string \<Rightarrow> user_graph \<Rightarrow> relationship_row list" where
  "relationshipRows rid s = filter (\<lambda>r. rl_relationship_id r = rid) (relationships s)"

definition getRelationship :: "string \<Rightarrow> relationship_row option graph_op" where
  "getRelationship rid = query (\<lambda>s. case relationshipRows rid s of [] \<Rightarrow> None | r # _ \<Rightarrow> Some r)"

definition relationshipsIn :: "string option \<Rightarrow> user_graph \<Rightarrow> relationship_row list" where
  "relationshipsIn category s =
     sortDesc (\<lambda>r. (rl_closeness_weight r, rl_created_at r))
       (filter (\<lambda>r. whereTruthy category (\<lambda>c. rl_category r = c)) (relationships s))"

definition listRelationships :: "string option \<Rightarrow> relationship_row list graph_op" where
  "listRelationships category = query (relationshipsIn category)"

record relationship_update =
  ru_display_name :: "string option option"
  ru_category :: "string option"
  ru_closeness_weight :: "rat option"
  ru_city :: "string option option"
  ru_timezone :: "string option option"
  ru_interaction_frequency_target :: "int option option"

definition applyRelationshipUpdate :: "graph_env \<Rightarrow> relationship_update \<Rightarrow> relationship_row \<Rightarrow> relationship_row" where
  "applyRelationshipUpdate env u r =
     r\<lparr> rl_display_name := nullish (ru_display_name u) (rl_display_name r),
        rl_category := nullish (ru_category u) (rl_category r),
        rl_closeness_weight := nullish (ru_closeness_weight u) (rl_closeness_weight r),
        rl_city := nullish (ru_city u) (rl_city r),
        rl_timezone := nullish (ru_timezone u) (rl_timezone r),
        rl_interaction_frequency_target :=
          nullish (ru_interaction_frequency_target u) (rl_interaction_frequency_target r),
        rl_updated_at := nowIso env \<rparr>"

definition updateRelationship :: "graph_env \<Rightarrow> string \<Rightarrow> relationship_update \<Rightarrow> relationship_row option graph_op" where
  "updateRelationship env rid u =
     andThen (getRelationship rid) (\<lambda>existing.
     case existing of
       None \<Rightarrow> ret None
     | Some r \<Rightarrow>
         (case relationshipError (ru_category u) (ru_closeness_weight u) (nullish (ru_interaction_frequency_target u) None) of
            Some m \<Rightarrow> throw (Thrown m)
          | None \<Rightarrow>
              andThen (modify (\<lambda>s. s\<lparr> relationships :=
                updateRows (\<lambda>r. rl_relationship_id r = rid) (applyRelationshipUpdate env u) (relationships s) \<rparr>)) (\<lambda>_.
              ret (Some (applyRelationshipUpdate env u r)))))"

definition hashesOf :: "string \<Rightarrow> user_graph \<Rightarrow> string set" where
  "hashesOf rid s = rl_participant_hash ` set (relationshipRows rid s)"

text \<open>Deleting the row takes its drift alerts with it (\<^verbatim>\<open>ON DELETE CASCADE\<close>).\<close>

definition deleteRelationship :: "string \<Rightarrow> bool graph_op" where
  "deleteRelationship rid =
     andThen (query (relationshipRows rid)) (\<lambda>rows.
       if rows = [] then ret False
       else andThen (modify (\<lambda>s. s\<lparr> milestones :=
              deleteRows (\<lambda>m. \<exists>h \<in> hashesOf rid s. mi_participant_hash m = Some h) (milestones s) \<rparr>)) (\<lambda>_.
            andThen (modify (\<lambda>s. s\<lparr> interaction_ledger :=
              deleteRows (\<lambda>l. il_participant_hash l \<in> hashesOf rid s) (interaction_ledger s) \<rparr>)) (\<lambda>_.
            andThen (modify (\<lambda>s. s\<lparr> relationships := deleteRows (\<lambda>r. rl_relationship_id r = rid) (relationships s),
                                    drift_alerts := deleteRows (\<lambda>d. da_relationship_id d = rid) (drift_alerts s) \<rparr>)) (\<lambda>_.
            ret True))))"

section \<open>The interaction ledger\<close>

definition insertLedgerRow :: "ledger_row \<Rightarrow> unit graph_op" where
  "insertLedgerRow l s =
     (if il_ledger_id l \<in> il_ledger_id ` set (interaction_ledger s)
      then (Inl (UniqueViolation ''interaction_ledger.ledger_id''), s)
      else (Inr (), s\<lparr> interaction_ledger := interaction_ledger s @ [l] \<rparr>))"

definition outcomeList :: string where
  "outcomeList = ''. Must be one of: ATTENDED, CANCELED_BY_ME, CANCELED_BY_THEM, NO_SHOW_THEM, NO_SHOW_ME, MOVED_LAST_MINUTE_THEM, MOVED_LAST_MINUTE_ME''"

definition markOutcome ::
  "graph_env \<Rightarrow> string \<Rightarrow> string \<Rightarrow> string option \<Rightarrow> string option \<Rightarrow> ledger_row option graph_op" where
  "markOutcome env rid outcome eventId note =
     (if \<not> isValidOutcome outcome then throw (Thrown (''Invalid outcome: '' @ outcome @ outcomeList))
      else andThen (getRelationship rid) (\<lambda>rel.
        case rel of
          None \<Rightarrow> ret None
        | Some r \<Rightarrow>
            andThen (freshId env ''ledger'') (\<lambda>lid.
            let l = \<lparr> il_ledger_id = lid, il_participant_hash = rl_participant_hash r, il_canonical_event_id = eventId,
                      il_outcome = outcome, il_weight = getOutcomeWeight outcome, il_note = note, il_ts = nowIso env \<rparr>
            in andThen (insertLedgerRow l) (\<lambda>_.
               andThen (if outcome = ''ATTENDED''
                        then modify (\<lambda>s. s\<lparr> relationships := updateRows (\<lambda>x. rl_relationship_id x = rid)
                               (\<lambda>x. x\<lparr> rl_last_interaction_ts := Some (nowIso env), rl_updated_at := nowIso env \<rparr>)
                               (relationships s) \<rparr>)
                        else ret ()) (\<lambda>_. ret (Some l))))))"

definition ledgerKey :: "ledger_row \<Rightarrow> string \<times> string" where
  "ledgerKey l = (il_ts l, il_ledger_id l)"

definition outcomesOf :: "string \<Rightarrow> string option \<Rightarrow> user_graph \<Rightarrow> ledger_row list" where
  "outcomesOf hash outcomeFilter s =
     sortDesc ledgerKey (filter (\<lambda>l. il_participant_hash l = hash \<and> whereTruthy outcomeFilter (\<lambda>o'. il_outcome l = o'))
       (interaction_ledger s))"

definition listOutcomes :: "string \<Rightarrow> string option \<Rightarrow> ledger_row list option graph_op" where
  "listOutcomes rid outcomeFilter =
     andThen (getRelationship rid) (\<lambda>rel.
     case rel of
       None \<Rightarrow> ret None
     | Some r \<Rightarrow>
         if truthy outcomeFilter \<and> \<not> isValidOutcome (the outcomeFilter)
         then throw (Thrown (''Invalid outcome filter: '' @ the outcomeFilter @ outcomeList))
         else query (\<lambda>s. Some (outcomesOf (rl_participant_hash r) outcomeFilter s)))"

definition getTimeline :: "string option \<Rightarrow> string option \<Rightarrow> string option \<Rightarrow> ledger_row list graph_op" where
  "getTimeline hash startDate endDate = query (\<lambda>s.
     take 200 (sortDesc ledgerKey (filter (\<lambda>l.
       whereTruthy hash (\<lambda>h. il_participant_hash l = h) \<and> whereTruthy startDate (\<lambda>d. il_ts l \<ge> d) \<and>
       whereTruthy endDate (\<lambda>d. il_ts l \<le> d @ ''T23:59:59Z'')) (interaction_ledger s))))"

section \<open>Reputation and drift\<close>

definition ledgerInput :: "ledger_row \<Rightarrow> ledger_input" where
  "ledgerInput l = \<lparr> li_outcome = il_outcome l, li_weight = il_weight l, li_ts = il_ts l \<rparr>"

definition lift :: "tm_error + 'a \<Rightarrow> 'a graph_op" where
  "lift v = (case v of Inl e \<Rightarrow> throw e | Inr x \<Rightarrow> ret x)"

definition reputationOf ::
  "graph_env \<Rightarrow> (rat \<Rightarrow> rat \<Rightarrow> rat) \<Rightarrow> string \<Rightarrow> string \<Rightarrow> user_graph \<Rightarrow> tm_error + reputation_result" where
  "reputationOf env pow hash now s =
     computeReputation pow (js_date env) (now_ms env) (map ledgerInput (outcomesOf hash None s)) (Some now)"

definition getReputation ::
  "graph_env \<Rightarrow> (rat \<Rightarrow> rat \<Rightarrow> rat) \<Rightarrow> string \<Rightarrow> string option \<Rightarrow> reputation_result option graph_op" where
  "getReputation env pow rid asOf =
     andThen (getRelationship rid) (\<lambda>rel.
     case rel of
       None \<Rightarrow> ret None
     | Some r \<Rightarrow> andThen (query (reputationOf env pow (rl_participant_hash r) (nullish asOf (nowIso env)))) (\<lambda>v.
         andThen (lift v) (\<lambda>x. ret (Some x))))"

definition listRelationshipsWithReputation ::
  "graph_env \<Rightarrow> (rat \<Rightarrow> rat \<Rightarrow> rat) \<Rightarrow> string option \<Rightarrow> (relationship_row \<times> reputation_result) list graph_op" where
  "listRelationshipsWithReputation env pow asOf =
     andThen (listRelationships None) (\<lambda>rels.
     andThen (query (\<lambda>s. pushAll (\<lambda>r. map_sum id (\<lambda>v. [(r, v)])
       (reputationOf env pow (rl_participant_hash r) (nullish asOf (nowIso env)) s)) rels)) (\<lambda>v.
     andThen (lift v) (\<lambda>results. ret (sortDesc (\<lambda>p. rr_reliability_score (snd p)) results))))"

definition driftInput :: "relationship_row \<Rightarrow> drift_input" where
  "driftInput r =
     \<lparr> dr_relationship_id = rl_relationship_id r, dr_participant_hash = rl_participant_hash r,
       dr_display_name = rl_display_name r, dr_category = rl_category r,
       dr_closeness_weight = rl_closeness_weight r, dr_last_interaction_ts = rl_last_interaction_ts r,
       dr_interaction_frequency_target = rl_interaction_frequency_target r \<rparr>"

definition getDriftReport :: "graph_env \<Rightarrow> string option \<Rightarrow> drift_report graph_op" where
  "getDriftReport env asOf =
     andThen (listRelationships None) (\<lambda>rels.
     lift (computeDrift (js_date env) (now_ms env) (map driftInput rels) (Some (nullish asOf (nowIso env)))))"

section \<open>Reconnection suggestions\<close>

record geo_env =
  ge_tz :: "string \<Rightarrow> bool"
  ge_local :: "string \<Rightarrow> int \<Rightarrow> int"
  ge_midnight :: int

record reconnection_report =
  rn_city :: string
  rn_trip_id :: "string option"
  rn_trip_name :: "string option"
  rn_trip_start :: "string option"
  rn_trip_end :: "string option"
  rn_suggestions :: "reconnection_suggestion list"
  rn_total_in_city :: nat
  rn_total_overdue_in_city :: nat
  rn_computed_at :: string

record trip_context =
  tx_city :: "string option"
  tx_name :: "string option"
  tx_start :: "string option"
  tx_end :: "string option"
  tx_timezone :: "string option"

definition tripContext :: "string option \<Rightarrow> string option \<Rightarrow> user_graph \<Rightarrow> tm_error + trip_context" where
  "tripContext city tripId s =
     (if \<not> truthy tripId
      then Inr \<lparr> tx_city = city, tx_name = None, tx_start = None, tx_end = None, tx_timezone = None \<rparr>
      else case readConstraint (the tripId) s of
             [] \<Rightarrow> Inl (Thrown (''Trip constraint not found: '' @ the tripId))
           | c # _ \<Rightarrow>
               if cn_kind c \<noteq> ''trip''
               then Inl (Thrown (''Constraint '' @ the tripId @ '' is not a trip (kind: '' @ cn_kind c @ '')''))
               else Inr \<lparr> tx_city = (if \<not> truthy city \<and> truthy (strField (cn_config_json c) ''destination_city'')
                                      then strField (cn_config_json c) ''destination_city'' else city),
                          tx_name = strField (cn_config_json c) ''name'', tx_start = cn_active_from c,
                          tx_end = cn_active_to c, tx_timezone = strField (cn_config_json c) ''timezone'' \<rparr>)"

definition filterThrow :: "('x \<Rightarrow> tm_error + bool) \<Rightarrow> 'x list \<Rightarrow> tm_error + 'x list" where
  "filterThrow P xs = pushAll (\<lambda>x. map_sum id (\<lambda>b. if b then [x] else []) (P x)) xs"

text \<open>The zone of a contact: the stored one, or the one of the city.\<close>

definition contactZone :: "relationship_row \<Rightarrow> tm_error + string option" where
  "contactZone r =
     (if truthy (rl_timezone r) then Inr (rl_timezone r) else cityToTimezone (rl_city r))"

definition getReconnectionSuggestions ::
  "graph_env \<Rightarrow> geo_env \<Rightarrow> string option \<Rightarrow> string option \<Rightarrow> reconnection_report graph_op" where
  "getReconnectionSuggestions env geo city tripId =
     andThen (query (tripContext city tripId)) (\<lambda>v. andThen (lift v) (\<lambda>ctx.
     if \<not> truthy (tx_city ctx)
     then throw (Thrown ''No city available. Provide city parameter or use a trip with destination_city set.'')
     else
       andThen (listRelationships None) (\<lambda>all.
       andThen (lift (filterThrow (\<lambda>r. matchCityWithAliases (rl_city r) (tx_city ctx)) all)) (\<lambda>inCity.
       andThen (lift (computeDrift (js_date env) (now_ms env) (map driftInput inCity) (Some (nowIso env)))) (\<lambda>report.
       andThen (if truthy (tx_timezone ctx) then ret (tx_timezone ctx) else lift (cityToTimezone (tx_city ctx))) (\<lambda>userTz.
       andThen (lift (pushAll (\<lambda>r. map_sum id (\<lambda>z. [(rl_relationship_id r, z)]) (contactZone r)) inCity)) (\<lambda>zones.
       let enriched = enrichSuggestionsWithTimeWindows (dp_overdue report) (tx_start ctx) (tx_end ctx);
           suggest = suggestMeetingWindow (js_date env) (ge_tz geo) (ge_local geo) (ge_midnight geo)
       in ret \<lparr> rn_city = the (tx_city ctx), rn_trip_id = tripId, rn_trip_name = tx_name ctx,
                rn_trip_start = tx_start ctx, rn_trip_end = tx_end ctx,
                rn_suggestions = enrichWithTimezoneWindows enriched (tx_start ctx) (tx_end ctx) userTz
                  (\<lambda>rid. nullish (map_of (rev zones) rid) None) suggest,
                rn_total_in_city = length inCity, rn_total_overdue_in_city = dp_total_overdue report,
                rn_computed_at = dp_computed_at report \<rparr>)))))))"

section \<open>Milestones\<close>

definition insertMilestoneRow :: "milestone_row \<Rightarrow> unit graph_op" where
  "insertMilestoneRow m s =
     (if mi_milestone_id m \<in> mi_milestone_id ` set (milestones s)
      then (Inl (UniqueViolation ''milestones.milestone_id''), s)
      else (Inr (), s\<lparr> milestones := milestones s @ [m] \<rparr>))"

definition createMilestone ::
  "graph_env \<Rightarrow> string \<Rightarrow> string \<Rightarrow> string \<Rightarrow> string \<Rightarrow> bool \<Rightarrow> string option \<Rightarrow> milestone_row option graph_op" where
  "createMilestone env mid rid kind day recursAnnually note =
     (if \<not> isValidMilestoneKind kind
      then throw (Thrown (''Invalid milestone kind: '' @ kind @
             ''. Must be one of: birthday, anniversary, graduation, funding, relocation, custom''))
      else if \<not> isValidMilestoneDate day
      then throw (Thrown (''Invalid milestone date: '' @ day @ ''. Must be YYYY-MM-DD format with a valid date.''))
      else andThen (getRelationship rid) (\<lambda>rel.
        case rel of
          None \<Rightarrow> ret None
        | Some r \<Rightarrow>
            let m = \<lparr> mi_milestone_id = mid, mi_participant_hash = Some (rl_participant_hash r), mi_kind = kind,
                      mi_date = day, mi_recurs_annually = recursAnnually, mi_note = note,
                      mi_created_at = nowIso env \<rparr>
            in andThen (insertMilestoneRow m) (\<lambda>_. ret (Some m))))"

definition listMilestones :: "string \<Rightarrow> milestone_row list option graph_op" where
  "listMilestones rid =
     andThen (getRelationship rid) (\<lambda>rel.
     case rel of
       None \<Rightarrow> ret None
     | Some r \<Rightarrow> query (\<lambda>s. Some (sort_key mi_date
         (filter (\<lambda>m. mi_participant_hash m = Some (rl_participant_hash r)) (milestones s)))))"

definition deleteMilestone :: "string \<Rightarrow> bool graph_op" where
  "deleteMilestone mid =
     andThen (query (\<lambda>s. filter (\<lambda>m. mi_milestone_id m = mid) (milestones s))) (\<lambda>rows.
       if rows = [] then ret False
       else andThen (modify (\<lambda>s. s\<lparr> milestones := deleteRows (\<lambda>m. mi_milestone_id m = mid) (milestones s) \<rparr>))
              (\<lambda>_. ret True))"

record upcoming_milestone =
  um_row :: milestone_row
  um_next_occurrence :: string
  um_days_until :: int
  um_display_name :: "string option"

text \<open>The left join: participant hashes are unique among relationships, so a milestone has one row.\<close>

definition milestoneName :: "user_graph \<Rightarrow> milestone_row \<Rightarrow> string option" where
  "milestoneName s m =
     (case filter (\<lambda>r. mi_participant_hash m = Some (rl_participant_hash r)) (relationships s) of
        [] \<Rightarrow> None | r # _ \<Rightarrow> rl_display_name r)"

definition upcoming :: "graph_env \<Rightarrow> int \<Rightarrow> string \<Rightarrow> user_graph \<Rightarrow> milestone_row \<Rightarrow> upcoming_milestone list" where
  "upcoming env maxDays today s m =
     (let next' = computeNextOccurrence (mi_date m) today (mi_recurs_annually m) in
      case daysBetween (js_date env) today next' of
        None \<Rightarrow> []
      | Some n \<Rightarrow>
          if 0 \<le> n \<and> n \<le> maxDays
          then [\<lparr> um_row = m, um_next_occurrence = next', um_days_until = n, um_display_name = milestoneName s m \<rparr>]
          else [])"

definition listUpcomingMilestones ::
  "graph_env \<Rightarrow> (string \<Rightarrow> string) \<Rightarrow> int \<Rightarrow> upcoming_milestone list graph_op" where
  "listUpcomingMilestones env collate maxDays = query (\<lambda>s.
     sort_key (\<lambda>u. collate (um_next_occurrence u))
       (concat (map (upcoming env maxDays (slice 0 10 (nowIso env)) s) (sort_key mi_date (milestones s)))))"

section \<open>Scheduling history\<close>

definition insertHistoryRow :: "history_row \<Rightarrow> unit graph_op" where
  "insertHistoryRow h s =
     (if hi_id h \<in> hi_id ` set (scheduling_history s)
      then (Inl (UniqueViolation ''scheduling_history.id''), s)
      else (Inr (), s\<lparr> scheduling_history := scheduling_history s @ [h] \<rparr>))"

definition recordSchedulingHistory :: "graph_env \<Rightarrow> (string \<times> string \<times> bool \<times> string) list \<Rightarrow> unit graph_op" where
  "recordSchedulingHistory env entries = forEach entries (\<lambda>(sid, hash, preferred, ts).
     andThen (freshId env ''schedHist'') (\<lambda>i. insertHistoryRow
       \<lparr> hi_id = i, hi_session_id = sid, hi_participant_hash = hash, hi_got_preferred = preferred,
         hi_scheduled_ts = ts \<rparr>))"

record participant_history =
  ph_participant_hash :: string
  ph_sessions_participated :: nat
  ph_sessions_preferred :: nat
  ph_last_session_ts :: string

definition historyOf :: "user_graph \<Rightarrow> string \<Rightarrow> participant_history list" where
  "historyOf s hash =
     (case filter (\<lambda>h. hi_participant_hash h = hash) (scheduling_history s) of
        [] \<Rightarrow> []
      | h # hs \<Rightarrow> [\<lparr> ph_participant_hash = hash, ph_sessions_participated = length (h # hs),
                    ph_sessions_preferred = length (filter hi_got_preferred (h # hs)),
                    ph_last_session_ts = foldl max (hi_scheduled_ts h) (map hi_scheduled_ts hs) \<rparr>])"

definition getSchedulingHistory :: "string list \<Rightarrow> participant_history list graph_op" where
  "getSchedulingHistory hashes = query (\<lambda>s. concat (map (historyOf s) hashes))"

section \<open>Briefing\<close>

definition getEventParticipantHashes :: "string \<Rightarrow> user_graph \<Rightarrow> string list" where
  "getEventParticipantHashes cid s =
     map ep_participant_hash (filter (\<lambda>p. ep_canonical_event_id p = cid) (event_participants s))"

text \<open>Contacts who share an event with a participant and are relationships themselves.\<close>

definition mutualContacts :: "string \<Rightarrow> user_graph \<Rightarrow> string list" where
  "mutualContacts hash s =
     (let events = map ep_canonical_event_id (filter (\<lambda>p. ep_participant_hash p = hash) (event_participants s)) in
      remdups (filter (\<lambda>h. h \<in> rl_participant_hash ` set (relationships s))
        (concat (map (\<lambda>cid. filter (\<lambda>h. h \<noteq> hash) (getEventParticipantHashes cid s)) events))))"

definition briefingInput ::
  "graph_env \<Rightarrow> (rat \<Rightarrow> rat \<Rightarrow> rat) \<Rightarrow> user_graph \<Rightarrow> relationship_row \<Rightarrow> tm_error + briefing_participant_input list" where
  "briefingInput env pow s r =
     map_sum id (\<lambda>v. [\<lparr> bp_participant_hash = rl_participant_hash r, bp_display_name = rl_display_name r,
        bp_category = rl_category r, bp_closeness_weight = rl_closeness_weight r,
        bp_last_interaction_ts = rl_last_interaction_ts r, bp_reputation_score = rr_reliability_score v,
        bp_total_interactions = rr_total_interactions v \<rparr>])
       (reputationOf env pow (rl_participant_hash r) (nowIso env) s)"

definition matchedRelationships :: "string \<Rightarrow> user_graph \<Rightarrow> relationship_row list" where
  "matchedRelationships cid s =
     concat (map (\<lambda>h. case rev (filter (\<lambda>r. rl_participant_hash r = h) (relationshipsIn None s)) of
                        [] \<Rightarrow> [] | r # _ \<Rightarrow> [r]) (getEventParticipantHashes cid s))"

definition getEventBriefing ::
  "graph_env \<Rightarrow> (rat \<Rightarrow> rat \<Rightarrow> rat) \<Rightarrow> string \<Rightarrow> event_briefing option graph_op" where
  "getEventBriefing env pow cid =
     andThen (query (eventsWithId cid)) (\<lambda>events.
     case events of
       [] \<Rightarrow> ret None
     | e # _ \<Rightarrow>
         andThen (query (\<lambda>s. pushAll (briefingInput env pow s) (matchedRelationships cid s))) (\<lambda>v.
         andThen (lift v) (\<lambda>participants.
         query (\<lambda>s. Some (assembleBriefing (js_date env) cid (ce_title e) (ce_start_ts e) participants
           (\<lambda>h. if h \<in> rl_participant_hash ` set (matchedRelationships cid s)
                then Some (length (mutualContacts h s)) else None) (nowIso env))))))"

section \<open>Drift alerts\<close>

definition insertAlertRow :: "drift_row \<Rightarrow> unit graph_op" where
  "insertAlertRow d s =
     (if da_alert_id d \<in> da_alert_id ` set (drift_alerts s)
      then (Inl (UniqueViolation ''drift_alerts.alert_id''), s)
      else if da_relationship_id d \<notin> rl_relationship_id ` set (relationships s) then (Inl ForeignKeyViolation, s)
      else (Inr (), s\<lparr> drift_alerts := drift_alerts s @ [d] \<rparr>))"

definition storeDriftAlerts :: "graph_env \<Rightarrow> drift_report \<Rightarrow> nat graph_op" where
  "storeDriftAlerts env report =
     andThen (modify (\<lambda>s. s\<lparr> drift_alerts := [] \<rparr>)) (\<lambda>_.
     andThen (forEach (dp_overdue report) (\<lambda>e.
       andThen (freshId env ''alert'') (\<lambda>i. insertAlertRow
         \<lparr> da_alert_id = i, da_relationship_id = de_relationship_id e, da_display_name = de_display_name e,
           da_category = de_category e, da_drift_ratio = de_drift_ratio e, da_days_overdue = de_days_overdue e,
           da_urgency = de_urgency e, da_computed_at = dp_computed_at report \<rparr>))) (\<lambda>_.
     ret (length (dp_overdue report))))"

definition getDriftAlerts :: "drift_row list graph_op" where
  "getDriftAlerts = query (\<lambda>s. sortDesc da_urgency (drift_alerts s))"

end
