(* ===== verification/People_Laws.thy ===== *)
theory People_Laws
  imports Graph_People Time_Laws
begin

text \<open>
  Relationships, ledger, milestones and alerts keep the tables well formed; the ledger holds only outcomes with their
  weights, so a reputation is the discounted average of valid weights; deleting a relationship leaves nothing of it;
  storing a drift report replaces the alerts by one for each entry.
\<close>

section \<open>Well-formed tables\<close>

lemma graph_ok_people:
  assumes "graph_ok env s" and "people_ok (s\<lparr> relationships := rs, drift_alerts := ds \<rparr>)"
  shows "graph_ok env (s\<lparr> relationships := rs, drift_alerts := ds \<rparr>)"
  using assms by (simp add: graph_ok_def events_ok_def mirrors_ok_def references_ok_def policies_ok_def calendars_ok_def
      journal_ok_def sessions_ok_def time_ok_def eventIds_def)

lemma graph_ok_people_parts:
  assumes "graph_ok env s"
  shows "distinct (map rl_relationship_id (relationships s))" "distinct (map rl_participant_hash (relationships s))"
    "Ball (set (relationships s)) relationship_valid"
    "da_relationship_id ` set (drift_alerts s) \<subseteq> rl_relationship_id ` set (relationships s)"
  using assms by (simp_all add: graph_ok_def people_ok_def)

lemma relationshipError_none:
  "relationshipError c w n = None \<longleftrightarrow>
     (\<forall>x. c = Some x \<longrightarrow> isValidRelationshipCategory x) \<and> (\<forall>x. w = Some x \<longrightarrow> 0 \<le> x \<and> x \<le> 1) \<and>
     (\<forall>x. n = Some x \<longrightarrow> 0 < x)"
  by (auto simp: relationshipError_def firstError_none not_less not_le split: option.splits)

lemma insertRelationship_ok:
  assumes ok: "graph_ok env s" and "relationship_valid r"
  shows "graph_ok env (snd (insertRelationshipRow r s))"
proof -
  have "graph_ok env (s\<lparr> relationships := relationships s @ [r], drift_alerts := drift_alerts s \<rparr>)"
    if "rl_relationship_id r \<notin> rl_relationship_id ` set (relationships s)"
      "rl_participant_hash r \<notin> rl_participant_hash ` set (relationships s)"
    using that assms(2) graph_ok_people_parts [OF ok]
    by (intro graph_ok_people [OF ok]) (auto simp: people_ok_def)
  with ok show ?thesis by (simp add: insertRelationshipRow_def)
qed

lemma keeps_createRelationship [graph_keeps]:
  "keeps (graph_ok env) (createRelationship env' rid h d c w city z n)"
proof -
  have "keeps (graph_ok env) (insertRelationshipRow r)" if "relationship_valid r" for r
    by (intro keepsI insertRelationship_ok that)
  then show ?thesis
    unfolding createRelationship_def Let_def
    by (intro keeps_intro) (simp_all add: relationship_valid_def relationshipError_none)
qed

lemma applyRelationshipUpdate_keys [simp]:
  "rl_relationship_id (applyRelationshipUpdate env u r) = rl_relationship_id r"
  "rl_participant_hash (applyRelationshipUpdate env u r) = rl_participant_hash r"
  "rl_last_interaction_ts (applyRelationshipUpdate env u r) = rl_last_interaction_ts r"
  by (simp_all add: applyRelationshipUpdate_def)

lemma applyRelationshipUpdate_valid:
  assumes "relationshipError (ru_category u) (ru_closeness_weight u) (nullish (ru_interaction_frequency_target u) None) = None"
    and "relationship_valid r"
  shows "relationship_valid (applyRelationshipUpdate env u r)"
  using assms
  by (cases "ru_category u"; cases "ru_closeness_weight u"; cases "ru_interaction_frequency_target u")
     (auto simp: relationshipError_none relationship_valid_def applyRelationshipUpdate_def)

lemma keeps_updateRelationship [graph_keeps]: "keeps (graph_ok env) (updateRelationship env' rid u)"
proof -
  have "keeps (graph_ok env) (modify (\<lambda>s. s\<lparr> relationships :=
      updateRows (\<lambda>r. rl_relationship_id r = rid) (applyRelationshipUpdate env' u) (relationships s) \<rparr>))"
    if "relationshipError (ru_category u) (ru_closeness_weight u) (nullish (ru_interaction_frequency_target u) None) = None"
    by (intro keeps_modify graph_ok_updateRelationships) (simp_all add: applyRelationshipUpdate_valid that)
  then show ?thesis
    unfolding updateRelationship_def getRelationship_def by (intro keeps_intro)
qed

lemma keeps_deleteRelationship [graph_keeps]: "keeps (graph_ok env) (deleteRelationship rid)"
proof -
  have "keeps (graph_ok env) (modify (\<lambda>s. s\<lparr> relationships := deleteRows (\<lambda>r. rl_relationship_id r = rid) (relationships s),
      drift_alerts := deleteRows (\<lambda>d. da_relationship_id d = rid) (drift_alerts s) \<rparr>))"
  proof (rule keeps_modify)
    fix s assume ok: "graph_ok env s"
    show "graph_ok env (s\<lparr> relationships := deleteRows (\<lambda>r. rl_relationship_id r = rid) (relationships s),
      drift_alerts := deleteRows (\<lambda>d. da_relationship_id d = rid) (drift_alerts s) \<rparr>)"
      using graph_ok_people_parts [OF ok]
      by (intro graph_ok_people [OF ok]) (auto simp: people_ok_def distinct_map_deleteRows)
  qed
  moreover have "keeps (graph_ok env) (modify (\<lambda>s. s\<lparr> milestones := f s \<rparr>))"
    "keeps (graph_ok env) (modify (\<lambda>s. s\<lparr> interaction_ledger := g s \<rparr>))" for f g
    by (intro keeps_modify; simp add: graph_ok_frame)+
  ultimately show ?thesis unfolding deleteRelationship_def by (intro keeps_intro)
qed

lemma keeps_markOutcome [graph_keeps]: "keeps (graph_ok env) (markOutcome env rid o' e n)"
proof -
  have "keeps (graph_ok env) (insertLedgerRow l)" for l
    by (intro keepsI) (simp add: insertLedgerRow_def graph_ok_frame)
  moreover have "keeps (graph_ok env) (modify (\<lambda>s. s\<lparr> relationships := updateRows (\<lambda>x. rl_relationship_id x = rid)
      (\<lambda>x. x\<lparr> rl_last_interaction_ts := Some ts, rl_updated_at := u \<rparr>) (relationships s) \<rparr>))" for ts u
    by (intro keeps_modify graph_ok_updateRelationships) (simp_all add: relationship_valid_def)
  ultimately show ?thesis
    unfolding markOutcome_def getRelationship_def Let_def by (intro keeps_intro graph_keeps)
qed

section \<open>The ledger\<close>

definition ledger_valid :: "user_graph \<Rightarrow> bool" where
  "ledger_valid s \<longleftrightarrow> (\<forall>l \<in> set (interaction_ledger s). isValidOutcome (il_outcome l) \<and> il_weight l = getOutcomeWeight (il_outcome l))"

lemma ledger_valid_same: "interaction_ledger t = interaction_ledger s \<Longrightarrow> ledger_valid t = ledger_valid s"
  by (simp add: ledger_valid_def)

lemma keeps_ledger:
  "keeps ledger_valid (markOutcome env rid o' e n)" "keeps ledger_valid (deleteRelationship rid)"
proof -
  have "keeps ledger_valid (insertLedgerRow l)" if "isValidOutcome (il_outcome l)" "il_weight l = getOutcomeWeight (il_outcome l)" for l
    using that by (intro keepsI) (simp add: insertLedgerRow_def ledger_valid_def)
  moreover have "keeps ledger_valid (freshId env ty)" for env ty
    by (intro keepsI) (simp add: freshId_def ledger_valid_def)
  moreover have "keeps ledger_valid (modify (\<lambda>s. s\<lparr> relationships := f s \<rparr>))" for f
    by (intro keeps_modify) (simp add: ledger_valid_def)
  ultimately show "keeps ledger_valid (markOutcome env rid o' e n)"
    unfolding markOutcome_def getRelationship_def Let_def by (intro keeps_intro) simp_all
  have "keeps ledger_valid (modify (\<lambda>s. s\<lparr> interaction_ledger := deleteRows (P s) (interaction_ledger s) \<rparr>))"
    "keeps ledger_valid (modify (\<lambda>s. s\<lparr> milestones := f s \<rparr>))"
    "keeps ledger_valid (modify (\<lambda>s. s\<lparr> relationships := f' s, drift_alerts := g s \<rparr>))" for P f f' g
    by (intro keeps_modify; simp add: ledger_valid_def)+
  then show "keeps ledger_valid (deleteRelationship rid)"
    unfolding deleteRelationship_def by (intro keeps_intro)
qed

text \<open>
  With a positive power the reputation of a participant with a record is the rounded, normalised average of the
  discounted weights; no value is clamped.
\<close>

lemma reputation_exact:
  assumes "ledger_valid s" and pow: "\<forall>x. 0 < pow (95 / 100) x"
    and "reputationOf env pow hash (toISOString t) s = Inr r" and "\<bar>t\<bar> \<le> maxDateMs"
    and some: "discounted pow (js_date env) t (map ledgerInput (outcomesOf hash None s)) \<noteq> []"
  shows "rr_reliability_score r =
      round2 ((weightedAverage (discounted pow (js_date env) t (map ledgerInput (outcomesOf hash None s))) + 1) / 2)"
    and "rr_total_interactions r = length (filter (\<lambda>l. il_participant_hash l = hash) (interaction_ledger s))"
proof -
  have "truthy (Some (toISOString t))" by (simp add: toISOString_def)
  then have "resolveTimestamp (js_date env) (now_ms env) (Some (toISOString t)) = Some t"
    using assms(4) by (simp add: resolveTimestamp_def dateParse_toISOString)
  with assms(3) have r: "rr_reliability_score r =
      computeReliabilityScore pow (js_date env) t (map ledgerInput (outcomesOf hash None s))"
    "rr_total_interactions r = length (outcomesOf hash None s)"
    by (auto simp: reputationOf_def computeReputation_def)
  have "\<forall>e \<in> set (map ledgerInput (outcomesOf hash None s)). - 1 \<le> li_weight e \<and> li_weight e \<le> 1"
    using assms(1) outcome_weight_bounds by (auto simp: outcomesOf_def ledger_valid_def ledgerInput_def)
  from reliability_exact [OF pow this some] r(1)
  show "rr_reliability_score r =
      round2 ((weightedAverage (discounted pow (js_date env) t (map ledgerInput (outcomesOf hash None s))) + 1) / 2)"
    by simp
  show "rr_total_interactions r = length (filter (\<lambda>l. il_participant_hash l = hash) (interaction_ledger s))"
    using r(2) by (simp add: outcomesOf_def whereTruthy_def)
qed

section \<open>Deleting a relationship\<close>

lemma deleteRelationship_gone:
  assumes ok: "graph_ok env s" and row: "relationshipRows rid s = [r]"
  shows "\<exists>t. deleteRelationship rid s = (Inr True, t) \<and> relationshipRows rid t = [] \<and>
     (\<forall>l \<in> set (interaction_ledger t). il_participant_hash l \<noteq> rl_participant_hash r) \<and>
     (\<forall>m \<in> set (milestones t). mi_participant_hash m \<noteq> Some (rl_participant_hash r)) \<and>
     (\<forall>d \<in> set (drift_alerts t). da_relationship_id d \<noteq> rid) \<and>
     (\<forall>q \<in> set (relationships s). rl_relationship_id q \<noteq> rid \<longrightarrow> q \<in> set (relationships t))"
proof -
  have hash: "hashesOf rid (s\<lparr> milestones := x \<rparr>) = {rl_participant_hash r}" "hashesOf rid s = {rl_participant_hash r}" for x
    using row by (simp_all add: hashesOf_def relationshipRows_def)
  show ?thesis
    using row [unfolded relationshipRows_def]
    by (simp add: deleteRelationship_def row andThen_def ret_run hash relationshipRows_def deleteRows_def)
qed

section \<open>Drift alerts\<close>

text \<open>The rows of a report whose identifiers start at a number.\<close>

definition alertRow :: "graph_env \<Rightarrow> string \<Rightarrow> nat \<Rightarrow> drift_entry \<Rightarrow> drift_row" where
  "alertRow env computedAt k e =
     \<lparr> da_alert_id = generateId ''alert'' (ulid env k), da_relationship_id = de_relationship_id e,
       da_display_name = de_display_name e, da_category = de_category e, da_drift_ratio = de_drift_ratio e,
       da_days_overdue = de_days_overdue e, da_urgency = de_urgency e, da_computed_at = computedAt \<rparr>"

fun alertRows :: "graph_env \<Rightarrow> string \<Rightarrow> nat \<Rightarrow> drift_entry list \<Rightarrow> drift_row list" where
  "alertRows env c k [] = []"
| "alertRows env c k (e # es) = alertRow env c k e # alertRows env c (Suc k) es"

lemma alertRows_ids: "d \<in> set (alertRows env c k es) \<Longrightarrow> \<exists>j \<ge> k. da_alert_id d = generateId ''alert'' (ulid env j)"
proof (induction es arbitrary: k)
  case (Cons e es)
  then show ?case by (auto simp: alertRow_def) (use Suc_leD in blast)
qed simp

lemma insertAlerts_run:
  assumes "inj (ulid env)" and "\<forall>e \<in> set es. de_relationship_id e \<in> rl_relationship_id ` set (relationships s)"
    and "\<forall>d \<in> set (drift_alerts s). \<exists>j < id_seq s. da_alert_id d = generateId ''alert'' (ulid env j)"
  shows "forEach es (\<lambda>e. andThen (freshId env ''alert'') (\<lambda>i. insertAlertRow
         \<lparr> da_alert_id = i, da_relationship_id = de_relationship_id e, da_display_name = de_display_name e,
           da_category = de_category e, da_drift_ratio = de_drift_ratio e, da_days_overdue = de_days_overdue e,
           da_urgency = de_urgency e, da_computed_at = c \<rparr>)) s =
    (Inr (), s\<lparr> id_seq := id_seq s + length es, drift_alerts := drift_alerts s @ alertRows env c (id_seq s) es \<rparr>)"
  using assms(2,3)
proof (induction es arbitrary: s)
  case Nil
  then show ?case by (simp add: ret_run)
next
  case (Cons e es)
  let ?f = "\<lambda>e. andThen (freshId env ''alert'') (\<lambda>i. insertAlertRow
         \<lparr> da_alert_id = i, da_relationship_id = de_relationship_id e, da_display_name = de_display_name e,
           da_category = de_category e, da_drift_ratio = de_drift_ratio e, da_days_overdue = de_days_overdue e,
           da_urgency = de_urgency e, da_computed_at = c \<rparr>)"
  let ?s = "s\<lparr> id_seq := Suc (id_seq s), drift_alerts := drift_alerts s @ [alertRow env c (id_seq s) e] \<rparr>"
  have "generateId ''alert'' (ulid env (id_seq s)) \<notin> da_alert_id ` set (drift_alerts s)"
  proof
    assume "generateId ''alert'' (ulid env (id_seq s)) \<in> da_alert_id ` set (drift_alerts s)"
    then obtain j where "j < id_seq s" "generateId ''alert'' (ulid env (id_seq s)) = generateId ''alert'' (ulid env j)"
      using Cons.prems(2) by auto
    then show False using assms(1) by (simp add: generateId_def inj_eq)
  qed
  with Cons.prems(1) have step: "?f e s = (Inr (), ?s)"
    by (simp add: freshId_def andThen_def insertAlertRow_def alertRow_def)
  have "\<forall>d \<in> set (drift_alerts ?s). \<exists>j < id_seq ?s. da_alert_id d = generateId ''alert'' (ulid env j)"
    using Cons.prems(2) by (auto simp: alertRow_def) (use less_Suc_eq in blast)+
  with Cons.IH [of ?s] Cons.prems(1) show ?case by (simp add: andThen_Inr [where m = "?f e" and s = s, OF step])
qed

lemma storeDriftAlerts_run:
  assumes "inj (ulid env)" and "\<forall>e \<in> set (dp_overdue p). de_relationship_id e \<in> rl_relationship_id ` set (relationships s)"
  shows "storeDriftAlerts env p s = (Inr (length (dp_overdue p)),
    s\<lparr> id_seq := id_seq s + length (dp_overdue p),
       drift_alerts := alertRows env (dp_computed_at p) (id_seq s) (dp_overdue p) \<rparr>)"
  using insertAlerts_run [OF assms(1), of "dp_overdue p" "s\<lparr> drift_alerts := [] \<rparr>" "dp_computed_at p"] assms(2)
  by (simp add: storeDriftAlerts_def andThen_def ret_run)

text \<open>A report with an entry for a relationship that is gone: the old alerts are lost and the call throws.\<close>

lemma storeDriftAlerts_stale:
  assumes "dp_overdue p = e # es" and "de_relationship_id e \<notin> rl_relationship_id ` set (relationships s)"
  shows "storeDriftAlerts env p s = (Inl ForeignKeyViolation, s\<lparr> id_seq := Suc (id_seq s), drift_alerts := [] \<rparr>)"
  using assms by (simp add: storeDriftAlerts_def andThen_def freshId_def insertAlertRow_def)

section \<open>The drift report of the store\<close>

lemma getDriftReport_exact:
  assumes "\<bar>now_ms env\<bar> \<le> maxDateMs"
  shows "\<exists>p. getDriftReport env None s = (Inr p, s) \<and>
     set (dp_overdue p) = {driftEntry (now_ms env) (driftInput r) lastMs | r lastMs. r \<in> set (relationships s) \<and>
        overdueAt (js_date env) (now_ms env) (driftInput r) \<and> lastInteraction (js_date env) (driftInput r) = Some lastMs} \<and>
     sorted_wrt (\<lambda>a b. de_urgency b \<le> de_urgency a) (dp_overdue p) \<and> dp_total_overdue p = length (dp_overdue p)"
proof -
  have "truthy (Some (nowIso env))" by (simp add: nowIso_def toISOString_def)
  then have "resolveTimestamp (js_date env) (now_ms env) (Some (nowIso env)) = Some (now_ms env)"
    using assms by (simp add: resolveTimestamp_def nowIso_def dateParse_toISOString)
  from computeDrift_report [OF this, of "map driftInput (relationshipsIn None s)"] obtain p where
    p: "computeDrift (js_date env) (now_ms env) (map driftInput (relationshipsIn None s)) (Some (nowIso env)) = Inr p"
    and over: "set (dp_overdue p) = {driftEntry (now_ms env) r lastMs | r lastMs.
      r \<in> set (map driftInput (relationshipsIn None s)) \<and> overdueAt (js_date env) (now_ms env) r \<and>
      lastInteraction (js_date env) r = Some lastMs}"
    and rest: "sorted_wrt (\<lambda>a b. de_urgency b \<le> de_urgency a) (dp_overdue p)" "dp_total_overdue p = length (dp_overdue p)"
    by blast
  have rels: "set (relationshipsIn None s) = set (relationships s)" by (simp add: relationshipsIn_def whereTruthy_def)
  have "getDriftReport env None s = (Inr p, s)"
    by (simp add: getDriftReport_def listRelationships_def p lift_def ret_run)
  moreover have "set (dp_overdue p) = {driftEntry (now_ms env) (driftInput r) lastMs | r lastMs. r \<in> set (relationships s) \<and>
      overdueAt (js_date env) (now_ms env) (driftInput r) \<and> lastInteraction (js_date env) (driftInput r) = Some lastMs}"
    unfolding over set_map rels by blast
  ultimately show ?thesis using rest by blast
qed

end
