(* ===== verification/Sample_People.thy ===== *)
theory Sample_People
  imports Time_Laws Sample_Calls People_Laws
begin

text \<open>Concrete stores for the closing theorems about commitments and relationships.\<close>

section \<open>A commitment with one billed hour\<close>

definition sampleCommitment :: commitment_row where
  "sampleCommitment =
     \<lparr> tc_commitment_id = ''cmt_1'', tc_client_id = ''client_1'', tc_client_name = None, tc_window_type = ''WEEKLY'',
       tc_target_hours = 1, tc_rolling_window_weeks = 4, tc_hard_minimum = False, tc_proof_required = False,
       tc_created_at = ''2025-06-01T00:00:00.000Z'' \<rparr>"

definition printedEvent :: event_row where
  "printedEvent = sampleEvent\<lparr> ce_start_ts := toISOString 1750064400000, ce_end_ts := toISOString 1750068000000 \<rparr>"

definition committedGraph :: user_graph where
  "committedGraph = billedGraph
     \<lparr> canonical_events := [printedEvent],
       time_allocations := map (\<lambda>a. a\<lparr> ta_client_id := Some ''client_1'' \<rparr>) (time_allocations billedGraph),
       time_commitments := [sampleCommitment] \<rparr>"

lemma printedEvent_hours: "eventHours sampleEnv printedEvent = Some 1"
proof -
  have "plainYear 1750064400000" "plainYear 1750068000000" by code_simp+
  then show ?thesis by (simp add: eventHours_def printedEvent_def julianMs_toISOString maxDateMs_def)
qed

lemma committed_rows: "(a, e) \<in> set (clientEvents c x y committedGraph) \<Longrightarrow> e = printedEvent"
  by (drule clientEvents_event) (simp add: committedGraph_def)

lemma committed_runs:
  "\<exists>st t. getCommitmentStatus sampleEnv ''cmt_1'' None committedGraph = (Inr (Some st), t)"
  "\<exists>pf. getCommitmentProofData sampleEnv ''cmt_1'' None committedGraph = (Inr (Some pf), committedGraph)"
  by (simp_all add: getCommitmentStatus_def getCommitmentProofData_def getCommitment_def commitmentRows_def committedGraph_def
      sampleCommitment_def andThen_def windowIso_def asOfMs_def sampleEnv_def windowStart_def maxDateMs_def Let_def
      freshId_def insertReportRow_def billedGraph_def sampleGraph_def emptyGraph_def ret_run)

section \<open>A contact nobody has met\<close>

definition sampleContact :: relationship_row where
  "sampleContact =
     \<lparr> rl_relationship_id = ''rel_1'', rl_participant_hash = ''p1'', rl_display_name = Some ''Ada'',
       rl_category = ''FRIEND'', rl_closeness_weight = 1 / 2, rl_last_interaction_ts = None, rl_city = Some ''Berlin'',
       rl_timezone = None, rl_interaction_frequency_target = Some 30,
       rl_created_at = ''2025-06-01T00:00:00.000Z'', rl_updated_at = ''2025-06-01T00:00:00.000Z'' \<rparr>"

definition contactGraph :: user_graph where
  "contactGraph = sampleGraph\<lparr> relationships := [sampleContact] \<rparr>"

definition sampleEntry :: drift_entry where
  "sampleEntry = driftEntry (now_ms sampleEnv) (driftInput sampleContact) 0"

definition sampleReport :: drift_report where
  "sampleReport = \<lparr> dp_overdue = [sampleEntry], dp_total_tracked = 1, dp_total_overdue = 1, dp_computed_at = nowIso sampleEnv \<rparr>"

lemma sampleContact_overdue:
  "overdueAt (js_date sampleEnv) (now_ms sampleEnv) (driftInput sampleContact)"
  by (simp add: overdueAt_def lastInteraction_def driftInput_def sampleContact_def sampleEnv_def msPerDay_def)

lemma sampleEntry_contact: "de_relationship_id sampleEntry = ''rel_1''"
  by (simp add: sampleEntry_def driftInput_def sampleContact_def)

end
