(* ===== verification/Op_Outcomes.thy ===== *)
theory Op_Outcomes
  imports TM_Prelude
begin

text \<open>
  What an operation leaves behind, said separately for a return and for a throw: from a state satisfying \<open>P\<close> it
  either returns \<open>x\<close> in a state satisfying \<open>Q x\<close> or throws \<open>e\<close> in one satisfying \<open>E e\<close>.
\<close>

definition outcome ::
  "('s \<Rightarrow> bool) \<Rightarrow> ('e, 's, 'a) eop \<Rightarrow> ('a \<Rightarrow> 's \<Rightarrow> bool) \<Rightarrow> ('e \<Rightarrow> 's \<Rightarrow> bool) \<Rightarrow> bool" where
  "outcome P m Q E \<longleftrightarrow> (\<forall>s. P s \<longrightarrow> (case m s of (Inl e, t) \<Rightarrow> E e t | (Inr x, t) \<Rightarrow> Q x t))"

text \<open>\<^verbatim>\<open>try { m } catch (err) { ... }\<close> whose two outcomes go on differently.\<close>

definition attempt :: "('e, 's, 'a) eop \<Rightarrow> ('e, 's, 'e + 'a) eop" where
  "attempt m s = (case m s of (r, t) \<Rightarrow> (Inr r, t))"

named_theorems outcome_rules \<open>rules that take an outcome of an operation from its parts\<close>

lemma outcomeI: "(\<And>s r t. P s \<Longrightarrow> m s = (r, t) \<Longrightarrow> (case r of Inl e \<Rightarrow> E e t | Inr x \<Rightarrow> Q x t)) \<Longrightarrow> outcome P m Q E"
  unfolding outcome_def by (force split: prod.splits sum.splits)

lemma outcome_Inr: "outcome P m Q E \<Longrightarrow> P s \<Longrightarrow> m s = (Inr x, t) \<Longrightarrow> Q x t"
  by (force simp: outcome_def)

lemma outcome_Inl: "outcome P m Q E \<Longrightarrow> P s \<Longrightarrow> m s = (Inl e, t) \<Longrightarrow> E e t"
  by (force simp: outcome_def)

lemma outcome_weaken:
  assumes "outcome P m Q E" "\<And>s. P' s \<Longrightarrow> P s" "\<And>x s. Q x s \<Longrightarrow> Q' x s" "\<And>e s. E e s \<Longrightarrow> E' e s"
  shows "outcome P' m Q' E'"
proof (rule outcomeI)
  fix s r t assume s: "P' s" and run: "m s = (r, t)"
  show "case r of Inl e \<Rightarrow> E' e t | Inr x \<Rightarrow> Q' x t"
    using outcome_Inl [OF assms(1) assms(2) [OF s], of _ t] outcome_Inr [OF assms(1) assms(2) [OF s], of _ t] run
      assms(3,4) by (cases r) auto
qed

lemma outcome_ret [outcome_rules]: "(\<And>s. P s \<Longrightarrow> Q x s) \<Longrightarrow> outcome P (ret x) Q E"
  by (simp add: outcome_def ret_def)

lemma outcome_throw [outcome_rules]: "(\<And>s. P s \<Longrightarrow> E e s) \<Longrightarrow> outcome P (throw e) Q E"
  by (simp add: outcome_def throw_def)

lemma outcome_query [outcome_rules]: "(\<And>s. P s \<Longrightarrow> Q (f s) s) \<Longrightarrow> outcome P (query f) Q E"
  by (simp add: outcome_def)

lemma outcome_modify [outcome_rules]: "(\<And>s. P s \<Longrightarrow> Q () (f s)) \<Longrightarrow> outcome P (modify f) Q E"
  by (simp add: outcome_def)

lemma outcome_andThen:
  assumes m: "outcome P m R E" and f: "\<And>x. outcome (R x) (f x) Q E"
  shows "outcome P (andThen m f) Q E"
proof (rule outcomeI)
  fix s r t assume s: "P s" and run: "andThen m f s = (r, t)"
  obtain q u where mu: "m s = (q, u)" by force
  show "case r of Inl e \<Rightarrow> E e t | Inr x \<Rightarrow> Q x t"
  proof (cases q)
    case (Inl e)
    with outcome_Inl [OF m s] mu run show ?thesis by (auto simp: andThen_def)
  next
    case (Inr x)
    with outcome_Inr [OF m s] mu have u: "R x u" by simp
    have "f x u = (r, t)" using run mu Inr by (simp add: andThen_def)
    with f [of x] u show ?thesis unfolding outcome_def by (cases r) force+
  qed
qed

lemma outcome_tryCatch:
  assumes m: "outcome P m Q R" and h: "\<And>e. outcome (R e) (h e) Q E"
  shows "outcome P (tryCatch m h) Q E"
proof (rule outcomeI)
  fix s r t assume s: "P s" and run: "tryCatch m h s = (r, t)"
  obtain q u where mu: "m s = (q, u)" by force
  show "case r of Inl e \<Rightarrow> E e t | Inr x \<Rightarrow> Q x t"
  proof (cases q)
    case (Inr x)
    with outcome_Inr [OF m s] mu run show ?thesis by (auto simp: tryCatch_def)
  next
    case (Inl e)
    with outcome_Inl [OF m s] mu have u: "R e u" by simp
    have "h e u = (r, t)" using run mu Inl by (simp add: tryCatch_def)
    with h [of e] u show ?thesis unfolding outcome_def by (cases r) force+
  qed
qed

lemma outcome_attempt [outcome_rules]:
  assumes "outcome P m (\<lambda>x. Q (Inr x)) (\<lambda>e. Q (Inl e))"
  shows "outcome P (attempt m) Q E"
proof (rule outcomeI)
  fix s r t assume s: "P s" and run: "attempt m s = (r, t)"
  obtain q where q: "m s = (q, t)" "r = Inr q" using run by (cases "m s") (simp add: attempt_def)
  then show "case r of Inl e \<Rightarrow> E e t | Inr x \<Rightarrow> Q x t"
    using outcome_Inl [OF assms s] outcome_Inr [OF assms s] by (cases q) simp_all
qed

lemma outcome_if [outcome_rules]:
  "(c \<Longrightarrow> outcome P m Q E) \<Longrightarrow> (\<not> c \<Longrightarrow> outcome P n Q E) \<Longrightarrow> outcome P (if c then m else n) Q E"
  by simp

lemma outcome_case_option [outcome_rules]:
  "(v = None \<Longrightarrow> outcome P m Q E) \<Longrightarrow> (\<And>x. v = Some x \<Longrightarrow> outcome P (f x) Q E) \<Longrightarrow>
   outcome P (case v of None \<Rightarrow> m | Some x \<Rightarrow> f x) Q E"
  by (cases v) simp_all

lemma outcome_case_sum [outcome_rules]:
  "(\<And>e. v = Inl e \<Longrightarrow> outcome P (m e) Q E) \<Longrightarrow> (\<And>x. v = Inr x \<Longrightarrow> outcome P (f x) Q E) \<Longrightarrow>
   outcome P (case v of Inl e \<Rightarrow> m e | Inr x \<Rightarrow> f x) Q E"
  by (cases v) simp_all

lemma outcome_case_prod [outcome_rules]:
  "(\<And>x y. v = (x, y) \<Longrightarrow> outcome P (f x y) Q E) \<Longrightarrow> outcome P (case v of (x, y) \<Rightarrow> f x y) Q E"
  by (cases v) simp

end
