(* ===== verification/Write_Consumer.thy ===== *)
theory Write_Consumer
  imports Graph_Mirrors JS_Text Op_Outcomes
begin

text \<open>
  \<^verbatim>\<open>workers/write-consumer/src/write-consumer.ts\<close>: what the consumer of the write queue does with a message.
  \<^verbatim>\<open>WriteConsumer\<close> is built over a \<^verbatim>\<open>MirrorStore\<close> and a calendar client; both are arguments here, records of
  functions on a state of their own, so the provider, which is outside the program, stays a parameter.
\<close>

section \<open>Errors of the providers\<close>

datatype api_family = Google_api | Microsoft_api

text \<open>
  The exceptions a client may throw: the subclasses the code tests for, any other \<^verbatim>\<open>GoogleApiError\<close> or
  \<^verbatim>\<open>MicrosoftApiError\<close> with its status code, any other \<^verbatim>\<open>Error\<close>, and a value that is not an \<^verbatim>\<open>Error\<close>.
\<close>

datatype api_error =
    Rate_Limited api_family string
  | Token_Expired api_family string
  | Not_Found api_family string
  | Sync_Token_Expired api_family string
  | Api_Error api_family nat string
  | Other_Error string
  | Not_An_Error string

fun api_message :: "api_error \<Rightarrow> string" where
  "api_message (Rate_Limited f m) = m"
| "api_message (Token_Expired f m) = m"
| "api_message (Not_Found f m) = m"
| "api_message (Sync_Token_Expired f m) = m"
| "api_message (Api_Error f n m) = m"
| "api_message (Other_Error m) = m"
| "api_message (Not_An_Error m) = m"

text \<open>The status code of a \<^verbatim>\<open>GoogleApiError\<close> (of a \<^verbatim>\<open>MicrosoftApiError\<close>), \<^const>\<open>None\<close> for any other value.\<close>

fun statusCode :: "api_family \<Rightarrow> api_error \<Rightarrow> nat option" where
  "statusCode f (Rate_Limited g m) = (if f = g then Some 429 else None)"
| "statusCode f (Token_Expired g m) = (if f = g then Some 401 else None)"
| "statusCode f (Not_Found g m) = (if f = g then Some 404 else None)"
| "statusCode f (Sync_Token_Expired g m) = (if f = g then Some 410 else None)"
| "statusCode f (Api_Error g n m) = (if f = g then Some n else None)"
| "statusCode f (Other_Error m) = None"
| "statusCode f (Not_An_Error m) = None"

record retry_strategy =
  shouldRetry :: bool
  maxRetries :: nat

definition retryUpTo :: "nat \<Rightarrow> retry_strategy" where
  "retryUpTo n = \<lparr> shouldRetry = True, maxRetries = n \<rparr>"

definition noRetry :: retry_strategy where
  "noRetry = \<lparr> shouldRetry = False, maxRetries = 0 \<rparr>"

definition classifyError :: "api_error \<Rightarrow> retry_strategy" where
  "classifyError err =
     (let message = toLowerCase (api_message err) in
      case err of
        Rate_Limited _ _ \<Rightarrow> retryUpTo 5
      | Token_Expired _ _ \<Rightarrow> retryUpTo 1
      | Not_An_Error _ \<Rightarrow> retryUpTo 1
      | Other_Error _ \<Rightarrow>
          if includesText message ''no tokens stored'' then noRetry
          else if includesText message ''invalid_grant'' \<or> includesText message ''token refresh failed (400)'' then noRetry
          else retryUpTo 1
      | _ \<Rightarrow>
          (case statusCode Google_api err of
             Some n \<Rightarrow>
               if n = 500 \<or> n = 503 then retryUpTo 3
               else if n = 403
               then if includesText message ''rate limit'' \<or> includesText message ''ratelimit'' \<or>
                       includesText message ''quota'' then retryUpTo 5 else noRetry
               else noRetry
           | None \<Rightarrow>
               if statusCode Microsoft_api err = Some 500 \<or> statusCode Microsoft_api err = Some 503 then retryUpTo 3
               else noRetry))"

definition isNotFoundError :: "api_error \<Rightarrow> bool" where
  "isNotFoundError err \<longleftrightarrow>
     (case err of
        Not_Found _ _ \<Rightarrow> True
      | Sync_Token_Expired f _ \<Rightarrow> f = Google_api
      | _ \<Rightarrow> statusCode Google_api err = Some 404 \<or> statusCode Google_api err = Some 410 \<or>
            statusCode Microsoft_api err = Some 404)"

definition isMalformedMicrosoftIdError :: "api_error \<Rightarrow> bool" where
  "isMalformedMicrosoftIdError err \<longleftrightarrow>
     statusCode Microsoft_api err = Some 400 \<and> includesText (toLowerCase (api_message err)) ''id is malformed''"

section \<open>What the consumer is built over\<close>

record 'm mirror_store =
  ms_getMirror :: "string \<Rightarrow> string \<Rightarrow> 'm \<Rightarrow> mirror_row option"
  ms_updateMirrorState :: "string \<Rightarrow> string \<Rightarrow> mirror_update \<Rightarrow> 'm \<Rightarrow> 'm"
  ms_getBusyOverlayCalendar :: "string \<Rightarrow> 'm \<Rightarrow> string option"
  ms_storeBusyOverlayCalendar :: "string \<Rightarrow> string \<Rightarrow> 'm \<Rightarrow> 'm"

text \<open>The calls that leave the program: the access token, and the client made from it.\<close>

record 'p calendar_provider =
  cp_getAccessToken :: "string \<Rightarrow> (api_error, 'p, string) eop"
  cp_insertEvent :: "string \<Rightarrow> string \<Rightarrow> projected_event \<Rightarrow> (api_error, 'p, string) eop"
  cp_patchEvent :: "string \<Rightarrow> string \<Rightarrow> string \<Rightarrow> projected_event \<Rightarrow> (api_error, 'p, unit) eop"
  cp_deleteEvent :: "string \<Rightarrow> string \<Rightarrow> string \<Rightarrow> (api_error, 'p, unit) eop"
  cp_insertCalendar :: "string \<Rightarrow> string \<Rightarrow> (api_error, 'p, string) eop"

type_synonym ('m, 'p, 'a) consumer_op = "(api_error, 'm \<times> 'p, 'a) eop"

definition onStore :: "('m \<Rightarrow> 'm) \<Rightarrow> ('m, 'p, unit) consumer_op" where
  "onStore f = modify (map_prod f id)"

definition readStore :: "('m \<Rightarrow> 'a) \<Rightarrow> ('m, 'p, 'a) consumer_op" where
  "readStore f = query (\<lambda>s. f (fst s))"

definition onProvider :: "(api_error, 'p, 'a) eop \<Rightarrow> ('m, 'p, 'a) consumer_op" where
  "onProvider c s = (case c (snd s) of (r, p) \<Rightarrow> (r, (fst s, p)))"

datatype consumer_action = Created_event | Updated_event | Deleted_event | Skipped | Error_action

record process_result =
  ps_success :: bool
  ps_action :: consumer_action
  ps_error :: "string option"
  ps_retry :: bool

definition completed :: "consumer_action \<Rightarrow> process_result" where
  "completed a = \<lparr> ps_success = True, ps_action = a, ps_error = None, ps_retry = False \<rparr>"

definition BUSY_OVERLAY_CALENDAR_NAME :: string where
  "BUSY_OVERLAY_CALENDAR_NAME = ''External Busy (T-Minus)''"

section \<open>Handlers\<close>

definition handleError :: "'m mirror_store \<Rightarrow> api_error \<Rightarrow> string \<Rightarrow> string \<Rightarrow> ('m, 'p, process_result) consumer_op" where
  "handleError st err cid target =
     (if \<not> shouldRetry (classifyError err)
      then andThen (onStore (ms_updateMirrorState st cid target
             (noUpdate\<lparr> mu_state := Some ERROR, mu_error_message := Some (Some (api_message err)) \<rparr>))) (\<lambda>_.
           ret \<lparr> ps_success = False, ps_action = Error_action, ps_error = Some (api_message err), ps_retry = False \<rparr>)
      else ret \<lparr> ps_success = False, ps_action = Error_action, ps_error = Some (api_message err), ps_retry = True \<rparr>)"

definition insertWithCalendarRecovery ::
  "'m mirror_store \<Rightarrow> 'p calendar_provider \<Rightarrow> string \<Rightarrow> upsert_message \<Rightarrow> string \<Rightarrow>
   ('m, 'p, string \<times> string) consumer_op" where
  "insertWithCalendarRecovery st client token msg targetCalendarId =
     andThen (attempt (onProvider (cp_insertEvent client token targetCalendarId (um_projected_payload msg)))) (\<lambda>r.
     case r of
       Inr eid \<Rightarrow> ret (eid, targetCalendarId)
     | Inl err \<Rightarrow>
         if \<not> isNotFoundError err then throw err
         else andThen (onProvider (cp_insertCalendar client token BUSY_OVERLAY_CALENDAR_NAME)) (\<lambda>cal.
              andThen (onStore (ms_storeBusyOverlayCalendar st (um_target_account_id msg) cal)) (\<lambda>_.
              andThen (onProvider (cp_insertEvent client token cal (um_projected_payload msg))) (\<lambda>eid.
              ret (eid, cal)))))"

definition parseProjectedEventEndMs :: "graph_env \<Rightarrow> upsert_message \<Rightarrow> int option" where
  "parseProjectedEventEndMs env msg =
     (case pr_end (um_projected_payload msg) of
        Projected_Date d \<Rightarrow> if truthy d then dateParse (js_date env) (the d @ ''T00:00:00Z'') else None
      | Projected_DateTime t _ \<Rightarrow> if truthy t then dateParse (js_date env) (the t) else None)"

definition historicalPatchSkipMs :: int where
  "historicalPatchSkipMs = 30 * 24 * 60 * 60 * 1000"

definition activated :: "graph_env \<Rightarrow> upsert_message \<Rightarrow> mirror_update" where
  "activated env msg = noUpdate
     \<lparr> mu_last_write_ts := Some (nowIso env), mu_state := Some ACTIVE, mu_error_message := Some None,
       mu_last_projected_hash := (if truthy (um_projected_hash msg) then um_projected_hash msg else None) \<rparr>"

text \<open>Step 3: the calendar to write to; an account id stands for the overlay calendar still to be made.\<close>

definition resolveCalendar ::
  "'m mirror_store \<Rightarrow> 'p calendar_provider \<Rightarrow> string \<Rightarrow> upsert_message \<Rightarrow> ('m, 'p, string) consumer_op" where
  "resolveCalendar st client token msg =
     (if um_target_calendar_id msg \<noteq> um_target_account_id msg then ret (um_target_calendar_id msg)
      else andThen (readStore (ms_getBusyOverlayCalendar st (um_target_account_id msg))) (\<lambda>existing.
        if truthy existing then ret (the existing)
        else andThen (onProvider (cp_insertCalendar client token BUSY_OVERLAY_CALENDAR_NAME)) (\<lambda>cal.
             andThen (onStore (ms_storeBusyOverlayCalendar st (um_target_account_id msg) cal)) (\<lambda>_. ret cal))))"

text \<open>Step 4: patch the event the mirror names, or insert it.\<close>

definition insertMirrored ::
  "graph_env \<Rightarrow> 'm mirror_store \<Rightarrow> 'p calendar_provider \<Rightarrow> string \<Rightarrow> upsert_message \<Rightarrow> string \<Rightarrow>
   ('m, 'p, process_result) consumer_op" where
  "insertMirrored env st client token msg cal0 =
     andThen (insertWithCalendarRecovery st client token msg cal0) (\<lambda>(eid, cal).
     andThen (onStore (ms_updateMirrorState st (um_canonical_event_id msg) (um_target_account_id msg)
       ((activated env msg)\<lparr> mu_provider_event_id := Some eid, mu_target_calendar_id := Some cal \<rparr>))) (\<lambda>_.
     ret (completed Created_event)))"

definition writeMirrored ::
  "graph_env \<Rightarrow> 'm mirror_store \<Rightarrow> 'p calendar_provider \<Rightarrow> string \<Rightarrow> upsert_message \<Rightarrow> string option \<Rightarrow> string \<Rightarrow>
   ('m, 'p, process_result) consumer_op" where
  "writeMirrored env st client token msg providerEventId cal =
     (if \<not> truthy providerEventId then insertMirrored env st client token msg cal
      else andThen (attempt (onProvider (cp_patchEvent client token cal (the providerEventId) (um_projected_payload msg)))) (\<lambda>r.
        case r of
          Inl err \<Rightarrow> if \<not> isNotFoundError err then throw err else insertMirrored env st client token msg cal
        | Inr _ \<Rightarrow>
            andThen (onStore (ms_updateMirrorState st (um_canonical_event_id msg) (um_target_account_id msg)
              ((activated env msg)\<lparr> mu_target_calendar_id := Some cal \<rparr>))) (\<lambda>_.
            ret (completed Updated_event))))"

text \<open>The three reasons not to call the provider, on the mirror row read first.\<close>

definition superseded :: "upsert_message \<Rightarrow> mirror_row \<Rightarrow> bool" where
  "superseded msg m \<longleftrightarrow>
     truthy (um_projected_hash msg) \<and> truthy (em_last_projected_hash m) \<and>
     em_last_projected_hash m \<noteq> um_projected_hash msg"

definition alreadyWritten :: "upsert_message \<Rightarrow> mirror_row \<Rightarrow> bool" where
  "alreadyWritten msg m \<longleftrightarrow>
     truthy (um_projected_hash msg) \<and> em_state m = ACTIVE \<and> truthy (em_provider_event_id m) \<and>
     em_last_projected_hash m = um_projected_hash msg"

definition historical :: "graph_env \<Rightarrow> upsert_message \<Rightarrow> mirror_row \<Rightarrow> bool" where
  "historical env msg m \<longleftrightarrow>
     truthy (em_provider_event_id m) \<and>
     (case parseProjectedEventEndMs env msg of None \<Rightarrow> False | Some e \<Rightarrow> e < now_ms env - historicalPatchSkipMs)"

definition handleUpsert ::
  "graph_env \<Rightarrow> 'm mirror_store \<Rightarrow> 'p calendar_provider \<Rightarrow> upsert_message \<Rightarrow> ('m, 'p, process_result) consumer_op" where
  "handleUpsert env st client msg =
     andThen (readStore (ms_getMirror st (um_canonical_event_id msg) (um_target_account_id msg))) (\<lambda>mirror.
     case mirror of
       None \<Rightarrow> ret (completed Skipped)
     | Some m \<Rightarrow>
         if superseded msg m then ret (completed Skipped)
         else if alreadyWritten msg m then ret (completed Skipped)
         else if historical env msg m
         then andThen (onStore (ms_updateMirrorState st (um_canonical_event_id msg) (um_target_account_id msg)
                (activated env msg))) (\<lambda>_. ret (completed Skipped))
         else tryCatch
           (andThen (onProvider (cp_getAccessToken client (um_target_account_id msg))) (\<lambda>token.
            andThen (resolveCalendar st client token msg) (\<lambda>cal.
            writeMirrored env st client token msg (em_provider_event_id m) cal)))
           (\<lambda>err. handleError st err (um_canonical_event_id msg) (um_target_account_id msg)))"

definition decodeProviderEventIdIfNeeded :: "string \<Rightarrow> string" where
  "decodeProviderEventIdIfNeeded pid =
     (if CHR ''%'' \<notin> set pid then pid
      else case decodeURIComponent pid of Some d \<Rightarrow> if d \<noteq> [] then d else pid | None \<Rightarrow> pid)"

text \<open>Deleting at the provider, once more with the decoded id, where an event already gone is a success.\<close>

definition deleteAtProvider ::
  "'p calendar_provider \<Rightarrow> string \<Rightarrow> string \<Rightarrow> string \<Rightarrow> ('m, 'p, unit) consumer_op" where
  "deleteAtProvider client token cal pid =
     (let fallback = decodeProviderEventIdIfNeeded pid;
          settle = (\<lambda>err. if isNotFoundError err then ret () else throw err) in
      andThen (attempt (onProvider (cp_deleteEvent client token cal pid))) (\<lambda>r.
      case r of
        Inr _ \<Rightarrow> ret ()
      | Inl err \<Rightarrow>
          if fallback \<noteq> pid \<and> (isNotFoundError err \<or> isMalformedMicrosoftIdError err)
          then andThen (attempt (onProvider (cp_deleteEvent client token cal fallback))) (\<lambda>r'.
            case r' of
              Inr _ \<Rightarrow> ret ()
            | Inl retryErr \<Rightarrow>
                if \<not> isNotFoundError retryErr \<and> \<not> isMalformedMicrosoftIdError retryErr
                then throw retryErr else settle retryErr)
          else settle err))"

definition deletedUpdate :: mirror_update where
  "deletedUpdate = noUpdate\<lparr> mu_state := Some DELETED, mu_error_message := Some None \<rparr>"

definition handleDelete ::
  "'m mirror_store \<Rightarrow> 'p calendar_provider \<Rightarrow> delete_message \<Rightarrow> ('m, 'p, process_result) consumer_op" where
  "handleDelete st client msg =
     (let cid = dm_canonical_event_id msg; target = dm_target_account_id msg; pid = dm_provider_event_id msg;
          finish = andThen (onStore (ms_updateMirrorState st cid target deletedUpdate)) (\<lambda>_. ret (completed Deleted_event)) in
      if pid = [] then finish
      else tryCatch
        (andThen (onProvider (cp_getAccessToken client target)) (\<lambda>token.
         andThen (readStore (ms_getMirror st cid target)) (\<lambda>mirror.
         andThen (deleteAtProvider client token
           (nullish (orNullish (dm_target_calendar_id msg) (map_option em_target_calendar_id mirror)) ''primary'') pid) (\<lambda>_.
         finish))))
        (\<lambda>err. handleError st err cid target))"

definition processMessage ::
  "graph_env \<Rightarrow> 'm mirror_store \<Rightarrow> 'p calendar_provider \<Rightarrow> queue_message \<Rightarrow> ('m, 'p, process_result) consumer_op" where
  "processMessage env st client message =
     (case message of
        UPSERT_MIRROR msg \<Rightarrow> handleUpsert env st client msg
      | DELETE_MIRROR msg \<Rightarrow> handleDelete st client msg)"

end
