(* ===== verification/Write_Queue.thy ===== *)
theory Write_Queue
  imports Write_Consumer
begin

text \<open>
  \<^verbatim>\<open>workers/write-consumer/src/index.ts\<close>: the queue handler around the consumer. The mirror store it hands to
  \<^verbatim>\<open>WriteConsumer\<close> is a cache, filled from the user's Durable Object before the message is processed and flushed to
  it afterwards; every call of the object is a remote one that may fail.
\<close>

section \<open>The cached store\<close>

datatype pending_update =
    Pending_Mirror string string mirror_update
  | Pending_Calendar string string

record cached_store =
  ch_event :: string
  ch_target :: string
  ch_mirror :: "mirror_row option"
  ch_busy :: "string option"
  ch_pending :: "pending_update list"

definition cacheGetMirror :: "string \<Rightarrow> string \<Rightarrow> cached_store \<Rightarrow> mirror_row option" where
  "cacheGetMirror cid target c = (if cid = ch_event c \<and> target = ch_target c then ch_mirror c else None)"

text \<open>The copy in the cache takes every field of the update but the hash.\<close>

definition applyToCache :: "mirror_update \<Rightarrow> mirror_row \<Rightarrow> mirror_row" where
  "applyToCache u = applyMirrorUpdate (u\<lparr> mu_last_projected_hash := None \<rparr>)"

definition cacheUpdateMirrorState :: "string \<Rightarrow> string \<Rightarrow> mirror_update \<Rightarrow> cached_store \<Rightarrow> cached_store" where
  "cacheUpdateMirrorState cid target u c =
     (let c' = c\<lparr> ch_pending := ch_pending c @ [Pending_Mirror cid target u] \<rparr> in
      if cid = ch_event c \<and> target = ch_target c
      then c'\<lparr> ch_mirror := map_option (applyToCache u) (ch_mirror c) \<rparr> else c')"

definition cacheGetBusy :: "string \<Rightarrow> cached_store \<Rightarrow> string option" where
  "cacheGetBusy account c = (if account = ch_target c then ch_busy c else None)"

definition cacheStoreBusy :: "string \<Rightarrow> string \<Rightarrow> cached_store \<Rightarrow> cached_store" where
  "cacheStoreBusy account cal c =
     (let c' = c\<lparr> ch_pending := ch_pending c @ [Pending_Calendar account cal] \<rparr> in
      if account = ch_target c then c'\<lparr> ch_busy := Some cal \<rparr> else c')"

definition cachedStore :: "cached_store mirror_store" where
  "cachedStore =
     \<lparr> ms_getMirror = cacheGetMirror, ms_updateMirrorState = cacheUpdateMirrorState,
       ms_getBusyOverlayCalendar = cacheGetBusy, ms_storeBusyOverlayCalendar = cacheStoreBusy \<rparr>"

section \<open>Remote calls\<close>

text \<open>
  A call reaches the object and answers, is refused before it runs, or runs and loses its reply. An exception inside
  the object comes back as an answer that is not \<^verbatim>\<open>ok\<close>.
\<close>

datatype rpc_fate = Delivered | Refused | Reply_Lost

record worker_env =
  we_account :: "string \<Rightarrow> string + (string \<times> string) option"
  we_fate :: "nat \<Rightarrow> rpc_fate"

record 'p world =
  wo_graph :: "string \<Rightarrow> user_graph"
  wo_provider :: 'p
  wo_calls :: nat
  wo_last_write :: "string \<Rightarrow> int option"

type_synonym ('p, 'a) worker_op = "(api_error, 'p world, 'a) eop"

definition failedCall :: "string \<Rightarrow> api_error" where
  "failedCall name = Other_Error (''UserGraphDO.'' @ name @ '' failed'')"

definition callObject :: "worker_env \<Rightarrow> string \<Rightarrow> string \<Rightarrow> 'a graph_op \<Rightarrow> ('p, 'a) worker_op" where
  "callObject we user name m w =
     (let w' = w\<lparr> wo_calls := wo_calls w + 1 \<rparr>; (r, g) = m (wo_graph w user);
          w'' = w'\<lparr> wo_graph := (wo_graph w)(user := g) \<rparr> in
      case we_fate we (wo_calls w) of
        Refused \<Rightarrow> (Inl (failedCall name), w')
      | Reply_Lost \<Rightarrow> (Inl (failedCall name), w'')
      | Delivered \<Rightarrow> (case r of Inl e \<Rightarrow> (Inl (failedCall name), w'') | Inr x \<Rightarrow> (Inr x, w'')))"

text \<open>The cache for a message: the mirror already read for the staleness test is not read again.\<close>

definition createCachedMirrorStore ::
  "worker_env \<Rightarrow> string \<Rightarrow> queue_message \<Rightarrow> mirror_row option \<Rightarrow> ('p, cached_store) worker_op" where
  "createCachedMirrorStore we user message prefetched =
     (case message of
        UPSERT_MIRROR m \<Rightarrow>
          (let cid = um_canonical_event_id m; target = um_target_account_id m in
           andThen (if prefetched \<noteq> None then ret prefetched
                    else callObject we user ''getMirror'' (getMirror cid target)) (\<lambda>mirror.
           andThen (callObject we user ''getBusyOverlayCalendar'' (getBusyOverlayCalendar target)) (\<lambda>busy.
           ret \<lparr> ch_event = cid, ch_target = target, ch_mirror = mirror, ch_busy = busy, ch_pending = [] \<rparr>)))
      | DELETE_MIRROR m \<Rightarrow>
          (let cid = dm_canonical_event_id m; target = dm_target_account_id m in
           andThen (if prefetched \<noteq> None then ret prefetched
                    else callObject we user ''getMirror'' (getMirror cid target)) (\<lambda>mirror.
           ret \<lparr> ch_event = cid, ch_target = target, ch_mirror = mirror, ch_busy = None, ch_pending = [] \<rparr>)))"

definition flushOne :: "graph_env \<Rightarrow> pending_update \<Rightarrow> unit graph_op" where
  "flushOne env u =
     (case u of
        Pending_Mirror cid target up \<Rightarrow> updateMirrorState cid target up
      | Pending_Calendar account cal \<Rightarrow> storeBusyOverlayCalendar env account cal)"

definition pendingName :: "pending_update \<Rightarrow> string" where
  "pendingName u = (case u of Pending_Mirror _ _ _ \<Rightarrow> ''updateMirrorState''
                            | Pending_Calendar _ _ \<Rightarrow> ''storeBusyOverlayCalendar'')"

definition flush :: "graph_env \<Rightarrow> worker_env \<Rightarrow> string \<Rightarrow> cached_store \<Rightarrow> ('p, unit) worker_op" where
  "flush env we user c = forEach (ch_pending c) (\<lambda>u. callObject we user (pendingName u) (flushOne env u))"

definition requestPendingReplay :: "graph_env \<Rightarrow> worker_env \<Rightarrow> string \<Rightarrow> string \<Rightarrow> ('p, unit) worker_op" where
  "requestPendingReplay env we user cid =
     andThen (callObject we user ''recomputeProjections'' (recomputeProjections env
       \<lparr> rs_canonical_event_id = Some cid, rs_force_requeue_non_active = None,
         rs_force_requeue_pending = Some True \<rparr>)) (\<lambda>_. ret ())"

section \<open>The handler\<close>

definition GOOGLE_ACCOUNT_WRITE_MIN_SPACING_MS :: int where
  "GOOGLE_ACCOUNT_WRITE_MIN_SPACING_MS = 120"

text \<open>Waits until the spacing has passed and notes the time it is then, which the rest of the handler reads.\<close>

definition throttleGoogleAccountWrites :: "graph_env \<Rightarrow> string \<Rightarrow> ('p, graph_env) worker_op" where
  "throttleGoogleAccountWrites env account w =
     (let now = now_ms env; waitMs = GOOGLE_ACCOUNT_WRITE_MIN_SPACING_MS - (now - nullish (wo_last_write w account) 0);
          later = (if waitMs > 0 then now + waitMs else now) in
      (Inr (env\<lparr> now_ms := later \<rparr>), w\<lparr> wo_last_write := (wo_last_write w)(account \<mapsto> later) \<rparr>))"

definition messageTarget :: "queue_message \<Rightarrow> string" where
  "messageTarget message =
     (case message of UPSERT_MIRROR m \<Rightarrow> um_target_account_id m | DELETE_MIRROR m \<Rightarrow> dm_target_account_id m)"

definition runConsumer ::
  "graph_env \<Rightarrow> 'p calendar_provider \<Rightarrow> queue_message \<Rightarrow> cached_store \<Rightarrow>
   ('p, process_result \<times> cached_store) worker_op" where
  "runConsumer env client message c w =
     (case processMessage env cachedStore client message (c, wo_provider w) of
        (r, (c', p)) \<Rightarrow> (map_sum id (\<lambda>x. (x, c')) r, w\<lparr> wo_provider := p \<rparr>))"

datatype decision = Ack | Retry

text \<open>From the prefetched mirror on: process, flush, decide.\<close>

definition deliver ::
  "graph_env \<Rightarrow> worker_env \<Rightarrow> string \<Rightarrow> 'p calendar_provider \<Rightarrow> queue_message \<Rightarrow> mirror_row option \<Rightarrow>
   ('p, decision) worker_op" where
  "deliver env we user client message prefetched =
     andThen (createCachedMirrorStore we user message prefetched) (\<lambda>c.
     andThen (runConsumer env client message c) (\<lambda>(result, c').
     andThen (flush env we user c') (\<lambda>_.
     ret (if ps_retry result then Retry else Ack))))"

definition handleQueued ::
  "graph_env \<Rightarrow> worker_env \<Rightarrow> string \<Rightarrow> 'p calendar_provider \<Rightarrow> queue_message \<Rightarrow> ('p, decision) worker_op" where
  "handleQueued env we user client message =
     (case message of
        DELETE_MIRROR _ \<Rightarrow> deliver env we user client message None
      | UPSERT_MIRROR m \<Rightarrow>
          andThen (callObject we user ''getMirror'' (getMirror (um_canonical_event_id m) (um_target_account_id m)))
            (\<lambda>prefetched.
             case prefetched of
               None \<Rightarrow> deliver env we user client message None
             | Some row \<Rightarrow>
                 if superseded m row
                 then andThen (if em_state row = PENDING
                               then requestPendingReplay env we user (um_canonical_event_id m) else ret ()) (\<lambda>_.
                      ret Ack)
                 else deliver env we user client message (Some row)))"

text \<open>
  One message of the batch: the account's user and provider from the registry, where any provider but Microsoft is
  taken for Google; an unknown account is acknowledged, an exception anywhere asks for another delivery.
\<close>

definition processQueued ::
  "worker_env \<Rightarrow> (api_family \<Rightarrow> 'p calendar_provider) \<Rightarrow> graph_env \<Rightarrow> queue_message \<Rightarrow> ('p, decision) worker_op" where
  "processQueued we clients env message =
     tryCatch
       (case we_account we (messageTarget message) of
          Inl e \<Rightarrow> throw (Other_Error e)
        | Inr None \<Rightarrow> ret Ack
        | Inr (Some (user, provider)) \<Rightarrow>
            if provider = ''microsoft'' then handleQueued env we user (clients Microsoft_api) message
            else andThen (throttleGoogleAccountWrites env (messageTarget message)) (\<lambda>env'.
                 handleQueued env' we user (clients Google_api) message))
       (\<lambda>_. ret Retry)"

text \<open>The batch, each message with the clock its handling sees.\<close>

fun queue ::
  "worker_env \<Rightarrow> (api_family \<Rightarrow> 'p calendar_provider) \<Rightarrow> (graph_env \<times> queue_message) list \<Rightarrow>
   ('p, decision list) worker_op" where
  "queue we clients [] = ret []"
| "queue we clients ((env, message) # batch) =
     andThen (processQueued we clients env message) (\<lambda>d.
     andThen (queue we clients batch) (\<lambda>ds. ret (d # ds)))"

end
