(* ===== verification/Write_Laws.thy ===== *)
theory Write_Laws
  imports Write_Queue
begin

text \<open>
  What the write consumer guarantees: the law of a mirror store and its two instances, how a message leaves the
  mirror, that the cache of the queue handler is invisible, and that a message delivered twice writes once.
\<close>

section \<open>The tables as a mirror store\<close>

definition graphStore :: "graph_env \<Rightarrow> user_graph mirror_store" where
  "graphStore env =
     \<lparr> ms_getMirror = (\<lambda>cid target g. case mirrorRows cid target g of [] \<Rightarrow> None | m # _ \<Rightarrow> Some m),
       ms_updateMirrorState = (\<lambda>cid target u g. snd (updateMirrorState cid target u g)),
       ms_getBusyOverlayCalendar = (\<lambda>account g.
         case filter (\<lambda>c. ca_account_id c = account \<and> ca_kind c = ''BUSY_OVERLAY'') (calendars g) of
           [] \<Rightarrow> None | c # _ \<Rightarrow> Some (ca_provider_calendar_id c)),
       ms_storeBusyOverlayCalendar = (\<lambda>account cal g. snd (storeBusyOverlayCalendar env account cal g)) \<rparr>"

lemma graphStore_reads:
  "getMirror cid target g = (Inr (ms_getMirror (graphStore env) cid target g), g)"
  "getBusyOverlayCalendar account g = (Inr (ms_getBusyOverlayCalendar (graphStore env) account g), g)"
  by (simp_all add: graphStore_def getMirror_def getBusyOverlayCalendar_def)

lemma updateMirrorState_snd:
  "updateMirrorState cid target u g =
     (Inr (), g\<lparr> event_mirrors := updateRows (\<lambda>m. em_canonical_event_id m = cid \<and> em_target_account_id m = target)
        (applyMirrorUpdate u) (event_mirrors g) \<rparr>)"
proof (cases "u = noUpdate")
  case True
  have "applyMirrorUpdate noUpdate m = m" for m by (simp add: applyMirrorUpdate_def noUpdate_def)
  with True show ?thesis by (simp add: updateMirrorState_def ret_def updateRows_def cong: if_cong)
qed (simp add: updateMirrorState_def updateMirrorRows_def)

lemma mirrorRows_updateState:
  "mirrorRows cid target (snd (updateMirrorState cid target u g)) = map (applyMirrorUpdate u) (mirrorRows cid target g)"
  using mirrorRows_update [OF keepsMirrorKey_apply [of u], of cid target g] by (simp add: updateMirrorState_snd)

lemma storeBusy_mirrors: "mirrorRows cid target (snd (storeBusyOverlayCalendar env account cal g)) = mirrorRows cid target g"
  by (simp add: storeBusyOverlayCalendar_def andThen_def freshId_def insertOrReplaceCalendar_def mirrorRows_def)

section \<open>The law of a store\<close>

definition storedState :: "'m mirror_store \<Rightarrow> string \<Rightarrow> string \<Rightarrow> 'm \<Rightarrow> mirror_state option" where
  "storedState st cid target m = map_option em_state (ms_getMirror st cid target m)"

text \<open>How a result goes with the state of the mirror before and after.\<close>

definition settled :: "process_result \<Rightarrow> mirror_state \<Rightarrow> mirror_state \<Rightarrow> bool" where
  "settled r before after \<longleftrightarrow>
     (case ps_action r of
        Created_event \<Rightarrow> ps_success r \<and> \<not> ps_retry r \<and> after = ACTIVE
      | Updated_event \<Rightarrow> ps_success r \<and> \<not> ps_retry r \<and> after = ACTIVE
      | Deleted_event \<Rightarrow> ps_success r \<and> \<not> ps_retry r \<and> after = DELETED
      | Skipped \<Rightarrow> ps_success r \<and> \<not> ps_retry r \<and> after \<in> {before, ACTIVE}
      | Error_action \<Rightarrow> \<not> ps_success r \<and> ps_error r \<noteq> None \<and> after = (if ps_retry r then before else ERROR))"

locale mirror_interface =
  fixes st :: "'m mirror_store" and cid target :: string and ok :: "'m \<Rightarrow> bool"
  assumes ok_update: "ok m \<Longrightarrow> ok (ms_updateMirrorState st cid target u m)"
    and ok_store: "ok m \<Longrightarrow> ok (ms_storeBusyOverlayCalendar st target cal m)"
    and state_update: "ok m \<Longrightarrow> storedState st cid target (ms_updateMirrorState st cid target u m) =
      map_option (nullish (mu_state u)) (storedState st cid target m)"
    and state_store: "ok m \<Longrightarrow>
      storedState st cid target (ms_storeBusyOverlayCalendar st target cal m) = storedState st cid target m"
begin

definition stands :: "mirror_state \<Rightarrow> 'm \<times> 'p \<Rightarrow> bool" where
  "stands b s \<longleftrightarrow> ok (fst s) \<and> storedState st cid target (fst s) = Some b"

lemma stands_provider: "outcome (stands b) (onProvider c) (\<lambda>_. stands b) (\<lambda>_. stands b)"
  by (rule outcomeI) (auto simp: onProvider_def stands_def split: prod.splits sum.split)

lemma stands_read: "outcome (stands b) (readStore f) (\<lambda>_. stands b) E"
  unfolding readStore_def by (rule outcome_query)

lemma stands_busy: "outcome (stands b) (onStore (ms_storeBusyOverlayCalendar st target cal)) (\<lambda>_. stands b) E"
  unfolding onStore_def by (rule outcome_modify) (auto simp: stands_def ok_store state_store)

lemma stands_update:
  "mu_state u = Some b' \<Longrightarrow> outcome (stands b) (onStore (ms_updateMirrorState st cid target u)) (\<lambda>_. stands b') E"
  unfolding onStore_def by (rule outcome_modify) (auto simp: stands_def ok_update state_update)

lemma stands_attempt: "outcome (stands b) (attempt (onProvider c)) (\<lambda>_. stands b) E"
  by (rule outcome_attempt) (rule stands_provider)

lemmas stands_rules = outcome_andThen stands_provider stands_read stands_busy stands_attempt

lemma stands_insertRecovery:
  assumes "um_target_account_id msg = target"
  shows "outcome (stands b) (insertWithCalendarRecovery st client token msg cal) (\<lambda>_. stands b) (\<lambda>_. stands b)"
  unfolding insertWithCalendarRecovery_def assms
  by (rule stands_rules outcome_case_sum outcome_if outcome_throw outcome_ret | assumption)+

lemma stands_resolve:
  assumes "um_target_account_id msg = target"
  shows "outcome (stands b) (resolveCalendar st client token msg) (\<lambda>_. stands b) (\<lambda>_. stands b)"
  unfolding resolveCalendar_def assms by (rule stands_rules outcome_if outcome_ret | assumption)+

lemma stands_handleError:
  "outcome (stands b) (handleError st err cid target) (\<lambda>r s. \<exists>a. stands a s \<and> settled r b a) E"
proof -
  have "outcome (stands b) (onStore (ms_updateMirrorState st cid target
      (noUpdate\<lparr> mu_state := Some ERROR, mu_error_message := Some (Some (api_message err)) \<rparr>))) (\<lambda>_. stands ERROR) E"
    by (rule stands_update) simp
  then show ?thesis unfolding handleError_def
    by (intro outcome_if outcome_andThen [of _ _ "\<lambda>_. stands ERROR"] outcome_ret) (auto simp: settled_def)
qed

lemma stands_insertMirrored:
  assumes "um_canonical_event_id msg = cid" "um_target_account_id msg = target"
  shows "outcome (stands b) (insertMirrored env st client token msg cal)
           (\<lambda>r s. \<exists>a. stands a s \<and> settled r b a) (\<lambda>_. stands b)"
  unfolding insertMirrored_def assms
proof (intro outcome_andThen [OF stands_insertRecovery [OF assms(2)]] outcome_case_prod)
  fix eid cal'
  have "outcome (stands b) (onStore (ms_updateMirrorState st cid target
      ((activated env msg)\<lparr> mu_provider_event_id := Some eid, mu_target_calendar_id := Some cal' \<rparr>)))
      (\<lambda>_. stands ACTIVE) (\<lambda>_. stands b)"
    by (rule stands_update) (simp add: activated_def)
  then show "outcome (stands b) (andThen (onStore (ms_updateMirrorState st cid target
      ((activated env msg)\<lparr> mu_provider_event_id := Some eid, mu_target_calendar_id := Some cal' \<rparr>)))
      (\<lambda>_. ret (completed Created_event))) (\<lambda>r s. \<exists>a. stands a s \<and> settled r b a) (\<lambda>_. stands b)"
    by (rule outcome_andThen) (rule outcome_ret, auto simp: settled_def completed_def)
qed

lemma stands_writeMirrored:
  assumes "um_canonical_event_id msg = cid" "um_target_account_id msg = target"
  shows "outcome (stands b) (writeMirrored env st client token msg pid cal)
           (\<lambda>r s. \<exists>a. stands a s \<and> settled r b a) (\<lambda>_. stands b)"
proof -
  have "outcome (stands b) (onStore (ms_updateMirrorState st cid target
      ((activated env msg)\<lparr> mu_target_calendar_id := Some cal \<rparr>))) (\<lambda>_. stands ACTIVE) (\<lambda>_. stands b)"
    by (rule stands_update) (simp add: activated_def)
  then have "outcome (stands b) (andThen (onStore (ms_updateMirrorState st cid target
      ((activated env msg)\<lparr> mu_target_calendar_id := Some cal \<rparr>))) (\<lambda>_. ret (completed Updated_event)))
      (\<lambda>r s. \<exists>a. stands a s \<and> settled r b a) (\<lambda>_. stands b)"
    by (rule outcome_andThen) (rule outcome_ret, auto simp: settled_def completed_def)
  then show ?thesis unfolding writeMirrored_def assms
    by (intro outcome_if stands_insertMirrored [OF assms] outcome_andThen [OF stands_attempt] outcome_case_sum)
      (rule outcome_throw)
qed

lemma upsert_outcome:
  assumes "um_canonical_event_id msg = cid" "um_target_account_id msg = target"
  shows "outcome (stands b) (handleUpsert env st client msg) (\<lambda>r s. \<exists>a. stands a s \<and> settled r b a) (\<lambda>_ _. False)"
    (is "outcome _ _ ?Q _")
proof -
  have skip: "outcome (stands b) (ret (completed Skipped)) ?Q (\<lambda>_ _. False)"
    by (rule outcome_ret) (auto simp: settled_def completed_def)
  have "outcome (stands b) (onStore (ms_updateMirrorState st cid target (activated env msg)))
      (\<lambda>_. stands ACTIVE) (\<lambda>_ _. False)"
    by (rule stands_update) (simp add: activated_def)
  then have old: "outcome (stands b) (andThen (onStore (ms_updateMirrorState st cid target (activated env msg)))
      (\<lambda>_. ret (completed Skipped))) ?Q (\<lambda>_ _. False)"
    by (rule outcome_andThen) (rule outcome_ret, auto simp: settled_def completed_def)
  have "outcome (stands b) (andThen (onProvider (cp_getAccessToken client target)) (\<lambda>token.
      andThen (resolveCalendar st client token msg) (\<lambda>cal. writeMirrored env st client token msg pid cal)))
      ?Q (\<lambda>_. stands b)" for pid
    by (intro outcome_andThen [OF stands_provider] outcome_andThen [OF stands_resolve] stands_writeMirrored assms)
  then show ?thesis unfolding handleUpsert_def assms
    by (intro outcome_andThen [OF stands_read] outcome_case_option outcome_if skip old
        outcome_tryCatch [OF _ stands_handleError])
qed

lemma delete_outcome:
  assumes "dm_canonical_event_id msg = cid" "dm_target_account_id msg = target"
  shows "outcome (stands b) (handleDelete st client msg) (\<lambda>r s. \<exists>a. stands a s \<and> settled r b a) (\<lambda>_ _. False)"
    (is "outcome _ _ ?Q _")
proof -
  have "outcome (stands b) (onStore (ms_updateMirrorState st cid target deletedUpdate)) (\<lambda>_. stands DELETED) E" for E
    by (rule stands_update) (simp add: deletedUpdate_def)
  then have finish: "outcome (stands b) (andThen (onStore (ms_updateMirrorState st cid target deletedUpdate))
      (\<lambda>_. ret (completed Deleted_event))) ?Q E" for E
    by (rule outcome_andThen) (rule outcome_ret, auto simp: settled_def completed_def)
  have gone: "outcome (stands b) (deleteAtProvider client token cal pid) (\<lambda>_. stands b) (\<lambda>_. stands b)" for token cal pid
    unfolding deleteAtProvider_def Let_def
    by (intro outcome_andThen [OF stands_attempt] outcome_case_sum outcome_if) (rule outcome_ret outcome_throw, assumption)+
  show ?thesis unfolding handleDelete_def Let_def assms
    by (intro outcome_if finish outcome_tryCatch [OF _ stands_handleError] outcome_andThen [OF stands_provider]
        outcome_andThen [OF stands_read] outcome_andThen [OF gone])
qed

end

interpretation tables: mirror_interface "graphStore env" cid target "\<lambda>_. True"
  by unfold_locales
    (simp_all add: storedState_def graphStore_def mirrorRows_updateState storeBusy_mirrors applyMirrorUpdate_def
      split: list.split)

interpretation cache: mirror_interface cachedStore cid target "\<lambda>c. ch_event c = cid \<and> ch_target c = target"
  by unfold_locales
    (auto simp: storedState_def cachedStore_def cacheUpdateMirrorState_def cacheStoreBusy_def cacheGetMirror_def
      applyToCache_def applyMirrorUpdate_def Let_def option.map_comp comp_def)

section \<open>How a message leaves the mirror\<close>

definition concerns :: "queue_message \<Rightarrow> string \<Rightarrow> string \<Rightarrow> bool" where
  "concerns message cid target \<longleftrightarrow>
     (case message of
        UPSERT_MIRROR m \<Rightarrow> um_canonical_event_id m = cid \<and> um_target_account_id m = target
      | DELETE_MIRROR m \<Rightarrow> dm_canonical_event_id m = cid \<and> dm_target_account_id m = target)"

lemma message_settles:
  assumes message: "concerns message cid target"
    and row: "ms_getMirror (graphStore env) cid target g = Some m"
    and run: "processMessage env (graphStore env) client message (g, p) = (r, (g', p'))"
  shows "\<exists>x m'. r = Inr x \<and> ms_getMirror (graphStore env) cid target g' = Some m' \<and> settled x (em_state m) (em_state m')"
proof -
  have "outcome (tables.stands env cid target (em_state m)) (processMessage env (graphStore env) client message)
      (\<lambda>x s. \<exists>a. tables.stands env cid target a s \<and> settled x (em_state m) a) (\<lambda>_ _. False)"
    using message by (cases message)
      (simp_all add: processMessage_def concerns_def tables.upsert_outcome tables.delete_outcome)
  moreover have "tables.stands env cid target (em_state m) (g, p)"
    using row by (simp add: tables.stands_def storedState_def)
  ultimately show ?thesis using run
    by (cases r) (force dest: outcome_Inl outcome_Inr simp: tables.stands_def storedState_def)+
qed

section \<open>The cache is invisible\<close>

text \<open>
  The consumer over the cache does what the consumer over the tables does, up to the updates still to be flushed:
  \<open>shadows\<close> from any point on, \<open>shadowsAt\<close> from the point where nothing is pending and reads may happen.
\<close>

definition replay :: "graph_env \<Rightarrow> pending_update list \<Rightarrow> user_graph \<Rightarrow> user_graph" where
  "replay env us g = foldl (\<lambda>h u. snd (flushOne env u h)) g us"

definition shadows ::
  "graph_env \<Rightarrow> user_graph \<Rightarrow> (user_graph, 'p, 'a) consumer_op \<Rightarrow> (cached_store, 'p, 'a) consumer_op \<Rightarrow> bool" where
  "shadows env g m n \<longleftrightarrow> (\<forall>c p r c' p'. n (c, p) = (r, (c', p')) \<longrightarrow>
     m (replay env (ch_pending c) g, p) = (r, (replay env (ch_pending c') g, p')))"

definition shadowsAt ::
  "graph_env \<Rightarrow> user_graph \<Rightarrow> cached_store \<Rightarrow> (user_graph, 'p, 'a) consumer_op \<Rightarrow> (cached_store, 'p, 'a) consumer_op \<Rightarrow> bool" where
  "shadowsAt env g c m n \<longleftrightarrow> (\<forall>p r c' p'. n (c, p) = (r, (c', p')) \<longrightarrow>
     m (g, p) = (r, (replay env (ch_pending c') g, p')))"

named_theorems shadow_rules \<open>rules that follow the consumer over both stores\<close>

lemma shadowsD: "shadows env g m n \<Longrightarrow> n (c, p) = (r, (c', p')) \<Longrightarrow>
    m (replay env (ch_pending c) g, p) = (r, (replay env (ch_pending c') g, p'))"
  by (simp add: shadows_def)

lemma shadows_ret [shadow_rules]: "shadows env g (ret x) (ret x)"
  by (simp add: shadows_def ret_def)

lemma shadows_throw [shadow_rules]: "shadows env g (throw e) (throw e)"
  by (simp add: shadows_def throw_def)

lemma shadows_provider [shadow_rules]: "shadows env g (onProvider f) (onProvider f)"
  by (auto simp: shadows_def onProvider_def split: prod.splits)

lemma shadows_attempt [shadow_rules]: "shadows env g m n \<Longrightarrow> shadows env g (attempt m) (attempt n)"
  by (fastforce simp: shadows_def attempt_def split: prod.splits)

lemma shadows_andThen [shadow_rules]:
  assumes m: "shadows env g m n" and f: "\<And>x. shadows env g (f x) (h x)"
  shows "shadows env g (andThen m f) (andThen n h)"
  unfolding shadows_def
proof (intro allI impI)
  fix c p r c' p' assume run: "andThen n h (c, p) = (r, (c', p'))"
  obtain q d p1 where q: "n (c, p) = (q, (d, p1))" by (metis prod.exhaust)
  note m' = shadowsD [OF m q]
  show "andThen m f (replay env (ch_pending c) g, p) = (r, (replay env (ch_pending c') g, p'))"
  proof (cases q)
    case (Inl e)
    with run q m' show ?thesis by (auto simp: andThen_def)
  next
    case (Inr x)
    then have "h x (d, p1) = (r, (c', p'))" using run q by (simp add: andThen_def)
    from shadowsD [OF f this] show ?thesis using m' Inr by (simp add: andThen_def)
  qed
qed

lemma shadows_tryCatch [shadow_rules]:
  assumes m: "shadows env g m n" and f: "\<And>e. shadows env g (f e) (h e)"
  shows "shadows env g (tryCatch m f) (tryCatch n h)"
  unfolding shadows_def
proof (intro allI impI)
  fix c p r c' p' assume run: "tryCatch n h (c, p) = (r, (c', p'))"
  obtain q d p1 where q: "n (c, p) = (q, (d, p1))" by (metis prod.exhaust)
  note m' = shadowsD [OF m q]
  show "tryCatch m f (replay env (ch_pending c) g, p) = (r, (replay env (ch_pending c') g, p'))"
  proof (cases q)
    case (Inr x)
    with run q m' show ?thesis by (auto simp: tryCatch_def)
  next
    case (Inl e)
    then have "h e (d, p1) = (r, (c', p'))" using run q by (simp add: tryCatch_def)
    from shadowsD [OF f this] show ?thesis using m' Inl by (simp add: tryCatch_def)
  qed
qed

lemma shadows_if [shadow_rules]:
  "(b \<Longrightarrow> shadows env g m n) \<Longrightarrow> (\<not> b \<Longrightarrow> shadows env g m' n') \<Longrightarrow>
   shadows env g (if b then m else m') (if b then n else n')"
  by simp

lemma shadows_case_sum [shadow_rules]:
  "(\<And>e. v = Inl e \<Longrightarrow> shadows env g (m e) (n e)) \<Longrightarrow> (\<And>x. v = Inr x \<Longrightarrow> shadows env g (m' x) (n' x)) \<Longrightarrow>
   shadows env g (case v of Inl e \<Rightarrow> m e | Inr x \<Rightarrow> m' x) (case v of Inl e \<Rightarrow> n e | Inr x \<Rightarrow> n' x)"
  by (cases v) simp_all

lemma shadows_case_prod [shadow_rules]:
  "(\<And>x y. shadows env g (m x y) (n x y)) \<Longrightarrow>
   shadows env g (case v of (x, y) \<Rightarrow> m x y) (case v of (x, y) \<Rightarrow> n x y)"
  by (cases v) simp

lemma replay_snoc: "replay env (us @ [u]) g = snd (flushOne env u (replay env us g))"
  by (simp add: replay_def)

lemma shadows_update [shadow_rules]:
  "shadows env g (onStore (ms_updateMirrorState (graphStore env) cid target u))
     (onStore (ms_updateMirrorState cachedStore cid target u))"
  by (auto simp: shadows_def onStore_def graphStore_def cachedStore_def cacheUpdateMirrorState_def Let_def
      replay_snoc flushOne_def)

lemma shadows_busy [shadow_rules]:
  "shadows env g (onStore (ms_storeBusyOverlayCalendar (graphStore env) account cal))
     (onStore (ms_storeBusyOverlayCalendar cachedStore account cal))"
  by (auto simp: shadows_def onStore_def graphStore_def cachedStore_def cacheStoreBusy_def Let_def
      replay_snoc flushOne_def)

lemma shadows_parts [shadow_rules]:
  "shadows env g (handleError (graphStore env) err cid target) (handleError cachedStore err cid target)"
  "shadows env g (insertWithCalendarRecovery (graphStore env) client token msg cal)
     (insertWithCalendarRecovery cachedStore client token msg cal)"
  "shadows env g (deleteAtProvider client token cal pid) (deleteAtProvider client token cal pid)"
  unfolding handleError_def insertWithCalendarRecovery_def deleteAtProvider_def Let_def
  by (intro shadow_rules)+

lemma shadows_write [shadow_rules]:
  "shadows env g (writeMirrored env (graphStore env) client token msg pid cal)
     (writeMirrored env cachedStore client token msg pid cal)"
  unfolding writeMirrored_def insertMirrored_def by (intro shadow_rules)

lemma shadowsAt_shadows: "ch_pending c = [] \<Longrightarrow> shadows env g m n \<Longrightarrow> shadowsAt env g c m n"
  by (fastforce simp: shadowsAt_def replay_def dest: shadowsD)

lemma shadowsAt_read:
  "f g = f' c \<Longrightarrow> shadowsAt env g c (k (f' c)) (k' (f' c)) \<Longrightarrow>
   shadowsAt env g c (andThen (readStore f) k) (andThen (readStore f') k')"
  by (simp add: shadowsAt_def readStore_def)

lemma shadowsAt_if:
  "(b \<Longrightarrow> shadowsAt env g c m n) \<Longrightarrow> (\<not> b \<Longrightarrow> shadowsAt env g c m' n') \<Longrightarrow>
   shadowsAt env g c (if b then m else m') (if b then n else n')"
  by simp

lemma shadowsAt_case_option:
  "shadowsAt env g c m n \<Longrightarrow> (\<And>x. v = Some x \<Longrightarrow> shadowsAt env g c (m' x) (n' x)) \<Longrightarrow>
   shadowsAt env g c (case v of None \<Rightarrow> m | Some x \<Rightarrow> m' x) (case v of None \<Rightarrow> n | Some x \<Rightarrow> n' x)"
  by (cases v) simp_all

lemma shadowsAt_provider:
  assumes "\<And>x. shadowsAt env g c (k x) (k' x)" and "ch_pending c = []"
  shows "shadowsAt env g c (andThen (onProvider f) k) (andThen (onProvider f) k')"
  using assms by (auto simp: shadowsAt_def andThen_def onProvider_def replay_def split: prod.splits sum.splits)

lemma shadowsAt_andThen:
  assumes m: "shadowsAt env g c m n" and f: "\<And>x. shadows env g (f x) (h x)"
  shows "shadowsAt env g c (andThen m f) (andThen n h)"
  unfolding shadowsAt_def
proof (intro allI impI)
  fix p r c' p' assume run: "andThen n h (c, p) = (r, (c', p'))"
  obtain q d p1 where q: "n (c, p) = (q, (d, p1))" by (metis prod.exhaust)
  have m': "m (g, p) = (q, (replay env (ch_pending d) g, p1))" using m q by (simp add: shadowsAt_def)
  show "andThen m f (g, p) = (r, (replay env (ch_pending c') g, p'))"
  proof (cases q)
    case (Inl e)
    with run q m' show ?thesis by (auto simp: andThen_def)
  next
    case (Inr x)
    then have "h x (d, p1) = (r, (c', p'))" using run q by (simp add: andThen_def)
    from shadowsD [OF f this] show ?thesis using m' Inr by (simp add: andThen_def)
  qed
qed

lemma shadowsAt_tryCatch:
  assumes m: "shadowsAt env g c m n" and f: "\<And>e. shadows env g (f e) (h e)"
  shows "shadowsAt env g c (tryCatch m f) (tryCatch n h)"
  unfolding shadowsAt_def
proof (intro allI impI)
  fix p r c' p' assume run: "tryCatch n h (c, p) = (r, (c', p'))"
  obtain q d p1 where q: "n (c, p) = (q, (d, p1))" by (metis prod.exhaust)
  have m': "m (g, p) = (q, (replay env (ch_pending d) g, p1))" using m q by (simp add: shadowsAt_def)
  show "tryCatch m f (g, p) = (r, (replay env (ch_pending c') g, p'))"
  proof (cases q)
    case (Inr x)
    with run q m' show ?thesis by (auto simp: tryCatch_def)
  next
    case (Inl e)
    then have "h e (d, p1) = (r, (c', p'))" using run q by (simp add: tryCatch_def)
    from shadowsD [OF f this] show ?thesis using m' Inl by (simp add: tryCatch_def)
  qed
qed

definition cacheFor :: "graph_env \<Rightarrow> queue_message \<Rightarrow> user_graph \<Rightarrow> cached_store" where
  "cacheFor env message g =
     (case message of
        UPSERT_MIRROR m \<Rightarrow>
          \<lparr> ch_event = um_canonical_event_id m, ch_target = um_target_account_id m,
            ch_mirror = ms_getMirror (graphStore env) (um_canonical_event_id m) (um_target_account_id m) g,
            ch_busy = ms_getBusyOverlayCalendar (graphStore env) (um_target_account_id m) g, ch_pending = [] \<rparr>
      | DELETE_MIRROR m \<Rightarrow>
          \<lparr> ch_event = dm_canonical_event_id m, ch_target = dm_target_account_id m,
            ch_mirror = ms_getMirror (graphStore env) (dm_canonical_event_id m) (dm_target_account_id m) g,
            ch_busy = None, ch_pending = [] \<rparr>)"

lemma cacheFor_pending [simp]: "ch_pending (cacheFor env message g) = []"
  by (simp add: cacheFor_def split: queue_message.split)

lemma shadowsAt_resolve:
  assumes c: "c = cacheFor env (UPSERT_MIRROR msg) g"
  shows "shadowsAt env g c (resolveCalendar (graphStore env) client token msg)
    (resolveCalendar cachedStore client token msg)"
proof -
  let ?a = "um_target_account_id msg"
  have busy: "ms_getBusyOverlayCalendar (graphStore env) ?a g = ms_getBusyOverlayCalendar cachedStore ?a c"
    by (simp add: c cacheFor_def cachedStore_def cacheGetBusy_def)
  show ?thesis
  proof (cases "um_target_calendar_id msg = ?a")
    case False
    then show ?thesis using shadowsAt_shadows [OF _ shadows_ret, of c] by (simp add: resolveCalendar_def c)
  next
    case True
    then show ?thesis unfolding resolveCalendar_def
      by (simp only: simp_thms if_False)
        (intro shadowsAt_read [where f = "ms_getBusyOverlayCalendar (graphStore env) ?a" and
            f' = "ms_getBusyOverlayCalendar cachedStore ?a", OF busy] shadowsAt_shadows shadow_rules, simp add: c)
  qed
qed

lemma shadowsAt_upsert:
  assumes c: "c = cacheFor env (UPSERT_MIRROR msg) g"
  shows "shadowsAt env g c (handleUpsert env (graphStore env) client msg) (handleUpsert env cachedStore client msg)"
proof -
  let ?id = "um_canonical_event_id msg" and ?a = "um_target_account_id msg"
  have mirror: "ms_getMirror (graphStore env) ?id ?a g = ms_getMirror cachedStore ?id ?a c"
    by (simp add: c cacheFor_def cachedStore_def cacheGetMirror_def)
  have p: "ch_pending c = []" by (simp add: c)
  have body: "shadowsAt env g c
      (tryCatch (andThen (onProvider (cp_getAccessToken client ?a)) (\<lambda>token.
          andThen (resolveCalendar (graphStore env) client token msg) (\<lambda>cal.
          writeMirrored env (graphStore env) client token msg pid cal)))
        (\<lambda>err. handleError (graphStore env) err ?id ?a))
      (tryCatch (andThen (onProvider (cp_getAccessToken client ?a)) (\<lambda>token.
          andThen (resolveCalendar cachedStore client token msg) (\<lambda>cal.
          writeMirrored env cachedStore client token msg pid cal)))
        (\<lambda>err. handleError cachedStore err ?id ?a))" for pid
    by (intro shadowsAt_tryCatch shadowsAt_provider shadowsAt_andThen shadowsAt_resolve [OF c] shadow_rules p)
  have skip: "shadowsAt env g c (ret (completed Skipped)) (ret (completed Skipped))"
    by (rule shadowsAt_shadows [OF p shadows_ret])
  have old: "shadowsAt env g c
      (andThen (onStore (ms_updateMirrorState (graphStore env) ?id ?a (activated env msg))) (\<lambda>_. ret (completed Skipped)))
      (andThen (onStore (ms_updateMirrorState cachedStore ?id ?a (activated env msg))) (\<lambda>_. ret (completed Skipped)))"
    by (intro shadowsAt_shadows [OF p] shadow_rules)
  show ?thesis unfolding handleUpsert_def
    by (rule shadowsAt_read [where f = "ms_getMirror (graphStore env) ?id ?a" and
          f' = "ms_getMirror cachedStore ?id ?a", OF mirror])
      (intro shadowsAt_case_option shadowsAt_if skip old body)
qed

lemma shadowsAt_delete:
  assumes c: "c = cacheFor env (DELETE_MIRROR msg) g"
  shows "shadowsAt env g c (handleDelete (graphStore env) client msg) (handleDelete cachedStore client msg)"
proof -
  let ?id = "dm_canonical_event_id msg" and ?a = "dm_target_account_id msg"
  have mirror: "ms_getMirror (graphStore env) ?id ?a g = ms_getMirror cachedStore ?id ?a c"
    by (simp add: c cacheFor_def cachedStore_def cacheGetMirror_def)
  have p: "ch_pending c = []" by (simp add: c)
  have finish: "shadows env g
      (andThen (onStore (ms_updateMirrorState (graphStore env) ?id ?a deletedUpdate)) (\<lambda>_. ret (completed Deleted_event)))
      (andThen (onStore (ms_updateMirrorState cachedStore ?id ?a deletedUpdate)) (\<lambda>_. ret (completed Deleted_event)))"
    by (intro shadow_rules)
  show ?thesis
  proof (cases "dm_provider_event_id msg = []")
    case True
    then show ?thesis using shadowsAt_shadows [OF p finish] by (simp add: handleDelete_def)
  next
    case False
    then show ?thesis unfolding handleDelete_def Let_def
      by (simp only: if_False)
        (intro shadowsAt_tryCatch shadowsAt_provider shadowsAt_read [where f = "ms_getMirror (graphStore env) ?id ?a" and
          f' = "ms_getMirror cachedStore ?id ?a", OF mirror] shadowsAt_shadows [OF p]
          shadows_andThen finish shadow_rules p)
  qed
qed

lemma shadowsAt_process:
  "shadowsAt env g (cacheFor env message g) (processMessage env (graphStore env) client message)
     (processMessage env cachedStore client message)"
  by (cases message) (simp_all add: processMessage_def shadowsAt_upsert shadowsAt_delete)

section \<open>The handler with every call delivered\<close>

lemma flushOne_returns: "flushOne env u g = (Inr (), snd (flushOne env u g))"
  by (cases u)
    (simp_all add: flushOne_def updateMirrorState_snd storeBusyOverlayCalendar_def andThen_def freshId_def
      insertOrReplaceCalendar_def)

definition moved :: "string \<Rightarrow> user_graph \<Rightarrow> nat \<Rightarrow> 'p world \<Rightarrow> 'p world" where
  "moved user g n w = w\<lparr> wo_graph := (wo_graph w)(user := g), wo_calls := n \<rparr>"

lemma moved_simps [simp]:
  "moved user (wo_graph w user) (wo_calls w) w = w" "moved user g n (moved user h k w) = moved user g n w"
  "wo_graph (moved user g n w) user = g" "wo_provider (moved user g n w) = wo_provider w"
  "wo_calls (moved user g n w) = n"
  by (simp_all add: moved_def)

lemma callObject_delivered:
  assumes "\<And>n. we_fate we n = Delivered" and "m (wo_graph w user) = (Inr x, g)"
  shows "callObject we user name m w = (Inr x, moved user g (wo_calls w + 1) w)"
  using assms by (simp add: callObject_def moved_def Let_def)

lemma flush_delivered:
  assumes "\<And>n. we_fate we n = Delivered"
  shows "\<exists>n. forEach us (\<lambda>u. callObject we user (pendingName u) (flushOne env u)) w =
    (Inr (), moved user (replay env us (wo_graph w user)) n w)"
proof (induction us arbitrary: w)
  case Nil
  have "moved user (replay env [] (wo_graph w user)) (wo_calls w) w = w" by (simp add: replay_def)
  then show ?case by (metis forEach.simps(1) ret_run)
next
  case (Cons u us)
  let ?g = "snd (flushOne env u (wo_graph w user))" and ?w = "moved user (snd (flushOne env u (wo_graph w user))) (wo_calls w + 1) w"
  have "callObject we user (pendingName u) (flushOne env u) w = (Inr (), ?w)"
    by (rule callObject_delivered [OF assms flushOne_returns])
  then have step: "forEach (u # us) (\<lambda>u. callObject we user (pendingName u) (flushOne env u)) w =
      forEach us (\<lambda>u. callObject we user (pendingName u) (flushOne env u)) ?w"
    by (simp add: andThen_def)
  obtain n where "forEach us (\<lambda>u. callObject we user (pendingName u) (flushOne env u)) ?w =
      (Inr (), moved user (replay env us ?g) n ?w)" using Cons.IH [of ?w] by auto
  with step show ?case by (auto simp: replay_def)
qed

text \<open>A message is current for the tables when it is not an upsert a later projection has overtaken.\<close>

definition current :: "graph_env \<Rightarrow> queue_message \<Rightarrow> user_graph \<Rightarrow> bool" where
  "current env message g \<longleftrightarrow>
     (case message of
        UPSERT_MIRROR m \<Rightarrow>
          (case ms_getMirror (graphStore env) (um_canonical_event_id m) (um_target_account_id m) g of
             None \<Rightarrow> True | Some row \<Rightarrow> \<not> superseded m row)
      | DELETE_MIRROR m \<Rightarrow> True)"

lemma getMirror_delivered:
  assumes "\<And>n. we_fate we n = Delivered"
  shows "callObject we user ''getMirror'' (getMirror cid target) w =
    (Inr (ms_getMirror (graphStore env) cid target (wo_graph w user)), moved user (wo_graph w user) (wo_calls w + 1) w)"
  by (rule callObject_delivered [OF assms graphStore_reads(1)])

lemma createCache_delivered:
  assumes d: "\<And>n. we_fate we n = Delivered"
    and pre: "\<And>m row. message = UPSERT_MIRROR m \<Longrightarrow> prefetched = Some row \<Longrightarrow>
      ms_getMirror (graphStore env) (um_canonical_event_id m) (um_target_account_id m) (wo_graph w user) = Some row"
    and del: "\<And>m. message = DELETE_MIRROR m \<Longrightarrow> prefetched = None"
  shows "\<exists>n. createCachedMirrorStore we user message prefetched w =
    (Inr (cacheFor env message (wo_graph w user)), moved user (wo_graph w user) n w)"
proof (cases message)
  case (DELETE_MIRROR m)
  then show ?thesis using del [OF DELETE_MIRROR]
    by (simp add: createCachedMirrorStore_def andThen_def getMirror_delivered [OF d, of _ _ _ _ env] ret_def cacheFor_def
        Let_def exI)
next
  case (UPSERT_MIRROR m)
  have busy: "callObject we user ''getBusyOverlayCalendar'' (getBusyOverlayCalendar account) v =
      (Inr (ms_getBusyOverlayCalendar (graphStore env) account (wo_graph v user)),
       moved user (wo_graph v user) (wo_calls v + 1) v)" for account and v :: "'p world"
    by (rule callObject_delivered [OF d graphStore_reads(2)])
  show ?thesis
  proof (cases prefetched)
    case None
    then show ?thesis using UPSERT_MIRROR
      by (simp add: createCachedMirrorStore_def andThen_def getMirror_delivered [OF d, of _ _ _ _ env] busy ret_def
          cacheFor_def Let_def exI)
  next
    case (Some row)
    then show ?thesis using UPSERT_MIRROR pre [OF UPSERT_MIRROR Some]
      by (simp add: createCachedMirrorStore_def andThen_def busy ret_def cacheFor_def Let_def exI)
  qed
qed

definition decisionOf :: "process_result \<Rightarrow> decision" where
  "decisionOf x = (if ps_retry x then Retry else Ack)"

lemma deliver_direct:
  assumes d: "\<And>n. we_fate we n = Delivered"
    and cache: "createCachedMirrorStore we user message prefetched w =
      (Inr (cacheFor env message (wo_graph w user)), moved user (wo_graph w user) k w)"
    and run: "processMessage env (graphStore env) client message (wo_graph w user, wo_provider w) = (Inr x, (g', p'))"
  shows "\<exists>n. deliver env we user client message prefetched w =
    (Inr (decisionOf x), (moved user g' n w)\<lparr> wo_provider := p' \<rparr>)"
proof -
  obtain r c' q where c': "processMessage env cachedStore client message
      (cacheFor env message (wo_graph w user), wo_provider w) = (r, (c', q))" by (metis prod.exhaust)
  with shadowsAt_process [of env "wo_graph w user" message client] run
  have r: "r = Inr x" and q: "q = p'" and g': "replay env (ch_pending c') (wo_graph w user) = g'"
    by (auto simp: shadowsAt_def)
  let ?v = "(moved user (wo_graph w user) k w)\<lparr> wo_provider := p' \<rparr>"
  have consumer: "runConsumer env client message (cacheFor env message (wo_graph w user))
      (moved user (wo_graph w user) k w) = (Inr (x, c'), ?v)"
    using c' r q by (simp add: runConsumer_def)
  obtain n where "flush env we user c' ?v = (Inr (), moved user (replay env (ch_pending c') (wo_graph ?v user)) n ?v)"
    using flush_delivered [OF d, where w = ?v and us = "ch_pending c'"] unfolding flush_def by blast
  moreover have "wo_graph ?v user = wo_graph w user" by (simp add: moved_def)
  ultimately have "flush env we user c' ?v = (Inr (), moved user g' n ?v)" by (simp add: g')
  then have "deliver env we user client message prefetched w = (Inr (decisionOf x), moved user g' n ?v)"
    by (simp add: deliver_def andThen_def cache consumer ret_def decisionOf_def)
  moreover have "moved user g' n ?v = (moved user g' n w)\<lparr> wo_provider := p' \<rparr>" by (simp add: moved_def)
  ultimately show ?thesis by auto
qed

lemma handleQueued_direct:
  assumes d: "\<And>n. we_fate we n = Delivered" and cur: "current env message (wo_graph w user)"
    and run: "processMessage env (graphStore env) client message (wo_graph w user, wo_provider w) = (Inr x, (g', p'))"
  shows "\<exists>n. handleQueued env we user client message w =
    (Inr (decisionOf x), (moved user g' n w)\<lparr> wo_provider := p' \<rparr>)"
proof (cases message)
  case (DELETE_MIRROR m)
  obtain k where "createCachedMirrorStore we user message None w =
      (Inr (cacheFor env message (wo_graph w user)), moved user (wo_graph w user) k w)"
    using createCache_delivered [OF d, where message = message and prefetched = None and w = w and env = env] by blast
  from deliver_direct [OF d this run] DELETE_MIRROR show ?thesis by (simp add: handleQueued_def)
next
  case (UPSERT_MIRROR m)
  let ?cid = "um_canonical_event_id m" and ?a = "um_target_account_id m"
  let ?v = "moved user (wo_graph w user) (wo_calls w + 1) w"
  let ?row = "ms_getMirror (graphStore env) ?cid ?a (wo_graph w user)"
  have "\<exists>n. deliver env we user client message ?row ?v = (Inr (decisionOf x), (moved user g' n ?v)\<lparr> wo_provider := p' \<rparr>)"
  proof -
    obtain k where "createCachedMirrorStore we user message ?row ?v =
        (Inr (cacheFor env message (wo_graph ?v user)), moved user (wo_graph ?v user) k ?v)"
      using createCache_delivered [OF d, where message = message and prefetched = ?row and w = ?v and env = env
          and user = user] UPSERT_MIRROR by auto
    then show ?thesis by (rule deliver_direct [OF d]) (simp add: run)
  qed
  moreover have "handleQueued env we user client message w = deliver env we user client message ?row ?v"
    using cur UPSERT_MIRROR
    by (auto simp: handleQueued_def andThen_def getMirror_delivered [OF d, of _ _ _ _ env] current_def split: option.split)
  ultimately show ?thesis by (simp only: moved_simps)
qed

section \<open>Delivered twice\<close>

definition holdsRow :: "graph_env \<Rightarrow> upsert_message \<Rightarrow> mirror_row \<Rightarrow> user_graph \<times> 'p \<Rightarrow> bool" where
  "holdsRow env msg m s \<longleftrightarrow>
     ms_getMirror (graphStore env) (um_canonical_event_id msg) (um_target_account_id msg) (fst s) = Some m"

lemma outcome_pure: "(A \<Longrightarrow> outcome P m Q E) \<Longrightarrow> outcome (\<lambda>s. P s \<and> A) m (\<lambda>x s. Q x s \<and> A) E"
  unfolding outcome_def by (cases A) (auto split: prod.split sum.split)

lemma truthy_orNullish: "truthy x \<Longrightarrow> orNullish x d = x"
  by (cases x) simp_all

lemma holdsRow_provider: "outcome (holdsRow env msg m) (onProvider c) (\<lambda>_. holdsRow env msg m) (\<lambda>_. holdsRow env msg m)"
  by (rule outcomeI) (auto simp: onProvider_def holdsRow_def split: prod.splits sum.split)

lemma holdsRow_read: "outcome (holdsRow env msg m) (readStore f) (\<lambda>_. holdsRow env msg m) E"
  unfolding readStore_def by (rule outcome_query)

lemma holdsRow_busy:
  "outcome (holdsRow env msg m) (onStore (ms_storeBusyOverlayCalendar (graphStore env) account cal))
     (\<lambda>_. holdsRow env msg m) E"
  unfolding onStore_def by (rule outcome_modify) (simp add: holdsRow_def graphStore_def storeBusy_mirrors)

lemma holdsRow_update:
  "outcome (holdsRow env msg m)
     (onStore (ms_updateMirrorState (graphStore env) (um_canonical_event_id msg) (um_target_account_id msg) u))
     (\<lambda>_. holdsRow env msg (applyMirrorUpdate u m)) E"
  unfolding onStore_def
  by (rule outcome_modify) (simp add: holdsRow_def graphStore_def mirrorRows_updateState split: list.splits)

lemmas holdsRow_rules = outcome_andThen holdsRow_provider holdsRow_read holdsRow_busy outcome_case_sum outcome_if
  outcome_throw

text \<open>The client gives every event it inserts an id.\<close>

definition givesIds :: "'p calendar_provider \<Rightarrow> bool" where
  "givesIds client \<longleftrightarrow> (\<forall>token cal payload p p'. cp_insertEvent client token cal payload p \<noteq> (Inr [], p'))"

lemma insertRecovery_id:
  assumes ids: "givesIds client"
  shows "outcome (holdsRow env msg m) (insertWithCalendarRecovery (graphStore env) client token msg cal)
    (\<lambda>x s. holdsRow env msg m s \<and> fst x \<noteq> []) (\<lambda>_. holdsRow env msg m)"
proof -
  have ins: "outcome (holdsRow env msg m) (onProvider (cp_insertEvent client token cal' (um_projected_payload msg)))
      (\<lambda>eid s. holdsRow env msg m s \<and> eid \<noteq> []) (\<lambda>_. holdsRow env msg m)" for cal'
    using ids by (intro outcomeI)
      (auto simp: onProvider_def holdsRow_def givesIds_def split: prod.splits sum.split)
  have first: "outcome (holdsRow env msg m) (attempt (onProvider (cp_insertEvent client token cal (um_projected_payload msg))))
      (\<lambda>r s. holdsRow env msg m s \<and> (\<forall>eid. r = Inr eid \<longrightarrow> eid \<noteq> [])) (\<lambda>_. holdsRow env msg m)"
    by (rule outcome_attempt) (rule outcome_weaken [OF ins], auto)
  have again: "outcome (\<lambda>s. holdsRow env msg m s \<and> P)
      (andThen (onProvider (cp_insertCalendar client token BUSY_OVERLAY_CALENDAR_NAME)) (\<lambda>cal'.
       andThen (onStore (ms_storeBusyOverlayCalendar (graphStore env) (um_target_account_id msg) cal')) (\<lambda>_.
       andThen (onProvider (cp_insertEvent client token cal' (um_projected_payload msg))) (\<lambda>eid. ret (eid, cal')))))
      (\<lambda>x s. holdsRow env msg m s \<and> fst x \<noteq> []) (\<lambda>_. holdsRow env msg m)" for P
  proof (rule outcome_weaken [OF _ conjunct1 _ _])
    show "outcome (holdsRow env msg m)
      (andThen (onProvider (cp_insertCalendar client token BUSY_OVERLAY_CALENDAR_NAME)) (\<lambda>cal'.
       andThen (onStore (ms_storeBusyOverlayCalendar (graphStore env) (um_target_account_id msg) cal')) (\<lambda>_.
       andThen (onProvider (cp_insertEvent client token cal' (um_projected_payload msg))) (\<lambda>eid. ret (eid, cal')))))
      (\<lambda>x s. holdsRow env msg m s \<and> fst x \<noteq> []) (\<lambda>_. holdsRow env msg m)"
      by (intro outcome_andThen [OF holdsRow_provider] outcome_andThen [OF holdsRow_busy] outcome_andThen [OF ins]
          outcome_ret) simp
  qed
  show ?thesis unfolding insertWithCalendarRecovery_def
    by (intro outcome_andThen [OF first] outcome_case_sum outcome_if again) (rule outcome_throw outcome_ret, simp)+
qed

definition writtenRow :: "graph_env \<Rightarrow> upsert_message \<Rightarrow> user_graph \<times> 'p \<Rightarrow> bool" where
  "writtenRow env msg s \<longleftrightarrow> (\<exists>m. holdsRow env msg m s \<and> alreadyWritten msg m)"

definition wrote :: "process_result \<Rightarrow> bool" where
  "wrote r \<longleftrightarrow> ps_action r = Created_event \<or> ps_action r = Updated_event"

lemma insertMirrored_written:
  assumes "givesIds client" and "truthy (um_projected_hash msg)"
  shows "outcome (holdsRow env msg m) (insertMirrored env (graphStore env) client token msg cal)
    (\<lambda>r. writtenRow env msg) (\<lambda>_. holdsRow env msg m)"
  unfolding insertMirrored_def
proof (intro outcome_andThen [OF insertRecovery_id [OF assms(1)]] outcome_case_prod)
  fix x and eid cal' :: string assume x: "x = (eid, cal')"
  let ?u = "(activated env msg)\<lparr> mu_provider_event_id := Some eid, mu_target_calendar_id := Some cal' \<rparr>"
  let ?up = "onStore (ms_updateMirrorState (graphStore env) (um_canonical_event_id msg) (um_target_account_id msg) ?u)"
  have up: "outcome (\<lambda>s. holdsRow env msg m s \<and> fst x \<noteq> []) ?up
      (\<lambda>_ s. holdsRow env msg (applyMirrorUpdate ?u m) s \<and> fst x \<noteq> []) (\<lambda>_. holdsRow env msg m)"
    by (rule outcome_pure) (rule holdsRow_update)
  have "alreadyWritten msg (applyMirrorUpdate ?u m)" if "fst x \<noteq> []"
    using that assms(2) x by (simp add: alreadyWritten_def applyMirrorUpdate_def activated_def truthy_orNullish)
  then show "outcome (\<lambda>s. holdsRow env msg m s \<and> fst x \<noteq> []) (andThen ?up (\<lambda>_. ret (completed Created_event)))
      (\<lambda>r. writtenRow env msg) (\<lambda>_. holdsRow env msg m)"
    by (intro outcome_andThen [OF up] outcome_ret) (auto simp: writtenRow_def)
qed

text \<open>The outcome each branch of an upsert is to have.\<close>

definition afterWrite :: "graph_env \<Rightarrow> upsert_message \<Rightarrow> process_result \<Rightarrow> user_graph \<times> 'p \<Rightarrow> bool" where
  "afterWrite env msg r s \<longleftrightarrow> (wrote r \<longrightarrow> writtenRow env msg s)"

lemma patched_written:
  assumes "truthy (um_projected_hash msg)" and "truthy (em_provider_event_id m)"
  shows "outcome (holdsRow env msg m)
    (andThen (onStore (ms_updateMirrorState (graphStore env) (um_canonical_event_id msg) (um_target_account_id msg)
        ((activated env msg)\<lparr> mu_target_calendar_id := Some cal \<rparr>))) (\<lambda>_. ret (completed Updated_event)))
    (afterWrite env msg) (\<lambda>_ _. True)"
proof -
  have "alreadyWritten msg (applyMirrorUpdate ((activated env msg)\<lparr> mu_target_calendar_id := Some cal \<rparr>) m)"
    using assms by (simp add: alreadyWritten_def applyMirrorUpdate_def activated_def truthy_orNullish noUpdate_def)
  then show ?thesis
    by (intro outcome_andThen [OF holdsRow_update] outcome_ret) (auto simp: afterWrite_def writtenRow_def)
qed

lemma write_written:
  assumes "givesIds client" and "truthy (um_projected_hash msg)"
  shows "outcome (holdsRow env msg m)
    (writeMirrored env (graphStore env) client token msg (em_provider_event_id m) cal) (afterWrite env msg) (\<lambda>_ _. True)"
proof -
  have "outcome (holdsRow env msg m) (insertMirrored env (graphStore env) client token msg cal)
      (afterWrite env msg) (\<lambda>_ _. True)"
    by (rule outcome_weaken [OF insertMirrored_written [OF assms]]) (simp_all add: afterWrite_def)
  then show ?thesis unfolding writeMirrored_def
    by (intro outcome_if outcome_andThen [OF outcome_attempt [OF holdsRow_provider]] outcome_case_sum)
      (auto intro: outcome_throw patched_written assms(2))
qed

lemma token_written:
  assumes "givesIds client" and "truthy (um_projected_hash msg)"
  shows "outcome (holdsRow env msg m)
    (andThen (onProvider (cp_getAccessToken client account)) (\<lambda>token.
     andThen (resolveCalendar (graphStore env) client token msg) (\<lambda>cal.
     writeMirrored env (graphStore env) client token msg (em_provider_event_id m) cal)))
    (afterWrite env msg) (\<lambda>_ _. True)"
proof -
  have "outcome (holdsRow env msg m) (resolveCalendar (graphStore env) client token msg)
      (\<lambda>_. holdsRow env msg m) (\<lambda>_. holdsRow env msg m)" for token
    unfolding resolveCalendar_def by (rule holdsRow_rules outcome_ret | assumption)+
  then have rest: "outcome (holdsRow env msg m) (andThen (resolveCalendar (graphStore env) client token msg) (\<lambda>cal.
      writeMirrored env (graphStore env) client token msg (em_provider_event_id m) cal)) (afterWrite env msg) (\<lambda>_ _. True)"
    for token
    by (rule outcome_andThen [OF outcome_weaken write_written [OF assms]]) simp_all
  have "outcome (holdsRow env msg m) (onProvider (cp_getAccessToken client account))
      (\<lambda>_. holdsRow env msg m) (\<lambda>_ _. True)"
    by (rule outcome_weaken [OF holdsRow_provider]) simp_all
  then show ?thesis by (rule outcome_andThen) (rule rest)
qed

lemma failed_written:
  "outcome (\<lambda>_. True) (handleError (graphStore env) err cid target) (afterWrite env msg) (\<lambda>_ _. True)"
  unfolding handleError_def onStore_def
  by (intro outcome_if outcome_andThen [OF outcome_modify [where Q = "\<lambda>_ _. True"]] outcome_ret)
    (simp_all add: afterWrite_def wrote_def)

lemma upsert_written:
  assumes ids: "givesIds client" and hash: "truthy (um_projected_hash msg)"
  shows "outcome (holdsRow env msg m) (handleUpsert env (graphStore env) client msg) (afterWrite env msg) (\<lambda>_ _. True)"
proof -
  let ?cid = "um_canonical_event_id msg" and ?a = "um_target_account_id msg"
  let ?read = "ms_getMirror (graphStore env) ?cid ?a"
  have skip: "outcome P (ret (completed Skipped)) (afterWrite env msg) (\<lambda>_ _. True)" for P
    by (rule outcome_ret) (simp add: afterWrite_def wrote_def completed_def)
  have old: "outcome P (andThen (onStore f) (\<lambda>_. ret (completed Skipped))) (afterWrite env msg) (\<lambda>_ _. True)" for P f
    unfolding onStore_def by (intro outcome_andThen [OF outcome_modify [where Q = "\<lambda>_ _. True"]] skip) simp
  have read: "outcome (holdsRow env msg m) (readStore ?read) (\<lambda>v s. holdsRow env msg m s \<and> v = Some m) (\<lambda>_ _. True)"
    unfolding readStore_def by (rule outcome_query) (simp add: holdsRow_def)
  have body: "outcome (\<lambda>s. holdsRow env msg m s \<and> Some m' = Some m)
      (tryCatch (andThen (onProvider (cp_getAccessToken client ?a)) (\<lambda>token.
          andThen (resolveCalendar (graphStore env) client token msg) (\<lambda>cal.
          writeMirrored env (graphStore env) client token msg (em_provider_event_id m') cal)))
        (\<lambda>err. handleError (graphStore env) err ?cid ?a)) (afterWrite env msg) (\<lambda>_ _. True)" for m'
    by (rule outcome_tryCatch [OF _ failed_written], rule outcome_weaken [OF outcome_pure [OF token_written [OF ids hash]]])
      auto
  show ?thesis unfolding handleUpsert_def
    by (rule outcome_andThen [OF read], rule outcome_case_option; (intro outcome_if skip old)?; (simp only:, rule body)?)
qed

lemma written_skipped:
  "writtenRow env msg s \<Longrightarrow> handleUpsert env' (graphStore env') client msg s = (Inr (completed Skipped), s)"
  by (auto simp: writtenRow_def holdsRow_def handleUpsert_def readStore_def graphStore_def alreadyWritten_def
      superseded_def ret_def)

lemma upsert_twice:
  assumes "givesIds client" and "truthy (um_projected_hash msg)"
    and run: "processMessage env (graphStore env) client (UPSERT_MIRROR msg) (g, p) = (Inr r, s)" and w: "wrote r"
  shows "processMessage env' (graphStore env') client' (UPSERT_MIRROR msg) s = (Inr (completed Skipped), s)"
proof (cases "ms_getMirror (graphStore env) (um_canonical_event_id msg) (um_target_account_id msg) g")
  case None
  then have "r = completed Skipped" using run by (simp add: processMessage_def handleUpsert_def readStore_def ret_def)
  with w show ?thesis by (simp add: wrote_def completed_def)
next
  case (Some m)
  then have "holdsRow env msg m (g, p)" by (simp add: holdsRow_def)
  from outcome_Inr [OF upsert_written [OF assms(1,2)] this] run w have "writtenRow env msg s"
    by (simp add: processMessage_def afterWrite_def)
  then show ?thesis by (simp add: processMessage_def written_skipped)
qed

end
