(* ===== verification/Write_Samples.thy ===== *)
theory Write_Samples
  imports Write_Laws Sample_State
begin

text \<open>
  A provider that keeps the events inserted into it, and a queue with one upsert for a mirror not written yet, once
  with every call delivered and once with the flush refused.
\<close>

type_synonym sample_calendar = "(string \<times> string \<times> string) list"

definition sampleClient :: "sample_calendar calendar_provider" where
  "sampleClient =
     \<lparr> cp_getAccessToken = (\<lambda>account. ret ''token''),
       cp_insertEvent = (\<lambda>token cal payload p. (Inr (''g'' @ showNat (length p)), p @ [(cal, ''g'' @ showNat (length p), pr_summary payload)])),
       cp_patchEvent = (\<lambda>token cal eid payload. ret ()),
       cp_deleteEvent = (\<lambda>token cal eid p.
         if eid \<in> (fst \<circ> snd) ` set p then (Inr (), filter (\<lambda>(_, e, _). e \<noteq> eid) p)
         else (Inl (Not_Found Google_api ''Not Found''), p)),
       cp_insertCalendar = (\<lambda>token name. ret ''overlay'') \<rparr>"

definition pendingMirror :: mirror_row where
  "pendingMirror = sampleMirror\<lparr> em_provider_event_id := None, em_state := PENDING \<rparr>"

definition pendingGraph :: user_graph where
  "pendingGraph = sampleGraph\<lparr> event_mirrors := [pendingMirror] \<rparr>"

definition sampleUpsert :: upsert_message where
  "sampleUpsert =
     \<lparr> um_canonical_event_id = ''evt_1'', um_target_account_id = ''acc_b'', um_target_calendar_id = ''cal_b'',
       um_projected_hash = Some ''h'', um_projected_payload =
         \<lparr> pr_summary = ''Busy'', pr_description = None, pr_location = None,
           pr_start = Projected_DateTime (Some ''2025-06-16T09:00:00Z'') None,
           pr_end = Projected_DateTime (Some ''2025-06-16T10:00:00Z'') None,
           pr_transparency = ''opaque'', pr_visibility = ''private'', pr_private = [] \<rparr>,
       um_idempotency_key = ''k'' \<rparr>"

definition sampleDelete :: delete_message where
  "sampleDelete =
     \<lparr> dm_canonical_event_id = ''evt_1'', dm_target_account_id = ''acc_b'', dm_target_calendar_id = None,
       dm_provider_event_id = ''m1'', dm_idempotency_key = None \<rparr>"

definition sampleWorker :: "(nat \<Rightarrow> rpc_fate) \<Rightarrow> worker_env" where
  "sampleWorker fate = \<lparr> we_account = (\<lambda>a. Inr (if a = ''acc_b'' then Some (''user_1'', ''microsoft'') else None)), we_fate = fate \<rparr>"

definition sampleWorld :: "user_graph \<Rightarrow> sample_calendar world" where
  "sampleWorld g = \<lparr> wo_graph = (\<lambda>_. g), wo_provider = [], wo_calls = 0, wo_last_write = (\<lambda>_. None) \<rparr>"

text \<open>The third call of the first delivery is the flush.\<close>

definition flushRefused :: "nat \<Rightarrow> rpc_fate" where
  "flushRefused n = (if n = 2 then Refused else Delivered)"

lemma sampleClient_ids: "givesIds sampleClient"
  by (simp add: givesIds_def sampleClient_def)

lemma pendingGraph_row: "ms_getMirror (graphStore env) ''evt_1'' ''acc_b'' pendingGraph = Some pendingMirror"
  by (simp add: graphStore_def mirrorRows_def pendingGraph_def pendingMirror_def sampleMirror_def)

lemma sampleUpsert_fields [simp]:
  "um_canonical_event_id sampleUpsert = ''evt_1''" "um_target_account_id sampleUpsert = ''acc_b''"
  "um_projected_hash sampleUpsert = Some ''h''" "um_target_calendar_id sampleUpsert = ''cal_b''"
  by (simp_all add: sampleUpsert_def)

lemma sample_inserted:
  "\<exists>g. processMessage sampleEnv (graphStore sampleEnv) sampleClient (UPSERT_MIRROR sampleUpsert) (pendingGraph, p) =
     (Inr (completed Created_event), (g, p @ [(''cal_b'', ''g'' @ showNat (length p), ''Busy'')]))"
  by (simp add: processMessage_def handleUpsert_def readStore_def pendingGraph_row superseded_def alreadyWritten_def
      historical_def pendingMirror_def sampleMirror_def tryCatch_def andThen_def onProvider_def sampleClient_def ret_def
      resolveCalendar_def writeMirrored_def insertMirrored_def insertWithCalendarRecovery_def attempt_def onStore_def)
    (simp add: sampleUpsert_def)

section \<open>A flush that is refused\<close>

lemma calls_run:
  assumes "we_fate we (wo_calls w) = Delivered" and "m (wo_graph w user) = (Inr x, wo_graph w user)"
  shows "callObject we user name m w = (Inr x, w\<lparr> wo_calls := wo_calls w + 1 \<rparr>)"
proof -
  have "(wo_graph w)(user := wo_graph w user) = wo_graph w" by simp
  with assms show ?thesis by (simp add: callObject_def Let_def)
qed

lemma flush_refused:
  assumes "we_fate we (wo_calls w) = Refused" and "ch_pending c = u # us"
  shows "flush env we user c w = (Inl (failedCall (pendingName u)), w\<lparr> wo_calls := wo_calls w + 1 \<rparr>)"
  using assms by (simp add: flush_def andThen_def callObject_def Let_def split: prod.split)

lemma insert_run:
  assumes token: "cp_getAccessToken client (um_target_account_id msg) p = (Inr token, p1)"
    and ins: "cp_insertEvent client token (um_target_calendar_id msg) (um_projected_payload msg) p1 = (Inr eid, p2)"
    and cal: "um_target_calendar_id msg \<noteq> um_target_account_id msg"
    and row: "ms_getMirror st (um_canonical_event_id msg) (um_target_account_id msg) c = Some m"
    and new: "em_provider_event_id m = None" and cur: "\<not> superseded msg m"
  shows "processMessage env st client (UPSERT_MIRROR msg) (c, p) =
    (Inr (completed Created_event), (ms_updateMirrorState st (um_canonical_event_id msg) (um_target_account_id msg)
       ((activated env msg)\<lparr> mu_provider_event_id := Some eid, mu_target_calendar_id := Some (um_target_calendar_id msg) \<rparr>) c, p2))"
  using assms
  by (simp add: processMessage_def handleUpsert_def readStore_def alreadyWritten_def historical_def tryCatch_def
      andThen_def onProvider_def resolveCalendar_def writeMirrored_def insertMirrored_def insertWithCalendarRecovery_def
      attempt_def onStore_def ret_def)

lemma lost_flush_handled:
  assumes fate: "we_fate we (wo_calls w) = Delivered" "we_fate we (wo_calls w + 1) = Delivered"
      "we_fate we (wo_calls w + 2) = Refused"
    and token: "cp_getAccessToken client (um_target_account_id msg) (wo_provider w) = (Inr token, p1)"
    and ins: "cp_insertEvent client token (um_target_calendar_id msg) (um_projected_payload msg) p1 = (Inr eid, p2)"
    and cal: "um_target_calendar_id msg \<noteq> um_target_account_id msg"
    and row: "ms_getMirror (graphStore env) (um_canonical_event_id msg) (um_target_account_id msg) (wo_graph w user) = Some m"
    and new: "em_provider_event_id m = None" and cur: "\<not> superseded msg m"
  shows "handleQueued env we user client (UPSERT_MIRROR msg) w =
    (Inl (failedCall ''updateMirrorState''), w\<lparr> wo_provider := p2, wo_calls := wo_calls w + 3 \<rparr>)"
proof -
  let ?cid = "um_canonical_event_id msg" and ?a = "um_target_account_id msg"
  let ?w1 = "w\<lparr> wo_calls := wo_calls w + 1 \<rparr>" and ?w2 = "w\<lparr> wo_calls := wo_calls w + 2 \<rparr>"
  let ?c = "cacheFor env (UPSERT_MIRROR msg) (wo_graph w user)"
  have first: "callObject we user ''getMirror'' (getMirror ?cid ?a) w = (Inr (Some m), ?w1)"
    by (rule calls_run [OF fate(1)]) (simp add: graphStore_reads(1) [where env = env] row)
  have "callObject we user ''getBusyOverlayCalendar'' (getBusyOverlayCalendar ?a) ?w1 =
      (Inr (ms_getBusyOverlayCalendar (graphStore env) ?a (wo_graph w user)), ?w2)"
    using calls_run [of we ?w1 "getBusyOverlayCalendar ?a" user] fate(2)
    by (simp add: graphStore_reads(2) [where env = env])
  then have cache: "createCachedMirrorStore we user (UPSERT_MIRROR msg) (Some m) ?w1 = (Inr ?c, ?w2)"
    using row by (simp add: createCachedMirrorStore_def Let_def andThen_def ret_def cacheFor_def)
  let ?u = "(activated env msg)\<lparr> mu_provider_event_id := Some eid, mu_target_calendar_id := Some (um_target_calendar_id msg) \<rparr>"
  let ?c' = "ms_updateMirrorState cachedStore ?cid ?a ?u ?c"
  have "ms_getMirror cachedStore ?cid ?a ?c = Some m"
    using row by (simp add: cachedStore_def cacheGetMirror_def cacheFor_def)
  from insert_run [OF token ins cal this new cur]
  have run: "runConsumer env client (UPSERT_MIRROR msg) ?c ?w2 =
      (Inr (completed Created_event, ?c'), ?w2\<lparr> wo_provider := p2 \<rparr>)"
    by (simp add: runConsumer_def)
  have pending: "ch_pending ?c' = [Pending_Mirror ?cid ?a ?u]"
    by (simp add: cachedStore_def cacheUpdateMirrorState_def cacheFor_def Let_def)
  have "flush env we user ?c' (?w2\<lparr> wo_provider := p2 \<rparr>) =
      (Inl (failedCall ''updateMirrorState''), w\<lparr> wo_provider := p2, wo_calls := wo_calls w + 3 \<rparr>)"
    using flush_refused [OF _ pending, of we "?w2\<lparr> wo_provider := p2 \<rparr>" env user] fate(3)
    by (simp add: pendingName_def numeral_3_eq_3)
  then have "deliver env we user client (UPSERT_MIRROR msg) (Some m) ?w1 =
      (Inl (failedCall ''updateMirrorState''), w\<lparr> wo_provider := p2, wo_calls := wo_calls w + 3 \<rparr>)"
    unfolding deliver_def by (simp only: andThen_def cache run sum.case prod.case)
  then show ?thesis using cur by (simp add: handleQueued_def andThen_def first)
qed

text \<open>The client a provider's messages go to, and the wait before them.\<close>

definition clientOf :: "(api_family \<Rightarrow> 'p calendar_provider) \<Rightarrow> string \<Rightarrow> 'p calendar_provider" where
  "clientOf clients provider = (if provider = ''microsoft'' then clients Microsoft_api else clients Google_api)"

lemma processQueued_known:
  assumes "we_account we (messageTarget message) = Inr (Some (user, provider))"
  obtains env' w' where "processQueued we clients env message w =
      tryCatch (handleQueued env' we user (clientOf clients provider) message) (\<lambda>_. ret Retry) w'"
    and "wo_graph w' = wo_graph w" "wo_provider w' = wo_provider w" "wo_calls w' = wo_calls w"
proof (cases "provider = ''microsoft''")
  case True
  show thesis by (rule that [of env w]) (simp_all add: processQueued_def assms True clientOf_def)
next
  case False
  obtain env' w' where t: "throttleGoogleAccountWrites env (messageTarget message) w = (Inr env', w')"
    "wo_graph w' = wo_graph w" "wo_provider w' = wo_provider w" "wo_calls w' = wo_calls w"
    by (simp add: throttleGoogleAccountWrites_def Let_def)
  show thesis
    by (rule that [OF _ t(2-4)]) (simp add: processQueued_def assms False clientOf_def tryCatch_def andThen_def t(1))
qed

lemma graphStore_reads_any: "ms_getMirror (graphStore env) = ms_getMirror (graphStore env')"
  by (simp add: graphStore_def)

lemma lost_flush:
  assumes fate: "we_fate we (wo_calls w) = Delivered" "we_fate we (wo_calls w + 1) = Delivered"
      "we_fate we (wo_calls w + 2) = Refused"
    and account: "we_account we (um_target_account_id msg) = Inr (Some (user, provider))"
    and token: "cp_getAccessToken (clientOf clients provider) (um_target_account_id msg) (wo_provider w) = (Inr token, p1)"
    and ins: "cp_insertEvent (clientOf clients provider) token (um_target_calendar_id msg) (um_projected_payload msg) p1 = (Inr eid, p2)"
    and cal: "um_target_calendar_id msg \<noteq> um_target_account_id msg"
    and row: "ms_getMirror (graphStore env) (um_canonical_event_id msg) (um_target_account_id msg) (wo_graph w user) = Some m"
    and new: "em_provider_event_id m = None" and cur: "\<not> superseded msg m"
  obtains w' where "processQueued we clients env (UPSERT_MIRROR msg) w = (Inr Retry, w')"
    and "wo_graph w' = wo_graph w" and "wo_provider w' = p2"
proof -
  have "we_account we (messageTarget (UPSERT_MIRROR msg)) = Inr (Some (user, provider))"
    using account by (simp add: messageTarget_def)
  then obtain env' v where v: "processQueued we clients env (UPSERT_MIRROR msg) w =
      tryCatch (handleQueued env' we user (clientOf clients provider) (UPSERT_MIRROR msg)) (\<lambda>_. ret Retry) v"
    "wo_graph v = wo_graph w" "wo_provider v = wo_provider w" "wo_calls v = wo_calls w" by (rule processQueued_known)
  have "handleQueued env' we user (clientOf clients provider) (UPSERT_MIRROR msg) v =
      (Inl (failedCall ''updateMirrorState''), v\<lparr> wo_provider := p2, wo_calls := wo_calls v + 3 \<rparr>)"
    by (rule lost_flush_handled [where token = token]) (use assms v graphStore_reads_any [of env' env] in simp_all)
  then show thesis
    using v by (intro that [of "v\<lparr> wo_provider := p2, wo_calls := wo_calls v + 3 \<rparr>"]) (simp_all add: tryCatch_def ret_def)
qed

lemma insert_delivered:
  assumes sure: "\<And>n. we_fate we n = Delivered"
    and account: "we_account we (um_target_account_id msg) = Inr (Some (user, provider))"
    and token: "cp_getAccessToken (clientOf clients provider) (um_target_account_id msg) (wo_provider w) = (Inr token, p1)"
    and ins: "cp_insertEvent (clientOf clients provider) token (um_target_calendar_id msg) (um_projected_payload msg) p1 = (Inr eid, p2)"
    and cal: "um_target_calendar_id msg \<noteq> um_target_account_id msg"
    and row: "ms_getMirror (graphStore env) (um_canonical_event_id msg) (um_target_account_id msg) (wo_graph w user) = Some m"
    and new: "em_provider_event_id m = None" and cur: "\<not> superseded msg m"
  obtains w' m' where "processQueued we clients env (UPSERT_MIRROR msg) w = (Inr Ack, w')" and "wo_provider w' = p2"
    and "ms_getMirror (graphStore env) (um_canonical_event_id msg) (um_target_account_id msg) (wo_graph w' user) = Some m'"
    and "em_provider_event_id m' = Some eid"
proof -
  let ?cid = "um_canonical_event_id msg" and ?a = "um_target_account_id msg"
  have "we_account we (messageTarget (UPSERT_MIRROR msg)) = Inr (Some (user, provider))"
    using account by (simp add: messageTarget_def)
  then obtain env' v where v: "processQueued we clients env (UPSERT_MIRROR msg) w =
      tryCatch (handleQueued env' we user (clientOf clients provider) (UPSERT_MIRROR msg)) (\<lambda>_. ret Retry) v"
    "wo_graph v = wo_graph w" "wo_provider v = wo_provider w" "wo_calls v = wo_calls w" by (rule processQueued_known)
  let ?u = "(activated env' msg)\<lparr> mu_provider_event_id := Some eid, mu_target_calendar_id := Some (um_target_calendar_id msg) \<rparr>"
  let ?g = "ms_updateMirrorState (graphStore env') ?cid ?a ?u (wo_graph v user)"
  have row': "ms_getMirror (graphStore env') ?cid ?a (wo_graph v user) = Some m"
    using row v(2) graphStore_reads_any [of env' env] by simp
  have run: "processMessage env' (graphStore env') (clientOf clients provider) (UPSERT_MIRROR msg) (wo_graph v user, wo_provider v) =
      (Inr (completed Created_event), (?g, p2))"
    by (rule insert_run [OF _ ins cal row' new cur]) (use token v(3) in simp)
  have "current env' (UPSERT_MIRROR msg) (wo_graph v user)" using cur by (simp add: current_def row')
  from handleQueued_direct [OF sure this run] obtain n where n: "handleQueued env' we user (clientOf clients provider) (UPSERT_MIRROR msg) v =
      (Inr (decisionOf (completed Created_event)), (moved user ?g n v)\<lparr> wo_provider := p2 \<rparr>)"
    by blast
  let ?w' = "(moved user ?g n v)\<lparr> wo_provider := p2 \<rparr>"
  have ack: "processQueued we clients env (UPSERT_MIRROR msg) w = (Inr Ack, ?w')"
    using n by (simp add: v(1) tryCatch_def decisionOf_def completed_def)
  have graph: "wo_graph ?w' user = ?g" by (simp add: moved_def)
  obtain m' where "ms_getMirror (graphStore env) ?cid ?a ?g = Some m'" "em_provider_event_id m' = Some eid"
    using row' by (auto simp: graphStore_def mirrorRows_updateState applyMirrorUpdate_def split: list.splits)
  then show thesis by (intro that [OF ack _ _ ]) (simp_all only: graph, simp)
qed

section \<open>Redelivery through the queue\<close>

lemma written_current: "writtenRow env msg (g, p) \<Longrightarrow> current env' (UPSERT_MIRROR msg) g"
  by (auto simp: writtenRow_def holdsRow_def current_def graphStore_def alreadyWritten_def superseded_def split: list.splits)

text \<open>The wait before a Google write keeps two writes of an account apart.\<close>

lemma throttle_spacing:
  assumes "throttleGoogleAccountWrites env account w = (r, w')"
  shows "\<exists>env'. r = Inr env' \<and> now_ms env \<le> now_ms env' \<and> wo_last_write w' account = Some (now_ms env') \<and>
    (\<forall>t. wo_last_write w account = Some t \<longrightarrow> now_ms env' \<ge> t + GOOGLE_ACCOUNT_WRITE_MIN_SPACING_MS)"
  using assms by (auto simp: throttleGoogleAccountWrites_def Let_def)

end
