(* ===== verification/Account_Store.thy ===== *)
theory Account_Store
  imports Graph_Store JS_Text Provider_Ids
begin

text \<open>
  The storage of one \<^verbatim>\<open>AccountDO\<close> (\<^verbatim>\<open>durable-objects/account/src/index.ts\<close>): its SQLite tables
  (\<^verbatim>\<open>schema.ts\<close>), the fields of the instance that lives until the object is evicted, and the statements several
  methods share. The key \<^verbatim>\<open>account_id\<close> is always the constant \<^verbatim>\<open>'self'\<close>, so a table with that primary key is an
  optional row and the column is left out elsewhere. The cipher is the platform's: ciphertexts have a type of their
  own, and what is encrypted is either a key or the JSON of a token payload, kept as its value.
\<close>

section \<open>Rows\<close>

record token_payload =
  tk_access_token :: string
  tk_refresh_token :: string
  tk_expiry :: string

datatype plaintext = Raw_Key string | Token_Text token_payload

record 'c envelope =
  en_iv :: string
  en_ciphertext :: 'c
  en_encryptedDek :: 'c
  en_dekIv :: string

record 'c auth_row =
  au_encrypted_tokens :: "'c envelope"
  au_scopes :: string
  au_provider :: string
  au_updated_at :: string

record sync_row =
  sy_sync_token :: "string option"
  sy_last_sync_ts :: "string option"
  sy_last_success_ts :: "string option"
  sy_full_sync_needed :: bool
  sy_updated_at :: string

record channel_row =
  wc_channel_id :: string
  wc_resource_id :: "string option"
  wc_expiry_ts :: string
  wc_calendar_id :: string
  wc_status :: string
  wc_created_at :: string

record subscription_row =
  mb_subscription_id :: string
  mb_resource :: string
  mb_client_state :: string
  mb_expiration :: string
  mb_created_at :: string

record monitor_row =
  mo_failure_count :: nat
  mo_last_failure_ts :: "string option"
  mo_last_failure_error :: "string option"
  mo_last_success_ts :: "string option"

record scope_row =
  cs_scope_id :: string
  cs_provider_calendar_id :: string
  cs_display_name :: "string option"
  cs_calendar_role :: string
  cs_enabled :: bool
  cs_sync_enabled :: bool
  cs_created_at :: string
  cs_updated_at :: string

record scoped_sync_row =
  sx_provider_calendar_id :: string
  sx_state :: sync_row

record lifecycle_row =
  lc_lifecycle_id :: string
  lc_provider_calendar_id :: string
  lc_provider :: string
  lc_lifecycle_kind :: string
  lc_status :: string
  lc_provider_channel_id :: "string option"
  lc_provider_resource_id :: "string option"
  lc_provider_subscription_id :: "string option"
  lc_client_state :: "string option"
  lc_expiry_ts :: string
  lc_created_at :: string
  lc_updated_at :: string

section \<open>The object\<close>

text \<open>
  The instance fields are \<^verbatim>\<open>migrated\<close> and \<^verbatim>\<open>provider\<close>; the three counters say how many identifiers, random values
  and requests were drawn. A refresh in flight is not part of the state: requests are handled one after another.
\<close>

datatype fetch_request =
    Token_Request string "(string \<times> string) list"
  | Revoke_Request string
  | Stop_Channel string string
  | Create_Subscription string string string string string
  | Renew_Subscription string string string
  | Delete_Subscription string string

datatype fetch_response =
    Unreachable string
  | Not_Ok nat string
  | Accepted
  | Refreshed string int "string option"
  | Subscribed string string string

record 'c account =
  ac_migrated :: bool
  ac_provider :: string
  ac_auth :: "'c auth_row option"
  ac_sync :: "sync_row option"
  ac_channels :: "channel_row list"
  ac_subscriptions :: "subscription_row list"
  ac_monitor :: "monitor_row option"
  ac_scopes :: "scope_row list"
  ac_scoped :: "scoped_sync_row list"
  ac_lifecycle :: "lifecycle_row list"
  ac_ids :: nat
  ac_draws :: nat
  ac_requests :: "fetch_request list"

record oauth_credentials =
  oc_googleClientId :: string
  oc_googleClientSecret :: string
  oc_msClientId :: string
  oc_msClientSecret :: string

record 'c account_env =
  xe_base :: graph_env
  xe_masterKey :: string
  xe_credentials :: "oauth_credentials option"
  xe_digest :: "string \<Rightarrow> string"
  xe_random :: "nat \<Rightarrow> nat \<Rightarrow> string"
  xe_seal :: "string \<Rightarrow> string \<Rightarrow> plaintext \<Rightarrow> 'c"
  xe_unseal :: "string \<Rightarrow> string \<Rightarrow> 'c \<Rightarrow> plaintext option"
  xe_failure :: string
  xe_fetch :: "nat \<Rightarrow> fetch_request \<Rightarrow> fetch_response"

type_synonym ('c, 'a) account_op = "('c account, 'a) op"

definition emptyAccount :: "'c account" where
  "emptyAccount =
     \<lparr> ac_migrated = False, ac_provider = ''google'', ac_auth = None, ac_sync = None, ac_channels = [],
       ac_subscriptions = [], ac_monitor = None, ac_scopes = [], ac_scoped = [], ac_lifecycle = [],
       ac_ids = 0, ac_draws = 0, ac_requests = [] \<rparr>"

text \<open>The object is evicted: the next request finds a new instance over the same tables.\<close>

definition restarted :: "'c account \<Rightarrow> 'c account" where
  "restarted s = s\<lparr> ac_migrated := False, ac_provider := ''google'' \<rparr>"

definition xNowIso :: "'c account_env \<Rightarrow> string" where
  "xNowIso env = nowIso (xe_base env)"

definition xDatetime :: "'c account_env \<Rightarrow> string" where
  "xDatetime env = datetimeNow (xe_base env)"

definition xNow :: "'c account_env \<Rightarrow> int" where
  "xNow env = now_ms (xe_base env)"

definition accountId :: "'c account_env \<Rightarrow> string \<Rightarrow> ('c, string) account_op" where
  "accountId env entity s =
     (Inr (generateId entity (ulid (xe_base env) (ac_ids s))), s\<lparr> ac_ids := ac_ids s + 1 \<rparr>)"

text \<open>\<^verbatim>\<open>this.fetchFn\<close>: the request is noted, the answer is the environment's; a rejection is a throw.\<close>

definition request :: "'c account_env \<Rightarrow> fetch_request \<Rightarrow> ('c, fetch_response) account_op" where
  "request env q s =
     (let s' = s\<lparr> ac_requests := ac_requests s @ [q] \<rparr> in
      case xe_fetch env (length (ac_requests s)) q of
        Unreachable m \<Rightarrow> (Inl (Thrown m), s')
      | r \<Rightarrow> (Inr r, s'))"

section \<open>Scopes, cursors and lifecycle rows\<close>

definition DEFAULT_SCOPE_CALENDAR_ID :: string where
  "DEFAULT_SCOPE_CALENDAR_ID = ''primary''"

definition defaultRole :: "string \<Rightarrow> string" where
  "defaultRole cal = (if cal = DEFAULT_SCOPE_CALENDAR_ID then ''primary'' else ''secondary'')"

definition scopeRows :: "string \<Rightarrow> 'c account \<Rightarrow> scope_row list" where
  "scopeRows cal s = filter (\<lambda>r. cs_provider_calendar_id r = cal) (ac_scopes s)"

text \<open>
  \<^verbatim>\<open>INSERT OR REPLACE\<close> removes the rows it collides with, by id or by calendar, and adds the new one at the end;
  \<^verbatim>\<open>created_at\<close> is taken from the row that had the id.
\<close>

definition upsertCalendarScopeRow ::
  "'c account_env \<Rightarrow> string \<Rightarrow> string option \<Rightarrow> string \<Rightarrow> bool \<Rightarrow> bool \<Rightarrow> ('c, unit) account_op" where
  "upsertCalendarScopeRow env cal name role enabled syncEnabled =
     andThen (query (scopeRows cal)) (\<lambda>existing.
     andThen (case existing of r # _ \<Rightarrow> ret (cs_scope_id r) | [] \<Rightarrow> accountId env ''calendar'') (\<lambda>sid.
     modify (\<lambda>s.
       let created = (case filter (\<lambda>r. cs_scope_id r = sid) (ac_scopes s) of
                        r # _ \<Rightarrow> cs_created_at r | [] \<Rightarrow> xDatetime env) in
       s\<lparr> ac_scopes := deleteRows (\<lambda>r. cs_scope_id r = sid \<or> cs_provider_calendar_id r = cal) (ac_scopes s) @
            [\<lparr> cs_scope_id = sid, cs_provider_calendar_id = cal, cs_display_name = name, cs_calendar_role = role,
               cs_enabled = enabled, cs_sync_enabled = syncEnabled, cs_created_at = created,
               cs_updated_at = xDatetime env \<rparr>] \<rparr>)))"

definition freshSync :: "'c account_env \<Rightarrow> sync_row" where
  "freshSync env = \<lparr> sy_sync_token = None, sy_last_sync_ts = None, sy_last_success_ts = None,
                     sy_full_sync_needed = True, sy_updated_at = xDatetime env \<rparr>"

definition scopedRows :: "string \<Rightarrow> 'c account \<Rightarrow> scoped_sync_row list" where
  "scopedRows cal s = filter (\<lambda>r. sx_provider_calendar_id r = cal) (ac_scoped s)"

text \<open>\<^verbatim>\<open>INSERT OR IGNORE INTO scoped_sync_state\<close>.\<close>

definition insertScopedSync :: "string \<Rightarrow> sync_row \<Rightarrow> ('c, unit) account_op" where
  "insertScopedSync cal r = modify (\<lambda>s.
     if scopedRows cal s \<noteq> [] then s
     else s\<lparr> ac_scoped := ac_scoped s @ [\<lparr> sx_provider_calendar_id = cal, sx_state = r \<rparr>] \<rparr>)"

definition ensureScopedSyncRow :: "'c account_env \<Rightarrow> string \<Rightarrow> ('c, unit) account_op" where
  "ensureScopedSyncRow env cal = insertScopedSync cal (freshSync env)"

text \<open>\<^verbatim>\<open>INSERT OR REPLACE INTO scoped_sync_state\<close>: the columns not named get their defaults.\<close>

definition replaceScopedSync :: "string \<Rightarrow> sync_row \<Rightarrow> 'c account \<Rightarrow> 'c account" where
  "replaceScopedSync cal r s =
     s\<lparr> ac_scoped := deleteRows (\<lambda>x. sx_provider_calendar_id x = cal) (ac_scoped s) @
          [\<lparr> sx_provider_calendar_id = cal, sx_state = r \<rparr>] \<rparr>"

text \<open>\<^verbatim>\<open>INSERT ... ON CONFLICT DO UPDATE\<close> on the same table.\<close>

definition upsertScopedSync :: "string \<Rightarrow> sync_row \<Rightarrow> (sync_row \<Rightarrow> sync_row) \<Rightarrow> 'c account \<Rightarrow> 'c account" where
  "upsertScopedSync cal new f s =
     (if scopedRows cal s = [] then s\<lparr> ac_scoped := ac_scoped s @ [\<lparr> sx_provider_calendar_id = cal, sx_state = new \<rparr>] \<rparr>
      else s\<lparr> ac_scoped := updateRows (\<lambda>x. sx_provider_calendar_id x = cal)
                 (\<lambda>x. x\<lparr> sx_state := f (sx_state x) \<rparr>) (ac_scoped s) \<rparr>)"

definition upsertScopedWatchLifecycle ::
  "'c account_env \<Rightarrow> lifecycle_row \<Rightarrow> ('c, unit) account_op" where
  "upsertScopedWatchLifecycle env row = modify (\<lambda>s.
     let old = filter (\<lambda>r. lc_lifecycle_id r = lc_lifecycle_id row) (ac_lifecycle s) in
     s\<lparr> ac_lifecycle := deleteRows (\<lambda>r. lc_lifecycle_id r = lc_lifecycle_id row) (ac_lifecycle s) @
          [row\<lparr> lc_created_at := (case old of r # _ \<Rightarrow> lc_created_at r | [] \<Rightarrow> xDatetime env),
                lc_updated_at := xDatetime env \<rparr>] \<rparr>)"

text \<open>The lifecycle row of a watch channel and of a subscription.\<close>

definition watchLifecycle :: "string \<Rightarrow> string \<Rightarrow> string \<Rightarrow> string option \<Rightarrow> string \<Rightarrow> lifecycle_row" where
  "watchLifecycle chan cal status resource expiry =
     \<lparr> lc_lifecycle_id = ''watch:'' @ chan, lc_provider_calendar_id = cal, lc_provider = ''google'',
       lc_lifecycle_kind = ''watch'', lc_status = status, lc_provider_channel_id = Some chan,
       lc_provider_resource_id = resource, lc_provider_subscription_id = None, lc_client_state = None,
       lc_expiry_ts = expiry, lc_created_at = [], lc_updated_at = [] \<rparr>"

definition subscriptionLifecycle :: "string \<Rightarrow> string \<Rightarrow> string \<Rightarrow> string \<Rightarrow> string \<Rightarrow> string \<Rightarrow> lifecycle_row" where
  "subscriptionLifecycle sub cal status resource clientState expiry =
     \<lparr> lc_lifecycle_id = ''subscription:'' @ sub, lc_provider_calendar_id = cal, lc_provider = ''microsoft'',
       lc_lifecycle_kind = ''subscription'', lc_status = status, lc_provider_channel_id = None,
       lc_provider_resource_id = Some resource, lc_provider_subscription_id = Some sub,
       lc_client_state = Some clientState, lc_expiry_ts = expiry, lc_created_at = [], lc_updated_at = [] \<rparr>"

text \<open>\<^verbatim>\<open>/^\/me\/calendars\/([^/]+)\/events$/\<close>, the calendar id decoded where it can be.\<close>

definition parseMsCalendarIdFromResource :: "string \<Rightarrow> string option" where
  "parseMsCalendarIdFromResource resource =
     (case splitOn (CHR ''/'') resource of
        [a, b, c, cal, e] \<Rightarrow>
          (if a = [] \<and> b = ''me'' \<and> c = ''calendars'' \<and> e = ''events'' \<and> cal \<noteq> []
           then (case decodeURIComponent cal of Some d \<Rightarrow> Some d | None \<Rightarrow> Some cal)
           else None)
      | _ \<Rightarrow> None)"

definition subscriptionCalendar :: "string \<Rightarrow> string" where
  "subscriptionCalendar resource = nullish (parseMsCalendarIdFromResource resource) DEFAULT_SCOPE_CALENDAR_ID"

text \<open>The oldest scope that is enabled and synchronised.\<close>

definition getDefaultScopeCalendarId :: "'c account \<Rightarrow> string" where
  "getDefaultScopeCalendarId s =
     (case sort_key cs_created_at (filter (\<lambda>r. cs_enabled r \<and> cs_sync_enabled r) (ac_scopes s)) of
        r # _ \<Rightarrow> cs_provider_calendar_id r
      | [] \<Rightarrow> DEFAULT_SCOPE_CALENDAR_ID)"

section \<open>Seeding\<close>

text \<open>A JavaScript \<^verbatim>\<open>Set\<close> filled in the order of a list.\<close>

definition setInOrder :: "'a list \<Rightarrow> 'a list" where
  "setInOrder xs = rev (remdups (rev xs))"

definition seedCalendars :: "'c account \<Rightarrow> string list" where
  "seedCalendars s =
     (let ids = setInOrder (filter (\<lambda>c. c \<noteq> [])
        (map wc_calendar_id (ac_channels s) @
         map (\<lambda>r. nullish (parseMsCalendarIdFromResource (mb_resource r)) []) (ac_subscriptions s)))
      in if ids = [] then [DEFAULT_SCOPE_CALENDAR_ID] else ids)"

definition seedScopes :: "'c account_env \<Rightarrow> ('c, unit) account_op" where
  "seedScopes env =
     andThen (query (\<lambda>s. (ac_scopes s = [], seedCalendars s))) (\<lambda>(none, ids).
     if \<not> none then ret ()
     else forEach ids (\<lambda>cal. upsertCalendarScopeRow env cal None (defaultRole cal) True True))"

definition seedCursors :: "'c account_env \<Rightarrow> ('c, unit) account_op" where
  "seedCursors env =
     andThen (query (\<lambda>s. (ac_sync s, map cs_provider_calendar_id (ac_scopes s)))) (\<lambda>(legacy, cals).
     case legacy of
       None \<Rightarrow> ret ()
     | Some r \<Rightarrow> forEach cals (\<lambda>cal. insertScopedSync cal (r\<lparr> sy_updated_at := xDatetime env \<rparr>)))"

definition seedWatches :: "'c account_env \<Rightarrow> ('c, unit) account_op" where
  "seedWatches env =
     andThen (query ac_channels) (\<lambda>rows. forEach rows (\<lambda>r.
       upsertScopedWatchLifecycle env
         (watchLifecycle (wc_channel_id r) (wc_calendar_id r) (wc_status r) (wc_resource_id r) (wc_expiry_ts r))))"

definition seedSubscriptions :: "'c account_env \<Rightarrow> ('c, unit) account_op" where
  "seedSubscriptions env =
     andThen (query ac_subscriptions) (\<lambda>rows. forEach rows (\<lambda>r.
       let cal = subscriptionCalendar (mb_resource r) in
       andThen (upsertCalendarScopeRow env cal None (defaultRole cal) True True) (\<lambda>_.
       upsertScopedWatchLifecycle env
         (subscriptionLifecycle (mb_subscription_id r) cal ''active'' (mb_resource r) (mb_client_state r)
            (mb_expiration r)))))"

definition seedScopedStateFromLegacy :: "'c account_env \<Rightarrow> ('c, unit) account_op" where
  "seedScopedStateFromLegacy env =
     andThen (seedScopes env) (\<lambda>_. andThen (seedCursors env) (\<lambda>_.
     andThen (seedWatches env) (\<lambda>_. seedSubscriptions env)))"

definition ensureMigrated :: "'c account_env \<Rightarrow> ('c, unit) account_op" where
  "ensureMigrated env =
     andThen (query ac_migrated) (\<lambda>migrated.
     if migrated then ret ()
     else andThen (seedScopedStateFromLegacy env) (\<lambda>_. modify (\<lambda>s. s\<lparr> ac_migrated := True \<rparr>)))"

section \<open>The provider of the account\<close>

definition isCalendarProvider :: "string \<Rightarrow> bool" where
  "isCalendarProvider p \<longleftrightarrow> p = ''google'' \<or> p = ''microsoft''"

definition storeProvider :: "'c account_env \<Rightarrow> string \<Rightarrow> 'c account \<Rightarrow> 'c account" where
  "storeProvider env p s =
     s\<lparr> ac_auth := map_option (\<lambda>r. r\<lparr> au_provider := p, au_updated_at := xDatetime env \<rparr>) (ac_auth s) \<rparr>"

definition effectiveProvider :: "'c account \<Rightarrow> string" where
  "effectiveProvider s =
     (let resolved = (case ac_auth s of
                        Some r \<Rightarrow> if isCalendarProvider (au_provider r) then au_provider r else ac_provider s
                      | None \<Rightarrow> ac_provider s)
      in if resolved = ''google'' \<and> ac_subscriptions s \<noteq> [] then ''microsoft'' else resolved)"

definition resolveProvider :: "'c account_env \<Rightarrow> ('c, string) account_op" where
  "resolveProvider env =
     andThen (ensureMigrated env) (\<lambda>_.
     andThen (query effectiveProvider) (\<lambda>resolved.
     andThen (modify (\<lambda>s. s\<lparr> ac_provider := resolved \<rparr>)) (\<lambda>_.
     andThen (modify (\<lambda>s. case ac_auth s of
                Some r \<Rightarrow> if au_provider r \<noteq> resolved then storeProvider env resolved s else s
              | None \<Rightarrow> s)) (\<lambda>_.
     ret resolved))))"

definition setProvider :: "'c account_env \<Rightarrow> string \<Rightarrow> ('c, unit) account_op" where
  "setProvider env p =
     andThen (ensureMigrated env) (\<lambda>_. modify (\<lambda>s. storeProvider env p (s\<lparr> ac_provider := p \<rparr>)))"

end
