(* ===== verification/Account_Tokens.thy ===== *)
theory Account_Tokens
  imports Account_Store
begin

text \<open>
  Tokens of an account: the envelope encryption of \<^verbatim>\<open>crypto.ts\<close> and the methods of \<^verbatim>\<open>AccountDO\<close> that store, read,
  refresh, revoke, rotate and back up what it protects. The cipher, the digest and the random source are the
  platform's and come with the environment.
\<close>

section \<open>Envelope encryption\<close>

text \<open>\<^verbatim>\<open>/^[0-9a-fA-F]+$/\<close> and the two digits of a byte.\<close>

definition isHexString :: "string \<Rightarrow> nat \<Rightarrow> bool" where
  "isHexString s n \<longleftrightarrow> length s = n \<and> s \<noteq> [] \<and> list_all (\<lambda>c. hexValue c \<noteq> None) s"

fun hexToBytes :: "string \<Rightarrow> string option" where
  "hexToBytes [] = Some []"
| "hexToBytes [c] = None"
| "hexToBytes (a # b # cs) =
     (case (hexValue a, hexValue b, hexToBytes cs) of
        (Some x, Some y, Some bytes) \<Rightarrow> Some (char_of (16 * x + y) # bytes)
      | _ \<Rightarrow> None)"

text \<open>A raw AES key has 16, 24 or 32 bytes; the key object is kept as its bytes.\<close>

definition importKey :: "string \<Rightarrow> tm_error + string" where
  "importKey bytes =
     (if length bytes = 16 \<or> length bytes = 24 \<or> length bytes = 32 then Inr bytes
      else Inl (Thrown ''Imported AES key length must be 128, 192, or 256 bits''))"

definition importMasterKey :: "'c account_env \<Rightarrow> string \<Rightarrow> tm_error + string" where
  "importMasterKey env secret =
     importKey (if isHexString secret 64 then nullish (hexToBytes secret) [] else xe_digest env secret)"

definition fromSum :: "'e + 'a \<Rightarrow> ('e, 's, 'a) eop" where
  "fromSum r = (case r of Inl e \<Rightarrow> throw e | Inr x \<Rightarrow> ret x)"

definition getRandomValues :: "'c account_env \<Rightarrow> nat \<Rightarrow> ('c, string) account_op" where
  "getRandomValues env n s = (Inr (xe_random env (ac_draws s) n), s\<lparr> ac_draws := ac_draws s + 1 \<rparr>)"

definition encryptTokens :: "'c account_env \<Rightarrow> string \<Rightarrow> token_payload \<Rightarrow> ('c, 'c envelope) account_op" where
  "encryptTokens env masterKey tokens =
     andThen (getRandomValues env 32) (\<lambda>dekBytes.
     andThen (fromSum (importKey dekBytes)) (\<lambda>dek.
     andThen (getRandomValues env 12) (\<lambda>tokenIv.
     andThen (getRandomValues env 12) (\<lambda>dekIv.
     ret \<lparr> en_iv = tokenIv, en_ciphertext = xe_seal env dek tokenIv (Token_Text tokens),
           en_encryptedDek = xe_seal env masterKey dekIv (Raw_Key dekBytes), en_dekIv = dekIv \<rparr>))))"

definition openWith :: "'c account_env \<Rightarrow> string \<Rightarrow> string \<Rightarrow> 'c \<Rightarrow> tm_error + plaintext" where
  "openWith env key iv c = (case xe_unseal env key iv c of None \<Rightarrow> Inl (Thrown (xe_failure env)) | Some p \<Rightarrow> Inr p)"

text \<open>The bytes of a key wrapped with the master key; a token payload has the wrong length for a key.\<close>

definition unwrapDek :: "'c account_env \<Rightarrow> string \<Rightarrow> 'c envelope \<Rightarrow> tm_error + string" where
  "unwrapDek env masterKey e =
     (case openWith env masterKey (en_dekIv e) (en_encryptedDek e) of
        Inl x \<Rightarrow> Inl x
      | Inr (Raw_Key b) \<Rightarrow> Inr b
      | Inr (Token_Text t) \<Rightarrow> Inr [])"

definition decryptTokens :: "'c account_env \<Rightarrow> string \<Rightarrow> 'c envelope \<Rightarrow> tm_error + token_payload" where
  "decryptTokens env masterKey e =
     (case unwrapDek env masterKey e of
        Inl x \<Rightarrow> Inl x
      | Inr bytes \<Rightarrow>
          (case importKey bytes of
             Inl x \<Rightarrow> Inl x
           | Inr dek \<Rightarrow>
               (case openWith env dek (en_iv e) (en_ciphertext e) of
                  Inl x \<Rightarrow> Inl x
                | Inr (Token_Text t) \<Rightarrow> Inr t
                | Inr (Raw_Key b) \<Rightarrow> Inl (Thrown ''Unexpected token in JSON''))))"

definition reEncryptDek ::
  "'c account_env \<Rightarrow> string \<Rightarrow> string \<Rightarrow> 'c envelope \<Rightarrow> ('c, 'c envelope) account_op" where
  "reEncryptDek env oldKey newKey e =
     andThen (fromSum (unwrapDek env oldKey e)) (\<lambda>dekBytes.
     andThen (getRandomValues env 12) (\<lambda>newDekIv.
     ret (e\<lparr> en_encryptedDek := xe_seal env newKey newDekIv (Raw_Key dekBytes), en_dekIv := newDekIv \<rparr>)))"

record 'c dek_backup =
  db_accountId :: string
  db_encryptedDek :: 'c
  db_dekIv :: string
  db_backedUpAt :: string

definition extractDekForBackup :: "'c account_env \<Rightarrow> string \<Rightarrow> 'c envelope \<Rightarrow> 'c dek_backup" where
  "extractDekForBackup env acct e =
     \<lparr> db_accountId = acct, db_encryptedDek = en_encryptedDek e, db_dekIv = en_dekIv e,
       db_backedUpAt = xNowIso env \<rparr>"

section \<open>Storing and reading\<close>

definition storeEnvelope :: "'c account_env \<Rightarrow> 'c envelope \<Rightarrow> ('c, unit) account_op" where
  "storeEnvelope env e = modify (\<lambda>s.
     s\<lparr> ac_auth := map_option (\<lambda>r. r\<lparr> au_encrypted_tokens := e, au_updated_at := xDatetime env \<rparr>) (ac_auth s) \<rparr>)"

definition initialize ::
  "'c account_env \<Rightarrow> token_payload \<Rightarrow> string \<Rightarrow> string option \<Rightarrow> ('c, unit) account_op" where
  "initialize env tokens scopes provider =
     andThen (ensureMigrated env) (\<lambda>_.
     andThen (case provider of Some p \<Rightarrow> ret p | None \<Rightarrow> resolveProvider env) (\<lambda>p.
     andThen (modify (\<lambda>s. s\<lparr> ac_provider := p \<rparr>)) (\<lambda>_.
     andThen (fromSum (importMasterKey env (xe_masterKey env))) (\<lambda>masterKey.
     andThen (encryptTokens env masterKey tokens) (\<lambda>e.
     andThen (modify (\<lambda>s. s\<lparr> ac_auth := Some \<lparr> au_encrypted_tokens = e, au_scopes = scopes, au_provider = p,
                                               au_updated_at = xDatetime env \<rparr>,
                            ac_sync := Some (nullish (ac_sync s) (freshSync env)) \<rparr>)) (\<lambda>_.
     andThen (upsertCalendarScopeRow env DEFAULT_SCOPE_CALENDAR_ID None ''primary'' True True) (\<lambda>_.
     ensureScopedSyncRow env DEFAULT_SCOPE_CALENDAR_ID)))))))"

definition recordEncryptionFailure :: "'c account_env \<Rightarrow> string \<Rightarrow> ('c, unit) account_op" where
  "recordEncryptionFailure env message = modify (\<lambda>s. s\<lparr> ac_monitor := Some
     (case ac_monitor s of
        None \<Rightarrow> \<lparr> mo_failure_count = 1, mo_last_failure_ts = Some (xDatetime env),
                  mo_last_failure_error = Some message, mo_last_success_ts = None \<rparr>
      | Some m \<Rightarrow> m\<lparr> mo_failure_count := mo_failure_count m + 1, mo_last_failure_ts := Some (xDatetime env),
                     mo_last_failure_error := Some message \<rparr>) \<rparr>)"

definition recordEncryptionSuccess :: "'c account_env \<Rightarrow> ('c, unit) account_op" where
  "recordEncryptionSuccess env = modify (\<lambda>s. s\<lparr> ac_monitor := Some
     (case ac_monitor s of
        None \<Rightarrow> \<lparr> mo_failure_count = 0, mo_last_failure_ts = None, mo_last_failure_error = None,
                  mo_last_success_ts = Some (xDatetime env) \<rparr>
      | Some m \<Rightarrow> m\<lparr> mo_last_success_ts := Some (xDatetime env) \<rparr>) \<rparr>)"

definition getEncryptionHealth :: "'c account_env \<Rightarrow> ('c, monitor_row) account_op" where
  "getEncryptionHealth env =
     andThen (ensureMigrated env) (\<lambda>_. query (\<lambda>s.
       nullish (ac_monitor s) \<lparr> mo_failure_count = 0, mo_last_failure_ts = None, mo_last_failure_error = None,
                                mo_last_success_ts = None \<rparr>))"

definition loadTokens :: "'c account_env \<Rightarrow> string \<Rightarrow> ('c, token_payload) account_op" where
  "loadTokens env masterKey =
     andThen (query ac_auth) (\<lambda>auth.
     case auth of
       None \<Rightarrow> throw (Thrown ''AccountDO: no tokens stored. Call initialize() first.'')
     | Some r \<Rightarrow>
         (case decryptTokens env masterKey (au_encrypted_tokens r) of
            Inr t \<Rightarrow> andThen (recordEncryptionSuccess env) (\<lambda>_. ret t)
          | Inl x \<Rightarrow> andThen (recordEncryptionFailure env (error_message x)) (\<lambda>_. throw x)))"

section \<open>Access tokens\<close>

definition GOOGLE_TOKEN_URL :: string where
  "GOOGLE_TOKEN_URL = ''https://oauth2.googleapis.com/token''"

definition MS_TOKEN_URL :: string where
  "MS_TOKEN_URL = ''https://login.microsoftonline.com/common/oauth2/v2.0/token''"

definition REFRESH_BUFFER_MS :: int where
  "REFRESH_BUFFER_MS = 5 * 60 * 1000"

definition getTokenRefreshUrl :: "'c account_env \<Rightarrow> ('c, string) account_op" where
  "getTokenRefreshUrl env =
     andThen (resolveProvider env) (\<lambda>p. ret (if p = ''microsoft'' then MS_TOKEN_URL else GOOGLE_TOKEN_URL))"

definition refreshParams :: "oauth_credentials option \<Rightarrow> string \<Rightarrow> string \<Rightarrow> (string \<times> string) list" where
  "refreshParams credentials provider refreshToken =
     [(''grant_type'', ''refresh_token''), (''refresh_token'', refreshToken)] @
     (case credentials of
        None \<Rightarrow> []
      | Some c \<Rightarrow>
          if provider = ''microsoft''
          then [(''client_id'', oc_msClientId c), (''client_secret'', oc_msClientSecret c)]
          else [(''client_id'', oc_googleClientId c), (''client_secret'', oc_googleClientSecret c)])"

text \<open>\<^verbatim>\<open>new Date(ms).toISOString()\<close> throws beyond the range of dates.\<close>

definition printDate :: "int \<Rightarrow> tm_error + string" where
  "printDate ms = (if \<bar>ms\<bar> \<le> maxDateMs then Inr (toISOString ms) else Inl (Thrown ''Invalid time value''))"

definition refreshAccessToken :: "'c account_env \<Rightarrow> string \<Rightarrow> string \<Rightarrow> ('c, token_payload) account_op" where
  "refreshAccessToken env masterKey refreshToken =
     andThen (resolveProvider env) (\<lambda>provider.
     andThen (getTokenRefreshUrl env) (\<lambda>url.
     andThen (request env (Token_Request url (refreshParams (xe_credentials env) provider refreshToken))) (\<lambda>response.
     case response of
       Not_Ok status body \<Rightarrow> throw (Thrown (''Token refresh failed ('' @ showNat status @ ''): '' @ body))
     | Refreshed access expiresIn rotated \<Rightarrow>
         andThen (fromSum (printDate (xNow env + expiresIn * 1000))) (\<lambda>expiry.
         let tokens = \<lparr> tk_access_token = access,
                        tk_refresh_token = (if truthy rotated then the rotated else refreshToken),
                        tk_expiry = expiry \<rparr> in
         andThen (encryptTokens env masterKey tokens) (\<lambda>e.
         andThen (storeEnvelope env e) (\<lambda>_. ret tokens)))
     | _ \<Rightarrow> throw (Thrown ''Invalid time value''))))"

text \<open>Still valid for longer than the buffer; an unreadable expiry is not.\<close>

definition stillValid :: "'c account_env \<Rightarrow> token_payload \<Rightarrow> bool" where
  "stillValid env t \<longleftrightarrow>
     (case dateParse (js_date (xe_base env)) (tk_expiry t) of
        Some ms \<Rightarrow> ms - xNow env > REFRESH_BUFFER_MS
      | None \<Rightarrow> False)"

definition getAccessToken :: "'c account_env \<Rightarrow> string option \<Rightarrow> ('c, string) account_op" where
  "getAccessToken env providerOverride =
     andThen (ensureMigrated env) (\<lambda>_.
     andThen (case providerOverride of
                Some p \<Rightarrow> setProvider env p
              | None \<Rightarrow> andThen (resolveProvider env) (\<lambda>_. ret ())) (\<lambda>_.
     andThen (fromSum (importMasterKey env (xe_masterKey env))) (\<lambda>masterKey.
     andThen (loadTokens env masterKey) (\<lambda>tokens.
     if stillValid env tokens then ret (tk_access_token tokens)
     else tryCatch
       (andThen (refreshAccessToken env masterKey (tk_refresh_token tokens)) (\<lambda>t. ret (tk_access_token t)))
       (\<lambda>err.
          if includesText (error_message err) ''invalid_grant''
          then andThen (loadTokens env masterKey) (\<lambda>latest.
               if tk_refresh_token latest \<noteq> tk_refresh_token tokens \<and> stillValid env latest
               then ret (tk_access_token latest) else throw err)
          else throw err)))))"

definition revokeTokens :: "'c account_env \<Rightarrow> ('c, bool) account_op" where
  "revokeTokens env =
     andThen (ensureMigrated env) (\<lambda>_.
     andThen (resolveProvider env) (\<lambda>provider.
     andThen (query ac_auth) (\<lambda>auth.
     andThen (case auth of
                None \<Rightarrow> ret False
              | Some r \<Rightarrow>
                  if provider = ''google''
                  then tryCatch
                    (andThen (fromSum (importMasterKey env (xe_masterKey env))) (\<lambda>masterKey.
                     andThen (fromSum (decryptTokens env masterKey (au_encrypted_tokens r))) (\<lambda>tokens.
                     andThen (request env (Revoke_Request (tk_refresh_token tokens))) (\<lambda>response.
                     ret (case response of Not_Ok _ _ \<Rightarrow> False | _ \<Rightarrow> True)))))
                    (\<lambda>_. ret False)
                  else ret True) (\<lambda>revoked.
     andThen (modify (\<lambda>s. s\<lparr> ac_auth := None \<rparr>)) (\<lambda>_.
     ret revoked)))))"

section \<open>Rotation and backup\<close>

definition storedEnvelope :: "string \<Rightarrow> ('c, 'c envelope) account_op" where
  "storedEnvelope message =
     andThen (query ac_auth) (\<lambda>auth.
     case auth of None \<Rightarrow> throw (Thrown message) | Some r \<Rightarrow> ret (au_encrypted_tokens r))"

definition rotateKey :: "'c account_env \<Rightarrow> string \<Rightarrow> string \<Rightarrow> ('c, unit) account_op" where
  "rotateKey env oldHex newHex =
     andThen (ensureMigrated env) (\<lambda>_.
     andThen (storedEnvelope ''AccountDO.rotateKey: no tokens stored. Nothing to rotate.'') (\<lambda>e.
     andThen (fromSum (importMasterKey env oldHex)) (\<lambda>oldKey.
     andThen (fromSum (importMasterKey env newHex)) (\<lambda>newKey.
     andThen (reEncryptDek env oldKey newKey e) (\<lambda>rotated.
     storeEnvelope env rotated)))))"

definition getEncryptedDekForBackup :: "'c account_env \<Rightarrow> string \<Rightarrow> ('c, 'c dek_backup) account_op" where
  "getEncryptedDekForBackup env acct =
     andThen (ensureMigrated env) (\<lambda>_.
     andThen (storedEnvelope ''AccountDO: no tokens stored. Nothing to backup.'') (\<lambda>e.
     ret (extractDekForBackup env acct e)))"

definition restoreDekFromBackup :: "'c account_env \<Rightarrow> 'c dek_backup \<Rightarrow> ('c, unit) account_op" where
  "restoreDekFromBackup env backup =
     andThen (ensureMigrated env) (\<lambda>_.
     andThen (storedEnvelope
       ''AccountDO: no tokens stored. Cannot restore DEK without existing token ciphertext.'') (\<lambda>e.
     storeEnvelope env (e\<lparr> en_encryptedDek := db_encryptedDek backup, en_dekIv := db_dekIv backup \<rparr>)))"

end
