(* ===== verification/Account_Sync.thy ===== *)
theory Account_Sync
  imports Account_Tokens
begin

text \<open>
  Calendar scopes, sync cursors, health and the watch channels and subscriptions of \<^verbatim>\<open>AccountDO\<close>.
\<close>

section \<open>Scopes and cursors\<close>

definition upsertCalendarScope ::
  "'c account_env \<Rightarrow> string \<Rightarrow> string option \<Rightarrow> string option \<Rightarrow> bool option \<Rightarrow> bool option \<Rightarrow> ('c, unit) account_op" where
  "upsertCalendarScope env cal name role enabled syncEnabled =
     andThen (ensureMigrated env) (\<lambda>_.
     andThen (upsertCalendarScopeRow env cal name (nullish role (defaultRole cal))
                (nullish enabled True) (nullish syncEnabled True)) (\<lambda>_.
     ensureScopedSyncRow env cal))"

definition listCalendarScopes :: "'c account_env \<Rightarrow> ('c, scope_row list) account_op" where
  "listCalendarScopes env = andThen (ensureMigrated env) (\<lambda>_. query (\<lambda>s. sort_key cs_created_at (ac_scopes s)))"

definition scopedToken :: "string \<Rightarrow> 'c account \<Rightarrow> string option" where
  "scopedToken cal s = (case scopedRows cal s of [] \<Rightarrow> None | r # _ \<Rightarrow> sy_sync_token (sx_state r))"

definition getScopedSyncToken :: "'c account_env \<Rightarrow> string \<Rightarrow> ('c, string option) account_op" where
  "getScopedSyncToken env cal = andThen (ensureMigrated env) (\<lambda>_. query (scopedToken cal))"

definition writtenCursor :: "'c account_env \<Rightarrow> string \<Rightarrow> sync_row" where
  "writtenCursor env token = (freshSync env)\<lparr> sy_sync_token := Some token, sy_full_sync_needed := False \<rparr>"

definition setScopedSyncToken :: "'c account_env \<Rightarrow> string \<Rightarrow> string \<Rightarrow> ('c, unit) account_op" where
  "setScopedSyncToken env cal token =
     andThen (ensureMigrated env) (\<lambda>_.
     andThen (upsertCalendarScopeRow env cal None (defaultRole cal) True True) (\<lambda>_.
     modify (replaceScopedSync cal (writtenCursor env token))))"

definition getSyncToken :: "'c account_env \<Rightarrow> ('c, string option) account_op" where
  "getSyncToken env =
     andThen (ensureMigrated env) (\<lambda>_.
     andThen (query ac_sync) (\<lambda>row.
     case row of
       Some r \<Rightarrow> (case sy_sync_token r of
                    Some t \<Rightarrow> ret (Some t)
                  | None \<Rightarrow> andThen (query getDefaultScopeCalendarId) (getScopedSyncToken env))
     | None \<Rightarrow> andThen (query getDefaultScopeCalendarId) (getScopedSyncToken env)))"

definition setSyncToken :: "'c account_env \<Rightarrow> string \<Rightarrow> ('c, unit) account_op" where
  "setSyncToken env token =
     andThen (ensureMigrated env) (\<lambda>_.
     andThen (modify (\<lambda>s. s\<lparr> ac_sync := Some (writtenCursor env token) \<rparr>)) (\<lambda>_.
     andThen (query getDefaultScopeCalendarId) (\<lambda>cal.
     setScopedSyncToken env cal token)))"

section \<open>Health\<close>

record health_info =
  hi_lastSyncTs :: "string option"
  hi_lastSuccessTs :: "string option"
  hi_fullSyncNeeded :: bool

definition healthOf :: "sync_row \<Rightarrow> health_info" where
  "healthOf r = \<lparr> hi_lastSyncTs = sy_last_sync_ts r, hi_lastSuccessTs = sy_last_success_ts r,
                  hi_fullSyncNeeded = sy_full_sync_needed r \<rparr>"

definition getHealth :: "'c account_env \<Rightarrow> ('c, health_info) account_op" where
  "getHealth env =
     andThen (ensureMigrated env) (\<lambda>_. query (\<lambda>s.
       case ac_sync s of
         Some r \<Rightarrow> healthOf r
       | None \<Rightarrow>
           (case scopedRows (getDefaultScopeCalendarId s) s of
              [] \<Rightarrow> \<lparr> hi_lastSyncTs = None, hi_lastSuccessTs = None, hi_fullSyncNeeded = True \<rparr>
            | r # _ \<Rightarrow> healthOf (sx_state r))))"

definition succeededAt :: "'c account_env \<Rightarrow> string \<Rightarrow> sync_row \<Rightarrow> sync_row" where
  "succeededAt env ts r = r\<lparr> sy_last_sync_ts := Some ts, sy_last_success_ts := Some ts,
                            sy_full_sync_needed := False, sy_updated_at := xDatetime env \<rparr>"

definition markSyncSuccess :: "'c account_env \<Rightarrow> string \<Rightarrow> ('c, unit) account_op" where
  "markSyncSuccess env ts =
     andThen (ensureMigrated env) (\<lambda>_.
     andThen (modify (\<lambda>s. s\<lparr> ac_sync := Some (succeededAt env ts (nullish (ac_sync s) (freshSync env))) \<rparr>)) (\<lambda>_.
     andThen (query getDefaultScopeCalendarId) (\<lambda>cal.
     modify (upsertScopedSync cal (succeededAt env ts (freshSync env)) (succeededAt env ts)))))"

definition failedAt :: "'c account_env \<Rightarrow> sync_row \<Rightarrow> sync_row" where
  "failedAt env r = r\<lparr> sy_last_sync_ts := Some (xNowIso env), sy_updated_at := xDatetime env \<rparr>"

definition markSyncFailure :: "'c account_env \<Rightarrow> string \<Rightarrow> ('c, unit) account_op" where
  "markSyncFailure env error =
     andThen (ensureMigrated env) (\<lambda>_.
     andThen (modify (\<lambda>s. s\<lparr> ac_sync := Some (failedAt env (nullish (ac_sync s) (freshSync env))) \<rparr>)) (\<lambda>_.
     andThen (query getDefaultScopeCalendarId) (\<lambda>cal.
     modify (upsertScopedSync cal (failedAt env (freshSync env)) (failedAt env)))))"

section \<open>Watch channels\<close>

definition getScopedWatchLifecycle ::
  "'c account_env \<Rightarrow> string option \<Rightarrow> ('c, lifecycle_row list) account_op" where
  "getScopedWatchLifecycle env cal =
     andThen (ensureMigrated env) (\<lambda>_. query (\<lambda>s. sort_key lc_created_at
       (filter (\<lambda>r. truthy cal \<longrightarrow> Some (lc_provider_calendar_id r) = cal) (ac_lifecycle s))))"

text \<open>What every registration of a watch adds to the scoped tables.\<close>

definition registerScope :: "'c account_env \<Rightarrow> string \<Rightarrow> lifecycle_row \<Rightarrow> ('c, unit) account_op" where
  "registerScope env cal row =
     andThen (upsertCalendarScopeRow env cal None (defaultRole cal) True True) (\<lambda>_.
     andThen (ensureScopedSyncRow env cal) (\<lambda>_.
     upsertScopedWatchLifecycle env row))"

definition insertChannel :: "channel_row \<Rightarrow> ('c, unit) account_op" where
  "insertChannel r s =
     (if \<exists>x \<in> set (ac_channels s). wc_channel_id x = wc_channel_id r
      then (Inl (UniqueViolation ''watch_channels.channel_id''), s)
      else (Inr (), s\<lparr> ac_channels := ac_channels s @ [r] \<rparr>))"

definition registerChannel :: "'c account_env \<Rightarrow> string \<Rightarrow> ('c, string \<times> string) account_op" where
  "registerChannel env cal =
     andThen (ensureMigrated env) (\<lambda>_.
     andThen (accountId env ''calendar'') (\<lambda>chan.
     let expiry = toISOString (xNow env + 7 * 24 * 60 * 60 * 1000) in
     andThen (insertChannel \<lparr> wc_channel_id = chan, wc_resource_id = None, wc_expiry_ts = expiry,
                wc_calendar_id = cal, wc_status = ''active'', wc_created_at = xDatetime env \<rparr>) (\<lambda>_.
     andThen (registerScope env cal (watchLifecycle chan cal ''active'' None expiry)) (\<lambda>_.
     ret (chan, expiry)))))"

definition getChannelStatus :: "'c account_env \<Rightarrow> ('c, channel_row list) account_op" where
  "getChannelStatus env = andThen (ensureMigrated env) (\<lambda>_. query (\<lambda>s. sort_key wc_created_at (ac_channels s)))"

definition storeWatchChannel ::
  "'c account_env \<Rightarrow> string \<Rightarrow> string \<Rightarrow> string \<Rightarrow> string \<Rightarrow> ('c, unit) account_op" where
  "storeWatchChannel env chan resource expiration cal =
     andThen (ensureMigrated env) (\<lambda>_.
     andThen (modify (\<lambda>s. s\<lparr> ac_channels := deleteRows (\<lambda>r. wc_channel_id r = chan) (ac_channels s) @
                [\<lparr> wc_channel_id = chan, wc_resource_id = Some resource, wc_expiry_ts = expiration,
                   wc_calendar_id = cal, wc_status = ''active'', wc_created_at = xDatetime env \<rparr>] \<rparr>)) (\<lambda>_.
     registerScope env cal (watchLifecycle chan cal ''active'' (Some resource) expiration)))"

text \<open>One channel: how many stops were counted and how many requests were rejected.\<close>

definition stopChannel :: "'c account_env \<Rightarrow> channel_row \<Rightarrow> ('c, nat \<times> nat) account_op" where
  "stopChannel env r =
     andThen (if truthy (wc_resource_id r)
              then tryCatch (andThen (request env (Stop_Channel (wc_channel_id r) (the (wc_resource_id r))))
                               (\<lambda>_. ret (1, 0)))
                     (\<lambda>_. ret (0, 1))
              else ret (0, 0)) (\<lambda>counts.
     andThen (upsertScopedWatchLifecycle env
                (watchLifecycle (wc_channel_id r) (wc_calendar_id r) ''stopped'' (wc_resource_id r) (xNowIso env))) (\<lambda>_.
     ret counts))"

fun stopChannels :: "'c account_env \<Rightarrow> channel_row list \<Rightarrow> ('c, nat \<times> nat) account_op" where
  "stopChannels env [] = ret (0, 0)"
| "stopChannels env (r # rs) =
     andThen (stopChannel env r) (\<lambda>(a, b).
     andThen (stopChannels env rs) (\<lambda>(c, d). ret (a + c, b + d)))"

definition stopWatchChannels :: "'c account_env \<Rightarrow> ('c, nat \<times> nat) account_op" where
  "stopWatchChannels env =
     andThen (ensureMigrated env) (\<lambda>_.
     andThen (query ac_channels) (\<lambda>rows.
     andThen (stopChannels env rows) (\<lambda>counts.
     andThen (modify (\<lambda>s. s\<lparr> ac_channels := [] \<rparr>)) (\<lambda>_.
     ret counts))))"

section \<open>Microsoft subscriptions\<close>

definition subscriptionRows :: "string \<Rightarrow> 'c account \<Rightarrow> subscription_row list" where
  "subscriptionRows sub s = filter (\<lambda>r. mb_subscription_id r = sub) (ac_subscriptions s)"

definition threeDaysOn :: "'c account_env \<Rightarrow> string" where
  "threeDaysOn env = toISOString (xNow env + 3 * 24 * 60 * 60 * 1000)"

definition createMsSubscription ::
  "'c account_env \<Rightarrow> string \<Rightarrow> string \<Rightarrow> string \<Rightarrow> ('c, string \<times> string \<times> string) account_op" where
  "createMsSubscription env webhookUrl cal clientState =
     andThen (ensureMigrated env) (\<lambda>_.
     andThen (getAccessToken env None) (\<lambda>token.
     let resource = ''/me/calendars/'' @ encodeURIComponent cal @ ''/events'' in
     andThen (request env (Create_Subscription token webhookUrl resource (threeDaysOn env) clientState)) (\<lambda>response.
     case response of
       Not_Ok status body \<Rightarrow>
         throw (Thrown (''Microsoft subscription creation failed ('' @ showNat status @ ''): '' @ body))
     | Subscribed sub res expiration \<Rightarrow>
         andThen (modify (\<lambda>s. s\<lparr> ac_subscriptions := deleteRows (\<lambda>r. mb_subscription_id r = sub) (ac_subscriptions s) @
                    [\<lparr> mb_subscription_id = sub, mb_resource = res, mb_client_state = clientState,
                       mb_expiration = expiration, mb_created_at = xDatetime env \<rparr>] \<rparr>)) (\<lambda>_.
         andThen (registerScope env cal (subscriptionLifecycle sub cal ''active'' res clientState expiration)) (\<lambda>_.
         ret (sub, res, expiration)))
     | _ \<Rightarrow> throw (Thrown ''NOT NULL constraint failed: ms_subscriptions.resource''))))"

definition renewMsSubscription :: "'c account_env \<Rightarrow> string \<Rightarrow> ('c, string \<times> string) account_op" where
  "renewMsSubscription env sub =
     andThen (ensureMigrated env) (\<lambda>_.
     andThen (query (subscriptionRows sub)) (\<lambda>rows.
     case rows of
       [] \<Rightarrow> throw (Thrown (''Microsoft subscription not found: '' @ sub))
     | r # _ \<Rightarrow>
         andThen (getAccessToken env None) (\<lambda>token.
         andThen (request env (Renew_Subscription token sub (threeDaysOn env))) (\<lambda>response.
         case response of
           Not_Ok status body \<Rightarrow>
             throw (Thrown (''Microsoft subscription renewal failed ('' @ showNat status @ ''): '' @ body))
         | _ \<Rightarrow>
             andThen (modify (\<lambda>s. s\<lparr> ac_subscriptions := updateRows (\<lambda>x. mb_subscription_id x = sub)
                        (\<lambda>x. x\<lparr> mb_expiration := threeDaysOn env \<rparr>) (ac_subscriptions s) \<rparr>)) (\<lambda>_.
             andThen (upsertScopedWatchLifecycle env (subscriptionLifecycle sub (subscriptionCalendar (mb_resource r))
                        ''active'' (mb_resource r) (mb_client_state r) (threeDaysOn env))) (\<lambda>_.
             ret (sub, threeDaysOn env)))))))"

definition deleteMsSubscription :: "'c account_env \<Rightarrow> string \<Rightarrow> ('c, unit) account_op" where
  "deleteMsSubscription env sub =
     andThen (ensureMigrated env) (\<lambda>_.
     andThen (tryCatch
       (andThen (getAccessToken env None) (\<lambda>token.
        andThen (request env (Delete_Subscription token sub)) (\<lambda>_. ret ())))
       (\<lambda>_. ret ())) (\<lambda>_.
     andThen (query (subscriptionRows sub)) (\<lambda>rows.
     andThen (modify (\<lambda>s. s\<lparr> ac_subscriptions := deleteRows (\<lambda>r. mb_subscription_id r = sub) (ac_subscriptions s) \<rparr>)) (\<lambda>_.
     case rows of
       [] \<Rightarrow> ret ()
     | r # _ \<Rightarrow> upsertScopedWatchLifecycle env (subscriptionLifecycle sub (subscriptionCalendar (mb_resource r))
                  ''deleted'' (mb_resource r) (mb_client_state r) (xNowIso env))))))"

definition getMsSubscriptions :: "'c account_env \<Rightarrow> ('c, subscription_row list) account_op" where
  "getMsSubscriptions env = andThen (ensureMigrated env) (\<lambda>_. query (\<lambda>s. sort_key mb_created_at (ac_subscriptions s)))"

definition validateMsClientState :: "'c account_env \<Rightarrow> string \<Rightarrow> string \<Rightarrow> ('c, bool) account_op" where
  "validateMsClientState env sub clientState =
     andThen (ensureMigrated env) (\<lambda>_. query (\<lambda>s.
       case subscriptionRows sub s of [] \<Rightarrow> False | r # _ \<Rightarrow> mb_client_state r = clientState))"

end
