(* ===== verification/Account_Laws.thy ===== *)
theory Account_Laws
  imports Account_Sync Op_Outcomes
begin

text \<open>
  What the methods of an account guarantee: the tables keep their keys, a rotated key opens the same tokens, a
  backup opens them as long as nothing was encrypted since, an access token is the stored one until it is about to
  expire, and a cursor written is the cursor read.
\<close>

section \<open>Keys of the tables\<close>

definition account_ok :: "'c account \<Rightarrow> bool" where
  "account_ok s \<longleftrightarrow>
     distinct (map cs_scope_id (ac_scopes s)) \<and> distinct (map cs_provider_calendar_id (ac_scopes s)) \<and>
     distinct (map sx_provider_calendar_id (ac_scoped s)) \<and> distinct (map lc_lifecycle_id (ac_lifecycle s)) \<and>
     distinct (map wc_channel_id (ac_channels s)) \<and> distinct (map mb_subscription_id (ac_subscriptions s))"

named_theorems account_keeps \<open>operations that keep the keys of the account tables\<close>

lemma account_ok_empty: "account_ok emptyAccount"
  by (simp add: account_ok_def emptyAccount_def)

text \<open>Statements that touch none of the keyed tables.\<close>

definition sameTables :: "'c account \<Rightarrow> 'c account \<Rightarrow> bool" where
  "sameTables s t \<longleftrightarrow>
     ac_scopes t = ac_scopes s \<and> ac_scoped t = ac_scoped s \<and> ac_lifecycle t = ac_lifecycle s \<and>
     ac_channels t = ac_channels s \<and> ac_subscriptions t = ac_subscriptions s"

lemma account_ok_same: "sameTables s t \<Longrightarrow> account_ok t = account_ok s"
  by (simp add: sameTables_def account_ok_def)

lemma keeps_sameTables:
  assumes "stays sameTables m"
  shows "keeps account_ok m"
proof (rule keepsI)
  show "account_ok (snd (m s))" if "account_ok s" for s
    using account_ok_same [OF staysD [OF assms, of s]] that by simp
qed

lemma request_state: "snd (request env q s) = s\<lparr> ac_requests := ac_requests s @ [q] \<rparr>"
  by (cases "xe_fetch env (length (ac_requests s)) q") (simp_all add: request_def)

interpretation tables: state_contract sameTables
  by unfold_locales (simp_all add: sameTables_def)

lemma stays_tables:
  "stays sameTables (accountId env ty)" "stays sameTables (request env q)" "stays sameTables (getRandomValues env n)"
  "stays sameTables (recordEncryptionFailure env m)" "stays sameTables (recordEncryptionSuccess env)"
  "stays sameTables (storeEnvelope env e)" "stays sameTables (fromSum r)"
  by (simp_all add: stays_def sameTables_def accountId_def request_state getRandomValues_def
      recordEncryptionFailure_def recordEncryptionSuccess_def storeEnvelope_def fromSum_def ret_def throw_def
      split: sum.split)

lemmas keeps_tables [account_keeps] = stays_tables [THEN keeps_sameTables]

lemma keeps_scopeRow [account_keeps]: "keeps account_ok (upsertCalendarScopeRow env cal name role a b)"
proof -
  have "keeps account_ok (modify (\<lambda>s. s\<lparr> ac_scopes :=
      deleteRows (\<lambda>r. cs_scope_id r = sid \<or> cs_provider_calendar_id r = cal) (ac_scopes s) @
      [\<lparr> cs_scope_id = sid, cs_provider_calendar_id = cal, cs_display_name = name, cs_calendar_role = role,
         cs_enabled = a, cs_sync_enabled = b, cs_created_at = f s, cs_updated_at = d \<rparr>] \<rparr>))" for sid f d
    by (rule keeps_modify) (auto simp: account_ok_def distinct_map_deleteRows)
  then show ?thesis
    unfolding upsertCalendarScopeRow_def Let_def by (intro keeps_intro account_keeps)
qed

lemma keeps_insertScoped [account_keeps]: "keeps account_ok (insertScopedSync cal r)"
  unfolding insertScopedSync_def
  by (rule keeps_modify) (auto simp: account_ok_def scopedRows_def filter_empty_conv)

lemma keeps_ensureScoped [account_keeps]: "keeps account_ok (ensureScopedSyncRow env cal)"
  unfolding ensureScopedSyncRow_def by (rule keeps_insertScoped)

lemma keeps_replaceScoped [account_keeps]: "keeps account_ok (modify (replaceScopedSync cal r))"
  by (rule keeps_modify) (auto simp: account_ok_def replaceScopedSync_def distinct_map_deleteRows)

lemma keeps_upsertScoped [account_keeps]: "keeps account_ok (modify (upsertScopedSync cal r f))"
  by (rule keeps_modify)
    (auto simp: account_ok_def upsertScopedSync_def scopedRows_def filter_empty_conv map_updateRows)

lemma keeps_lifecycle [account_keeps]: "keeps account_ok (upsertScopedWatchLifecycle env r)"
  unfolding upsertScopedWatchLifecycle_def Let_def
  by (rule keeps_modify) (auto simp: account_ok_def distinct_map_deleteRows)

lemma keeps_seed [account_keeps]: "keeps account_ok (ensureMigrated env)"
proof -
  have "keeps account_ok (modify (\<lambda>s. s\<lparr> ac_migrated := True \<rparr>))"
    by (rule keeps_modify) (simp add: account_ok_def)
  then show ?thesis
    unfolding ensureMigrated_def seedScopedStateFromLegacy_def seedScopes_def seedCursors_def seedWatches_def
      seedSubscriptions_def Let_def split_def
    by (intro keeps_intro account_keeps)
qed

lemma keeps_record [account_keeps]:
  "keeps account_ok (modify (\<lambda>s. s\<lparr> ac_provider := p \<rparr>))"
  "keeps account_ok (modify (\<lambda>s. storeProvider env p (s\<lparr> ac_provider := p \<rparr>)))"
  "keeps account_ok (modify (\<lambda>s. case ac_auth s of
     Some r \<Rightarrow> if au_provider r \<noteq> p then storeProvider env p s else s | None \<Rightarrow> s))"
  "keeps account_ok (modify (\<lambda>s. s\<lparr> ac_auth := f s \<rparr>))" "keeps account_ok (modify (\<lambda>s. s\<lparr> ac_sync := g s \<rparr>))"
  "keeps account_ok (modify (\<lambda>s. s\<lparr> ac_auth := f s, ac_sync := g s \<rparr>))"
  "keeps account_ok (modify (\<lambda>s. s\<lparr> ac_channels := [] \<rparr>))"
  "keeps account_ok (modify (\<lambda>s. s\<lparr> ac_subscriptions := deleteRows Q (ac_subscriptions s) \<rparr>))"
  by (rule keeps_modify; simp add: account_ok_def storeProvider_def distinct_map_deleteRows split: option.split)+

lemma keeps_providers [account_keeps]:
  "keeps account_ok (resolveProvider env)" "keeps account_ok (setProvider env p)"
  unfolding resolveProvider_def setProvider_def by (intro keeps_intro account_keeps)+

lemma keeps_encrypt [account_keeps]:
  "keeps account_ok (encryptTokens env k t)" "keeps account_ok (reEncryptDek env k l e)"
  "keeps account_ok (loadTokens env k)" "keeps account_ok (storedEnvelope m)"
  unfolding encryptTokens_def reEncryptDek_def loadTokens_def storedEnvelope_def
  by (intro keeps_intro account_keeps | simp split: sum.split | rule conjI allI impI)+

lemma keeps_refresh [account_keeps]: "keeps account_ok (refreshAccessToken env k r)"
  unfolding refreshAccessToken_def getTokenRefreshUrl_def Let_def
  by (intro keeps_intro account_keeps | simp split: fetch_response.split | rule conjI allI impI)+

lemma keeps_tokens:
  "keeps account_ok (initialize env t sc p)" "keeps account_ok (getAccessToken env p)"
  "keeps account_ok (revokeTokens env)" "keeps account_ok (rotateKey env a b)"
  "keeps account_ok (getEncryptedDekForBackup env acct)" "keeps account_ok (restoreDekFromBackup env d)"
  "keeps account_ok (getEncryptionHealth env)"
  unfolding initialize_def getAccessToken_def revokeTokens_def rotateKey_def getEncryptedDekForBackup_def
    restoreDekFromBackup_def getEncryptionHealth_def
  by (intro keeps_intro account_keeps)+

lemma keeps_cursors:
  "keeps account_ok (upsertCalendarScope env cal n r a b)" "keeps account_ok (listCalendarScopes env)"
  "keeps account_ok (getScopedSyncToken env cal)" "keeps account_ok (setScopedSyncToken env cal t)"
  "keeps account_ok (getSyncToken env)" "keeps account_ok (setSyncToken env t)"
  "keeps account_ok (getHealth env)" "keeps account_ok (markSyncSuccess env ts)"
  "keeps account_ok (markSyncFailure env m)"
  unfolding upsertCalendarScope_def listCalendarScopes_def getScopedSyncToken_def setScopedSyncToken_def
    getSyncToken_def setSyncToken_def getHealth_def markSyncSuccess_def markSyncFailure_def
  by (intro keeps_intro account_keeps)+

lemma keeps_register [account_keeps]:
  "keeps account_ok (registerScope env cal row)" "keeps account_ok (insertChannel r)"
  "keeps account_ok (stopChannel env c)" "keeps account_ok (stopChannels env cs)"
proof -
  show "keeps account_ok (registerScope env cal row)"
    unfolding registerScope_def by (intro keeps_intro account_keeps)
  show "keeps account_ok (insertChannel r)"
    by (rule keepsI) (auto simp: insertChannel_def account_ok_def)
  show stop: "keeps account_ok (stopChannel env c)" for c
    unfolding stopChannel_def by (intro keeps_intro account_keeps)
  show "keeps account_ok (stopChannels env cs)"
    by (induction cs) (auto intro!: keeps_intro stop simp: split_def)
qed

lemma keeps_channels:
  "keeps account_ok (getScopedWatchLifecycle env c)" "keeps account_ok (registerChannel env cal)"
  "keeps account_ok (getChannelStatus env)" "keeps account_ok (storeWatchChannel env ch r x cal)"
  "keeps account_ok (stopWatchChannels env)"
proof -
  have put: "keeps account_ok (modify (\<lambda>s. s\<lparr> ac_channels :=
      deleteRows (\<lambda>r. wc_channel_id r = wc_channel_id row) (ac_channels s) @ [row] \<rparr>))" for row
    by (rule keeps_modify) (auto simp: account_ok_def distinct_map_deleteRows)
  show "keeps account_ok (storeWatchChannel env ch r x cal)"
    unfolding storeWatchChannel_def
    using put [of "\<lparr> wc_channel_id = ch, wc_resource_id = Some r, wc_expiry_ts = x, wc_calendar_id = cal,
                     wc_status = ''active'', wc_created_at = xDatetime env \<rparr>"]
    by (intro keeps_intro account_keeps) simp_all
  show "keeps account_ok (getScopedWatchLifecycle env c)" "keeps account_ok (registerChannel env cal)"
    "keeps account_ok (getChannelStatus env)" "keeps account_ok (stopWatchChannels env)"
    unfolding getScopedWatchLifecycle_def registerChannel_def getChannelStatus_def stopWatchChannels_def Let_def
    by (intro keeps_intro account_keeps)+
qed

lemma keeps_subscriptions:
  "keeps account_ok (createMsSubscription env w cal c)" "keeps account_ok (renewMsSubscription env sub)"
  "keeps account_ok (deleteMsSubscription env sub)" "keeps account_ok (getMsSubscriptions env)"
  "keeps account_ok (validateMsClientState env sub c)"
proof -
  have add: "keeps account_ok (modify (\<lambda>s. s\<lparr> ac_subscriptions :=
      deleteRows (\<lambda>r. mb_subscription_id r = sub) (ac_subscriptions s) @
      [\<lparr> mb_subscription_id = sub, mb_resource = a, mb_client_state = b, mb_expiration = c, mb_created_at = d \<rparr>] \<rparr>))"
    for sub a b c d
    by (rule keeps_modify) (auto simp: account_ok_def distinct_map_deleteRows)
  have renew: "keeps account_ok (modify (\<lambda>s. s\<lparr> ac_subscriptions := updateRows (\<lambda>x. mb_subscription_id x = sub)
      (\<lambda>x. x\<lparr> mb_expiration := y \<rparr>) (ac_subscriptions s) \<rparr>))" for sub y
    by (rule keeps_modify) (simp add: account_ok_def map_updateRows)
  show "keeps account_ok (createMsSubscription env w cal c)"
    unfolding createMsSubscription_def Let_def
    by (intro keeps_intro account_keeps keeps_tokens | simp split: fetch_response.split | rule conjI allI impI add)+
  show "keeps account_ok (renewMsSubscription env sub)"
    unfolding renewMsSubscription_def
    by (intro keeps_intro account_keeps keeps_tokens | simp split: fetch_response.split | rule conjI allI impI renew)+
  show "keeps account_ok (deleteMsSubscription env sub)"
    unfolding deleteMsSubscription_def by (intro keeps_intro account_keeps keeps_tokens)
  show "keeps account_ok (getMsSubscriptions env)" "keeps account_ok (validateMsClientState env sub c)"
    unfolding getMsSubscriptions_def validateMsClientState_def by (intro keeps_intro account_keeps)+
qed

section \<open>Methods that return and keep an assertion\<close>

definition delivers :: "('s \<Rightarrow> bool) \<Rightarrow> ('e, 's, 'a) eop \<Rightarrow> bool" where
  "delivers P m \<longleftrightarrow> outcome P m (\<lambda>_. P) (\<lambda>_ _. False)"

named_theorems delivers_rules \<open>rules that build the return of an operation from its parts\<close>

lemma deliversE:
  assumes "delivers P m" and "P s"
  obtains x t where "m s = (Inr x, t)" and "P t"
proof (cases "m s")
  case (Pair r t)
  with assms that show ?thesis by (cases r) (force simp: delivers_def outcome_def)+
qed

lemma delivers_simple [delivers_rules]:
  "delivers P (ret x)" "delivers P (query f)"
  by (simp_all add: delivers_def outcome_def ret_def)

lemma delivers_modify: "(\<And>s. P s \<Longrightarrow> P (f s)) \<Longrightarrow> delivers P (modify f)"
  by (simp add: delivers_def outcome_modify)

lemma delivers_andThen [delivers_rules]:
  "delivers P m \<Longrightarrow> (\<And>x. delivers P (f x)) \<Longrightarrow> delivers P (andThen m f)"
  unfolding delivers_def by (rule outcome_andThen)

lemma delivers_cases [delivers_rules]:
  "(c \<Longrightarrow> delivers P m) \<Longrightarrow> (\<not> c \<Longrightarrow> delivers P n) \<Longrightarrow> delivers P (if c then m else n)"
  "(v = None \<Longrightarrow> delivers P m) \<Longrightarrow> (\<And>x. v = Some x \<Longrightarrow> delivers P (g x)) \<Longrightarrow>
   delivers P (case v of None \<Rightarrow> m | Some x \<Rightarrow> g x)"
  "(w = [] \<Longrightarrow> delivers P m) \<Longrightarrow> (\<And>x xs. w = x # xs \<Longrightarrow> delivers P (h x xs)) \<Longrightarrow>
   delivers P (case w of [] \<Rightarrow> m | x # xs \<Rightarrow> h x xs)"
  by (simp, cases v, simp_all, cases w, simp_all)

lemma delivers_forEach [delivers_rules]: "(\<And>x. delivers P (f x)) \<Longrightarrow> delivers P (forEach xs f)"
  by (induction xs) (auto intro: delivers_rules)

text \<open>Everything but the scoped tables.\<close>

definition sameCore :: "'c account \<Rightarrow> 'c account \<Rightarrow> bool" where
  "sameCore s t \<longleftrightarrow>
     ac_auth t = ac_auth s \<and> ac_sync t = ac_sync s \<and> ac_channels t = ac_channels s \<and>
     ac_subscriptions t = ac_subscriptions s \<and> ac_monitor t = ac_monitor s \<and> ac_draws t = ac_draws s \<and>
     ac_requests t = ac_requests s \<and> ac_provider t = ac_provider s"

lemma core_statements [delivers_rules]:
  "delivers (sameCore s) (accountId env ty)" "delivers (sameCore s) (insertScopedSync cal r)"
  "delivers (sameCore s) (upsertScopedWatchLifecycle env row)"
  "delivers (sameCore s) (modify (\<lambda>t. t\<lparr> ac_scopes := f t \<rparr>))"
  "delivers (sameCore s) (modify (\<lambda>t. t\<lparr> ac_migrated := b \<rparr>))"
  by (simp_all add: delivers_def outcome_def accountId_def insertScopedSync_def upsertScopedWatchLifecycle_def
      sameCore_def Let_def)

lemma core_scopeRow [delivers_rules]: "delivers (sameCore s) (upsertCalendarScopeRow env cal n r a b)"
  unfolding upsertCalendarScopeRow_def Let_def by (intro delivers_rules)

lemma core_seed: "delivers (sameCore s) (seedScopedStateFromLegacy env)"
  unfolding seedScopedStateFromLegacy_def seedScopes_def seedCursors_def seedWatches_def seedSubscriptions_def
    Let_def split_def
  by (intro delivers_rules)

lemma core_migrated: "delivers (sameCore s) (ensureMigrated env)"
  unfolding ensureMigrated_def by (intro delivers_rules core_seed)

lemma sameCore_refl: "sameCore s s"
  by (simp add: sameCore_def)

text \<open>Every method starts with the migration: it returns, and leaves all but the scoped tables as they were.\<close>

lemma migratedE:
  obtains t where "ensureMigrated env s = (Inr (), t)" and "sameCore s t" and "ac_migrated t"
proof -
  obtain u t where t: "ensureMigrated env s = (Inr u, t)" "sameCore s t"
    by (rule deliversE [OF core_migrated sameCore_refl])
  obtain v w where w: "seedScopedStateFromLegacy env s = (Inr v, w)"
    by (rule deliversE [OF core_seed sameCore_refl])
  have "ac_migrated t"
    using t w by (auto simp: ensureMigrated_def andThen_def ret_def split: if_splits)
  with t that show thesis by simp
qed

lemma run_migrated: "ensureMigrated env s = (Inr (), u) \<Longrightarrow> andThen (ensureMigrated env) f s = f () u"
  by (simp add: andThen_def)

lemma migrated_again: "ac_migrated s \<Longrightarrow> ensureMigrated env s = (Inr (), s)"
  by (simp add: ensureMigrated_def ret_def)

section \<open>Tokens\<close>

text \<open>What the platform documents of its authenticated cipher: what was sealed opens with the same key and vector.\<close>

definition opensSealed :: "'c account_env \<Rightarrow> bool" where
  "opensSealed env \<longleftrightarrow> (\<forall>k iv p. xe_unseal env k iv (xe_seal env k iv p) = Some p)"

text \<open>The tokens an account holds, read with a master key.\<close>

definition heldTokens :: "'c account_env \<Rightarrow> string \<Rightarrow> 'c account \<Rightarrow> token_payload option" where
  "heldTokens env secret s =
     (case (importMasterKey env secret, ac_auth s) of
        (Inr k, Some r) \<Rightarrow>
          (case decryptTokens env k (au_encrypted_tokens r) of Inr t \<Rightarrow> Some t | Inl _ \<Rightarrow> None)
      | _ \<Rightarrow> None)"

lemma heldTokens_iff:
  "heldTokens env secret s = Some t \<longleftrightarrow>
   (\<exists>k r. importMasterKey env secret = Inr k \<and> ac_auth s = Some r \<and>
          decryptTokens env k (au_encrypted_tokens r) = Inr t)"
  by (auto simp: heldTokens_def split: sum.splits option.splits)

lemma heldTokensE:
  assumes "heldTokens env secret s = Some t"
  obtains k r where "importMasterKey env secret = Inr k" "ac_auth s = Some r"
    "decryptTokens env k (au_encrypted_tokens r) = Inr t"
  using assms by (auto simp: heldTokens_def split: sum.splits option.splits)

lemma decryptTokensE:
  assumes "decryptTokens env k e = Inr t"
  obtains b where "unwrapDek env k e = Inr b" "importKey b = Inr b"
    "openWith env b (en_iv e) (en_ciphertext e) = Inr (Token_Text t)"
  using assms by (auto simp: decryptTokens_def importKey_def split: sum.splits plaintext.splits if_splits)

lemma decryptTokensI:
  "unwrapDek env k e = Inr b \<Longrightarrow> importKey b = Inr b \<Longrightarrow>
   openWith env b (en_iv e) (en_ciphertext e) = Inr (Token_Text t) \<Longrightarrow> decryptTokens env k e = Inr t"
  by (simp add: decryptTokens_def)

lemma unwrap_sealed:
  "opensSealed env \<Longrightarrow> en_encryptedDek e = xe_seal env k (en_dekIv e) (Raw_Key b) \<Longrightarrow> unwrapDek env k e = Inr b"
  by (simp add: unwrapDek_def openWith_def opensSealed_def)

lemma rotate_returns:
  assumes held: "heldTokens env oldHex s = Some t" and new: "importMasterKey env newHex = Inr l"
  obtains s' where "rotateKey env oldHex newHex s = (Inr (), s')"
proof -
  obtain k r where k: "importMasterKey env oldHex = Inr k" and r: "ac_auth s = Some r"
    and t: "decryptTokens env k (au_encrypted_tokens r) = Inr t" by (rule heldTokensE [OF held])
  obtain b where b: "unwrapDek env k (au_encrypted_tokens r) = Inr b" by (rule decryptTokensE [OF t])
  obtain u where u: "ensureMigrated env s = (Inr (), u)" "sameCore s u" by (rule migratedE)
  show thesis
    using that k r u b new
    by (simp add: rotateKey_def storedEnvelope_def sameCore_def fromSum_def reEncryptDek_def getRandomValues_def
        andThen_def ret_def storeEnvelope_def)
qed

lemma rotated_key_opens:
  assumes cipher: "opensSealed env" and held: "heldTokens env oldHex s = Some t"
    and run: "rotateKey env oldHex newHex s = (Inr (), s')"
  shows "heldTokens env newHex s' = Some t"
proof -
  obtain k r where k: "importMasterKey env oldHex = Inr k" and r: "ac_auth s = Some r"
    and t: "decryptTokens env k (au_encrypted_tokens r) = Inr t" by (rule heldTokensE [OF held])
  let ?e = "au_encrypted_tokens r"
  obtain b where b: "unwrapDek env k ?e = Inr b" "importKey b = Inr b"
    "openWith env b (en_iv ?e) (en_ciphertext ?e) = Inr (Token_Text t)" by (rule decryptTokensE [OF t])
  obtain u where u: "ensureMigrated env s = (Inr (), u)" "sameCore s u" by (rule migratedE)
  obtain l where l: "importMasterKey env newHex = Inr l"
    using run k r u b
    by (auto simp: rotateKey_def storedEnvelope_def andThen_def ret_def u(1) sameCore_def fromSum_def throw_def
        split: sum.splits)
  let ?iv = "xe_random env (ac_draws u) 12"
  let ?f = "?e\<lparr> en_encryptedDek := xe_seal env l ?iv (Raw_Key b), en_dekIv := ?iv \<rparr>"
  have "ac_auth s' = Some (r\<lparr> au_encrypted_tokens := ?f, au_updated_at := xDatetime env \<rparr>)"
    using run k r l u b
    by (auto simp: rotateKey_def storedEnvelope_def u(1) sameCore_def fromSum_def
        reEncryptDek_def getRandomValues_def andThen_def ret_def storeEnvelope_def)
  moreover have "decryptTokens env l ?f = Inr t"
    using unwrap_sealed [OF cipher, of ?f l b] b by (intro decryptTokensI [where b = b]) simp_all
  ultimately show ?thesis by (simp add: heldTokens_def l)
qed

section \<open>Access tokens\<close>

text \<open>The stored envelope, the requests sent and the draws made.\<close>

definition sameEnvelope :: "'c account \<Rightarrow> 'c account \<Rightarrow> bool" where
  "sameEnvelope s t \<longleftrightarrow>
     map_option au_encrypted_tokens (ac_auth t) = map_option au_encrypted_tokens (ac_auth s) \<and>
     ac_requests t = ac_requests s \<and> ac_draws t = ac_draws s"

lemma sameEnvelope_refl: "sameEnvelope s s"
  by (simp add: sameEnvelope_def)

lemma sameEnvelope_trans: "sameEnvelope s t \<Longrightarrow> sameEnvelope t u \<Longrightarrow> sameEnvelope s u"
  by (simp add: sameEnvelope_def)

lemma heldTokens_cong: "sameEnvelope s t \<Longrightarrow> heldTokens env secret t = heldTokens env secret s"
  by (cases "ac_auth s"; cases "ac_auth t") (auto simp: sameEnvelope_def heldTokens_def split: sum.split)

lemma envelope_migrated [delivers_rules]: "delivers (sameEnvelope s) (ensureMigrated env)"
  unfolding delivers_def
proof (rule outcomeI)
  fix t r u assume t: "sameEnvelope s t" and run: "ensureMigrated env t = (r, u)"
  obtain v where "ensureMigrated env t = (Inr (), v)" "sameCore t v" by (rule migratedE)
  with t run show "case r of Inl e \<Rightarrow> False | Inr x \<Rightarrow> sameEnvelope s u"
    by (auto simp: sameCore_def sameEnvelope_def)
qed

lemma envelope_provider [delivers_rules]:
  "delivers (sameEnvelope s) (modify (\<lambda>s. s\<lparr> ac_provider := p \<rparr>))"
  "delivers (sameEnvelope s) (modify (\<lambda>s. storeProvider env p (s\<lparr> ac_provider := p \<rparr>)))"
  "delivers (sameEnvelope s) (modify (\<lambda>s. case ac_auth s of
     Some r \<Rightarrow> if au_provider r \<noteq> p then storeProvider env p s else s | None \<Rightarrow> s))"
  by (rule delivers_modify; auto simp: sameEnvelope_def storeProvider_def option.map_comp comp_def split: option.split)+

lemma envelope_resolve [delivers_rules]:
  "delivers (sameEnvelope s) (resolveProvider env)" "delivers (sameEnvelope s) (setProvider env p)"
  "delivers (sameEnvelope s) (getTokenRefreshUrl env)"
  unfolding resolveProvider_def setProvider_def getTokenRefreshUrl_def by (intro delivers_rules)+

definition prepare :: "'c account_env \<Rightarrow> string option \<Rightarrow> ('c, unit) account_op" where
  "prepare env p =
     andThen (ensureMigrated env) (\<lambda>_.
       case p of Some x \<Rightarrow> setProvider env x | None \<Rightarrow> andThen (resolveProvider env) (\<lambda>_. ret ()))"

lemma getAccessToken_prepared:
  "getAccessToken env p =
     andThen (prepare env p) (\<lambda>_.
     andThen (fromSum (importMasterKey env (xe_masterKey env))) (\<lambda>masterKey.
     andThen (loadTokens env masterKey) (\<lambda>tokens.
     if stillValid env tokens then ret (tk_access_token tokens)
     else tryCatch
       (andThen (refreshAccessToken env masterKey (tk_refresh_token tokens)) (\<lambda>t. ret (tk_access_token t)))
       (\<lambda>err.
          if includesText (error_message err) ''invalid_grant''
          then andThen (loadTokens env masterKey) (\<lambda>latest.
               if tk_refresh_token latest \<noteq> tk_refresh_token tokens \<and> stillValid env latest
               then ret (tk_access_token latest) else throw err)
          else throw err))))"
  by (simp add: getAccessToken_def prepare_def andThen_assoc)

lemma envelope_prepare: "delivers (sameEnvelope s) (prepare env p)"
  unfolding prepare_def by (intro delivers_rules)

text \<open>Loading held tokens returns them and notes a success.\<close>

lemma loadTokens_held:
  assumes "heldTokens env secret s = Some t" and "importMasterKey env secret = Inr k"
  obtains u where "loadTokens env k s = (Inr t, u)" and "sameEnvelope s u"
proof -
  obtain r where "ac_auth s = Some r" "decryptTokens env k (au_encrypted_tokens r) = Inr t"
    using assms by (auto simp: heldTokens_iff)
  then show thesis
    using that by (simp add: loadTokens_def recordEncryptionSuccess_def sameEnvelope_def andThen_def ret_def)
qed

lemma preparedE:
  assumes "heldTokens env secret s = Some t" and "importMasterKey env secret = Inr k"
  obtains u v where "prepare env p s = (Inr (), u)" "loadTokens env k u = (Inr t, v)" "sameEnvelope s v"
proof -
  obtain x u where u: "prepare env p s = (Inr x, u)" "sameEnvelope s u"
    by (rule deliversE [OF envelope_prepare sameEnvelope_refl])
  have "heldTokens env secret u = Some t" by (simp add: heldTokens_cong [OF u(2)] assms(1))
  then obtain v where v: "loadTokens env k u = (Inr t, v)" "sameEnvelope u v"
    by (rule loadTokens_held [OF _ assms(2)])
  show thesis using that u(1) v(1) sameEnvelope_trans [OF u(2) v(2)] by simp
qed

lemma valid_token_returned:
  assumes held: "heldTokens env (xe_masterKey env) s = Some t" and valid: "stillValid env t"
  obtains s' where "getAccessToken env p s = (Inr (tk_access_token t), s')" and "sameEnvelope s s'"
proof -
  obtain k where k: "importMasterKey env (xe_masterKey env) = Inr k" using held by (auto simp: heldTokens_iff)
  obtain u v where "prepare env p s = (Inr (), u)" "loadTokens env k u = (Inr t, v)" "sameEnvelope s v"
    by (rule preparedE [OF held k])
  then show thesis
    using that valid by (simp add: getAccessToken_prepared andThen_def fromSum_def k ret_def)
qed

text \<open>Keys drawn have the length of a key.\<close>

definition drawsKeys :: "'c account_env \<Rightarrow> bool" where
  "drawsKeys env \<longleftrightarrow> (\<forall>n. length (xe_random env n 32) = 32)"

definition sealedWith :: "'c account_env \<Rightarrow> string \<Rightarrow> token_payload \<Rightarrow> nat \<Rightarrow> 'c envelope" where
  "sealedWith env k t n =
     \<lparr> en_iv = xe_random env (n + 1) 12,
       en_ciphertext = xe_seal env (xe_random env n 32) (xe_random env (n + 1) 12) (Token_Text t),
       en_encryptedDek = xe_seal env k (xe_random env (n + 2) 12) (Raw_Key (xe_random env n 32)),
       en_dekIv = xe_random env (n + 2) 12 \<rparr>"

lemma drawn_key: "drawsKeys env \<Longrightarrow> importKey (xe_random env n 32) = Inr (xe_random env n 32)"
  by (simp add: drawsKeys_def importKey_def)

lemma encryptTokens_run:
  "drawsKeys env \<Longrightarrow>
   encryptTokens env k t s = (Inr (sealedWith env k t (ac_draws s)), s\<lparr> ac_draws := ac_draws s + 3 \<rparr>)"
  by (simp add: encryptTokens_def getRandomValues_def andThen_def ret_def fromSum_def drawn_key sealedWith_def
      numeral_3_eq_3)

lemma sealed_opens:
  assumes "opensSealed env" and "drawsKeys env"
  shows "decryptTokens env k (sealedWith env k t n) = Inr t"
  by (rule decryptTokensI [where b = "xe_random env n 32"])
    (use assms in \<open>simp_all add: unwrap_sealed sealedWith_def drawn_key openWith_def opensSealed_def\<close>)

lemma heldTokens_stored:
  assumes "opensSealed env" "drawsKeys env" "importMasterKey env secret = Inr k"
    and "ac_auth s = Some r" "au_encrypted_tokens r = sealedWith env k t n"
  shows "heldTokens env secret s = Some t"
  using sealed_opens [OF assms(1,2), of k t n] assms(3-5) by (simp add: heldTokens_def)

definition refreshedTokens :: "'c account_env \<Rightarrow> string \<Rightarrow> string \<Rightarrow> int \<Rightarrow> string option \<Rightarrow> token_payload" where
  "refreshedTokens env old access expiresIn rotated =
     \<lparr> tk_access_token = access, tk_refresh_token = (if truthy rotated then the rotated else old),
       tk_expiry = toISOString (xNow env + expiresIn * 1000) \<rparr>"

definition tokenRequest :: "'c account_env \<Rightarrow> string \<Rightarrow> fetch_request \<Rightarrow> bool" where
  "tokenRequest env refreshToken q \<longleftrightarrow>
     (\<exists>url provider. q = Token_Request url (refreshParams (xe_credentials env) provider refreshToken))"

lemma refresh_run:
  assumes keys: "drawsKeys env"
    and answer: "\<forall>q. xe_fetch env (length (ac_requests s)) q = Refreshed access expiresIn rotated"
    and range: "\<bar>xNow env + expiresIn * 1000\<bar> \<le> maxDateMs" and auth: "ac_auth s = Some r"
  obtains q s' r' where
    "refreshAccessToken env k old s = (Inr (refreshedTokens env old access expiresIn rotated), s')"
    "tokenRequest env old q" "ac_requests s' = ac_requests s @ [q]" "ac_draws s' = ac_draws s + 3"
    "ac_auth s' = Some r'"
    "au_encrypted_tokens r' = sealedWith env k (refreshedTokens env old access expiresIn rotated) (ac_draws s)"
proof -
  obtain p s1 where p: "resolveProvider env s = (Inr p, s1)" "sameEnvelope s s1"
    by (rule deliversE [OF envelope_resolve(1) sameEnvelope_refl])
  obtain url s2 where url: "getTokenRefreshUrl env s1 = (Inr url, s2)" "sameEnvelope s1 s2"
    by (rule deliversE [OF envelope_resolve(3) sameEnvelope_refl])
  have same: "sameEnvelope s s2" by (rule sameEnvelope_trans [OF p(2) url(2)])
  let ?q = "Token_Request url (refreshParams (xe_credentials env) p old)"
  let ?s3 = "s2\<lparr> ac_requests := ac_requests s2 @ [?q] \<rparr>"
  let ?t = "refreshedTokens env old access expiresIn rotated"
  have q: "request env ?q s2 = (Inr (Refreshed access expiresIn rotated), ?s3)"
    using answer same by (simp add: request_def sameEnvelope_def)
  have date: "printDate (xNow env + expiresIn * 1000) = Inr (tk_expiry ?t)"
    using range by (simp add: printDate_def refreshedTokens_def)
  obtain r2 where r2: "ac_auth s2 = Some r2" using same auth by (auto simp: sameEnvelope_def)
  let ?e = "sealedWith env k ?t (ac_draws s2)"
  let ?s' = "?s3\<lparr> ac_draws := ac_draws s2 + 3,
                  ac_auth := Some (r2\<lparr> au_encrypted_tokens := ?e, au_updated_at := xDatetime env \<rparr>) \<rparr>"
  have "refreshAccessToken env k old s = (Inr ?t, ?s')"
    using date
    by (simp add: refreshAccessToken_def p(1) url(1) q andThen_def fromSum_def ret_def Let_def storeEnvelope_def r2
        encryptTokens_run [OF keys] refreshedTokens_def)
  then show thesis
    using same by (intro that [where q = ?q and s' = ?s'
        and r' = "r2\<lparr> au_encrypted_tokens := ?e, au_updated_at := xDatetime env \<rparr>"])
      (auto simp: tokenRequest_def sameEnvelope_def)
qed

lemma expired_token_refreshed:
  assumes cipher: "opensSealed env" "drawsKeys env"
    and held: "heldTokens env (xe_masterKey env) s = Some t" and stale: "\<not> stillValid env t"
    and answer: "\<forall>q. xe_fetch env (length (ac_requests s)) q = Refreshed access expiresIn rotated"
    and range: "\<bar>xNow env + expiresIn * 1000\<bar> \<le> maxDateMs"
  obtains q s' where "getAccessToken env p s = (Inr access, s')"
    "tokenRequest env (tk_refresh_token t) q" "ac_requests s' = ac_requests s @ [q]"
    "heldTokens env (xe_masterKey env) s' =
       Some (refreshedTokens env (tk_refresh_token t) access expiresIn rotated)"
    "\<exists>r k. ac_auth s' = Some r \<and> importMasterKey env (xe_masterKey env) = Inr k \<and> au_encrypted_tokens r =
       sealedWith env k (refreshedTokens env (tk_refresh_token t) access expiresIn rotated) (ac_draws s)"
proof -
  obtain k where k: "importMasterKey env (xe_masterKey env) = Inr k" using held by (auto simp: heldTokens_iff)
  obtain u v where u: "prepare env p s = (Inr (), u)" "loadTokens env k u = (Inr t, v)" and v: "sameEnvelope s v"
    by (rule preparedE [OF held k])
  obtain r where r: "ac_auth v = Some r" using v held by (auto simp: sameEnvelope_def heldTokens_iff)
  have answer': "\<forall>q. xe_fetch env (length (ac_requests v)) q = Refreshed access expiresIn rotated"
    using answer v by (simp add: sameEnvelope_def)
  let ?t = "refreshedTokens env (tk_refresh_token t) access expiresIn rotated"
  obtain q s' r' where run: "refreshAccessToken env k (tk_refresh_token t) v = (Inr ?t, s')"
    and q: "tokenRequest env (tk_refresh_token t) q" "ac_requests s' = ac_requests v @ [q]"
    and r': "ac_auth s' = Some r'" "au_encrypted_tokens r' = sealedWith env k ?t (ac_draws v)"
    by (rule refresh_run [OF cipher(2) answer' range r])
  have "getAccessToken env p s = (Inr access, s')"
    using stale by (simp add: getAccessToken_prepared u run k andThen_def tryCatch_def fromSum_def ret_def
        refreshedTokens_def)
  moreover have "heldTokens env (xe_masterKey env) s' = Some ?t"
    by (rule heldTokens_stored [OF cipher k r'])
  ultimately show thesis using that q r' k v by (auto simp: sameEnvelope_def)
qed

section \<open>Backups\<close>

text \<open>What the platform documents of the cipher: only the right key opens.\<close>

definition opensOnlyWithKey :: "'c account_env \<Rightarrow> bool" where
  "opensOnlyWithKey env \<longleftrightarrow>
     (\<forall>k l iv jv p. k \<noteq> l \<longrightarrow> xe_unseal env k iv (xe_seal env l jv p) = None)"

lemma backup_run:
  assumes auth: "ac_auth s = Some r"
  obtains s' where "getEncryptedDekForBackup env acct s = (Inr (extractDekForBackup env acct (au_encrypted_tokens r)), s')"
    "sameEnvelope s s'"
proof -
  obtain u where "ensureMigrated env s = (Inr (), u)" "sameCore s u" by (rule migratedE)
  with auth show thesis
    by (intro that [of u])
      (simp_all add: getEncryptedDekForBackup_def storedEnvelope_def andThen_def sameCore_def sameEnvelope_def ret_def)
qed

lemma restore_run:
  assumes auth: "ac_auth s = Some r"
  obtains s' r' where "restoreDekFromBackup env b s = (Inr (), s')" "ac_auth s' = Some r'"
    "au_encrypted_tokens r' = (au_encrypted_tokens r)\<lparr> en_encryptedDek := db_encryptedDek b, en_dekIv := db_dekIv b \<rparr>"
proof -
  obtain u where "ensureMigrated env s = (Inr (), u)" "sameCore s u" by (rule migratedE)
  with auth show thesis
    by (intro that [of "u\<lparr> ac_auth := Some (r\<lparr> au_encrypted_tokens := (au_encrypted_tokens r)
            \<lparr> en_encryptedDek := db_encryptedDek b, en_dekIv := db_dekIv b \<rparr>, au_updated_at := xDatetime env \<rparr>) \<rparr>"
          "r\<lparr> au_encrypted_tokens := (au_encrypted_tokens r)
            \<lparr> en_encryptedDek := db_encryptedDek b, en_dekIv := db_dekIv b \<rparr>, au_updated_at := xDatetime env \<rparr>"])
      (simp_all add: restoreDekFromBackup_def storedEnvelope_def storeEnvelope_def andThen_def sameCore_def ret_def)
qed

lemma restored_at_once:
  assumes "heldTokens env secret s = Some t" and "ac_auth s = Some r"
    and "restoreDekFromBackup env (extractDekForBackup env acct (au_encrypted_tokens r)) s = (Inr (), s')"
  shows "heldTokens env secret s' = Some t"
proof -
  obtain u r' where u: "restoreDekFromBackup env (extractDekForBackup env acct (au_encrypted_tokens r)) s = (Inr (), u)"
    and r': "ac_auth u = Some r'" and e: "au_encrypted_tokens r' = (au_encrypted_tokens r)
      \<lparr> en_encryptedDek := db_encryptedDek (extractDekForBackup env acct (au_encrypted_tokens r)),
        en_dekIv := db_dekIv (extractDekForBackup env acct (au_encrypted_tokens r)) \<rparr>"
    by (rule restore_run [OF assms(2)])
  have "au_encrypted_tokens r' = au_encrypted_tokens r" using e by (simp add: extractDekForBackup_def)
  then show ?thesis using u r' assms by (auto simp: heldTokens_iff)
qed

lemma restored_too_late:
  assumes cipher: "opensSealed env" "opensOnlyWithKey env" "drawsKeys env"
    and old: "au_encrypted_tokens r = sealedWith env k t m" and new: "ac_auth s = Some q"
      "au_encrypted_tokens q = sealedWith env k t' n" and key: "xe_random env m 32 \<noteq> xe_random env n 32"
    and run: "restoreDekFromBackup env (extractDekForBackup env acct (au_encrypted_tokens r)) s = (Inr (), s')"
  shows "importMasterKey env secret = Inr k \<Longrightarrow> heldTokens env secret s' = None"
proof -
  obtain u q' where u: "restoreDekFromBackup env (extractDekForBackup env acct (au_encrypted_tokens r)) s = (Inr (), u)"
    and q': "ac_auth u = Some q'" and e: "au_encrypted_tokens q' = (au_encrypted_tokens q)
      \<lparr> en_encryptedDek := db_encryptedDek (extractDekForBackup env acct (au_encrypted_tokens r)),
        en_dekIv := db_dekIv (extractDekForBackup env acct (au_encrypted_tokens r)) \<rparr>"
    by (rule restore_run [OF new(1)])
  let ?d = "xe_random env m 32"
  have "unwrapDek env k (au_encrypted_tokens q') = Inr ?d"
    by (rule unwrap_sealed [OF cipher(1)]) (simp add: e old new extractDekForBackup_def sealedWith_def)
  moreover have "openWith env ?d (en_iv (au_encrypted_tokens q')) (en_ciphertext (au_encrypted_tokens q')) =
      Inl (Thrown (xe_failure env))"
    using cipher(2) key by (simp add: e new sealedWith_def openWith_def opensOnlyWithKey_def)
  ultimately have "decryptTokens env k (au_encrypted_tokens q') = Inl (Thrown (xe_failure env))"
    by (simp add: decryptTokens_def drawn_key [OF cipher(3)])
  then show "importMasterKey env secret = Inr k \<Longrightarrow> heldTokens env secret s' = None"
    using u run q' by (simp add: heldTokens_def)
qed

end
