(* ===== verification/Account_Calls.thy ===== *)
theory Account_Calls
  imports Account_Laws
begin

text \<open>
  \<^verbatim>\<open>handleFetch\<close>: the requests an account answers, with their bodies decoded, and a life of the object as the requests
  it serves and the evictions between them. The laws of the cursors: what a write leaves, and which calendar the
  unscoped cursor belongs to.
\<close>

section \<open>Requests\<close>

datatype 'c account_request =
    Get_Access_Token "string option"
  | Get_Sync_Token
  | Set_Sync_Token string
  | Upsert_Calendar_Scope string "string option" "string option" "bool option" "bool option"
  | List_Calendar_Scopes
  | Get_Scoped_Sync_Token string
  | Set_Scoped_Sync_Token string string
  | Mark_Sync_Success string
  | Mark_Sync_Failure string
  | Initialize token_payload string "string option"
  | Revoke_Tokens
  | Register_Channel string
  | Store_Watch_Channel string string string string
  | Get_Channel_Status
  | Get_Scoped_Watch_Lifecycle "string option"
  | Get_Health
  | Get_Provider
  | Create_Ms_Subscription string string string
  | Renew_Ms_Subscription string
  | Delete_Ms_Subscription string
  | Get_Ms_Subscriptions
  | Validate_Ms_Client_State string string
  | Rotate_Key string string
  | Get_Encrypted_Dek string
  | Restore_Dek "'c dek_backup"
  | Get_Encryption_Health
  | Unknown_Action string

datatype 'c account_reply =
    Access_Token string
  | Sync_Token "string option"
  | Done_Reply
  | Scopes "scope_row list"
  | Revoked bool
  | Channel string string
  | Channels "channel_row list"
  | Lifecycle "lifecycle_row list"
  | Health health_info
  | Provider_Reply string
  | Subscription string string string
  | Renewed string string
  | Subscriptions "subscription_row list"
  | Valid bool
  | Backup "'c dek_backup"
  | Encryption_Health monitor_row
  | Failed nat string

definition replyWith :: "('a \<Rightarrow> 'c account_reply) \<Rightarrow> ('c, 'a) account_op \<Rightarrow> ('c, 'c account_reply) account_op" where
  "replyWith f m = andThen m (\<lambda>x. ret (f x))"

text \<open>A provider in the body counts only when it is one of the two.\<close>

definition bodyProvider :: "string option \<Rightarrow> string option" where
  "bodyProvider p = (case p of Some x \<Rightarrow> if isCalendarProvider x then Some x else None | None \<Rightarrow> None)"

definition route :: "'c account_env \<Rightarrow> 'c account_request \<Rightarrow> ('c, 'c account_reply) account_op" where
  "route env q =
     (case q of
        Get_Access_Token p \<Rightarrow> replyWith Access_Token (getAccessToken env (bodyProvider p))
      | Get_Sync_Token \<Rightarrow> replyWith Sync_Token (getSyncToken env)
      | Set_Sync_Token t \<Rightarrow> replyWith (\<lambda>_. Done_Reply) (setSyncToken env t)
      | Upsert_Calendar_Scope cal name role a b \<Rightarrow> replyWith (\<lambda>_. Done_Reply) (upsertCalendarScope env cal name role a b)
      | List_Calendar_Scopes \<Rightarrow> replyWith Scopes (listCalendarScopes env)
      | Get_Scoped_Sync_Token cal \<Rightarrow> replyWith Sync_Token (getScopedSyncToken env cal)
      | Set_Scoped_Sync_Token cal t \<Rightarrow> replyWith (\<lambda>_. Done_Reply) (setScopedSyncToken env cal t)
      | Mark_Sync_Success ts \<Rightarrow> replyWith (\<lambda>_. Done_Reply) (markSyncSuccess env ts)
      | Mark_Sync_Failure e \<Rightarrow> replyWith (\<lambda>_. Done_Reply) (markSyncFailure env e)
      | Initialize t sc p \<Rightarrow> replyWith (\<lambda>_. Done_Reply) (initialize env t sc (bodyProvider p))
      | Revoke_Tokens \<Rightarrow> replyWith Revoked (revokeTokens env)
      | Register_Channel cal \<Rightarrow> replyWith (\<lambda>(a, b). Channel a b) (registerChannel env cal)
      | Store_Watch_Channel ch r x cal \<Rightarrow> replyWith (\<lambda>_. Done_Reply) (storeWatchChannel env ch r x cal)
      | Get_Channel_Status \<Rightarrow> replyWith Channels (getChannelStatus env)
      | Get_Scoped_Watch_Lifecycle cal \<Rightarrow> replyWith Lifecycle (getScopedWatchLifecycle env cal)
      | Get_Health \<Rightarrow> replyWith Health (getHealth env)
      | Get_Provider \<Rightarrow> replyWith Provider_Reply (resolveProvider env)
      | Create_Ms_Subscription url cal c \<Rightarrow> replyWith (\<lambda>(a, b, x). Subscription a b x) (createMsSubscription env url cal c)
      | Renew_Ms_Subscription sub \<Rightarrow> replyWith (\<lambda>(a, b). Renewed a b) (renewMsSubscription env sub)
      | Delete_Ms_Subscription sub \<Rightarrow> replyWith (\<lambda>_. Done_Reply) (deleteMsSubscription env sub)
      | Get_Ms_Subscriptions \<Rightarrow> replyWith Subscriptions (getMsSubscriptions env)
      | Validate_Ms_Client_State sub c \<Rightarrow> replyWith Valid (validateMsClientState env sub c)
      | Rotate_Key a b \<Rightarrow> replyWith (\<lambda>_. Done_Reply) (rotateKey env a b)
      | Get_Encrypted_Dek acct \<Rightarrow> replyWith Backup (getEncryptedDekForBackup env acct)
      | Restore_Dek d \<Rightarrow> replyWith (\<lambda>_. Done_Reply) (restoreDekFromBackup env d)
      | Get_Encryption_Health \<Rightarrow> replyWith Encryption_Health (getEncryptionHealth env)
      | Unknown_Action a \<Rightarrow> ret (Failed 404 (''Unknown action: '' @ a)))"

text \<open>An exception becomes an answer with status 500 and its message.\<close>

definition handleFetch :: "'c account_env \<Rightarrow> 'c account_request \<Rightarrow> 'c account \<Rightarrow> 'c account_reply \<times> 'c account" where
  "handleFetch env q s = (case route env q s of (Inl e, t) \<Rightarrow> (Failed 500 (error_message e), t) | (Inr x, t) \<Rightarrow> (x, t))"

datatype 'c account_life = Serve "'c account_env" "'c account_request" | Evict

fun live :: "'c account_life list \<Rightarrow> 'c account \<Rightarrow> 'c account" where
  "live [] s = s"
| "live (Serve env q # es) s = live es (snd (handleFetch env q s))"
| "live (Evict # es) s = live es (restarted s)"

lemma keeps_replyWith: "keeps P m \<Longrightarrow> keeps P (replyWith f m)"
  unfolding replyWith_def by (intro keeps_intro)

lemma keeps_route: "keeps account_ok (route env q)"
  by (cases q) (simp_all add: route_def keeps_ret,
      (rule keeps_replyWith keeps_tokens keeps_cursors keeps_channels keeps_subscriptions keeps_providers)+)

lemma handleFetch_state: "snd (handleFetch env q s) = snd (route env q s)"
  by (auto simp: handleFetch_def split: prod.split sum.split)

lemma account_ok_restarted: "account_ok (restarted s) = account_ok s"
  by (simp add: account_ok_def restarted_def)

lemma live_ok: "account_ok s \<Longrightarrow> account_ok (live es s)"
proof (induction es s rule: live.induct)
  case (2 env q es s)
  then show ?case by (simp add: handleFetch_state keepsD [OF keeps_route])
qed (simp_all add: account_ok_restarted)

section \<open>Cursors\<close>

lemma scopeRow_run:
  obtains t r where "upsertCalendarScopeRow env cal n ro a b s = (Inr (), t)" and "scopeRows cal t = [r]"
    "cs_enabled r = a" "cs_sync_enabled r = b" "cs_display_name r = n" "cs_calendar_role r = ro"
    "ac_scoped t = ac_scoped s" "ac_migrated t = ac_migrated s"
proof -
  obtain sid u where u: "(case scopeRows cal s of r # _ \<Rightarrow> ret (cs_scope_id r)
      | [] \<Rightarrow> accountId env ''calendar'') s = (Inr sid, u)" "ac_scoped u = ac_scoped s" "ac_migrated u = ac_migrated s"
    by (cases "scopeRows cal s") (simp_all add: ret_def accountId_def)
  have gone: "filter (\<lambda>r. cs_provider_calendar_id r = cal)
      (deleteRows (\<lambda>r. cs_scope_id r = sid \<or> cs_provider_calendar_id r = cal) (ac_scopes u)) = []"
    by (auto simp: filter_deleteRows filter_empty_conv)
  let ?r = "\<lparr> cs_scope_id = sid, cs_provider_calendar_id = cal, cs_display_name = n, cs_calendar_role = ro,
      cs_enabled = a, cs_sync_enabled = b, cs_created_at =
        (case filter (\<lambda>r. cs_scope_id r = sid) (ac_scopes u) of r # _ \<Rightarrow> cs_created_at r | [] \<Rightarrow> xDatetime env),
      cs_updated_at = xDatetime env \<rparr>"
  let ?t = "u\<lparr> ac_scopes := deleteRows (\<lambda>r. cs_scope_id r = sid \<or> cs_provider_calendar_id r = cal) (ac_scopes u) @
      [?r] \<rparr>"
  have "upsertCalendarScopeRow env cal n ro a b s = (Inr (), ?t)"
    using u(1) by (simp add: upsertCalendarScopeRow_def andThen_def Let_def)
  moreover have "scopeRows cal ?t = [?r]" using gone by (simp add: scopeRows_def)
  ultimately show thesis using u by (intro that [of ?t ?r]) simp_all
qed

text \<open>Writing the cursor of a calendar: it is read back, the others stay, and the calendar's scope starts again.\<close>

lemma scopedToken_replaced:
  "scopedToken cal (replaceScopedSync cal r s) = sy_sync_token r"
  "other \<noteq> cal \<Longrightarrow> scopedToken other (replaceScopedSync cal r s) = scopedToken other s"
  by (auto simp: scopedToken_def scopedRows_def replaceScopedSync_def filter_deleteRows filter_empty_conv
      intro!: arg_cong [where f = "\<lambda>xs. case xs of [] \<Rightarrow> None | r # _ \<Rightarrow> sy_sync_token (sx_state r)"] filter_cong)

lemma scoped_cursor_run:
  assumes "ac_migrated s"
  obtains t r where "setScopedSyncToken env cal token s = (Inr (), t)"
    "scopedToken cal t = Some token" "\<forall>other. other \<noteq> cal \<longrightarrow> scopedToken other t = scopedToken other s"
    "scopeRows cal t = [r]" "cs_enabled r" "cs_sync_enabled r" "cs_display_name r = None"
    "cs_calendar_role r = defaultRole cal" "ac_migrated t"
proof -
  obtain u r where u: "upsertCalendarScopeRow env cal None (defaultRole cal) True True s = (Inr (), u)"
    and r: "scopeRows cal u = [r]" "cs_enabled r = True" "cs_sync_enabled r = True" "cs_display_name r = None"
      "cs_calendar_role r = defaultRole cal"
    and same: "ac_scoped u = ac_scoped s" "ac_migrated u = ac_migrated s" by (rule scopeRow_run)
  let ?t = "replaceScopedSync cal (writtenCursor env token) u"
  have "setScopedSyncToken env cal token s = (Inr (), ?t)"
    by (simp add: setScopedSyncToken_def migrated_again [OF assms] andThen_def u)
  moreover have "scopedToken cal ?t = Some token" by (simp add: scopedToken_replaced writtenCursor_def)
  moreover have "\<forall>other. other \<noteq> cal \<longrightarrow> scopedToken other ?t = scopedToken other s"
    using same by (simp add: scopedToken_replaced) (simp add: scopedToken_def scopedRows_def)
  moreover have "scopeRows cal ?t = [r]" using r by (simp add: scopeRows_def replaceScopedSync_def)
  ultimately show thesis using that r same assms by (simp add: replaceScopedSync_def)
qed

text \<open>The unscoped cursor goes to the oldest enabled scope, whichever calendar that is.\<close>

lemma sync_cursor_run:
  assumes "ac_migrated s"
  obtains t where "setSyncToken env token s = (Inr (), t)" "ac_migrated t"
    "scopedToken (getDefaultScopeCalendarId s) t = Some token"
    "\<forall>other. other \<noteq> getDefaultScopeCalendarId s \<longrightarrow> scopedToken other t = scopedToken other s"
proof -
  let ?s = "s\<lparr> ac_sync := Some (writtenCursor env token) \<rparr>"
  have same: "getDefaultScopeCalendarId ?s = getDefaultScopeCalendarId s" "ac_migrated ?s"
    "scopedToken other ?s = scopedToken other s" for other
    using assms by (simp_all add: getDefaultScopeCalendarId_def scopedToken_def scopedRows_def)
  obtain t r where t: "setScopedSyncToken env (getDefaultScopeCalendarId s) token ?s = (Inr (), t)"
    "scopedToken (getDefaultScopeCalendarId s) t = Some token"
    "\<forall>other. other \<noteq> getDefaultScopeCalendarId s \<longrightarrow> scopedToken other t = scopedToken other ?s"
    "ac_migrated t"
    by (rule scoped_cursor_run [OF same(2)])
  then show thesis
    using that same by (simp add: setSyncToken_def migrated_again [OF assms] andThen_def)
qed

end
