(* ===== verification/Sync_Consumer.thy ===== *)
theory Sync_Consumer
  imports Account_Calls Write_Queue Graph_Events Graph_Deltas
begin

text \<open>
  \<^verbatim>\<open>workers/sync-consumer/src/index.ts\<close>: a message of the sync queue fetches the events of an account from its
  provider, sorts them into deltas of the account and deletions of mirrors, applies both to the user's graph and
  advances the cursors of the account. The provider client is an argument, a record of functions on a state of its
  own; the account and the graph are the objects of the other theories, reached by calls that may fail.
\<close>

section \<open>The world of the worker\<close>

datatype raw_event = Google_Raw google_event | Ms_Raw ms_event

record list_response =
  lr_events :: "raw_event list"
  lr_nextPageToken :: "string option"
  lr_nextSyncToken :: "string option"

text \<open>The client of a provider, made from its family and an access token: calendar, sync token, page token.\<close>

record 'p sync_provider =
  sp_listEvents :: "api_family \<Rightarrow> string \<Rightarrow> string \<Rightarrow> string option \<Rightarrow> string option \<Rightarrow>
    (api_error, 'p, list_response) eop"

datatype sync_message =
    SYNC_INCREMENTAL string "string option"
  | SYNC_FULL string string
  | Unknown_Message string

record ('c, 'p) sync_world =
  sw_account :: "string \<Rightarrow> 'c account"
  sw_graph :: "string \<Rightarrow> user_graph"
  sw_provider :: 'p
  sw_status :: "string \<Rightarrow> string"
  sw_calls :: nat
  sw_queue :: "sync_message list"
  sw_sleeps :: "nat list"

text \<open>\<open>se_limit\<close> is the number of requests the platform allows one loop before it refuses.\<close>

record ('c, 'p) sync_env =
  se_env :: "'c account_env"
  se_worker :: worker_env
  se_client :: "'p sync_provider"
  se_limit :: nat

type_synonym ('c, 'p, 'a) sync_op = "(api_error, ('c, 'p) sync_world, 'a) eop"

definition graphEnv :: "('c, 'p) sync_env \<Rightarrow> graph_env" where
  "graphEnv se = xe_base (se_env se)"

definition tooMany :: api_error where
  "tooMany = Other_Error ''Too many subrequests.''"

definition unreachable :: api_error where
  "unreachable = Other_Error ''Network connection lost.''"

text \<open>A call to an object: it is refused, runs and answers, or runs and loses its answer.\<close>

definition oneCall :: "('c, 'p) sync_world \<Rightarrow> ('c, 'p) sync_world" where
  "oneCall w = w\<lparr> sw_calls := sw_calls w + 1 \<rparr>"

definition failedBody :: "nat \<Rightarrow> string \<Rightarrow> string" where
  "failedBody st m = (if st = 404 then m else stringify (JObj [(''error'', JStr m)]))"

definition failedResponse :: "string \<Rightarrow> nat \<Rightarrow> string \<Rightarrow> api_error" where
  "failedResponse name st m = Other_Error (name @ '' failed ('' @ showNat st @ ''): '' @ failedBody st m)"

definition callGraph ::
  "('c, 'p) sync_env \<Rightarrow> string \<Rightarrow> string \<Rightarrow> 'a graph_op \<Rightarrow> ('c, 'p, 'a) sync_op" where
  "callGraph se user name m w =
     (let (r, g) = m (sw_graph w user); w' = (oneCall w)\<lparr> sw_graph := (sw_graph w)(user := g) \<rparr> in
      case we_fate (se_worker se) (sw_calls w) of
        Refused \<Rightarrow> (Inl unreachable, oneCall w)
      | Reply_Lost \<Rightarrow> (Inl unreachable, w')
      | Delivered \<Rightarrow>
          (case r of
             Inl e \<Rightarrow> (Inl (failedResponse (''UserGraphDO.'' @ name) 500 (error_message e)), w')
           | Inr x \<Rightarrow> (Inr x, w')))"

definition callAccount ::
  "('c, 'p) sync_env \<Rightarrow> string \<Rightarrow> 'c account_request \<Rightarrow> ('c, 'p, 'c account_reply) sync_op" where
  "callAccount se acct q w =
     (let (r, a) = handleFetch (se_env se) q (sw_account w acct);
          w' = (oneCall w)\<lparr> sw_account := (sw_account w)(acct := a) \<rparr> in
      case we_fate (se_worker se) (sw_calls w) of
        Refused \<Rightarrow> (Inl unreachable, oneCall w)
      | Reply_Lost \<Rightarrow> (Inl unreachable, w')
      | Delivered \<Rightarrow> (Inr r, w'))"

definition accountCall ::
  "('c, 'p) sync_env \<Rightarrow> string \<Rightarrow> string \<Rightarrow> 'c account_request \<Rightarrow> ('c, 'p, 'c account_reply) sync_op" where
  "accountCall se acct name q =
     andThen (callAccount se acct q) (\<lambda>r.
       case r of Failed st m \<Rightarrow> throw (failedResponse (''AccountDO.'' @ name) st m) | _ \<Rightarrow> ret r)"

definition sendSync :: "('c, 'p) sync_env \<Rightarrow> sync_message \<Rightarrow> ('c, 'p, unit) sync_op" where
  "sendSync se m w =
     (case we_fate (se_worker se) (sw_calls w) of
        Refused \<Rightarrow> (Inl unreachable, oneCall w)
      | Delivered \<Rightarrow> (Inr (), (oneCall w)\<lparr> sw_queue := sw_queue w @ [m] \<rparr>)
      | Reply_Lost \<Rightarrow> (Inl unreachable, (oneCall w)\<lparr> sw_queue := sw_queue w @ [m] \<rparr>))"

text \<open>
  A call of the provider's client. The client is a parameter and \<open>sw_provider\<close> is its state: what it waits inside a call, as
  the token bucket and the retries of \<^verbatim>\<open>packages/shared/src/microsoft-api.ts\<close> do, is its own and not in \<open>sw_sleeps\<close>,
  which holds the waits of the consumer.
\<close>

definition onClient :: "(api_error, 'p, 'a) eop \<Rightarrow> ('c, 'p, 'a) sync_op" where
  "onClient c w = (case c (sw_provider w) of (r, p) \<Rightarrow> (r, w\<lparr> sw_provider := p \<rparr>))"

section \<open>The registry\<close>

definition lookupUserId :: "('c, 'p) sync_env \<Rightarrow> string \<Rightarrow> ('c, 'p, string option) sync_op" where
  "lookupUserId se acct =
     (case we_account (se_worker se) acct of
        Inl e \<Rightarrow> throw (Other_Error e)
      | Inr row \<Rightarrow> ret (map_option fst row))"

definition lookupProvider :: "('c, 'p) sync_env \<Rightarrow> string \<Rightarrow> ('c, 'p, api_family) sync_op" where
  "lookupProvider se acct =
     (case we_account (se_worker se) acct of
        Inl e \<Rightarrow> throw (Other_Error e)
      | Inr row \<Rightarrow> ret (if map_option snd row = Some ''microsoft'' then Microsoft_api else Google_api))"

definition requireUser :: "('c, 'p) sync_env \<Rightarrow> string \<Rightarrow> ('c, 'p, string) sync_op" where
  "requireUser se acct =
     andThen (lookupUserId se acct) (\<lambda>user.
       if truthy user then ret (the user)
       else throw (Other_Error (''sync-consumer: no user_id found for account '' @ acct)))"

definition providerName :: "api_family \<Rightarrow> string" where
  "providerName f = (case f of Google_api \<Rightarrow> ''google'' | Microsoft_api \<Rightarrow> ''microsoft'')"

section \<open>Retries\<close>

definition isRateLimit :: "api_error \<Rightarrow> bool" where
  "isRateLimit e = (case e of Rate_Limited _ _ \<Rightarrow> True | _ \<Rightarrow> False)"

definition hasStatus :: "nat \<Rightarrow> api_error \<Rightarrow> bool" where
  "hasStatus n e \<longleftrightarrow> statusCode Google_api e = Some n \<or> statusCode Microsoft_api e = Some n"

definition isServerError :: "api_error \<Rightarrow> bool" where
  "isServerError e \<longleftrightarrow> hasStatus 500 e \<or> hasStatus 503 e"

definition sleepFor :: "nat \<Rightarrow> ('c, 'p) sync_world \<Rightarrow> ('c, 'p) sync_world" where
  "sleepFor ms w = w\<lparr> sw_sleeps := sw_sleeps w @ [ms] \<rparr>"

text \<open>The loop of \<^verbatim>\<open>retryWithBackoff\<close> with its two counters.\<close>

function retryFrom :: "nat \<Rightarrow> nat \<Rightarrow> ('c, 'p, 'a) sync_op \<Rightarrow> ('c, 'p, 'a) sync_op" where
  "retryFrom attempt429 attempt5xx fn w =
     (case fn w of
        (Inr x, w') \<Rightarrow> (Inr x, w')
      | (Inl err, w') \<Rightarrow>
          if isRateLimit err
          then if attempt429 < 5
               then retryFrom (attempt429 + 1) attempt5xx fn (sleepFor (1000 * 2 ^ attempt429) w')
               else (Inl err, w')
          else if isServerError err
          then if attempt5xx < 3
               then retryFrom attempt429 (attempt5xx + 1) fn (sleepFor (2000 * 2 ^ attempt5xx) w')
               else (Inl err, w')
          else (Inl err, w'))"
  by pat_completeness auto
termination
  by (relation "measure (\<lambda>(a, b, fn, w). (5 - a) + (3 - b))") auto

declare retryFrom.simps [simp del]

definition retryWithBackoff :: "('c, 'p, 'a) sync_op \<Rightarrow> ('c, 'p, 'a) sync_op" where
  "retryWithBackoff fn = retryFrom 0 0 fn"

section \<open>The account\<close>

definition syncAccessToken :: "('c, 'p) sync_env \<Rightarrow> string \<Rightarrow> api_family \<Rightarrow> ('c, 'p, string) sync_op" where
  "syncAccessToken se acct family =
     andThen (accountCall se acct ''getAccessToken'' (Get_Access_Token (Some (providerName family)))) (\<lambda>r.
       ret (case r of Access_Token t \<Rightarrow> t | _ \<Rightarrow> []))"

definition refreshAndGetToken :: "('c, 'p) sync_env \<Rightarrow> string \<Rightarrow> api_family \<Rightarrow> ('c, 'p, string) sync_op" where
  "refreshAndGetToken se acct family = syncAccessToken se acct family"

definition cursorOf :: "'c account_reply \<Rightarrow> string option" where
  "cursorOf r = (case r of Sync_Token t \<Rightarrow> t | _ \<Rightarrow> None)"

definition syncToken :: "('c, 'p) sync_env \<Rightarrow> string \<Rightarrow> ('c, 'p, string option) sync_op" where
  "syncToken se acct = andThen (accountCall se acct ''getSyncToken'' Get_Sync_Token) (\<lambda>r. ret (cursorOf r))"

text \<open>An account object without the scoped routes answers 404 or 405; the primary calendar falls back.\<close>

definition oldRoute :: "nat \<Rightarrow> bool" where
  "oldRoute st \<longleftrightarrow> st = 404 \<or> st = 405"

definition scopedSyncToken :: "('c, 'p) sync_env \<Rightarrow> string \<Rightarrow> string \<Rightarrow> ('c, 'p, string option) sync_op" where
  "scopedSyncToken se acct cal =
     andThen (callAccount se acct (Get_Scoped_Sync_Token cal)) (\<lambda>r.
     case r of
       Failed st m \<Rightarrow>
         if oldRoute st \<and> cal = ''primary'' then syncToken se acct
         else throw (failedResponse ''AccountDO.getScopedSyncToken'' st m)
     | _ \<Rightarrow> ret (cursorOf r))"

definition storeSyncToken :: "('c, 'p) sync_env \<Rightarrow> string \<Rightarrow> string \<Rightarrow> ('c, 'p, unit) sync_op" where
  "storeSyncToken se acct token =
     andThen (accountCall se acct ''setSyncToken'' (Set_Sync_Token token)) (\<lambda>_. ret ())"

definition storeScopedSyncToken :: "('c, 'p) sync_env \<Rightarrow> string \<Rightarrow> string \<Rightarrow> string \<Rightarrow> ('c, 'p, unit) sync_op" where
  "storeScopedSyncToken se acct cal token =
     andThen (callAccount se acct (Set_Scoped_Sync_Token cal token)) (\<lambda>r.
     case r of
       Failed st m \<Rightarrow>
         if oldRoute st \<and> cal = ''primary'' then storeSyncToken se acct token
         else throw (failedResponse ''AccountDO.setScopedSyncToken'' st m)
     | _ \<Rightarrow> ret ())"

definition primaryScope :: "string \<times> bool \<times> bool" where
  "primaryScope = (''primary'', True, True)"

text \<open>Calendar id, enabled, synchronised.\<close>

definition calendarScopes ::
  "('c, 'p) sync_env \<Rightarrow> string \<Rightarrow> ('c, 'p, (string \<times> bool \<times> bool) list) sync_op" where
  "calendarScopes se acct =
     andThen (callAccount se acct List_Calendar_Scopes) (\<lambda>r.
     case r of
       Failed st m \<Rightarrow>
         if oldRoute st then ret [primaryScope] else throw (failedResponse ''AccountDO.listCalendarScopes'' st m)
     | Scopes rows \<Rightarrow>
         ret (if rows = [] then [primaryScope]
              else filter (\<lambda>(cal, _). cal \<noteq> [])
                (map (\<lambda>x. (cs_provider_calendar_id x, cs_enabled x, cs_sync_enabled x)) rows))
     | _ \<Rightarrow> ret [primaryScope])"

text \<open>Marks; the scoped routes do not exist in \<^verbatim>\<open>AccountDO\<close>, and their failures are ignored.\<close>

definition markSucceeded :: "('c, 'p) sync_env \<Rightarrow> string \<Rightarrow> ('c, 'p, unit) sync_op" where
  "markSucceeded se acct =
     andThen (accountCall se acct ''markSyncSuccess'' (Mark_Sync_Success (nowIso (graphEnv se)))) (\<lambda>_.
     modify (\<lambda>w. w\<lparr> sw_status := (sw_status w)(acct := ''active'') \<rparr>))"

definition markFailed :: "('c, 'p) sync_env \<Rightarrow> string \<Rightarrow> string \<Rightarrow> ('c, 'p, unit) sync_op" where
  "markFailed se acct message =
     andThen (callAccount se acct (Mark_Sync_Failure message)) (\<lambda>_. ret ())"

definition markScopedSyncSuccess :: "('c, 'p) sync_env \<Rightarrow> string \<Rightarrow> string \<Rightarrow> ('c, 'p, unit) sync_op" where
  "markScopedSyncSuccess se acct cal =
     tryCatch (andThen (callAccount se acct (Unknown_Action ''/markScopedSyncSuccess'')) (\<lambda>_. ret ()))
       (\<lambda>_. ret ())"

definition markScopedSyncFailure :: "('c, 'p) sync_env \<Rightarrow> string \<Rightarrow> string \<Rightarrow> string \<Rightarrow> ('c, 'p, unit) sync_op" where
  "markScopedSyncFailure se acct cal message =
     tryCatch (andThen (callAccount se acct (Unknown_Action ''/markScopedSyncFailure'')) (\<lambda>_. ret ()))
       (\<lambda>_. ret ())"

definition isPermanentAccessTokenFailure :: "api_error \<Rightarrow> bool" where
  "isPermanentAccessTokenFailure e \<longleftrightarrow>
     (case e of
        Not_An_Error _ \<Rightarrow> False
      | _ \<Rightarrow> includesText (api_message e) ''AccountDO.getAccessToken failed'' \<and>
            includesText (api_message e) ''invalid_grant'')"

end
