(* ===== verification/Sync_Flow.thy ===== *)
theory Sync_Flow
  imports Sync_Consumer
begin

text \<open>
  The two handlers of \<^verbatim>\<open>sync-consumer\<close>: fetching the changes, sorting them, applying them, pruning what a full sync
  no longer shows, and moving the cursors.
\<close>

section \<open>Fetching\<close>

record fetch_result =
  fr_events :: "raw_event list"
  fr_cursors :: "(string \<times> string) list"
  fr_skipped :: "string list"

text \<open>The consumer's retries around the client's call, whose own waits are not seen here.\<close>

definition listEvents ::
  "('c, 'p) sync_env \<Rightarrow> api_family \<Rightarrow> string \<Rightarrow> string \<Rightarrow> string option \<Rightarrow> string option \<Rightarrow>
   ('c, 'p, list_response) sync_op" where
  "listEvents se family token cal cursor page =
     retryWithBackoff (onClient (sp_listEvents (se_client se) family token cal cursor page))"

text \<open>The calendars of the ACTIVE mirrors of an account, for accounts older than the scopes.\<close>

definition loadActiveMirrors :: "('c, 'p) sync_env \<Rightarrow> string \<Rightarrow> string \<Rightarrow> ('c, 'p, mirror_row list) sync_op" where
  "loadActiveMirrors se acct user = callGraph se user ''getActiveMirrors'' (getActiveMirrors acct)"

definition listGoogleSyncCalendarIds :: "('c, 'p) sync_env \<Rightarrow> string \<Rightarrow> ('c, 'p, string list) sync_op" where
  "listGoogleSyncCalendarIds se acct =
     andThen (calendarScopes se acct) (\<lambda>scopes.
     andThen (lookupUserId se acct) (\<lambda>user.
     andThen (if truthy user then loadActiveMirrors se acct (the user) else ret []) (\<lambda>mirrors.
     let ids = setInOrder
           (map fst (filter (\<lambda>(cal, enabled, synced). enabled \<and> synced \<and> cal \<noteq> []) scopes) @
            filter (\<lambda>c. c \<noteq> []) (map em_target_calendar_id mirrors))
     in ret (if ids = [] then [''primary''] else ids))))"

definition unavailable :: "api_error \<Rightarrow> bool" where
  "unavailable e \<longleftrightarrow> statusCode Google_api e = Some 404"

text \<open>One scope after another; a calendar that is gone is skipped, a new one asks for a full sync at the end.\<close>

fun fetchScopes ::
  "('c, 'p) sync_env \<Rightarrow> string \<Rightarrow> string \<Rightarrow> string list \<Rightarrow> fetch_result \<times> bool \<Rightarrow>
   ('c, 'p, fetch_result \<times> bool) sync_op" where
  "fetchScopes se acct token [] acc = ret acc"
| "fetchScopes se acct token (cal # cals) (fr, bootstrap) =
     andThen (scopedSyncToken se acct cal) (\<lambda>cursor.
     andThen (attempt (listEvents se Google_api token cal cursor None)) (\<lambda>r.
     case r of
       Inl err \<Rightarrow>
         if unavailable err
         then fetchScopes se acct token cals (fr\<lparr> fr_skipped := fr_skipped fr @ [cal] \<rparr>, bootstrap)
         else throw err
     | Inr response \<Rightarrow>
         fetchScopes se acct token cals
           (fr\<lparr> fr_events := fr_events fr @ lr_events response,
                fr_cursors := fr_cursors fr @
                  (if truthy (lr_nextSyncToken response) then [(cal, the (lr_nextSyncToken response))] else []) \<rparr>,
            bootstrap \<or> \<not> truthy cursor \<and> cal \<noteq> ''primary'')))"

definition nothingFetched :: fetch_result where
  "nothingFetched = \<lparr> fr_events = [], fr_cursors = [], fr_skipped = [] \<rparr>"

definition fetchIncrementalProviderEvents ::
  "('c, 'p) sync_env \<Rightarrow> string \<Rightarrow> api_family \<Rightarrow> string \<Rightarrow> string option \<Rightarrow> ('c, 'p, fetch_result) sync_op" where
  "fetchIncrementalProviderEvents se acct family token target =
     (case family of
        Microsoft_api \<Rightarrow>
          andThen (syncToken se acct) (\<lambda>cursor.
          andThen (listEvents se family token ''primary'' cursor None) (\<lambda>response.
          ret \<lparr> fr_events = lr_events response,
                fr_cursors = (if truthy (lr_nextSyncToken response)
                              then [(''primary'', the (lr_nextSyncToken response))] else []),
                fr_skipped = [] \<rparr>))
      | Google_api \<Rightarrow>
          andThen (if truthy target then ret [the target] else listGoogleSyncCalendarIds se acct) (\<lambda>cals.
          andThen (fetchScopes se acct token cals (nothingFetched, False)) (\<lambda>(fr, bootstrap).
          if bootstrap
          then throw (Sync_Token_Expired Google_api
                 ''google scoped sync bootstrap required for non-primary calendars'')
          else ret fr)))"

text \<open>
  The pages of one calendar: the events, the last sync token and whether the calendar was found. A Google calendar
  that is gone ends the loop; what earlier pages gave is kept.
\<close>

fun fetchPages ::
  "nat \<Rightarrow> ('c, 'p) sync_env \<Rightarrow> api_family \<Rightarrow> string \<Rightarrow> string \<Rightarrow> string option \<Rightarrow> raw_event list \<Rightarrow> string option \<Rightarrow>
   ('c, 'p, raw_event list \<times> string option \<times> bool) sync_op" where
  "fetchPages 0 se family token cal page events cursor = throw tooMany"
| "fetchPages (Suc n) se family token cal page events cursor =
     andThen (attempt (listEvents se family token cal None page)) (\<lambda>r.
     case r of
       Inl err \<Rightarrow>
         if family = Google_api \<and> unavailable err then ret (events, cursor, False) else throw err
     | Inr response \<Rightarrow>
         let events' = events @ lr_events response;
             cursor' = (if truthy (lr_nextSyncToken response) then lr_nextSyncToken response else cursor) in
         if truthy (lr_nextPageToken response)
         then fetchPages n se family token cal (lr_nextPageToken response) events' cursor'
         else ret (events', cursor', True))"

fun fetchCalendars ::
  "('c, 'p) sync_env \<Rightarrow> api_family \<Rightarrow> string \<Rightarrow> string list \<Rightarrow> fetch_result \<Rightarrow> ('c, 'p, fetch_result) sync_op" where
  "fetchCalendars se family token [] fr = ret fr"
| "fetchCalendars se family token (cal # cals) fr =
     andThen (fetchPages (se_limit se) se family token cal None [] None) (\<lambda>(events, cursor, found).
       fetchCalendars se family token cals
         (fr\<lparr> fr_events := fr_events fr @ events,
              fr_cursors := fr_cursors fr @ (if truthy cursor then [(cal, the cursor)] else []),
              fr_skipped := fr_skipped fr @ (if found then [] else [cal]) \<rparr>))"

definition fetchFullProviderEvents ::
  "('c, 'p) sync_env \<Rightarrow> string \<Rightarrow> api_family \<Rightarrow> string \<Rightarrow> ('c, 'p, fetch_result) sync_op" where
  "fetchFullProviderEvents se acct family token =
     (case family of
        Microsoft_api \<Rightarrow> fetchCalendars se family token [''primary''] nothingFetched
      | Google_api \<Rightarrow>
          andThen (listGoogleSyncCalendarIds se acct) (\<lambda>cals.
          fetchCalendars se family token cals nothingFetched))"

section \<open>Classification\<close>

fun rawId :: "raw_event \<Rightarrow> string option" where
  "rawId (Google_Raw g) = ge_id g"
| "rawId (Ms_Raw m) = ms_id m"

text \<open>The strategy and the normaliser of the provider the event came from.\<close>

fun classifyRaw :: "raw_event \<Rightarrow> event_classification" where
  "classifyRaw (Google_Raw g) = classifyEvent g"
| "classifyRaw (Ms_Raw m) = classifyMicrosoftEvent m"

fun normalizeProviderEvent :: "raw_event \<Rightarrow> string \<Rightarrow> event_classification \<Rightarrow> provider_delta" where
  "normalizeProviderEvent (Google_Raw g) acct cls = normalizeGoogleEvent g acct cls"
| "normalizeProviderEvent (Ms_Raw m) acct cls = normalizeMicrosoftEvent m acct cls"

definition decodeProviderEventIdSafe :: "string \<Rightarrow> string" where
  "decodeProviderEventIdSafe s =
     (if CHR ''%'' \<notin> set s then s
      else case decodeURIComponent s of Some d \<Rightarrow> if d \<noteq> [] then d else s | None \<Rightarrow> s)"

definition providerEventIdVariants :: "string \<Rightarrow> string list" where
  "providerEventIdVariants s =
     (let decoded = decodeProviderEventIdSafe s;
          variants = (if decoded \<noteq> s then [s, decoded] else [s]);
          encoded = (if CHR ''%'' \<in> set s then s else encodeURIComponent s)
      in if List.member variants encoded then variants else variants @ [encoded])"

definition managedMirrorEventIds :: "mirror_row list \<Rightarrow> string list" where
  "managedMirrorEventIds mirrors =
     concat (map (\<lambda>m. if truthy (em_provider_event_id m) then providerEventIdVariants (the (em_provider_event_id m))
                      else []) mirrors)"

definition classifyProviderEvent :: "string list \<Rightarrow> raw_event \<Rightarrow> event_classification" where
  "classifyProviderEvent mirrorIds raw =
     (if classifyRaw raw = Managed_Mirror then Managed_Mirror
      else if truthy (rawId raw) \<and> the (rawId raw) \<in> set mirrorIds then Managed_Mirror
      else classifyRaw raw)"

section \<open>Sorting\<close>

fun findByVariants ::
  "('c, 'p) sync_env \<Rightarrow> string \<Rightarrow> string \<Rightarrow> string list \<Rightarrow> ('c, 'p, string option) sync_op" where
  "findByVariants se user acct [] = ret None"
| "findByVariants se user acct (v # vs) =
     andThen (callGraph se user ''findCanonicalByMirror'' (findCanonicalByMirror acct v)) (\<lambda>r.
       if truthy r then ret r else findByVariants se user acct vs)"

definition findCanonicalIdByMirror ::
  "('c, 'p) sync_env \<Rightarrow> string \<Rightarrow> string \<Rightarrow> string \<Rightarrow> ('c, 'p, string option) sync_op" where
  "findCanonicalIdByMirror se user acct pid = findByVariants se user acct (providerEventIdVariants pid)"

record sorted_events =
  so_deltas :: "provider_delta list"
  so_managed :: "string list"
  so_seen :: "string list"

definition nothingSorted :: sorted_events where
  "nothingSorted = \<lparr> so_deltas = [], so_managed = [], so_seen = [] \<rparr>"

definition addManaged :: "string \<Rightarrow> sorted_events \<Rightarrow> sorted_events" where
  "addManaged i so = (if i \<in> set (so_managed so) then so else so\<lparr> so_managed := so_managed so @ [i] \<rparr>)"

text \<open>The same origin event seen in two calendars gives one delta.\<close>

definition addDelta :: "provider_delta \<Rightarrow> sorted_events \<Rightarrow> sorted_events" where
  "addDelta d so =
     (let i = pd_origin_event_id d in
      if i = [] then so\<lparr> so_deltas := so_deltas so @ [d] \<rparr>
      else if i \<in> set (so_seen so) then so
      else so\<lparr> so_deltas := so_deltas so @ [d], so_seen := so_seen so @ [i] \<rparr>)"

definition canonDelta :: "provider_delta \<Rightarrow> provider_delta" where
  "canonDelta d = d\<lparr> pd_origin_event_id := canonicalizeProviderEventId (pd_origin_event_id d) \<rparr>"

definition sortEvent ::
  "('c, 'p) sync_env \<Rightarrow> string \<Rightarrow> string \<Rightarrow> string list \<Rightarrow> raw_event \<Rightarrow> sorted_events \<Rightarrow>
   ('c, 'p, sorted_events) sync_op" where
  "sortEvent se user acct mirrorIds raw so =
     (let cls = classifyProviderEvent mirrorIds raw;
          d = canonDelta (normalizeProviderEvent raw acct cls);
          i = pd_origin_event_id d; deleted = (pd_type d = Delta_Deleted \<and> i \<noteq> []) in
      if cls = Managed_Mirror then ret (if deleted then addManaged i so else so)
      else if deleted
      then andThen (if \<exists>v \<in> set (providerEventIdVariants i). v \<in> set mirrorIds then ret True
                    else andThen (findCanonicalIdByMirror se user acct i) (\<lambda>r. ret (r \<noteq> None))) (\<lambda>managed.
           ret (if managed then addManaged i so else addDelta d so))
      else ret (addDelta d so))"

fun sortEvents ::
  "('c, 'p) sync_env \<Rightarrow> string \<Rightarrow> string \<Rightarrow> string list \<Rightarrow> raw_event list \<Rightarrow> sorted_events \<Rightarrow>
   ('c, 'p, sorted_events) sync_op" where
  "sortEvents se user acct mirrorIds [] so = ret so"
| "sortEvents se user acct mirrorIds (raw # raws) so =
     andThen (sortEvent se user acct mirrorIds raw so) (sortEvents se user acct mirrorIds raws)"

section \<open>Applying\<close>

text \<open>The route canonicalises the ids once more; what the graph reports about single deltas is not read.\<close>

definition applyProviderDeltas ::
  "('c, 'p) sync_env \<Rightarrow> string \<Rightarrow> string \<Rightarrow> provider_delta list \<Rightarrow> ('c, 'p, unit) sync_op" where
  "applyProviderDeltas se user acct deltas =
     andThen (callGraph se user ''applyProviderDelta''
       (applyProviderDelta (graphEnv se) acct (map canonDelta deltas))) (\<lambda>_. ret ())"

fun resolveMirrors ::
  "('c, 'p) sync_env \<Rightarrow> string \<Rightarrow> string \<Rightarrow> string list \<Rightarrow> string list \<Rightarrow> ('c, 'p, string list) sync_op" where
  "resolveMirrors se user acct [] found = ret found"
| "resolveMirrors se user acct (pid # pids) found =
     andThen (findCanonicalIdByMirror se user acct pid) (\<lambda>r.
       resolveMirrors se user acct pids
         (case r of Some cid \<Rightarrow> if cid = [] \<or> cid \<in> set found then found else found @ [cid] | None \<Rightarrow> found))"

definition deleteCanonicalById ::
  "('c, 'p) sync_env \<Rightarrow> string \<Rightarrow> string \<Rightarrow> string \<Rightarrow> ('c, 'p, bool) sync_op" where
  "deleteCanonicalById se user cid source =
     callGraph se user ''deleteCanonicalEvent'' (deleteCanonicalEvent (graphEnv se) cid source)"

definition applyManagedMirrorDeletes ::
  "('c, 'p) sync_env \<Rightarrow> string \<Rightarrow> string \<Rightarrow> string list \<Rightarrow> ('c, 'p, unit) sync_op" where
  "applyManagedMirrorDeletes se user acct pids =
     andThen (resolveMirrors se user acct pids []) (\<lambda>cids.
     forEach cids (\<lambda>cid.
       andThen (deleteCanonicalById se user cid (''provider:'' @ acct)) (\<lambda>_. ret ())))"

definition processAndApplyDeltas ::
  "('c, 'p) sync_env \<Rightarrow> string \<Rightarrow> raw_event list \<Rightarrow> ('c, 'p, nat) sync_op" where
  "processAndApplyDeltas se acct events =
     (if events = [] then ret 0
      else andThen (requireUser se acct) (\<lambda>user.
           andThen (loadActiveMirrors se acct user) (\<lambda>mirrors.
           andThen (sortEvents se user acct (managedMirrorEventIds mirrors) events nothingSorted) (\<lambda>so.
           andThen (if so_deltas so \<noteq> [] then applyProviderDeltas se user acct (so_deltas so) else ret ()) (\<lambda>_.
           andThen (if so_managed so \<noteq> [] then applyManagedMirrorDeletes se user acct (so_managed so) else ret ()) (\<lambda>_.
           ret (length (so_deltas so))))))))"

end
