(* ===== verification/Sync_Handlers.thy ===== *)
theory Sync_Handlers
  imports Sync_Flow
begin

text \<open>
  Pruning after a full sync, the cursors, the handlers of the two messages and the queue of
  \<^verbatim>\<open>sync-consumer\<close>.
\<close>

section \<open>Stale mirrors\<close>

definition presentIds :: "raw_event list \<Rightarrow> string list" where
  "presentIds events = concat (map (\<lambda>e. if truthy (rawId e) then providerEventIdVariants (the (rawId e)) else []) events)"

definition missingMirrorIds :: "mirror_row list \<Rightarrow> raw_event list \<Rightarrow> string list \<Rightarrow> string list" where
  "missingMirrorIds mirrors events skipped =
     setInOrder (map (\<lambda>m. the (em_provider_event_id m)) (filter (\<lambda>m.
       em_target_calendar_id m \<notin> set skipped \<and> truthy (em_provider_event_id m) \<and>
       \<not> (\<exists>v \<in> set (providerEventIdVariants (the (em_provider_event_id m))). v \<in> set (presentIds events))) mirrors))"

definition findMissingManagedMirrorProviderEventIds ::
  "('c, 'p) sync_env \<Rightarrow> string \<Rightarrow> string \<Rightarrow> raw_event list \<Rightarrow> string list \<Rightarrow> ('c, 'p, string list) sync_op" where
  "findMissingManagedMirrorProviderEventIds se acct user events skipped =
     andThen (loadActiveMirrors se acct user) (\<lambda>mirrors. ret (missingMirrorIds mirrors events skipped))"

section \<open>Stale origin events\<close>

text \<open>The ids the provider still shows, as they came; mirrors are left out.\<close>

definition collectOriginEventIds :: "string list \<Rightarrow> raw_event list \<Rightarrow> string list" where
  "collectOriginEventIds mirrorIds events =
     map (\<lambda>e. the (rawId e)) (filter (\<lambda>e. classifyProviderEvent mirrorIds e \<noteq> Managed_Mirror \<and> truthy (rawId e)) events)"

definition PRUNE_LOOKBACK_MS :: int where
  "PRUNE_LOOKBACK_MS = 90 * 24 * 60 * 60 * 1000"

definition isPruneWindowEvent :: "graph_env \<Rightarrow> string option \<Rightarrow> bool" where
  "isPruneWindowEvent env start \<longleftrightarrow>
     (if truthy start
      then case dateParse (js_date env) (the start) of
             Some ms \<Rightarrow> ms \<ge> now_ms env - PRUNE_LOOKBACK_MS
           | None \<Rightarrow> False
      else False)"

definition extractStartTimestamp :: "event_date_time \<Rightarrow> string option" where
  "extractStartTimestamp d = (case dt_dateTime d of Some t \<Rightarrow> Some t | None \<Rightarrow> dt_date d)"

type_synonym origin_event = "string \<times> string option"

definition originQuery :: "string \<Rightarrow> string option \<Rightarrow> list_query" where
  "originQuery acct cursor =
     \<lparr> lq_time_min = None, lq_time_max = None, lq_origin_account_id = Some acct, lq_origin_event_id = None,
       lq_updated_after = None, lq_source = Some ''provider'', lq_cursor = (if truthy cursor then cursor else None),
       lq_limit = Some 500 \<rparr>"

definition originEvents :: "canonical_event list \<Rightarrow> origin_event list" where
  "originEvents items =
     map (\<lambda>e. (ev_origin_event_id e, extractStartTimestamp (ev_start e)))
       (filter (\<lambda>e. ev_origin_event_id e \<noteq> []) items)"

fun listOrigins ::
  "nat \<Rightarrow> ('c, 'p) sync_env \<Rightarrow> string \<Rightarrow> string \<Rightarrow> string option \<Rightarrow> ('c, 'p, origin_event list) sync_op" where
  "listOrigins 0 se acct user cursor = throw tooMany"
| "listOrigins (Suc n) se acct user cursor =
     andThen (callGraph se user ''listCanonicalEvents'' (listCanonicalEvents (originQuery acct cursor)))
       (\<lambda>(items, cursor', more').
       if truthy cursor'
       then andThen (listOrigins n se acct user cursor') (\<lambda>rest. ret (originEvents items @ rest))
       else ret (originEvents items))"

definition listCanonicalOriginEvents ::
  "('c, 'p) sync_env \<Rightarrow> string \<Rightarrow> string \<Rightarrow> ('c, 'p, origin_event list) sync_op" where
  "listCanonicalOriginEvents se acct user = listOrigins (se_limit se) se acct user None"

text \<open>What may be pruned: recent events the provider does not show, unless too many would go.\<close>

definition prunable :: "graph_env \<Rightarrow> string list \<Rightarrow> origin_event list \<Rightarrow> origin_event list" where
  "prunable env present origins =
     (let missing = filter (\<lambda>o'. fst o' \<notin> set present) origins;
          base = filter (\<lambda>o'. isPruneWindowEvent env (snd o')) origins;
          gone = filter (\<lambda>o'. isPruneWindowEvent env (snd o')) missing
      in if length base \<ge> 50 \<and> 10 * length gone > 3 * length base then [] else gone)"

definition deleteDelta :: "string \<Rightarrow> string \<Rightarrow> provider_delta" where
  "deleteDelta acct oid =
     \<lparr> pd_type = Delta_Deleted, pd_origin_event_id = oid, pd_origin_account_id = acct, pd_event = None,
       pd_participant_hashes = None \<rparr>"

function chunksOf200 :: "'a list \<Rightarrow> 'a list list" where
  "chunksOf200 xs = (if xs = [] then [] else take 200 xs # chunksOf200 (drop 200 xs))"
  by auto
termination by (relation "measure length") auto

declare chunksOf200.simps [simp del]

definition applyDeletedOriginDeltas ::
  "('c, 'p) sync_env \<Rightarrow> string \<Rightarrow> string \<Rightarrow> string list \<Rightarrow> ('c, 'p, nat) sync_op" where
  "applyDeletedOriginDeltas se acct user ids =
     sumOver (chunksOf200 ids) (\<lambda>chunk.
       andThen (applyProviderDeltas se user acct (map (deleteDelta acct) chunk)) (\<lambda>_. ret (length chunk)))"

definition pruneMissingOriginEvents ::
  "('c, 'p) sync_env \<Rightarrow> string \<Rightarrow> raw_event list \<Rightarrow> api_family \<Rightarrow> ('c, 'p, nat) sync_op" where
  "pruneMissingOriginEvents se acct events family =
     andThen (lookupUserId se acct) (\<lambda>user'.
     if \<not> truthy user' then ret 0
     else let user = the user' in
       andThen (if family = Microsoft_api then loadActiveMirrors se acct user else ret []) (\<lambda>mirrors.
       andThen (listCanonicalOriginEvents se acct user) (\<lambda>origins.
       applyDeletedOriginDeltas se acct user (map fst (prunable (graphEnv se)
         (collectOriginEventIds (managedMirrorEventIds mirrors) events) origins)))))"

section \<open>Cursors\<close>

definition persistSyncCursorUpdates ::
  "('c, 'p) sync_env \<Rightarrow> string \<Rightarrow> api_family \<Rightarrow> (string \<times> string) list \<Rightarrow> ('c, 'p, unit) sync_op" where
  "persistSyncCursorUpdates se acct family cursors =
     (let primary = (case map_of cursors ''primary'' of Some t \<Rightarrow> storeSyncToken se acct t | None \<Rightarrow> ret ()) in
      if cursors = [] then ret ()
      else case family of
        Google_api \<Rightarrow>
          andThen (forEach cursors (\<lambda>(cal, t). storeScopedSyncToken se acct cal t)) (\<lambda>_. primary)
      | Microsoft_api \<Rightarrow> primary)"

definition concludeSync ::
  "('c, 'p) sync_env \<Rightarrow> string \<Rightarrow> api_family \<Rightarrow> (string \<times> string) list \<Rightarrow> ('c, 'p, unit) sync_op" where
  "concludeSync se acct family cursors =
     andThen (persistSyncCursorUpdates se acct family cursors) (\<lambda>_.
     andThen (forEach cursors (\<lambda>(cal, t). markScopedSyncSuccess se acct cal)) (\<lambda>_.
     markSucceeded se acct))"

section \<open>The handlers\<close>

definition invalidGrantMessage :: string where
  "invalidGrantMessage = ''Token refresh failed (invalid_grant). Re-link this account.''"

text \<open>The access token, or nothing when the failure is permanent and has been noted on the account.\<close>

definition tokenOrGiveUp ::
  "('c, 'p) sync_env \<Rightarrow> string \<Rightarrow> api_family \<Rightarrow> ('c, 'p, string option) sync_op" where
  "tokenOrGiveUp se acct family =
     andThen (attempt (syncAccessToken se acct family)) (\<lambda>r.
     case r of
       Inr token \<Rightarrow> ret (Some token)
     | Inl err \<Rightarrow>
         if isPermanentAccessTokenFailure err
         then andThen (markFailed se acct invalidGrantMessage) (\<lambda>_. ret None)
         else throw err)"

definition isSyncTokenExpired :: "api_error \<Rightarrow> bool" where
  "isSyncTokenExpired e = (case e of Sync_Token_Expired _ _ \<Rightarrow> True | _ \<Rightarrow> False)"

definition isTokenExpired :: "api_error \<Rightarrow> bool" where
  "isTokenExpired e = (case e of Token_Expired _ _ \<Rightarrow> True | _ \<Rightarrow> False)"

definition askFullSync :: "('c, 'p) sync_env \<Rightarrow> string \<Rightarrow> ('c, 'p, fetch_result option) sync_op" where
  "askFullSync se acct = andThen (sendSync se (SYNC_FULL acct ''token_410'')) (\<lambda>_. ret None)"

text \<open>The fetch of an incremental sync with its error branches; nothing when the handler returns early.\<close>

definition fetchOrRecover ::
  "('c, 'p) sync_env \<Rightarrow> string \<Rightarrow> api_family \<Rightarrow> string \<Rightarrow> string option \<Rightarrow> ('c, 'p, fetch_result option) sync_op" where
  "fetchOrRecover se acct family token target =
     andThen (attempt (fetchIncrementalProviderEvents se acct family token target)) (\<lambda>r.
     case r of
       Inr fr \<Rightarrow> ret (Some fr)
     | Inl err \<Rightarrow>
         if isSyncTokenExpired err then askFullSync se acct
         else if isTokenExpired err
         then andThen (refreshAndGetToken se acct family) (\<lambda>fresh.
              andThen (attempt (fetchIncrementalProviderEvents se acct family fresh target)) (\<lambda>r'.
              case r' of
                Inr fr \<Rightarrow> ret (Some fr)
              | Inl retryErr \<Rightarrow> if isSyncTokenExpired retryErr then askFullSync se acct else throw retryErr))
         else if hasStatus 403 err
         then andThen (markFailed se acct ''Insufficient scope (403)'') (\<lambda>_. ret None)
         else throw err)"

definition handleIncrementalSync ::
  "('c, 'p) sync_env \<Rightarrow> string \<Rightarrow> string option \<Rightarrow> ('c, 'p, unit) sync_op" where
  "handleIncrementalSync se acct target =
     andThen (lookupProvider se acct) (\<lambda>family.
     andThen (tokenOrGiveUp se acct family) (\<lambda>token.
     case token of
       None \<Rightarrow> ret ()
     | Some accessToken \<Rightarrow>
         andThen (fetchOrRecover se acct family accessToken target) (\<lambda>fetched.
         case fetched of
           None \<Rightarrow> ret ()
         | Some fr \<Rightarrow>
             andThen (processAndApplyDeltas se acct (fr_events fr)) (\<lambda>_.
             concludeSync se acct family (fr_cursors fr)))))"

definition fetchFullOrRecover ::
  "('c, 'p) sync_env \<Rightarrow> string \<Rightarrow> api_family \<Rightarrow> string \<Rightarrow> ('c, 'p, fetch_result option) sync_op" where
  "fetchFullOrRecover se acct family token =
     andThen (attempt (fetchFullProviderEvents se acct family token)) (\<lambda>r.
     case r of
       Inr fr \<Rightarrow> ret (Some fr)
     | Inl err \<Rightarrow>
         if isTokenExpired err
         then andThen (refreshAndGetToken se acct family) (\<lambda>fresh.
              andThen (fetchFullProviderEvents se acct family fresh) (\<lambda>fr. ret (Some fr)))
         else if hasStatus 403 err
         then andThen (markFailed se acct ''Insufficient scope (403)'') (\<lambda>_. ret None)
         else throw err)"

definition dropStaleMirrors ::
  "('c, 'p) sync_env \<Rightarrow> string \<Rightarrow> fetch_result \<Rightarrow> ('c, 'p, unit) sync_op" where
  "dropStaleMirrors se acct fr =
     andThen (lookupUserId se acct) (\<lambda>user.
     if truthy user
     then andThen (findMissingManagedMirrorProviderEventIds se acct (the user) (fr_events fr) (fr_skipped fr)) (\<lambda>ids.
          if ids \<noteq> [] then applyManagedMirrorDeletes se (the user) acct ids else ret ())
     else ret ())"

definition handleFullSync :: "('c, 'p) sync_env \<Rightarrow> string \<Rightarrow> ('c, 'p, unit) sync_op" where
  "handleFullSync se acct =
     andThen (lookupProvider se acct) (\<lambda>family.
     andThen (tokenOrGiveUp se acct family) (\<lambda>token.
     case token of
       None \<Rightarrow> ret ()
     | Some accessToken \<Rightarrow>
         andThen (fetchFullOrRecover se acct family accessToken) (\<lambda>fetched.
         case fetched of
           None \<Rightarrow> ret ()
         | Some fr \<Rightarrow>
             andThen (processAndApplyDeltas se acct (fr_events fr)) (\<lambda>_.
             andThen (if family = Google_api then dropStaleMirrors se acct fr else ret ()) (\<lambda>_.
             andThen (pruneMissingOriginEvents se acct (fr_events fr) family) (\<lambda>_.
             concludeSync se acct family (fr_cursors fr)))))))"

text \<open>One message of the batch: an exception asks for another delivery, anything else is acknowledged.\<close>

definition handleSyncMessage :: "('c, 'p) sync_env \<Rightarrow> sync_message \<Rightarrow> ('c, 'p, decision) sync_op" where
  "handleSyncMessage se m =
     andThen (attempt (case m of
                SYNC_INCREMENTAL acct cal \<Rightarrow> handleIncrementalSync se acct cal
              | SYNC_FULL acct reason \<Rightarrow> handleFullSync se acct
              | Unknown_Message t \<Rightarrow> ret ())) (\<lambda>r.
     ret (case r of Inl _ \<Rightarrow> Retry | Inr _ \<Rightarrow> Ack))"

fun syncQueue :: "('c, 'p) sync_env \<Rightarrow> sync_message list \<Rightarrow> ('c, 'p, decision list) sync_op" where
  "syncQueue se [] = ret []"
| "syncQueue se (m # ms) =
     andThen (handleSyncMessage se m) (\<lambda>d. andThen (syncQueue se ms) (\<lambda>ds. ret (d # ds)))"

end
