(* ===== verification/Sync_Laws.thy ===== *)
theory Sync_Laws
  imports Sync_Handlers Delta_Laws
begin

text \<open>
  What the sync consumer guarantees: events of the system's own making never enter the graph as origins, retries are
  bounded, pruning spares what the provider shows; and what it does not: a delta the graph refuses is forgotten once
  the cursor has moved.
\<close>

section \<open>Managed events are never origins\<close>

definition originIdsOf :: "user_graph \<Rightarrow> string set" where
  "originIdsOf s = ce_origin_event_id ` set (canonical_events s)"

definition idsIn :: "string set \<Rightarrow> user_graph \<Rightarrow> bool" where
  "idsIn I s \<longleftrightarrow> originIdsOf s \<subseteq> I"

named_theorems idsIn_keeps \<open>methods that bring no other origin id into the graph\<close>

lemma idsIn_events: "(\<And>r. r \<in> set es \<Longrightarrow> ce_origin_event_id r \<in> I) \<Longrightarrow> canonical_events t = es \<Longrightarrow> idsIn I t"
  by (auto simp: idsIn_def originIdsOf_def)

lemma idsIn_same: "canonical_events t = canonical_events s \<Longrightarrow> idsIn I t = idsIn I s"
  by (simp add: idsIn_def originIdsOf_def)

lemma idsIn_statements [idsIn_keeps]:
  "keeps (idsIn I) (freshId env ty)" "keeps (idsIn I) (insertMirrorRow m)" "keeps (idsIn I) (updateMirrorRows P f)"
  "keeps (idsIn I) (deleteMirrorRows P)" "keeps (idsIn I) (insertJournalRow j)" "keeps (idsIn I) (sendWrite env ms)"
  "keeps (idsIn I) (sendDelete env ms)" "keeps (idsIn I) (insertOrIgnoreParticipant cid h)"
  "keeps (idsIn I) (modify (\<lambda>s. s\<lparr> event_participants := g s \<rparr>))"
  "keeps (idsIn I) (modify (\<lambda>s. s\<lparr> relationships := h' s \<rparr>))"
  by (rule keepsI; simp add: freshId_def insertMirrorRow_def updateMirrorRows_def deleteMirrorRows_def
      insertJournalRow_def sendWrite_def sendDelete_def insertOrIgnoreParticipant_def idsIn_def originIdsOf_def)+

lemma idsIn_journal [idsIn_keeps]: "keeps (idsIn I) (writeJournal env cid ct actor p reason)"
  unfolding writeJournal_def by (intro keeps_intro idsIn_keeps)

lemma idsIn_insert [idsIn_keeps]: "ce_origin_event_id r \<in> I \<Longrightarrow> keeps (idsIn I) (insertEventRow r)"
  by (rule keepsI) (auto simp: insertEventRow_def idsIn_def originIdsOf_def)

lemma idsIn_update [idsIn_keeps]:
  assumes "keepsEventKeys f"
  shows "keeps (idsIn I) (updateEventRow cid f)" "keeps (idsIn I) (rebindEventRow cid acct f)"
  using assms
  by (auto intro!: keepsI simp: updateEventRow_def rebindEventRow_def idsIn_def originIdsOf_def set_updateRows
      keepsEventKeys_def image_subset_iff)

lemma idsIn_delete [idsIn_keeps]: "keeps (idsIn I) (deleteEventRows P)"
  by (rule keepsI) (auto simp: deleteEventRows_def idsIn_def originIdsOf_def Let_def)

lemma idsIn_enqueue [idsIn_keeps]:
  "keeps (idsIn I) (enqueueDeleteMirror env m)" "keeps (idsIn I) (enqueueUpsertMirror env u ms)"
  unfolding enqueueDeleteMirror_def enqueueUpsertMirror_def by (intro keeps_intro idsIn_keeps)+

lemma idsIn_projection [idsIn_keeps]: "keeps (idsIn I) (projectAndEnqueue env cid acct opts)"
  unfolding projectAndEnqueue_def projectEdge_def Let_def by (intro keeps_intro idsIn_keeps)

lemma idsIn_created [idsIn_keeps]:
  assumes "pd_origin_event_id d \<in> I"
  shows "keeps (idsIn I) (handleCreated env acct d)"
  unfolding handleCreated_def Let_def
  by (intro keeps_intro idsIn_keeps keepsEventKeys_set) (simp add: newEventRow_def assms)

lemma idsIn_updated [idsIn_keeps]:
  assumes "pd_origin_event_id d \<in> I"
  shows "keeps (idsIn I) (handleUpdated env acct d)"
  unfolding handleUpdated_def Let_def
  by (intro keeps_intro idsIn_keeps keepsEventKeys_set assms)

lemma idsIn_removal [idsIn_keeps]:
  "keeps (idsIn I) (enqueueMirrorDeletes env cid ms)" "keeps (idsIn I) (removeEvent cid)"
  unfolding enqueueMirrorDeletes_def removeEvent_def by (intro keeps_intro idsIn_keeps)+

lemma idsIn_deleted [idsIn_keeps]:
  "keeps (idsIn I) (handleDeleted env acct d)" "keeps (idsIn I) (deleteCanonicalEvent env cid source)"
  unfolding handleDeleted_def deleteCanonicalEvent_def Let_def by (intro keeps_intro idsIn_keeps)+

lemma idsIn_participants [idsIn_keeps]: "keeps (idsIn I) (recordParticipants env d cid)"
  unfolding recordParticipants_def storeEventParticipants_def updateInteractions_def
  by (intro keeps_intro idsIn_keeps)

lemma idsIn_applyDelta:
  assumes "pd_origin_event_id d \<in> I"
  shows "keeps (idsIn I) (applyDelta env acct d res)"
proof -
  have after: "keeps (idsIn I) (afterWrite env acct d cid res)" for cid res
    unfolding afterWrite_def Let_def by (intro keeps_orRecord keeps_intro idsIn_keeps)
  show ?thesis
    unfolding applyDelta_def
    by (cases "pd_type d") (auto intro!: keeps_orRecord keeps_intro idsIn_keeps after assms)
qed

lemma idsIn_applyProviderDelta [idsIn_keeps]:
  assumes "\<And>d. d \<in> set ds \<Longrightarrow> pd_origin_event_id d \<in> I"
  shows "keeps (idsIn I) (applyProviderDelta env acct ds)"
proof -
  have "keeps (idsIn I) (applyDeltas env acct ds res)" for res
    using assms by (induction ds arbitrary: res) (auto intro!: keeps_intro idsIn_applyDelta)
  then show ?thesis by (simp add: applyProviderDelta_def)
qed

lemma idsIn_queries [idsIn_keeps]:
  "keeps (idsIn I) (findCanonicalByMirror a p)" "keeps (idsIn I) (getActiveMirrors a)"
  "keeps (idsIn I) (listCanonicalEvents q)"
  unfolding findCanonicalByMirror_def getActiveMirrors_def listCanonicalEvents_def by (intro keeps_intro)+

text \<open>The same of the world of the worker, for the graph of one user.\<close>

definition userIdsIn :: "string \<Rightarrow> string set \<Rightarrow> ('c, 'p) sync_world \<Rightarrow> bool" where
  "userIdsIn user I w \<longleftrightarrow> idsIn I (sw_graph w user)"

lemma user_callGraph:
  assumes "keeps (idsIn I) m"
  shows "keeps (userIdsIn user I) (callGraph se u name m)"
proof (rule keepsI)
  show "userIdsIn user I (snd (callGraph se u name m w))" if w: "userIdsIn user I w" for w
  proof -
    obtain r g where m: "m (sw_graph w u) = (r, g)" by force
    then have "idsIn I (sw_graph w u) \<Longrightarrow> idsIn I g" using keepsD [OF assms, of "sw_graph w u"] by simp
    with w m show ?thesis
      by (auto simp: callGraph_def userIdsIn_def oneCall_def Let_def split: rpc_fate.split sum.split)
  qed
qed

lemma user_findByVariants: "keeps (userIdsIn user I) (findByVariants se u acct vs)"
  by (induction vs) (auto intro!: keeps_intro user_callGraph idsIn_keeps)

lemma user_sortEvent: "keeps (userIdsIn user I) (sortEvent se u acct ids raw so)"
  unfolding sortEvent_def findCanonicalIdByMirror_def Let_def
  by (intro keeps_intro user_findByVariants)

lemma user_sortEvents: "keeps (userIdsIn user I) (sortEvents se u acct ids raws so)"
  by (induction raws arbitrary: so) (auto intro!: keeps_intro user_sortEvent)

lemma user_resolveMirrors: "keeps (userIdsIn user I) (resolveMirrors se u acct pids found)"
proof (induction pids arbitrary: found)
  case (Cons pid pids)
  then show ?case
    unfolding resolveMirrors.simps findCanonicalIdByMirror_def by (intro keeps_intro user_findByVariants)
qed (simp add: keeps_ret)

lemma user_managedDeletes: "keeps (userIdsIn user I) (applyManagedMirrorDeletes se u acct pids)"
  unfolding applyManagedMirrorDeletes_def deleteCanonicalById_def
  by (intro keeps_intro user_resolveMirrors user_callGraph idsIn_keeps)

lemma user_applyDeltas:
  assumes "\<And>d. d \<in> set ds \<Longrightarrow> canonicalizeProviderEventId (pd_origin_event_id d) \<in> I"
  shows "keeps (userIdsIn user I) (applyProviderDeltas se u acct ds)"
  unfolding applyProviderDeltas_def
  by (intro keeps_intro user_callGraph idsIn_keeps) (auto simp: canonDelta_def assms)

lemma user_requireUser: "keeps (userIdsIn user I) (requireUser se acct)"
  unfolding requireUser_def lookupUserId_def
  by (auto intro!: keeps_intro simp: keeps_def throw_def ret_def andThen_def split: sum.split)

text \<open>The ids the events of a batch may bring: those of the events that are not managed.\<close>

definition broughtIds :: "string list \<Rightarrow> raw_event list \<Rightarrow> string set" where
  "broughtIds mirrorIds events =
     {canonicalizeProviderEventId (nullish (rawId e) []) |e. e \<in> set events \<and> classifyProviderEvent mirrorIds e \<noteq> Managed_Mirror}"

lemma normalized_id: "pd_origin_event_id (normalizeProviderEvent raw acct cls) = nullish (rawId raw) []"
  by (cases raw) (simp_all add: normalizeGoogleEvent_def normalizeMicrosoftEvent_def Let_def)

lemma sortEvent_brings:
  assumes "\<forall>d \<in> set (so_deltas so). pd_origin_event_id d \<in> B"
    and "classifyProviderEvent ids raw \<noteq> Managed_Mirror \<Longrightarrow> canonicalizeProviderEventId (nullish (rawId raw) []) \<in> B"
    and "sortEvent se u acct ids raw so w = (Inr so', w')"
  shows "\<forall>d \<in> set (so_deltas so'). pd_origin_event_id d \<in> B"
  using assms
  by (auto simp: sortEvent_def Let_def ret_def andThen_result addManaged_def addDelta_def canonDelta_def normalized_id
      split: if_splits)

lemma sortEvents_brings:
  assumes "\<forall>d \<in> set (so_deltas so). pd_origin_event_id d \<in> B" and "broughtIds ids raws \<subseteq> B"
    and "sortEvents se u acct ids raws so w = (Inr so', w')"
  shows "\<forall>d \<in> set (so_deltas so'). pd_origin_event_id d \<in> B"
  using assms
proof (induction raws arbitrary: so w)
  case (Cons raw raws)
  obtain so1 w1 where first: "sortEvent se u acct ids raw so w = (Inr so1, w1)"
    and rest: "sortEvents se u acct ids raws so1 w1 = (Inr so', w')"
    using Cons.prems(3) by (auto simp: andThen_result)
  have "\<forall>d \<in> set (so_deltas so1). pd_origin_event_id d \<in> B"
    by (rule sortEvent_brings [OF Cons.prems(1) _ first]) (use Cons.prems(2) in \<open>auto simp: broughtIds_def\<close>)
  moreover have "broughtIds ids raws \<subseteq> B" using Cons.prems(2) by (auto simp: broughtIds_def)
  ultimately show ?case using rest by (rule Cons.IH)
qed (simp add: ret_def)

lemma brought_canonical: "i \<in> broughtIds ids events \<Longrightarrow> canonicalizeProviderEventId i = i"
  by (auto simp: broughtIds_def canonicalize_idem)

text \<open>The registry's user of an account.\<close>

definition userOf :: "('c, 'p) sync_env \<Rightarrow> string \<Rightarrow> string option" where
  "userOf se acct = (case we_account (se_worker se) acct of Inr (Some (u, p)) \<Rightarrow> Some u | _ \<Rightarrow> None)"

lemma requireUser_run:
  assumes "requireUser se acct w = (Inr u, w')"
  shows "userOf se acct = Some u" and "w' = w"
  using assms
  by (auto simp: requireUser_def lookupUserId_def userOf_def andThen_def throw_def ret_def
      split: sum.splits if_splits option.splits elim!: truthy.elims)

definition activeMirrors :: "string \<Rightarrow> user_graph \<Rightarrow> mirror_row list" where
  "activeMirrors acct s = filter (\<lambda>m. em_target_account_id m = acct \<and> em_state m = ACTIVE) (event_mirrors s)"

lemma loadActiveMirrors_run:
  assumes "loadActiveMirrors se acct u w = (Inr ms, w')"
  shows "ms = activeMirrors acct (sw_graph w u)" and "sw_graph w' = sw_graph w"
  using assms
  by (auto simp: loadActiveMirrors_def callGraph_def getActiveMirrors_def activeMirrors_def oneCall_def Let_def
      split: rpc_fate.splits)

lemma user_load: "keeps (userIdsIn user I) (loadActiveMirrors se acct u)"
  unfolding loadActiveMirrors_def by (intro user_callGraph idsIn_keeps)

lemma process_brings:
  assumes user: "userOf se acct = Some user" and ids: "originIdsOf (sw_graph w user) \<subseteq> I"
    and brought: "broughtIds (managedMirrorEventIds (activeMirrors acct (sw_graph w user))) events \<subseteq> I"
  shows "userIdsIn user I (snd (processAndApplyDeltas se acct events w))"
proof (cases "events = [] \<or> (\<nexists>u v. requireUser se acct w = (Inr u, v))")
  case True
  have "snd (requireUser se acct w) = w"
    by (auto simp: requireUser_def lookupUserId_def andThen_def throw_def ret_def split: sum.split)
  then show ?thesis
    using True ids
    by (cases "requireUser se acct w"; cases "fst (requireUser se acct w)")
      (auto simp: processAndApplyDeltas_def userIdsIn_def idsIn_def andThen_def ret_def)
next
  case False
  then obtain u v where "requireUser se acct w = (Inr u, v)" by blast
  with requireUser_run user have run: "requireUser se acct w = (Inr user, w)" by force
  let ?rest = "\<lambda>so. andThen (if so_deltas so \<noteq> [] then applyProviderDeltas se user acct (so_deltas so) else ret ()) (\<lambda>_.
      andThen (if so_managed so \<noteq> [] then applyManagedMirrorDeletes se user acct (so_managed so) else ret ()) (\<lambda>_.
      ret (length (so_deltas so))))"
  have w: "userIdsIn user I w" using ids by (simp add: userIdsIn_def idsIn_def)
  obtain r1 w1 where load: "loadActiveMirrors se acct user w = (r1, w1)" by force
  have w1: "userIdsIn user I w1" using keepsD [OF user_load w, of se acct user] load by simp
  show ?thesis
  proof (cases r1)
    case (Inl e)
    with load w1 run False show ?thesis by (simp add: processAndApplyDeltas_def andThen_def)
  next
    case (Inr ms)
    let ?ids = "managedMirrorEventIds ms"
    have ms: "ms = activeMirrors acct (sw_graph w user)" using loadActiveMirrors_run load Inr by blast
    obtain r2 w2 where sort: "sortEvents se user acct ?ids events nothingSorted w1 = (r2, w2)" by force
    have w2: "userIdsIn user I w2"
      using keepsD [OF user_sortEvents w1, of se user acct ?ids events nothingSorted] sort by simp
    show ?thesis
    proof (cases r2)
      case (Inl e)
      with load sort w2 run False Inr show ?thesis by (simp add: processAndApplyDeltas_def andThen_def)
    next
      case so: (Inr so)
      have "\<forall>d \<in> set (so_deltas so). pd_origin_event_id d \<in> broughtIds ?ids events"
        by (rule sortEvents_brings [where so = nothingSorted and w = w1])
          (use sort so in \<open>simp_all add: nothingSorted_def\<close>)
      then have "\<forall>d \<in> set (so_deltas so). canonicalizeProviderEventId (pd_origin_event_id d) \<in> I"
        using brought ms brought_canonical by (metis subsetD)
      then have "keeps (userIdsIn user I) (?rest so)"
        by (intro keeps_intro user_applyDeltas user_managedDeletes) blast
      from keepsD [OF this w2] show ?thesis
        using load sort run False Inr so by (simp add: processAndApplyDeltas_def andThen_def)
    qed
  qed
qed

section \<open>Which listed events are strangers\<close>

text \<open>
  The markers as the two providers show them, and the provider's id of an active mirror in the spellings it may come
  in, said of the payload and the tables alone.
\<close>

fun carriesMarker :: "raw_event \<Rightarrow> bool" where
  "carriesMarker (Google_Raw g) \<longleftrightarrow>
     (\<exists>ps. ge_private g = Some ps \<and> map_of ps ''tminus'' = Some ''true'' \<and> map_of ps ''managed'' = Some ''true'')"
| "carriesMarker (Ms_Raw m) \<longleftrightarrow>
     (\<exists>cs. ms_categories m = Some cs \<and> ''T-Minus Managed'' \<in> set cs) \<or>
     (\<exists>xs x. ms_extensions m = Some xs \<and> find (\<lambda>x. mx_extensionName x = Some ''com.tminus.metadata'') xs = Some x \<and>
        map_of (mx_fields x) ''tminus'' = Some (JStr ''true'') \<and> map_of (mx_fields x) ''managed'' = Some (JStr ''true''))"

definition spelledAs :: "string \<Rightarrow> string \<Rightarrow> bool" where
  "spelledAs p i \<longleftrightarrow> i = p \<or> CHR ''%'' \<in> set p \<and> decodeURIComponent p = Some i \<or>
     CHR ''%'' \<notin> set p \<and> i = encodeURIComponent p"

definition isActiveMirrorId :: "string \<Rightarrow> user_graph \<Rightarrow> string \<Rightarrow> bool" where
  "isActiveMirrorId acct g i \<longleftrightarrow> i \<noteq> [] \<and>
     (\<exists>m \<in> set (event_mirrors g). em_target_account_id m = acct \<and> em_state m = ACTIVE \<and>
        (\<exists>p. em_provider_event_id m = Some p \<and> p \<noteq> [] \<and> spelledAs p i))"

definition strangerIds :: "string \<Rightarrow> user_graph \<Rightarrow> raw_event list \<Rightarrow> string set" where
  "strangerIds acct g events =
     {canonicalizeProviderEventId i | i e. e \<in> set events \<and> i = nullish (rawId e) [] \<and>
        \<not> carriesMarker e \<and> \<not> isActiveMirrorId acct g i}"

lemma carriesMarker_classified: "carriesMarker e \<Longrightarrow> classifyRaw e = Managed_Mirror"
  by (cases e) (auto simp: classifyEvent_def classifyMicrosoftEvent_def Let_def)

lemma spelledAs_variant: "spelledAs p i \<Longrightarrow> i \<noteq> [] \<Longrightarrow> i \<in> set (providerEventIdVariants p)"
  by (auto simp: spelledAs_def providerEventIdVariants_def decodeProviderEventIdSafe_def Let_def split: option.split)

lemma activeMirror_listed:
  assumes "isActiveMirrorId acct g i"
  shows "i \<in> set (managedMirrorEventIds (activeMirrors acct g))"
proof -
  from assms obtain m p where m: "m \<in> set (activeMirrors acct g)" "em_provider_event_id m = Some p" "p \<noteq> []"
    and i: "i \<in> set (providerEventIdVariants p)"
    by (auto simp: isActiveMirrorId_def activeMirrors_def intro: spelledAs_variant)
  have "truthy (em_provider_event_id m)" using m(2,3) by simp
  with m i show ?thesis unfolding managedMirrorEventIds_def by (auto intro!: bexI [of _ m])
qed

lemma brought_strangers:
  "broughtIds (managedMirrorEventIds (activeMirrors acct g)) events \<subseteq> strangerIds acct g events"
proof
  fix x assume "x \<in> broughtIds (managedMirrorEventIds (activeMirrors acct g)) events"
  then obtain e where x: "x = canonicalizeProviderEventId (nullish (rawId e) [])" and e: "e \<in> set events"
    and cls: "classifyProviderEvent (managedMirrorEventIds (activeMirrors acct g)) e \<noteq> Managed_Mirror"
    by (auto simp: broughtIds_def)
  from cls have "\<not> carriesMarker e" using carriesMarker_classified by (auto simp: classifyProviderEvent_def)
  moreover have "\<not> isActiveMirrorId acct g (nullish (rawId e) [])"
  proof
    assume "isActiveMirrorId acct g (nullish (rawId e) [])"
    moreover from this have "truthy (rawId e)" by (cases "rawId e") (auto simp: isActiveMirrorId_def)
    ultimately show False using cls activeMirror_listed
      by (cases "rawId e") (auto simp: classifyProviderEvent_def split: if_splits)
  qed
  ultimately show "x \<in> strangerIds acct g events" using x e by (auto simp: strangerIds_def)
qed

end
