(* ===== verification/Sync_Runs.thy ===== *)
theory Sync_Runs
  imports Sync_Laws
begin

text \<open>
  Runs of the sync consumer in which every call is delivered: retries, the token, the cursors, and an incremental
  sync from the message to the moved cursor.
\<close>

section \<open>Retries\<close>

text \<open>What the two counters leave to sleep.\<close>

definition sleepLeft :: "nat \<Rightarrow> nat \<Rightarrow> nat" where
  "sleepLeft a b = 1000 * (2 ^ 5 - 2 ^ a) + 2000 * (2 ^ 3 - 2 ^ b)"

lemma sleepLeft_429: "a < 5 \<Longrightarrow> 1000 * 2 ^ a + sleepLeft (a + 1) b = sleepLeft a b"
proof -
  assume "a < 5"
  then have "a \<in> {0, 1, 2, 3, 4}" by auto
  then show ?thesis by (auto simp: sleepLeft_def)
qed

lemma sleepLeft_5xx: "b < 3 \<Longrightarrow> 2000 * 2 ^ b + sleepLeft a (b + 1) = sleepLeft a b"
proof -
  assume "b < 3"
  then have "b \<in> {0, 1, 2}" by auto
  then show ?thesis by (auto simp: sleepLeft_def)
qed

text \<open>\<open>es\<close> are the errors of the calls made from \<open>p\<close> on, one after the other, and \<open>q\<close> is what they leave.\<close>

fun failedCalls :: "(api_error, 'p, 'a) eop \<Rightarrow> 'p \<Rightarrow> api_error list \<Rightarrow> 'p \<Rightarrow> bool" where
  "failedCalls c p [] q \<longleftrightarrow> q = p"
| "failedCalls c p (e # es) q \<longleftrightarrow> fst (c p) = Inl e \<and> failedCalls c (snd (c p)) es q"

definition rateLimits :: "api_error list \<Rightarrow> nat" where
  "rateLimits es = length (filter isRateLimit es)"

definition otherErrors :: "api_error list \<Rightarrow> nat" where
  "otherErrors es = length (filter (\<lambda>e. \<not> isRateLimit e) es)"

text \<open>A last error that would have been worth another call, had there not been as many of its kind already.\<close>

definition givenUp :: "nat \<Rightarrow> nat \<Rightarrow> api_error list \<Rightarrow> api_error + 'a \<Rightarrow> bool" where
  "givenUp a b es r \<longleftrightarrow>
     (case r of
        Inr _ \<Rightarrow> True
      | Inl e \<Rightarrow> (isRateLimit e \<longrightarrow> a + rateLimits es = 5) \<and>
                 (\<not> isRateLimit e \<and> isServerError e \<longrightarrow> b + otherErrors es = 3))"

definition retriedAs ::
  "nat \<Rightarrow> nat \<Rightarrow> (api_error, 'p, 'a) eop \<Rightarrow> ('c, 'p) sync_world \<Rightarrow> api_error list \<Rightarrow> nat list \<Rightarrow> 'p \<Rightarrow> bool" where
  "retriedAs a b c w es ds p \<longleftrightarrow>
     failedCalls c (sw_provider w) es p \<and> (\<forall>e \<in> set es. isRateLimit e \<or> isServerError e) \<and>
     retryFrom a b (onClient c) w =
       (fst (c p), w\<lparr> sw_provider := snd (c p), sw_sleeps := sw_sleeps w @ ds \<rparr>) \<and>
     length ds = length es \<and> sum_list ds \<le> sleepLeft a b \<and>
     a + rateLimits es \<le> 5 \<and> b + otherErrors es \<le> 3 \<and> givenUp a b es (fst (c p))"

lemma retriedAs_last:
  assumes "a \<le> 5" and "b \<le> 3"
    and "retryFrom a b (onClient c) w = (fst (c (sw_provider w)), w\<lparr> sw_provider := snd (c (sw_provider w)) \<rparr>)"
    and "givenUp a b [] (fst (c (sw_provider w)))"
  shows "\<exists>es ds p. retriedAs a b c w es ds p"
  using assms by (intro exI [of _ "[]"] exI [of _ "sw_provider w"]) (simp add: retriedAs_def rateLimits_def otherErrors_def)

lemma retriedAs_step:
  assumes err: "fst (c (sw_provider w)) = Inl e" and worth: "isRateLimit e \<or> isServerError e"
    and step: "retryFrom a b (onClient c) w = retryFrom a' b' (onClient c) (sleepFor d (w\<lparr> sw_provider := snd (c (sw_provider w)) \<rparr>))"
    and left: "d + sleepLeft a' b' = sleepLeft a b"
    and counts: "a' = (if isRateLimit e then a + 1 else a)" "b' = (if isRateLimit e then b else b + 1)"
    and rest: "retriedAs a' b' c (sleepFor d (w\<lparr> sw_provider := snd (c (sw_provider w)) \<rparr>)) es ds p"
  shows "retriedAs a b c w (e # es) (d # ds) p"
  using assms by (auto simp: retriedAs_def sleepFor_def givenUp_def rateLimits_def otherErrors_def split: sum.splits)

lemma onClient_run: "onClient c w = (fst (c (sw_provider w)), w\<lparr> sw_provider := snd (c (sw_provider w)) \<rparr>)"
  by (simp add: onClient_def split: prod.split)

lemma retryFrom_calls:
  assumes "a \<le> 5" and "b \<le> 3"
  shows "\<exists>es ds p. retriedAs a b c w es ds p"
  using assms
proof (induction "(5 - a) + (3 - b)" arbitrary: a b w rule: less_induct)
  case less
  let ?v = "w\<lparr> sw_provider := snd (c (sw_provider w)) \<rparr>"
  show ?case
  proof (cases "fst (c (sw_provider w))")
    case (Inr x)
    then show ?thesis
      by (intro retriedAs_last less.prems) (simp_all add: retryFrom.simps onClient_run givenUp_def)
  next
    case (Inl e)
    show ?thesis
    proof (cases "isRateLimit e \<and> a < 5")
      case True
      then have "(5 - (a + 1)) + (3 - b) < (5 - a) + (3 - b)" by arith
      from less.hyps [OF this, of "sleepFor (1000 * 2 ^ a) ?v"] True less.prems(2)
      obtain es ds p where "retriedAs (a + 1) b c (sleepFor (1000 * 2 ^ a) ?v) es ds p" by auto
      moreover have "retryFrom a b (onClient c) w = retryFrom (a + 1) b (onClient c) (sleepFor (1000 * 2 ^ a) ?v)"
        using True Inl by (subst retryFrom.simps) (simp add: onClient_run)
      ultimately have "retriedAs a b c w (e # es) ((1000 * 2 ^ a) # ds) p"
        using True Inl sleepLeft_429 [of a b] by (intro retriedAs_step [where a' = "a + 1" and b' = b]) simp_all
      then show ?thesis by blast
    next
      case no429: False
      show ?thesis
      proof (cases "\<not> isRateLimit e \<and> isServerError e \<and> b < 3")
        case True
        then have "(5 - a) + (3 - (b + 1)) < (5 - a) + (3 - b)" by arith
        from less.hyps [OF this, of "sleepFor (2000 * 2 ^ b) ?v"] True less.prems(1)
        obtain es ds p where "retriedAs a (b + 1) c (sleepFor (2000 * 2 ^ b) ?v) es ds p" by auto
        moreover have "retryFrom a b (onClient c) w = retryFrom a (b + 1) (onClient c) (sleepFor (2000 * 2 ^ b) ?v)"
          using True Inl by (subst retryFrom.simps) (simp add: onClient_run)
        ultimately have "retriedAs a b c w (e # es) ((2000 * 2 ^ b) # ds) p"
          using True Inl sleepLeft_5xx [of b a] by (intro retriedAs_step [where a' = a and b' = "b + 1"]) simp_all
        then show ?thesis by blast
      next
        case False
        with no429 Inl have "retryFrom a b (onClient c) w = (Inl e, ?v)"
          by (subst retryFrom.simps) (auto simp: onClient_run)
        moreover have "givenUp a b [] (fst (c (sw_provider w)))"
          using no429 False less.prems Inl by (auto simp: givenUp_def rateLimits_def otherErrors_def)
        ultimately show ?thesis using Inl by (intro retriedAs_last less.prems) simp_all
      qed
    qed
  qed
qed

lemma retry_calls:
  obtains es ds p where "failedCalls c (sw_provider w) es p" and "\<forall>e \<in> set es. isRateLimit e \<or> isServerError e"
    and "retryWithBackoff (onClient c) w = (fst (c p), w\<lparr> sw_provider := snd (c p), sw_sleeps := sw_sleeps w @ ds \<rparr>)"
    and "length ds = length es" and "sum_list ds \<le> 45000" and "rateLimits es \<le> 5" and "otherErrors es \<le> 3"
    and "givenUp 0 0 es (fst (c p))"
proof -
  obtain es ds p where "retriedAs 0 0 c w es ds p" using retryFrom_calls [of 0 0 c w] by auto
  then have run: "failedCalls c (sw_provider w) es p" "\<forall>e \<in> set es. isRateLimit e \<or> isServerError e"
      "retryFrom 0 0 (onClient c) w = (fst (c p), w\<lparr> sw_provider := snd (c p), sw_sleeps := sw_sleeps w @ ds \<rparr>)"
    and counts: "length ds = length es" "sum_list ds \<le> sleepLeft 0 0" "rateLimits es \<le> 5" "otherErrors es \<le> 3"
      "givenUp 0 0 es (fst (c p))"
    unfolding retriedAs_def by simp_all
  have "sleepLeft 0 0 = 45000" by (simp add: sleepLeft_def)
  with counts(2) have short: "sum_list ds \<le> 45000" by simp
  show thesis by (rule that [OF run(1,2) _ counts(1) short counts(3-5)]) (simp add: retryWithBackoff_def run(3))
qed

lemma errors_split: "length es = rateLimits es + otherErrors es"
  unfolding rateLimits_def otherErrors_def by (rule sum_length_filter_compl [symmetric])

lemma retry_success: "fn w = (Inr x, w') \<Longrightarrow> retryWithBackoff fn w = (Inr x, w')"
  by (simp add: retryWithBackoff_def retryFrom.simps)


section \<open>Delivered calls\<close>

definition allDelivered :: "('c, 'p) sync_env \<Rightarrow> bool" where
  "allDelivered se \<longleftrightarrow> (\<forall>n. we_fate (se_worker se) n = Delivered)"

definition withGraph :: "string \<Rightarrow> user_graph \<Rightarrow> ('c, 'p) sync_world \<Rightarrow> ('c, 'p) sync_world" where
  "withGraph user g w = (oneCall w)\<lparr> sw_graph := (sw_graph w)(user := g) \<rparr>"

definition withAccount :: "string \<Rightarrow> 'c account \<Rightarrow> ('c, 'p) sync_world \<Rightarrow> ('c, 'p) sync_world" where
  "withAccount acct a w = (oneCall w)\<lparr> sw_account := (sw_account w)(acct := a) \<rparr>"

lemma world_parts [simp]:
  "sw_graph (withGraph u g w) = (sw_graph w)(u := g)" "sw_account (withGraph u g w) = sw_account w"
  "sw_provider (withGraph u g w) = sw_provider w" "sw_sleeps (withGraph u g w) = sw_sleeps w"
  "sw_graph (withAccount k a w) = sw_graph w" "sw_account (withAccount k a w) = (sw_account w)(k := a)"
  "sw_provider (withAccount k a w) = sw_provider w" "sw_sleeps (withAccount k a w) = sw_sleeps w"
  by (simp_all add: withGraph_def withAccount_def oneCall_def)

lemma callGraph_ok:
  "allDelivered se \<Longrightarrow> m (sw_graph w u) = (Inr x, g) \<Longrightarrow> callGraph se u name m w = (Inr x, withGraph u g w)"
  by (simp add: callGraph_def allDelivered_def withGraph_def oneCall_def)

lemma callAccount_run:
  "allDelivered se \<Longrightarrow> route (se_env se) q (sw_account w acct) = (Inr r, a) \<Longrightarrow>
   callAccount se acct q w = (Inr r, withAccount acct a w)"
  by (simp add: callAccount_def handleFetch_def allDelivered_def withAccount_def oneCall_def)

lemma accountCall_run:
  "allDelivered se \<Longrightarrow> route (se_env se) q (sw_account w acct) = (Inr r, a) \<Longrightarrow> (\<And>st m. r \<noteq> Failed st m) \<Longrightarrow>
   accountCall se acct name q w = (Inr r, withAccount acct a w)"
  using callAccount_run [of se q w acct r a] by (cases r) (auto simp: accountCall_def andThen_def ret_def)

lemma replyWith_run: "m s = (Inr x, t) \<Longrightarrow> replyWith f m s = (Inr (f x), t)"
  by (simp add: replyWith_def andThen_def ret_def)

text \<open>Worlds that differ in the number of calls only.\<close>

definition sameWorld :: "('c, 'p) sync_world \<Rightarrow> ('c, 'p) sync_world \<Rightarrow> bool" where
  "sameWorld w w' \<longleftrightarrow> sw_account w' = sw_account w \<and> sw_graph w' = sw_graph w \<and> sw_provider w' = sw_provider w \<and>
     sw_status w' = sw_status w \<and> sw_queue w' = sw_queue w \<and> sw_sleeps w' = sw_sleeps w"

lemma sameWorld_refl: "sameWorld w w"
  by (simp add: sameWorld_def)

lemma sameWorld_trans: "sameWorld u v \<Longrightarrow> sameWorld v w \<Longrightarrow> sameWorld u w"
  by (simp add: sameWorld_def)

lemma query_call:
  assumes "allDelivered se"
  obtains w' where "callGraph se u name (query f) w = (Inr (f (sw_graph w u)), w')" and "sameWorld w w'"
  using callGraph_ok [OF assms, of "query f" w u "f (sw_graph w u)" "sw_graph w u" name]
  by (intro that [of "withGraph u (sw_graph w u) w"]) (simp_all add: sameWorld_def withGraph_def oneCall_def)

section \<open>Sorting, as a function of the graph\<close>

fun firstByVariants :: "string \<Rightarrow> user_graph \<Rightarrow> string list \<Rightarrow> string option" where
  "firstByVariants acct g [] = None"
| "firstByVariants acct g (v # vs) =
     (let r = firstFound g acct (mirrorCandidates v) in if truthy r then r else firstByVariants acct g vs)"

definition isMirrorDeletion :: "string \<Rightarrow> user_graph \<Rightarrow> string list \<Rightarrow> string \<Rightarrow> bool" where
  "isMirrorDeletion acct g ids i \<longleftrightarrow>
     (\<exists>v \<in> set (providerEventIdVariants i). v \<in> set ids) \<or> firstByVariants acct g (providerEventIdVariants i) \<noteq> None"

definition sortOne :: "string \<Rightarrow> user_graph \<Rightarrow> string list \<Rightarrow> sorted_events \<Rightarrow> raw_event \<Rightarrow> sorted_events" where
  "sortOne acct g ids so raw =
     (let cls = classifyProviderEvent ids raw;
          d = canonDelta (normalizeProviderEvent raw acct cls);
          i = pd_origin_event_id d; deleted = (pd_type d = Delta_Deleted \<and> i \<noteq> []) in
      if deleted \<and> (cls = Managed_Mirror \<or> isMirrorDeletion acct g ids i) then addManaged i so
      else if cls = Managed_Mirror then so
      else addDelta d so)"

definition sortAll :: "string \<Rightarrow> user_graph \<Rightarrow> raw_event list \<Rightarrow> sorted_events" where
  "sortAll acct g events = foldl (sortOne acct g (managedMirrorEventIds (activeMirrors acct g))) nothingSorted events"

lemma findByVariants_run:
  assumes "allDelivered se"
  shows "\<exists>w'. findByVariants se u acct vs w = (Inr (firstByVariants acct (sw_graph w u) vs), w') \<and> sameWorld w w'"
proof (induction vs arbitrary: w)
  case (Cons v vs)
  obtain w1 where w1: "callGraph se u ''findCanonicalByMirror'' (findCanonicalByMirror acct v) w =
      (Inr (firstFound (sw_graph w u) acct (mirrorCandidates v)), w1)" "sameWorld w w1"
    unfolding findCanonicalByMirror_def by (rule query_call [OF assms])
  obtain w2 where w2: "findByVariants se u acct vs w1 = (Inr (firstByVariants acct (sw_graph w1 u) vs), w2)" "sameWorld w1 w2"
    using Cons by blast
  have g: "sw_graph w1 = sw_graph w" using w1(2) by (simp add: sameWorld_def)
  show ?case
    using w1 w2 sameWorld_trans [OF w1(2) w2(2)] by (simp add: andThen_def ret_def Let_def g)
qed (simp add: ret_def sameWorld_refl)

lemma sortEvent_run:
  assumes "allDelivered se"
  shows "\<exists>w'. sortEvent se u acct ids raw so w = (Inr (sortOne acct (sw_graph w u) ids so raw), w') \<and> sameWorld w w'"
proof -
  let ?i = "pd_origin_event_id (canonDelta (normalizeProviderEvent raw acct (classifyProviderEvent ids raw)))"
  obtain w' where "findCanonicalIdByMirror se u acct ?i w =
      (Inr (firstByVariants acct (sw_graph w u) (providerEventIdVariants ?i)), w')" "sameWorld w w'"
    unfolding findCanonicalIdByMirror_def using findByVariants_run [OF assms] by blast
  then show ?thesis
    by (auto simp: sortEvent_def sortOne_def isMirrorDeletion_def Let_def andThen_def ret_def sameWorld_refl)
qed

lemma sortEvents_run:
  assumes "allDelivered se"
  shows "\<exists>w'. sortEvents se u acct ids raws so w = (Inr (foldl (sortOne acct (sw_graph w u) ids) so raws), w') \<and>
     sameWorld w w'"
proof (induction raws arbitrary: so w)
  case (Cons raw raws)
  obtain w1 where w1: "sortEvent se u acct ids raw so w = (Inr (sortOne acct (sw_graph w u) ids so raw), w1)" "sameWorld w w1"
    using sortEvent_run [OF assms] by blast
  obtain w2 where w2: "sortEvents se u acct ids raws (sortOne acct (sw_graph w u) ids so raw) w1 =
      (Inr (foldl (sortOne acct (sw_graph w1 u) ids) (sortOne acct (sw_graph w u) ids so raw) raws), w2)" "sameWorld w1 w2"
    using Cons by blast
  have g: "sw_graph w1 = sw_graph w" using w1(2) by (simp add: sameWorld_def)
  show ?case using w1 w2 sameWorld_trans [OF w1(2) w2(2)] by (simp add: andThen_def g)
qed (simp add: ret_def sameWorld_refl)

text \<open>A batch without deletions of mirrors: the graph takes the deltas, and its report is not looked at.\<close>

lemma process_run:
  assumes sure: "allDelivered se" and user: "we_account (se_worker se) acct = Inr (Some (user, p))" "user \<noteq> []"
    and events: "events \<noteq> []" and none: "so_managed (sortAll acct (sw_graph w user) events) = []"
    and apply': "applyProviderDelta (graphEnv se) acct (map canonDelta (so_deltas (sortAll acct (sw_graph w user) events)))
      (sw_graph w user) = (Inr res, g)"
  shows "\<exists>n w'. processAndApplyDeltas se acct events w = (Inr n, w') \<and> sw_graph w' = (sw_graph w)(user := g) \<and>
     sw_account w' = sw_account w \<and> sw_provider w' = sw_provider w"
proof -
  let ?so = "sortAll acct (sw_graph w user) events"
  have req: "requireUser se acct w = (Inr user, w)"
    using user by (simp add: requireUser_def lookupUserId_def andThen_def ret_def)
  obtain w1 where load: "loadActiveMirrors se acct user w = (Inr (activeMirrors acct (sw_graph w user)), w1)" "sameWorld w w1"
    unfolding loadActiveMirrors_def getActiveMirrors_def activeMirrors_def by (rule query_call [OF sure])
  obtain w2 where sort: "sortEvents se user acct (managedMirrorEventIds (activeMirrors acct (sw_graph w user))) events
      nothingSorted w1 = (Inr ?so, w2)" "sameWorld w1 w2"
    using sortEvents_run [OF sure, of user acct _ events nothingSorted w1] load(2)
    by (auto simp: sortAll_def sameWorld_def)
  have same: "sameWorld w w2" by (rule sameWorld_trans [OF load(2) sort(2)])
  show ?thesis
  proof (cases "so_deltas ?so = []")
    case True
    then have "g = sw_graph w user" using apply' by (simp add: applyProviderDelta_def ret_def)
    then show ?thesis
      using req load(1) sort(1) events none True same
      by (auto simp: processAndApplyDeltas_def andThen_def ret_def sameWorld_def)
  next
    case False
    have "callGraph se user ''applyProviderDelta'' (applyProviderDelta (graphEnv se) acct (map canonDelta (so_deltas ?so))) w2
        = (Inr res, withGraph user g w2)"
      by (rule callGraph_ok [OF sure]) (use apply' same in \<open>simp add: sameWorld_def\<close>)
    then show ?thesis
      using req load(1) sort(1) events none False same
      by (auto simp: processAndApplyDeltas_def applyProviderDeltas_def andThen_def ret_def sameWorld_def)
  qed
qed

end
