(* ===== verification/Account_Cursors.thy ===== *)
theory Account_Cursors
  imports Account_Calls
begin

text \<open>
  The cursor of one calendar through the methods of an account: what does not write it keeps it, and every write
  of the same token leaves it there.
\<close>

definition cursorIs :: "string \<Rightarrow> string option \<Rightarrow> 'c account \<Rightarrow> bool" where
  "cursorIs cal v s \<longleftrightarrow> ac_migrated s \<and> scopedToken cal s = v"

lemma cursorIs_same: "ac_migrated t = ac_migrated s \<Longrightarrow> ac_scoped t = ac_scoped s \<Longrightarrow> cursorIs cal v t = cursorIs cal v s"
  by (simp add: cursorIs_def scopedToken_def scopedRows_def)

named_theorems cursor_keeps \<open>operations that keep the cursor of a calendar\<close>

lemma cursor_migrated [cursor_keeps]: "keeps (cursorIs cal v) (ensureMigrated env)"
proof (rule keepsI)
  show "cursorIs cal v (snd (ensureMigrated env s))" if "cursorIs cal v s" for s
    using that by (simp add: cursorIs_def migrated_again)
qed

lemma cursor_modify [cursor_keeps]:
  "keeps (cursorIs cal v) (modify (\<lambda>s. s\<lparr> ac_provider := p \<rparr>))"
  "keeps (cursorIs cal v) (modify (\<lambda>s. storeProvider env p (s\<lparr> ac_provider := p \<rparr>)))"
  "keeps (cursorIs cal v) (modify (\<lambda>s. case ac_auth s of
     Some r \<Rightarrow> if au_provider r \<noteq> p then storeProvider env p s else s | None \<Rightarrow> s))"
  "keeps (cursorIs cal v) (modify (\<lambda>s. s\<lparr> ac_auth := f s \<rparr>))" "keeps (cursorIs cal v) (modify (\<lambda>s. s\<lparr> ac_sync := g s \<rparr>))"
  "keeps (cursorIs cal v) (modify (\<lambda>s. s\<lparr> ac_monitor := h s \<rparr>))"
  by (rule keeps_modify; auto simp: cursorIs_def scopedToken_def scopedRows_def storeProvider_def split: option.split)+

lemma cursor_statements [cursor_keeps]:
  "keeps (cursorIs cal v) (request env q)" "keeps (cursorIs cal v) (getRandomValues env n)"
  "keeps (cursorIs cal v) (storeEnvelope env e)" "keeps (cursorIs cal v) (fromSum r)"
  "keeps (cursorIs cal v) (recordEncryptionSuccess env)" "keeps (cursorIs cal v) (recordEncryptionFailure env m)"
  by (simp_all add: keeps_def request_state getRandomValues_def storeEnvelope_def fromSum_def ret_def throw_def
      recordEncryptionSuccess_def recordEncryptionFailure_def cursorIs_def scopedToken_def scopedRows_def
      split: sum.split)

lemma cursor_providers [cursor_keeps]:
  "keeps (cursorIs cal v) (resolveProvider env)" "keeps (cursorIs cal v) (setProvider env p)"
  unfolding resolveProvider_def setProvider_def by (intro keeps_intro cursor_keeps)+

lemma cursor_tokens [cursor_keeps]:
  "keeps (cursorIs cal v) (encryptTokens env k t)" "keeps (cursorIs cal v) (loadTokens env k)"
  unfolding encryptTokens_def loadTokens_def
  by (intro keeps_intro cursor_keeps | simp split: sum.split | rule conjI allI impI)+

lemma cursor_refresh [cursor_keeps]: "keeps (cursorIs cal v) (refreshAccessToken env k r)"
  unfolding refreshAccessToken_def getTokenRefreshUrl_def Let_def
  by (intro keeps_intro cursor_keeps | simp split: fetch_response.split | rule conjI allI impI)+

lemma cursor_access: "keeps (cursorIs cal v) (getAccessToken env p)"
  unfolding getAccessToken_def by (intro keeps_intro cursor_keeps)

text \<open>Writing a cursor; whatever calendar it is written to, a calendar that has the token keeps it.\<close>

lemma scoped_cursor_kept:
  assumes "cursorIs cal v s" and "other = cal \<Longrightarrow> v = Some token"
  obtains t where "setScopedSyncToken env other token s = (Inr (), t)" and "cursorIs cal v t"
proof -
  obtain t r where t: "setScopedSyncToken env other token s = (Inr (), t)" "scopedToken other t = Some token"
    "\<forall>o'. o' \<noteq> other \<longrightarrow> scopedToken o' t = scopedToken o' s" "ac_migrated t"
    using assms(1) scoped_cursor_run [of s env other token] by (auto simp: cursorIs_def)
  then have "scopedToken cal t = v" using assms by (cases "other = cal") (auto simp: cursorIs_def)
  then show thesis using that t by (simp add: cursorIs_def)
qed

lemma sync_cursor_kept:
  assumes "cursorIs cal (Some token) s"
  obtains t where "setSyncToken env token s = (Inr (), t)" and "cursorIs cal (Some token) t"
proof -
  obtain t where t: "setSyncToken env token s = (Inr (), t)" "ac_migrated t"
    "scopedToken (getDefaultScopeCalendarId s) t = Some token"
    "\<forall>o'. o' \<noteq> getDefaultScopeCalendarId s \<longrightarrow> scopedToken o' t = scopedToken o' s"
    using assms sync_cursor_run [of s env token] by (auto simp: cursorIs_def)
  then have "scopedToken cal t = Some token"
    using assms by (cases "getDefaultScopeCalendarId s = cal") (auto simp: cursorIs_def)
  then show thesis using that t by (simp add: cursorIs_def)
qed

text \<open>A mark of success leaves tokens alone; it can only add a row without a token for the default calendar.\<close>

lemma scopedToken_upsert:
  assumes "\<And>r. sy_sync_token (f r) = sy_sync_token r" and "sy_sync_token new = None"
  shows "scopedToken cal (upsertScopedSync other new f s) = scopedToken cal s"
proof (cases "scopedRows other s = []")
  case True
  with assms show ?thesis
    by (cases "cal = other") (simp_all add: upsertScopedSync_def scopedToken_def scopedRows_def)
next
  case False
  have "filter (\<lambda>r. sx_provider_calendar_id r = cal) (updateRows (\<lambda>x. sx_provider_calendar_id x = other) h rs) =
      updateRows (\<lambda>x. sx_provider_calendar_id x = other) h (filter (\<lambda>r. sx_provider_calendar_id r = cal) rs)"
    if "\<And>x. sx_provider_calendar_id (h x) = sx_provider_calendar_id x" for h :: "scoped_sync_row \<Rightarrow> scoped_sync_row" and rs
    using that by (induction rs) (auto simp: updateRows_def)
  with False assms show ?thesis
    by (simp add: upsertScopedSync_def scopedToken_def scopedRows_def updateRows_def split: list.split)
qed

lemma marked_cursor:
  assumes "cursorIs cal v s"
  obtains t where "markSyncSuccess env ts s = (Inr (), t)" and "cursorIs cal v t"
proof -
  let ?u = "s\<lparr> ac_sync := Some (succeededAt env ts (nullish (ac_sync s) (freshSync env))) \<rparr>"
  let ?t = "upsertScopedSync (getDefaultScopeCalendarId ?u) (succeededAt env ts (freshSync env)) (succeededAt env ts) ?u"
  have "markSyncSuccess env ts s = (Inr (), ?t)"
    using assms by (simp add: markSyncSuccess_def cursorIs_def migrated_again andThen_def)
  moreover have "scopedToken cal ?t = scopedToken cal ?u"
    by (rule scopedToken_upsert) (simp_all add: succeededAt_def freshSync_def)
  ultimately show thesis
    using assms that [of ?t] by (auto simp: cursorIs_def upsertScopedSync_def scopedToken_def scopedRows_def)
qed

lemma read_cursor: "cursorIs cal v s \<Longrightarrow> getScopedSyncToken env cal s = (Inr v, s)"
  by (simp add: getScopedSyncToken_def cursorIs_def migrated_again andThen_def)

end
