(* ===== verification/Sync_Cursor.thy ===== *)
theory Sync_Cursor
  imports Sync_Runs Account_Cursors
begin

text \<open>
  An incremental sync of one Google calendar from the message to the moved cursor, with every call delivered and the
  stored access token still valid.
\<close>

lemma accountCall_route:
  assumes "allDelivered se" and "route (se_env se) q (sw_account w acct) = (Inr r, a)" and "\<And>st m. r \<noteq> Failed st m"
    and "\<And>x. r = x \<Longrightarrow> f x = ret y"
  shows "andThen (accountCall se acct name q) f w = (Inr y, withAccount acct a w)"
  by (simp add: andThen_def accountCall_run [OF assms(1-3)] assms(4) ret_def)

lemma token_run:
  assumes sure: "allDelivered se" and cursor: "cursorIs cal v (sw_account w acct)"
    and held: "heldTokens (se_env se) (xe_masterKey (se_env se)) (sw_account w acct) = Some t"
    and valid: "stillValid (se_env se) t"
  obtains a where "tokenOrGiveUp se acct Google_api w = (Inr (Some (tk_access_token t)), withAccount acct a w)"
    and "cursorIs cal v a"
proof -
  let ?p = "bodyProvider (Some ''google'')"
  obtain a where a: "getAccessToken (se_env se) ?p (sw_account w acct) = (Inr (tk_access_token t), a)"
    by (rule valid_token_returned [OF held valid])
  have keep: "cursorIs cal v a" using keepsD [OF cursor_access cursor, of "se_env se" ?p] a by simp
  have "route (se_env se) (Get_Access_Token (Some ''google'')) (sw_account w acct) = (Inr (Access_Token (tk_access_token t)), a)"
    by (simp add: route_def replyWith_def andThen_def ret_def a)
  then have "syncAccessToken se acct Google_api w = (Inr (tk_access_token t), withAccount acct a w)"
    unfolding syncAccessToken_def by (intro accountCall_route [OF sure]) (auto simp: providerName_def)
  then have "tokenOrGiveUp se acct Google_api w = (Inr (Some (tk_access_token t)), withAccount acct a w)"
    by (simp add: tokenOrGiveUp_def andThen_def attempt_def ret_def)
  then show thesis using that keep by blast
qed

text \<open>Fetching one calendar.\<close>

lemma fetch_run:
  assumes sure: "allDelivered se" and cursor: "cursorIs cal v (sw_account w acct)" and cal: "cal \<noteq> []"
    and old: "truthy v \<or> cal = ''primary''"
    and answer: "sp_listEvents (se_client se) Google_api token cal v None (sw_provider w) =
      (Inr \<lparr> lr_events = events, lr_nextPageToken = page, lr_nextSyncToken = Some next' \<rparr>, p)" and next': "next' \<noteq> []"
  obtains w' where "fetchOrRecover se acct Google_api token (Some cal) w =
      (Inr (Some \<lparr> fr_events = events, fr_cursors = [(cal, next')], fr_skipped = [] \<rparr>), w')"
    and "cursorIs cal v (sw_account w' acct)" and "sw_graph w' = sw_graph w"
proof -
  let ?w1 = "withAccount acct (sw_account w acct) w"
  have "callAccount se acct (Get_Scoped_Sync_Token cal) w = (Inr (Sync_Token v), ?w1)"
    by (rule callAccount_run [OF sure]) (simp add: route_def replyWith_def andThen_def ret_def read_cursor [OF cursor])
  then have read: "scopedSyncToken se acct cal w = (Inr v, ?w1)"
    by (simp add: scopedSyncToken_def andThen_def ret_def cursorOf_def)
  let ?w2 = "?w1\<lparr> sw_provider := p \<rparr>"
  have "listEvents se Google_api token cal v None ?w1 =
      (Inr \<lparr> lr_events = events, lr_nextPageToken = page, lr_nextSyncToken = Some next' \<rparr>, ?w2)"
    unfolding listEvents_def by (rule retry_success) (simp add: onClient_def answer)
  then have "fetchScopes se acct token [cal] (nothingFetched, False) w =
      (Inr (\<lparr> fr_events = events, fr_cursors = [(cal, next')], fr_skipped = [] \<rparr>, False), ?w2)"
    using old next' by (cases next') (auto simp: andThen_def attempt_def ret_def read nothingFetched_def)
  then have "fetchOrRecover se acct Google_api token (Some cal) w =
      (Inr (Some \<lparr> fr_events = events, fr_cursors = [(cal, next')], fr_skipped = [] \<rparr>), ?w2)"
    using cal by (cases cal) (auto simp: fetchOrRecover_def fetchIncrementalProviderEvents_def andThen_def attempt_def ret_def)
  then show thesis using that cursor by simp
qed

text \<open>Moving the cursor.\<close>

lemma store_scoped_run:
  assumes sure: "allDelivered se" and cursor: "cursorIs cal v (sw_account w acct)"
  obtains a where "storeScopedSyncToken se acct cal token w = (Inr (), withAccount acct a w)"
    and "cursorIs cal (Some token) a"
proof -
  obtain a r where a: "setScopedSyncToken (se_env se) cal token (sw_account w acct) = (Inr (), a)"
    "scopedToken cal a = Some token" "ac_migrated a"
    using cursor scoped_cursor_run [of "sw_account w acct" "se_env se" cal token] by (auto simp: cursorIs_def)
  have "callAccount se acct (Set_Scoped_Sync_Token cal token) w = (Inr Done_Reply, withAccount acct a w)"
    by (rule callAccount_run [OF sure]) (simp add: route_def replyWith_def andThen_def ret_def a(1))
  then show thesis using that [of a] a by (simp add: storeScopedSyncToken_def andThen_def ret_def cursorIs_def)
qed

lemma store_run:
  assumes sure: "allDelivered se" and cursor: "cursorIs cal (Some token) (sw_account w acct)"
  obtains a where "storeSyncToken se acct token w = (Inr (), withAccount acct a w)" and "cursorIs cal (Some token) a"
proof -
  obtain a where a: "setSyncToken (se_env se) token (sw_account w acct) = (Inr (), a)" "cursorIs cal (Some token) a"
    by (rule sync_cursor_kept [OF cursor])
  have "route (se_env se) (Set_Sync_Token token) (sw_account w acct) = (Inr Done_Reply, a)"
    by (simp add: route_def replyWith_def andThen_def ret_def a(1))
  then have "storeSyncToken se acct token w = (Inr (), withAccount acct a w)"
    unfolding storeSyncToken_def by (intro accountCall_route [OF sure]) auto
  then show thesis using that a by blast
qed

lemma conclude_run:
  assumes sure: "allDelivered se" and cursor: "cursorIs cal v (sw_account w acct)"
  obtains w' where "concludeSync se acct Google_api [(cal, token)] w = (Inr (), w')"
    and "cursorIs cal (Some token) (sw_account w' acct)" and "sw_graph w' = sw_graph w"
    and "sw_status w' acct = ''active''"
proof -
  obtain a where a: "storeScopedSyncToken se acct cal token w = (Inr (), withAccount acct a w)"
    "cursorIs cal (Some token) a" by (rule store_scoped_run [OF sure cursor])
  let ?w1 = "withAccount acct a w"
  have c1: "cursorIs cal (Some token) (sw_account ?w1 acct)" using a by simp
  obtain w2 where w2: "(case map_of [(cal, token)] ''primary'' of Some t \<Rightarrow> storeSyncToken se acct t | None \<Rightarrow> ret ()) ?w1 =
      (Inr (), w2)" "cursorIs cal (Some token) (sw_account w2 acct)" "sw_graph w2 = sw_graph w"
  proof (cases "cal = ''primary''")
    case True
    obtain b where "storeSyncToken se acct token ?w1 = (Inr (), withAccount acct b ?w1)" "cursorIs cal (Some token) b"
      by (rule store_run [OF sure c1])
    with True that [of "withAccount acct b ?w1"] show thesis by simp
  next
    case False
    with that [of ?w1] c1 show thesis by (simp add: ret_def)
  qed
  have persist: "persistSyncCursorUpdates se acct Google_api [(cal, token)] w = (Inr (), w2)"
    using a(1) w2(1) by (simp add: persistSyncCursorUpdates_def Let_def andThen_def ret_def)
  let ?w3 = "withAccount acct (sw_account w2 acct) w2"
  have mark: "markScopedSyncSuccess se acct cal w2 = (Inr (), ?w3)"
    by (simp add: markScopedSyncSuccess_def tryCatch_def andThen_def
        callAccount_run [OF sure, of "Unknown_Action ''/markScopedSyncSuccess''"] route_def ret_def)
  obtain b where b: "markSyncSuccess (se_env se) (nowIso (graphEnv se)) (sw_account w2 acct) = (Inr (), b)"
    "cursorIs cal (Some token) b" by (rule marked_cursor [OF w2(2)])
  have "route (se_env se) (Mark_Sync_Success (nowIso (graphEnv se))) (sw_account ?w3 acct) = (Inr Done_Reply, b)"
    by (simp add: route_def replyWith_def andThen_def ret_def b(1))
  then have "accountCall se acct ''markSyncSuccess'' (Mark_Sync_Success (nowIso (graphEnv se))) ?w3 =
      (Inr Done_Reply, withAccount acct b ?w3)"
    by (intro accountCall_run [OF sure]) auto
  then have "concludeSync se acct Google_api [(cal, token)] w = (Inr (), (withAccount acct b ?w3)
      \<lparr> sw_status := (sw_status (withAccount acct b ?w3))(acct := ''active'') \<rparr>)"
    by (simp add: concludeSync_def andThen_def persist mark markSucceeded_def ret_def)
  then show thesis using that b w2(3) by simp
qed

text \<open>The whole message. Nothing is asked of the report of the graph.\<close>

lemma incremental_run:
  assumes sure: "allDelivered se" and user: "we_account (se_worker se) acct = Inr (Some (user, ''google''))" "user \<noteq> []"
    and cursor: "cursorIs cal v (sw_account w acct)" and cal: "cal \<noteq> []" "truthy v \<or> cal = ''primary''"
    and held: "heldTokens (se_env se) (xe_masterKey (se_env se)) (sw_account w acct) = Some t" "stillValid (se_env se) t"
    and answer: "sp_listEvents (se_client se) Google_api (tk_access_token t) cal v None (sw_provider w) =
      (Inr \<lparr> lr_events = events, lr_nextPageToken = page, lr_nextSyncToken = Some next' \<rparr>, p)" "next' \<noteq> []"
    and events: "events \<noteq> []" and none: "so_managed (sortAll acct (sw_graph w user) events) = []"
    and apply': "applyProviderDelta (graphEnv se) acct (map canonDelta (so_deltas (sortAll acct (sw_graph w user) events)))
      (sw_graph w user) = (Inr res, g)"
  obtains w' where "handleSyncMessage se (SYNC_INCREMENTAL acct (Some cal)) w = (Inr Ack, w')"
    and "sw_graph w' = (sw_graph w)(user := g)" and "scopedToken cal (sw_account w' acct) = Some next'"
    and "sw_status w' acct = ''active''"
proof -
  have provider: "lookupProvider se acct w = (Inr Google_api, w)" using user by (simp add: lookupProvider_def ret_def)
  obtain a where a: "tokenOrGiveUp se acct Google_api w = (Inr (Some (tk_access_token t)), withAccount acct a w)"
    "cursorIs cal v a" by (rule token_run [OF sure cursor held])
  let ?w1 = "withAccount acct a w"
  let ?fr = "\<lparr> fr_events = events, fr_cursors = [(cal, next')], fr_skipped = [] \<rparr>"
  obtain w2 where w2: "fetchOrRecover se acct Google_api (tk_access_token t) (Some cal) ?w1 = (Inr (Some ?fr), w2)"
    "cursorIs cal v (sw_account w2 acct)" "sw_graph w2 = sw_graph ?w1"
  proof (rule fetch_run [OF sure _ cal])
    show "cursorIs cal v (sw_account ?w1 acct)" using a by simp
    show "sp_listEvents (se_client se) Google_api (tk_access_token t) cal v None (sw_provider ?w1) =
      (Inr \<lparr> lr_events = events, lr_nextPageToken = page, lr_nextSyncToken = Some next' \<rparr>, p)" using answer by simp
  qed (rule answer(2))
  have g2: "sw_graph w2 = sw_graph w" using w2(3) by simp
  obtain n w3 where w3: "processAndApplyDeltas se acct events w2 = (Inr n, w3)" "sw_graph w3 = (sw_graph w2)(user := g)"
    "sw_account w3 = sw_account w2"
    using process_run [OF sure user events, of w2 res g] none apply' by (auto simp: g2)
  have c3: "cursorIs cal v (sw_account w3 acct)" using w2 w3 by simp
  obtain w4 where w4: "concludeSync se acct Google_api [(cal, next')] w3 = (Inr (), w4)"
    "cursorIs cal (Some next') (sw_account w4 acct)" "sw_graph w4 = sw_graph w3" "sw_status w4 acct = ''active''"
    by (rule conclude_run [OF sure c3])
  have "handleIncrementalSync se acct (Some cal) w = (Inr (), w4)"
    by (simp add: handleIncrementalSync_def andThen_def provider a(1) w2(1) w3(1) w4(1))
  then have "handleSyncMessage se (SYNC_INCREMENTAL acct (Some cal)) w = (Inr Ack, w4)"
    by (simp add: handleSyncMessage_def andThen_def attempt_def ret_def)
  then show thesis using that w4 w3 g2 by (simp add: cursorIs_def)
qed

end
