(* ===== verification/Sync_Samples.thy ===== *)
theory Sync_Samples
  imports Sync_Cursor Sample_State
begin

text \<open>
  A toy cipher that writes the key beside the text, an account that holds tokens and a cursor, and a provider with one
  cancelled event.
\<close>

type_synonym sealed = "string \<times> string \<times> plaintext"

definition sampleAccountEnv :: "sealed account_env" where
  "sampleAccountEnv =
     \<lparr> xe_base = sampleEnv, xe_masterKey = ''secret'', xe_credentials = None,
       xe_digest = (\<lambda>_. replicate 32 (CHR ''m'')), xe_random = (\<lambda>n l. replicate l (char_of n)),
       xe_seal = (\<lambda>k iv p. (k, iv, p)), xe_unseal = (\<lambda>k iv (l, jv, p). if k = l \<and> iv = jv then Some p else None),
       xe_failure = ''OperationError'', xe_fetch = (\<lambda>n q. Refreshed ''access_2'' 3600 None) \<rparr>"

text \<open>The same with another key to rotate to.\<close>

definition rotatingEnv :: "sealed account_env" where
  "rotatingEnv = sampleAccountEnv\<lparr> xe_digest := (\<lambda>s. replicate 32 (if s = ''secret'' then CHR ''m'' else CHR ''n'')) \<rparr>"

lemma sample_secret: "xe_masterKey sampleAccountEnv = ''secret''"
  by (simp add: sampleAccountEnv_def)

lemma cipher_ok:
  "opensSealed sampleAccountEnv" "opensOnlyWithKey sampleAccountEnv" "drawsKeys sampleAccountEnv"
  "opensSealed rotatingEnv" "drawsKeys rotatingEnv"
  by (simp_all add: opensSealed_def opensOnlyWithKey_def drawsKeys_def sampleAccountEnv_def rotatingEnv_def)

definition masterBytes :: string where
  "masterBytes = replicate 32 (CHR ''m'')"

lemma master_keys:
  "importMasterKey sampleAccountEnv (xe_masterKey sampleAccountEnv) = Inr masterBytes"
  "importMasterKey rotatingEnv ''secret'' = Inr masterBytes"
  "importMasterKey rotatingEnv ''next'' = Inr (replicate 32 (CHR ''n''))"
  by (simp_all add: importMasterKey_def isHexString_def importKey_def sampleAccountEnv_def rotatingEnv_def masterBytes_def)

definition tokensUntil :: "int \<Rightarrow> token_payload" where
  "tokensUntil ms = \<lparr> tk_access_token = ''access_1'', tk_refresh_token = ''refresh'', tk_expiry = toISOString ms \<rparr>"

text \<open>One hour from now, and one hour ago.\<close>

definition freshTokens :: token_payload where
  "freshTokens = tokensUntil 1750003600000"

definition staleTokens :: token_payload where
  "staleTokens = tokensUntil 1749996400000"

definition accountWith :: "token_payload \<Rightarrow> sealed account" where
  "accountWith t = emptyAccount
     \<lparr> ac_migrated := True, ac_draws := 3,
       ac_auth := Some \<lparr> au_encrypted_tokens = sealedWith sampleAccountEnv masterBytes t 0, au_scopes = ''calendar'',
                          au_provider = ''google'', au_updated_at = ''2025-06-15 00:00:00'' \<rparr>,
       ac_scoped := [\<lparr> sx_provider_calendar_id = ''primary'', sx_state = writtenCursor sampleAccountEnv ''c1'' \<rparr>] \<rparr>"

lemma accountWith_auth:
  obtains r where "ac_auth (accountWith t) = Some r" "au_encrypted_tokens r = sealedWith sampleAccountEnv masterBytes t 0"
    "au_encrypted_tokens r = sealedWith rotatingEnv masterBytes t 0"
  by (simp add: accountWith_def sealedWith_def rotatingEnv_def sampleAccountEnv_def)

lemma accountWith_held:
  "heldTokens sampleAccountEnv (xe_masterKey sampleAccountEnv) (accountWith t) = Some t"
  "heldTokens rotatingEnv ''secret'' (accountWith t) = Some t"
proof -
  obtain r where r: "ac_auth (accountWith t) = Some r" "au_encrypted_tokens r = sealedWith sampleAccountEnv masterBytes t 0"
    "au_encrypted_tokens r = sealedWith rotatingEnv masterBytes t 0" by (rule accountWith_auth)
  show "heldTokens sampleAccountEnv (xe_masterKey sampleAccountEnv) (accountWith t) = Some t"
    by (rule heldTokens_stored [OF cipher_ok(1,3) master_keys(1) r(1,2)])
  show "heldTokens rotatingEnv ''secret'' (accountWith t) = Some t"
    by (rule heldTokens_stored [OF cipher_ok(4,5) master_keys(2) r(1,3)])
qed

lemma accountWith_cursor: "cursorIs ''primary'' (Some ''c1'') (accountWith t)"
  by (simp add: cursorIs_def accountWith_def scopedToken_def scopedRows_def writtenCursor_def)

lemma tokens_dated:
  assumes "\<bar>ms\<bar> \<le> maxDateMs" and "plainYear ms"
  shows "stillValid sampleAccountEnv (tokensUntil ms) = (ms > 1750000300000)"
  using assms
  by (auto simp: stillValid_def tokensUntil_def dateParse_toISOString xNow_def sampleAccountEnv_def sampleEnv_def
      REFRESH_BUFFER_MS_def)

lemma sample_validity: "stillValid sampleAccountEnv freshTokens" "\<not> stillValid sampleAccountEnv staleTokens"
  unfolding freshTokens_def staleTokens_def
  by (subst tokens_dated; simp add: maxDateMs_def plainYear_def msPerDay_def yearFromDay_def dayFromYear_def Let_def)+

section \<open>A world for the consumer\<close>

definition cancelledEvent :: raw_event where
  "cancelledEvent = Google_Raw (sampleGoogle\<lparr> ge_id := Some ''g1'', ge_status := Some ''cancelled'' \<rparr>)"

text \<open>The provider tells of one cancelled event and gives the cursor \<^verbatim>\<open>c2\<close>.\<close>

definition sampleProvider :: "unit sync_provider" where
  "sampleProvider = \<lparr> sp_listEvents = (\<lambda>family token cal cursor page.
     ret \<lparr> lr_events = [cancelledEvent], lr_nextPageToken = None, lr_nextSyncToken = Some ''c2'' \<rparr>) \<rparr>"

definition sampleSync :: "(sealed, unit) sync_env" where
  "sampleSync =
     \<lparr> se_env = sampleAccountEnv,
       se_worker = \<lparr> we_account = (\<lambda>a. Inr (Some (''user_1'', ''google''))), we_fate = (\<lambda>_. Delivered) \<rparr>,
       se_client = sampleProvider, se_limit = 1000 \<rparr>"

definition syncWorld :: "user_graph \<Rightarrow> (sealed, unit) sync_world" where
  "syncWorld g = \<lparr> sw_account = (\<lambda>_. accountWith freshTokens), sw_graph = (\<lambda>_. g), sw_provider = (),
                   sw_status = (\<lambda>_. ''error''), sw_calls = 0, sw_queue = [], sw_sleeps = [] \<rparr>"

lemma sampleSync_sure: "allDelivered sampleSync"
  by (simp add: allDelivered_def sampleSync_def)

lemma sampleSync_graphEnv [simp]: "graphEnv sampleSync = sampleEnv"
  by (simp add: graphEnv_def sampleSync_def sampleAccountEnv_def)

lemma noMirrors_found: "\<forall>m \<in> set (event_mirrors g). em_target_account_id m \<noteq> acct \<Longrightarrow> firstByVariants acct g vs = None"
proof (induction vs)
  case (Cons v vs)
  have "firstFound g acct cs = None" for cs
    using firstFound_sound [of g acct cs] Cons.prems by (cases "firstFound g acct cs") auto
  with Cons show ?case by (simp add: Let_def)
qed simp

lemma cancelled_delta: "canonDelta (normalizeProviderEvent cancelledEvent ''acc_a'' Origin) = sampleDelta Delta_Deleted"
  by code_simp

lemma billed_mirrors: "activeMirrors ''acc_a'' billedGraph = []"
  by (simp add: activeMirrors_def billedGraph_def sampleGraph_def sampleMirror_def)

lemma cancelled_sorted: "sortAll ''acc_a'' billedGraph [cancelledEvent] = addDelta (sampleDelta Delta_Deleted) nothingSorted"
proof -
  have cls: "classifyProviderEvent [] cancelledEvent = Origin"
    by (simp add: classifyProviderEvent_def cancelledEvent_def classifyEvent_def sampleGoogle_def)
  have "firstByVariants ''acc_a'' billedGraph vs = None" for vs
    by (rule noMirrors_found) (simp add: billedGraph_def sampleGraph_def sampleMirror_def)
  then show ?thesis
    by (simp add: sortAll_def sortOne_def billed_mirrors managedMirrorEventIds_def cls cancelled_delta Let_def isMirrorDeletion_def)
qed

lemma cancelled_refused:
  "\<exists>t. applyProviderDelta (graphEnv sampleSync) ''acc_a'' (map canonDelta (so_deltas (sortAll ''acc_a'' billedGraph
      [cancelledEvent]))) billedGraph = (Inr (noResult\<lparr> ar_errors := [(''g1'', error_message ForeignKeyViolation)] \<rparr>), t) \<and>
     canonical_events t = [sampleEvent]"
proof -
  have "so_deltas (sortAll ''acc_a'' billedGraph [cancelledEvent]) = [sampleDelta Delta_Deleted]"
    by (simp add: cancelled_sorted addDelta_def nothingSorted_def sampleDelta_def Let_def)
  moreover have "canonDelta (sampleDelta Delta_Deleted) = sampleDelta Delta_Deleted" by code_simp
  moreover obtain t where "handleDeleted sampleEnv ''acc_a'' (sampleDelta Delta_Deleted) billedGraph =
      (Inl ForeignKeyViolation, t)" "canonical_events t = canonical_events billedGraph"
    using handleDeleted_blocked [OF sampleEnv_sends billedGraph_origin refl billedGraph_held] by auto
  moreover have "pd_type (sampleDelta Delta_Deleted) = Delta_Deleted" "pd_origin_event_id (sampleDelta Delta_Deleted) = ''g1''"
    by (simp_all add: sampleDelta_def)
  ultimately show ?thesis
    by (simp add: applyProviderDelta_def andThen_def ret_def applyDelta_def orRecord_def noResult_def)
      (simp add: billedGraph_def sampleGraph_def)
qed

end
