(* ===== verification/Slot_Solver.thy ===== *)
theory Slot_Solver
  imports Availability Reputation
begin

text \<open>
  The greedy solver of the scheduling workflow, \<^verbatim>\<open>workflows/scheduling/src/solver.ts\<close>. It walks from the start
  of the window in steps of half an hour, drops the slots that a trip, the working hours or a busy
  interval of a required account rules out, scores the others and returns the best ones.

  An instant is a number of milliseconds, \<^const>\<open>None\<close> for the NaN of a text that is no date; a comparison with NaN
  is false. \<open>local\<close> and \<open>collate\<close> are the parameters of the availability computation: the solver has a copy of the three
  time-zone functions of \<^verbatim>\<open>UserGraphDO\<close>. The duration is a positive number of whole minutes, which the callers check
  first, so every slot they ask for lies in the window and its ends are dates.
\<close>

section \<open>Constraints\<close>

record vip_config =
  vc_participant_hash :: string
  vc_display_name :: string
  vc_priority_weight :: rat
  vc_allow_after_hours :: bool
  vc_min_notice_hours :: rat
  vc_override_deep_work :: bool

record override_config =
  oc_reason :: string
  oc_slot_start :: string
  oc_slot_end :: string
  oc_timezone :: string

datatype solver_constraint =
    WorkingHours working_hours_config
  | Trip string string
  | Buffer buffer_config
  | NoMeetingsAfter cutoff_config
  | VipOverride vip_config
  | Override override_config

record solver_input =
  in_windowStart :: string
  in_windowEnd :: string
  in_durationMinutes :: int
  in_busyIntervals :: "busy_interval list"
  in_requiredAccountIds :: "string list"
  in_constraints :: "solver_constraint list option"
  in_participantHashes :: "string list option"

record scored_candidate =
  sd_start :: string
  sd_end :: string
  sd_score :: rat
  sd_explanation :: string

text \<open>\<^verbatim>\<open>constraints.filter((c) => c.kind === ...)\<close>, one per kind.\<close>

fun asWorkingHours :: "solver_constraint \<Rightarrow> working_hours_config option" where
  "asWorkingHours (WorkingHours c) = Some c"
| "asWorkingHours _ = None"

fun asBuffer :: "solver_constraint \<Rightarrow> buffer_config option" where
  "asBuffer (Buffer c) = Some c"
| "asBuffer _ = None"

fun asCutoff :: "solver_constraint \<Rightarrow> cutoff_config option" where
  "asCutoff (NoMeetingsAfter c) = Some c"
| "asCutoff _ = None"

fun asVip :: "solver_constraint \<Rightarrow> vip_config option" where
  "asVip (VipOverride c) = Some c"
| "asVip _ = None"

definition ofKind :: "(solver_constraint \<Rightarrow> 'c option) \<Rightarrow> solver_constraint list \<Rightarrow> 'c list" where
  "ofKind sel cs = List.map_filter sel cs"

section \<open>Ranges\<close>

type_synonym ms_range = "int option \<times> int option"

definition nanLess :: "int option \<Rightarrow> int option \<Rightarrow> bool" where
  "nanLess x y = (case (x, y) of (Some a, Some b) \<Rightarrow> a < b | _ \<Rightarrow> False)"

fun tripRange :: "graph_env \<Rightarrow> solver_constraint \<Rightarrow> ms_range option" where
  "tripRange env (Trip from until) = Some (dateParse (js_date env) from, dateParse (js_date env) until)"
| "tripRange env _ = None"

definition precomputeTripRanges :: "graph_env \<Rightarrow> solver_constraint list \<Rightarrow> ms_range list" where
  "precomputeTripRanges env cs = List.map_filter (tripRange env) cs"

definition isBlockedByTrip :: "int \<Rightarrow> int \<Rightarrow> ms_range list \<Rightarrow> bool" where
  "isBlockedByTrip slotStart slotEnd trips \<longleftrightarrow>
     (\<exists>(a, b) \<in> set trips. nanLess (Some slotStart) b \<and> nanLess a (Some slotEnd))"

fun overrideRange :: "graph_env \<Rightarrow> solver_constraint \<Rightarrow> ms_range option" where
  "overrideRange env (Override c) =
     Some (dateParse (js_date env) (oc_slot_start c), dateParse (js_date env) (oc_slot_end c))"
| "overrideRange env _ = None"

definition precomputeOverrideRanges :: "graph_env \<Rightarrow> solver_constraint list \<Rightarrow> ms_range list" where
  "precomputeOverrideRanges env cs = List.map_filter (overrideRange env) cs"

definition isExemptedByOverride :: "int \<Rightarrow> int \<Rightarrow> ms_range list \<Rightarrow> bool" where
  "isExemptedByOverride slotStart slotEnd overrides \<longleftrightarrow>
     (\<exists>(a, b) \<in> set overrides. nanLe a (Some slotStart) \<and> nanLe (Some slotEnd) b)"

text \<open>A busy interval as the solver keeps it: two instants and a set of accounts.\<close>

type_synonym busy_range = "int option \<times> int option \<times> string list"

definition busyRange :: "graph_env \<Rightarrow> busy_interval \<Rightarrow> busy_range" where
  "busyRange env b =
     (dateParse (js_date env) (bi_start b), dateParse (js_date env) (bi_end b), bi_account_ids b)"

definition busyBlocks :: "string list \<Rightarrow> int \<Rightarrow> int \<Rightarrow> busy_range \<Rightarrow> bool" where
  "busyBlocks required slotStart slotEnd busy \<longleftrightarrow>
     (case busy of (a, b, accounts) \<Rightarrow>
        nanLess (Some slotStart) b \<and> nanLess a (Some slotEnd) \<and> (\<exists>i \<in> set required. i \<in> set accounts))"

section \<open>Working hours\<close>

text \<open>\<^verbatim>\<open>getUTCDay\<close> and \<^verbatim>\<open>getUTCHours\<close>.\<close>

definition utcDay :: "int \<Rightarrow> int" where
  "utcDay ms = (ms div msPerDay + 4) mod 7"

definition utcHours :: "int \<Rightarrow> int" where
  "utcHours ms = ms mod msPerDay div 3600000"

definition slotWeekday :: "local_time \<Rightarrow> int \<Rightarrow> string \<Rightarrow> int" where
  "slotWeekday local ms timezone =
     (if timezone = ''UTC'' then utcDay ms else getDayOfWeekInTimezone local ms timezone)"

definition appliesOn :: "local_time \<Rightarrow> int \<Rightarrow> working_hours_config \<Rightarrow> bool" where
  "appliesOn local slotStart wh \<longleftrightarrow> slotWeekday local slotStart (wh_timezone wh) \<in> set (wh_days wh)"

definition coversSlot :: "local_time \<Rightarrow> int \<Rightarrow> int \<Rightarrow> working_hours_config \<Rightarrow> bool" where
  "coversSlot local slotStart slotEnd wh \<longleftrightarrow>
     slotStart \<ge> getTimestampForTimeInTimezone local slotStart (wh_start_time wh) (wh_timezone wh) \<and>
     slotEnd \<le> getTimestampForTimeInTimezone local slotStart (wh_end_time wh) (wh_timezone wh)"

text \<open>
  The loop of both working-hours functions: whether a constraint applies on the day, and whether
  one that applies covers the slot, which ends the loop.
\<close>

fun scanWorkingHours :: "local_time \<Rightarrow> int \<Rightarrow> int \<Rightarrow> bool \<Rightarrow> working_hours_config list \<Rightarrow> bool \<times> bool" where
  "scanWorkingHours local slotStart slotEnd anyApplies [] = (anyApplies, False)"
| "scanWorkingHours local slotStart slotEnd anyApplies (wh # rest) =
     (if \<not> appliesOn local slotStart wh then scanWorkingHours local slotStart slotEnd anyApplies rest
      else if coversSlot local slotStart slotEnd wh then (True, True)
      else scanWorkingHours local slotStart slotEnd True rest)"

datatype hours_status = WithinHours | OutsideHours | NoConstraintToday

definition checkWorkingHoursHard :: "local_time \<Rightarrow> int \<Rightarrow> int \<Rightarrow> solver_constraint list \<Rightarrow> hours_status" where
  "checkWorkingHoursHard local slotStart slotEnd cs =
     (let whs = ofKind asWorkingHours cs in
      if whs = [] then NoConstraintToday
      else case scanWorkingHours local slotStart slotEnd False whs of
             (anyApplies, covered) \<Rightarrow>
               if covered then WithinHours else if \<not> anyApplies then NoConstraintToday else OutsideHours)"

definition hasMatchingVipAfterHours :: "solver_constraint list \<Rightarrow> string list option \<Rightarrow> bool" where
  "hasMatchingVipAfterHours cs participants \<longleftrightarrow>
     (case participants of
        None \<Rightarrow> False
      | Some hashes \<Rightarrow> hashes \<noteq> [] \<and>
          (\<exists>v \<in> set (ofKind asVip cs). vc_allow_after_hours v \<and> vc_participant_hash v \<in> set hashes))"

section \<open>Scores\<close>

text \<open>A score delta and the reason for it.\<close>

type_synonym scored = "int \<times> string option"

definition WORKING_HOURS_BONUS :: int where "WORKING_HOURS_BONUS = 15"
definition WORKING_HOURS_VIOLATION :: int where "WORKING_HOURS_VIOLATION = - 10"
definition BUFFER_ADEQUATE_BONUS :: int where "BUFFER_ADEQUATE_BONUS = 10"
definition BUFFER_INADEQUATE_PENALTY :: int where "BUFFER_INADEQUATE_PENALTY = - 5"
definition NO_MEETINGS_AFTER_PENALTY :: int where "NO_MEETINGS_AFTER_PENALTY = - 20"
definition VIP_OVERRIDE_BONUS :: int where "VIP_OVERRIDE_BONUS = 25"
definition VIP_PRIORITY_WEIGHT_MULTIPLIER :: rat where "VIP_PRIORITY_WEIGHT_MULTIPLIER = 10"

definition scoreWorkingHours :: "local_time \<Rightarrow> int \<Rightarrow> int \<Rightarrow> solver_constraint list \<Rightarrow> scored" where
  "scoreWorkingHours local slotStart slotEnd cs =
     (let whs = ofKind asWorkingHours cs in
      if whs = [] then (0, None)
      else case scanWorkingHours local slotStart slotEnd False whs of
             (anyApplies, covered) \<Rightarrow>
               if \<not> anyApplies then (0, None)
               else if covered
               then (WORKING_HOURS_BONUS, Some (''within working hours (+'' @ showInt WORKING_HOURS_BONUS @ '')''))
               else (WORKING_HOURS_VIOLATION, Some (''outside working hours ('' @ showInt WORKING_HOURS_VIOLATION @ '')'')))"

text \<open>The required gap before and after, in milliseconds.\<close>

definition addRequirement :: "int \<times> int \<Rightarrow> buffer_config \<Rightarrow> int \<times> int" where
  "addRequirement r bc =
     (let bufMs = bc_minutes bc * 60 * 1000 in
      if bc_type bc = ''travel'' \<or> bc_type bc = ''prep'' then (max (fst r) bufMs, snd r)
      else if bc_type bc = ''cooldown'' then (fst r, max (snd r) bufMs)
      else r)"

definition tooClose :: "int \<times> int \<Rightarrow> int \<Rightarrow> int \<Rightarrow> busy_range \<Rightarrow> bool" where
  "tooClose required slotStart slotEnd busy \<longleftrightarrow>
     (case busy of (a, b, _) \<Rightarrow>
        (case b of Some e \<Rightarrow> e \<le> slotStart \<and> slotStart - e < fst required | None \<Rightarrow> False) \<or>
        (case a of Some s \<Rightarrow> s \<ge> slotEnd \<and> s - slotEnd < snd required | None \<Rightarrow> False))"

definition scoreBufferAdequacy :: "int \<Rightarrow> int \<Rightarrow> busy_range list \<Rightarrow> solver_constraint list \<Rightarrow> scored" where
  "scoreBufferAdequacy slotStart slotEnd busyRanges cs =
     (let bcs = ofKind asBuffer cs in
      if bcs = [] then (0, None)
      else if \<exists>busy \<in> set busyRanges. tooClose (foldl addRequirement (0, 0) bcs) slotStart slotEnd busy
      then (BUFFER_INADEQUATE_PENALTY, Some (''insufficient buffer ('' @ showInt BUFFER_INADEQUATE_PENALTY @ '')''))
      else (BUFFER_ADEQUATE_BONUS, Some (''adequate buffer (+'' @ showInt BUFFER_ADEQUATE_BONUS @ '')'')))"

definition earliestCutoff :: "local_time \<Rightarrow> int \<Rightarrow> int option \<Rightarrow> cutoff_config \<Rightarrow> int option" where
  "earliestCutoff local slotStart earliest nma =
     (let cutoff = getTimestampForTimeInTimezone local slotStart (co_time nma) (co_timezone nma) in
      case earliest of None \<Rightarrow> Some cutoff | Some e \<Rightarrow> if cutoff < e then Some cutoff else earliest)"

definition scoreNoMeetingsAfter :: "local_time \<Rightarrow> int \<Rightarrow> solver_constraint list \<Rightarrow> scored" where
  "scoreNoMeetingsAfter local slotStart cs =
     (case foldl (earliestCutoff local slotStart) None (ofKind asCutoff cs) of
        None \<Rightarrow> (0, None)
      | Some cutoff \<Rightarrow>
          if slotStart \<ge> cutoff
          then (NO_MEETINGS_AFTER_PENALTY, Some (''past daily cutoff ('' @ showInt NO_MEETINGS_AFTER_PENALTY @ '')''))
          else (0, None))"

text \<open>\<^verbatim>\<open>reduce((best, current) => current.weight > best.weight ? current : best)\<close>.\<close>

fun heaviest :: "('v \<Rightarrow> rat) \<Rightarrow> 'v \<Rightarrow> 'v list \<Rightarrow> 'v" where
  "heaviest weight best [] = best"
| "heaviest weight best (current # rest) =
     heaviest weight (if weight current > weight best then current else best) rest"

fun joinReasons :: "string list \<Rightarrow> string" where
  "joinReasons [] = []"
| "joinReasons [r] = r"
| "joinReasons (r # q # rs) = r @ '', '' @ joinReasons (q # rs)"

definition scoreVipOverride :: "solver_constraint list \<Rightarrow> string list option \<Rightarrow> int \<Rightarrow> scored" where
  "scoreVipOverride cs participants whDelta =
     (case filter (\<lambda>v. vc_participant_hash v \<in> set (nullish participants [])) (ofKind asVip cs) of
        [] \<Rightarrow> (0, None)
      | v # vs \<Rightarrow>
          let bestVip = heaviest vc_priority_weight v vs;
              compensated = (whDelta = WORKING_HOURS_VIOLATION \<and> vc_allow_after_hours bestVip);
              weightBonus = jsRound (vc_priority_weight bestVip * VIP_PRIORITY_WEIGHT_MULTIPLIER);
              reasons =
                (if compensated
                 then [''VIP override for '' @ vc_display_name bestVip @ '': after-hours allowed (+'' @
                       showInt (VIP_OVERRIDE_BONUS + \<bar>WORKING_HOURS_VIOLATION\<bar>) @ '')'']
                 else []) @
                (if weightBonus > 0 then [''VIP priority weight (+'' @ showInt weightBonus @ '')''] else [])
          in ((if compensated then - WORKING_HOURS_VIOLATION + VIP_OVERRIDE_BONUS else 0) +
                (if weightBonus > 0 then weightBonus else 0),
              if reasons = [] then None else Some (joinReasons reasons)))"

definition ADJACENCY_THRESHOLD_MS :: int where
  "ADJACENCY_THRESHOLD_MS = 30 * 60 * 1000"

definition nearby :: "int \<Rightarrow> nat" where
  "nearby gap = (if gap \<ge> 0 \<and> gap < ADJACENCY_THRESHOLD_MS then 1 else 0)"

definition adjacentTo :: "int \<Rightarrow> int \<Rightarrow> busy_range \<Rightarrow> nat" where
  "adjacentTo slotStart slotEnd busy =
     (case busy of (a, b, _) \<Rightarrow>
        (case b of Some e \<Rightarrow> nearby (slotStart - e) | None \<Rightarrow> 0) +
        (case a of Some s \<Rightarrow> nearby (s - slotEnd) | None \<Rightarrow> 0))"

text \<open>The part of a score that does not depend on the constraints.\<close>

definition scoreTime :: "int \<Rightarrow> scored" where
  "scoreTime slotStart =
     (let hour = utcHours slotStart in
      if hour \<ge> 8 \<and> hour < 12 then (20, Some ''morning slot (+20)'')
      else if hour \<ge> 12 \<and> hour < 17 then (10, Some ''afternoon slot (+10)'')
      else (0, Some ''evening/early slot (+0)''))"

definition scoreAdjacency :: "int \<Rightarrow> int \<Rightarrow> busy_range list \<Rightarrow> scored" where
  "scoreAdjacency slotStart slotEnd busyRanges =
     (let adjacentCount = int (sum_list (map (adjacentTo slotStart slotEnd) busyRanges)) in
      if adjacentCount > 0
      then (- (adjacentCount * 5), Some (''adjacent to '' @ showInt adjacentCount @ '' event(s) (-'' @
              showInt (adjacentCount * 5) @ '')''))
      else (0, None))"

definition scoreEarliness :: "int \<Rightarrow> int \<Rightarrow> scored" where
  "scoreEarliness slotStart windowStart =
     (let dayBonus = max 0 (7 - (slotStart - windowStart) div msPerDay) in
      (dayBonus, if dayBonus > 0 then Some (''early in window (+'' @ showInt dayBonus @ '')'') else None))"

definition scoreExemption :: "int \<Rightarrow> int \<Rightarrow> int \<Rightarrow> ms_range list \<Rightarrow> scored" where
  "scoreExemption slotStart slotEnd whDelta overrides =
     (0, if whDelta = WORKING_HOURS_VIOLATION \<and> isExemptedByOverride slotStart slotEnd overrides
         then Some ''override exemption: working hours bypassed'' else None)"

definition constraintScores ::
  "local_time \<Rightarrow> int \<Rightarrow> int \<Rightarrow> busy_range list \<Rightarrow> solver_constraint list \<Rightarrow> string list option \<Rightarrow>
   ms_range list \<Rightarrow> scored list" where
  "constraintScores local slotStart slotEnd busyRanges cs participants overrides =
     (if cs = [] then []
      else let wh = scoreWorkingHours local slotStart slotEnd cs in
        [wh, scoreExemption slotStart slotEnd (fst wh) overrides,
         scoreBufferAdequacy slotStart slotEnd busyRanges cs, scoreNoMeetingsAfter local slotStart cs,
         scoreVipOverride cs participants (fst wh)])"

definition scoreSlot ::
  "local_time \<Rightarrow> int \<Rightarrow> int \<Rightarrow> int \<Rightarrow> busy_range list \<Rightarrow> solver_constraint list \<Rightarrow> string list option \<Rightarrow>
   ms_range list \<Rightarrow> int \<times> string" where
  "scoreSlot local slotStart slotEnd windowStart busyRanges cs participants overrides =
     (let parts = [scoreTime slotStart, scoreAdjacency slotStart slotEnd busyRanges,
                   scoreEarliness slotStart windowStart] @
                  constraintScores local slotStart slotEnd busyRanges cs participants overrides
      in (sum_list (map fst parts), joinReasons (List.map_filter snd parts)))"

section \<open>The solver\<close>

definition SLOT_STEP_MINUTES :: int where
  "SLOT_STEP_MINUTES = 30"

definition stepMs :: int where
  "stepMs = SLOT_STEP_MINUTES * 60 * 1000"

function slotStarts :: "int \<Rightarrow> int \<Rightarrow> int \<Rightarrow> int list" where
  "slotStarts durationMs windowEnd slotStart =
     (if slotStart + durationMs \<le> windowEnd
      then slotStart # slotStarts durationMs windowEnd (slotStart + stepMs) else [])"
  by pat_completeness auto
termination
  by (relation "measure (\<lambda>(d, e, s). nat (e - d - s + 1))") (auto simp: stepMs_def SLOT_STEP_MINUTES_def)

declare slotStarts.simps [simp del]

text \<open>What the loop computes once before it starts.\<close>

record solver_run =
  sr_windowStart :: int
  sr_durationMs :: int
  sr_busy :: "busy_range list"
  sr_required :: "string list"
  sr_constraints :: "solver_constraint list"
  sr_participants :: "string list option"
  sr_trips :: "ms_range list"
  sr_overrides :: "ms_range list"
  sr_enforceHours :: bool

definition prepareRun :: "graph_env \<Rightarrow> solver_input \<Rightarrow> int \<Rightarrow> solver_run" where
  "prepareRun env input windowStart =
     (let cs = nullish (in_constraints input) [] in
      \<lparr> sr_windowStart = windowStart, sr_durationMs = in_durationMinutes input * 60 * 1000,
        sr_busy = map (busyRange env) (in_busyIntervals input), sr_required = in_requiredAccountIds input,
        sr_constraints = cs, sr_participants = in_participantHashes input,
        sr_trips = precomputeTripRanges env cs, sr_overrides = precomputeOverrideRanges env cs,
        sr_enforceHours = (ofKind asWorkingHours cs \<noteq> [] \<and>
          \<not> hasMatchingVipAfterHours cs (in_participantHashes input)) \<rparr>)"

definition admissible :: "local_time \<Rightarrow> solver_run \<Rightarrow> int \<Rightarrow> bool" where
  "admissible local r slotStart =
     (let slotEnd = slotStart + sr_durationMs r in
      if isBlockedByTrip slotStart slotEnd (sr_trips r) then False
      else if sr_enforceHours r \<and> checkWorkingHoursHard local slotStart slotEnd (sr_constraints r) = OutsideHours \<and>
              \<not> isExemptedByOverride slotStart slotEnd (sr_overrides r) then False
      else \<not> (\<exists>busy \<in> set (sr_busy r). busyBlocks (sr_required r) slotStart slotEnd busy))"

text \<open>\<^verbatim>\<open>toISOString().replace(".000Z", "Z")\<close>: the first occurrence, and there is at most one, at the end.\<close>

definition isoShort :: "int \<Rightarrow> string" where
  "isoShort ms =
     (let t = toISOString ms; n = length t - 5 in if drop n t = ''.000Z'' then take n t @ ''Z'' else t)"

definition candidateAt :: "local_time \<Rightarrow> solver_run \<Rightarrow> int \<Rightarrow> scored_candidate" where
  "candidateAt local r slotStart =
     (let slotEnd = slotStart + sr_durationMs r;
          (score, explanation) = scoreSlot local slotStart slotEnd (sr_windowStart r) (sr_busy r)
             (sr_constraints r) (sr_participants r) (sr_overrides r)
      in \<lparr> sd_start = isoShort slotStart, sd_end = isoShort slotEnd, sd_score = of_int score,
           sd_explanation = explanation \<rparr>)"

text \<open>The comparison of \<^verbatim>\<open>candidates.sort\<close>: score descending, then start; \<^verbatim>\<open>sort\<close> is stable.\<close>

definition rankBy :: "(string \<Rightarrow> string) \<Rightarrow> ('c \<Rightarrow> 'k::linorder) \<Rightarrow> ('c \<Rightarrow> string) \<Rightarrow> 'c list \<Rightarrow> 'c list" where
  "rankBy collate score start cs = sortDesc score (sort_key (\<lambda>c. collate (start c)) cs)"

text \<open>\<^verbatim>\<open>slice(0, n)\<close>: a negative \<open>n\<close> counts from the end.\<close>

definition sliceTo :: "int \<Rightarrow> 'c list \<Rightarrow> 'c list" where
  "sliceTo n cs = (if n \<ge> 0 then take (nat n) cs else take (length cs - nat (- n)) cs)"

definition allCandidates :: "graph_env \<Rightarrow> local_time \<Rightarrow> solver_input \<Rightarrow> scored_candidate list" where
  "allCandidates env local input =
     (case (dateParse (js_date env) (in_windowStart input), dateParse (js_date env) (in_windowEnd input)) of
        (Some a, Some b) \<Rightarrow>
          let r = prepareRun env input a in
          map (candidateAt local r) (filter (admissible local r) (slotStarts (sr_durationMs r) b a))
      | _ \<Rightarrow> [])"

definition greedySolver ::
  "graph_env \<Rightarrow> local_time \<Rightarrow> (string \<Rightarrow> string) \<Rightarrow> solver_input \<Rightarrow> int \<Rightarrow> scored_candidate list" where
  "greedySolver env local collate input maxCandidates =
     sliceTo maxCandidates (rankBy collate sd_score sd_start (allCandidates env local input))"

end
