(* ===== verification/Scheduling_Scores.thy ===== *)
theory Scheduling_Scores
  imports Slot_Solver Graph_People
begin

text \<open>
  Fairness and priority of a proposal, \<^verbatim>\<open>workflows/scheduling/src/fairness.ts\<close>, and the choice between the greedy
  solver and an external one, \<^verbatim>\<open>external-solver.ts\<close>. Rates and weights are exact rationals. \<open>shown\<close> is how the engine
  prints a number in a template string.
\<close>

section \<open>Fairness\<close>

definition MIN_FAIRNESS_ADJUSTMENT :: rat where
  "MIN_FAIRNESS_ADJUSTMENT = 1 / 2"

definition MAX_FAIRNESS_ADJUSTMENT :: rat where
  "MAX_FAIRNESS_ADJUSTMENT = 3 / 2"

definition preferenceRate :: "participant_history \<Rightarrow> rat" where
  "preferenceRate h =
     (if ph_sessions_participated h = 0 then 0
      else of_nat (ph_sessions_preferred h) / of_nat (ph_sessions_participated h))"

definition countedEntries :: "participant_history list \<Rightarrow> participant_history list" where
  "countedEntries history = filter (\<lambda>h. ph_sessions_participated h \<noteq> 0) history"

definition averageRate :: "participant_history list \<Rightarrow> rat" where
  "averageRate history =
     sum_list (map preferenceRate (countedEntries history)) / of_nat (length (countedEntries history))"

definition clampAdjustment :: "rat \<Rightarrow> rat" where
  "clampAdjustment raw = max MIN_FAIRNESS_ADJUSTMENT (min MAX_FAIRNESS_ADJUSTMENT raw)"

definition computeFairnessScore ::
  "(rat \<Rightarrow> string) \<Rightarrow> participant_history list \<Rightarrow> string option \<Rightarrow> rat \<times> string" where
  "computeFairnessScore shown history target =
     (if history = [] then (1, ''no history: fairness neutral'')
      else if length history = 1 then (1, ''single participant: fairness neutral'')
      else if \<not> truthy target then (1, ''no target participant: fairness neutral'')
      else if countedEntries history = [] then (1, ''no valid history: fairness neutral'')
      else case filter (\<lambda>h. ph_participant_hash h = the target) history of
             [] \<Rightarrow> (1, ''participant not in history: fairness neutral'')
           | h # _ \<Rightarrow>
               let rounded = of_int (jsRound (clampAdjustment (1 - (preferenceRate h - averageRate history)) * 100)) / 100 in
               if rounded = 1 then (1, ''fairness: at group average'')
               else (rounded, ''fairness: '' @ the target @ '' '' @
                       (if rounded < 1 then ''advantaged'' else ''disadvantaged'') @ '' ('' @ shown rounded @ ''x)''))"

section \<open>Priority\<close>

record vip_policy =
  vq_participant_hash :: string
  vq_display_name :: string
  vq_priority_weight :: rat

definition applyVipWeight :: "(rat \<Rightarrow> string) \<Rightarrow> vip_policy list \<Rightarrow> string list \<Rightarrow> rat \<times> string option" where
  "applyVipWeight shown vips participants =
     (case filter (\<lambda>p. vq_participant_hash p \<in> set participants) vips of
        [] \<Rightarrow> (1, None)
      | p # ps \<Rightarrow>
          let best = heaviest vq_priority_weight p ps in
          (vq_priority_weight best,
           Some (''VIP priority: '' @ vq_display_name best @ '' ('' @ shown (vq_priority_weight best) @ ''x)'')))"

record multi_factor =
  mf_timePreferenceScore :: rat
  mf_constraintScore :: rat
  mf_fairnessAdjustment :: rat
  mf_vipWeight :: rat

definition computeMultiFactorScore :: "multi_factor \<Rightarrow> int" where
  "computeMultiFactorScore f =
     jsRound ((mf_timePreferenceScore f + mf_constraintScore f) * mf_fairnessAdjustment f * mf_vipWeight f)"

definition buildExplanation :: "multi_factor \<Rightarrow> string \<Rightarrow> string option \<Rightarrow> string option \<Rightarrow> string" where
  "buildExplanation f base fairness vip =
     joinReasons
       ((if base \<noteq> [] then [base] else []) @
        (if mf_fairnessAdjustment f \<noteq> 1 \<and> truthy fairness then [the fairness] else []) @
        (if mf_vipWeight f > 1 \<and> truthy vip then [the vip] else []))"

definition recordSchedulingOutcome ::
  "string \<Rightarrow> string list \<Rightarrow> string option \<Rightarrow> string \<Rightarrow> (string \<times> string \<times> bool \<times> string) list" where
  "recordSchedulingOutcome sessionId participants preferred scheduledTs =
     map (\<lambda>hash. (sessionId, hash, Some hash = preferred, scheduledTs)) participants"

section \<open>Which solver\<close>

datatype solver_kind = Greedy | External

definition PARTICIPANT_THRESHOLD :: nat where
  "PARTICIPANT_THRESHOLD = 3"

definition CONSTRAINT_THRESHOLD :: nat where
  "CONSTRAINT_THRESHOLD = 5"

definition selectSolver :: "solver_input \<Rightarrow> solver_kind" where
  "selectSolver input =
     (if length (nullish (in_participantHashes input) []) > PARTICIPANT_THRESHOLD then External
      else if length (nullish (in_constraints input) []) > CONSTRAINT_THRESHOLD then External
      else Greedy)"

text \<open>
  What the endpoint answers: no response in time, a status, or a JSON body, \<^const>\<open>None\<close> for one without an array of
  candidates. A failure of any kind is an exception with its message.
\<close>

datatype http_reply = No_Response string | Http_Status nat string | Http_Ok "scored_candidate list option"

definition externalSolve :: "http_reply \<Rightarrow> tm_error + scored_candidate list" where
  "externalSolve reply =
     (case reply of
        No_Response m \<Rightarrow> Inl (Thrown m)
      | Http_Status n body \<Rightarrow> Inl (Thrown (''External solver returned HTTP '' @ showNat n @ '': '' @ body))
      | Http_Ok None \<Rightarrow> Inl (Thrown ''External solver response missing candidates array'')
      | Http_Ok (Some cs) \<Rightarrow> Inr cs)"

text \<open>\<^verbatim>\<open>createSolverFromEnv\<close>: an endpoint of blanks counts as none.\<close>

definition createSolverFromEnv :: "string option \<Rightarrow> solver_kind" where
  "createSolverFromEnv endpoint = (if truthy endpoint \<and> \<not> blank (the endpoint) then External else Greedy)"

record solver_site =
  st_env :: graph_env
  st_local :: local_time
  st_collate :: "string \<Rightarrow> string"
  st_endpoint :: "string option"
  st_http :: "solver_input \<Rightarrow> int \<Rightarrow> http_reply"
  st_shown :: "rat \<Rightarrow> string"

definition solveGreedy :: "solver_site \<Rightarrow> solver_input \<Rightarrow> int \<Rightarrow> scored_candidate list" where
  "solveGreedy site input n = greedySolver (st_env site) (st_local site) (st_collate site) input n"

definition runSolverWithFallback :: "solver_site \<Rightarrow> solver_input \<Rightarrow> int \<Rightarrow> scored_candidate list" where
  "runSolverWithFallback site input n =
     (if \<not> truthy (st_endpoint site) then solveGreedy site input n
      else case selectSolver input of
             Greedy \<Rightarrow> solveGreedy site input n
           | External \<Rightarrow>
               (case createSolverFromEnv (st_endpoint site) of
                  Greedy \<Rightarrow> solveGreedy site input n
                | External \<Rightarrow>
                    (case externalSolve (st_http site input n) of
                       Inl _ \<Rightarrow> solveGreedy site input n
                     | Inr cs \<Rightarrow> cs)))"

end
