(* ===== verification/Scheduling_Holds.thy ===== *)
theory Scheduling_Holds
  imports Slot_Solver
begin

text \<open>
  Tentative holds, \<^verbatim>\<open>workflows/scheduling/src/holds.ts\<close>: making one with its queue messages, its state machine, its expiry,
  its extension and its conflicts with an event. A hold is the row of \<^verbatim>\<open>schedule_holds\<close>. Durations in hours may be
  fractions.
\<close>

definition DEFAULT_HOLD_TIMEOUT_MS :: int where
  "DEFAULT_HOLD_TIMEOUT_MS = 24 * 60 * 60 * 1000"

definition MIN_HOLD_TIMEOUT_MS :: int where
  "MIN_HOLD_TIMEOUT_MS = 5 * 60 * 1000"

definition HOLD_DURATION_MIN_HOURS :: rat where
  "HOLD_DURATION_MIN_HOURS = 1"

definition HOLD_DURATION_MAX_HOURS :: rat where
  "HOLD_DURATION_MAX_HOURS = 72"

definition APPROACHING_EXPIRY_THRESHOLD_MS :: int where
  "APPROACHING_EXPIRY_THRESHOLD_MS = 60 * 60 * 1000"

section \<open>The state machine\<close>

datatype hold_status = Held | Committed | Released | Expired

fun statusText :: "hold_status \<Rightarrow> string" where
  "statusText Held = ''held''"
| "statusText Committed = ''committed''"
| "statusText Released = ''released''"
| "statusText Expired = ''expired''"

fun VALID_TRANSITIONS :: "hold_status \<Rightarrow> hold_status list" where
  "VALID_TRANSITIONS Held = [Committed, Released, Expired]"
| "VALID_TRANSITIONS Committed = []"
| "VALID_TRANSITIONS Released = []"
| "VALID_TRANSITIONS Expired = []"

definition isValidTransition :: "hold_status \<Rightarrow> hold_status \<Rightarrow> bool" where
  "isValidTransition a b \<longleftrightarrow> b \<in> set (VALID_TRANSITIONS a)"

definition quoted :: "string \<Rightarrow> string" where
  "quoted s = [CHR 0x27] @ s @ [CHR 0x27]"

definition transitionHold :: "hold_status \<Rightarrow> hold_status \<Rightarrow> tm_error + hold_status" where
  "transitionHold a b =
     (if isValidTransition a b then Inr b
      else Inl (Thrown (''Invalid hold transition: '' @ quoted (statusText a) @ '' -> '' @ quoted (statusText b) @
             ''. Hold in '' @ quoted (statusText a) @ '' state cannot transition to '' @ quoted (statusText b) @ ''.'')))"

section \<open>Making a hold\<close>

record hold_params =
  hp_sessionId :: string
  hp_accountId :: string
  hp_candidateStart :: string
  hp_candidateEnd :: string
  hp_title :: string
  hp_holdTimeoutMs :: "int option"

text \<open>\<open>uid\<close> is the identifier that \<^verbatim>\<open>generateId\<close> draws.\<close>

definition createHoldRecord :: "graph_env \<Rightarrow> string \<Rightarrow> hold_params \<Rightarrow> tm_error + hold_row" where
  "createHoldRecord env uid p =
     (let timeoutMs = nullish (hp_holdTimeoutMs p) DEFAULT_HOLD_TIMEOUT_MS in
      if timeoutMs < MIN_HOLD_TIMEOUT_MS
      then Inl (Thrown (''Hold timeout ('' @ showInt timeoutMs @ ''ms) is below minimum ('' @
             showInt MIN_HOLD_TIMEOUT_MS @ ''ms)''))
      else map_sum id
        (\<lambda>expires. \<lparr> sh_hold_id = generateId ''hold'' uid, sh_session_id = hp_sessionId p,
                     sh_account_id = hp_accountId p, sh_provider_event_id = None,
                     sh_expires_at = expires, sh_status = ''held'' \<rparr>)
        (isoOrThrow (Some (now_ms env + timeoutMs))))"

text \<open>\<^verbatim>\<open>{ dateTime: ... }\<close> alone.\<close>

definition atTime :: "string \<Rightarrow> projected_time" where
  "atTime t = Projected_DateTime (Some t) None"

definition buildHoldUpsertMessage :: "hold_row \<Rightarrow> hold_params \<Rightarrow> string \<Rightarrow> queue_message" where
  "buildHoldUpsertMessage hold p calendarId =
     (let eventId = ''hold_'' @ sh_hold_id hold in
      UPSERT_MIRROR
        \<lparr> um_canonical_event_id = eventId, um_target_account_id = hp_accountId p,
          um_target_calendar_id = calendarId, um_projected_hash = None,
          um_projected_payload =
            \<lparr> pr_summary = ''[Hold] '' @ hp_title p, pr_description = None, pr_location = None,
              pr_start = atTime (hp_candidateStart p), pr_end = atTime (hp_candidateEnd p),
              pr_transparency = ''opaque'', pr_visibility = ''default'',
              pr_private = [(''tminus'', ''true''), (''managed'', ''true''),
                (''canonical_event_id'', eventId), (''origin_account_id'', hp_accountId p)] \<rparr>,
          um_idempotency_key = ''hold_create_'' @ sh_hold_id hold \<rparr>)"

definition buildHoldDeleteMessage :: "hold_row \<Rightarrow> queue_message option" where
  "buildHoldDeleteMessage hold =
     (if \<not> truthy (sh_provider_event_id hold) then None
      else Some (DELETE_MIRROR
        \<lparr> dm_canonical_event_id = ''hold_'' @ sh_hold_id hold, dm_target_account_id = sh_account_id hold,
          dm_target_calendar_id = None, dm_provider_event_id = the (sh_provider_event_id hold),
          dm_idempotency_key = Some (''hold_delete_'' @ sh_hold_id hold) \<rparr>))"

section \<open>Expiry\<close>

text \<open>\<^verbatim>\<open>now ? new Date(now).getTime() : Date.now()\<close>.\<close>

definition nowOr :: "graph_env \<Rightarrow> string option \<Rightarrow> int option" where
  "nowOr env now = (if truthy now then dateParse (js_date env) (the now) else Some (now_ms env))"

definition isHoldExpired :: "graph_env \<Rightarrow> hold_row \<Rightarrow> string option \<Rightarrow> bool" where
  "isHoldExpired env hold now \<longleftrightarrow> nanLe (dateParse (js_date env) (sh_expires_at hold)) (nowOr env now)"

definition findExpiredHolds :: "graph_env \<Rightarrow> hold_row list \<Rightarrow> string option \<Rightarrow> hold_row list" where
  "findExpiredHolds env holds now = filter (\<lambda>h. sh_status h = ''held'' \<and> isHoldExpired env h now) holds"

definition isApproachingExpiry :: "graph_env \<Rightarrow> hold_row \<Rightarrow> string option \<Rightarrow> bool" where
  "isApproachingExpiry env hold now \<longleftrightarrow>
     sh_status hold = ''held'' \<and>
     nanLe (nanWith (-) (dateParse (js_date env) (sh_expires_at hold)) (nowOr env now))
       (Some APPROACHING_EXPIRY_THRESHOLD_MS)"

section \<open>Extension\<close>

definition validateHoldDurationHours :: "(rat \<Rightarrow> string) \<Rightarrow> rat \<Rightarrow> tm_error + rat" where
  "validateHoldDurationHours shown hours =
     (if hours < HOLD_DURATION_MIN_HOURS \<or> hours > HOLD_DURATION_MAX_HOURS
      then Inl (Thrown (''Hold duration must be between '' @ shown HOLD_DURATION_MIN_HOURS @ '' and '' @
             shown HOLD_DURATION_MAX_HOURS @ '' hours, got '' @ shown hours))
      else Inr hours)"

definition holdDurationHoursToMs :: "rat \<Rightarrow> rat" where
  "holdDurationHoursToMs hours = hours * 60 * 60 * 1000"

text \<open>\<^verbatim>\<open>new Date(x)\<close> drops the fraction of a millisecond, towards zero.\<close>

definition truncate :: "rat \<Rightarrow> int" where
  "truncate x = (if x < 0 then \<lceil>x\<rceil> else \<lfloor>x\<rfloor>)"

definition computeExtendedExpiry ::
  "graph_env \<Rightarrow> (rat \<Rightarrow> string) \<Rightarrow> hold_row \<Rightarrow> rat \<Rightarrow> string option \<Rightarrow> tm_error + string" where
  "computeExtendedExpiry env shown hold durationHours now =
     (if sh_status hold \<noteq> ''held''
      then Inl (Thrown (''Only holds in '' @ quoted ''held'' @ '' status can be extended. Current status: '' @
             quoted (sh_status hold)))
      else case validateHoldDurationHours shown durationHours of
             Inl e \<Rightarrow> Inl e
           | Inr hours \<Rightarrow>
               isoOrThrow (map_option (\<lambda>n. truncate (of_int n + holdDurationHoursToMs hours)) (nowOr env now)))"

section \<open>Conflicts\<close>

record hold_conflict =
  hc_hold_id :: string
  hc_session_id :: string
  hc_hold_start :: string
  hc_hold_end :: string

definition conflictWith ::
  "graph_env \<Rightarrow> string \<Rightarrow> string \<Rightarrow> (string \<Rightarrow> (string \<times> string) option) \<Rightarrow> hold_row \<Rightarrow> hold_conflict list" where
  "conflictWith env eventStart eventEnd candidateTimes hold =
     (if sh_status hold \<noteq> ''held'' then []
      else case candidateTimes (sh_hold_id hold) of
             None \<Rightarrow> []
           | Some (a, b) \<Rightarrow>
               if nanLess (dateParse (js_date env) eventStart) (dateParse (js_date env) b) \<and>
                  nanLess (dateParse (js_date env) a) (dateParse (js_date env) eventEnd)
               then [\<lparr> hc_hold_id = sh_hold_id hold, hc_session_id = sh_session_id hold,
                       hc_hold_start = a, hc_hold_end = b \<rparr>]
               else [])"

definition detectHoldConflicts ::
  "graph_env \<Rightarrow> string \<Rightarrow> string \<Rightarrow> hold_row list \<Rightarrow> (string \<Rightarrow> (string \<times> string) option) \<Rightarrow>
   hold_conflict list" where
  "detectHoldConflicts env eventStart eventEnd holds candidateTimes =
     concat (map (conflictWith env eventStart eventEnd candidateTimes) holds)"

end
