(* ===== verification/Scheduling_Calls.thy ===== *)
theory Scheduling_Calls
  imports Scheduling_Scores Scheduling_Holds Graph_Sessions Graph_Events Write_Queue
begin

text \<open>
  The world of the two schedulers: the graphs of the users, one object per user, the write queue, the registry of the
  group sessions in D1, and the identifiers drawn so far. A call to an object may be refused, or run and lose its answer;
  an exception inside the object comes back as an answer that is not \<^verbatim>\<open>ok\<close>.
\<close>

record registry_row =
  gr_session_id :: string
  gr_creator_user_id :: string
  gr_participant_ids :: "string list"
  gr_title :: string
  gr_status :: string
  gr_created_at :: string

record sched_world =
  wd_graph :: "string \<Rightarrow> user_graph"
  wd_queue :: "queue_message list"
  wd_registry :: "registry_row list"
  wd_calls :: nat
  wd_ids :: nat

record sched_site = solver_site +
  st_fate :: "nat \<Rightarrow> rpc_fate"
  st_ulid :: "nat \<Rightarrow> string"

type_synonym 'a sched_op = "(sched_world, 'a) op"

definition networkLost :: tm_error where
  "networkLost = Thrown ''Network connection lost.''"

definition countCall :: "sched_world \<Rightarrow> sched_world" where
  "countCall w = w\<lparr> wd_calls := wd_calls w + 1 \<rparr>"

text \<open>\<^verbatim>\<open>await stub.fetch(...)\<close>: what comes back is an answer, \<^const>\<open>Inl\<close> for one that is not \<^verbatim>\<open>ok\<close>.\<close>

definition fetchFrom :: "sched_site \<Rightarrow> string \<Rightarrow> 'a graph_op \<Rightarrow> (tm_error + 'a) sched_op" where
  "fetchFrom site user m w =
     (let (r, g) = m (wd_graph w user); w' = (countCall w)\<lparr> wd_graph := (wd_graph w)(user := g) \<rparr> in
      case st_fate site (wd_calls w) of
        Refused \<Rightarrow> (Inl networkLost, countCall w)
      | Reply_Lost \<Rightarrow> (Inl networkLost, w')
      | Delivered \<Rightarrow> (Inr r, w'))"

definition failedWith :: "string \<Rightarrow> tm_error \<Rightarrow> tm_error" where
  "failedWith what e =
     Thrown (what @ '' (500): '' @ stringify (JObj [(''error'', JStr (error_message e))]))"

definition callUser :: "sched_site \<Rightarrow> string \<Rightarrow> string \<Rightarrow> 'a graph_op \<Rightarrow> 'a sched_op" where
  "callUser site user what m =
     andThen (fetchFrom site user m) (\<lambda>r.
       case r of Inl e \<Rightarrow> throw (failedWith what e) | Inr x \<Rightarrow> ret x)"

definition sendBatch :: "sched_site \<Rightarrow> queue_message list \<Rightarrow> unit sched_op" where
  "sendBatch site ms w =
     (case st_fate site (wd_calls w) of
        Refused \<Rightarrow> (Inl QueueRejected, countCall w)
      | Reply_Lost \<Rightarrow> (Inl QueueRejected, (countCall w)\<lparr> wd_queue := wd_queue w @ ms \<rparr>)
      | Delivered \<Rightarrow> (Inr (), (countCall w)\<lparr> wd_queue := wd_queue w @ ms \<rparr>))"

definition newId :: "sched_site \<Rightarrow> string \<Rightarrow> string sched_op" where
  "newId site entity w =
     (Inr (generateId entity (st_ulid site (wd_ids w))), w\<lparr> wd_ids := wd_ids w + 1 \<rparr>)"

section \<open>Combinators\<close>

text \<open>\<^verbatim>\<open>map\<close> with an effect, from left to right.\<close>

fun collect :: "('x \<Rightarrow> ('e, 's, 'y) eop) \<Rightarrow> 'x list \<Rightarrow> ('e, 's, 'y list) eop" where
  "collect f [] = ret []"
| "collect f (x # xs) = andThen (f x) (\<lambda>y. andThen (collect f xs) (\<lambda>ys. ret (y # ys)))"

text \<open>
  \<^verbatim>\<open>Promise.all\<close>: every call is made, and the first that fails is the failure of the whole. The calls of one
  \<^verbatim>\<open>Promise.all\<close> here read, or write to different objects (the same rows once more for a user who is listed twice),
  so their order does not matter.
\<close>

definition settle :: "('e, 's, 'a) eop \<Rightarrow> ('e, 's, 'e + 'a) eop" where
  "settle m s = (case m s of (r, t) \<Rightarrow> (Inr r, t))"

definition awaited :: "'e + 'a \<Rightarrow> ('e, 's, 'a) eop" where
  "awaited r = (case r of Inl e \<Rightarrow> throw e | Inr x \<Rightarrow> ret x)"

definition promiseAll :: "('x \<Rightarrow> ('e, 's, 'y) eop) \<Rightarrow> 'x list \<Rightarrow> ('e, 's, 'y list) eop" where
  "promiseAll f xs = andThen (collect (\<lambda>x. settle (f x)) xs) (collect awaited)"

section \<open>Holds\<close>

text \<open>The identifier of a hold is drawn when its timeout was accepted.\<close>

definition drawHold :: "sched_site \<Rightarrow> hold_params \<Rightarrow> hold_row sched_op" where
  "drawHold site p w =
     (case createHoldRecord (st_env site) (st_ulid site (wd_ids w)) p of
        Inl e \<Rightarrow> (Inl e, w)
      | Inr h \<Rightarrow> (Inr h, w\<lparr> wd_ids := wd_ids w + 1 \<rparr>))"

section \<open>The registry\<close>

definition d1 :: "sched_site \<Rightarrow> (registry_row list \<Rightarrow> (tm_error + 'a) \<times> registry_row list) \<Rightarrow> 'a sched_op" where
  "d1 site m w =
     (let (r, rows) = m (wd_registry w); w' = (countCall w)\<lparr> wd_registry := rows \<rparr> in
      case st_fate site (wd_calls w) of
        Refused \<Rightarrow> (Inl networkLost, countCall w)
      | Reply_Lost \<Rightarrow> (Inl networkLost, w')
      | Delivered \<Rightarrow> (r, w'))"

definition registerSessionInD1 :: "sched_site \<Rightarrow> registry_row \<Rightarrow> unit sched_op" where
  "registerSessionInD1 site row = d1 site (\<lambda>rows.
     if gr_session_id row \<in> gr_session_id ` set rows
     then (Inl (UniqueViolation ''group_scheduling_sessions.session_id''), rows)
     else (Inr (), rows @ [row]))"

definition getSessionFromD1 :: "sched_site \<Rightarrow> string \<Rightarrow> registry_row option sched_op" where
  "getSessionFromD1 site sid = d1 site (\<lambda>rows.
     (Inr (case filter (\<lambda>r. gr_session_id r = sid) rows of [] \<Rightarrow> None | r # _ \<Rightarrow> Some r), rows))"

definition updateSessionStatusInD1 :: "sched_site \<Rightarrow> string \<Rightarrow> string \<Rightarrow> unit sched_op" where
  "updateSessionStatusInD1 site sid st = d1 site (\<lambda>rows.
     (Inr (), updateRows (\<lambda>r. gr_session_id r = sid) (\<lambda>r. r\<lparr> gr_status := st \<rparr>) rows))"

end
