(* ===== verification/Scheduling_Workflow.thy ===== *)
theory Scheduling_Workflow
  imports Scheduling_Calls
begin

text \<open>
  The scheduling workflow of one user, \<^verbatim>\<open>workflows/scheduling/src/index.ts\<close>: it asks the graph of the user for the busy
  times, the constraints, the VIPs and the history, runs the solver, weighs the proposals, stores them with tentative
  holds, and later commits one of them or cancels the session.
\<close>

record scheduling_params =
  ps_userId :: string
  ps_title :: string
  ps_durationMinutes :: int
  ps_windowStart :: string
  ps_windowEnd :: string
  ps_requiredAccountIds :: "string list"
  ps_maxCandidates :: "int option"
  ps_holdTimeoutMs :: "int option"
  ps_targetCalendarId :: "string option"
  ps_participantHashes :: "string list option"

definition participants :: "scheduling_params \<Rightarrow> string list" where
  "participants p = nullish (ps_participantHashes p) []"

text \<open>\<^verbatim>\<open>JSON.stringify(params)\<close>: a field that is \<^verbatim>\<open>undefined\<close> is left out.\<close>

definition optField :: "string \<Rightarrow> ('a \<Rightarrow> json) \<Rightarrow> 'a option \<Rightarrow> (string \<times> json) list" where
  "optField k f v = (case v of None \<Rightarrow> [] | Some x \<Rightarrow> [(k, f x)])"

definition jStrings :: "string list \<Rightarrow> json" where
  "jStrings xs = JArr (map JStr xs)"

definition paramsJson :: "scheduling_params \<Rightarrow> json" where
  "paramsJson p = JObj
     ([(''userId'', JStr (ps_userId p)), (''title'', JStr (ps_title p)),
       (''durationMinutes'', JNum (ps_durationMinutes p)),
       (''windowStart'', JStr (ps_windowStart p)), (''windowEnd'', JStr (ps_windowEnd p)),
       (''requiredAccountIds'', jStrings (ps_requiredAccountIds p))] @
      optField ''maxCandidates'' JNum (ps_maxCandidates p) @
      optField ''holdTimeoutMs'' JNum (ps_holdTimeoutMs p) @
      optField ''targetCalendarId'' JStr (ps_targetCalendarId p) @
      optField ''participantHashes'' jStrings (ps_participantHashes p))"

definition orThrow :: "string option \<Rightarrow> 'a \<Rightarrow> (tm_error, 's, 'a) eop" where
  "orThrow problem x = (case problem of Some m \<Rightarrow> throw (Thrown m) | None \<Rightarrow> ret x)"

definition validateParams :: "graph_env \<Rightarrow> scheduling_params \<Rightarrow> string option" where
  "validateParams env p = firstError
     [(ps_userId p = [], ''userId is required''),
      (blank (ps_title p), ''title is required''),
      (ps_durationMinutes p < 15 \<or> ps_durationMinutes p > 480, ''durationMinutes must be between 15 and 480''),
      (ps_windowStart p = [], ''windowStart is required''),
      (ps_windowEnd p = [], ''windowEnd is required''),
      (nanLe (dateParse (js_date env) (ps_windowEnd p)) (dateParse (js_date env) (ps_windowStart p)),
       ''windowStart must be before windowEnd''),
      (ps_requiredAccountIds p = [], ''At least one requiredAccountId is needed'')]"

section \<open>What the solver is given\<close>

definition overrideConstraint :: "constraint_row \<Rightarrow> solver_constraint list" where
  "overrideConstraint c =
     (let a = orNullish (strField (cn_config_json c) ''slot_start'') (cn_active_from c);
          b = orNullish (strField (cn_config_json c) ''slot_end'') (cn_active_to c) in
      if truthy a \<and> truthy b
      then [Override \<lparr> oc_reason = nullish (strField (cn_config_json c) ''reason'') ''manual override'',
              oc_slot_start = the a, oc_slot_end = the b,
              oc_timezone = nullish (strField (cn_config_json c) ''timezone'') ''UTC'' \<rparr>]
      else [])"

definition tripConstraint :: "graph_env \<Rightarrow> int option \<Rightarrow> int option \<Rightarrow> constraint_row \<Rightarrow> solver_constraint list" where
  "tripConstraint env w0 w1 c =
     (if truthy (cn_active_from c) \<and> truthy (cn_active_to c) \<and>
         nanLess w0 (dateParse (js_date env) (the (cn_active_to c))) \<and>
         nanLess (dateParse (js_date env) (the (cn_active_from c))) w1
      then [Trip (the (cn_active_from c)) (the (cn_active_to c))] else [])"

definition convertOne :: "graph_env \<Rightarrow> int option \<Rightarrow> int option \<Rightarrow> constraint_row \<Rightarrow> solver_constraint list" where
  "convertOne env w0 w1 c =
     (if cn_kind c = ''working_hours'' then [WorkingHours (workingHoursConfig c)]
      else if cn_kind c = ''trip'' then tripConstraint env w0 w1 c
      else if cn_kind c = ''buffer'' then [Buffer (bufferConfig c)]
      else if cn_kind c = ''no_meetings_after'' then [NoMeetingsAfter (noMeetingsAfterConfig c)]
      else if cn_kind c = ''override'' then overrideConstraint c
      else [])"

definition convertToSolverConstraints ::
  "graph_env \<Rightarrow> constraint_row list \<Rightarrow> string \<Rightarrow> string \<Rightarrow> solver_constraint list" where
  "convertToSolverConstraints env raw w0 w1 =
     concat (map (convertOne env (dateParse (js_date env) w0) (dateParse (js_date env) w1)) raw)"

definition gatherAvailability ::
  "sched_site \<Rightarrow> string \<Rightarrow> string \<Rightarrow> string \<Rightarrow> string list \<Rightarrow> availability_result sched_op" where
  "gatherAvailability site user a b accounts =
     callUser site user ''UserGraphDO.computeAvailability failed''
       (computeAvailability (st_env site) (st_local site) (st_collate site)
         \<lparr> aq_start = a, aq_end = b, aq_accounts = Some accounts \<rparr>)"

text \<open>An answer that is not \<^verbatim>\<open>ok\<close> counts as no constraints; a call that fails is an exception.\<close>

definition getActiveConstraints :: "sched_site \<Rightarrow> string \<Rightarrow> string \<Rightarrow> string \<Rightarrow> solver_constraint list sched_op" where
  "getActiveConstraints site user a b =
     andThen (fetchFrom site user (listConstraints None)) (\<lambda>r.
       case r of Inl _ \<Rightarrow> ret [] | Inr items \<Rightarrow> ret (convertToSolverConstraints (st_env site) items a b))"

definition numField :: "json \<Rightarrow> string \<Rightarrow> rat" where
  "numField j k = (case field j k of Some (JNum n) \<Rightarrow> of_int n | _ \<Rightarrow> 0)"

definition vipConstraint :: "vip_row \<Rightarrow> vip_config" where
  "vipConstraint v =
     \<lparr> vc_participant_hash = vp_participant_hash v, vc_display_name = nullish (vp_display_name v) ''VIP'',
       vc_priority_weight = vp_priority_weight v,
       vc_allow_after_hours = jsTruthy (field (vp_conditions_json v) ''allow_after_hours''),
       vc_min_notice_hours = numField (vp_conditions_json v) ''min_notice_hours'',
       vc_override_deep_work = jsTruthy (field (vp_conditions_json v) ''override_deep_work'') \<rparr>"

definition getVipOverrideConstraints :: "sched_site \<Rightarrow> string \<Rightarrow> vip_config list sched_op" where
  "getVipOverrideConstraints site user =
     tryCatch (andThen (fetchFrom site user listVipPolicies) (\<lambda>r.
       case r of
         Inl _ \<Rightarrow> ret []
       | Inr items \<Rightarrow>
           if \<exists>v \<in> set items. vp_conditions_json v = JNull then throw (Thrown ''Cannot read properties of null'')
           else ret (map vipConstraint items)))
       (\<lambda>_. ret [])"

definition fetchHistory :: "sched_site \<Rightarrow> string \<Rightarrow> string list \<Rightarrow> participant_history list sched_op" where
  "fetchHistory site user hashes =
     (if hashes = [] then ret []
      else tryCatch (andThen (fetchFrom site user (getSchedulingHistory hashes)) (\<lambda>r.
             case r of Inl _ \<Rightarrow> ret [] | Inr h \<Rightarrow> ret h)) (\<lambda>_. ret []))"

record gathered =
  ga_availability :: availability_result
  ga_constraints :: "solver_constraint list"
  ga_vips :: "vip_config list"
  ga_history :: "participant_history list"

definition gather :: "sched_site \<Rightarrow> scheduling_params \<Rightarrow> gathered sched_op" where
  "gather site p =
     andThen (settle (gatherAvailability site (ps_userId p) (ps_windowStart p) (ps_windowEnd p)
                (ps_requiredAccountIds p))) (\<lambda>ra.
     andThen (settle (getActiveConstraints site (ps_userId p) (ps_windowStart p) (ps_windowEnd p))) (\<lambda>rc.
     andThen (getVipOverrideConstraints site (ps_userId p)) (\<lambda>vips.
     andThen (fetchHistory site (ps_userId p) (participants p)) (\<lambda>history.
     andThen (awaited ra) (\<lambda>availability.
     andThen (awaited rc) (\<lambda>cs.
     ret \<lparr> ga_availability = availability, ga_constraints = cs, ga_vips = vips, ga_history = history \<rparr>))))))"

definition solverInput :: "scheduling_params \<Rightarrow> gathered \<Rightarrow> solver_input" where
  "solverInput p g =
     \<lparr> in_windowStart = ps_windowStart p, in_windowEnd = ps_windowEnd p,
       in_durationMinutes = ps_durationMinutes p, in_busyIntervals = ar_busy_intervals (ga_availability g),
       in_requiredAccountIds = ps_requiredAccountIds p,
       in_constraints = Some (ga_constraints g @ map VipOverride (ga_vips g)),
       in_participantHashes = ps_participantHashes p \<rparr>"

section \<open>Weighing the proposals\<close>

definition vipPolicy :: "vip_config \<Rightarrow> vip_policy" where
  "vipPolicy v =
     \<lparr> vq_participant_hash = vc_participant_hash v, vq_display_name = vc_display_name v,
       vq_priority_weight = vc_priority_weight v \<rparr>"

definition weigh :: "sched_site \<Rightarrow> scheduling_params \<Rightarrow> gathered \<Rightarrow> scored_candidate \<Rightarrow> scored_candidate" where
  "weigh site p g c =
     (let hashes = participants p;
          hasFairness = (ga_history g \<noteq> [] \<and> hashes \<noteq> []);
          hasVip = (ga_vips g \<noteq> [] \<and> hashes \<noteq> []) in
      if \<not> hasFairness \<and> \<not> hasVip then c
      else let (adjustment, fairnessText) =
                 (if hasFairness
                  then map_prod id Some (computeFairnessScore (st_shown site) (ga_history g) (Some (hd hashes)))
                  else (1, None));
               (weight, vipText) =
                 (if hasVip then applyVipWeight (st_shown site) (map vipPolicy (ga_vips g)) hashes else (1, None));
               factors = \<lparr> mf_timePreferenceScore = sd_score c, mf_constraintScore = 0,
                           mf_fairnessAdjustment = adjustment, mf_vipWeight = weight \<rparr>
           in c\<lparr> sd_score := of_int (computeMultiFactorScore factors),
                 sd_explanation := buildExplanation factors (sd_explanation c) fairnessText vipText \<rparr>)"

definition proposals :: "sched_site \<Rightarrow> scheduling_params \<Rightarrow> gathered \<Rightarrow> scored_candidate list" where
  "proposals site p g =
     rankBy (st_collate site) sd_score sd_start
       (map (weigh site p g)
         (runSolverWithFallback (solver_site.truncate site) (solverInput p g) (nullish (ps_maxCandidates p) 5)))"

definition storedCandidate :: "sched_site \<Rightarrow> string \<Rightarrow> scored_candidate \<Rightarrow> candidate_input sched_op" where
  "storedCandidate site sessionId c =
     andThen (newId site ''candidate'') (\<lambda>cid.
       ret \<lparr> cd_candidateId = cid, cd_sessionId = sessionId, cd_start = sd_start c, cd_end = sd_end c,
             cd_score = sd_score c, cd_explanation = sd_explanation c \<rparr>)"

section \<open>Creating a session\<close>

definition storeSession ::
  "sched_site \<Rightarrow> scheduling_params \<Rightarrow> string \<Rightarrow> candidate_input list \<Rightarrow> string \<Rightarrow> unit sched_op" where
  "storeSession site p sessionId candidates now =
     callUser site (ps_userId p) ''UserGraphDO.storeSchedulingSession failed''
       (storeSchedulingSession
         \<lparr> ss_session_id = sessionId,
           ss_status = (if candidates \<noteq> [] then ''candidates_ready'' else ''open''),
           ss_objective_json = Some (paramsJson p), ss_created_at = now \<rparr> candidates)"

definition holdFor ::
  "sched_site \<Rightarrow> scheduling_params \<Rightarrow> string \<Rightarrow> candidate_input \<times> string \<Rightarrow> (hold_row \<times> queue_message) sched_op" where
  "holdFor site p sessionId ca =
     (case ca of (c, acct) \<Rightarrow>
        let hp = \<lparr> hp_sessionId = sessionId, hp_accountId = acct, hp_candidateStart = cd_start c,
                   hp_candidateEnd = cd_end c, hp_title = ps_title p,
                   hp_holdTimeoutMs = Some (nullish (ps_holdTimeoutMs p) DEFAULT_HOLD_TIMEOUT_MS) \<rparr> in
        andThen (drawHold site hp) (\<lambda>h.
          ret (h, buildHoldUpsertMessage h hp (nullish (ps_targetCalendarId p) (''primary_'' @ acct)))))"

definition createHolds ::
  "sched_site \<Rightarrow> scheduling_params \<Rightarrow> string \<Rightarrow> candidate_input list \<Rightarrow> hold_row list sched_op" where
  "createHolds site p sessionId candidates =
     andThen (collect (holdFor site p sessionId)
       (concat (map (\<lambda>c. map (Pair c) (ps_requiredAccountIds p)) candidates))) (\<lambda>made.
     andThen (if made = [] then ret ()
              else callUser site (ps_userId p) ''UserGraphDO.storeHolds failed'' (storeHolds (map fst made))) (\<lambda>_.
     andThen (if made = [] then ret () else sendBatch site (map snd made)) (\<lambda>_.
     ret (map fst made))))"

record scheduling_session =
  sn_sessionId :: string
  sn_status :: string
  sn_params :: scheduling_params
  sn_candidates :: "candidate_input list"
  sn_holds :: "hold_row list"
  sn_createdAt :: string

definition createSession :: "sched_site \<Rightarrow> scheduling_params \<Rightarrow> scheduling_session sched_op" where
  "createSession site p =
     andThen (orThrow (validateParams (st_env site) p) ()) (\<lambda>_.
     andThen (newId site ''session'') (\<lambda>sessionId.
     andThen (gather site p) (\<lambda>g.
     andThen (collect (storedCandidate site sessionId) (proposals site p g)) (\<lambda>candidates.
     andThen (storeSession site p sessionId candidates (nowIso (st_env site))) (\<lambda>_.
     andThen (if candidates \<noteq> [] \<and> ps_holdTimeoutMs p \<noteq> Some 0
              then createHolds site p sessionId candidates else ret []) (\<lambda>holds.
     ret \<lparr> sn_sessionId = sessionId,
           sn_status = (if candidates \<noteq> [] then ''candidates_ready'' else ''open''), sn_params = p,
           sn_candidates = candidates, sn_holds = holds, sn_createdAt = nowIso (st_env site) \<rparr>))))))"

section \<open>Committing and cancelling\<close>

definition getSession :: "sched_site \<Rightarrow> string \<Rightarrow> string \<Rightarrow> session_view sched_op" where
  "getSession site user sid =
     callUser site user ''UserGraphDO.getSchedulingSession failed'' (getSchedulingSession (st_env site) sid)"

definition fetchHolds :: "sched_site \<Rightarrow> string \<Rightarrow> string \<Rightarrow> hold_row list sched_op" where
  "fetchHolds site user sid = callUser site user ''UserGraphDO.getHoldsBySession failed'' (getHoldsBySession sid)"

definition fetchExpiredHolds :: "sched_site \<Rightarrow> string \<Rightarrow> hold_row list sched_op" where
  "fetchExpiredHolds site user =
     callUser site user ''UserGraphDO.getExpiredHolds failed'' (getExpiredHolds (st_env site))"

definition releaseHolds :: "sched_site \<Rightarrow> string \<Rightarrow> string \<Rightarrow> unit sched_op" where
  "releaseHolds site user sid =
     andThen (fetchHolds site user sid) (\<lambda>holds.
     let deletes = List.map_filter buildHoldDeleteMessage (filter (\<lambda>h. sh_status h = ''held'') holds) in
     andThen (if deletes = [] then ret () else sendBatch site deletes) (\<lambda>_.
     callUser site user ''UserGraphDO.releaseSessionHolds failed'' (releaseSessionHolds sid)))"

text \<open>\<^verbatim>\<open>params.requiredAccountIds[0] ?? "internal"\<close>; the account ids of a session are texts.\<close>

definition organizer :: "json \<Rightarrow> tm_error + string" where
  "organizer ps =
     (case field ps ''requiredAccountIds'' of
        None \<Rightarrow> Inl (Thrown ''Cannot read properties of undefined (reading '0')'')
      | Some JNull \<Rightarrow> Inl (Thrown ''Cannot read properties of null (reading '0')'')
      | Some (JArr (JStr a # _)) \<Rightarrow> Inr a
      | Some _ \<Rightarrow> Inr ''internal'')"

definition atInstant :: "string \<Rightarrow> event_date_time" where
  "atInstant t = \<lparr> dt_dateTime = Some t, dt_date = None, dt_timeZone = None \<rparr>"

definition meetingEvent :: "string \<Rightarrow> string \<Rightarrow> string \<Rightarrow> string option \<Rightarrow> candidate_row \<Rightarrow> upsert_input" where
  "meetingEvent eventId acct oid title c =
     \<lparr> ui_canonical_event_id = Some eventId, ui_origin_account_id = Some acct, ui_origin_event_id = Some oid,
       ui_title = title, ui_description = None, ui_location = None,
       ui_start = Some (atInstant (sc_start_ts c)), ui_end = Some (atInstant (sc_end_ts c)),
       ui_all_day = Some False, ui_status = Some ''confirmed'', ui_visibility = Some ''default'',
       ui_transparency = Some ''opaque'', ui_recurrence_rule = None, ui_source = Some ''system'' \<rparr>"

definition upsertEvent :: "sched_site \<Rightarrow> string \<Rightarrow> upsert_input \<Rightarrow> unit sched_op" where
  "upsertEvent site user e =
     andThen (callUser site user ''UserGraphDO.upsertCanonicalEvent failed''
       (upsertCanonicalEvent (st_env site) e ''system'')) (\<lambda>_. ret ())"

definition commitSession :: "sched_site \<Rightarrow> string \<Rightarrow> string \<Rightarrow> string \<Rightarrow> string \<Rightarrow> unit sched_op" where
  "commitSession site user sid candidateId eventId =
     callUser site user ''UserGraphDO.commitSchedulingSession failed'' (commitSchedulingSession sid candidateId eventId)"

definition recordHistory :: "sched_site \<Rightarrow> string \<Rightarrow> (string \<times> string \<times> bool \<times> string) list \<Rightarrow> unit sched_op" where
  "recordHistory site user outcomes =
     (if outcomes = [] then ret ()
      else tryCatch (andThen (fetchFrom site user (recordSchedulingHistory (st_env site) outcomes)) (\<lambda>_. ret ()))
             (\<lambda>_. ret ()))"

definition stringsField :: "json \<Rightarrow> string \<Rightarrow> string list" where
  "stringsField j k =
     (case field j k of
        Some (JArr xs) \<Rightarrow> concat (map (\<lambda>x. case x of JStr s \<Rightarrow> [s] | _ \<Rightarrow> []) xs) | _ \<Rightarrow> [])"

text \<open>The checks before a commit, the same in both schedulers but for the word the message starts with.\<close>

definition committable :: "string \<Rightarrow> string \<Rightarrow> string \<Rightarrow> session_view \<Rightarrow> tm_error + candidate_row" where
  "committable what sid candidateId v =
     (if sv_status v = ''committed'' then Inl (Thrown (what @ '' '' @ sid @ '' is already committed''))
      else if sv_status v = ''cancelled'' \<or> sv_status v = ''expired''
      then Inl (Thrown (what @ '' '' @ sid @ '' is '' @ sv_status v))
      else case filter (\<lambda>c. sc_candidate_id c = candidateId) (sv_candidates v) of
             [] \<Rightarrow> Inl (Thrown (''Candidate '' @ candidateId @ '' not found in session '' @ sid))
           | c # _ \<Rightarrow> Inr c)"

definition commitCandidate :: "sched_site \<Rightarrow> string \<Rightarrow> string \<Rightarrow> string \<Rightarrow> (string \<times> session_view) sched_op" where
  "commitCandidate site user sid candidateId =
     andThen (getSession site user sid) (\<lambda>session.
     andThen (awaited (committable ''Session'' sid candidateId session)) (\<lambda>candidate.
     andThen (releaseHolds site user sid) (\<lambda>_.
     andThen (newId site ''event'') (\<lambda>eventId.
     andThen (awaited (organizer (sv_params session))) (\<lambda>acct.
     andThen (upsertEvent site user (meetingEvent eventId acct (''scheduled_'' @ sid)
                (strField (sv_params session) ''title'') candidate)) (\<lambda>_.
     andThen (commitSession site user sid candidateId eventId) (\<lambda>_.
     let hashes = stringsField (sv_params session) ''participantHashes'' in
     andThen (recordHistory site user
                (recordSchedulingOutcome sid hashes (Some (hd hashes)) (sc_start_ts candidate))) (\<lambda>_.
     andThen (getSession site user sid) (\<lambda>updated. ret (eventId, updated))))))))))"

definition cancelSession :: "sched_site \<Rightarrow> string \<Rightarrow> string \<Rightarrow> session_view sched_op" where
  "cancelSession site user sid =
     andThen (releaseHolds site user sid) (\<lambda>_.
     andThen (callUser site user ''UserGraphDO.cancelSchedulingSession failed'' (cancelSchedulingSession sid)) (\<lambda>_.
     getSession site user sid))"

end
