(* ===== verification/Group_Scheduling.thy ===== *)
theory Group_Scheduling
  imports Scheduling_Workflow
begin

text \<open>
  Scheduling across users, \<^verbatim>\<open>durable-objects/group-schedule/src\<close>: the busy times of every participant are merged per
  user under a made-up account id, the greedy solver looks for slots where all are free, and a commit
  creates the event in the graph of each participant in turn.
\<close>

section \<open>Merging busy times\<close>

definition msOf :: "graph_env \<Rightarrow> string \<Rightarrow> int option" where
  "msOf env t = dateParse (js_date env) t"

text \<open>The loop of \<^verbatim>\<open>mergeOverlapping\<close>: the interval being built is the pair of its two texts.\<close>

fun sweepMs :: "graph_env \<Rightarrow> string \<times> string \<Rightarrow> busy_interval list \<Rightarrow> (string \<times> string) list" where
  "sweepMs env current [] = [current]"
| "sweepMs env current (next # rest) =
     (if nanLe (msOf env (bi_start next)) (msOf env (snd current))
      then sweepMs env
             (fst current, if nanLess (msOf env (snd current)) (msOf env (bi_end next)) then bi_end next else snd current)
             rest
      else current # sweepMs env (bi_start next, bi_end next) rest)"

text \<open>
  The order by start; where a start is no date the comparison gives NaN and the order is up to the engine.
\<close>

definition mergeOverlapping :: "graph_env \<Rightarrow> busy_interval list \<Rightarrow> (string \<times> string) list" where
  "mergeOverlapping env intervals =
     (case sort_key (\<lambda>b. nullish (msOf env (bi_start b)) 0) intervals of
        [] \<Rightarrow> []
      | first # rest \<Rightarrow> sweepMs env (bi_start first, bi_end first) rest)"

record user_availability =
  ua_userId :: string
  ua_busyIntervals :: "busy_interval list"

definition groupAccount :: "string \<Rightarrow> string" where
  "groupAccount user = ''group_'' @ user"

definition mergeBusyIntervals :: "graph_env \<Rightarrow> user_availability list \<Rightarrow> busy_interval list" where
  "mergeBusyIntervals env uas =
     concat (map (\<lambda>ua. map (\<lambda>(a, b). \<lparr> bi_start = a, bi_end = b, bi_account_ids = [groupAccount (ua_userId ua)] \<rparr>)
                        (mergeOverlapping env (ua_busyIntervals ua))) uas)"

definition buildGroupAccountIds :: "string list \<Rightarrow> string list" where
  "buildGroupAccountIds users = map groupAccount users"

section \<open>Creating a session\<close>

record group_params =
  gp_creatorUserId :: string
  gp_participantUserIds :: "string list"
  gp_title :: string
  gp_durationMinutes :: int
  gp_windowStart :: string
  gp_windowEnd :: string
  gp_maxCandidates :: "int option"
  gp_holdTimeoutMs :: "int option"

definition groupParamsJson :: "group_params \<Rightarrow> json" where
  "groupParamsJson p = JObj
     ([(''creatorUserId'', JStr (gp_creatorUserId p)), (''participantUserIds'', jStrings (gp_participantUserIds p)),
       (''title'', JStr (gp_title p)), (''durationMinutes'', JNum (gp_durationMinutes p)),
       (''windowStart'', JStr (gp_windowStart p)), (''windowEnd'', JStr (gp_windowEnd p))] @
      optField ''maxCandidates'' JNum (gp_maxCandidates p) @
      optField ''holdTimeoutMs'' JNum (gp_holdTimeoutMs p))"

definition validateGroupParams :: "graph_env \<Rightarrow> group_params \<Rightarrow> string option" where
  "validateGroupParams env p = firstError
     [(gp_creatorUserId p = [], ''creatorUserId is required''),
      (blank (gp_title p), ''title is required''),
      (gp_durationMinutes p < 15 \<or> gp_durationMinutes p > 480, ''durationMinutes must be between 15 and 480''),
      (gp_windowStart p = [], ''windowStart is required''),
      (gp_windowEnd p = [], ''windowEnd is required''),
      (nanLe (dateParse (js_date env) (gp_windowEnd p)) (dateParse (js_date env) (gp_windowStart p)),
       ''windowStart must be before windowEnd''),
      (length (gp_participantUserIds p) < 2, ''At least two participant user IDs are required for group scheduling''),
      (gp_creatorUserId p \<notin> set (gp_participantUserIds p), ''Creator must be included in participant list'')]"

definition failedFor :: "string \<Rightarrow> string \<Rightarrow> string" where
  "failedFor name user = ''UserGraphDO.'' @ name @ '' failed for user '' @ user"

definition gatherUserAvailability :: "sched_site \<Rightarrow> string \<Rightarrow> string \<Rightarrow> string \<Rightarrow> user_availability sched_op" where
  "gatherUserAvailability site a b user =
     andThen (callUser site user (failedFor ''computeAvailability'' user)
       (computeAvailability (st_env site) (st_local site) (st_collate site)
         \<lparr> aq_start = a, aq_end = b, aq_accounts = Some [] \<rparr>)) (\<lambda>r.
     ret \<lparr> ua_userId = user, ua_busyIntervals = ar_busy_intervals r \<rparr>)"

definition gatherAllAvailability :: "sched_site \<Rightarrow> string list \<Rightarrow> string \<Rightarrow> string \<Rightarrow> user_availability list sched_op" where
  "gatherAllAvailability site users a b = promiseAll (gatherUserAvailability site a b) users"

definition groupSolverInput :: "graph_env \<Rightarrow> group_params \<Rightarrow> user_availability list \<Rightarrow> solver_input" where
  "groupSolverInput env p uas =
     \<lparr> in_windowStart = gp_windowStart p, in_windowEnd = gp_windowEnd p, in_durationMinutes = gp_durationMinutes p,
       in_busyIntervals = mergeBusyIntervals env uas,
       in_requiredAccountIds = buildGroupAccountIds (gp_participantUserIds p),
       in_constraints = None, in_participantHashes = None \<rparr>"

definition groupProposals :: "sched_site \<Rightarrow> group_params \<Rightarrow> user_availability list \<Rightarrow> scored_candidate list" where
  "groupProposals site p uas =
     greedySolver (st_env site) (st_local site) (st_collate site) (groupSolverInput (st_env site) p uas)
       (nullish (gp_maxCandidates p) 5)"

definition storeSessionInUserDO ::
  "sched_site \<Rightarrow> group_params \<Rightarrow> string \<Rightarrow> candidate_input list \<Rightarrow> string \<Rightarrow> string \<Rightarrow> string \<Rightarrow> unit sched_op" where
  "storeSessionInUserDO site p sid candidates status now user =
     callUser site user (failedFor ''storeSchedulingSession'' user)
       (storeSchedulingSession
         \<lparr> ss_session_id = sid, ss_status = status, ss_objective_json = Some (groupParamsJson p),
           ss_created_at = now \<rparr> candidates)"

definition groupHold ::
  "sched_site \<Rightarrow> group_params \<Rightarrow> string \<Rightarrow> string \<Rightarrow> candidate_input \<Rightarrow> (hold_row \<times> queue_message) sched_op" where
  "groupHold site p sid user c =
     (let hp = \<lparr> hp_sessionId = sid, hp_accountId = groupAccount user, hp_candidateStart = cd_start c,
                 hp_candidateEnd = cd_end c, hp_title = gp_title p,
                 hp_holdTimeoutMs = Some (nullish (gp_holdTimeoutMs p) DEFAULT_HOLD_TIMEOUT_MS) \<rparr> in
      andThen (drawHold site hp) (\<lambda>h.
        ret (h, buildHoldUpsertMessage h hp (''primary_'' @ groupAccount user))))"

definition createHoldsFor ::
  "sched_site \<Rightarrow> group_params \<Rightarrow> string \<Rightarrow> candidate_input list \<Rightarrow> string \<Rightarrow> unit sched_op" where
  "createHoldsFor site p sid candidates user =
     andThen (collect (groupHold site p sid user) candidates) (\<lambda>made.
     andThen (if made = [] then ret ()
              else callUser site user (failedFor ''storeHolds'' user) (storeHolds (map fst made))) (\<lambda>_.
     if made = [] then ret () else sendBatch site (map snd made)))"

definition createGroupHolds :: "sched_site \<Rightarrow> group_params \<Rightarrow> string \<Rightarrow> candidate_input list \<Rightarrow> unit sched_op" where
  "createGroupHolds site p sid candidates =
     forEach (gp_participantUserIds p) (createHoldsFor site p sid candidates)"

record group_session =
  gs_sessionId :: string
  gs_status :: string
  gs_params :: group_params
  gs_candidates :: "candidate_input list"
  gs_createdAt :: string

definition createGroupSession :: "sched_site \<Rightarrow> group_params \<Rightarrow> group_session sched_op" where
  "createGroupSession site p =
     andThen (orThrow (validateGroupParams (st_env site) p) ()) (\<lambda>_.
     andThen (newId site ''session'') (\<lambda>sid.
     andThen (gatherAllAvailability site (gp_participantUserIds p) (gp_windowStart p) (gp_windowEnd p)) (\<lambda>uas.
     andThen (collect (storedCandidate site sid) (groupProposals site p uas)) (\<lambda>candidates.
     let status = (if candidates \<noteq> [] then ''candidates_ready'' else ''gathering''); now = nowIso (st_env site) in
     andThen (promiseAll (storeSessionInUserDO site p sid candidates status now) (gp_participantUserIds p)) (\<lambda>_.
     andThen (if candidates \<noteq> [] \<and> gp_holdTimeoutMs p \<noteq> Some 0 then createGroupHolds site p sid candidates
              else ret ()) (\<lambda>_.
     andThen (registerSessionInD1 site
       \<lparr> gr_session_id = sid, gr_creator_user_id = gp_creatorUserId p,
         gr_participant_ids = gp_participantUserIds p, gr_title = gp_title p, gr_status = status,
         gr_created_at = now \<rparr>) (\<lambda>_.
     ret \<lparr> gs_sessionId = sid, gs_status = status, gs_params = p, gs_candidates = candidates,
           gs_createdAt = now \<rparr>)))))))"

section \<open>Reading and committing\<close>

definition fetchSessionFromUserDO :: "sched_site \<Rightarrow> string \<Rightarrow> string \<Rightarrow> session_view sched_op" where
  "fetchSessionFromUserDO site user sid =
     callUser site user (failedFor ''getSchedulingSession'' user) (getSchedulingSession (st_env site) sid)"

text \<open>The registration of a session, for one of its participants.\<close>

definition registrationFor :: "sched_site \<Rightarrow> string \<Rightarrow> string \<Rightarrow> registry_row sched_op" where
  "registrationFor site sid user =
     andThen (getSessionFromD1 site sid) (\<lambda>found.
     case found of
       None \<Rightarrow> throw (Thrown (''Group session '' @ sid @ '' not found''))
     | Some row \<Rightarrow>
         if user \<notin> set (gr_participant_ids row)
         then throw (Thrown (''User '' @ user @ '' is not a participant in session '' @ sid))
         else ret row)"

definition getGroupSession :: "sched_site \<Rightarrow> string \<Rightarrow> string \<Rightarrow> session_view sched_op" where
  "getGroupSession site sid user =
     andThen (registrationFor site sid user) (\<lambda>row. fetchSessionFromUserDO site (gr_creator_user_id row) sid)"

definition groupEvent :: "string \<Rightarrow> session_view \<Rightarrow> candidate_row \<Rightarrow> string \<Rightarrow> upsert_input" where
  "groupEvent sid session c eventId =
     meetingEvent eventId (''group_'' @ sid) (''group_scheduled_'' @ sid) (strField (sv_params session) ''title'') c"

definition upsertEventInUserDO :: "sched_site \<Rightarrow> string \<Rightarrow> upsert_input \<Rightarrow> unit sched_op" where
  "upsertEventInUserDO site user e =
     andThen (callUser site user (failedFor ''upsertCanonicalEvent'' user)
       (upsertCanonicalEvent (st_env site) e ''system'')) (\<lambda>_. ret ())"

definition commitSessionInUserDO :: "sched_site \<Rightarrow> string \<Rightarrow> string \<Rightarrow> string \<Rightarrow> string \<Rightarrow> unit sched_op" where
  "commitSessionInUserDO site user sid candidateId eventId =
     callUser site user (failedFor ''commitSchedulingSession'' user)
       (commitSchedulingSession sid candidateId eventId)"

text \<open>An answer that is not \<^verbatim>\<open>ok\<close> is only logged.\<close>

definition cancelSessionInUserDO :: "sched_site \<Rightarrow> string \<Rightarrow> string \<Rightarrow> unit sched_op" where
  "cancelSessionInUserDO site user sid =
     andThen (fetchFrom site user (cancelSchedulingSession sid)) (\<lambda>_. ret ())"

text \<open>
  The loop that creates the events: the users served so far with their event ids, and the exception that
  stopped it, if one did.
\<close>

fun createEvents ::
  "sched_site \<Rightarrow> (string \<Rightarrow> upsert_input) \<Rightarrow> string list \<Rightarrow> ((string \<times> string) list \<times> tm_error option) sched_op" where
  "createEvents site event [] = ret ([], None)"
| "createEvents site event (user # users) =
     andThen (newId site ''event'') (\<lambda>eventId.
     andThen (settle (upsertEventInUserDO site user (event eventId))) (\<lambda>r.
     case r of
       Inl e \<Rightarrow> ret ([], Some e)
     | Inr _ \<Rightarrow> andThen (createEvents site event users) (\<lambda>(made, e). ret ((user, eventId) # made, e))))"

definition rollback :: "sched_site \<Rightarrow> string \<Rightarrow> (string \<times> string) list \<Rightarrow> tm_error \<Rightarrow> 'a sched_op" where
  "rollback site sid made e =
     andThen (forEach made (\<lambda>(user, _). tryCatch (cancelSessionInUserDO site user sid) (\<lambda>_. ret ()))) (\<lambda>_.
     andThen (updateSessionStatusInD1 site sid ''cancelled'') (\<lambda>_.
     throw (Thrown (''Atomic commit failed for session '' @ sid @ '': '' @ error_message e))))"

text \<open>\<^verbatim>\<open>eventIds[userId]\<close>: the last event made for the user.\<close>

definition eventOf :: "(string \<times> string) list \<Rightarrow> string \<Rightarrow> string" where
  "eventOf made user = the (map_of (rev made) user)"

definition markCommitted ::
  "sched_site \<Rightarrow> string \<Rightarrow> string \<Rightarrow> string list \<Rightarrow> (string \<times> string) list \<Rightarrow> unit sched_op" where
  "markCommitted site sid candidateId users made =
     andThen (forEach users (\<lambda>user. commitSessionInUserDO site user sid candidateId (eventOf made user))) (\<lambda>_.
     updateSessionStatusInD1 site sid ''committed'')"

definition commitGroupSession ::
  "sched_site \<Rightarrow> string \<Rightarrow> string \<Rightarrow> string \<Rightarrow> ((string \<times> string) list \<times> session_view) sched_op" where
  "commitGroupSession site sid candidateId user =
     andThen (registrationFor site sid user) (\<lambda>row.
     andThen (fetchSessionFromUserDO site (gr_creator_user_id row) sid) (\<lambda>session.
     andThen (awaited (committable ''Group session'' sid candidateId session)) (\<lambda>candidate.
     andThen (createEvents site (groupEvent sid session candidate) (gr_participant_ids row)) (\<lambda>(made, failure).
     andThen (case failure of
                Some e \<Rightarrow> rollback site sid made e
              | None \<Rightarrow> tryCatch (markCommitted site sid candidateId (gr_participant_ids row) made)
                          (rollback site sid made)) (\<lambda>_.
     andThen (fetchSessionFromUserDO site (gr_creator_user_id row) sid) (\<lambda>updated.
     ret (made, updated)))))))"

end
