(* ===== verification/Scheduling_Laws.thy ===== *)
theory Scheduling_Laws
  imports Group_Scheduling Session_Machine
begin

text \<open>
  What the two schedulers do to the graphs of the users. Nothing they call removes an event or moves a meeting that was
  booked, so a commit that fails half way leaves the meetings it had already booked; a commit that succeeds
  has booked it for everyone and closed the session everywhere.
\<close>

section \<open>Contracts through calls\<close>

context state_contract begin

lemma stays_settle: "stays R m \<Longrightarrow> stays R (settle m)"
  by (simp add: stays_def settle_def case_prod_beta)

lemma stays_awaited: "stays R (awaited r)"
  by (cases r) (simp_all add: awaited_def stays_ret stays_throw)

lemma stays_collect: "(\<And>x. x \<in> set xs \<Longrightarrow> stays R (f x)) \<Longrightarrow> stays R (collect f xs)"
  by (induction xs) (simp_all add: stays_ret stays_andThen)

lemma stays_promiseAll: "(\<And>x. stays R (f x)) \<Longrightarrow> stays R (promiseAll f xs)"
  unfolding promiseAll_def by (intro stays_andThen stays_collect stays_settle stays_awaited)

lemma stays_case_sum:
  "(\<And>e. r = Inl e \<Longrightarrow> stays R (f e)) \<Longrightarrow> (\<And>x. r = Inr x \<Longrightarrow> stays R (g x)) \<Longrightarrow>
   stays R (case r of Inl e \<Rightarrow> f e | Inr x \<Rightarrow> g x)"
  by (cases r) simp_all

end

text \<open>A contract of one object, for all of them.\<close>

definition everywhere :: "(user_graph \<Rightarrow> user_graph \<Rightarrow> bool) \<Rightarrow> sched_world \<Rightarrow> sched_world \<Rightarrow> bool" where
  "everywhere R w w' \<longleftrightarrow> (\<forall>u. R (wd_graph w u) (wd_graph w' u))"

locale graph_contract = state_contract R for R :: "user_graph \<Rightarrow> user_graph \<Rightarrow> bool"

sublocale graph_contract \<subseteq> world: state_contract "everywhere R"
  by unfold_locales (auto simp: everywhere_def same intro: chain)

context graph_contract begin

lemma unchanged: "wd_graph w' = wd_graph w \<Longrightarrow> everywhere R w w'"
  by (simp add: everywhere_def same)

lemma stays_fetchFrom:
  assumes "stays R m"
  shows "stays (everywhere R) (fetchFrom site user m)"
proof (rule staysI)
  fix w :: sched_world
  obtain r g where m: "m (wd_graph w user) = (r, g)" by force
  with staysD [OF assms, of "wd_graph w user"] have g: "R (wd_graph w user) g" by simp
  show "everywhere R w (snd (fetchFrom site user m w))"
    by (cases "st_fate site (wd_calls w)")
       (simp_all add: fetchFrom_def m Let_def everywhere_def countCall_def g same)
qed

lemma stays_callUser: "stays R m \<Longrightarrow> stays (everywhere R) (callUser site user what m)"
  unfolding callUser_def
  by (intro world.stays_andThen stays_fetchFrom world.stays_case_sum world.stays_ret world.stays_throw)

lemma stays_local:
  "stays (everywhere R) (newId site entity)" "stays (everywhere R) (sendBatch site ms)"
  "stays (everywhere R) (drawHold site p)" "stays (everywhere R) (d1 site f)"
  "stays (everywhere R) (orThrow v ())"
  by (rule staysI, rule unchanged,
      simp add: newId_def sendBatch_def drawHold_def d1_def orThrow_def countCall_def Let_def ret_run throw_run
        split: rpc_fate.split sum.split prod.split option.split)+

lemmas call_rules = world.stays_rules world.stays_settle world.stays_awaited world.stays_collect
  world.stays_promiseAll world.stays_case_sum stays_callUser stays_fetchFrom stays_local

end

section \<open>What projecting an event leaves alone\<close>

definition sameSchedule :: "user_graph \<Rightarrow> user_graph \<Rightarrow> bool" where
  "sameSchedule s t \<longleftrightarrow> schedule_sessions t = schedule_sessions s \<and>
     schedule_candidates t = schedule_candidates s \<and> schedule_holds t = schedule_holds s"

definition sameEvents :: "user_graph \<Rightarrow> user_graph \<Rightarrow> bool" where
  "sameEvents s t \<longleftrightarrow> canonical_events t = canonical_events s"

interpretation sched: state_contract sameSchedule
  by unfold_locales (simp_all add: sameSchedule_def)

interpretation evts: state_contract sameEvents
  by unfold_locales (simp_all add: sameEvents_def)

named_theorems schedule_stays \<open>methods that leave the schedule, or the events, alone\<close>

lemma same_statements [schedule_stays]:
  "stays sameSchedule (freshId env entity)" "stays sameSchedule (insertEventRow r)"
  "stays sameSchedule (updateEventRow cid f)" "stays sameSchedule (insertMirrorRow m)"
  "stays sameSchedule (updateMirrorRows Q g)" "stays sameSchedule (insertJournalRow j)"
  "stays sameSchedule (sendWrite env ms)" "stays sameSchedule (sendDelete env ms)"
  "stays sameEvents (freshId env entity)" "stays sameEvents (insertMirrorRow m)"
  "stays sameEvents (updateMirrorRows Q g)" "stays sameEvents (insertJournalRow j)"
  "stays sameEvents (sendWrite env ms)" "stays sameEvents (sendDelete env ms)"
  by (rule staysI, simp add: freshId_def insertEventRow_def updateEventRow_def insertMirrorRow_def
      updateMirrorRows_def insertJournalRow_def sendWrite_def sendDelete_def sameSchedule_def sameEvents_def)+

lemma same_journal [schedule_stays]:
  "stays sameSchedule (writeJournal env cid ct actor p reason)" "stays sameEvents (writeJournal env cid ct actor p reason)"
  unfolding writeJournal_def by (intro sched.stays_rules evts.stays_rules schedule_stays)+

lemma same_projection [schedule_stays]:
  "stays sameSchedule (projectAndEnqueue env cid acct opts)" "stays sameEvents (projectAndEnqueue env cid acct opts)"
  unfolding projectAndEnqueue_def projectEdge_def enqueueUpsertMirror_def Let_def
  by (intro sched.stays_rules schedule_stays, intro evts.stays_rules schedule_stays)

lemma same_upsert [schedule_stays]: "stays sameSchedule (upsertCanonicalEvent env e source)"
  unfolding upsertCanonicalEvent_def Let_def by (intro sched.stays_rules schedule_stays)

section \<open>Booked meetings\<close>

text \<open>A graph holds the meeting of a candidate as its event with this id: confirmed, at the times of the candidate.\<close>

definition hasMeeting :: "candidate_row \<Rightarrow> string \<Rightarrow> user_graph \<Rightarrow> bool" where
  "hasMeeting c eventId s \<longleftrightarrow>
     (\<exists>r \<in> set (canonical_events s). ce_canonical_event_id r = eventId \<and> ce_start_ts r = sc_start_ts c \<and>
        ce_end_ts r = sc_end_ts c \<and> ce_status r = ''confirmed'')"

definition meetingsStay :: "candidate_row \<Rightarrow> user_graph \<Rightarrow> user_graph \<Rightarrow> bool" where
  "meetingsStay c s t \<longleftrightarrow> (\<forall>eventId. hasMeeting c eventId s \<longrightarrow> hasMeeting c eventId t)"

interpretation meet: graph_contract "meetingsStay c" for c
  by unfold_locales (simp_all add: meetingsStay_def)

interpretation close: graph_contract sessionContract
  by unfold_locales

named_theorems meeting_stays \<open>calls after which booked meetings are still booked\<close>

lemma stays_weaken: "stays R m \<Longrightarrow> (\<And>s t. R s t \<Longrightarrow> R' s t) \<Longrightarrow> stays R' m"
  by (simp add: stays_def)

lemma sameEvents_meetings: "sameEvents s t \<Longrightarrow> meetingsStay c s t"
  by (simp add: sameEvents_def meetingsStay_def hasMeeting_def)

lemma sameSchedule_contract: "sameSchedule s t \<Longrightarrow> sessionContract s t"
  by (auto simp: sameSchedule_def sessionContract_def sessions_ok_def noReopening_def intro: carriesOn_refl)

lemma meetings_by_events: "stays sameEvents m \<Longrightarrow> stays (meetingsStay c) m"
  using sameEvents_meetings by (simp add: stays_def)

lemma meeting_fields [simp]:
  "ce_start_ts (setInputFields env (meetingEvent eid acct oid title c) v r) = sc_start_ts c"
  "ce_end_ts (setInputFields env (meetingEvent eid acct oid title c) v r) = sc_end_ts c"
  "ce_status (setInputFields env (meetingEvent eid acct oid title c) v r) = ''confirmed''"
  "ce_canonical_event_id (setInputFields env e v r) = ce_canonical_event_id r"
  by (simp_all add: setInputFields_def meetingEvent_def inputTs_def eventTs_def atInstant_def)

lemma hasMeeting_update:
  assumes "hasMeeting c eventId s"
  shows "hasMeeting c eventId (s\<lparr> canonical_events :=
    updateRows P (setInputFields env (meetingEvent eid acct oid title c) v) (canonical_events s) \<rparr>)"
proof -
  let ?f = "setInputFields env (meetingEvent eid acct oid title c) v"
  from assms obtain r where r: "r \<in> set (canonical_events s)" "ce_canonical_event_id r = eventId"
    "ce_start_ts r = sc_start_ts c" "ce_end_ts r = sc_end_ts c" "ce_status r = ''confirmed''"
    unfolding hasMeeting_def by blast
  let ?r = "if P r then ?f r else r"
  have "?r \<in> set (updateRows P ?f (canonical_events s))" unfolding set_updateRows using r(1) by (rule imageI)
  moreover have "ce_canonical_event_id ?r = eventId" "ce_start_ts ?r = sc_start_ts c" "ce_end_ts ?r = sc_end_ts c"
    "ce_status ?r = ''confirmed''" using r(2-5) by simp_all
  ultimately show ?thesis unfolding hasMeeting_def by (intro bexI [of _ ?r]) simp_all
qed

lemma meeting_statements [meeting_stays]:
  "stays (meetingsStay c) (insertEventRow r)"
  "stays (meetingsStay c) (updateEventRow cid (setInputFields env (meetingEvent eid acct oid title c) v))"
  by (rule staysI, fastforce simp: insertEventRow_def meetingsStay_def hasMeeting_def)
     (rule staysI, simp add: updateEventRow_def meetingsStay_def hasMeeting_update)

lemma upsert_keeps_meetings [meeting_stays]:
  "stays (meetingsStay c) (upsertCanonicalEvent env (meetingEvent eid acct oid title c) source)"
  unfolding upsertCanonicalEvent_def Let_def
  by (intro meet.stays_rules meeting_stays meetings_by_events schedule_stays)

lemma upsert_books:
  assumes "upsertCanonicalEvent env (meetingEvent eid acct oid title c) source s = (Inr x, t)" and "eid \<noteq> []"
  shows "hasMeeting c eid t"
proof -
  let ?e = "meetingEvent eid acct oid title c"
  let ?wrote = "case eventsWithId eid s of
      row # _ \<Rightarrow> andThen (updateEventRow eid (setInputFields env ?e (ce_version row + 1))) (\<lambda>_.
        writeJournal env eid ''updated'' source (JObj [(''new_version'', JNum (int (ce_version row + 1)))]) None)
    | [] \<Rightarrow> andThen (insertEventRow (inputEventRow env eid (orFalsy (Some acct) ''api'') (orFalsy (Some oid) eid) ?e source))
        (\<lambda>_. writeJournal env eid ''created'' source (JObj []) None)"
  have ids: "ui_canonical_event_id ?e = Some eid" "ui_origin_account_id ?e = Some acct" "ui_origin_event_id ?e = Some oid"
    by (simp_all add: meetingEvent_def)
  from assms have "andThen ?wrote (\<lambda>_. andThen (projectAndEnqueue env eid (orFalsy (Some acct) ''api'') noOpts)
      (\<lambda>_. ret eid)) s = (Inr x, t)"
    by (simp add: upsertCanonicalEvent_def Let_def ids del: orFalsy.simps)
  then obtain y u z v where u: "?wrote s = (Inr y, u)"
    and v: "projectAndEnqueue env eid (orFalsy (Some acct) ''api'') noOpts u = (Inr z, v)" and t: "t = v"
    by (auto simp: andThen_result ret_run)
  have "hasMeeting c eid u"
  proof (cases "eventsWithId eid s")
    case Nil
    with u obtain u1 where "insertEventRow (inputEventRow env eid (orFalsy (Some acct) ''api'') (orFalsy (Some oid) eid) ?e source) s
        = (Inr (), u1)" and j: "writeJournal env eid ''created'' source (JObj []) None u1 = (Inr y, u)"
      by (auto simp: andThen_result)
    then have "hasMeeting c eid u1"
      by (auto simp: insertEventRow_def hasMeeting_def inputEventRow_def split: if_splits)
    moreover have "sameEvents u1 u" using staysD [OF same_journal(2), of u1] j by (metis snd_conv)
    ultimately show ?thesis by (simp add: sameEvents_def hasMeeting_def)
  next
    case (Cons row rest)
    then have "row \<in> set (eventsWithId eid s)" by simp
    then have row: "row \<in> set (canonical_events s)" "ce_canonical_event_id row = eid"
      by (simp_all add: eventsWithId_def)
    from u Cons obtain u1 where "updateEventRow eid (setInputFields env ?e (ce_version row + 1)) s = (Inr (), u1)"
      and j: "writeJournal env eid ''updated'' source (JObj [(''new_version'', JNum (int (ce_version row + 1)))]) None u1 = (Inr y, u)"
      by (auto simp: andThen_result)
    then have "canonical_events u1 = updateRows (\<lambda>r. ce_canonical_event_id r = eid)
        (setInputFields env ?e (ce_version row + 1)) (canonical_events s)"
      by (auto simp: updateEventRow_def)
    moreover have "setInputFields env ?e (ce_version row + 1) row \<in>
        set (updateRows (\<lambda>r. ce_canonical_event_id r = eid) (setInputFields env ?e (ce_version row + 1)) (canonical_events s))"
      unfolding set_updateRows by (rule image_eqI [OF _ row(1)]) (simp add: row(2))
    ultimately have "hasMeeting c eid u1"
      unfolding hasMeeting_def by (intro bexI [of _ "setInputFields env ?e (ce_version row + 1) row"]) (simp_all add: row(2))
    moreover have "sameEvents u1 u" using staysD [OF same_journal(2), of u1] j by (metis snd_conv)
    ultimately show ?thesis by (simp add: sameEvents_def hasMeeting_def)
  qed
  moreover have "sameEvents u v" using staysD [OF same_projection(2), of u] v by (metis snd_conv)
  ultimately show ?thesis by (simp add: t sameEvents_def hasMeeting_def)
qed

end
