(* ===== verification/Group_Laws.thy ===== *)
theory Group_Laws
  imports Scheduling_Laws
begin

text \<open>
  A group commit. When it succeeds every participant has the meeting and a committed session; when it fails after the
  first event was created, the events that were created stay.
\<close>

section \<open>Calls that succeed\<close>

lemma andThen_elim:
  assumes "andThen m f s = (Inr y, u)"
  obtains x t where "m s = (Inr x, t)" and "f x t = (Inr y, u)"
  using assms by (auto simp: andThen_result)

lemma awaited_Inr: "awaited r s = (Inr x, t) \<longleftrightarrow> r = Inr x \<and> t = s"
  by (cases r) (auto simp: awaited_def ret_run throw_run)

lemma callUser_Inr:
  assumes "callUser site user what m w = (Inr x, w')"
  obtains g where "m (wd_graph w user) = (Inr x, g)" and "wd_graph w' = (wd_graph w)(user := g)"
    and "wd_registry w' = wd_registry w" and "st_fate site (wd_calls w) = Delivered"
proof -
  obtain r g where m: "m (wd_graph w user) = (r, g)" by force
  show thesis
  proof (cases "st_fate site (wd_calls w)")
    case Delivered
    with assms m have "r = Inr x" "w' = (countCall w)\<lparr> wd_graph := (wd_graph w)(user := g) \<rparr>"
      by (auto simp: callUser_def fetchFrom_def andThen_def ret_run throw_run Let_def split: sum.splits)
    with m Delivered show thesis by (intro that) (simp_all add: countCall_def)
  qed (use assms m in \<open>simp_all add: callUser_def fetchFrom_def andThen_def Let_def\<close>)
qed

lemma d1_Inr:
  assumes "d1 site f w = (Inr x, w')"
  shows "f (wd_registry w) = (Inr x, wd_registry w')" and "wd_graph w' = wd_graph w"
  using assms by (auto simp: d1_def countCall_def Let_def split: prod.splits rpc_fate.splits)

lemma newId_run: "newId site entity w = (Inr (generateId entity (st_ulid site (wd_ids w))), w\<lparr> wd_ids := Suc (wd_ids w) \<rparr>)"
  by (simp add: newId_def)

lemma settle_run: "settle m w = (Inr r, w') \<longleftrightarrow> m w = (r, w')"
  by (auto simp: settle_def split: prod.splits)

lemma eventId_nonempty [simp]: "generateId ''event'' uid \<noteq> []"
  by (simp add: generateId_def ID_PREFIXES_def)

section \<open>Sessions\<close>

lemma same_sessions [schedule_stays]:
  "stays sameEvents (setSessionStatus sid st)" "stays sameEvents (releaseSessionHolds sid)"
  "stays sameEvents (commitSchedulingSession sid cid e)" "stays sameEvents (cancelSchedulingSession sid)"
  "stays sameEvents (getSchedulingSession env sid)"
proof -
  show 1: "stays sameEvents (setSessionStatus sid st)" "stays sameEvents (releaseSessionHolds sid)" for sid st
    by (simp_all add: stays_def setSessionStatus_def releaseSessionHolds_def sameEvents_def)
  have m: "stays sameEvents (modify (\<lambda>s. s\<lparr> schedule_sessions := f s \<rparr>))" for f
    by (simp add: stays_def sameEvents_def)
  show "stays sameEvents (commitSchedulingSession sid cid e)"
    unfolding commitSchedulingSession_def by (intro evts.stays_rules m)
  show "stays sameEvents (cancelSchedulingSession sid)"
    unfolding cancelSchedulingSession_def by (intro evts.stays_rules 1)
  show "stays sameEvents (getSchedulingSession env sid)"
    unfolding getSchedulingSession_def Let_def split_def by (intro evts.stays_rules 1)
qed

definition sessionCommitted :: "string \<Rightarrow> user_graph \<Rightarrow> bool" where
  "sessionCommitted sid s \<longleftrightarrow> (\<exists>r \<in> set (schedule_sessions s). ss_session_id r = sid \<and> ss_status r = ''committed'')"

definition worldOk :: "sched_world \<Rightarrow> bool" where
  "worldOk w \<longleftrightarrow> (\<forall>u. sessions_ok (wd_graph w u))"

lemma committed_stays:
  assumes "everywhere sessionContract w w'" and "worldOk w"
  shows "worldOk w'" and "sessionCommitted sid (wd_graph w u) \<Longrightarrow> sessionCommitted sid (wd_graph w' u)"
proof -
  have c: "sessionContract (wd_graph w u) (wd_graph w' u)" "sessions_ok (wd_graph w u)" for u
    using assms by (simp_all add: everywhere_def worldOk_def)
  then show "worldOk w'" by (simp add: worldOk_def sessionContract_def)
  assume "sessionCommitted sid (wd_graph w u)"
  then obtain r where r: "r \<in> set (schedule_sessions (wd_graph w u))" "ss_session_id r = sid" "ss_status r = ''committed''"
    unfolding sessionCommitted_def by blast
  from c [of u] r(1) obtain r' where "r' \<in> set (schedule_sessions (wd_graph w' u))" "carriesOn r r'"
    unfolding sessionContract_def noReopening_def by blast
  with r(2,3) show "sessionCommitted sid (wd_graph w' u)" unfolding sessionCommitted_def carriesOn_def by metis
qed

lemma commit_marks:
  assumes "commitSchedulingSession sid cid e s = (Inr (), t)"
  shows "sessionCommitted sid t"
proof -
  from assms obtain r rest obj where rows: "sessionRows sid s = r # rest"
    and t: "t = s\<lparr> schedule_sessions := updateRows (\<lambda>x. ss_session_id x = sid)
      (\<lambda>x. x\<lparr> ss_status := ''committed'', ss_objective_json := Some obj \<rparr>) (schedule_sessions s) \<rparr>"
    by (auto simp: commitSchedulingSession_def throw_run split: list.splits option.splits)
  have "r \<in> set (sessionRows sid s)" using rows by simp
  then have r: "r \<in> set (schedule_sessions s)" "ss_session_id r = sid" by (simp_all add: sessionRows_def)
  let ?r = "r\<lparr> ss_status := ''committed'', ss_objective_json := Some obj \<rparr>"
  have "?r \<in> (\<lambda>x. if ss_session_id x = sid then x\<lparr> ss_status := ''committed'', ss_objective_json := Some obj \<rparr> else x) `
      set (schedule_sessions s)"
    by (rule image_eqI [OF _ r(1)]) (simp add: r(2))
  then have "?r \<in> set (schedule_sessions t)" unfolding t by (simp add: set_updateRows)
  then show ?thesis using r(2) unfolding sessionCommitted_def by (intro bexI [of _ ?r]) simp_all
qed

section \<open>Creating the events\<close>

lemma group_stays [meeting_stays]:
  "stays (everywhere (meetingsStay c)) (upsertEventInUserDO site user (groupEvent sid v c eid))"
  "stays (everywhere (meetingsStay c)) (cancelSessionInUserDO site user sid)"
  "stays (everywhere (meetingsStay c)) (commitSessionInUserDO site user sid cid e)"
  "stays (everywhere (meetingsStay c)) (fetchSessionFromUserDO site user sid)"
  unfolding upsertEventInUserDO_def cancelSessionInUserDO_def commitSessionInUserDO_def fetchSessionFromUserDO_def
    groupEvent_def
  by (intro meet.call_rules meeting_stays meetings_by_events schedule_stays)+

lemma createEvents_stays [meeting_stays]:
  "stays (everywhere (meetingsStay c)) (createEvents site (groupEvent sid v c) users)"
  by (induction users) (auto intro!: meet.call_rules meeting_stays simp: split_def split: sum.split)

lemma createEvents_made:
  "createEvents site (groupEvent sid v c) users w = (Inr (made, failure), w') \<Longrightarrow>
     (\<forall>(u, e) \<in> set made. hasMeeting c e (wd_graph w' u)) \<and> (failure = None \<longrightarrow> map fst made = users)"
proof (induction users arbitrary: w made)
  case Nil
  then show ?case by (simp add: ret_run)
next
  case (Cons user users)
  let ?eid = "generateId ''event'' (st_ulid site (wd_ids w))" and ?w1 = "w\<lparr> wd_ids := Suc (wd_ids w) \<rparr>"
  obtain r w2 where up: "upsertEventInUserDO site user (groupEvent sid v c ?eid) ?w1 = (r, w2)" by force
  then have st: "settle (upsertEventInUserDO site user (groupEvent sid v c ?eid)) ?w1 = (Inr r, w2)"
    by (simp add: settle_run)
  show ?case
  proof (cases r)
    case (Inl e)
    with Cons.prems st show ?thesis
      by (auto simp: andThen_def newId_run st ret_run)
  next
    case (Inr y)
    with Cons.prems obtain made' where rest: "createEvents site (groupEvent sid v c) users w2 = (Inr (made', failure), w')"
      and made: "made = (user, ?eid) # made'"
      by (auto simp: andThen_def newId_run st ret_run split: prod.splits sum.splits)
    from up Inr obtain x where "callUser site user (failedFor ''upsertCanonicalEvent'' user)
        (upsertCanonicalEvent (st_env site) (groupEvent sid v c ?eid) ''system'') ?w1 = (Inr x, w2)"
      by (auto simp: upsertEventInUserDO_def andThen_result ret_run)
    from callUser_Inr [OF this] obtain g where
      g: "upsertCanonicalEvent (st_env site) (groupEvent sid v c ?eid) ''system'' (wd_graph ?w1 user) = (Inr x, g)"
      and w2: "wd_graph w2 = (wd_graph ?w1)(user := g)" .
    from upsert_books [OF g [unfolded groupEvent_def]] have "hasMeeting c ?eid (wd_graph w2 user)" by (simp add: w2)
    moreover have "everywhere (meetingsStay c) w2 w'"
      using staysD [OF createEvents_stays, of c w2 site sid v users] rest by simp
    ultimately have "hasMeeting c ?eid (wd_graph w' user)" by (simp add: everywhere_def meetingsStay_def)
    with Cons.IH [OF rest] made show ?thesis by simp
  qed
qed

section \<open>Success\<close>

lemma commitSession_closes [session_stays]:
  "stays (everywhere sessionContract) (commitSessionInUserDO site user sid cid e)"
  "stays (everywhere sessionContract) (fetchSessionFromUserDO site user sid)"
  "stays (everywhere sessionContract) (upsertEventInUserDO site user ev)"
  unfolding commitSessionInUserDO_def fetchSessionFromUserDO_def upsertEventInUserDO_def
  by (intro close.call_rules session_stays stays_weaken [OF same_upsert sameSchedule_contract])+

lemma createEvents_closes [session_stays]:
  "stays (everywhere sessionContract) (createEvents site ev users)"
  by (induction users) (auto intro!: close.call_rules session_stays simp: split_def split: sum.split)

lemma commitAll_stays:
  "stays (everywhere (meetingsStay c)) (forEach users (\<lambda>u. commitSessionInUserDO site u sid cid (e u)))"
  "stays (everywhere sessionContract) (forEach users (\<lambda>u. commitSessionInUserDO site u sid cid (e u)))"
  by (intro meet.world.stays_forEach group_stays, intro close.world.stays_forEach commitSession_closes)

lemma commitAll_marks:
  "forEach users (\<lambda>u. commitSessionInUserDO site u sid cid (e u)) w = (Inr (), w') \<Longrightarrow> worldOk w \<Longrightarrow>
     \<forall>u \<in> set users. sessionCommitted sid (wd_graph w' u)"
proof (induction users arbitrary: w)
  case (Cons user users)
  then obtain w1 where one: "commitSessionInUserDO site user sid cid (e user) w = (Inr (), w1)"
    and rest: "forEach users (\<lambda>u. commitSessionInUserDO site u sid cid (e u)) w1 = (Inr (), w')"
    by (auto simp: andThen_result)
  from one have "callUser site user (failedFor ''commitSchedulingSession'' user)
      (commitSchedulingSession sid cid (e user)) w = (Inr (), w1)" by (simp add: commitSessionInUserDO_def)
  from callUser_Inr [OF this] obtain g where "commitSchedulingSession sid cid (e user) (wd_graph w user) = (Inr (), g)"
    and "wd_graph w1 = (wd_graph w)(user := g)" .
  with commit_marks have "sessionCommitted sid (wd_graph w1 user)" by simp
  moreover have "everywhere sessionContract w w1"
    using staysD [OF commitSession_closes(1), of w site user sid cid "e user"] one by simp
  then have ok: "worldOk w1" by (rule committed_stays) (rule Cons.prems(2))
  moreover have "everywhere sessionContract w1 w'"
    using staysD [OF commitAll_stays(2), of w1 users site sid cid e] rest by simp
  ultimately have "sessionCommitted sid (wd_graph w' user)" by (blast intro: committed_stays(2))
  with Cons.IH [OF rest ok] show ?case by simp
qed simp

lemma registrationFor_Inr:
  assumes "registrationFor site sid user w = (Inr row, w')"
  shows "row \<in> set (wd_registry w)" and "gr_session_id row = sid" and "user \<in> set (gr_participant_ids row)"
    and "wd_graph w' = wd_graph w" and "wd_registry w' = wd_registry w"
proof -
  from assms obtain found where q: "getSessionFromD1 site sid w = (Inr found, w')" and f: "found = Some row"
    and user: "user \<in> set (gr_participant_ids row)"
    by (auto simp: registrationFor_def andThen_result throw_run ret_run split: option.splits if_splits)
  note d = d1_Inr [OF q [unfolded getSessionFromD1_def]]
  show "wd_graph w' = wd_graph w" by (rule d(2))
  from d(1) show reg: "wd_registry w' = wd_registry w" by simp
  from d(1) f have "row \<in> set (filter (\<lambda>r. gr_session_id r = sid) (wd_registry w))"
    by (cases "filter (\<lambda>r. gr_session_id r = sid) (wd_registry w)") simp_all
  then show "row \<in> set (wd_registry w)" "gr_session_id row = sid" by simp_all
  show "user \<in> set (gr_participant_ids row)" by (rule user)
qed

lemma committable_Inr:
  assumes "committable what sid cid v = Inr c"
  shows "c \<in> set (sv_candidates v)" and "sc_candidate_id c = cid"
    and "sv_status v \<notin> {''committed'', ''cancelled'', ''expired''}"
proof -
  from assms have "sv_status v \<notin> {''committed'', ''cancelled'', ''expired''}"
    and c: "\<exists>cs. filter (\<lambda>c. sc_candidate_id c = cid) (sv_candidates v) = c # cs"
    by (auto simp: committable_def split: if_splits list.splits)
  then show "sv_status v \<notin> {''committed'', ''cancelled'', ''expired''}" by simp
  from c obtain cs where "filter (\<lambda>c. sc_candidate_id c = cid) (sv_candidates v) = c # cs" ..
  then have "c \<in> set (filter (\<lambda>c. sc_candidate_id c = cid) (sv_candidates v))" by (simp del: set_filter)
  then show "c \<in> set (sv_candidates v)" "sc_candidate_id c = cid" by simp_all
qed

text \<open>The candidate a commit names is the one stored candidate with that id, and it belongs to the session.\<close>

definition chosenCandidate :: "string \<Rightarrow> string \<Rightarrow> user_graph \<Rightarrow> candidate_row \<Rightarrow> bool" where
  "chosenCandidate sid cid s c \<longleftrightarrow>
     filter (\<lambda>x. sc_candidate_id x = cid) (schedule_candidates s) = [c] \<and> sc_session_id c = sid"

lemma session_candidates:
  assumes "getSchedulingSession env sid s = (Inr v, t)"
  shows "set (sv_candidates v) = {c \<in> set (schedule_candidates s). sc_session_id c = sid}"
  using assms
  by (auto simp: getSchedulingSession_def andThen_result ret_run throw_run candidatesOf_def split_def Let_def
      setSessionStatus_def releaseSessionHolds_def split: list.splits if_splits)

lemma committable_chosen:
  assumes "getSchedulingSession env sid s = (Inr v, t)" and "committable what sid cid v = Inr c" and "sessions_ok s"
  shows "chosenCandidate sid cid s c"
proof -
  have c: "c \<in> set (schedule_candidates s)" "sc_session_id c = sid" "sc_candidate_id c = cid"
    using session_candidates [OF assms(1)] committable_Inr [OF assms(2)] by auto
  have "filter (\<lambda>x. sc_candidate_id x = sc_candidate_id c) (schedule_candidates s) = [c]"
    using assms(3) c(1) by (intro distinct_key_filter) (simp_all add: sessions_ok_def)
  with c show ?thesis by (simp add: chosenCandidate_def)
qed

lemma rollback_throws: "rollback site sid made e w \<noteq> (Inr x, w')"
  by (auto simp: rollback_def andThen_result throw_run)

text \<open>The steps of a commit that returns.\<close>

lemma group_commit_steps:
  assumes "commitGroupSession site sid cid user w = (Inr (made, view), w')"
  obtains row w1 session w2 c w3 w4 where "registrationFor site sid user w = (Inr row, w1)"
    and "fetchSessionFromUserDO site (gr_creator_user_id row) sid w1 = (Inr session, w2)"
    and "committable ''Group session'' sid cid session = Inr c"
    and "createEvents site (groupEvent sid session c) (gr_participant_ids row) w2 = (Inr (made, None), w3)"
    and "markCommitted site sid cid (gr_participant_ids row) made w3 = (Inr (), w4)"
    and "fetchSessionFromUserDO site (gr_creator_user_id row) sid w4 = (Inr view, w')"
proof -
  from assms [unfolded commitGroupSession_def] obtain row w1 where reg: "registrationFor site sid user w = (Inr row, w1)"
    and 1: "andThen (fetchSessionFromUserDO site (gr_creator_user_id row) sid) (\<lambda>session.
     andThen (awaited (committable ''Group session'' sid cid session)) (\<lambda>candidate.
     andThen (createEvents site (groupEvent sid session candidate) (gr_participant_ids row)) (\<lambda>(made, failure).
     andThen (case failure of
                Some e \<Rightarrow> rollback site sid made e
              | None \<Rightarrow> tryCatch (markCommitted site sid cid (gr_participant_ids row) made)
                          (rollback site sid made)) (\<lambda>_.
     andThen (fetchSessionFromUserDO site (gr_creator_user_id row) sid) (\<lambda>updated.
     ret (made, updated)))))) w1 = (Inr (made, view), w')" by (rule andThen_elim)
  from 1 obtain session w2 where get: "fetchSessionFromUserDO site (gr_creator_user_id row) sid w1 = (Inr session, w2)"
    and 2: "andThen (awaited (committable ''Group session'' sid cid session)) (\<lambda>candidate.
     andThen (createEvents site (groupEvent sid session candidate) (gr_participant_ids row)) (\<lambda>(made, failure).
     andThen (case failure of
                Some e \<Rightarrow> rollback site sid made e
              | None \<Rightarrow> tryCatch (markCommitted site sid cid (gr_participant_ids row) made)
                          (rollback site sid made)) (\<lambda>_.
     andThen (fetchSessionFromUserDO site (gr_creator_user_id row) sid) (\<lambda>updated.
     ret (made, updated))))) w2 = (Inr (made, view), w')" by (rule andThen_elim)
  from 2 obtain c where cand: "committable ''Group session'' sid cid session = Inr c"
    and 3: "andThen (createEvents site (groupEvent sid session c) (gr_participant_ids row)) (\<lambda>(made, failure).
     andThen (case failure of
                Some e \<Rightarrow> rollback site sid made e
              | None \<Rightarrow> tryCatch (markCommitted site sid cid (gr_participant_ids row) made)
                          (rollback site sid made)) (\<lambda>_.
     andThen (fetchSessionFromUserDO site (gr_creator_user_id row) sid) (\<lambda>updated.
     ret (made, updated)))) w2 = (Inr (made, view), w')" by (rule andThen_elim) (simp add: awaited_Inr)
  from 3 obtain p w3 where evp: "createEvents site (groupEvent sid session c) (gr_participant_ids row) w2 = (Inr p, w3)"
    and 3: "(case p of (made, failure) \<Rightarrow>
     andThen (case failure of
                Some e \<Rightarrow> rollback site sid made e
              | None \<Rightarrow> tryCatch (markCommitted site sid cid (gr_participant_ids row) made)
                          (rollback site sid made)) (\<lambda>_.
     andThen (fetchSessionFromUserDO site (gr_creator_user_id row) sid) (\<lambda>updated.
     ret (made, updated)))) w3 = (Inr (made, view), w')" by (rule andThen_elim)
  obtain made' failure where p: "p = (made', failure)" by force
  note ev = evp [unfolded p]
  from 3 have 4: "andThen (case failure of
                Some e \<Rightarrow> rollback site sid made' e
              | None \<Rightarrow> tryCatch (markCommitted site sid cid (gr_participant_ids row) made')
                          (rollback site sid made')) (\<lambda>_.
     andThen (fetchSessionFromUserDO site (gr_creator_user_id row) sid) (\<lambda>updated. ret (made', updated))) w3
      = (Inr (made, view), w')" by (simp add: p)
  from 4 obtain y w4 where mk: "(case failure of Some e \<Rightarrow> rollback site sid made' e
              | None \<Rightarrow> tryCatch (markCommitted site sid cid (gr_participant_ids row) made')
                          (rollback site sid made')) w3 = (Inr y, w4)"
    and last: "andThen (fetchSessionFromUserDO site (gr_creator_user_id row) sid) (\<lambda>updated. ret (made', updated)) w4
      = (Inr (made, view), w')" by (rule andThen_elim)
  from mk have none: "failure = None" by (cases failure) (simp_all add: rollback_throws)
  with mk have "markCommitted site sid cid (gr_participant_ids row) made' w3 = (Inr (), w4)"
    by (auto simp: tryCatch_def rollback_throws split: prod.splits sum.splits)
  moreover from last have "made' = made" "fetchSessionFromUserDO site (gr_creator_user_id row) sid w4 = (Inr view, w')"
    by (auto simp: andThen_result ret_run)
  ultimately show thesis using reg get cand ev none that by blast
qed

lemma group_commit_everyone:
  assumes run: "commitGroupSession site sid cid user w = (Inr (made, view), w')" and ok: "worldOk w"
  shows "\<exists>row c. row \<in> set (wd_registry w) \<and> gr_session_id row = sid \<and> user \<in> set (gr_participant_ids row) \<and>
    map fst made = gr_participant_ids row \<and> chosenCandidate sid cid (wd_graph w (gr_creator_user_id row)) c \<and>
    (\<forall>(u, e) \<in> set made. hasMeeting c e (wd_graph w' u) \<and> sessionCommitted sid (wd_graph w' u)) \<and>
    (\<forall>r \<in> set (wd_registry w'). gr_session_id r = sid \<longrightarrow> gr_status r = ''committed'')"
proof -
  from group_commit_steps [OF run] obtain row w1 session w2 c w3 w4 where
    reg: "registrationFor site sid user w = (Inr row, w1)"
    and get: "fetchSessionFromUserDO site (gr_creator_user_id row) sid w1 = (Inr session, w2)"
    and cand: "committable ''Group session'' sid cid session = Inr c"
    and ev: "createEvents site (groupEvent sid session c) (gr_participant_ids row) w2 = (Inr (made, None), w3)"
    and mk: "markCommitted site sid cid (gr_participant_ids row) made w3 = (Inr (), w4)"
    and get': "fetchSessionFromUserDO site (gr_creator_user_id row) sid w4 = (Inr view, w')" .
  note r = registrationFor_Inr [OF reg]
  from callUser_Inr [OF get [unfolded fetchSessionFromUserDO_def]] obtain g where
    "getSchedulingSession (st_env site) sid (wd_graph w1 (gr_creator_user_id row)) = (Inr session, g)" .
  then have chosen: "chosenCandidate sid cid (wd_graph w (gr_creator_user_id row)) c"
    using committable_chosen [OF _ cand] r(4) ok by (simp add: worldOk_def)
  have made: "map fst made = gr_participant_ids row" and booked: "\<forall>(u, e) \<in> set made. hasMeeting c e (wd_graph w3 u)"
    using createEvents_made [OF ev] by simp_all
  from mk obtain w5 where marks: "forEach (gr_participant_ids row)
      (\<lambda>u. commitSessionInUserDO site u sid cid (eventOf made u)) w3 = (Inr (), w5)"
    and upd: "updateSessionStatusInD1 site sid ''committed'' w5 = (Inr (), w4)"
    by (auto simp: markCommitted_def andThen_result)
  have "worldOk w1" using ok r(4) by (simp add: worldOk_def)
  from committed_stays(1) [OF _ this] have "worldOk w2"
    using staysD [OF commitSession_closes(2), of w1 site "gr_creator_user_id row" sid] get by simp
  from committed_stays(1) [OF _ this] have ok3: "worldOk w3"
    using staysD [OF createEvents_closes, of w2 site "groupEvent sid session c" "gr_participant_ids row"] ev by simp
  from commitAll_marks [OF marks ok3] have closed: "\<forall>u \<in> set (gr_participant_ids row). sessionCommitted sid (wd_graph w5 u)" .
  have g4: "wd_graph w4 = wd_graph w5" and reg4: "wd_registry w4 = updateRows (\<lambda>r. gr_session_id r = sid)
      (\<lambda>r. r\<lparr> gr_status := ''committed'' \<rparr>) (wd_registry w5)"
    using d1_Inr [OF upd [unfolded updateSessionStatusInD1_def]] by simp_all
  have reg': "wd_registry w' = wd_registry w4"
    using callUser_Inr [OF get' [unfolded fetchSessionFromUserDO_def]] by metis
  have m35: "everywhere (meetingsStay c) w3 w5"
    using staysD [OF commitAll_stays(1), of c w3 "gr_participant_ids row" site sid cid "eventOf made"] marks by simp
  have m4: "everywhere (meetingsStay c) w4 w'" "everywhere sessionContract w4 w'"
    using staysD [OF group_stays(4), of c w4 site "gr_creator_user_id row" sid]
      staysD [OF commitSession_closes(2), of w4 site "gr_creator_user_id row" sid] get' by simp_all
  have "everywhere sessionContract w3 w5"
    using staysD [OF commitAll_stays(2), of w3 "gr_participant_ids row" site sid cid "eventOf made"] marks by simp
  from committed_stays(1) [OF this ok3] have ok4: "worldOk w4" by (simp add: worldOk_def g4)
  have final: "hasMeeting c e (wd_graph w' u) \<and> sessionCommitted sid (wd_graph w' u)" if ue: "(u, e) \<in> set made" for u e
  proof
    from booked ue have "hasMeeting c e (wd_graph w3 u)" by blast
    with m35 m4(1) g4 show "hasMeeting c e (wd_graph w' u)" by (simp add: everywhere_def meetingsStay_def)
    from ue made have "u \<in> set (gr_participant_ids row)" by (metis fst_conv image_eqI list.set_map)
    with closed g4 have "sessionCommitted sid (wd_graph w4 u)" by simp
    then show "sessionCommitted sid (wd_graph w' u)" by (rule committed_stays(2) [OF m4(2) ok4])
  qed
  have status: "gr_status r = ''committed''" if "r \<in> set (wd_registry w')" "gr_session_id r = sid" for r
  proof -
    from that(1) obtain x where "r = (if gr_session_id x = sid then x\<lparr> gr_status := ''committed'' \<rparr> else x)"
      unfolding reg' reg4 set_updateRows by (rule imageE)
    with that(2) show ?thesis by (cases "gr_session_id x = sid") simp_all
  qed
  show ?thesis
  proof (intro exI [of _ row] exI [of _ c] conjI)
    show "\<forall>(u, e) \<in> set made. hasMeeting c e (wd_graph w' u) \<and> sessionCommitted sid (wd_graph w' u)"
    proof (rule ballI)
      fix p assume "p \<in> set made"
      moreover obtain u e where "p = (u, e)" by force
      ultimately show "case p of (u, e) \<Rightarrow> hasMeeting c e (wd_graph w' u) \<and> sessionCommitted sid (wd_graph w' u)"
        using final by simp
    qed
    show "\<forall>r \<in> set (wd_registry w'). gr_session_id r = sid \<longrightarrow> gr_status r = ''committed''"
      by (intro ballI impI status)
  qed (rule r(1-3) made chosen)+
qed

section \<open>Failure half way\<close>

lemma fetchFrom_delivered:
  "st_fate site (wd_calls w) = Delivered \<Longrightarrow> m (wd_graph w user) = (r, g) \<Longrightarrow>
   fetchFrom site user m w = (Inr r, (countCall w)\<lparr> wd_graph := (wd_graph w)(user := g) \<rparr>)"
  by (simp add: fetchFrom_def)

lemma callUser_delivered:
  "st_fate site (wd_calls w) = Delivered \<Longrightarrow> m (wd_graph w user) = (Inr x, g) \<Longrightarrow>
   callUser site user what m w = (Inr x, (countCall w)\<lparr> wd_graph := (wd_graph w)(user := g) \<rparr>)"
  by (simp add: callUser_def andThen_def fetchFrom_delivered ret_run)

lemma callUser_refused:
  "st_fate site (wd_calls w) = Refused \<Longrightarrow> callUser site user what m w = (Inl networkLost, countCall w)"
  by (simp add: callUser_def andThen_def fetchFrom_def split: prod.split)

lemma countCall_fields [simp]:
  "wd_calls (countCall w) = wd_calls w + 1" "wd_graph (countCall w) = wd_graph w" "wd_ids (countCall w) = wd_ids w"
  "wd_registry (countCall w) = wd_registry w"
  by (simp_all add: countCall_def)

lemma registrationFor_run:
  assumes "st_fate site (wd_calls w) = Delivered"
    and "filter (\<lambda>r. gr_session_id r = sid) (wd_registry w) = row # rows" and "user \<in> set (gr_participant_ids row)"
  shows "registrationFor site sid user w = (Inr row, countCall w)"
  using assms by (simp add: registrationFor_def getSessionFromD1_def d1_def andThen_def ret_run countCall_def)

lemma createEvents_second_refused:
  assumes "st_fate site (wd_calls w) = Delivered" and "st_fate site (wd_calls w + 1) = Refused"
    and "upsertCanonicalEvent (st_env site) (event (generateId ''event'' (st_ulid site (wd_ids w)))) ''system''
      (wd_graph w u) = (Inr x, g)"
  obtains w' where "createEvents site event (u # v # rest) w =
      (Inr ([(u, generateId ''event'' (st_ulid site (wd_ids w)))], Some networkLost), w')"
    and "wd_graph w' = (wd_graph w)(u := g)" and "wd_calls w' = wd_calls w + 2" and "wd_registry w' = wd_registry w"
proof -
  let ?w1 = "w\<lparr> wd_ids := Suc (wd_ids w) \<rparr>"
  let ?w2 = "(countCall ?w1)\<lparr> wd_graph := (wd_graph w)(u := g) \<rparr>"
  let ?w3 = "?w2\<lparr> wd_ids := Suc (Suc (wd_ids w)) \<rparr>"
  have one: "upsertEventInUserDO site u (event (generateId ''event'' (st_ulid site (wd_ids w)))) ?w1 = (Inr (), ?w2)"
    using callUser_delivered [of site ?w1 _ u x g] assms by (simp add: upsertEventInUserDO_def andThen_def ret_run)
  have two: "upsertEventInUserDO site v e ?w3 = (Inl networkLost, countCall ?w3)" for e
    using assms(2) by (simp add: upsertEventInUserDO_def andThen_def callUser_refused)
  show thesis
  proof (rule that [of "countCall ?w3"])
    have "settle (upsertEventInUserDO site u (event (generateId ''event'' (st_ulid site (wd_ids w))))) ?w1 = (Inr (Inr ()), ?w2)"
      "settle (upsertEventInUserDO site v e) ?w3 = (Inr (Inl networkLost), countCall ?w3)" for e
      using one two by (simp_all add: settle_run)
    then show "createEvents site event (u # v # rest) w =
      (Inr ([(u, generateId ''event'' (st_ulid site (wd_ids w)))], Some networkLost), countCall ?w3)"
      by (simp add: andThen_def newId_run ret_run countCall_def)
  qed (simp_all add: countCall_def)
qed

lemma group_commit_half_done:
  fixes site :: sched_site and w :: sched_world
  defines "eid \<equiv> generateId ''event'' (st_ulid site (wd_ids w))"
  assumes row: "filter (\<lambda>r. gr_session_id r = sid) (wd_registry w) = row # rows"
    and user: "user \<in> set (gr_participant_ids row)" and parts: "gr_participant_ids row = u # v # rest" and uv: "u \<noteq> v"
    and view: "getSchedulingSession (st_env site) sid (wd_graph w (gr_creator_user_id row)) = (Inr session, g1)"
    and cand: "committable ''Group session'' sid cid session = Inr c"
    and up: "upsertCanonicalEvent (st_env site) (groupEvent sid session c eid) ''system''
      (((wd_graph w)(gr_creator_user_id row := g1)) u) = (Inr x, g2)"
    and fate: "st_fate site (wd_calls w) = Delivered" "st_fate site (wd_calls w + 1) = Delivered"
      "st_fate site (wd_calls w + 2) = Delivered" "st_fate site (wd_calls w + 3) = Refused"
      "st_fate site (wd_calls w + 4) = Delivered" "st_fate site (wd_calls w + 5) = Delivered"
  obtains w' where "commitGroupSession site sid cid user w =
      (Inl (Thrown (''Atomic commit failed for session '' @ sid @ '': '' @ error_message networkLost)), w')"
    and "hasMeeting c eid (wd_graph w' u)" and "canonical_events (wd_graph w' v) = canonical_events (wd_graph w v)"
    and "\<And>r. r \<in> set (wd_registry w') \<Longrightarrow> gr_session_id r = sid \<Longrightarrow> gr_status r = ''cancelled''"
proof -
  let ?w1 = "countCall w"
  let ?w2 = "(countCall ?w1)\<lparr> wd_graph := (wd_graph w)(gr_creator_user_id row := g1) \<rparr>"
  have reg: "registrationFor site sid user w = (Inr row, ?w1)" by (rule registrationFor_run [OF fate(1) row user])
  have get: "fetchSessionFromUserDO site (gr_creator_user_id row) sid ?w1 = (Inr session, ?w2)"
    using callUser_delivered [of site ?w1 "getSchedulingSession (st_env site) sid" "gr_creator_user_id row" session g1] view fate(2)
    by (simp add: fetchSessionFromUserDO_def)
  have two: "st_fate site (wd_calls ?w2) = Delivered" "st_fate site (wd_calls ?w2 + 1) = Refused"
    using fate(3,4) by (simp_all add: numeral_eq_Suc)
  obtain w4 where ev: "createEvents site (groupEvent sid session c) (u # v # rest) ?w2 = (Inr ([(u, eid)], Some networkLost), w4)"
    and w4: "wd_graph w4 = (wd_graph ?w2)(u := g2)" "wd_calls w4 = wd_calls ?w2 + 2" "wd_registry w4 = wd_registry ?w2"
    using createEvents_second_refused [of site ?w2 "groupEvent sid session c" u x g2 v rest, OF two] up
    by (auto simp: eid_def)
  obtain r g3 where cancel: "cancelSchedulingSession sid (wd_graph w4 u) = (r, g3)" by force
  let ?w5 = "(countCall w4)\<lparr> wd_graph := (wd_graph w4)(u := g3) \<rparr>"
  have c4: "st_fate site (wd_calls w4) = Delivered" "st_fate site (wd_calls ?w5) = Delivered"
    using fate(5,6) w4(2) by (simp_all add: numeral_eq_Suc)
  let ?rows = "updateRows (\<lambda>r. gr_session_id r = sid) (\<lambda>r. r\<lparr> gr_status := ''cancelled'' \<rparr>) (wd_registry ?w5)"
  let ?w6 = "(countCall ?w5)\<lparr> wd_registry := ?rows \<rparr>"
  have "cancelSessionInUserDO site u sid w4 = (Inr (), ?w5)"
    using fetchFrom_delivered [OF c4(1), of "cancelSchedulingSession sid" u r g3] cancel
    by (simp add: cancelSessionInUserDO_def andThen_def ret_run)
  then have undo: "forEach [(u, eid)] (\<lambda>(user, _). tryCatch (cancelSessionInUserDO site user sid) (\<lambda>_. ret ())) w4 = (Inr (), ?w5)"
    by (simp add: tryCatch_def andThen_def ret_run)
  have d: "updateSessionStatusInD1 site sid ''cancelled'' ?w5 = (Inr (), ?w6)"
    using c4(2) by (simp add: updateSessionStatusInD1_def d1_def countCall_def)
  have undone: "rollback site sid [(u, eid)] networkLost w4 =
      (Inl (Thrown (''Atomic commit failed for session '' @ sid @ '': '' @ error_message networkLost)), ?w6)"
    unfolding rollback_def andThen_def undo by (simp add: d throw_run)
  have run: "commitGroupSession site sid cid user w =
      (Inl (Thrown (''Atomic commit failed for session '' @ sid @ '': '' @ error_message networkLost)), ?w6)"
    unfolding commitGroupSession_def andThen_def reg
    by (simp add: get cand awaited_def ret_run parts ev undone del: createEvents.simps)
  have "hasMeeting c eid g2" using upsert_books [OF up [unfolded groupEvent_def]] by (simp add: eid_def)
  moreover have "sameEvents g2 g3"
    using staysD [OF same_sessions(4), of "wd_graph w4 u" sid] cancel w4(1) by simp
  ultimately have booked: "hasMeeting c eid (wd_graph ?w6 u)" by (simp add: hasMeeting_def sameEvents_def)
  have "sameEvents (wd_graph w (gr_creator_user_id row)) g1"
    using staysD [OF same_sessions(5), of "wd_graph w (gr_creator_user_id row)" "st_env site" sid] view by simp
  then have "canonical_events (wd_graph ?w6 v) = canonical_events (wd_graph w v)"
    using uv by (auto simp: w4(1) sameEvents_def)
  moreover have "gr_status q = ''cancelled''" if "q \<in> set (wd_registry ?w6)" "gr_session_id q = sid" for q
  proof -
    from that(1) have "q \<in> set ?rows" by simp
    then obtain y where "q = (if gr_session_id y = sid then y\<lparr> gr_status := ''cancelled'' \<rparr> else y)"
      unfolding set_updateRows by (rule imageE)
    with that(2) show ?thesis by (cases "gr_session_id y = sid") simp_all
  qed
  ultimately show thesis using run booked by (intro that [of ?w6])
qed

end
