(* ===== verification/Slot_Laws.thy ===== *)
theory Slot_Laws
  imports Slot_Solver Availability_Laws
begin

text \<open>
  What the greedy solver promises: a proposal starts a whole number of half hours after the start of the window, lies in
  the window, meets no trip and no busy interval of a required account, keeps to the working hours unless a VIP or an
  override exempts it, and is at least as good as every admissible slot that is not proposed. Together with the
  availability computation that makes the busy intervals: a proposal meets no event of a required account.
\<close>

section \<open>The slots\<close>

lemma stepMs_value: "stepMs = 1800000"
  by (simp add: stepMs_def SLOT_STEP_MINUTES_def)

lemma slotStarts_step: "s + d \<le> e \<Longrightarrow> slotStarts d e s = s # slotStarts d e (s + stepMs)"
  by (subst slotStarts.simps) simp

lemma slotStarts_stop: "\<not> s + d \<le> e \<Longrightarrow> slotStarts d e s = []"
  by (subst slotStarts.simps) simp

lemma slotStarts_iff:
  "x \<in> set (slotStarts d e s) \<longleftrightarrow> (\<exists>k. x = s + int k * stepMs) \<and> x + d \<le> e"
proof (induction d e s rule: slotStarts.induct)
  case (1 d e s)
  show ?case
  proof (cases "s + d \<le> e")
    case True
    have "(\<exists>k. x = s + int k * stepMs) \<longleftrightarrow> x = s \<or> (\<exists>k. x = s + stepMs + int k * stepMs)"
    proof
      assume "\<exists>k. x = s + int k * stepMs"
      then obtain k where k: "x = s + int k * stepMs" ..
      show "x = s \<or> (\<exists>k. x = s + stepMs + int k * stepMs)"
      proof (cases k)
        case (Suc j)
        then have "x = s + stepMs + int j * stepMs" using k by (simp add: algebra_simps)
        then show ?thesis by blast
      qed (use k in simp)
    next
      assume "x = s \<or> (\<exists>k. x = s + stepMs + int k * stepMs)"
      then show "\<exists>k. x = s + int k * stepMs"
      proof
        assume "\<exists>k. x = s + stepMs + int k * stepMs"
        then obtain k where "x = s + stepMs + int k * stepMs" ..
        then have "x = s + int (Suc k) * stepMs" by (simp add: algebra_simps)
        then show ?thesis by blast
      qed (auto intro: exI [of _ 0])
    qed
    then have eq: "(\<exists>k. x = s + int k * stepMs) \<and> x + d \<le> e \<longleftrightarrow>
        x = s \<or> (\<exists>k. x = s + stepMs + int k * stepMs) \<and> x + d \<le> e" using True by blast
    show ?thesis unfolding eq slotStarts_step [OF True] set_simps insert_iff 1 [OF True] ..
  next
    case False
    have "\<not> s + int k * stepMs + d \<le> e" for k
    proof -
      have "0 \<le> int k * stepMs" by (simp add: stepMs_value)
      with False show ?thesis by linarith
    qed
    then show ?thesis unfolding slotStarts_stop [OF False] by auto
  qed
qed

lemma slotStarts_sorted: "sorted_wrt (<) (slotStarts d e s)"
proof (induction d e s rule: slotStarts.induct)
  case (1 d e s)
  show ?case
  proof (cases "s + d \<le> e")
    case True
    have "s < y" if "y \<in> set (slotStarts d e (s + stepMs))" for y
    proof -
      from that obtain k where "y = s + stepMs + int k * stepMs" by (auto simp: slotStarts_iff)
      moreover have "0 \<le> int k * stepMs" by (simp add: stepMs_value)
      ultimately show ?thesis by (simp add: stepMs_value)
    qed
    then show ?thesis unfolding slotStarts_step [OF True] using 1 [OF True] by simp
  qed (simp add: slotStarts_stop)
qed

section \<open>Ranking and cutting\<close>

lemma set_sliceTo: "set (sliceTo n cs) \<subseteq> set cs"
  by (auto simp: sliceTo_def dest: in_set_takeD)

lemma length_sliceTo: "0 \<le> n \<Longrightarrow> length (sliceTo n cs) = min (length cs) (nat n)"
  by (simp add: sliceTo_def min.commute)

lemma sorted_sliceTo: "sorted_wrt R cs \<Longrightarrow> sorted_wrt R (sliceTo n cs)"
  by (simp add: sliceTo_def sorted_wrt_take)

lemma set_rankBy [simp]: "set (rankBy collate score start cs) = set cs"
  by (simp add: rankBy_def)

lemma length_rankBy [simp]: "length (rankBy collate score start cs) = length cs"
  by (simp add: rankBy_def)

lemma rankBy_sorted: "sorted_wrt (\<lambda>a b. score b \<le> score a) (rankBy collate score start cs)"
  unfolding rankBy_def by (rule sortDesc_sorted)

text \<open>What is cut off a ranking is no better than what stays.\<close>

lemma cut_is_worse:
  assumes "sorted_wrt R cs" and "0 \<le> n" and "x \<in> set cs" and "x \<notin> set (sliceTo n cs)" and "y \<in> set (sliceTo n cs)"
  shows "R y x" and "length (sliceTo n cs) = nat n"
proof -
  have cut: "sliceTo n cs = take (nat n) cs" using assms(2) by (simp add: sliceTo_def)
  have split: "cs = take (nat n) cs @ drop (nat n) cs" by simp
  from assms(3,4) cut have x: "x \<in> set (drop (nat n) cs)"
    by (metis Un_iff append_take_drop_id set_append)
  from assms(1) split have "sorted_wrt R (take (nat n) cs @ drop (nat n) cs)" by simp
  then have "\<forall>u \<in> set (take (nat n) cs). \<forall>v \<in> set (drop (nat n) cs). R u v"
    unfolding sorted_wrt_append by simp
  with x assms(5) cut show "R y x" by simp
  have "drop (nat n) cs \<noteq> []" using x by auto
  then show "length (sliceTo n cs) = nat n" using cut by simp
qed

section \<open>Proposals\<close>

lemma prepareRun_fields [simp]:
  "sr_durationMs (prepareRun env input a) = in_durationMinutes input * 60000"
  "sr_busy (prepareRun env input a) = map (busyRange env) (in_busyIntervals input)"
  "sr_required (prepareRun env input a) = in_requiredAccountIds input"
  "sr_constraints (prepareRun env input a) = nullish (in_constraints input) []"
  "sr_trips (prepareRun env input a) = precomputeTripRanges env (nullish (in_constraints input) [])"
  "sr_overrides (prepareRun env input a) = precomputeOverrideRanges env (nullish (in_constraints input) [])"
  "sr_enforceHours (prepareRun env input a) \<longleftrightarrow>
     ofKind asWorkingHours (nullish (in_constraints input) []) \<noteq> [] \<and>
     \<not> hasMatchingVipAfterHours (nullish (in_constraints input) []) (in_participantHashes input)"
  by (simp_all add: prepareRun_def Let_def mult.assoc)

lemma proposal_slot:
  assumes "c \<in> set (greedySolver env local collate input n)"
    and "dateParse (js_date env) (in_windowStart input) = Some a"
  obtains k slot where "slot = a + int k * stepMs" and "admissible local (prepareRun env input a) slot"
    and "c = candidateAt local (prepareRun env input a) slot"
    and "\<exists>b. dateParse (js_date env) (in_windowEnd input) = Some b \<and> slot + in_durationMinutes input * 60000 \<le> b"
proof -
  from assms(1) have "c \<in> set (allCandidates env local input)"
    unfolding greedySolver_def using set_sliceTo by fastforce
  moreover from this assms(2) obtain b where b: "dateParse (js_date env) (in_windowEnd input) = Some b"
    by (cases "dateParse (js_date env) (in_windowEnd input)") (simp_all add: allCandidates_def)
  ultimately obtain slot where slot: "slot \<in> set (slotStarts (in_durationMinutes input * 60000) b a)"
    and ok: "admissible local (prepareRun env input a) slot"
    and c: "c = candidateAt local (prepareRun env input a) slot"
    using assms(2) by (auto simp: allCandidates_def Let_def)
  from slot obtain k where "slot = a + int k * stepMs" "slot + in_durationMinutes input * 60000 \<le> b"
    unfolding slotStarts_iff by blast
  with b ok c show thesis by (intro that) blast+
qed

lemma proposals_are_best:
  assumes "0 \<le> n" and "x \<in> set (allCandidates env local input)"
    and "x \<notin> set (greedySolver env local collate input n)"
  shows "length (greedySolver env local collate input n) = nat n"
    and "\<forall>c \<in> set (greedySolver env local collate input n). sd_score x \<le> sd_score c"
proof -
  let ?ranked = "rankBy collate sd_score sd_start (allCandidates env local input)"
  note cut = cut_is_worse [OF rankBy_sorted assms(1), of x collate sd_score sd_start "allCandidates env local input"]
  from cut(1) assms show "\<forall>c \<in> set (greedySolver env local collate input n). sd_score x \<le> sd_score c"
    by (simp add: greedySolver_def)
  have "x \<in> set (drop (nat n) ?ranked)"
    using assms by (metis Un_iff append_take_drop_id greedySolver_def set_append set_rankBy sliceTo_def)
  then have "drop (nat n) ?ranked \<noteq> []" by auto
  then show "length (greedySolver env local collate input n) = nat n"
    using assms(1) by (simp add: greedySolver_def sliceTo_def)
qed

lemma proposals_ranked: "sorted_wrt (\<lambda>x y. sd_score y \<le> sd_score x) (greedySolver env local collate input n)"
  unfolding greedySolver_def by (rule sorted_sliceTo, rule rankBy_sorted)

section \<open>Working hours as the slot sees them\<close>

lemma scanWorkingHours_covered:
  "snd (scanWorkingHours local a b anyApplies whs) \<longleftrightarrow>
   (\<exists>wh \<in> set whs. appliesOn local a wh \<and> coversSlot local a b wh)"
  by (induction whs arbitrary: anyApplies) auto

lemma scanWorkingHours_applies:
  "fst (scanWorkingHours local a b anyApplies whs) \<longleftrightarrow> anyApplies \<or> (\<exists>wh \<in> set whs. appliesOn local a wh)"
  by (induction whs arbitrary: anyApplies) auto

text \<open>The specification: some constraint applies on the day of the slot and none that does covers it.\<close>

definition outsideHours :: "local_time \<Rightarrow> int \<Rightarrow> int \<Rightarrow> working_hours_config list \<Rightarrow> bool" where
  "outsideHours local a b whs \<longleftrightarrow>
     (\<exists>wh \<in> set whs. appliesOn local a wh) \<and> (\<forall>wh \<in> set whs. appliesOn local a wh \<longrightarrow> \<not> coversSlot local a b wh)"

lemma checkWorkingHoursHard_spec:
  "checkWorkingHoursHard local a b cs = OutsideHours \<longleftrightarrow> outsideHours local a b (ofKind asWorkingHours cs)"
proof -
  obtain x y where xy: "scanWorkingHours local a b False (ofKind asWorkingHours cs) = (x, y)" by force
  with scanWorkingHours_covered [of local a b False "ofKind asWorkingHours cs"]
    scanWorkingHours_applies [of local a b False "ofKind asWorkingHours cs"]
  show ?thesis by (auto simp: checkWorkingHoursHard_def outsideHours_def Let_def)
qed

text \<open>The bonus, the penalty and the hard exclusion agree on when a slot is outside.\<close>

lemma scoreWorkingHours_spec:
  "fst (scoreWorkingHours local a b cs) = WORKING_HOURS_VIOLATION \<longleftrightarrow>
   outsideHours local a b (ofKind asWorkingHours cs)"
proof -
  obtain x y where xy: "scanWorkingHours local a b False (ofKind asWorkingHours cs) = (x, y)" by force
  with scanWorkingHours_covered [of local a b False "ofKind asWorkingHours cs"]
    scanWorkingHours_applies [of local a b False "ofKind asWorkingHours cs"]
  show ?thesis
    by (auto simp: scoreWorkingHours_def outsideHours_def Let_def WORKING_HOURS_VIOLATION_def WORKING_HOURS_BONUS_def)
qed

lemma admissible_spec:
  "admissible local r x \<longleftrightarrow>
     \<not> isBlockedByTrip x (x + sr_durationMs r) (sr_trips r) \<and>
     (sr_enforceHours r \<and> outsideHours local x (x + sr_durationMs r) (ofKind asWorkingHours (sr_constraints r)) \<longrightarrow>
        isExemptedByOverride x (x + sr_durationMs r) (sr_overrides r)) \<and>
     (\<forall>busy \<in> set (sr_busy r). \<not> busyBlocks (sr_required r) x (x + sr_durationMs r) busy)"
  by (auto simp: admissible_def Let_def checkWorkingHoursHard_spec)

section \<open>The text of a slot\<close>

lemma fixedDigits_zero: "x < 1000 \<Longrightarrow> fixedDigits 3 x = ''000'' \<longleftrightarrow> x = 0"
proof -
  assume "x < 1000"
  moreover have "fixedDigits 3 0 = ''000''" by code_simp
  ultimately show ?thesis using fixedDigits_inject [of x 3 0] by auto
qed

lemma isoShort_parses:
  assumes "\<bar>ms\<bar> \<le> maxDateMs"
  shows "dateParse legacy (isoShort ms) = Some ms"
proof -
  let ?d = "isoDate (ms div msPerDay)" and ?t = "ms mod msPerDay"
  let ?front = "?d @ CHR ''T'' # isoClock ?t"
  let ?x = "nat (?t mod 1000)"
  have x: "?x < 1000" by (simp add: nat_less_iff)
  have tail: "length (CHR ''.'' # fixedDigits 3 ?x @ ''Z'') = 5" by simp
  have split: "toISOString ms = ?front @ (CHR ''.'' # fixedDigits 3 ?x @ ''Z'')" by (simp add: toISOString_def)
  have n: "length (toISOString ms) - 5 = length ?front" unfolding split using tail by simp
  have dt: "drop (length (toISOString ms) - 5) (toISOString ms) = CHR ''.'' # fixedDigits 3 ?x @ ''Z''"
    "take (length (toISOString ms) - 5) (toISOString ms) = ?front"
    unfolding n unfolding split by simp_all
  show ?thesis
  proof (cases "fixedDigits 3 ?x = ''000''")
    case True
    then have zero: "?t mod 1000 = 0" using fixedDigits_zero [OF x] by (simp add: nat_eq_iff)
    from True have short: "isoShort ms = ?d @ CHR ''T'' # isoClock ?t @ ''Z''"
      unfolding isoShort_def Let_def dt by simp
    have "readTimestamp ''T'' (isoShort ms) = Some ms"
      unfolding short using msPerDay_split [of ms] zero
      by (simp add: readTimestamp_def readDate_isoDate [OF day_bound [OF assms]]
          readClock_isoClock(2) readZone_def)
    with assms show ?thesis by (simp add: dateParse_def)
  next
    case False
    then have "CHR ''.'' # fixedDigits 3 ?x @ ''Z'' \<noteq> ''.000Z''" by auto
    then have "isoShort ms = toISOString ms" unfolding isoShort_def Let_def dt by simp
    then show ?thesis using dateParse_toISOString [OF assms] by simp
  qed
qed

end
