(* ===== verification/Proposal_Laws.thy ===== *)
theory Proposal_Laws
  imports Slot_Laws
begin

text \<open>
  The availability computation and the solver together. Merging joins overlapping busy intervals and unites their accounts, so
  every event of a required account lies in a merged interval that names the account: a proposal meets no such event.
  The converse fails for the same reason: an account is blocked for as long as the merged interval lasts.
\<close>

section \<open>What a merged interval contains\<close>

locale tagged_kind = interval_kind key start finish absorb gap gap_start gap_finish
  for key :: "'c \<Rightarrow> 'k::linorder" and start finish :: "'i \<Rightarrow> 'c" and absorb :: "'i \<Rightarrow> 'i \<Rightarrow> 'i"
    and gap :: "'c \<Rightarrow> 'c \<Rightarrow> 'g" and gap_start gap_finish :: "'g \<Rightarrow> 'c" +
  fixes tags :: "'i \<Rightarrow> 'z set"
  assumes absorb_tags: "tags (absorb a b) = tags a \<union> tags b"
    and absorb_end: "finish (absorb a b) = finish a \<or> finish (absorb a b) = finish b"
begin

definition within_tagged :: "'i \<Rightarrow> 'i \<Rightarrow> bool" where
  "within_tagged iv m \<longleftrightarrow> lo m \<le> lo iv \<and> hi iv \<le> hi m \<and> tags iv \<subseteq> tags m"

lemma sweep_contains:
  "sorted (map lo (current # rest)) \<Longrightarrow> iv \<in> set (current # rest) \<Longrightarrow>
   \<exists>m \<in> set (sweep lo hi absorb current rest). within_tagged iv m"
proof (induction rest arbitrary: current iv)
  case Nil
  then show ?case by (simp add: within_tagged_def)
next
  case (Cons n rest)
  have ord: "lo current \<le> lo n" using Cons.prems(1) by simp
  show ?case
  proof (cases "lo n \<le> hi current")
    case True
    let ?c = "absorb current n"
    have s: "sorted (map lo (?c # rest))" using Cons.prems(1) by (simp add: lo_absorb)
    have step: "sweep lo hi absorb current (n # rest) = sweep lo hi absorb ?c rest" using True by simp
    have both: "within_tagged current ?c" "within_tagged n ?c"
      using True ord by (simp_all add: within_tagged_def lo_absorb hi_absorb absorb_tags)
    show ?thesis
    proof (cases "iv \<in> set rest")
      case in_rest: True
      then have "iv \<in> set (?c # rest)" by simp
      from Cons.IH [OF s this] show ?thesis unfolding step .
    next
      case False
      then have "within_tagged iv ?c" using both Cons.prems(2) by auto
      moreover obtain m where "m \<in> set (sweep lo hi absorb ?c rest)" "within_tagged ?c m"
        using Cons.IH [OF s, of ?c] by auto
      ultimately show ?thesis unfolding step within_tagged_def by (blast intro: order_trans)
    qed
  next
    case False
    have s: "sorted (map lo (n # rest))" using Cons.prems(1) by simp
    have step: "sweep lo hi absorb current (n # rest) = current # sweep lo hi absorb n rest" using False by simp
    show ?thesis
    proof (cases "iv = current")
      case True
      then show ?thesis unfolding step by (simp add: within_tagged_def)
    next
      case other: False
      then have "iv \<in> set (n # rest)" using Cons.prems(2) by simp
      from Cons.IH [OF s this] show ?thesis unfolding step by auto
    qed
  qed
qed

lemma mergeBy_contains:
  assumes "sorted (map lo ivs)" and "iv \<in> set ivs"
  shows "\<exists>m \<in> set (mergeBy lo hi absorb ivs). within_tagged iv m"
  using assms sweep_contains by (cases ivs) (simp_all only: mergeBy_def list.case, simp)

lemma sweep_ends:
  "m \<in> set (sweep lo hi absorb current rest) \<Longrightarrow>
   start m \<in> start ` set (current # rest) \<and> finish m \<in> finish ` set (current # rest)"
proof (induction rest arbitrary: current)
  case (Cons n rest)
  show ?case
  proof (cases "lo n \<le> hi current")
    case True
    with Cons.prems have "m \<in> set (sweep lo hi absorb (absorb current n) rest)" by simp
    from Cons.IH [OF this] show ?thesis using absorb_end [of current n] by (auto simp: absorb_start)
  next
    case False
    with Cons show ?thesis by fastforce
  qed
qed simp

lemma mergeBy_ends_given:
  "m \<in> set (mergeBy lo hi absorb ivs) \<Longrightarrow> start m \<in> start ` set ivs \<and> finish m \<in> finish ` set ivs"
  using sweep_ends by (cases ivs) (simp_all only: mergeBy_def list.case, simp)

end

lemma set_addAccounts: "set (addAccounts ids new) = set ids \<union> set new"
proof -
  have "set (foldl (\<lambda>a i. if i \<in> set a then a else a @ [i]) ids new) = set ids \<union> set new"
    by (induction new arbitrary: ids) auto
  then show ?thesis by (simp add: addAccounts_def)
qed

interpretation tagged: tagged_kind normalizeForComparison bi_start bi_end absorbBusy freeInterval fi_start fi_end
  "\<lambda>iv. set (bi_account_ids iv)"
  by unfold_locales (simp_all add: absorbBusy_def set_addAccounts)

lemma merged_contains:
  assumes "agrees collate (busyLo ` set ivs)" and "iv \<in> set ivs"
  obtains m where "m \<in> set (mergeIntervals collate ivs)" and "busyLo m \<le> busyLo iv" and "busyHi iv \<le> busyHi m"
    and "set (bi_account_ids iv) \<subseteq> set (bi_account_ids m)"
    and "bi_start m \<in> bi_start ` set ivs" and "bi_end m \<in> bi_end ` set ivs"
proof -
  let ?sorted = "sort_key (\<lambda>iv. collate (busyLo iv)) ivs"
  have s: "sorted (map busyLo ?sorted)" by (rule sorted_agrees [OF assms(1)])
  have "\<exists>m \<in> set (mergeBy busyLo busyHi absorbBusy ?sorted). busyLo m \<le> busyLo iv \<and> busyHi iv \<le> busyHi m \<and>
      set (bi_account_ids iv) \<subseteq> set (bi_account_ids m)"
    using tagged.mergeBy_contains [unfolded busy_ends tagged.within_tagged_def, OF s] assms(2) by simp
  then obtain m where m: "m \<in> set (mergeBy busyLo busyHi absorbBusy ?sorted)" "busyLo m \<le> busyLo iv"
    "busyHi iv \<le> busyHi m" "set (bi_account_ids iv) \<subseteq> set (bi_account_ids m)" by blast
  have "bi_start m \<in> bi_start ` set ?sorted \<and> bi_end m \<in> bi_end ` set ?sorted"
    by (rule tagged.mergeBy_ends_given [unfolded busy_ends, OF m(1)])
  then have ends: "bi_start m \<in> bi_start ` set ivs" "bi_end m \<in> bi_end ` set ivs" by (simp_all only: set_sort)
  have "m \<in> set (mergeIntervals collate ivs)" using m(1) by (simp add: mergeIntervals_def)
  then show thesis using m(2-4) ends by (rule that)
qed

section \<open>Proposals and events\<close>

text \<open>
  A text that gives an instant in UTC to the second, or a date that gives its midnight: any spelling of the fraction and the
  zone will do, as long as the text parses to the instant, because the order of two such texts is decided before it.
\<close>

definition secondsOf :: "int \<Rightarrow> string" where
  "secondsOf a = isoDate (a div msPerDay) @ CHR ''T'' # isoClock (a mod msPerDay)"

definition stamped :: "graph_env \<Rightarrow> string \<Rightarrow> int \<Rightarrow> bool" where
  "stamped env t a \<longleftrightarrow> plainYear a \<and> \<bar>a\<bar> \<le> maxDateMs \<and> a mod 1000 = 0 \<and>
     take 19 (normalizeForComparison t) = secondsOf a \<and> dateParse (js_date env) t = Some a"

definition stampedAs :: "graph_env \<Rightarrow> busy_interval \<Rightarrow> int \<Rightarrow> int \<Rightarrow> bool" where
  "stampedAs env iv a b \<longleftrightarrow> stamped env (bi_start iv) a \<and> stamped env (bi_end iv) b"

definition allStamped :: "graph_env \<Rightarrow> busy_interval list \<Rightarrow> bool" where
  "allStamped env ivs \<longleftrightarrow> (\<forall>iv \<in> set ivs. \<exists>a b. stampedAs env iv a b)"

lemma length_secondsOf: "plainYear a \<Longrightarrow> length (secondsOf a) = 19"
  by (simp add: secondsOf_def length_isoDate_plain plainYear_def isoClock_def)

lemma toISOString_whole: "a mod 1000 = 0 \<Longrightarrow> toISOString a = secondsOf a @ ''.000Z''"
proof -
  assume "a mod 1000 = 0"
  then have "a mod msPerDay mod 1000 = 0" by (simp add: msPerDay_def mod_mod_cancel)
  moreover have "fixedDigits 3 0 = ''000''" by code_simp
  ultimately show ?thesis by (simp add: toISOString_def secondsOf_def)
qed

lemma append_less_prefix:
  "length p = length q \<Longrightarrow> (p @ x :: string) < q @ x \<Longrightarrow> p @ y < q @ z"
  by (induction p q rule: list_induct2) auto

lemma stamped_le:
  assumes t: "stamped env t a" and u: "stamped env u b" and le: "normalizeForComparison t \<le> normalizeForComparison u"
  shows "a \<le> b"
proof (rule ccontr)
  assume "\<not> a \<le> b"
  then have "toISOString b < toISOString a" using t u by (simp add: stamped_def toISOString_less_iff)
  then have "secondsOf b @ ''.000Z'' < secondsOf a @ ''.000Z''"
    using t u by (simp only: stamped_def toISOString_whole)
  then have "secondsOf b @ drop 19 (normalizeForComparison u) < secondsOf a @ drop 19 (normalizeForComparison t)"
    by (rule append_less_prefix [rotated]) (use t u in \<open>simp add: stamped_def length_secondsOf\<close>)
  then have "normalizeForComparison u < normalizeForComparison t" using t u unfolding stamped_def by (metis append_take_drop_id)
  with le show False by simp
qed

lemma merged_stamps:
  assumes collate: "agrees collate (busyLo ` set ivs)" and stamps: "allStamped env ivs"
    and iv: "iv \<in> set ivs" "stampedAs env iv a b"
  obtains m c d where "m \<in> set (mergeIntervals collate ivs)" and "set (bi_account_ids iv) \<subseteq> set (bi_account_ids m)"
    and "stampedAs env m c d" and "c \<le> a" and "b \<le> d"
proof -
  from merged_contains [OF collate iv(1)] obtain m where m: "m \<in> set (mergeIntervals collate ivs)"
    "busyLo m \<le> busyLo iv" "busyHi iv \<le> busyHi m" "set (bi_account_ids iv) \<subseteq> set (bi_account_ids m)"
    "bi_start m \<in> bi_start ` set ivs" "bi_end m \<in> bi_end ` set ivs" .
  from m(5,6) obtain u v where uv: "u \<in> set ivs" "bi_start m = bi_start u" "v \<in> set ivs" "bi_end m = bi_end v" by blast
  from stamps uv obtain c d where cd: "stamped env (bi_start m) c" "stamped env (bi_end m) d"
    unfolding allStamped_def stampedAs_def by metis
  from iv(2) have ab: "stamped env (bi_start iv) a" "stamped env (bi_end iv) b" by (simp_all add: stampedAs_def)
  have "c \<le> a" "b \<le> d" using stamped_le [OF cd(1) ab(1) m(2)] stamped_le [OF ab(2) cd(2) m(3)] by simp_all
  then show thesis using m(1,4) cd that by (simp add: stampedAs_def)
qed

lemma stamped_range: "stampedAs env m c d \<Longrightarrow> busyRange env m = (Some c, Some d, bi_account_ids m)"
  by (simp add: busyRange_def stampedAs_def stamped_def)

lemma merged_blocks:
  assumes collate: "agrees collate (busyLo ` set ivs)" and stamps: "allStamped env ivs"
    and iv: "iv \<in> set ivs" "stampedAs env iv a b" "acct \<in> set (bi_account_ids iv)" and acct: "acct \<in> set required"
    and overlap: "x < b" "a < y"
  shows "\<exists>busy \<in> busyRange env ` set (mergeIntervals collate ivs). busyBlocks required x y busy"
proof -
  from merged_stamps [OF collate stamps iv(1,2)] obtain m c d where m: "m \<in> set (mergeIntervals collate ivs)"
    "set (bi_account_ids iv) \<subseteq> set (bi_account_ids m)" "stampedAs env m c d" "c \<le> a" "b \<le> d" .
  with overlap iv(3) acct have "busyBlocks required x y (busyRange env m)"
    by (auto simp: stamped_range [OF m(3)] busyBlocks_def nanLess_def)
  with m(1) show ?thesis by blast
qed

lemma event_in_raw:
  assumes "rawIntervals env local q s = Inr raw" and "e \<in> set (canonical_events s)" and "occupies q e"
  shows "eventInterval e \<in> set raw"
  using assms by (auto simp: rawIntervals_def Let_def occupyingEvents_def map_sum_def split: sum.splits)

text \<open>
  A proposal made from the busy times of a query meets no event the query counts and a required account owns: the texts of
  the two give instants that do not overlap.
\<close>

lemma proposal_meets_no_event:
  assumes run: "computeAvailability env local collate q s = (Inr r, s')"
    and raw: "rawIntervals env local q s = Inr raw" and collate: "agrees collate (busyLo ` set raw)"
    and stamps: "allStamped env raw" and busy: "in_busyIntervals input = ar_busy_intervals r"
    and c: "c \<in> set (greedySolver env local collate' input n)"
    and e: "e \<in> set (canonical_events s)" "occupies q e" "ce_origin_account_id e \<in> set (in_requiredAccountIds input)"
    and range: "dateParse (js_date env) (in_windowStart input) = Some a" "\<bar>a\<bar> \<le> maxDateMs"
      "dateParse (js_date env) (in_windowEnd input) = Some b" "\<bar>b\<bar> \<le> maxDateMs" "0 \<le> in_durationMinutes input"
  obtains x y u v where "dateParse (js_date env) (sd_start c) = Some x" and "dateParse (js_date env) (sd_end c) = Some y"
    and "y = x + in_durationMinutes input * 60000" and "a \<le> x" and "y \<le> b"
    and "stampedAs env (eventInterval e) u v" and "y \<le> u \<or> v \<le> x"
proof -
  from proposal_slot [OF c range(1)] obtain k x where x: "x = a + int k * stepMs"
    and ok: "admissible local (prepareRun env input a) x" and cand: "c = candidateAt local (prepareRun env input a) x"
    and fits: "x + in_durationMinutes input * 60000 \<le> b" using range(3) by (metis option.inject)
  let ?y = "x + in_durationMinutes input * 60000"
  have ax: "a \<le> x" unfolding x by (simp add: stepMs_value)
  have bounds: "\<bar>x\<bar> \<le> maxDateMs" "\<bar>?y\<bar> \<le> maxDateMs" using ax fits range(2,4,5) by linarith+
  have "sd_start c = isoShort x" "sd_end c = isoShort ?y"
    unfolding cand by (simp_all add: candidateAt_def Let_def split_def)
  then have times: "dateParse (js_date env) (sd_start c) = Some x" "dateParse (js_date env) (sd_end c) = Some ?y"
    using isoShort_parses bounds by simp_all
  have e_raw: "eventInterval e \<in> set raw" by (rule event_in_raw [OF raw e(1,2)])
  from stamps e_raw obtain u v where uv: "stampedAs env (eventInterval e) u v" unfolding allStamped_def by blast
  have "?y \<le> u \<or> v \<le> x"
  proof (rule ccontr)
    assume "\<not> (?y \<le> u \<or> v \<le> x)"
    then have "x < v" "u < ?y" by simp_all
    moreover have "ce_origin_account_id e \<in> set (bi_account_ids (eventInterval e))" by (simp add: eventInterval_def)
    ultimately have "\<exists>busy \<in> busyRange env ` set (mergeIntervals collate raw).
        busyBlocks (in_requiredAccountIds input) x ?y busy"
      using merged_blocks [OF collate stamps e_raw uv _ e(3)] by blast
    moreover have "ar_busy_intervals r = mergeIntervals collate raw"
      using run raw by (auto simp: computeAvailability_def Let_def)
    ultimately show False using ok busy by (simp add: admissible_spec)
  qed
  with times ax fits uv that show thesis by blast
qed

end
