(* ===== verification/Schedule_Promises.thy ===== *)
theory Schedule_Promises
  imports Group_Laws Proposal_Laws Write_Laws
begin

text \<open>
  The promises of the schedulers as a whole: the proposals of a session against the events of the user, those of a
  group session against the busy times of every participant, what a commit books, and what becomes of a hold.
\<close>

section \<open>Proposals of a session\<close>

lemma collect_stored:
  "collect (storedCandidate site sid) cs w = (Inr out, w') \<Longrightarrow>
     map cd_start out = map sd_start cs \<and> map cd_end out = map sd_end cs"
proof (induction cs arbitrary: w out)
  case Nil
  then show ?case by (simp add: ret_run)
next
  case (Cons c cs)
  then obtain y w1 ys where y: "storedCandidate site sid c w = (Inr y, w1)"
    and ys: "collect (storedCandidate site sid) cs w1 = (Inr ys, w')" and out: "out = y # ys"
    by (auto simp: andThen_result ret_run)
  from y have "cd_start y = sd_start c" "cd_end y = sd_end c"
    by (auto simp: storedCandidate_def andThen_result ret_run)
  with Cons.IH [OF ys] out show ?case by simp
qed

lemma weigh_times [simp]: "sd_start (weigh site p g c) = sd_start c" "sd_end (weigh site p g c) = sd_end c"
  by (simp_all add: weigh_def Let_def split_def)

definition sessionQuery :: "scheduling_params \<Rightarrow> availability_query" where
  "sessionQuery p =
     \<lparr> aq_start = ps_windowStart p, aq_end = ps_windowEnd p, aq_accounts = Some (ps_requiredAccountIds p) \<rparr>"

lemma gather_availability:
  assumes "gather site p w = (Inr g, w')"
  shows "\<exists>s'. computeAvailability (st_env site) (st_local site) (st_collate site) (sessionQuery p)
    (wd_graph w (ps_userId p)) = (Inr (ga_availability g), s')"
proof -
  from assms [unfolded gather_def] obtain ra w1 where ra: "settle (gatherAvailability site (ps_userId p) (ps_windowStart p)
      (ps_windowEnd p) (ps_requiredAccountIds p)) w = (Inr ra, w1)"
    and rest: "andThen (settle (getActiveConstraints site (ps_userId p) (ps_windowStart p) (ps_windowEnd p))) (\<lambda>rc.
     andThen (getVipOverrideConstraints site (ps_userId p)) (\<lambda>vips.
     andThen (fetchHistory site (ps_userId p) (participants p)) (\<lambda>history.
     andThen (awaited ra) (\<lambda>availability.
     andThen (awaited rc) (\<lambda>cs.
     ret \<lparr> ga_availability = availability, ga_constraints = cs, ga_vips = vips, ga_history = history \<rparr>))))) w1 = (Inr g, w')"
    by (rule andThen_elim)
  from rest have "ra = Inr (ga_availability g)"
    by (auto simp: andThen_result ret_run awaited_Inr)
  with ra have "callUser site (ps_userId p) ''UserGraphDO.computeAvailability failed''
      (computeAvailability (st_env site) (st_local site) (st_collate site) (sessionQuery p)) w = (Inr (ga_availability g), w1)"
    by (simp add: settle_run gatherAvailability_def sessionQuery_def)
  from callUser_Inr [OF this] show ?thesis by metis
qed

lemma session_proposals:
  assumes run: "createSession site p w = (Inr s, w')" and none: "\<not> truthy (st_endpoint site)"
    and c: "c \<in> set (sn_candidates s)"
  obtains g s' d where "computeAvailability (st_env site) (st_local site) (st_collate site) (sessionQuery p)
      (wd_graph w (ps_userId p)) = (Inr (ga_availability g), s')"
    and "d \<in> set (greedySolver (st_env site) (st_local site) (st_collate site) (solverInput p g)
      (nullish (ps_maxCandidates p) 5))"
    and "cd_start c = sd_start d" and "cd_end c = sd_end d"
proof -
  from run [unfolded createSession_def] obtain w0 where "orThrow (validateParams (st_env site) p) () w = (Inr (), w0)"
    and 1: "andThen (newId site ''session'') (\<lambda>sessionId.
     andThen (gather site p) (\<lambda>g.
     andThen (collect (storedCandidate site sessionId) (proposals site p g)) (\<lambda>candidates.
     andThen (storeSession site p sessionId candidates (nowIso (st_env site))) (\<lambda>_.
     andThen (if candidates \<noteq> [] \<and> ps_holdTimeoutMs p \<noteq> Some 0
              then createHolds site p sessionId candidates else ret []) (\<lambda>holds.
     ret \<lparr> sn_sessionId = sessionId,
           sn_status = (if candidates \<noteq> [] then ''candidates_ready'' else ''open''), sn_params = p,
           sn_candidates = candidates, sn_holds = holds, sn_createdAt = nowIso (st_env site) \<rparr>))))) w0 = (Inr s, w')"
    by (rule andThen_elim) simp
  then have w0: "w0 = w" by (auto simp: orThrow_def ret_run throw_run split: option.splits)
  from 1 obtain sid w1 where id: "newId site ''session'' w0 = (Inr sid, w1)"
    and 2: "andThen (gather site p) (\<lambda>g.
     andThen (collect (storedCandidate site sid) (proposals site p g)) (\<lambda>candidates.
     andThen (storeSession site p sid candidates (nowIso (st_env site))) (\<lambda>_.
     andThen (if candidates \<noteq> [] \<and> ps_holdTimeoutMs p \<noteq> Some 0
              then createHolds site p sid candidates else ret []) (\<lambda>holds.
     ret \<lparr> sn_sessionId = sid,
           sn_status = (if candidates \<noteq> [] then ''candidates_ready'' else ''open''), sn_params = p,
           sn_candidates = candidates, sn_holds = holds, sn_createdAt = nowIso (st_env site) \<rparr>)))) w1 = (Inr s, w')"
    by (rule andThen_elim)
  from 2 obtain g w2 where g: "gather site p w1 = (Inr g, w2)"
    and 3: "andThen (collect (storedCandidate site sid) (proposals site p g)) (\<lambda>candidates.
     andThen (storeSession site p sid candidates (nowIso (st_env site))) (\<lambda>_.
     andThen (if candidates \<noteq> [] \<and> ps_holdTimeoutMs p \<noteq> Some 0
              then createHolds site p sid candidates else ret []) (\<lambda>holds.
     ret \<lparr> sn_sessionId = sid,
           sn_status = (if candidates \<noteq> [] then ''candidates_ready'' else ''open''), sn_params = p,
           sn_candidates = candidates, sn_holds = holds, sn_createdAt = nowIso (st_env site) \<rparr>))) w2 = (Inr s, w')"
    by (rule andThen_elim)
  from 3 obtain cs w3 where cs: "collect (storedCandidate site sid) (proposals site p g) w2 = (Inr cs, w3)"
    and 4: "andThen (storeSession site p sid cs (nowIso (st_env site))) (\<lambda>_.
     andThen (if cs \<noteq> [] \<and> ps_holdTimeoutMs p \<noteq> Some 0 then createHolds site p sid cs else ret []) (\<lambda>holds.
     ret \<lparr> sn_sessionId = sid, sn_status = (if cs \<noteq> [] then ''candidates_ready'' else ''open''), sn_params = p,
           sn_candidates = cs, sn_holds = holds, sn_createdAt = nowIso (st_env site) \<rparr>)) w3 = (Inr s, w')"
    by (rule andThen_elim)
  from 4 have "sn_candidates s = cs" by (auto simp: andThen_result ret_run)
  with c obtain i where i: "i < length cs" "c = cs ! i" by (auto simp: in_set_conv_nth)
  note times = collect_stored [OF cs]
  then have len: "length (proposals site p g) = length cs" by (metis length_map)
  let ?d = "proposals site p g ! i"
  have d: "cd_start c = sd_start ?d" "cd_end c = sd_end ?d"
    using times i len by (metis nth_map)+
  have "?d \<in> set (proposals site p g)" using i len by simp
  moreover have "\<not> truthy (st_endpoint (solver_site.truncate site))" using none by (simp add: solver_site.truncate_def)
  ultimately obtain d' where d': "d' \<in> set (greedySolver (st_env site) (st_local site) (st_collate site) (solverInput p g)
      (nullish (ps_maxCandidates p) 5))" and "?d = weigh site p g d'"
    by (auto simp: proposals_def runSolverWithFallback_def solveGreedy_def solver_site.truncate_def)
  then have "cd_start c = sd_start d'" "cd_end c = sd_end d'" using d by simp_all
  moreover have "wd_graph w1 = wd_graph w" using id w0 by (auto simp: newId_def)
  with gather_availability [OF g] obtain s' where "computeAvailability (st_env site) (st_local site) (st_collate site)
      (sessionQuery p) (wd_graph w (ps_userId p)) = (Inr (ga_availability g), s')" by auto
  ultimately show thesis using d' by (intro that)
qed

text \<open>The event and the proposal, as instants, do not overlap.\<close>

definition apart :: "graph_env \<Rightarrow> string \<Rightarrow> string \<Rightarrow> event_row \<Rightarrow> bool" where
  "apart env a b e \<longleftrightarrow>
     (\<exists>x y u v. dateParse (js_date env) a = Some x \<and> dateParse (js_date env) b = Some y \<and>
        dateParse (js_date env) (ce_start_ts e) = Some u \<and> dateParse (js_date env) (ce_end_ts e) = Some v \<and>
        (y \<le> u \<or> v \<le> x))"

lemma stamped_apart:
  "stampedAs env (eventInterval e) u v \<Longrightarrow> dateParse (js_date env) a = Some x \<Longrightarrow> dateParse (js_date env) b = Some y \<Longrightarrow>
   y \<le> u \<or> v \<le> x \<Longrightarrow> apart env a b e"
  unfolding apart_def stampedAs_def stamped_def eventInterval_def by auto

lemma session_avoids_events:
  assumes run: "createSession site p w = (Inr s, w')" and none: "\<not> truthy (st_endpoint site)"
    and c: "c \<in> set (sn_candidates s)"
    and raw: "rawIntervals (st_env site) (st_local site) (sessionQuery p) (wd_graph w (ps_userId p)) = Inr raw"
    and collate: "agrees (st_collate site) (busyLo ` set raw)" and stamps: "allStamped (st_env site) raw"
    and range: "dateParse (js_date (st_env site)) (ps_windowStart p) = Some a" "\<bar>a\<bar> \<le> maxDateMs"
      "dateParse (js_date (st_env site)) (ps_windowEnd p) = Some b" "\<bar>b\<bar> \<le> maxDateMs"
    and e: "e \<in> set (canonical_events (wd_graph w (ps_userId p)))" "occupies (sessionQuery p) e"
      "ce_origin_account_id e \<in> set (ps_requiredAccountIds p)"
  shows "apart (st_env site) (cd_start c) (cd_end c) e"
proof -
  have "validateParams (st_env site) p = None"
    using run by (auto simp: createSession_def orThrow_def andThen_result throw_run split: option.splits)
  then have dur: "0 \<le> ps_durationMinutes p" by (auto simp: validateParams_def split: if_splits)
  from session_proposals [OF run none c] obtain g s' d where
    avail: "computeAvailability (st_env site) (st_local site) (st_collate site) (sessionQuery p)
      (wd_graph w (ps_userId p)) = (Inr (ga_availability g), s')"
    and d: "d \<in> set (greedySolver (st_env site) (st_local site) (st_collate site) (solverInput p g)
      (nullish (ps_maxCandidates p) 5))"
    and times: "cd_start c = sd_start d" "cd_end c = sd_end d" .
  have input: "in_busyIntervals (solverInput p g) = ar_busy_intervals (ga_availability g)"
    "in_requiredAccountIds (solverInput p g) = ps_requiredAccountIds p"
    "dateParse (js_date (st_env site)) (in_windowStart (solverInput p g)) = Some a"
    "dateParse (js_date (st_env site)) (in_windowEnd (solverInput p g)) = Some b"
    "in_durationMinutes (solverInput p g) = ps_durationMinutes p"
    using range by (simp_all add: solverInput_def)
  from proposal_meets_no_event [OF avail raw collate stamps input(1) d e(1,2) _ input(3) range(2) input(4) range(4)]
    e(3) dur input(2,5) obtain x y u v where "dateParse (js_date (st_env site)) (sd_start d) = Some x"
    "dateParse (js_date (st_env site)) (sd_end d) = Some y" "stampedAs (st_env site) (eventInterval e) u v" "y \<le> u \<or> v \<le> x"
    by metis
  then show ?thesis unfolding times by (metis stamped_apart)
qed

end
