(* ===== verification/Group_Slots.thy ===== *)
theory Group_Slots
  imports Schedule_Promises
begin

text \<open>
  The slots of a group session. The busy times of each participant are merged once by the availability computation, on texts,
  and once by the group scheduler, on milliseconds: the loop is the one of the availability with another key, so the
  laws of merging give that a slot meets no busy interval, and no event, of any participant.
\<close>

section \<open>The second merge\<close>

definition timeOf :: "graph_env \<Rightarrow> string \<Rightarrow> int" where
  "timeOf env t = nullish (msOf env t) 0"

definition absorbTexts :: "graph_env \<Rightarrow> string \<times> string \<Rightarrow> string \<times> string \<Rightarrow> string \<times> string" where
  "absorbTexts env a b = (fst a, if timeOf env (snd a) < timeOf env (snd b) then snd b else snd a)"

interpretation texts: tagged_kind "timeOf env" fst snd "absorbTexts env" Pair fst snd "\<lambda>_. {} :: unit set" for env
  by unfold_locales (auto simp: absorbTexts_def)

definition textsOf :: "busy_interval \<Rightarrow> string \<times> string" where
  "textsOf b = (bi_start b, bi_end b)"

definition dated :: "graph_env \<Rightarrow> string \<times> string \<Rightarrow> bool" where
  "dated env p \<longleftrightarrow> msOf env (fst p) \<noteq> None \<and> msOf env (snd p) \<noteq> None"

lemma sweepMs_sweep:
  "dated env cur \<Longrightarrow> \<forall>b \<in> set bs. dated env (textsOf b) \<Longrightarrow>
   sweepMs env cur bs =
     sweep (texts.lo env) (texts.hi env) (absorbTexts env) cur (map textsOf bs)"
proof (induction bs arbitrary: cur)
  case (Cons b bs)
  from Cons.prems obtain x y u v where d: "msOf env (fst cur) = Some x" "msOf env (snd cur) = Some y"
    "msOf env (bi_start b) = Some u" "msOf env (bi_end b) = Some v"
    by (auto simp: dated_def textsOf_def)
  have key: "texts.lo env (textsOf b) = u" "texts.hi env cur = y"
    using d by (simp_all add: texts.lo_def texts.hi_def timeOf_def textsOf_def)
  have absorb: "absorbTexts env cur (textsOf b) = (fst cur, if y < v then bi_end b else snd cur)"
    using d by (simp add: absorbTexts_def timeOf_def textsOf_def)
  have "dated env (absorbTexts env cur (textsOf b))" "dated env (textsOf b)"
    unfolding absorb using d by (simp_all add: dated_def textsOf_def)
  note steps = Cons.IH [OF this(1)] Cons.IH [OF this(2)]
  have code: "sweepMs env cur (b # bs) =
      (if u \<le> y then sweepMs env (absorbTexts env cur (textsOf b)) bs else cur # sweepMs env (textsOf b) bs)"
    unfolding absorb using d by (simp add: nanLe_def nanLess_def textsOf_def)
  show ?case using steps Cons.prems(2) unfolding code by (simp add: key)
qed simp

lemma mergeOverlapping_mergeBy:
  assumes "\<forall>b \<in> set ivs. dated env (textsOf b)"
  shows "mergeOverlapping env ivs = mergeBy (texts.lo env) (texts.hi env) (absorbTexts env)
    (map textsOf (sort_key (\<lambda>b. timeOf env (bi_start b)) ivs))"
proof -
  let ?sorted = "sort_key (\<lambda>b. timeOf env (bi_start b)) ivs"
  have all: "\<forall>b \<in> set ?sorted. dated env (textsOf b)" using assms by simp
  show ?thesis
  proof (cases ?sorted)
    case Nil
    then show ?thesis by (simp add: mergeOverlapping_def mergeBy_def timeOf_def)
  next
    case (Cons b bs)
    with all have "dated env (textsOf b)" "\<forall>b \<in> set bs. dated env (textsOf b)" by simp_all
    from sweepMs_sweep [OF this] Cons show ?thesis
      by (simp add: mergeOverlapping_def mergeBy_def timeOf_def textsOf_def)
  qed
qed

lemma mergeOverlapping_contains:
  assumes dates: "\<forall>b \<in> set ivs. dated env (textsOf b)" and iv: "iv \<in> set ivs"
  obtains m where "m \<in> set (mergeOverlapping env ivs)" and "timeOf env (fst m) \<le> timeOf env (bi_start iv)"
    and "timeOf env (bi_end iv) \<le> timeOf env (snd m)" and "dated env m"
proof -
  let ?sorted = "map textsOf (sort_key (\<lambda>b. timeOf env (bi_start b)) ivs)"
  have lo: "map (texts.lo env) ?sorted = map (\<lambda>b. timeOf env (bi_start b)) (sort_key (\<lambda>b. timeOf env (bi_start b)) ivs)"
    by (simp add: texts.lo_def textsOf_def)
  have s: "sorted (map (texts.lo env) ?sorted)" unfolding lo by simp
  have "textsOf iv \<in> set ?sorted" using iv by simp
  from texts.mergeBy_contains [OF s this] obtain m where
    m: "m \<in> set (mergeBy (texts.lo env) (texts.hi env) (absorbTexts env) ?sorted)" "texts.within_tagged env (textsOf iv) m"
    by blast
  from texts.mergeBy_ends_given [OF m(1)] have "fst m \<in> bi_start ` set ivs" "snd m \<in> bi_end ` set ivs"
    by (auto simp: textsOf_def)
  with dates have "dated env m" by (auto simp: dated_def textsOf_def)
  moreover have "timeOf env (fst m) \<le> timeOf env (bi_start iv)" "timeOf env (bi_end iv) \<le> timeOf env (snd m)"
    using m(2) by (simp_all add: texts.within_tagged_def texts.lo_def texts.hi_def textsOf_def)
  ultimately show thesis using m(1) mergeOverlapping_mergeBy [OF dates] that by simp
qed

section \<open>A slot meets no busy interval\<close>

definition slotTimes :: "graph_env \<Rightarrow> string \<Rightarrow> string \<Rightarrow> int \<Rightarrow> int \<Rightarrow> bool" where
  "slotTimes env a b x y \<longleftrightarrow> dateParse (js_date env) a = Some x \<and> dateParse (js_date env) b = Some y"

lemma group_slot_free:
  assumes c: "c \<in> set (groupProposals site p uas)" and ua: "ua \<in> set uas" "ua_userId ua \<in> set (gp_participantUserIds p)"
    and iv: "iv \<in> set (ua_busyIntervals ua)"
    and dates: "\<forall>b \<in> set (ua_busyIntervals ua). dated (st_env site) (textsOf b)"
    and range: "dateParse (js_date (st_env site)) (gp_windowStart p) = Some a" "\<bar>a\<bar> \<le> maxDateMs"
      "dateParse (js_date (st_env site)) (gp_windowEnd p) = Some b" "\<bar>b\<bar> \<le> maxDateMs" "0 \<le> gp_durationMinutes p"
  obtains x y where "slotTimes (st_env site) (sd_start c) (sd_end c) x y" and "y = x + gp_durationMinutes p * 60000"
    and "a \<le> x" and "y \<le> b"
    and "y \<le> timeOf (st_env site) (bi_start iv) \<or> timeOf (st_env site) (bi_end iv) \<le> x"
proof -
  let ?env = "st_env site"
  let ?input = "groupSolverInput ?env p uas"
  have start: "dateParse (js_date ?env) (in_windowStart ?input) = Some a" using range(1) by (simp add: groupSolverInput_def)
  from proposal_slot [OF c [unfolded groupProposals_def] start] obtain k x where x: "x = a + int k * stepMs"
    and ok: "admissible (st_local site) (prepareRun ?env ?input a) x"
    and cand: "c = candidateAt (st_local site) (prepareRun ?env ?input a) x"
    and fits: "x + gp_durationMinutes p * 60000 \<le> b"
    using range(3) by (metis groupSolverInput_def option.inject solver_input.select_convs(2,3))
  let ?y = "x + gp_durationMinutes p * 60000"
  have dur: "sr_durationMs (prepareRun ?env ?input a) = gp_durationMinutes p * 60000"
    by (simp add: prepareRun_def Let_def groupSolverInput_def)
  have ax: "a \<le> x" unfolding x by (simp add: stepMs_value)
  have bounds: "\<bar>x\<bar> \<le> maxDateMs" "\<bar>?y\<bar> \<le> maxDateMs" using ax fits range(2,4,5) by linarith+
  have "sd_start c = isoShort x" "sd_end c = isoShort ?y"
    unfolding cand using dur by (simp_all add: candidateAt_def Let_def split_def)
  then have times: "slotTimes ?env (sd_start c) (sd_end c) x ?y" using isoShort_parses bounds by (simp add: slotTimes_def)
  from mergeOverlapping_contains [OF dates iv] obtain m where m: "m \<in> set (mergeOverlapping ?env (ua_busyIntervals ua))"
    "timeOf ?env (fst m) \<le> timeOf ?env (bi_start iv)" "timeOf ?env (bi_end iv) \<le> timeOf ?env (snd m)" "dated ?env m" .
  let ?busy = "\<lparr> bi_start = fst m, bi_end = snd m, bi_account_ids = [groupAccount (ua_userId ua)] \<rparr>"
  have busy: "?busy \<in> set (mergeBusyIntervals ?env uas)"
    using ua(1) m(1) by (force simp: mergeBusyIntervals_def)
  then have "busyRange ?env ?busy \<in> set (sr_busy (prepareRun ?env ?input a))"
    by (simp add: prepareRun_def Let_def groupSolverInput_def)
  with ok have "\<not> busyBlocks (sr_required (prepareRun ?env ?input a)) x (x + sr_durationMs (prepareRun ?env ?input a))
      (busyRange ?env ?busy)" unfolding admissible_spec by blast
  moreover have "groupAccount (ua_userId ua) \<in> set (sr_required (prepareRun ?env ?input a))"
    using ua(2) by (simp add: prepareRun_def Let_def groupSolverInput_def buildGroupAccountIds_def)
  ultimately have "?y \<le> timeOf ?env (fst m) \<or> timeOf ?env (snd m) \<le> x"
    using m(4) by (auto simp: groupSolverInput_def busyBlocks_def busyRange_def dated_def timeOf_def msOf_def nanLess_def)
  then have "?y \<le> timeOf ?env (bi_start iv) \<or> timeOf ?env (bi_end iv) \<le> x" using m(2,3) by linarith
  with times ax fits that show thesis by blast
qed

section \<open>A session meets no event\<close>

text \<open>The gathering of a group reads each graph and changes none.\<close>

definition groupQuery :: "group_params \<Rightarrow> availability_query" where
  "groupQuery p = \<lparr> aq_start = gp_windowStart p, aq_end = gp_windowEnd p, aq_accounts = Some [] \<rparr>"

definition busyTimes :: "sched_site \<Rightarrow> group_params \<Rightarrow> (string \<Rightarrow> user_graph) \<Rightarrow> string \<Rightarrow> user_availability \<Rightarrow> bool" where
  "busyTimes site p graphs user ua \<longleftrightarrow>
     ua_userId ua = user \<and>
     (\<exists>raw. rawIntervals (st_env site) (st_local site) (groupQuery p) (graphs user) = Inr raw \<and>
            ua_busyIntervals ua = mergeIntervals (st_collate site) raw)"

lemma gather_user:
  assumes "gatherUserAvailability site (gp_windowStart p) (gp_windowEnd p) user w = (r, w')"
  shows "wd_graph w' = wd_graph w" and "r = Inr ua \<Longrightarrow> busyTimes site p (wd_graph w) user ua"
proof -
  have q: "\<lparr> aq_start = gp_windowStart p, aq_end = gp_windowEnd p, aq_accounts = Some [] \<rparr> = groupQuery p"
    by (simp add: groupQuery_def)
  show "wd_graph w' = wd_graph w" and "r = Inr ua \<Longrightarrow> busyTimes site p (wd_graph w) user ua"
    using assms unfolding gatherUserAvailability_def q
    by (auto simp: andThen_def callUser_def fetchFrom_def computeAvailability_def Let_def ret_run throw_run countCall_def
        busyTimes_def split: sum.splits rpc_fate.splits)
qed

lemma gather_settled:
  "collect (\<lambda>user. settle (gatherUserAvailability site (gp_windowStart p) (gp_windowEnd p) user)) users w = (Inr rs, w') \<Longrightarrow>
   collect awaited rs v = (Inr uas, v') \<Longrightarrow>
   list_all2 (busyTimes site p (wd_graph w)) users uas"
proof (induction users arbitrary: w rs v uas)
  case Nil
  then show ?case by (simp add: ret_run)
next
  case (Cons user users)
  obtain r w1 where r: "gatherUserAvailability site (gp_windowStart p) (gp_windowEnd p) user w = (r, w1)" by force
  with Cons.prems(1) obtain ys where ys: "collect (\<lambda>user. settle (gatherUserAvailability site (gp_windowStart p)
      (gp_windowEnd p) user)) users w1 = (Inr ys, w')" and rs: "rs = r # ys"
    by (auto simp: andThen_result settle_run ret_run)
  from Cons.prems(2) rs obtain ua uas' v1 where "r = Inr ua" "collect awaited ys v1 = (Inr uas', v')" "uas = ua # uas'"
    by (auto simp: andThen_result awaited_Inr ret_run)
  with Cons.IH [OF ys] gather_user [OF r] show ?case by simp
qed

lemma gather_all:
  assumes "gatherAllAvailability site users (gp_windowStart p) (gp_windowEnd p) w = (Inr uas, w')"
  shows "list_all2 (busyTimes site p (wd_graph w)) users uas"
proof -
  from assms [unfolded gatherAllAvailability_def promiseAll_def] obtain rs v where
    "collect (\<lambda>user. settle (gatherUserAvailability site (gp_windowStart p) (gp_windowEnd p) user)) users w = (Inr rs, v)"
    and "collect awaited rs v = (Inr uas, w')" by (rule andThen_elim)
  then show ?thesis by (rule gather_settled)
qed

lemma group_session_proposals:
  assumes run: "createGroupSession site p w = (Inr s, w')" and c: "c \<in> set (gs_candidates s)"
  obtains uas d where "list_all2 (busyTimes site p (wd_graph w)) (gp_participantUserIds p) uas"
    and "d \<in> set (groupProposals site p uas)" and "cd_start c = sd_start d" and "cd_end c = sd_end d"
proof -
  from run obtain sid w1 uas w2 cs w3 where id: "newId site ''session'' w = (Inr sid, w1)"
    and uas: "gatherAllAvailability site (gp_participantUserIds p) (gp_windowStart p) (gp_windowEnd p) w1 = (Inr uas, w2)"
    and cs: "collect (storedCandidate site sid) (groupProposals site p uas) w2 = (Inr cs, w3)" and "gs_candidates s = cs"
    unfolding createGroupSession_def Let_def
    apply (elim andThen_elim)
    apply (auto simp: orThrow_def ret_run throw_run split: option.splits)
    done
  with c obtain i where i: "i < length cs" "c = cs ! i" by (auto simp: in_set_conv_nth)
  note times = collect_stored [OF cs]
  then have len: "length (groupProposals site p uas) = length cs" by (metis length_map)
  let ?d = "groupProposals site p uas ! i"
  have "cd_start c = sd_start ?d" "cd_end c = sd_end ?d"
    using times i len by (metis nth_map)+
  moreover have "?d \<in> set (groupProposals site p uas)" using i len by simp
  moreover have "wd_graph w1 = wd_graph w" using id by (auto simp: newId_def)
  ultimately show thesis using gather_all [OF uas] that by simp
qed

lemma merged_ends:
  assumes "m \<in> set (mergeIntervals collate ivs)"
  shows "bi_start m \<in> bi_start ` set ivs \<and> bi_end m \<in> bi_end ` set ivs"
proof -
  let ?sorted = "sort_key (\<lambda>iv. collate (busyLo iv)) ivs"
  from assms have "m \<in> set (mergeBy busyLo busyHi absorbBusy ?sorted)" by (simp add: mergeIntervals_def)
  from tagged.mergeBy_ends_given [unfolded busy_ends, OF this] show ?thesis by simp
qed

lemma stamped_time: "stamped env t a \<Longrightarrow> timeOf env t = a \<and> msOf env t = Some a"
  by (simp add: timeOf_def msOf_def stamped_def)

lemma merged_dated:
  assumes "allStamped env ivs"
  shows "\<forall>b \<in> set (mergeIntervals collate ivs). dated env (textsOf b)"
proof
  fix m assume "m \<in> set (mergeIntervals collate ivs)"
  from merged_ends [OF this] obtain u v where uv: "u \<in> set ivs" "bi_start m = bi_start u" "v \<in> set ivs" "bi_end m = bi_end v"
    by blast
  with assms obtain x y where "stamped env (bi_start m) x" "stamped env (bi_end m) y"
    unfolding allStamped_def stampedAs_def by metis
  then show "dated env (textsOf m)" by (simp add: dated_def textsOf_def stamped_time)
qed

lemma group_avoids_events:
  assumes run: "createGroupSession site p w = (Inr s, w')" and c: "c \<in> set (gs_candidates s)"
    and user: "user \<in> set (gp_participantUserIds p)"
    and raw: "rawIntervals (st_env site) (st_local site) (groupQuery p) (wd_graph w user) = Inr raw"
    and collate: "agrees (st_collate site) (busyLo ` set raw)" and stamps: "allStamped (st_env site) raw"
    and range: "dateParse (js_date (st_env site)) (gp_windowStart p) = Some a" "\<bar>a\<bar> \<le> maxDateMs"
      "dateParse (js_date (st_env site)) (gp_windowEnd p) = Some b" "\<bar>b\<bar> \<le> maxDateMs"
    and e: "e \<in> set (canonical_events (wd_graph w user))" "occupies (groupQuery p) e"
  shows "apart (st_env site) (cd_start c) (cd_end c) e"
proof -
  have "validateGroupParams (st_env site) p = None"
    using run by (auto simp: createGroupSession_def orThrow_def andThen_result throw_run split: option.splits)
  then have dur: "0 \<le> gp_durationMinutes p" by (auto simp: validateGroupParams_def split: if_splits)
  from group_session_proposals [OF run c] obtain uas d where
    uas: "list_all2 (busyTimes site p (wd_graph w)) (gp_participantUserIds p) uas"
    and d: "d \<in> set (groupProposals site p uas)" "cd_start c = sd_start d" "cd_end c = sd_end d" .
  from uas user obtain ua where ua: "ua \<in> set uas" "busyTimes site p (wd_graph w) user ua"
    by (metis in_set_conv_nth list_all2_conv_all_nth)
  then have ivs: "ua_userId ua = user" "ua_busyIntervals ua = mergeIntervals (st_collate site) raw"
    using raw by (simp_all add: busyTimes_def)
  have e_raw: "eventInterval e \<in> set raw" by (rule event_in_raw [OF raw e])
  from stamps e_raw obtain u v where uv: "stampedAs (st_env site) (eventInterval e) u v" unfolding allStamped_def by blast
  from merged_stamps [OF collate stamps e_raw uv] obtain m c' d' where m: "m \<in> set (ua_busyIntervals ua)"
    "stampedAs (st_env site) m c' d'" "c' \<le> u" "v \<le> d'" unfolding ivs .
  then have md: "timeOf (st_env site) (bi_start m) = c'" "timeOf (st_env site) (bi_end m) = d'"
    by (simp_all add: stampedAs_def stamped_time)
  have dates: "\<forall>b \<in> set (ua_busyIntervals ua). dated (st_env site) (textsOf b)"
    unfolding ivs by (rule merged_dated [OF stamps])
  have "ua_userId ua \<in> set (gp_participantUserIds p)" using user ivs(1) by simp
  from group_slot_free [OF d(1) ua(1) this m(1) dates range dur] obtain x y where
    "slotTimes (st_env site) (sd_start d) (sd_end d) x y"
    "y \<le> timeOf (st_env site) (bi_start m) \<or> timeOf (st_env site) (bi_end m) \<le> x" .
  with md m(3,4) have "slotTimes (st_env site) (cd_start c) (cd_end c) x y" "y \<le> u \<or> v \<le> x"
    unfolding d(2,3) by auto
  then show ?thesis using stamped_apart [OF uv] unfolding slotTimes_def by blast
qed

end
