(* ===== verification/Commit_Laws.thy ===== *)
theory Commit_Laws
  imports Schedule_Promises
begin

text \<open>
  Committing a candidate of one user: the meeting is in the graph, the session is committed, none of its holds is
  still held, and a second commit is refused. And the holds: the write consumer skips the message of a hold.
\<close>

section \<open>Holds only leave the state held\<close>

definition heldShrinks :: "user_graph \<Rightarrow> user_graph \<Rightarrow> bool" where
  "heldShrinks s t \<longleftrightarrow>
     (\<forall>h \<in> set (schedule_holds t). sh_status h = ''held'' \<longrightarrow> h \<in> set (schedule_holds s))"

interpretation held: graph_contract heldShrinks
  by unfold_locales (auto simp: heldShrinks_def)

named_theorems held_stays \<open>methods that make no hold held\<close>

lemma held_same: "stays sameSchedule m \<Longrightarrow> stays heldShrinks m"
  by (simp add: stays_def sameSchedule_def heldShrinks_def)

lemma held_release: "heldShrinks s (s\<lparr> schedule_holds :=
    updateRows P (\<lambda>h. h\<lparr> sh_status := ''released'' \<rparr>) (schedule_holds s) \<rparr>)"
  by (auto simp: heldShrinks_def set_updateRows)

lemma held_methods [held_stays]:
  "stays heldShrinks (releaseSessionHolds sid)" "stays heldShrinks (setSessionStatus sid st)"
  "stays heldShrinks (commitSchedulingSession sid cid e)"
proof -
  show "stays heldShrinks (releaseSessionHolds sid)"
    unfolding releaseSessionHolds_def by (intro held.stays_modify held_release)
  show "stays heldShrinks (setSessionStatus sid st)"
    by (simp add: stays_def setSessionStatus_def heldShrinks_def)
  have m: "stays heldShrinks (modify (\<lambda>s. s\<lparr> schedule_sessions := f s \<rparr>))" for f
    by (simp add: stays_def heldShrinks_def)
  show "stays heldShrinks (commitSchedulingSession sid cid e)"
    unfolding commitSchedulingSession_def by (intro held.stays_rules m)
qed

lemma held_get [held_stays]: "stays heldShrinks (getSchedulingSession env sid)"
  unfolding getSchedulingSession_def Let_def split_def by (intro held.stays_rules held_stays)

lemma held_history [held_stays]: "stays heldShrinks (recordSchedulingHistory env entries)"
proof -
  have i: "stays heldShrinks (insertHistoryRow h)" "stays heldShrinks (freshId env entity)" for h entity
    by (simp_all add: stays_def insertHistoryRow_def freshId_def heldShrinks_def)
  show ?thesis unfolding recordSchedulingHistory_def split_def by (intro held.stays_rules i)
qed

lemma history_same [schedule_stays]:
  "stays sameEvents (recordSchedulingHistory env entries)" "stays sameSchedule (recordSchedulingHistory env entries)"
proof -
  have i: "stays sameEvents (insertHistoryRow h)" "stays sameSchedule (insertHistoryRow h)" for h
    by (simp_all add: stays_def insertHistoryRow_def sameEvents_def sameSchedule_def)
  show "stays sameEvents (recordSchedulingHistory env entries)"
    unfolding recordSchedulingHistory_def split_def by (intro evts.stays_rules i schedule_stays)
  show "stays sameSchedule (recordSchedulingHistory env entries)"
    unfolding recordSchedulingHistory_def split_def by (intro sched.stays_rules i schedule_stays)
qed

definition noneHeld :: "string \<Rightarrow> user_graph \<Rightarrow> bool" where
  "noneHeld sid s \<longleftrightarrow> (\<forall>h \<in> set (schedule_holds s). sh_session_id h = sid \<longrightarrow> sh_status h \<noteq> ''held'')"

lemma noneHeld_stays: "heldShrinks s t \<Longrightarrow> noneHeld sid s \<Longrightarrow> noneHeld sid t"
  by (auto simp: heldShrinks_def noneHeld_def)

lemma noneHeld_everywhere:
  "everywhere heldShrinks v w \<Longrightarrow> noneHeld sid (wd_graph v user) \<Longrightarrow> noneHeld sid (wd_graph w user)"
  by (rule noneHeld_stays [of "wd_graph v user"]) (simp_all add: everywhere_def)

lemma releaseHolds_none:
  assumes "releaseHolds site user sid w = (Inr (), w')"
  shows "noneHeld sid (wd_graph w' user)"
proof -
  from assms [unfolded releaseHolds_def] obtain holds w1 where
    1: "(let deletes = List.map_filter buildHoldDeleteMessage (filter (\<lambda>h. sh_status h = ''held'') holds) in
     andThen (if deletes = [] then ret () else sendBatch site deletes) (\<lambda>_.
     callUser site user ''UserGraphDO.releaseSessionHolds failed'' (releaseSessionHolds sid))) w1 = (Inr (), w')"
    by (rule andThen_elim)
  from 1 obtain u w2 where "callUser site user ''UserGraphDO.releaseSessionHolds failed'' (releaseSessionHolds sid) w2
      = (Inr (), w')" unfolding Let_def by (rule andThen_elim)
  from callUser_Inr [OF this] obtain g where "releaseSessionHolds sid (wd_graph w2 user) = (Inr (), g)"
    and g: "wd_graph w' = (wd_graph w2)(user := g)" .
  then have holds: "schedule_holds g = updateRows (\<lambda>h. sh_session_id h = sid \<and> sh_status h = ''held'')
      (\<lambda>h. h\<lparr> sh_status := ''released'' \<rparr>) (schedule_holds (wd_graph w2 user))"
    by (auto simp: releaseSessionHolds_def)
  have "sh_status h \<noteq> ''held''" if "h \<in> set (schedule_holds g)" "sh_session_id h = sid" for h
  proof -
    from that(1) obtain x where "h = (if sh_session_id x = sid \<and> sh_status x = ''held''
        then x\<lparr> sh_status := ''released'' \<rparr> else x)" unfolding holds set_updateRows by (rule imageE)
    with that(2) show ?thesis by (cases "sh_session_id x = sid \<and> sh_status x = ''held''") auto
  qed
  then show ?thesis by (simp add: noneHeld_def g)
qed

section \<open>Calls of the workflow\<close>

lemma stays_run: "stays P m \<Longrightarrow> m s = (r, t) \<Longrightarrow> P s t"
  by (metis snd_conv staysD)

lemma workflow_stays [session_stays]:
  "stays (everywhere sessionContract) (getSession site user sid)"
  "stays (everywhere sessionContract) (releaseHolds site user sid)"
  "stays (everywhere sessionContract) (upsertEvent site user e)"
  unfolding getSession_def releaseHolds_def upsertEvent_def fetchHolds_def getHoldsBySession_def Let_def
  by (intro close.call_rules sess.stays_query session_stays stays_weaken [OF same_upsert sameSchedule_contract])+

lemma workflow_closes [session_stays]:
  "stays (everywhere sessionContract) (commitSession site user sid cid eid)"
  "stays (everywhere sessionContract) (recordHistory site user outcomes)"
  unfolding commitSession_def recordHistory_def
  by (intro close.call_rules session_stays stays_weaken [OF history_same(2) sameSchedule_contract])+

lemma workflow_after [meeting_stays]:
  "stays (everywhere (meetingsStay c)) (getSession site user sid)"
  "stays (everywhere (meetingsStay c)) (commitSession site user sid cid eid)"
  "stays (everywhere (meetingsStay c)) (recordHistory site user outcomes)"
  unfolding getSession_def commitSession_def recordHistory_def
  by (intro meet.call_rules meetings_by_events schedule_stays)+

lemma workflow_held [held_stays]:
  "stays (everywhere heldShrinks) (getSession site user sid)"
  "stays (everywhere heldShrinks) (commitSession site user sid cid eid)"
  "stays (everywhere heldShrinks) (recordHistory site user outcomes)"
  "stays (everywhere heldShrinks) (upsertEvent site user e)"
  unfolding getSession_def commitSession_def recordHistory_def upsertEvent_def
  by (intro held.call_rules held_stays held_same schedule_stays)+

section \<open>Committing a candidate\<close>

lemma commit_steps:
  assumes "commitCandidate site user sid cid w = (Inr (eid, view), w')"
  obtains session w1 c w2 w3 acct w4 w5 outcomes w6 where
    "getSession site user sid w = (Inr session, w1)" and "committable ''Session'' sid cid session = Inr c"
    and "releaseHolds site user sid w1 = (Inr (), w2)" and "newId site ''event'' w2 = (Inr eid, w3)"
    and "upsertEvent site user (meetingEvent eid acct (''scheduled_'' @ sid) (strField (sv_params session) ''title'') c) w3
      = (Inr (), w4)"
    and "commitSession site user sid cid eid w4 = (Inr (), w5)"
    and "recordHistory site user outcomes w5 = (Inr (), w6)" and "getSession site user sid w6 = (Inr view, w')"
proof -
  from assms show thesis
    unfolding commitCandidate_def
    apply (elim andThen_elim)
    apply (simp only: awaited_Inr Let_def)
    apply (elim andThen_elim conjE)
    apply (simp only: ret_run prod.inject sum.inject)
    by (metis that old.unit.exhaust)
qed

lemma commit_books:
  assumes run: "commitCandidate site user sid cid w = (Inr (eid, view), w')" and ok: "worldOk w"
  shows "\<exists>c. chosenCandidate sid cid (wd_graph w user) c \<and> hasMeeting c eid (wd_graph w' user)"
    and "sessionCommitted sid (wd_graph w' user)" and "noneHeld sid (wd_graph w' user)" and "worldOk w'"
proof -
  from commit_steps [OF run] obtain session w1 c w2 w3 acct w4 w5 outcomes w6 where
    s1: "getSession site user sid w = (Inr session, w1)" and s2: "committable ''Session'' sid cid session = Inr c"
    and s3: "releaseHolds site user sid w1 = (Inr (), w2)" and s4: "newId site ''event'' w2 = (Inr eid, w3)"
    and s5: "upsertEvent site user (meetingEvent eid acct (''scheduled_'' @ sid) (strField (sv_params session) ''title'') c) w3
      = (Inr (), w4)"
    and s6: "commitSession site user sid cid eid w4 = (Inr (), w5)"
    and s7: "recordHistory site user outcomes w5 = (Inr (), w6)" and s8: "getSession site user sid w6 = (Inr view, w')" .
  from s4 have eid: "eid \<noteq> []" and g3: "wd_graph w3 = wd_graph w2" by (auto simp: newId_def)
  from s5 obtain x where "callUser site user ''UserGraphDO.upsertCanonicalEvent failed'' (upsertCanonicalEvent (st_env site)
      (meetingEvent eid acct (''scheduled_'' @ sid) (strField (sv_params session) ''title'') c) ''system'') w3 = (Inr x, w4)"
    unfolding upsertEvent_def by (rule andThen_elim) (simp add: ret_run)
  from callUser_Inr [OF this] obtain g4 where up: "upsertCanonicalEvent (st_env site)
      (meetingEvent eid acct (''scheduled_'' @ sid) (strField (sv_params session) ''title'') c) ''system''
      (wd_graph w3 user) = (Inr x, g4)" and g4: "wd_graph w4 = (wd_graph w3)(user := g4)" .
  have booked: "hasMeeting c eid (wd_graph w4 user)" using upsert_books [OF up eid] g4 by simp
  from s6 have "callUser site user ''UserGraphDO.commitSchedulingSession failed'' (commitSchedulingSession sid cid eid) w4
      = (Inr (), w5)" by (simp add: commitSession_def)
  from callUser_Inr [OF this] obtain g5 where "commitSchedulingSession sid cid eid (wd_graph w4 user) = (Inr (), g5)"
    and "wd_graph w5 = (wd_graph w4)(user := g5)" .
  with commit_marks have closed: "sessionCommitted sid (wd_graph w5 user)" by simp
  have con1: "everywhere sessionContract w w1" by (rule stays_run [OF workflow_stays(1) s1])
  have con2: "everywhere sessionContract w1 w2" by (rule stays_run [OF workflow_stays(2) s3])
  have con3: "everywhere sessionContract w3 w4" by (rule stays_run [OF workflow_stays(3) s5])
  have con4: "everywhere sessionContract w4 w5" by (rule stays_run [OF workflow_closes(1) s6])
  have con5: "everywhere sessionContract w5 w6" by (rule stays_run [OF workflow_closes(2) s7])
  have con6: "everywhere sessionContract w6 w'" by (rule stays_run [OF workflow_stays(1) s8])
  note con = con1 con2 con3 con4 con5 con6
  have ok3: "worldOk w3" using committed_stays(1) [OF con(2) committed_stays(1) [OF con(1) ok]] g3 by (simp add: worldOk_def)
  note ok5 = committed_stays(1) [OF con(4) committed_stays(1) [OF con(3) ok3]]
  note ok6 = committed_stays(1) [OF con(5) ok5]
  show "worldOk w'" by (rule committed_stays(1) [OF con(6) ok6])
  show "sessionCommitted sid (wd_graph w' user)"
    by (rule committed_stays(2) [OF con(6) ok6 committed_stays(2) [OF con(5) ok5 closed]])
  have "everywhere (meetingsStay c) w4 w5" by (rule stays_run [OF workflow_after(2) s6])
  moreover have "everywhere (meetingsStay c) w5 w6" by (rule stays_run [OF workflow_after(3) s7])
  moreover have "everywhere (meetingsStay c) w6 w'" by (rule stays_run [OF workflow_after(1) s8])
  ultimately have "hasMeeting c eid (wd_graph w' user)" using booked unfolding everywhere_def meetingsStay_def by blast
  moreover from callUser_Inr [OF s1 [unfolded getSession_def]] obtain g where
    "getSchedulingSession (st_env site) sid (wd_graph w user) = (Inr session, g)" .
  then have "chosenCandidate sid cid (wd_graph w user) c"
    using committable_chosen [OF _ s2] ok by (simp add: worldOk_def)
  ultimately show "\<exists>c. chosenCandidate sid cid (wd_graph w user) c \<and> hasMeeting c eid (wd_graph w' user)" by blast
  have h1: "everywhere heldShrinks w3 w4" by (rule stays_run [OF workflow_held(4) s5])
  have h2: "everywhere heldShrinks w4 w5" by (rule stays_run [OF workflow_held(2) s6])
  have h3: "everywhere heldShrinks w5 w6" by (rule stays_run [OF workflow_held(3) s7])
  have h4: "everywhere heldShrinks w6 w'" by (rule stays_run [OF workflow_held(1) s8])
  have "noneHeld sid (wd_graph w3 user)" using releaseHolds_none [OF s3] g3 by simp
  then show "noneHeld sid (wd_graph w' user)"
    by (rule noneHeld_everywhere [OF h4 noneHeld_everywhere [OF h3 noneHeld_everywhere [OF h2 noneHeld_everywhere [OF h1]]]])
qed

text \<open>A session that is committed reads as committed, so another commit is refused before it changes anything.\<close>

lemma committed_reads:
  assumes "sessions_ok s" and "sessionCommitted sid s"
  obtains v where "getSchedulingSession env sid s = (Inr v, s)" and "sv_status v = ''committed''"
proof -
  from assms(2) obtain r where r: "r \<in> set (schedule_sessions s)" "ss_session_id r = sid" "ss_status r = ''committed''"
    unfolding sessionCommitted_def by blast
  have rows: "sessionRows sid s = [r]"
    using assms(1) distinct_key_filter [of ss_session_id "schedule_sessions s" r] r(1,2)
    by (simp add: sessions_ok_def sessionRows_def)
  have "\<not> active r" using r(3) by (simp add: active_def)
  then have "\<exists>v. getSchedulingSession env sid s = (Inr v, s) \<and> sv_status v = ''committed''"
    using rows r(3) by (simp add: getSchedulingSession_def ret_run split_def Let_def)
  with that show thesis by blast
qed

lemma second_commit_refused:
  assumes "sessions_ok (wd_graph w user)" and "sessionCommitted sid (wd_graph w user)"
    and "st_fate site (wd_calls w) = Delivered"
  obtains w' where "commitCandidate site user sid cid w = (Inl (Thrown (''Session '' @ sid @ '' is already committed'')), w')"
    and "wd_graph w' = wd_graph w" and "wd_queue w' = wd_queue w"
proof -
  from committed_reads [OF assms(1,2)] obtain v where v: "getSchedulingSession (st_env site) sid (wd_graph w user) = (Inr v, wd_graph w user)"
    "sv_status v = ''committed''" .
  let ?w = "(countCall w)\<lparr> wd_graph := (wd_graph w)(user := wd_graph w user) \<rparr>"
  have "getSession site user sid w = (Inr v, ?w)"
    unfolding getSession_def using callUser_delivered [of site w "getSchedulingSession (st_env site) sid" user v] assms(3) v(1)
    by simp
  then have "commitCandidate site user sid cid w = (Inl (Thrown (''Session '' @ sid @ '' is already committed'')), ?w)"
    using v(2) by (simp add: commitCandidate_def andThen_def committable_def awaited_def throw_run)
  then show thesis by (rule that) (simp_all add: countCall_def)
qed

section \<open>What becomes of a hold\<close>

lemma callObject_read:
  assumes "callObject we user name (query f) w = (r, w')"
  shows "wo_graph w' = wo_graph w" and "wo_provider w' = wo_provider w" and "r = Inr x \<Longrightarrow> x = f (wo_graph w user)"
  using assms by (auto simp: callObject_def Let_def split: rpc_fate.splits)

definition untouched :: "'p world \<Rightarrow> 'p world \<Rightarrow> bool" where
  "untouched w w' \<longleftrightarrow> wo_graph w' = wo_graph w \<and> wo_provider w' = wo_provider w"

lemma cache_without_mirror:
  assumes "createCachedMirrorStore we user (UPSERT_MIRROR m) None w = (r, w')"
    and "mirrorRows (um_canonical_event_id m) (um_target_account_id m) (wo_graph w user) = []"
  shows "untouched w w'" and "r = Inr ch \<Longrightarrow> ch_event ch = um_canonical_event_id m \<and> ch_target ch = um_target_account_id m \<and>
    ch_mirror ch = None \<and> ch_pending ch = []"
proof -
  let ?get = "callObject we user ''getMirror'' (getMirror (um_canonical_event_id m) (um_target_account_id m))"
  let ?busy = "callObject we user ''getBusyOverlayCalendar'' (getBusyOverlayCalendar (um_target_account_id m))"
  obtain r1 w1 where g: "?get w = (r1, w1)" by force
  note read1 = callObject_read [OF g [unfolded getMirror_def]]
  obtain r2 w2 where b: "?busy w1 = (r2, w2)" by force
  note read2 = callObject_read [OF b [unfolded getBusyOverlayCalendar_def]]
  have run: "createCachedMirrorStore we user (UPSERT_MIRROR m) None w =
      (case r1 of Inl e \<Rightarrow> (Inl e, w1) | Inr mirror \<Rightarrow> (case r2 of Inl e \<Rightarrow> (Inl e, w2) | Inr busy \<Rightarrow>
        (Inr \<lparr> ch_event = um_canonical_event_id m, ch_target = um_target_account_id m, ch_mirror = mirror,
               ch_busy = busy, ch_pending = [] \<rparr>, w2)))"
    by (simp add: createCachedMirrorStore_def Let_def andThen_def g b ret_run split: sum.split)
  have "mirror = None" if "r1 = Inr mirror" for mirror using read1(3) [OF that] assms(2) by simp
  with run assms(1) read1(1,2) read2(1,2) show "untouched w w'"
    and "r = Inr ch \<Longrightarrow> ch_event ch = um_canonical_event_id m \<and> ch_target ch = um_target_account_id m \<and>
      ch_mirror ch = None \<and> ch_pending ch = []"
    by (auto simp: untouched_def split: sum.splits)
qed

lemma deliver_without_mirror:
  assumes "mirrorRows (um_canonical_event_id m) (um_target_account_id m) (wo_graph w user) = []"
  shows "untouched w (snd (deliver env we user client (UPSERT_MIRROR m) None w))"
proof -
  obtain r w1 where c: "createCachedMirrorStore we user (UPSERT_MIRROR m) None w = (r, w1)" by force
  note cache = cache_without_mirror [OF c assms]
  show ?thesis
  proof (cases r)
    case (Inl e)
    then show ?thesis using cache(1) by (simp add: deliver_def andThen_def c)
  next
    case (Inr ch)
    note fields = cache(2) [OF Inr]
    have "processMessage env cachedStore client (UPSERT_MIRROR m) (ch, wo_provider w1) =
        (Inr (completed Skipped), (ch, wo_provider w1))"
      using fields by (simp add: processMessage_def handleUpsert_def readStore_def cachedStore_def cacheGetMirror_def ret_run)
    then have "runConsumer env client (UPSERT_MIRROR m) ch w1 = (Inr (completed Skipped, ch), w1)"
      by (simp add: runConsumer_def)
    then show ?thesis using cache(1) fields Inr
      by (simp add: deliver_def andThen_def c flush_def ret_run)
  qed
qed

lemma untouched_trans: "untouched u v \<Longrightarrow> untouched v w \<Longrightarrow> untouched u w"
  by (simp add: untouched_def)

lemma handle_without_mirror:
  assumes "mirrorRows (um_canonical_event_id m) (um_target_account_id m) (wo_graph w user) = []"
  shows "untouched w (snd (handleQueued env we user client (UPSERT_MIRROR m) w))"
proof -
  obtain r w1 where g: "callObject we user ''getMirror'' (getMirror (um_canonical_event_id m) (um_target_account_id m)) w = (r, w1)"
    by force
  note rd = callObject_read [OF g [unfolded getMirror_def]]
  have u: "untouched w w1" using rd(1,2) by (simp add: untouched_def)
  show ?thesis
  proof (cases r)
    case (Inl e)
    then show ?thesis using u by (simp add: handleQueued_def andThen_def g)
  next
    case (Inr row)
    then have none: "row = None" using rd(3) assms by simp
    have "untouched w1 (snd (deliver env we user client (UPSERT_MIRROR m) None w1))"
      by (rule deliver_without_mirror) (use assms rd(1) in simp)
    then show ?thesis using Inr none untouched_trans [OF u] by (simp add: handleQueued_def andThen_def g)
  qed
qed

lemma process_without_mirror:
  assumes "\<And>user. mirrorRows (um_canonical_event_id m) (um_target_account_id m) (wo_graph w user) = []"
  shows "untouched w (snd (processQueued we clients env (UPSERT_MIRROR m) w))"
proof -
  have catch: "snd (tryCatch f (\<lambda>_. ret Retry) w) = snd (f w)" for f
    by (simp add: tryCatch_def ret_run split: prod.split sum.split)
  have google: "untouched w (snd (andThen (throttleGoogleAccountWrites env t) (\<lambda>env'.
      handleQueued env' we user client (UPSERT_MIRROR m)) w))" for t user client
  proof -
    obtain env' w1 where t: "throttleGoogleAccountWrites env t w = (Inr env', w1)" and u: "untouched w w1"
      by (simp add: throttleGoogleAccountWrites_def Let_def untouched_def)
    from u assms have "untouched w1 (snd (handleQueued env' we user client (UPSERT_MIRROR m) w1))"
      by (intro handle_without_mirror) (simp add: untouched_def)
    then show ?thesis using untouched_trans [OF u] by (simp add: andThen_def t)
  qed
  have self: "untouched w w" by (simp add: untouched_def)
  show ?thesis
    unfolding processQueued_def catch
    using handle_without_mirror [OF assms] google self
    by (auto simp: throw_run ret_run split: sum.split option.split)
qed

lemma hold_made:
  assumes "holdFor site p sid (c, acct) w = (Inr (h, m), w')"
  obtains um where "m = UPSERT_MIRROR um" and "um_canonical_event_id um = ''hold_'' @ sh_hold_id h"
    and "um_target_account_id um = acct" and "sh_provider_event_id h = None" and "sh_status h = ''held''"
    and "sh_account_id h = acct" and "sh_session_id h = sid"
  using assms
  by (auto simp: holdFor_def andThen_result ret_run drawHold_def createHoldRecord_def buildHoldUpsertMessage_def Let_def
      map_sum_def split: sum.splits if_splits)

lemma hold_unwritten:
  assumes made: "holdFor site p sid (c, acct) w = (Inr (h, m), w')"
    and ok: "\<And>user. mirrors_ok (wo_graph v user)" "\<And>user. ''hold_'' @ sh_hold_id h \<notin> eventIds (wo_graph v user)"
  shows "wo_graph (snd (processQueued we clients env m v)) = wo_graph v"
    and "wo_provider (snd (processQueued we clients env m v)) = wo_provider v"
    and "buildHoldDeleteMessage h = None"
proof -
  from hold_made [OF made] obtain um where um: "m = UPSERT_MIRROR um" "um_canonical_event_id um = ''hold_'' @ sh_hold_id h"
    "um_target_account_id um = acct" "sh_provider_event_id h = None" .
  have "mirrorRows (um_canonical_event_id um) (um_target_account_id um) (wo_graph v user) = []" for user
  proof -
    have "em_canonical_event_id x \<in> eventIds (wo_graph v user)" if "x \<in> set (event_mirrors (wo_graph v user))" for x
      using ok(1) [of user] that unfolding mirrors_ok_def by blast
    then have "em_canonical_event_id x \<noteq> um_canonical_event_id um" if "x \<in> set (event_mirrors (wo_graph v user))" for x
      using ok(2) [of user] that unfolding um(2) [symmetric] by metis
    then show ?thesis unfolding mirrorRows_def filter_empty_conv by simp
  qed
  from process_without_mirror [OF this, of we clients env] um(1)
  show "wo_graph (snd (processQueued we clients env m v)) = wo_graph v"
    "wo_provider (snd (processQueued we clients env m v)) = wo_provider v" by (simp_all add: untouched_def)
  show "buildHoldDeleteMessage h = None" using um(4) by (simp add: buildHoldDeleteMessage_def)
qed

end
