(* ===== verification/Group_Silence.thy ===== *)
theory Group_Silence
  imports Commit_Laws
begin

text \<open>
  The meeting a group commit books is filed under the made-up account of the session. Mirrors follow the policy edges that
  leave the account of an event, and none leaves that one: the meeting is in every graph and in no calendar.
\<close>

definition quietFrom :: "string \<Rightarrow> user_graph \<Rightarrow> user_graph \<Rightarrow> bool" where
  "quietFrom acct s t \<longleftrightarrow> policy_edges t = policy_edges s \<and>
     (edgesFrom acct s = [] \<longrightarrow>
        event_mirrors t = event_mirrors s \<and> write_queue t = write_queue s \<and> delete_queue t = delete_queue s)"

interpretation quiet: graph_contract "quietFrom acct" for acct
  by unfold_locales (simp_all add: quietFrom_def edgesFrom_def)

named_theorems quiet_stays \<open>methods that write to no calendar when no edge leaves the account\<close>

lemma quiet_statements [quiet_stays]:
  "stays (quietFrom acct) (freshId env entity)" "stays (quietFrom acct) (insertEventRow r)"
  "stays (quietFrom acct) (updateEventRow cid f)" "stays (quietFrom acct) (insertJournalRow j)"
  "stays (quietFrom acct) (setSessionStatus sid st)" "stays (quietFrom acct) (releaseSessionHolds sid)"
  by (rule staysI, simp add: freshId_def insertEventRow_def updateEventRow_def insertJournalRow_def setSessionStatus_def
      releaseSessionHolds_def quietFrom_def)+

lemma quiet_journal [quiet_stays]: "stays (quietFrom acct) (writeJournal env cid ct actor p reason)"
  unfolding writeJournal_def by (intro quiet.stays_rules quiet_stays)

definition sameEdges :: "user_graph \<Rightarrow> user_graph \<Rightarrow> bool" where
  "sameEdges s t \<longleftrightarrow> policy_edges t = policy_edges s"

interpretation edges: state_contract sameEdges
  by unfold_locales (simp_all add: sameEdges_def)

lemma edges_projection: "stays sameEdges (projectAndEnqueue env cid acct opts)"
proof -
  have "stays sameEdges (insertMirrorRow m)" "stays sameEdges (updateMirrorRows Q g)" "stays sameEdges (sendWrite env ms)"
    "stays sameEdges (sendDelete env ms)"
    for m Q g env ms
    by (rule staysI, simp add: insertMirrorRow_def updateMirrorRows_def sendWrite_def sendDelete_def sameEdges_def)+
  then show ?thesis
    unfolding projectAndEnqueue_def projectEdge_def enqueueUpsertMirror_def Let_def by (intro edges.stays_rules)
qed

lemma quiet_projection [quiet_stays]: "stays (quietFrom acct) (projectAndEnqueue env cid acct opts)"
proof (rule staysI)
  fix s
  have "policy_edges (snd (projectAndEnqueue env cid acct opts s)) = policy_edges s"
    using staysD [OF edges_projection, of s] by (simp add: sameEdges_def)
  moreover have "snd (projectAndEnqueue env cid acct opts s) = s" if "edgesFrom acct s = []"
    using that by (simp add: projectAndEnqueue_def andThen_def ret_run Let_def split: list.split)
  ultimately show "quietFrom acct s (snd (projectAndEnqueue env cid acct opts s))" by (simp add: quietFrom_def)
qed

lemma quiet_upsert:
  assumes "ui_origin_account_id e = Some acct" and "acct \<noteq> []"
  shows "stays (quietFrom acct) (upsertCanonicalEvent env e source)"
proof -
  have acct: "orFalsy (ui_origin_account_id e) ''api'' = acct" using assms by simp
  show ?thesis unfolding upsertCanonicalEvent_def Let_def acct by (intro quiet.stays_rules quiet_stays)
qed

lemma quiet_sessions [quiet_stays]:
  "stays (quietFrom acct) (getSchedulingSession env sid)" "stays (quietFrom acct) (commitSchedulingSession sid cid eid)"
  "stays (quietFrom acct) (cancelSchedulingSession sid)"
proof -
  show "stays (quietFrom acct) (getSchedulingSession env sid)"
    unfolding getSchedulingSession_def Let_def split_def by (intro quiet.stays_rules quiet_stays)
  have m: "stays (quietFrom acct) (modify (\<lambda>s. s\<lparr> schedule_sessions := f s \<rparr>))" for f
    by (simp add: stays_def quietFrom_def)
  show "stays (quietFrom acct) (commitSchedulingSession sid cid eid)"
    unfolding commitSchedulingSession_def by (intro quiet.stays_rules m)
  show "stays (quietFrom acct) (cancelSchedulingSession sid)"
    unfolding cancelSchedulingSession_def by (intro quiet.stays_rules quiet_stays)
qed

section \<open>The commit of a group\<close>

lemma quiet_events [quiet_stays]:
  "stays (everywhere (quietFrom (''group_'' @ sid))) (createEvents site (groupEvent sid session c) users)"
proof (induction users)
  case Nil
  then show ?case by (simp add: quiet.world.stays_ret)
next
  case (Cons u users)
  have e: "stays (quietFrom (''group_'' @ sid)) (upsertCanonicalEvent env (groupEvent sid session c eid) source)" for env eid source
    by (rule quiet_upsert) (simp_all add: groupEvent_def meetingEvent_def)
  show ?case
    unfolding createEvents.simps upsertEventInUserDO_def split_def
    by (intro quiet.call_rules Cons.IH e)
qed

lemma quiet_group:
  "stays (everywhere (quietFrom (''group_'' @ sid))) (commitGroupSession site sid cid user)"
  unfolding commitGroupSession_def registrationFor_def fetchSessionFromUserDO_def rollback_def markCommitted_def
    cancelSessionInUserDO_def commitSessionInUserDO_def getSessionFromD1_def updateSessionStatusInD1_def split_def
  by (intro quiet.call_rules quiet_stays)

definition sameQueue :: "sched_world \<Rightarrow> sched_world \<Rightarrow> bool" where
  "sameQueue w w' \<longleftrightarrow> wd_queue w' = wd_queue w"

interpretation queue: state_contract sameQueue
  by unfold_locales (simp_all add: sameQueue_def)

lemma queue_calls:
  "stays sameQueue (fetchFrom site user m)" "stays sameQueue (newId site entity)" "stays sameQueue (d1 site f)"
proof -
  show "stays sameQueue (fetchFrom site user m)"
    by (rule staysI) (simp add: fetchFrom_def Let_def countCall_def sameQueue_def split: prod.split rpc_fate.split)
  show "stays sameQueue (newId site entity)" "stays sameQueue (d1 site f)"
    by (rule staysI, simp add: newId_def d1_def Let_def countCall_def sameQueue_def split: prod.split rpc_fate.split)+
qed

lemmas queue_rules = queue.stays_rules queue.stays_settle queue.stays_awaited queue.stays_case_sum queue_calls

lemma queue_events: "stays sameQueue (createEvents site event users)"
proof (induction users)
  case (Cons u users)
  show ?case
    unfolding createEvents.simps upsertEventInUserDO_def callUser_def split_def by (intro queue_rules Cons.IH)
qed (simp add: queue.stays_ret)

lemma queue_group: "stays sameQueue (commitGroupSession site sid cid user)"
  unfolding commitGroupSession_def registrationFor_def fetchSessionFromUserDO_def rollback_def markCommitted_def callUser_def
    cancelSessionInUserDO_def commitSessionInUserDO_def getSessionFromD1_def updateSessionStatusInD1_def split_def
  by (intro queue_rules queue_events)

lemma group_meeting_unmirrored:
  assumes none: "\<And>u. edgesFrom (''group_'' @ sid) (wd_graph w u) = []" and w': "w' = snd (commitGroupSession site sid cid user w)"
  shows "wd_queue w' = wd_queue w" and "event_mirrors (wd_graph w' u) = event_mirrors (wd_graph w u)"
    and "write_queue (wd_graph w' u) = write_queue (wd_graph w u)"
proof -
  obtain r where run: "commitGroupSession site sid cid user w = (r, w')" using w' by (cases "commitGroupSession site sid cid user w") simp
  show "wd_queue w' = wd_queue w" using stays_run [OF queue_group run] by (simp add: sameQueue_def)
  have "quietFrom (''group_'' @ sid) (wd_graph w u) (wd_graph w' u)" for u
    using stays_run [OF quiet_group run] unfolding everywhere_def by blast
  with none show "event_mirrors (wd_graph w' u) = event_mirrors (wd_graph w u)"
    "write_queue (wd_graph w' u) = write_queue (wd_graph w u)" unfolding quietFrom_def by blast+
qed

end
