(* ===== verification/Score_Laws.thy ===== *)
theory Score_Laws
  imports Scheduling_Scores
begin

text \<open>
  The fairness adjustment: within its bounds whatever the history holds, and never better for the participant whose
  preferred times were chosen more often.
\<close>

lemma clamp_bounds: "1 / 2 \<le> clampAdjustment raw" "clampAdjustment raw \<le> 3 / 2"
  by (simp_all add: clampAdjustment_def MIN_FAIRNESS_ADJUSTMENT_def MAX_FAIRNESS_ADJUSTMENT_def)

lemma clamp_mono: "x \<le> y \<Longrightarrow> clampAdjustment x \<le> clampAdjustment y"
  unfolding clampAdjustment_def by (intro max.mono min.mono) simp_all

definition roundedRate :: "rat \<Rightarrow> rat" where
  "roundedRate raw = of_int (jsRound (clampAdjustment raw * 100)) / 100"

lemma roundedRate_mono: "x \<le> y \<Longrightarrow> roundedRate x \<le> roundedRate y"
  unfolding roundedRate_def
  by (intro divide_right_mono of_int_le_iff [THEN iffD2] jsRound_mono mult_right_mono clamp_mono) simp_all

lemma roundedRate_bounds: "1 / 2 \<le> roundedRate raw" "roundedRate raw \<le> 3 / 2"
proof -
  have "jsRound (of_int 50) \<le> jsRound (clampAdjustment raw * 100)" "jsRound (clampAdjustment raw * 100) \<le> jsRound (of_int 150)"
    using clamp_bounds [of raw] by (auto intro!: jsRound_mono)
  then have "50 \<le> jsRound (clampAdjustment raw * 100)" "jsRound (clampAdjustment raw * 100) \<le> 150"
    by (simp_all only: jsRound_int)
  then have "(50 :: rat) \<le> of_int (jsRound (clampAdjustment raw * 100))" "of_int (jsRound (clampAdjustment raw * 100)) \<le> (150 :: rat)"
    by linarith+
  then show "1 / 2 \<le> roundedRate raw" "roundedRate raw \<le> 3 / 2" by (simp_all add: roundedRate_def)
qed

lemma fairness_value:
  "fst (computeFairnessScore shown history target) =
     (if length history \<le> 1 \<or> \<not> truthy target \<or> countedEntries history = [] then 1
      else case filter (\<lambda>h. ph_participant_hash h = the target) history of
             [] \<Rightarrow> 1 | h # _ \<Rightarrow> roundedRate (1 - (preferenceRate h - averageRate history)))"
  by (cases history) (auto simp: computeFairnessScore_def roundedRate_def Let_def split: list.splits)

lemma fairness_in_bounds:
  "1 / 2 \<le> fst (computeFairnessScore shown history target) \<and> fst (computeFairnessScore shown history target) \<le> 3 / 2"
  using roundedRate_bounds by (auto simp: fairness_value split: list.split)

lemma fairness_of_entry:
  assumes "distinct (map ph_participant_hash history)" and "h \<in> set history"
  shows "filter (\<lambda>x. ph_participant_hash x = ph_participant_hash h) history = [h]"
  using assms
proof (induction history)
  case (Cons x xs)
  then show ?case by (cases "x = h") (auto simp: filter_empty_conv image_iff)
qed simp

lemma fairness_order:
  assumes hist: "distinct (map ph_participant_hash history)" and two: "x \<in> set history" "y \<in> set history"
    and less: "preferenceRate x \<le> preferenceRate y"
    and named: "ph_participant_hash x \<noteq> []" "ph_participant_hash y \<noteq> []"
  shows "fst (computeFairnessScore shown history (Some (ph_participant_hash y)))
    \<le> fst (computeFairnessScore shown history (Some (ph_participant_hash x)))"
  using less named fairness_of_entry [OF hist two(1)] fairness_of_entry [OF hist two(2)]
  by (auto simp: fairness_value truthy.simps intro!: roundedRate_mono)

end
