(* ===== verification/Schedule_Samples.thy ===== *)
theory Schedule_Samples
  imports Group_Slots Group_Silence Score_Laws Sample_Calls Write_Samples
begin

text \<open>
  The schedulers on the concrete store: a site on which every call arrives, a request for half an hour on a morning with one
  event, the session it makes, and a group of two users.
\<close>

definition sampleSite :: "(nat \<Rightarrow> rpc_fate) \<Rightarrow> sched_site" where
  "sampleSite fate =
     \<lparr> st_env = sampleEnv, st_local = utcClock, st_collate = (\<lambda>x. x), st_endpoint = None,
       st_http = (\<lambda>_ _. No_Response ''''), st_shown = (\<lambda>_. ''''), st_fate = fate, st_ulid = showNat \<rparr>"

abbreviation sureSite :: sched_site where
  "sureSite \<equiv> sampleSite (\<lambda>_. Delivered)"

definition schedWorld :: "(string \<Rightarrow> user_graph) \<Rightarrow> sched_world" where
  "schedWorld graphs = \<lparr> wd_graph = graphs, wd_queue = [], wd_registry = [], wd_calls = 0, wd_ids = 0 \<rparr>"

text \<open>Monday 16 June 2025: an event from nine to ten, and a request for half an hour between nine and half past ten.\<close>

abbreviation nine :: int where "nine \<equiv> 1750064400000"

abbreviation ten :: int where "ten \<equiv> 1750068000000"

abbreviation halfPastTen :: int where "halfPastTen \<equiv> 1750069800000"

lemma sample_plain [simp]: "plainYear nine" "plainYear ten" "plainYear halfPastTen"
  by (simp_all add: plainYear_def msPerDay_def yearFromDay_def dayFromYear_def Let_def)

lemma sample_dates [simp]:
  "dateParse legacy (toISOString nine) = Some nine" "dateParse legacy (toISOString ten) = Some ten"
  "dateParse legacy (toISOString halfPastTen) = Some halfPastTen"
  by (simp_all add: dateParse_toISOString maxDateMs_def)

lemma sample_order [simp]:
  "toISOString nine < toISOString ten" "toISOString nine < toISOString halfPastTen"
  "toISOString ten < toISOString halfPastTen"
  by (simp_all add: toISOString_less_iff)

lemma sample_texts [simp]: "toISOString t \<noteq> []"
  by (simp add: toISOString_def)

lemma stamped_toISOString:
  assumes "plainYear a" and "\<bar>a\<bar> \<le> maxDateMs" and "a mod 1000 = 0"
  shows "stamped env (toISOString a) a"
proof -
  have "take 19 (toISOString a) = secondsOf a"
    unfolding toISOString_whole [OF assms(3)] using length_secondsOf [OF assms(1)] by simp
  then show ?thesis using assms by (simp add: stamped_def normalize_printed dateParse_toISOString)
qed

definition bookedEvent :: event_row where
  "bookedEvent = sampleEvent\<lparr> ce_start_ts := toISOString nine, ce_end_ts := toISOString ten \<rparr>"

definition bookedGraph :: user_graph where
  "bookedGraph = sampleGraph\<lparr> canonical_events := [bookedEvent] \<rparr>"

definition sampleParams :: scheduling_params where
  "sampleParams =
     \<lparr> ps_userId = ''user_1'', ps_title = ''Review'', ps_durationMinutes = 30,
       ps_windowStart = toISOString nine, ps_windowEnd = toISOString halfPastTen,
       ps_requiredAccountIds = [''acc_a''], ps_maxCandidates = None, ps_holdTimeoutMs = Some 0,
       ps_targetCalendarId = None, ps_participantHashes = None \<rparr>"

definition sampleBusy :: busy_interval where
  "sampleBusy = \<lparr> bi_start = toISOString nine, bi_end = toISOString ten, bi_account_ids = [''acc_a''] \<rparr>"

lemma bookedEvent_fields [simp]:
  "ce_start_ts bookedEvent = toISOString nine" "ce_end_ts bookedEvent = toISOString ten"
  "ce_origin_account_id bookedEvent = ''acc_a''" "ce_transparency bookedEvent = ''opaque''"
  "ce_status bookedEvent = ''confirmed''"
  by (simp_all add: bookedEvent_def sampleEvent_def newEventRow_def samplePayload_def)

lemma bookedGraph_fields [simp]:
  "canonical_events bookedGraph = [bookedEvent]" "constraints bookedGraph = []" "milestones bookedGraph = []"
  "vip_policies bookedGraph = []" "schedule_sessions bookedGraph = []" "schedule_candidates bookedGraph = []"
  by (simp_all add: bookedGraph_def sampleGraph_def emptyGraph_def)

lemma sample_raw:
  assumes "aq_start q = toISOString nine" "aq_end q = toISOString halfPastTen" "aq_accounts q \<in> {Some [], Some [''acc_a'']}"
  shows "rawIntervals sampleEnv utcClock q bookedGraph = Inr [sampleBusy]" and "occupies q bookedEvent"
  using assms
  by (auto simp: rawIntervals_def occupyingEvents_def occupies_def constraintsOf_def expandBuffersToBusy_def getAllMilestones_def
      Let_def eventInterval_def sampleBusy_def expandWorkingHoursToOutsideBusy_def expandNoMeetingsAfterToBusy_def
      expandMilestonesToBusy_def)

lemma sample_stamped: "allStamped sampleEnv [sampleBusy]"
proof -
  have "stamped sampleEnv (toISOString nine) nine" "stamped sampleEnv (toISOString ten) ten"
    by (rule stamped_toISOString; simp add: maxDateMs_def)+
  then show ?thesis by (auto simp: allStamped_def stampedAs_def sampleBusy_def)
qed

section \<open>What the solver and the workflow make of it\<close>

definition bookedInput :: solver_input where
  "bookedInput = \<lparr> in_windowStart = toISOString nine, in_windowEnd = toISOString halfPastTen,
       in_durationMinutes = 30, in_busyIntervals = [sampleBusy], in_requiredAccountIds = [''acc_a''],
       in_constraints = Some [], in_participantHashes = None \<rparr>"

definition bookedRun :: solver_run where
  "bookedRun = prepareRun sampleEnv bookedInput nine"

definition bookedSlot :: scored_candidate where
  "bookedSlot = candidateAt utcClock bookedRun ten"

lemma bookedRun_fields:
  "sr_durationMs bookedRun = 1800000" "sr_trips bookedRun = []" "sr_enforceHours bookedRun = False"
  "sr_required bookedRun = [''acc_a'']" "sr_busy bookedRun = [(Some nine, Some ten, [''acc_a''])]"
  by (simp_all add: bookedRun_def bookedInput_def prepareRun_def Let_def precomputeTripRanges_def ofKind_def busyRange_def
      sampleBusy_def)

lemma booked_window:
  "in_windowStart bookedInput = toISOString nine" "in_windowEnd bookedInput = toISOString halfPastTen"
  by (simp_all add: bookedInput_def)

lemma booked_slots: "slotStarts 1800000 halfPastTen nine = [nine, nine + 1800000, ten]"
  by (simp add: slotStarts.simps stepMs_def SLOT_STEP_MINUTES_def)

lemma booked_solved: "greedySolver sampleEnv utcClock (\<lambda>x. x) bookedInput 5 = [bookedSlot]"
proof -
  have "filter (admissible utcClock bookedRun) (slotStarts 1800000 halfPastTen nine) = [ten]"
    unfolding booked_slots by (simp add: admissible_spec bookedRun_fields isBlockedByTrip_def busyBlocks_def nanLess_def)
  then have "allCandidates sampleEnv utcClock bookedInput = [bookedSlot]"
    unfolding allCandidates_def by (simp add: booked_window bookedRun_def [symmetric] Let_def bookedRun_fields(1) bookedSlot_def)
  then show ?thesis by (simp add: greedySolver_def rankBy_def sortDesc_def sliceTo_def)
qed

lemma bookedSlot_times:
  "sd_start bookedSlot = isoShort ten" "sd_end bookedSlot = isoShort halfPastTen"
  by (simp_all add: bookedSlot_def candidateAt_def Let_def split_def bookedRun_fields)

lemma sure_query:
  "callUser sureSite user what (query f) w = (Inr (f (wd_graph w user)), countCall w)"
  "fetchFrom sureSite user (query f) w = (Inr (Inr (f (wd_graph w user))), countCall w)"
proof -
  have g: "(countCall w)\<lparr> wd_graph := wd_graph w \<rparr> = countCall w" by (simp add: countCall_def)
  have "st_fate sureSite (wd_calls w) = Delivered" by (simp add: sampleSite_def)
  then show "callUser sureSite user what (query f) w = (Inr (f (wd_graph w user)), countCall w)"
    "fetchFrom sureSite user (query f) w = (Inr (Inr (f (wd_graph w user))), countCall w)"
    using callUser_delivered [of sureSite w "query f" user "f (wd_graph w user)" "wd_graph w user" what]
      fetchFrom_delivered [of sureSite w "query f" user "Inr (f (wd_graph w user))" "wd_graph w user"] g
    by simp_all
qed

definition bookedAvailability :: availability_result where
  "bookedAvailability = \<lparr> ar_busy_intervals = [sampleBusy],
     ar_free_intervals = computeFreeIntervals [sampleBusy] (toISOString nine) (toISOString halfPastTen) \<rparr>"

lemma booked_available:
  assumes "aq_start q = toISOString nine" "aq_end q = toISOString halfPastTen" "aq_accounts q \<in> {Some [], Some [''acc_a'']}"
  shows "computeAvailability sampleEnv utcClock (\<lambda>x. x) q bookedGraph = (Inr bookedAvailability, bookedGraph)"
  using sample_raw(1) [OF assms] assms
  by (simp add: computeAvailability_def bookedAvailability_def mergeIntervals_def mergeBy_def Let_def)

lemma sure_available:
  assumes "aq_start q = toISOString nine" "aq_end q = toISOString halfPastTen" "aq_accounts q \<in> {Some [], Some [''acc_a'']}"
    and "wd_graph w user = bookedGraph"
  shows "callUser sureSite user what (computeAvailability sampleEnv utcClock (\<lambda>x. x) q) w = (Inr bookedAvailability, countCall w)"
proof -
  have "st_fate sureSite (wd_calls w) = Delivered" by (simp add: sampleSite_def)
  moreover have "(countCall w)\<lparr> wd_graph := (wd_graph w)(user := bookedGraph) \<rparr> = countCall w"
    using assms(4) by (simp add: countCall_def fun_upd_idem)
  ultimately show ?thesis
    using callUser_delivered [of sureSite w _ user bookedAvailability bookedGraph what] booked_available [OF assms(1-3)] assms(4)
    by metis
qed

lemma sureSite_fields [simp]:
  "st_env sureSite = sampleEnv" "st_local sureSite = utcClock" "st_collate sureSite = (\<lambda>x. x)"
  "st_endpoint sureSite = None" "st_fate sureSite n = Delivered" "st_ulid sureSite = showNat"
  by (simp_all add: sampleSite_def)

definition bookedGathered :: gathered where
  "bookedGathered = \<lparr> ga_availability = bookedAvailability, ga_constraints = [], ga_vips = [], ga_history = [] \<rparr>"

lemma countCall_graph [simp]: "wd_graph (countCall w) = wd_graph w" "wd_ids (countCall w) = wd_ids w"
  by (simp_all add: countCall_def)

lemma booked_gathered:
  assumes "wd_graph w ''user_1'' = bookedGraph"
  shows "gather sureSite sampleParams w = (Inr bookedGathered, countCall (countCall (countCall w)))"
proof -
  have p: "ps_userId sampleParams = ''user_1''" "ps_windowStart sampleParams = toISOString nine"
    "ps_windowEnd sampleParams = toISOString halfPastTen" "ps_requiredAccountIds sampleParams = [''acc_a'']"
    "participants sampleParams = []" by (simp_all add: sampleParams_def participants_def)
  let ?q = "\<lparr> aq_start = toISOString nine, aq_end = toISOString halfPastTen, aq_accounts = Some [''acc_a''] \<rparr>"
  have avail: "gatherAvailability sureSite ''user_1'' (toISOString nine) (toISOString halfPastTen) [''acc_a''] w =
      (Inr bookedAvailability, countCall w)"
    using sure_available [of ?q w "''user_1''"] assms by (simp add: gatherAvailability_def)
  have cs: "getActiveConstraints sureSite ''user_1'' (toISOString nine) (toISOString halfPastTen) (countCall w) =
      (Inr [], countCall (countCall w))"
    using assms by (simp add: getActiveConstraints_def listConstraints_def andThen_def sure_query ret_run convertToSolverConstraints_def)
  have vips: "getVipOverrideConstraints sureSite ''user_1'' (countCall (countCall w)) = (Inr [], countCall (countCall (countCall w)))"
    using assms by (simp add: getVipOverrideConstraints_def listVipPolicies_def andThen_def sure_query ret_run tryCatch_def sortDesc_def)
  show ?thesis
    unfolding gather_def p
    by (simp add: andThen_def settle_def avail cs vips fetchHistory_def ret_run awaited_def bookedGathered_def)
qed

lemma booked_proposals: "proposals sureSite sampleParams bookedGathered = [bookedSlot]"
proof -
  have "solverInput sampleParams bookedGathered = bookedInput"
    by (simp add: solverInput_def sampleParams_def bookedGathered_def bookedInput_def bookedAvailability_def)
  then have "runSolverWithFallback (solver_site.truncate sureSite) (solverInput sampleParams bookedGathered)
      (nullish (ps_maxCandidates sampleParams) 5) = [bookedSlot]"
    using booked_solved
    by (simp add: runSolverWithFallback_def solveGreedy_def solver_site.truncate_def sampleParams_def)
  then show ?thesis
    by (simp add: proposals_def weigh_def bookedGathered_def rankBy_def sortDesc_def)
qed

lemma booked_session:
  obtains s w' c where "createSession sureSite sampleParams (schedWorld (\<lambda>_. bookedGraph)) = (Inr s, w')"
    and "sn_candidates s = [c]" and "cd_start c = isoShort ten" and "cd_end c = isoShort halfPastTen"
proof -
  let ?w = "schedWorld (\<lambda>_. bookedGraph)"
  let ?w1 = "?w\<lparr> wd_ids := Suc 0 \<rparr>"
  let ?w2 = "countCall (countCall (countCall ?w1))"
  let ?w3 = "?w2\<lparr> wd_ids := Suc (Suc 0) \<rparr>"
  define sid where "sid = generateId ''session'' (showNat 0)"
  define c where "c = \<lparr> cd_candidateId = generateId ''candidate'' (showNat (Suc 0)), cd_sessionId = sid,
    cd_start = sd_start bookedSlot, cd_end = sd_end bookedSlot, cd_score = sd_score bookedSlot,
    cd_explanation = sd_explanation bookedSlot \<rparr>"
  have "\<not> nanLe (Some halfPastTen) (Some nine)" "\<not> blank ''Review''" by (simp add: nanLe_def) code_simp
  then have "validateParams sampleEnv sampleParams = None" by (simp add: validateParams_def sampleParams_def)
  then have start: "orThrow (validateParams sampleEnv sampleParams) () ?w = (Inr (), ?w)"
    by (simp add: orThrow_def ret_run)
  have id: "newId sureSite ''session'' ?w = (Inr sid, ?w1)" by (simp add: newId_def sid_def schedWorld_def)
  have g: "gather sureSite sampleParams ?w1 = (Inr bookedGathered, ?w2)"
    by (rule booked_gathered) (simp add: schedWorld_def)
  have cs: "collect (storedCandidate sureSite sid) (proposals sureSite sampleParams bookedGathered) ?w2 = (Inr [c], ?w3)"
    unfolding booked_proposals
    by (simp add: storedCandidate_def andThen_def newId_def ret_run c_def)
  have "\<exists>w4. storeSession sureSite sampleParams sid [c] (nowIso sampleEnv) ?w3 = (Inr (), w4)"
  proof -
    have "\<exists>g. storeSchedulingSession \<lparr> ss_session_id = sid, ss_status = ''candidates_ready'',
        ss_objective_json = Some (paramsJson sampleParams), ss_created_at = nowIso sampleEnv \<rparr> [c] bookedGraph = (Inr (), g)"
      by (simp add: storeSchedulingSession_def andThen_def insertSessionRow_def insertCandidateRow_def candidateRow_def c_def ret_run)
    then obtain g where "storeSchedulingSession \<lparr> ss_session_id = sid, ss_status = ''candidates_ready'',
        ss_objective_json = Some (paramsJson sampleParams), ss_created_at = nowIso sampleEnv \<rparr> [c] bookedGraph = (Inr (), g)" ..
    then show ?thesis
      unfolding storeSession_def using callUser_delivered [of sureSite ?w3 _ "ps_userId sampleParams" "()" g]
      by (simp add: schedWorld_def)
  qed
  then obtain w4 where st: "storeSession sureSite sampleParams sid [c] (nowIso sampleEnv) ?w3 = (Inr (), w4)" ..
  have hold: "ps_holdTimeoutMs sampleParams = Some 0" by (simp add: sampleParams_def)
  have "\<exists>s. createSession sureSite sampleParams ?w = (Inr s, w4) \<and> sn_candidates s = [c]"
    unfolding createSession_def by (simp add: andThen_def start id g cs st hold ret_run)
  then show thesis using that bookedSlot_times by (auto simp: c_def)
qed

section \<open>A group of two\<close>

definition sampleGroup :: group_params where
  "sampleGroup =
     \<lparr> gp_creatorUserId = ''user_1'', gp_participantUserIds = [''user_1'', ''user_2''], gp_title = ''Review'',
       gp_durationMinutes = 30, gp_windowStart = toISOString nine, gp_windowEnd = toISOString halfPastTen,
       gp_maxCandidates = None, gp_holdTimeoutMs = Some 0 \<rparr>"

definition busyOf :: "string \<Rightarrow> user_availability" where
  "busyOf user = \<lparr> ua_userId = user, ua_busyIntervals = [sampleBusy] \<rparr>"

definition groupRun :: solver_run where
  "groupRun = prepareRun sampleEnv (groupSolverInput sampleEnv sampleGroup [busyOf ''user_1'', busyOf ''user_2'']) nine"

definition groupSlot :: scored_candidate where
  "groupSlot = candidateAt utcClock groupRun ten"

lemma group_busy:
  "mergeBusyIntervals sampleEnv [busyOf ''user_1'', busyOf ''user_2''] =
     map (\<lambda>u. \<lparr> bi_start = toISOString nine, bi_end = toISOString ten, bi_account_ids = [groupAccount u] \<rparr>) [''user_1'', ''user_2'']"
  by (simp add: mergeBusyIntervals_def mergeOverlapping_def busyOf_def sampleBusy_def)

lemma groupRun_fields:
  "sr_durationMs groupRun = 1800000" "sr_trips groupRun = []" "sr_enforceHours groupRun = False"
  "sr_required groupRun = [''group_user_1'', ''group_user_2'']"
  "sr_busy groupRun = [(Some nine, Some ten, [''group_user_1'']), (Some nine, Some ten, [''group_user_2''])]"
  by (simp_all add: groupRun_def groupSolverInput_def prepareRun_def Let_def precomputeTripRanges_def ofKind_def busyRange_def
      group_busy sampleGroup_def buildGroupAccountIds_def groupAccount_def)

lemma group_window:
  "in_windowStart (groupSolverInput env sampleGroup uas) = toISOString nine"
  "in_windowEnd (groupSolverInput env sampleGroup uas) = toISOString halfPastTen"
  by (simp_all add: groupSolverInput_def sampleGroup_def)

lemma group_proposed: "groupProposals sureSite sampleGroup [busyOf ''user_1'', busyOf ''user_2''] = [groupSlot]"
proof -
  let ?input = "groupSolverInput sampleEnv sampleGroup [busyOf ''user_1'', busyOf ''user_2'']"
  have "filter (admissible utcClock groupRun) (slotStarts 1800000 halfPastTen nine) = [ten]"
    unfolding booked_slots by (simp add: admissible_spec groupRun_fields isBlockedByTrip_def busyBlocks_def nanLess_def)
  then have "allCandidates sampleEnv utcClock ?input = [groupSlot]"
    unfolding allCandidates_def by (simp add: group_window groupRun_def [symmetric] Let_def groupRun_fields(1) groupSlot_def)
  then show ?thesis by (simp add: groupProposals_def greedySolver_def rankBy_def sortDesc_def sliceTo_def sampleGroup_def)
qed

lemma groupSlot_times: "sd_start groupSlot = isoShort ten" "sd_end groupSlot = isoShort halfPastTen"
  by (simp_all add: groupSlot_def candidateAt_def Let_def split_def groupRun_fields)

lemma group_gathered:
  assumes "\<And>u. wd_graph w u = bookedGraph"
  shows "gatherAllAvailability sureSite [''user_1'', ''user_2''] (toISOString nine) (toISOString halfPastTen) w =
    (Inr [busyOf ''user_1'', busyOf ''user_2''], countCall (countCall w))"
proof -
  let ?q = "\<lparr> aq_start = toISOString nine, aq_end = toISOString halfPastTen, aq_accounts = Some [] \<rparr>"
  have "gatherUserAvailability sureSite (toISOString nine) (toISOString halfPastTen) user v = (Inr (busyOf user), countCall v)"
    if "wd_graph v user = bookedGraph" for user v
    using sure_available [of ?q v user] that
    by (simp add: gatherUserAvailability_def andThen_def ret_run busyOf_def bookedAvailability_def)
  then show ?thesis
    using assms by (simp add: gatherAllAvailability_def promiseAll_def settle_def andThen_def ret_run awaited_def)
qed

lemma stored_everywhere:
  assumes "\<And>u. wd_graph w u = bookedGraph" and "cd_sessionId c = sid" and "u \<noteq> v"
  shows "\<exists>w'. promiseAll (storeSessionInUserDO sureSite sampleGroup sid [c] st now) [u, v] w = (Inr [(), ()], w') \<and>
    wd_registry w' = wd_registry w"
proof -
  let ?row = "\<lparr> ss_session_id = sid, ss_status = st, ss_objective_json = Some (groupParamsJson sampleGroup), ss_created_at = now \<rparr>"
  have "\<exists>g. storeSchedulingSession ?row [c] bookedGraph = (Inr (), g)"
    using assms(2) by (simp add: storeSchedulingSession_def andThen_def insertSessionRow_def insertCandidateRow_def candidateRow_def ret_run)
  then obtain g where g: "storeSchedulingSession ?row [c] bookedGraph = (Inr (), g)" ..
  have one: "storeSessionInUserDO sureSite sampleGroup sid [c] st now user w = (Inr (), (countCall w)\<lparr> wd_graph := (wd_graph w)(user := g) \<rparr>)"
    if "wd_graph w user = bookedGraph" for user w
    unfolding storeSessionInUserDO_def using callUser_delivered [of sureSite w _ user "()" g] g that by simp
  show ?thesis
    using assms(1,3) by (simp add: promiseAll_def settle_def andThen_def one ret_run awaited_def)
qed

lemma group_session:
  obtains s w' c where "createGroupSession sureSite sampleGroup (schedWorld (\<lambda>_. bookedGraph)) = (Inr s, w')"
    and "gs_candidates s = [c]" and "cd_start c = isoShort ten" and "cd_end c = isoShort halfPastTen"
proof -
  let ?w = "schedWorld (\<lambda>_. bookedGraph)"
  let ?w1 = "?w\<lparr> wd_ids := Suc 0 \<rparr>"
  let ?w2 = "countCall (countCall ?w1)"
  let ?w3 = "?w2\<lparr> wd_ids := Suc (Suc 0) \<rparr>"
  let ?users = "[''user_1'', ''user_2'']"
  define sid where "sid = generateId ''session'' (showNat 0)"
  define c where "c = \<lparr> cd_candidateId = generateId ''candidate'' (showNat (Suc 0)), cd_sessionId = sid,
    cd_start = sd_start groupSlot, cd_end = sd_end groupSlot, cd_score = sd_score groupSlot,
    cd_explanation = sd_explanation groupSlot \<rparr>"
  have p: "gp_participantUserIds sampleGroup = ?users" "gp_windowStart sampleGroup = toISOString nine"
    "gp_windowEnd sampleGroup = toISOString halfPastTen" "gp_holdTimeoutMs sampleGroup = Some 0"
    "gp_creatorUserId sampleGroup = ''user_1''" "gp_title sampleGroup = ''Review''" by (simp_all add: sampleGroup_def)
  have "\<not> nanLe (Some halfPastTen) (Some nine)" "\<not> blank ''Review''" by (simp add: nanLe_def) code_simp
  then have "validateGroupParams sampleEnv sampleGroup = None" by (simp add: validateGroupParams_def sampleGroup_def)
  then have start: "orThrow (validateGroupParams sampleEnv sampleGroup) () ?w = (Inr (), ?w)"
    by (simp add: orThrow_def ret_run)
  have id: "newId sureSite ''session'' ?w = (Inr sid, ?w1)" by (simp add: newId_def sid_def schedWorld_def)
  have g: "gatherAllAvailability sureSite ?users (toISOString nine) (toISOString halfPastTen) ?w1 =
      (Inr [busyOf ''user_1'', busyOf ''user_2''], ?w2)"
    by (rule group_gathered) (simp add: schedWorld_def)
  have cs: "collect (storedCandidate sureSite sid) (groupProposals sureSite sampleGroup [busyOf ''user_1'', busyOf ''user_2'']) ?w2
      = (Inr [c], ?w3)"
    unfolding group_proposed by (simp add: storedCandidate_def andThen_def newId_def ret_run c_def)
  obtain w4 where st: "promiseAll (storeSessionInUserDO sureSite sampleGroup sid [c] ''candidates_ready'' (nowIso sampleEnv)) ?users ?w3
      = (Inr [(), ()], w4)" and reg: "wd_registry w4 = []"
    using stored_everywhere [of ?w3 c sid "''user_1''" "''user_2''" "''candidates_ready''" "nowIso sampleEnv"]
    by (auto simp: schedWorld_def c_def countCall_def)
  have d1: "\<exists>w5. registerSessionInD1 sureSite row w4 = (Inr (), w5)" for row
    by (simp add: registerSessionInD1_def d1_def reg Let_def)
  then obtain w5 where d1: "registerSessionInD1 sureSite \<lparr> gr_session_id = sid, gr_creator_user_id = ''user_1'',
      gr_participant_ids = ?users, gr_title = ''Review'', gr_status = ''candidates_ready'',
      gr_created_at = nowIso sampleEnv \<rparr> w4 = (Inr (), w5)" by blast
  have "\<exists>s. createGroupSession sureSite sampleGroup ?w = (Inr s, w5) \<and> gs_candidates s = [c]"
    unfolding createGroupSession_def p by (simp add: andThen_def start id g cs st d1 ret_run Let_def)
  then show thesis using that groupSlot_times by (auto simp: c_def)
qed

section \<open>A session that can be committed\<close>

definition readySession :: session_row where
  "readySession = \<lparr> ss_session_id = ''ses_1'', ss_status = ''candidates_ready'',
     ss_objective_json = Some (JObj [(''title'', JStr ''Review''), (''requiredAccountIds'', JArr [JStr ''acc_a''])]),
     ss_created_at = toISOString (now_ms sampleEnv) \<rparr>"

definition readyCandidate :: candidate_row where
  "readyCandidate = \<lparr> sc_candidate_id = ''cnd_1'', sc_session_id = ''ses_1'', sc_start_ts = toISOString ten,
     sc_end_ts = toISOString halfPastTen, sc_score = Some 22, sc_explanation = None \<rparr>"

definition readyHold :: hold_row where
  "readyHold = sampleHold\<lparr> sh_session_id := ''ses_1'' \<rparr>"

definition readyGraph :: user_graph where
  "readyGraph = emptyGraph\<lparr> schedule_sessions := [readySession], schedule_candidates := [readyCandidate],
     schedule_holds := [readyHold] \<rparr>"

definition readyView :: session_view where
  "readyView = \<lparr> sv_session_id = ''ses_1'', sv_status = ''candidates_ready'',
     sv_params = JObj [(''title'', JStr ''Review''), (''requiredAccountIds'', JArr [JStr ''acc_a''])],
     sv_candidates = [readyCandidate], sv_committed_candidate = None, sv_committed_event = None,
     sv_created_at = toISOString (now_ms sampleEnv) \<rparr>"

lemma ready_view: "getSchedulingSession sampleEnv ''ses_1'' readyGraph = (Inr readyView, readyGraph)"
proof -
  have now: "dateParse legacy (toISOString 1750000000000) = Some 1750000000000" for legacy
    by (simp add: dateParse_toISOString maxDateMs_def)
  have rows: "sessionRows ''ses_1'' readyGraph = [readySession]" by (simp add: sessionRows_def readyGraph_def readySession_def)
  have young: "\<not> olderThan sampleEnv 86400000 readySession"
    by (simp add: olderThan_def readySession_def sampleEnv_def now)
  have cs: "candidatesOf ''ses_1'' readyGraph = [readyCandidate]"
    by (simp add: candidatesOf_def readyGraph_def readyCandidate_def sortDesc_def)
  have ps: "sessionParams (ss_objective_json readySession) = (sv_params readyView, None, None)"
    by (simp add: sessionParams_def readySession_def readyView_def jsTruthy_def)
  show ?thesis
    by (simp add: getSchedulingSession_def andThen_def rows young cs ps ret_run Let_def)
       (simp add: readyView_def readySession_def)
qed

lemma ready_committable:
  "committable what ''ses_1'' ''cnd_1'' readyView = Inr readyCandidate"
  by (simp add: committable_def readyView_def readyCandidate_def)

lemma fresh_meeting:
  assumes "eid \<noteq> []" and "acct \<noteq> []" and "oid \<noteq> []" and "canonical_events s = []" and "policy_edges s = []" and "event_journal s = []"
  obtains s' where "upsertCanonicalEvent sampleEnv (meetingEvent eid acct oid title c) ''system'' s = (Inr eid, s')"
proof -
  have "\<exists>s'. upsertCanonicalEvent sampleEnv (meetingEvent eid acct oid title c) ''system'' s = (Inr eid, s')"
    using assms
    by (simp add: upsertCanonicalEvent_def meetingEvent_def andThen_def eventsWithId_def eventsByOrigin_def insertEventRow_def
        inputEventRow_def setInputFields_def writeJournal_def freshId_def insertJournalRow_def projectAndEnqueue_def edgesFrom_def ret_run Let_def
        split: option.split list.split)
  then show thesis using that by blast
qed

text \<open>The methods a commit calls return on every graph with these sessions, whatever else the graph holds.\<close>

definition readyRows :: "session_row list \<Rightarrow> bool" where
  "readyRows rows \<longleftrightarrow> (\<exists>r fs. rows = [r] \<and> ss_session_id r = ''ses_1'' \<and> ss_objective_json r = Some (JObj fs))"

lemma ready_rows: "readyRows (schedule_sessions readyGraph)"
  by (simp add: readyRows_def readyGraph_def readySession_def)

lemma ready_get:
  assumes "readyRows (schedule_sessions s)"
  obtains v s' where "getSchedulingSession env ''ses_1'' s = (Inr v, s')"
proof -
  from assms obtain r where r: "sessionRows ''ses_1'' s = [r]" by (auto simp: readyRows_def sessionRows_def)
  have "\<exists>v s'. getSchedulingSession env ''ses_1'' s = (Inr v, s')"
    by (simp add: getSchedulingSession_def andThen_def r setSessionStatus_def releaseSessionHolds_def ret_run Let_def split_def)
  then show thesis using that by blast
qed

lemma ready_commit:
  assumes "readyRows (schedule_sessions s)"
  obtains s' where "commitSchedulingSession ''ses_1'' cid eid s = (Inr (), s')" and "readyRows (schedule_sessions s')"
proof -
  from assms obtain r fs where r: "schedule_sessions s = [r]" "ss_session_id r = ''ses_1''" "ss_objective_json r = Some (JObj fs)"
    by (auto simp: readyRows_def)
  then have rows: "sessionRows ''ses_1'' s = [r]" by (simp add: sessionRows_def)
  have "\<exists>s'. commitSchedulingSession ''ses_1'' cid eid s = (Inr (), s') \<and> readyRows (schedule_sessions s')"
    using r by (simp add: commitSchedulingSession_def andThen_def rows withCommit_def readyRows_def updateRows_def)
  then show thesis using that by blast
qed

lemma ready_meeting:
  assumes "eid \<noteq> []" and "acct \<noteq> []" and "oid \<noteq> []"
    and "canonical_events s = []" and "policy_edges s = []" and "event_journal s = []"
  obtains s' where "upsertCanonicalEvent sampleEnv (meetingEvent eid acct oid title c) ''system'' s = (Inr eid, s')"
    and "schedule_sessions s' = schedule_sessions s"
proof -
  from fresh_meeting [OF assms] obtain s' where s': "upsertCanonicalEvent sampleEnv (meetingEvent eid acct oid title c) ''system'' s
      = (Inr eid, s')" .
  have "sameSchedule s s'" by (rule stays_run [OF same_upsert s'])
  then show thesis using that s' by (simp add: sameSchedule_def)
qed

lemma readyGraph_fields [simp]:
  "canonical_events readyGraph = []" "policy_edges readyGraph = []" "event_journal readyGraph = []"
  "schedule_holds readyGraph = [readyHold]"
  by (simp_all add: readyGraph_def emptyGraph_def)

lemma same_upd: "(\<lambda>_. g)(u := g) = (\<lambda>_. g)"
  by auto

lemma ready_committed:
  obtains eid view w' where "commitCandidate sureSite ''user_1'' ''ses_1'' ''cnd_1'' (schedWorld (\<lambda>_. readyGraph)) = (Inr (eid, view), w')"
proof -
  let ?w0 = "schedWorld (\<lambda>_. readyGraph)"
  let ?user = "''user_1''" and ?eid = "generateId ''event'' (showNat 0)"
  have call: "callUser sureSite ?user what m w = (Inr x, (countCall w)\<lparr> wd_graph := (wd_graph w)(?user := g) \<rparr>)"
    if "m (wd_graph w ?user) = (Inr x, g)" for what m w x g
    by (rule callUser_delivered) (simp_all add: that)
  have get: "\<exists>v w'. getSession sureSite ?user ''ses_1'' w = (Inr v, w')"
    if "readyRows (schedule_sessions (wd_graph w ?user))" for w
    using ready_get [OF that, of sampleEnv] call unfolding getSession_def by (metis sureSite_fields(1))
  have s1: "getSession sureSite ?user ''ses_1'' ?w0 = (Inr readyView, (countCall ?w0)\<lparr> wd_graph := (\<lambda>_. readyGraph) \<rparr>)"
    unfolding getSession_def using call [of "getSchedulingSession sampleEnv ''ses_1''" ?w0 readyView readyGraph] ready_view
    by (simp add: schedWorld_def same_upd)
  let ?w1 = "(countCall ?w0)\<lparr> wd_graph := (\<lambda>_. readyGraph) \<rparr>"
  have holds: "List.map_filter buildHoldDeleteMessage (filter (\<lambda>h. sh_status h = ''held'') (holdsOf ''ses_1'' readyGraph)) = []"
    by (simp add: holdsOf_def buildHoldDeleteMessage_def readyHold_def sampleHold_def List.map_filter_def)
  define g2 where "g2 = readyGraph\<lparr> schedule_holds := updateRows (\<lambda>h. sh_session_id h = ''ses_1'' \<and> sh_status h = ''held'')
    (\<lambda>h. h\<lparr> sh_status := ''released'' \<rparr>) [readyHold] \<rparr>"
  have "releaseSessionHolds ''ses_1'' readyGraph = (Inr (), g2)" by (simp add: releaseSessionHolds_def g2_def)
  then have s2: "\<exists>w2. releaseHolds sureSite ?user ''ses_1'' ?w1 = (Inr (), w2) \<and> wd_graph w2 ?user = g2 \<and> wd_ids w2 = 0"
    unfolding releaseHolds_def fetchHolds_def getHoldsBySession_def
    by (simp add: andThen_def sure_query call holds ret_run Let_def schedWorld_def)
  then obtain w2 where s2: "releaseHolds sureSite ?user ''ses_1'' ?w1 = (Inr (), w2)" and w2: "wd_graph w2 ?user = g2" "wd_ids w2 = 0"
    by blast
  let ?w3 = "w2\<lparr> wd_ids := Suc 0 \<rparr>"
  have s3: "newId sureSite ''event'' w2 = (Inr ?eid, ?w3)" by (simp add: newId_def w2(2))
  let ?event = "meetingEvent ?eid ''acc_a'' ''scheduled_ses_1'' (Some ''Review'') readyCandidate"
  have org: "organizer (sv_params readyView) = Inr ''acc_a''" "strField (sv_params readyView) ''title'' = Some ''Review''"
    "stringsField (sv_params readyView) ''participantHashes'' = []"
    by (simp_all add: organizer_def readyView_def field_def strField_def stringsField_def)
  have "?eid \<noteq> []" by (simp add: generateId_def ID_PREFIXES_def)
  then obtain g4 where g4: "upsertCanonicalEvent sampleEnv ?event ''system'' g2 = (Inr ?eid, g4)"
    "schedule_sessions g4 = schedule_sessions g2"
    by (rule ready_meeting [of ?eid "''acc_a''" "''scheduled_ses_1''" g2]) (simp_all add: g2_def)
  have s4: "\<exists>w4. upsertEvent sureSite ?user ?event ?w3 = (Inr (), w4) \<and> wd_graph w4 ?user = g4"
    unfolding upsertEvent_def by (simp add: andThen_def call [of _ ?w3, simplified] w2 g4 ret_run)
  then obtain w4 where s4: "upsertEvent sureSite ?user ?event ?w3 = (Inr (), w4)" and w4: "wd_graph w4 ?user = g4" by blast
  have "readyRows (schedule_sessions g4)" using ready_rows g4(2) by (simp add: g2_def)
  from ready_commit [OF this] obtain g5 where g5: "commitSchedulingSession ''ses_1'' ''cnd_1'' ?eid g4 = (Inr (), g5)"
    "readyRows (schedule_sessions g5)" .
  have "\<exists>w5. commitSession sureSite ?user ''ses_1'' ''cnd_1'' ?eid w4 = (Inr (), w5) \<and> wd_graph w5 ?user = g5"
    unfolding commitSession_def by (simp add: call w4 g5)
  then obtain w5 where s5: "commitSession sureSite ?user ''ses_1'' ''cnd_1'' ?eid w4 = (Inr (), w5)" "wd_graph w5 ?user = g5" by blast
  from get [of w5] s5(2) g5(2) obtain v w6 where s6: "getSession sureSite ?user ''ses_1'' w5 = (Inr v, w6)" by auto
  have "commitCandidate sureSite ?user ''ses_1'' ''cnd_1'' ?w0 = (Inr (?eid, v), w6)"
    unfolding commitCandidate_def
    by (simp add: andThen_def s1 ready_committable awaited_def ret_run s2 s3 org s4 s5(1) recordHistory_def
        recordSchedulingOutcome_def s6 Let_def)
  then show thesis by (rule that)
qed

section \<open>A group session that can be committed\<close>

definition readyRegistration :: registry_row where
  "readyRegistration = \<lparr> gr_session_id = ''ses_1'', gr_creator_user_id = ''user_1'',
     gr_participant_ids = [''user_1'', ''user_2''], gr_title = ''Review'', gr_status = ''candidates_ready'',
     gr_created_at = toISOString (now_ms sampleEnv) \<rparr>"

definition groupWorld :: sched_world where
  "groupWorld = (schedWorld (\<lambda>_. readyGraph))\<lparr> wd_registry := [readyRegistration] \<rparr>"

lemma groupWorld_fields [simp]:
  "wd_graph groupWorld u = readyGraph" "wd_registry groupWorld = [readyRegistration]" "wd_calls groupWorld = 0"
  "wd_ids groupWorld = 0"
  by (simp_all add: groupWorld_def schedWorld_def)

lemma readyRegistration_fields [simp]:
  "gr_session_id readyRegistration = ''ses_1''" "gr_creator_user_id readyRegistration = ''user_1''"
  "gr_participant_ids readyRegistration = [''user_1'', ''user_2'']"
  by (simp_all add: readyRegistration_def)

lemma groupWorld_ok: "worldOk groupWorld"
  by (simp add: worldOk_def groupWorld_def schedWorld_def sessions_ok_def readyGraph_def emptyGraph_def readySession_def
      readyCandidate_def readyHold_def)

lemma ready_ok: "worldOk (schedWorld (\<lambda>_. readyGraph))"
  using groupWorld_ok by (simp add: worldOk_def schedWorld_def)

lemma sure_call:
  "m (wd_graph w user) = (Inr x, g) \<Longrightarrow>
   callUser sureSite user what m w = (Inr x, (countCall w)\<lparr> wd_graph := (wd_graph w)(user := g) \<rparr>)"
  by (rule callUser_delivered) simp

lemma sure_event:
  assumes "wd_graph w u = readyGraph"
  obtains g w' where "createEvents sureSite (groupEvent ''ses_1'' readyView readyCandidate) [u] w =
      (Inr ([(u, generateId ''event'' (showNat (wd_ids w)))], None), w')"
    and "wd_graph w' = (wd_graph w)(u := g)" and "readyRows (schedule_sessions g)" and "wd_registry w' = wd_registry w"
    and "wd_ids w' = Suc (wd_ids w)"
proof -
  let ?eid = "generateId ''event'' (showNat (wd_ids w))"
  let ?event = "groupEvent ''ses_1'' readyView readyCandidate ?eid"
  obtain g where g: "upsertCanonicalEvent sampleEnv ?event ''system'' readyGraph = (Inr ?eid, g)"
    "schedule_sessions g = schedule_sessions readyGraph"
    unfolding groupEvent_def by (rule ready_meeting [of ?eid "''group_ses_1''" "''group_scheduled_ses_1''" readyGraph]) simp_all
  let ?w' = "(countCall (w\<lparr> wd_ids := Suc (wd_ids w) \<rparr>))\<lparr> wd_graph := (wd_graph w)(u := g) \<rparr>"
  have "upsertEventInUserDO sureSite u ?event (w\<lparr> wd_ids := Suc (wd_ids w) \<rparr>) = (Inr (), ?w')"
    unfolding upsertEventInUserDO_def using g(1) assms by (simp add: andThen_def sure_call ret_run)
  then have "createEvents sureSite (groupEvent ''ses_1'' readyView readyCandidate) [u] w = (Inr ([(u, ?eid)], None), ?w')"
    by (simp add: andThen_def newId_def settle_def ret_run)
  moreover have "readyRows (schedule_sessions g)" using ready_rows g(2) by simp
  ultimately show thesis using that by (simp add: countCall_def)
qed

lemma sure_mark:
  assumes "readyRows (schedule_sessions (wd_graph w u))"
  obtains g w' where "commitSessionInUserDO sureSite u ''ses_1'' cid eid w = (Inr (), w')"
    and "wd_graph w' = (wd_graph w)(u := g)" and "readyRows (schedule_sessions g)" and "wd_registry w' = wd_registry w"
proof -
  from ready_commit [OF assms] obtain g where g: "commitSchedulingSession ''ses_1'' cid eid (wd_graph w u) = (Inr (), g)"
    "readyRows (schedule_sessions g)" .
  then have "commitSessionInUserDO sureSite u ''ses_1'' cid eid w = (Inr (), (countCall w)\<lparr> wd_graph := (wd_graph w)(u := g) \<rparr>)"
    by (simp add: commitSessionInUserDO_def sure_call)
  then show thesis using that g(2) by (simp add: countCall_def)
qed

lemma createEvents_two:
  assumes "createEvents site event [u] w = (Inr ([(u, e)], None), w1)" and "createEvents site event [v] w1 = (Inr ([(v, f)], None), w2)"
  shows "createEvents site event [u, v] w = (Inr ([(u, e), (v, f)], None), w2)"
  using assms by (auto simp: andThen_def ret_run split: prod.splits sum.splits)

lemma group_committed:
  obtains made view w' where "commitGroupSession sureSite ''ses_1'' ''cnd_1'' ''user_1'' groupWorld = (Inr (made, view), w')"
proof -
  let ?u = "''user_1''" and ?v = "''user_2''" and ?w1 = "countCall groupWorld"
  let ?w2 = "(countCall ?w1)\<lparr> wd_graph := (wd_graph ?w1)(?u := readyGraph) \<rparr>"
  have reg: "registrationFor sureSite ''ses_1'' ?u groupWorld = (Inr readyRegistration, ?w1)"
    by (rule registrationFor_run) simp_all
  have get: "fetchSessionFromUserDO sureSite ?u ''ses_1'' ?w1 = (Inr readyView, ?w2)"
    unfolding fetchSessionFromUserDO_def using ready_view by (simp add: sure_call)
  have g2: "wd_graph ?w2 u = readyGraph" "wd_ids ?w2 = 0" "wd_registry ?w2 = [readyRegistration]" for u
    by (simp_all add: countCall_def)
  from sure_event [of ?w2 ?u, OF g2(1)] obtain a w3 where e1: "createEvents sureSite (groupEvent ''ses_1'' readyView readyCandidate) [?u] ?w2 =
      (Inr ([(?u, generateId ''event'' (showNat (wd_ids ?w2)))], None), w3)" "wd_graph w3 = (wd_graph ?w2)(?u := a)"
    "readyRows (schedule_sessions a)" .
  have "wd_graph w3 ?v = readyGraph" using e1(2) g2(1) by simp
  from sure_event [OF this] obtain b w4 where e2: "createEvents sureSite (groupEvent ''ses_1'' readyView readyCandidate) [?v] w3 =
      (Inr ([(?v, generateId ''event'' (showNat (wd_ids w3)))], None), w4)" "wd_graph w4 = (wd_graph w3)(?v := b)"
    "readyRows (schedule_sessions b)" .
  note ev = createEvents_two [OF e1(1) e2(1)]
  define made where "made = [(?u, generateId ''event'' (showNat (wd_ids ?w2))), (?v, generateId ''event'' (showNat (wd_ids w3)))]"
  have "readyRows (schedule_sessions (wd_graph w4 ?u))" using e1(2,3) e2(2) by simp
  from sure_mark [OF this, of "''cnd_1''" "eventOf made ?u"] obtain c w5 where
    m1: "commitSessionInUserDO sureSite ?u ''ses_1'' ''cnd_1'' (eventOf made ?u) w4 = (Inr (), w5)"
    "wd_graph w5 = (wd_graph w4)(?u := c)" "readyRows (schedule_sessions c)" .
  have "readyRows (schedule_sessions (wd_graph w5 ?v))" using e2(2,3) m1(2) by simp
  from sure_mark [OF this, of "''cnd_1''" "eventOf made ?v"] obtain d w6 where
    m2: "commitSessionInUserDO sureSite ?v ''ses_1'' ''cnd_1'' (eventOf made ?v) w5 = (Inr (), w6)"
    "wd_graph w6 = (wd_graph w5)(?v := d)" .
  obtain w7 where up: "updateSessionStatusInD1 sureSite ''ses_1'' ''committed'' w6 = (Inr (), w7)" and w7: "wd_graph w7 = wd_graph w6"
    by (simp add: updateSessionStatusInD1_def d1_def Let_def countCall_def)
  have mark: "markCommitted sureSite ''ses_1'' ''cnd_1'' [?u, ?v] made w4 = (Inr (), w7)"
    by (simp add: markCommitted_def andThen_def m1(1) m2(1) up ret_run)
  have "readyRows (schedule_sessions (wd_graph w7 ?u))" using m1(2,3) m2(2) w7 by simp
  from ready_get [OF this, of sampleEnv] obtain v g where "getSchedulingSession sampleEnv ''ses_1'' (wd_graph w7 ?u) = (Inr v, g)" .
  then have get': "\<exists>w8. fetchSessionFromUserDO sureSite ?u ''ses_1'' w7 = (Inr v, w8)"
    by (simp add: fetchSessionFromUserDO_def sure_call)
  then obtain w8 where "fetchSessionFromUserDO sureSite ?u ''ses_1'' w7 = (Inr v, w8)" ..
  then have "commitGroupSession sureSite ''ses_1'' ''cnd_1'' ?u groupWorld = (Inr (made, v), w8)"
    unfolding commitGroupSession_def using ev mark
    by (simp add: andThen_def reg get ready_committable awaited_def ret_run tryCatch_def made_def del: createEvents.simps)
  then show thesis by (rule that)
qed

text \<open>The call that books the second participant is lost.\<close>

definition lostBooking :: "nat \<Rightarrow> rpc_fate" where
  "lostBooking n = (if n = 3 then Refused else Delivered)"

lemma lost_upsert:
  obtains x g where "upsertCanonicalEvent sampleEnv (groupEvent ''ses_1'' readyView readyCandidate (generateId ''event'' (showNat 0)))
      ''system'' readyGraph = (Inr x, g)"
  unfolding groupEvent_def
  by (rule ready_meeting [of "generateId ''event'' (showNat 0)" "''group_ses_1''" "''group_scheduled_ses_1''" readyGraph]) simp_all

section \<open>A hold, and a history\<close>

definition sampleSlot :: candidate_input where
  "sampleSlot = \<lparr> cd_candidateId = ''cnd_1'', cd_sessionId = ''ses_1'', cd_start = toISOString ten,
     cd_end = toISOString halfPastTen, cd_score = 22, cd_explanation = ''morning slot (+20)'' \<rparr>"

lemma sample_hold:
  obtains h m w' where "holdFor sureSite (sampleParams\<lparr> ps_holdTimeoutMs := None \<rparr>) ''ses_1'' (sampleSlot, acct)
      (schedWorld (\<lambda>_. sampleGraph)) = (Inr (h, m), w')" and "''hold_'' @ sh_hold_id h \<notin> eventIds sampleGraph"
proof -
  have ids: "eventIds sampleGraph = {''evt_1''}" by (simp add: eventIds_def sampleGraph_def)
  have "\<exists>h m w'. holdFor sureSite (sampleParams\<lparr> ps_holdTimeoutMs := None \<rparr>) ''ses_1'' (sampleSlot, acct)
      (schedWorld (\<lambda>_. sampleGraph)) = (Inr (h, m), w')"
    by (simp add: holdFor_def andThen_def drawHold_def createHoldRecord_def DEFAULT_HOLD_TIMEOUT_MS_def MIN_HOLD_TIMEOUT_MS_def
        sampleParams_def ret_run Let_def isoOrThrow_def sampleEnv_def maxDateMs_def)
  with that show thesis by (auto simp: ids)
qed

definition sampleHistory :: "string \<Rightarrow> nat \<Rightarrow> participant_history" where
  "sampleHistory hash preferred = \<lparr> ph_participant_hash = hash, ph_sessions_participated = 4,
     ph_sessions_preferred = preferred, ph_last_session_ts = [] \<rparr>"

end
