(* ===== verification/Redelivery.thy ===== *)
theory Redelivery
  imports Write_Laws Delta_Laws
begin

text \<open>
  The loop from a delta to the provider and back to silence: the messages a projection run sent, once the write
  consumer has processed them with success, leave every mirror ACTIVE with the hash it had, so a second delivery of
  the delta finds nothing to write.
\<close>

section \<open>Processing a batch on the tables\<close>

text \<open>Each message with the clock its handling sees; the client goes with the target account.\<close>

fun consumeAll ::
  "graph_env \<Rightarrow> (string \<Rightarrow> 'p calendar_provider) \<Rightarrow> (int \<times> queue_message) list \<Rightarrow>
   (user_graph, 'p, process_result list) consumer_op" where
  "consumeAll env clients [] = ret []"
| "consumeAll env clients ((t, message) # batch) =
     andThen (processMessage (env\<lparr> now_ms := t \<rparr>) (graphStore (env\<lparr> now_ms := t \<rparr>))
               (clients (messageTarget message)) message) (\<lambda>r.
     andThen (consumeAll env clients batch) (\<lambda>rs. ret (r # rs)))"

section \<open>What a message may change\<close>

text \<open>Everything but the mirror at the key \<open>k\<close> stands, and the mirror there keeps its hash.\<close>

definition standsApart ::
  "event_row list \<Rightarrow> edge_row list \<Rightarrow> (string \<Rightarrow> string \<Rightarrow> mirror_row list) \<Rightarrow> graph_env \<Rightarrow> string \<Rightarrow> string \<Rightarrow>
   string option list \<Rightarrow> user_graph \<times> 'p \<Rightarrow> bool" where
  "standsApart es ds rows env cid target hs s \<longleftrightarrow>
     canonical_events (fst s) = es \<and> policy_edges (fst s) = ds \<and> graph_ok env (fst s) \<and>
     (\<forall>c x. (c, x) \<noteq> (cid, target) \<longrightarrow> mirrorRows c x (fst s) = rows c x) \<and>
     map em_last_projected_hash (mirrorRows cid target (fst s)) = hs"

lemma apart_provider [keeps_intro]: "keeps (standsApart es ds rows env cid target hs) (onProvider c)"
  by (rule keepsI) (auto simp: onProvider_def standsApart_def split: prod.splits)

lemma apart_read [keeps_intro]: "keeps P (readStore f)"
  by (simp add: readStore_def keeps_query)

lemma apart_attempt [keeps_intro]: "keeps P m \<Longrightarrow> keeps P (attempt m)"
  by (auto simp: keeps_def attempt_def split: prod.splits)

lemma apart_busy [keeps_intro]:
  "keeps (standsApart es ds rows env cid target hs) (onStore (ms_storeBusyOverlayCalendar (graphStore env') a cal))"
proof (rule keepsI)
  fix s :: "user_graph \<times> 'a"
  assume s: "standsApart es ds rows env cid target hs s"
  let ?g = "snd (storeBusyOverlayCalendar env' a cal (fst s))"
  have "graph_ok env ?g" using keepsD [OF keeps_calendars(1)] s by (simp add: standsApart_def)
  moreover have "canonical_events ?g = canonical_events (fst s)" "policy_edges ?g = policy_edges (fst s)"
    by (simp_all add: storeBusyOverlayCalendar_def andThen_def freshId_def insertOrReplaceCalendar_def)
  ultimately show "standsApart es ds rows env cid target hs
      (snd (onStore (ms_storeBusyOverlayCalendar (graphStore env') a cal) s))"
    using s by (simp add: standsApart_def onStore_def graphStore_def storeBusy_mirrors)
qed

lemma mirrorRows_updateOther:
  assumes "(c, x) \<noteq> (cid, target)"
  shows "mirrorRows c x (snd (updateMirrorState cid target u g)) = mirrorRows c x g"
  using mirrorRows_update_other [OF keepsMirrorKey_apply [of u] assms, of g] by (simp add: updateMirrorState_snd)

lemma orNullish_self: "orNullish x x = x"
  by (cases x) simp_all

lemma apart_update:
  assumes "\<forall>h \<in> set hs. mu_last_projected_hash u = None \<or> mu_last_projected_hash u = h"
  shows "keeps (standsApart es ds rows env cid target hs) (onStore (ms_updateMirrorState (graphStore env') cid target u))"
proof (rule keepsI)
  fix s :: "user_graph \<times> 'a"
  assume s: "standsApart es ds rows env cid target hs s"
  let ?g = "snd (updateMirrorState cid target u (fst s))"
  have "graph_ok env ?g" using keepsD [OF keeps_updateMirrorState] s by (simp add: standsApart_def)
  moreover have "canonical_events ?g = canonical_events (fst s)" "policy_edges ?g = policy_edges (fst s)"
    by (simp_all add: updateMirrorState_snd)
  moreover have "map em_last_projected_hash (mirrorRows cid target ?g) = hs"
    using s assms by (auto simp: standsApart_def mirrorRows_updateState applyMirrorUpdate_def orNullish_self)
  ultimately show "standsApart es ds rows env cid target hs
      (snd (onStore (ms_updateMirrorState (graphStore env') cid target u) s))"
    using s by (simp add: standsApart_def onStore_def graphStore_def mirrorRows_updateOther)
qed

lemma keeps_case_sum [keeps_intro]:
  "(\<And>e. v = Inl e \<Longrightarrow> keeps P (m e)) \<Longrightarrow> (\<And>x. v = Inr x \<Longrightarrow> keeps P (f x)) \<Longrightarrow>
   keeps P (case v of Inl e \<Rightarrow> m e | Inr x \<Rightarrow> f x)"
  by (cases v) simp_all

lemma keeps_case_prod [keeps_intro]:
  "(\<And>x y. v = (x, y) \<Longrightarrow> keeps P (f x y)) \<Longrightarrow> keeps P (case v of (x, y) \<Rightarrow> f x y)"
  by (cases v) simp

lemma apart_upsert:
  assumes h: "\<forall>h \<in> set hs. h = um_projected_hash msg"
    and key: "um_canonical_event_id msg = cid" "um_target_account_id msg = target"
  shows "keeps (standsApart es ds rows env cid target hs) (handleUpsert env' (graphStore env'') client msg)"
proof -
  have acts: "keeps (standsApart es ds rows env cid target hs)
      (onStore (ms_updateMirrorState (graphStore env'') cid target u))"
    if "mu_last_projected_hash u \<in> {None, um_projected_hash msg}" for u
    by (rule apart_update) (use h that in auto)
  have hash: "mu_last_projected_hash (activated env' msg) \<in> {None, um_projected_hash msg}"
    by (simp add: activated_def)
  have ins: "keeps (standsApart es ds rows env cid target hs) (insertMirrored env' (graphStore env'') client token msg cal)"
    for token cal
    unfolding insertMirrored_def insertWithCalendarRecovery_def key
    by (intro keeps_intro acts) (use hash in auto)
  have writes: "keeps (standsApart es ds rows env cid target hs) (writeMirrored env' (graphStore env'') client token msg pid cal)"
    for token pid cal
    unfolding writeMirrored_def key
    by (intro keeps_intro acts ins) (use hash in auto)
  show ?thesis
    unfolding handleUpsert_def resolveCalendar_def handleError_def key
    by (intro keeps_intro acts writes) (use hash in \<open>auto simp: noUpdate_def\<close>)
qed

section \<open>Success means ACTIVE\<close>

definition writesOrFails :: "process_result \<Rightarrow> bool" where
  "writesOrFails r \<longleftrightarrow> ps_action r \<noteq> Skipped \<and> ps_action r \<noteq> Deleted_event"

lemma outcome_any: "outcome P m (\<lambda>_ _. True) (\<lambda>_ _. True)"
  by (auto simp: outcome_def split: prod.split sum.split)

lemma insert_writes:
  "outcome P (insertMirrored env st client token msg cal) (\<lambda>r _. writesOrFails r) (\<lambda>_ _. True)"
  unfolding insertMirrored_def
  by (intro outcome_andThen [OF outcome_any] outcome_case_prod outcome_ret)
    (simp add: writesOrFails_def completed_def)

lemma write_writes:
  "outcome P (writeMirrored env st client token msg pid cal) (\<lambda>r _. writesOrFails r) (\<lambda>_ _. True)"
  unfolding writeMirrored_def
  by (intro outcome_if insert_writes outcome_andThen [OF outcome_any] outcome_case_sum outcome_throw outcome_ret)
    (simp_all add: writesOrFails_def completed_def)

lemma error_fails:
  "outcome P (handleError st err cid target) (\<lambda>r _. writesOrFails r) (\<lambda>_ _. True)"
  unfolding handleError_def
  by (intro outcome_if outcome_andThen [OF outcome_any] outcome_ret) (simp_all add: writesOrFails_def)

lemma attempted_writes:
  "outcome P (tryCatch (andThen a (\<lambda>token. andThen (b token) (\<lambda>cal. writeMirrored env st client token msg pid cal)))
     (\<lambda>err. handleError st err cid target)) (\<lambda>r _. writesOrFails r) (\<lambda>_ _. True)"
  by (intro outcome_tryCatch [where R = "\<lambda>_ _. True", OF _ error_fails] outcome_andThen [OF outcome_any] write_writes)

text \<open>A mirror that waits for this very message is ACTIVE once the message was processed with success.\<close>

lemma upsert_activates:
  assumes row: "ms_getMirror (graphStore env) (um_canonical_event_id msg) (um_target_account_id msg) g = Some m"
    and hash: "em_last_projected_hash m = um_projected_hash msg"
    and run: "handleUpsert env (graphStore env) client msg (g, p) = (Inr r, (g', p'))" and good: "ps_success r"
  obtains m' where "ms_getMirror (graphStore env) (um_canonical_event_id msg) (um_target_account_id msg) g' = Some m'"
    and "em_state m' = ACTIVE"
proof -
  let ?cid = "um_canonical_event_id msg" and ?a = "um_target_account_id msg"
  have "concerns (UPSERT_MIRROR msg) ?cid ?a" by (simp add: concerns_def)
  from message_settles [OF this row, of client p "Inr r" g' p'] run obtain m' where
    m': "ms_getMirror (graphStore env) ?cid ?a g' = Some m'" "settled r (em_state m) (em_state m')"
    by (auto simp: processMessage_def)
  have sup: "\<not> superseded msg m" using hash by (simp add: superseded_def)
  have "em_state m' = ACTIVE"
  proof (cases "alreadyWritten msg m")
    case True
    then have "g' = g" using run row sup
      by (simp add: handleUpsert_def readStore_def ret_def)
    with True m'(1) row show ?thesis by (simp add: alreadyWritten_def)
  next
    case fresh: False
    show ?thesis
    proof (cases "historical env msg m")
      case True
      then have "g' = snd (updateMirrorState ?cid ?a (activated env msg) g)" using run row sup fresh
        by (auto simp: handleUpsert_def readStore_def ret_def andThen_def onStore_def graphStore_def)
      then have "mirrorRows ?cid ?a g' = map (applyMirrorUpdate (activated env msg)) (mirrorRows ?cid ?a g)"
        by (simp add: mirrorRows_updateState)
      with m'(1) row show ?thesis
        by (auto simp: graphStore_def applyMirrorUpdate_def activated_def split: list.splits)
    next
      case False
      from attempted_writes [of "\<lambda>_. True" "onProvider (cp_getAccessToken client ?a)"
          "\<lambda>token. resolveCalendar (graphStore env) client token msg" env "graphStore env" client msg
          "em_provider_event_id m" ?cid ?a]
      have "writesOrFails r"
        by (rule outcome_Inr) (use run row sup fresh False in \<open>simp_all add: handleUpsert_def readStore_def\<close>)
      with m'(2) good show ?thesis
        by (auto simp: settled_def writesOrFails_def split: consumer_action.splits)
    qed
  qed
  with m'(1) show thesis by (rule that)
qed

section \<open>A batch at rest\<close>

text \<open>What processing writes with success leaves: hashes, events and edges stand, a mirror moves to ACTIVE at most.\<close>

definition activatedOnly :: "graph_env \<Rightarrow> user_graph \<Rightarrow> user_graph \<Rightarrow> bool" where
  "activatedOnly env g h \<longleftrightarrow>
     canonical_events h = canonical_events g \<and> policy_edges h = policy_edges g \<and> graph_ok env h \<and>
     (\<forall>c x. map em_last_projected_hash (mirrorRows c x h) = map em_last_projected_hash (mirrorRows c x g)) \<and>
     (\<forall>c x. mirrorRows c x h = mirrorRows c x g \<or> (\<exists>m. mirrorRows c x h = [m] \<and> em_state m = ACTIVE))"

lemma activatedOnly_refl: "graph_ok env g \<Longrightarrow> activatedOnly env g g"
  by (simp add: activatedOnly_def)

lemma activatedOnly_trans: "activatedOnly env f g \<Longrightarrow> activatedOnly env g h \<Longrightarrow> activatedOnly env f h"
  unfolding activatedOnly_def by metis

definition isActive :: "user_graph \<Rightarrow> upsert_message \<Rightarrow> bool" where
  "isActive g u \<longleftrightarrow>
     (\<exists>m. mirrorRows (um_canonical_event_id u) (um_target_account_id u) g = [m] \<and> em_state m = ACTIVE)"

definition awaits :: "user_graph \<Rightarrow> upsert_message \<Rightarrow> bool" where
  "awaits g u \<longleftrightarrow>
     map em_last_projected_hash (mirrorRows (um_canonical_event_id u) (um_target_account_id u) g) = [um_projected_hash u]"

lemma upsert_activated:
  assumes ok: "graph_ok env g" and row: "awaits g u"
    and run: "processMessage (env\<lparr> now_ms := t \<rparr>) (graphStore (env\<lparr> now_ms := t \<rparr>)) client (UPSERT_MIRROR u) (g, p) =
      (Inr r, (g', p'))" and good: "ps_success r"
  shows "activatedOnly env g g'" and "isActive g' u"
proof -
  let ?e = "env\<lparr> now_ms := t \<rparr>" and ?c = "um_canonical_event_id u" and ?x = "um_target_account_id u"
  from row obtain m where m: "mirrorRows ?c ?x g = [m]" "em_last_projected_hash m = um_projected_hash u"
    by (auto simp: awaits_def)
  have upsert: "handleUpsert ?e (graphStore ?e) client u (g, p) = (Inr r, (g', p'))"
    using run by (simp add: processMessage_def)
  have "standsApart (canonical_events g) (policy_edges g) (\<lambda>c x. mirrorRows c x g) env ?c ?x
      [um_projected_hash u] (g, p)"
    using ok row by (simp add: standsApart_def awaits_def)
  from keepsD [OF apart_upsert [OF _ refl refl] this, of ?e ?e client] upsert
  have apart: "standsApart (canonical_events g) (policy_edges g) (\<lambda>c x. mirrorRows c x g) env ?c ?x
      [um_projected_hash u] (g', p')" by simp
  have "ms_getMirror (graphStore ?e) ?c ?x g = Some m" using m(1) by (simp add: graphStore_def)
  from upsert_activates [OF this m(2) upsert good] obtain m' where
    "ms_getMirror (graphStore ?e) ?c ?x g' = Some m'" "em_state m' = ACTIVE" .
  then have m': "mirrorRows ?c ?x g' = [m']" "em_state m' = ACTIVE"
    using apart by (auto simp: standsApart_def graphStore_def split: list.splits)
  then show "isActive g' u" by (simp add: isActive_def)
  have "map em_last_projected_hash (mirrorRows c x g') = map em_last_projected_hash (mirrorRows c x g) \<and>
      (mirrorRows c x g' = mirrorRows c x g \<or> (\<exists>m. mirrorRows c x g' = [m] \<and> em_state m = ACTIVE))" for c x
    using apart m m' by (cases "(c, x) = (?c, ?x)") (auto simp: standsApart_def)
  then show "activatedOnly env g g'" using apart by (simp add: activatedOnly_def standsApart_def)
qed

lemma isActive_stays: "activatedOnly env g h \<Longrightarrow> isActive g u \<Longrightarrow> isActive h u"
  unfolding activatedOnly_def isActive_def by metis

lemma awaits_stays: "activatedOnly env g h \<Longrightarrow> awaits h u = awaits g u"
  by (simp add: activatedOnly_def awaits_def)

lemma consumeAll_activates:
  assumes "graph_ok env g" and "\<forall>msg \<in> snd ` set batch. \<exists>u. msg = UPSERT_MIRROR u \<and> awaits g u"
    and "consumeAll env clients batch (g, p) = (Inr rs, (g', p'))" and "\<forall>r \<in> set rs. ps_success r"
  shows "activatedOnly env g g' \<and> (\<forall>u. UPSERT_MIRROR u \<in> snd ` set batch \<longrightarrow> isActive g' u)"
  using assms
proof (induction batch arbitrary: g p rs)
  case Nil
  then show ?case by (simp add: ret_def activatedOnly_refl)
next
  case (Cons b batch)
  obtain t msg where b: "b = (t, msg)" by force
  from Cons.prems(2) b obtain u where u: "msg = UPSERT_MIRROR u" "awaits g u" by auto
  from Cons.prems(3) b u(1) obtain r g1 p1 rs' where
    one: "processMessage (env\<lparr> now_ms := t \<rparr>) (graphStore (env\<lparr> now_ms := t \<rparr>)) (clients (um_target_account_id u))
      (UPSERT_MIRROR u) (g, p) = (Inr r, (g1, p1))"
    and rest: "consumeAll env clients batch (g1, p1) = (Inr rs', (g', p'))" and rs: "rs = r # rs'"
    by (auto simp: andThen_result ret_run messageTarget_def)
  note step = upsert_activated [OF Cons.prems(1) u(2) one]
  from Cons.prems(4) rs have good: "ps_success r" "\<forall>r \<in> set rs'. ps_success r" by simp_all
  have "graph_ok env g1" using step(1) [OF good(1)] by (simp add: activatedOnly_def)
  moreover have "\<forall>msg \<in> snd ` set batch. \<exists>u. msg = UPSERT_MIRROR u \<and> awaits g1 u"
    using Cons.prems(2) awaits_stays [OF step(1) [OF good(1)]] by auto
  ultimately have ih: "activatedOnly env g1 g' \<and> (\<forall>u. UPSERT_MIRROR u \<in> snd ` set batch \<longrightarrow> isActive g' u)"
    using Cons.IH rest good(2) by blast
  with step [OF good(1)] have "activatedOnly env g g'" by (blast intro: activatedOnly_trans)
  moreover have "isActive g' u" using ih step(2) [OF good(1)] by (blast intro: isActive_stays)
  ultimately show ?case using ih b u(1) by auto
qed

section \<open>Redelivery\<close>

definition projectionOf :: "graph_env \<Rightarrow> canonical_event \<Rightarrow> edge_row list \<Rightarrow> queue_message \<Rightarrow> bool" where
  "projectionOf env ev edges msg \<longleftrightarrow> (\<exists>e \<in> set edges. \<exists>p cal.
     compileProjection ev (pe_detail_level e) = Some p \<and> msg = UPSERT_MIRROR (upsertFor env ev e p cal))"

lemma sends_projections:
  "stays (sendsOnly (projectionOf env ev edges)) (sumOver edges (projectEdge env opts ev endMs))"
proof -
  have "stays (sendsOnly (projectionOf env ev edges)) (projectEdge env opts ev endMs e)" if "e \<in> set edges" for e
    unfolding projectEdge_def Let_def
    by (intro sends.stays_rules sends_tables sends_enqueue | use that in \<open>auto simp: projectionOf_def\<close>)+
  then show ?thesis by (intro sends.stays_sumOver)
qed

lemma redelivery_silent:
  assumes ok: "graph_ok env s" and ids: "inj (ulid env)"
    and first: "handleCreated env acct d s = (Inr cid, s1)"
    and targets: "distinct (map pe_to_account_id (edgesFrom acct s1))"
    and projected: "projectAndEnqueue env cid acct noOpts s1 = (Inr n, s2)"
    and batch: "snd ` set batch = set (sentBetween s1 s2)"
    and consumed: "consumeAll env clients batch (s2, p) = (Inr rs, (s3, p'))" and good: "\<forall>r \<in> set rs. ps_success r"
    and later: "env' = env\<lparr> now_ms := now' \<rparr>"
  shows "\<exists>s4. handleCreated env' acct d s3 = (Inr cid, s4) \<and>
              projectAndEnqueue env' cid acct noOpts s4 = (Inr 0, s4)"
proof -
  have ok1: "graph_ok env s1" using keepsD [OF keeps_handleCreated ok] first by (metis snd_conv)
  have ok2: "graph_ok env s2" using keepsD [OF keeps_projectAndEnqueue ok1] projected by (metis snd_conv)
  obtain row evt where evt: "pd_event d = Some evt"
    and row: "eventsByOrigin acct (pd_origin_event_id d) s1 = [row]"
    and cid: "ce_canonical_event_id row = cid" and shows': "showsPayload evt row"
    and byid: "eventsWithId cid s1 = [row]"
    using eventHeld_row [OF ok1 handleCreated_held [OF ok first]] .
  let ?ev = "rowToCanonicalEvent row"
  have scope: "projectsOnly cid s1 s2"
    using staysD [OF scope_projectAndEnqueue, of cid s1 env acct noOpts] projected by simp
  have finished: "\<forall>e \<in> set (edgesFrom acct s1). edgeDone env ?ev (set (sentBetween s1 s2)) s2 e"
    using projectAndEnqueue_done [OF ok1 byid _ projected] by (simp add: noOpts_def lastEdges_distinct [OF targets])
  have "sendsOnly (projectionOf env ?ev (edgesFrom acct s1)) s1 s2"
    using staysD [OF sends_projections, of env ?ev "edgesFrom acct s1" s1 noOpts "parseCanonicalEventEndMs env ?ev"]
      projected byid by (simp add: projectAndEnqueue_run)
  note only = sendsOnly_sent [OF this]
  have "\<exists>u. msg = UPSERT_MIRROR u \<and> awaits s2 u" if "msg \<in> set (sentBetween s1 s2)" for msg
  proof -
    from only [OF that] obtain e q cal where e: "e \<in> set (edgesFrom acct s1)"
      and q: "compileProjection ?ev (pe_detail_level e) = Some q" and msg: "msg = UPSERT_MIRROR (upsertFor env ?ev e q cal)"
      unfolding projectionOf_def by blast
    from finished e obtain p' m where "compileProjection ?ev (pe_detail_level e) = Some p'"
      "mirrorRows (ev_canonical_event_id ?ev) (pe_to_account_id e) s2 = [m]"
      "em_last_projected_hash m = Some (edgeHash env ?ev e p')" unfolding edgeDone_def by blast
    with q have "awaits s2 (upsertFor env ?ev e q cal)" by (simp add: awaits_def upsertFor_def)
    with msg show ?thesis by blast
  qed
  then have "\<forall>msg \<in> snd ` set batch. \<exists>u. msg = UPSERT_MIRROR u \<and> awaits s2 u" unfolding batch by blast
  from consumeAll_activates [OF ok2 this consumed good]
  have acts: "activatedOnly env s2 s3" and rests: "\<And>u. UPSERT_MIRROR u \<in> set (sentBetween s1 s2) \<Longrightarrow> isActive s3 u"
    unfolding batch by blast+
  have tables: "canonical_events s3 = canonical_events s1" "policy_edges s3 = policy_edges s1" "graph_ok env s3"
    using scope acts by (simp_all add: projectsOnly_tables activatedOnly_def)
  have row3: "eventsByOrigin acct (pd_origin_event_id d) s3 = [row]"
    using row by (simp add: eventsByOrigin_def tables)
  have ok3': "graph_ok env' s3" and ids': "inj (ulid env')" using tables(3) ids by (simp_all add: later)
  let ?v = "ce_version row + 1"
  obtain s4 where run: "handleCreated env' acct d s3 = (Inr cid, s4)"
    and s4: "canonical_events s4 = updateRows (\<lambda>r. ce_canonical_event_id r = ce_canonical_event_id row)
           (setEventFields env' evt ?v) (canonical_events s3)"
      "policy_edges s4 = policy_edges s3" "event_mirrors s4 = event_mirrors s3"
    using handleCreated_existing [OF ok3' ids' evt row3] cid by simp
  let ?row' = "row\<lparr> ce_version := ?v, ce_updated_at := datetimeNow env' \<rparr>"
  have "eventsWithId cid s4 = map (setEventFields env' evt ?v) (eventsWithId cid s1)"
    using cid by (simp add: eventsWithId_def s4 tables filter_updateRows_same)
  then have byid4: "eventsWithId cid s4 = [?row']"
    using byid setEventFields_again [OF shows'] by simp
  have "edgeSettled env' (rowToCanonicalEvent ?row') s4 e" if e: "e \<in> set (edgesFrom acct s1)" for e
  proof (rule edgeSettled_transfer)
    from finished e obtain p m where p: "compileProjection ?ev (pe_detail_level e) = Some p"
      and m: "mirrorRows cid (pe_to_account_id e) s2 = [m]" "em_last_projected_hash m = Some (edgeHash env ?ev e p)"
      and sent: "em_state m = PENDING \<Longrightarrow> UPSERT_MIRROR (upsertFor env ?ev e p (em_target_calendar_id m)) \<in> set (sentBetween s1 s2)"
      unfolding edgeDone_def rowToCanonicalEvent_id cid by blast
    have "map em_last_projected_hash (mirrorRows cid (pe_to_account_id e) s3) = [Some (edgeHash env ?ev e p)]"
      using acts m by (simp add: activatedOnly_def)
    then obtain m' where m': "mirrorRows cid (pe_to_account_id e) s3 = [m']"
      "em_last_projected_hash m' = Some (edgeHash env ?ev e p)" by auto
    have "em_state m' \<noteq> PENDING"
    proof (cases "em_state m = PENDING")
      case True
      from rests [OF sent [OF this]] m'(1) show ?thesis by (auto simp: isActive_def upsertFor_def cid)
    next
      case False
      have "mirrorRows cid (pe_to_account_id e) s3 = mirrorRows cid (pe_to_account_id e) s2 \<or>
          (\<exists>m. mirrorRows cid (pe_to_account_id e) s3 = [m] \<and> em_state m = ACTIVE)"
        using acts unfolding activatedOnly_def by blast
      with False m(1) m'(1) show ?thesis by auto
    qed
    with p m' show "edgeSettled env ?ev s3 e" by (auto simp: edgeSettled_def cid)
  qed (simp_all add: s4 later)
  then have "projectAndEnqueue env' cid acct noOpts s4 = (Inr 0, s4)"
    by (intro projectAndEnqueue_settled [OF byid4]) (auto simp: edgesFrom_def s4 tables noOpts_def)
  with run show ?thesis by blast
qed

section \<open>A client whose calls succeed\<close>

definition healthy :: "'p calendar_provider \<Rightarrow> bool" where
  "healthy client \<longleftrightarrow> (\<forall>p.
     (\<forall>a. \<exists>x q. cp_getAccessToken client a p = (Inr x, q)) \<and>
     (\<forall>a c e. \<exists>x q. cp_insertEvent client a c e p = (Inr x, q)) \<and>
     (\<forall>a c i e. \<exists>x q. cp_patchEvent client a c i e p = (Inr x, q)) \<and>
     (\<forall>a n. \<exists>x q. cp_insertCalendar client a n p = (Inr x, q)))"

abbreviation succeeds :: "('m, 'p, 'a) consumer_op \<Rightarrow> bool" where
  "succeeds m \<equiv> outcome (\<lambda>_. True) m (\<lambda>_ _. True) (\<lambda>_ _. False)"

abbreviation goesWell :: "('m, 'p, process_result) consumer_op \<Rightarrow> bool" where
  "goesWell m \<equiv> outcome (\<lambda>_. True) m (\<lambda>r _. ps_success r) (\<lambda>_ _. False)"

lemma succeeds_provider: "(\<And>p. \<exists>x q. f p = (Inr x, q)) \<Longrightarrow> succeeds (onProvider f)"
proof (rule outcomeI)
  fix s r t assume ok: "\<And>p. \<exists>x q. f p = (Inr x, q)" and run: "onProvider f s = (r, t)"
  from ok obtain x q where "f (snd s) = (Inr x, q)" by blast
  with run show "case r of Inl e \<Rightarrow> False | Inr x \<Rightarrow> True" by (auto simp: onProvider_def)
qed

lemma healthy_calls:
  assumes "healthy client"
  shows "succeeds (onProvider (cp_getAccessToken client a))" "succeeds (onProvider (cp_insertEvent client a c e))"
    "succeeds (onProvider (cp_patchEvent client a c i e))" "succeeds (onProvider (cp_insertCalendar client a n))"
  using assms by (auto simp: healthy_def intro!: succeeds_provider)

lemma succeeds_store: "succeeds (onStore f)" "succeeds (readStore g)" "succeeds (ret x)"
  by (simp_all add: outcome_def onStore_def readStore_def ret_def)

lemma attempt_succeeds: "succeeds m \<Longrightarrow> outcome (\<lambda>_. True) (attempt m) (\<lambda>r _. \<exists>x. r = Inr x) (\<lambda>_ _. False)"
  by (rule outcome_attempt) (auto elim: outcome_weaken)

lemma case_succeeded:
  "(\<And>x. outcome (\<lambda>_. True) (f x) Q E) \<Longrightarrow> outcome (\<lambda>_. \<exists>x. r = Inr x) (case r of Inl e \<Rightarrow> m e | Inr x \<Rightarrow> f x) Q E"
  by (cases r) (auto simp: outcome_def)

lemma healthy_insert:
  assumes "healthy client"
  shows "goesWell (insertMirrored env st client token msg cal)"
proof -
  have "succeeds (insertWithCalendarRecovery st client token msg cal)"
    unfolding insertWithCalendarRecovery_def
    by (rule outcome_andThen [OF attempt_succeeds case_succeeded]) (rule healthy_calls(2) [OF assms] succeeds_store(3))+
  then show ?thesis
    unfolding insertMirrored_def
    by (rule outcome_andThen) (intro outcome_case_prod outcome_andThen [OF succeeds_store(1)] outcome_ret, simp add: completed_def)
qed

lemma healthy_write: "healthy client \<Longrightarrow> goesWell (writeMirrored env st client token msg pid cal)"
  unfolding writeMirrored_def
  by (intro outcome_if healthy_insert outcome_andThen [OF attempt_succeeds case_succeeded] healthy_calls
      outcome_andThen [OF succeeds_store(1)] outcome_ret) (simp_all add: completed_def)

lemma healthy_upsert:
  assumes "healthy client"
  shows "goesWell (handleUpsert env st client msg)"
proof -
  have cal: "succeeds (resolveCalendar st client token msg)" for token
    unfolding resolveCalendar_def
    by (intro outcome_if succeeds_store outcome_andThen [OF succeeds_store(2)] outcome_andThen [OF healthy_calls(4) [OF assms]]
        outcome_andThen [OF succeeds_store(1)])
  have body: "goesWell (tryCatch
      (andThen (onProvider (cp_getAccessToken client (um_target_account_id msg))) (\<lambda>token.
         andThen (resolveCalendar st client token msg) (\<lambda>cal. writeMirrored env st client token msg (em_provider_event_id m) cal)))
      (\<lambda>err. handleError st err (um_canonical_event_id msg) (um_target_account_id msg)))" for m
    by (intro outcome_tryCatch [where R = "\<lambda>_ _. False"] outcome_andThen [OF healthy_calls(1) [OF assms]]
        outcome_andThen [OF cal] healthy_write [OF assms]) (simp add: outcome_def)
  show ?thesis
    unfolding handleUpsert_def
    by (intro outcome_andThen [OF succeeds_store(2)] outcome_case_option outcome_if body
        outcome_andThen [OF succeeds_store(1)] outcome_ret) (simp_all add: completed_def)
qed

lemma healthy_consumed:
  assumes "healthy client" and "\<forall>msg \<in> snd ` set batch. \<exists>u. msg = UPSERT_MIRROR u"
  obtains rs s' where "consumeAll env (\<lambda>_. client) batch s = (Inr rs, s')" and "\<forall>r \<in> set rs. ps_success r"
  using assms(2)
proof (induction batch arbitrary: s thesis)
  case Nil
  then show ?case by (simp add: ret_def)
next
  case (Cons b batch)
  obtain t msg where b: "b = (t, msg)" by force
  with Cons.prems(2) obtain u where u: "msg = UPSERT_MIRROR u" by auto
  let ?e = "env\<lparr> now_ms := t \<rparr>"
  obtain q s1 where q: "handleUpsert ?e (graphStore ?e) client u s = (q, s1)" by (metis surj_pair)
  have "\<exists>r. q = Inr r \<and> ps_success r"
    using healthy_upsert [OF assms(1), of ?e "graphStore ?e" u] q unfolding outcome_def
    by (cases q) (metis (mono_tags, lifting) old.prod.case sum.simps(5,6))+
  then obtain r where r: "q = Inr r" "ps_success r" by blast
  obtain rs s' where "consumeAll env (\<lambda>_. client) batch s1 = (Inr rs, s')" "\<forall>r \<in> set rs. ps_success r"
    using Cons.IH Cons.prems(2) by (metis insertCI list.set_map list.simps(15) list.simps(9))
  then show ?case
    using r q by (intro Cons.prems(1) [of "r # rs" s']) (simp_all add: b u processMessage_def andThen_def ret_def)
qed

end
