(* ===== verification/Rival_Edges.thy ===== *)
theory Rival_Edges
  imports Projection_Laws
begin

text \<open>
  Two policies of an account can lead to one target: \<open>setPolicyEdges\<close> looks at the edges of its own policy alone, and
  the policy is part of the primary key of \<open>policy_edges\<close>. There is one mirror per event and target, so the two edges
  take turns at it: with contents that differ, every projection run writes it again.
\<close>

section \<open>Two edges to one target\<close>

lemma sumOver_append:
  "sumOver (xs @ ys) f s = (Inr n, t) \<longleftrightarrow>
   (\<exists>k u l. sumOver xs f s = (Inr k, u) \<and> sumOver ys f u = (Inr l, t) \<and> n = k + l)"
proof (induction xs arbitrary: s n)
  case (Cons x xs)
  then show ?case by (auto simp: andThen_result ret_run)
qed (auto simp: ret_run)

lemma projectEdge_hash:
  assumes "graph_ok env s" and "ev_canonical_event_id ev \<in> eventIds s"
    and p: "compileProjection ev (pe_detail_level e) = Some p" and run: "projectEdge env opts ev endMs e s = (Inr n, t)"
  obtains m where "mirrorRows (ev_canonical_event_id ev) (pe_to_account_id e) t = [m]"
    and "em_last_projected_hash m = Some (edgeHash env ev e p)"
  by (cases rule: projectEdge_cases [OF assms(1,2) p run]) (auto simp: skipWrite_def intro: that)

lemma projectEdge_rewrites:
  assumes "graph_ok env s" and "ev_canonical_event_id ev \<in> eventIds s"
    and p: "compileProjection ev (pe_detail_level e) = Some p" and run: "projectEdge env opts ev endMs e s = (Inr n, t)"
    and "mirrorRows (ev_canonical_event_id ev) (pe_to_account_id e) s = [m]"
    and "em_last_projected_hash m \<noteq> Some (edgeHash env ev e p)" and "\<not> isOutOfWindowProjection env endMs"
  shows "n = 1 \<and> (\<exists>cal. UPSERT_MIRROR (upsertFor env ev e p cal) \<in> set (sentBetween s t))"
proof (cases rule: projectEdge_cases [OF assms(1,2) p run])
  case (3 m' u)
  have "sentBetween s t = [UPSERT_MIRROR (upsertFor env ev e p (em_target_calendar_id m'))]"
    using enqueueUpsert_sent [of env _ endMs u "()" t] 3 by (simp add: sentBetween_def)
  with 3 show ?thesis by auto
qed (use assms in \<open>auto simp: skipWrite_def\<close>)

lemma sumOver_projectEdge_frame:
  assumes "graph_ok env s" and "ev_canonical_event_id ev \<in> eventIds s"
    and run: "sumOver edges (projectEdge env opts ev endMs) s = (r, t)"
  shows "graph_ok env t" and "ev_canonical_event_id ev \<in> eventIds t" and "appendOnly s t"
    and "x \<notin> pe_to_account_id ` set edges \<Longrightarrow> rowStays (ev_canonical_event_id ev) x s t"
proof -
  let ?F = "projectEdge env opts ev endMs"
  show "graph_ok env t"
    using keepsD [OF keeps_sumOver [where f = ?F and xs = edges, OF keeps_projectEdge] assms(1)] run by simp
  have "projectsOnly (ev_canonical_event_id ev) s t"
    using staysD [OF scope.stays_sumOver [where f = ?F and xs = edges, OF scope_projectEdge [OF refl]], of s] run by simp
  then show "ev_canonical_event_id ev \<in> eventIds t"
    using assms(2) by (simp add: eventIds_def projectsOnly_tables)
  show "appendOnly s t"
    using staysD [OF log.stays_sumOver [where f = ?F and xs = edges, OF stays_projection(1)], of s] run by simp
  show "rowStays (ev_canonical_event_id ev) x s t" if "x \<notin> pe_to_account_id ` set edges"
  proof -
    have "stays (rowStays (ev_canonical_event_id ev) x) (sumOver edges ?F)"
      using that by (intro row.stays_sumOver row_projectEdge) force
    from staysD [OF this, of s] run show ?thesis by simp
  qed
qed

lemma rival_edges_rewrite:
  assumes ok: "graph_ok env s" and ev: "eventsWithId cid s = [r]"
    and edges: "edgesFrom acct s = xs @ e # ys @ f # zs"
    and rivals: "pe_to_account_id f = pe_to_account_id e" "pe_to_account_id e \<notin> pe_to_account_id ` set ys"
    and p: "compileProjection (rowToCanonicalEvent r) (pe_detail_level e) = Some p"
      "compileProjection (rowToCanonicalEvent r) (pe_detail_level f) = Some q"
    and differ: "edgeHash env (rowToCanonicalEvent r) e p \<noteq> edgeHash env (rowToCanonicalEvent r) f q"
    and future: "\<not> isOutOfWindowProjection env (parseCanonicalEventEndMs env (rowToCanonicalEvent r))"
    and run: "projectAndEnqueue env cid acct opts s = (Inr n, t)"
  shows "0 < n \<and> (\<exists>cal. UPSERT_MIRROR (upsertFor env (rowToCanonicalEvent r) f q cal) \<in> set (sentBetween s t))"
proof -
  let ?ev = "rowToCanonicalEvent r"
  let ?F = "projectEdge env opts ?ev (parseCanonicalEventEndMs env ?ev)"
  have id: "ev_canonical_event_id ?ev \<in> eventIds s"
    using ev by (auto simp: eventsWithId_def eventIds_def filter_eq_Cons_iff)
  have all: "sumOver (xs @ [e] @ ys @ [f] @ zs) ?F s = (Inr n, t)" using run ev edges by (simp add: projectAndEnqueue_run)
  obtain k1 u1 k2 u2 k3 u3 k4 u4 k5 where s1: "sumOver xs ?F s = (Inr k1, u1)" and s2: "sumOver [e] ?F u1 = (Inr k2, u2)"
    and s3: "sumOver ys ?F u2 = (Inr k3, u3)" and s4: "sumOver [f] ?F u3 = (Inr k4, u4)"
    and s5: "sumOver zs ?F u4 = (Inr k5, t)" and n: "n = k1 + (k2 + (k3 + (k4 + k5)))"
    using all unfolding sumOver_append by blast
  note f1 = sumOver_projectEdge_frame [OF ok id s1]
  note f2 = sumOver_projectEdge_frame [OF f1(1,2) s2]
  note f3 = sumOver_projectEdge_frame [OF f2(1,2) s3]
  note f4 = sumOver_projectEdge_frame [OF f3(1,2) s4]
  note f5 = sumOver_projectEdge_frame [OF f4(1,2) s5]
  from s2 s4 have e: "?F e u1 = (Inr k2, u2)" and f: "?F f u3 = (Inr k4, u4)" by (auto simp: andThen_result ret_run)
  obtain m where m: "mirrorRows (ev_canonical_event_id ?ev) (pe_to_account_id e) u2 = [m]"
    "em_last_projected_hash m = Some (edgeHash env ?ev e p)"
    by (rule projectEdge_hash [OF f1(1,2) p(1) e])
  have "mirrorRows (ev_canonical_event_id ?ev) (pe_to_account_id f) u3 = [m]"
    using f3(4) [OF rivals(2)] m(1) rivals(1) by (simp add: rowStays_def)
  from projectEdge_rewrites [OF f3(1,2) p(2) f this _ future] m(2) differ
  obtain cal where k4: "k4 = 1" and msg: "UPSERT_MIRROR (upsertFor env ?ev f q cal) \<in> set (sentBetween u3 u4)" by auto
  have su3: "appendOnly s u3" using f1(3) f2(3) f3(3) log.chain by blast
  have "appendOnly s u4" using su3 f4(3) log.chain by blast
  from sentBetween_trans(1) [OF this f5(3)] sentBetween_trans(1) [OF su3 f4(3)] msg n k4 show ?thesis by auto
qed

end
