(* ===== verification/Delta_Landing.thy ===== *)
theory Delta_Landing
  imports Delta_Laws
begin

text \<open>
  What a batch of deltas does, whatever its deltas meet: a created or updated delta lands in the tables with one journal
  entry, a batch is its deltas one after the other with their results added up, and an exception a delta raises is
  recorded under its id without keeping the others from their turn.
\<close>

section \<open>An upsert lands\<close>

text \<open>The event a delta is about: the one with its origin key, else the orphan it takes over.\<close>

definition priorRow :: "string \<Rightarrow> string \<Rightarrow> user_graph \<Rightarrow> event_row option" where
  "priorRow acct oid s = (case eventsByOrigin acct oid s of r # _ \<Rightarrow> Some r | [] \<Rightarrow> findLegacyRebindCandidate s acct oid)"

text \<open>
  The event is there once and shows the payload; it kept its id and rose by one version, or it is new; every other
  event stands; the journal has one more entry, which names it.
\<close>

definition landed ::
  "string \<Rightarrow> string \<Rightarrow> delta_event \<Rightarrow> user_graph \<Rightarrow> user_graph \<Rightarrow> string \<Rightarrow> bool" where
  "landed acct oid evt s t cid \<longleftrightarrow>
     (\<exists>row. eventsByOrigin acct oid t = [row] \<and> ce_canonical_event_id row = cid \<and> showsPayload evt row \<and>
        (case priorRow acct oid s of
           Some r \<Rightarrow> cid = ce_canonical_event_id r \<and> ce_version row = ce_version r + 1 \<and>
                     ce_created_at row = ce_created_at r
         | None \<Rightarrow> cid \<notin> eventIds s \<and> ce_version row = 1 \<and> ce_source row = ''provider'')) \<and>
     (\<forall>c. c \<noteq> cid \<longrightarrow> eventsWithId c t = eventsWithId c s) \<and>
     (\<exists>j. event_journal t = event_journal s @ [j] \<and> ej_canonical_event_id j = cid \<and>
        ej_actor j = providerActor acct \<and>
        ej_change_type j = (if priorRow acct oid s = None then ''created'' else ''updated''))"

lemma landed_same:
  "canonical_events u = canonical_events t \<Longrightarrow> event_journal u = event_journal t \<Longrightarrow>
   landed acct oid evt s u cid = landed acct oid evt s t cid"
  by (simp add: landed_def eventsByOrigin_def eventsWithId_def)

lemma landed_update:
  assumes ok: "graph_ok env s" and row: "eventsByOrigin acct oid s = [row]"
    and t: "canonical_events t = updateRows (\<lambda>r. ce_canonical_event_id r = ce_canonical_event_id row)
        (setEventFields env evt (ce_version row + 1)) (canonical_events s)"
      "event_journal t = event_journal s @ [j]" "ej_canonical_event_id j = ce_canonical_event_id row"
      "ej_actor j = providerActor acct" "ej_change_type j = ''updated''"
  shows "landed acct oid evt s t (ce_canonical_event_id row)"
proof -
  have prior: "priorRow acct oid s = Some row" by (simp add: priorRow_def row)
  have "eventsByOrigin acct oid t = [setEventFields env evt (ce_version row + 1) row]"
    using eventsByOrigin_update [OF row keepsEventKeys_set ok_events_distinct [OF ok], of env evt "ce_version row + 1"] t(1)
    by (simp add: eventsByOrigin_def)
  moreover have "eventsWithId c t = eventsWithId c s" if "c \<noteq> ce_canonical_event_id row" for c
    unfolding eventsWithId_def t(1) by (rule filter_updateRows_disjoint) (use that in auto)
  ultimately show ?thesis using t(2-5) by (simp add: landed_def prior)
qed

lemma landed_rebind:
  assumes ok: "graph_ok env s" and none: "eventsByOrigin acct oid s = []"
    and cand: "findLegacyRebindCandidate s acct oid = Some row"
    and run: "rebindEventRow (ce_canonical_event_id row) acct (setEventFields env evt (ce_version row + 1)) s = (Inr u, v)"
    and t: "canonical_events t = canonical_events v"
      "event_journal t = event_journal s @ [j]" "ej_canonical_event_id j = ce_canonical_event_id row"
      "ej_actor j = providerActor acct" "ej_change_type j = ''updated''"
  shows "landed acct oid evt s t (ce_canonical_event_id row)"
proof -
  have prior: "priorRow acct oid s = Some row" by (simp add: priorRow_def none cand)
  have "eventsByOrigin acct oid t = [(setEventFields env evt (ce_version row + 1) row)\<lparr> ce_origin_account_id := acct \<rparr>]"
    using rebind_held [OF ok none cand keepsEventKeys_set run] t(1) by (simp add: eventsByOrigin_def)
  moreover have v: "canonical_events v = updateRows (\<lambda>r. ce_canonical_event_id r = ce_canonical_event_id row)
      (\<lambda>r. (setEventFields env evt (ce_version row + 1) r)\<lparr> ce_origin_account_id := acct \<rparr>) (canonical_events s)"
    using run by (auto simp: rebindEventRow_def split: if_splits)
  have "eventsWithId c t = eventsWithId c s" if "c \<noteq> ce_canonical_event_id row" for c
    unfolding eventsWithId_def t(1) v by (rule filter_updateRows_disjoint) (use that in auto)
  ultimately show ?thesis using t(2-5) by (simp add: landed_def prior)
qed

lemma landed_new:
  assumes none: "eventsByOrigin acct oid s = []" "findLegacyRebindCandidate s acct oid = None" and fresh: "cid \<notin> eventIds s"
    and t: "canonical_events t = canonical_events s @ [newEventRow env cid acct oid evt]"
      "event_journal t = event_journal s @ [j]" "ej_canonical_event_id j = cid"
      "ej_actor j = providerActor acct" "ej_change_type j = ''created''"
  shows "landed acct oid evt s t cid"
proof -
  let ?row = "newEventRow env cid acct oid evt"
  have prior: "priorRow acct oid s = None" by (simp add: priorRow_def none)
  have "eventsByOrigin acct oid t = [?row]"
    using none(1) by (simp add: eventsByOrigin_def t(1)) (simp add: newEventRow_def)
  moreover have "eventsWithId c t = eventsWithId c s" if "c \<noteq> cid" for c
    using that by (simp add: eventsWithId_def t(1)) (simp add: newEventRow_def)
  moreover have "ce_canonical_event_id ?row = cid" "ce_version ?row = 1" "ce_source ?row = ''provider''"
    by (simp_all add: newEventRow_def)
  ultimately show ?thesis using t(2-5) fresh by (simp add: landed_def prior)
qed

lemma rebind_free:
  assumes "graph_ok env s" and none: "eventsByOrigin acct oid s = []"
    and cand: "findLegacyRebindCandidate s acct oid = Some row"
  shows "\<exists>v. rebindEventRow (ce_canonical_event_id row) acct f s = (Inr (), v) \<and> event_journal v = event_journal s"
proof -
  have "ce_origin_event_id r = oid" if "r \<in> set (canonical_events s)" "ce_canonical_event_id r = ce_canonical_event_id row" for r
    using legacy_candidate(1,2) [OF cand] distinct_key_eq [OF ok_events_distinct [OF assms(1)] that(1), of row] that(2) by simp
  then have "\<not> (\<exists>r \<in> set (canonical_events s). \<exists>q \<in> set (canonical_events s).
      ce_canonical_event_id r = ce_canonical_event_id row \<and> ce_canonical_event_id q \<noteq> ce_canonical_event_id row \<and>
      ce_origin_account_id q = acct \<and> ce_origin_event_id q = ce_origin_event_id r)"
    using none by (auto simp: eventsByOrigin_def filter_empty_conv)
  then show ?thesis by (auto simp: rebindEventRow_def)
qed

lemma rebind_journalled:
  fixes f :: "unit \<Rightarrow> 'a graph_op"
  assumes ok: "graph_ok env s" and ids: "inj (ulid env)" and none: "eventsByOrigin acct oid s = []"
    and cand: "findLegacyRebindCandidate s acct oid = Some row"
  obtains t where "andThen (rebindEventRow (ce_canonical_event_id row) acct (setEventFields env evt (ce_version row + 1))) (\<lambda>_.
      andThen (writeJournal env (ce_canonical_event_id row) ''updated'' (providerActor acct) p None) f) s = f () t"
    and "landed acct oid evt s t (ce_canonical_event_id row)"
proof -
  let ?f = "setEventFields env evt (ce_version row + 1)"
  obtain v where v: "rebindEventRow (ce_canonical_event_id row) acct ?f s = (Inr (), v)" "event_journal v = event_journal s"
    using rebind_free [OF ok none cand] by blast
  have "graph_ok env v" using keepsD [OF keeps_rebindEventRow [OF keepsEventKeys_set] ok] v(1) by (metis snd_conv)
  note j = writeJournal_run [OF this ids, of "ce_canonical_event_id row" "''updated''" "providerActor acct" p]
  let ?t = "v\<lparr> id_seq := id_seq v + 1, event_journal := event_journal v @
      [journalEntry env (id_seq v) (ce_canonical_event_id row) ''updated'' (providerActor acct) p] \<rparr>"
  show thesis
  proof (rule that)
    have a: "andThen (rebindEventRow (ce_canonical_event_id row) acct ?f) g s = g () v" for g :: "unit \<Rightarrow> 'a graph_op"
      by (simp only: andThen_def v(1)) simp
    have b: "andThen (writeJournal env (ce_canonical_event_id row) ''updated'' (providerActor acct) p None) f v = f () ?t"
      by (simp only: andThen_def j) simp
    show "andThen (rebindEventRow (ce_canonical_event_id row) acct ?f) (\<lambda>_.
      andThen (writeJournal env (ce_canonical_event_id row) ''updated'' (providerActor acct) p None) f) s = f () ?t"
      by (simp only: a b)
    show "landed acct oid evt s ?t (ce_canonical_event_id row)"
      by (rule landed_rebind [OF ok none cand v(1)]) (simp add: v(2) journalEntry_def)+
  qed
qed

lemma handleCreated_lands:
  assumes ok: "graph_ok env s" and ids: "inj (ulid env)" and evt: "pd_event d = Some evt"
    and fresh: "generateId ''event'' (ulid env (id_seq s)) \<notin> eventIds s"
  obtains cid t where "handleCreated env acct d s = (Inr cid, t)" and "landed acct (pd_origin_event_id d) evt s t cid"
proof (cases rule: eventsByOrigin_cases [OF ok, of acct "pd_origin_event_id d"])
  case (2 row)
  note run = handleCreated_existing [OF ok ids evt 2(1)]
  show thesis by (rule that [OF run], rule landed_update [OF ok 2(1)]) (simp add: journalEntry_def)+
next
  case 1
  show thesis
  proof (cases "findLegacyRebindCandidate s acct (pd_origin_event_id d)")
    case (Some row)
    obtain t where "handleCreated env acct d s = ret (ce_canonical_event_id row) t"
      and "landed acct (pd_origin_event_id d) evt s t (ce_canonical_event_id row)"
      using rebind_journalled [OF ok ids 1(1) Some, of evt
          "JObj [(''origin_event_id'', JStr (pd_origin_event_id d)), (''dedup'', JBool True),
                 (''legacy_rebind_from'', JStr (ce_origin_account_id row))]" "\<lambda>_. ret (ce_canonical_event_id row)"]
      by (auto simp: handleCreated_def evt 1(1) Some Let_def)
    then show thesis by (intro that) (simp_all add: ret_run)
  next
    case None
    note run = handleCreated_new [OF ok ids evt 1(1) None refl fresh]
    let ?cid = "generateId ''event'' (ulid env (id_seq s))"
    show thesis
      by (rule that [OF run], rule landed_new [OF 1(1) None fresh]) (simp add: journalEntry_def)+
  qed
qed

lemma handleUpdated_lands:
  assumes ok: "graph_ok env s" and ids: "inj (ulid env)" and evt: "pd_event d = Some evt"
    and fresh: "generateId ''event'' (ulid env (id_seq s)) \<notin> eventIds s"
  obtains cid t where "handleUpdated env acct d s = (Inr (Some cid), t)" and "landed acct (pd_origin_event_id d) evt s t cid"
proof (cases rule: eventsByOrigin_cases [OF ok, of acct "pd_origin_event_id d"])
  case (2 row)
  let ?u = "s\<lparr> canonical_events := updateRows (\<lambda>r. ce_canonical_event_id r = ce_canonical_event_id row)
           (setEventFields env evt (ce_version row + 1)) (canonical_events s) \<rparr>"
  let ?p = "updatePatch (pd_origin_event_id d) (ce_version row + 1) None"
  have "graph_ok env ?u" by (rule graph_ok_updateEvents [OF ok keepsEventKeys_set])
  note j = writeJournal_run [OF this ids, of "ce_canonical_event_id row" "''updated''" "providerActor acct" ?p]
  let ?t = "?u\<lparr> id_seq := id_seq s + 1, event_journal := event_journal s @
      [journalEntry env (id_seq s) (ce_canonical_event_id row) ''updated'' (providerActor acct) ?p] \<rparr>"
  have "handleUpdated env acct d s = (Inr (Some (ce_canonical_event_id row)), ?t)"
    using j by (simp add: handleUpdated_def evt 2(1) Let_def updateEventRow_def andThen_def ret_run)
  then show thesis by (rule that) (rule landed_update [OF ok 2(1)], (simp add: journalEntry_def)+)
next
  case 1
  show thesis
  proof (cases "findLegacyRebindCandidate s acct (pd_origin_event_id d)")
    case (Some row)
    have truth: "truthy (Some (ce_origin_account_id row))" using legacy_candidate(5) [OF Some] by simp
    obtain t where "handleUpdated env acct d s = ret (Some (ce_canonical_event_id row)) t"
      and "landed acct (pd_origin_event_id d) evt s t (ce_canonical_event_id row)"
      using rebind_journalled [OF ok ids 1(1) Some, of evt
          "updatePatch (pd_origin_event_id d) (ce_version row + 1) (Some (ce_origin_account_id row))"
          "\<lambda>_. ret (Some (ce_canonical_event_id row))"] truth
      by (auto simp: handleUpdated_def evt 1(1) Some Let_def)
    then show thesis by (intro that) (simp_all add: ret_run)
  next
    case None
    obtain cid t where "handleCreated env acct d s = (Inr cid, t)" "landed acct (pd_origin_event_id d) evt s t cid"
      by (rule handleCreated_lands [OF ok ids evt fresh])
    then show thesis by (intro that) (simp_all add: handleUpdated_def evt 1(1) None Let_def andThen_def ret_run)
  qed
qed

text \<open>The projection and the participants leave events and journal alone, whatever becomes of them.\<close>

definition sameRecords :: "user_graph \<Rightarrow> user_graph \<Rightarrow> bool" where
  "sameRecords s t \<longleftrightarrow> canonical_events t = canonical_events s \<and> event_journal t = event_journal s"

interpretation records: state_contract sameRecords
  by unfold_locales (auto simp: sameRecords_def)

lemma records_project: "stays sameRecords (projectAndEnqueue env cid acct opts)"
  using scope_projectAndEnqueue [of cid env acct opts]
  by (auto simp: stays_def sameRecords_def dest: projectsOnly_tables)

lemma records_participants: "stays sameRecords (recordParticipants env d cid)"
proof -
  have "stays sameRecords (insertOrIgnoreParticipant c h)"
    "stays sameRecords (modify (\<lambda>s. s\<lparr> event_participants := f s \<rparr>))"
    "stays sameRecords (modify (\<lambda>s. s\<lparr> relationships := g s \<rparr>))" for c h f g
    by (simp_all add: stays_def sameRecords_def insertOrIgnoreParticipant_def)
  then show ?thesis
    unfolding recordParticipants_def storeEventParticipants_def updateInteractions_def
    by (intro records.stays_rules)
qed

lemma afterWrite_records:
  obtains r u where "afterWrite env acct d cid res t = (Inr r, u)" and "sameRecords t u"
    and "counted r = counted res"
proof -
  obtain x v where p: "projectAndEnqueue env cid acct noOpts t = (x, v)" by force
  have v: "sameRecords t v" using staysD [OF records_project, of t env cid acct noOpts] p by simp
  obtain y w where q: "recordParticipants env d cid v = (y, w)" by force
  have w: "sameRecords v w" using staysD [OF records_participants, of v env d cid] q by simp
  show thesis
    using that p q v records.chain [OF v w]
    by (cases x; cases y) (auto simp: afterWrite_def orRecord_def Let_def ret_run counted_def)
qed

lemma upsert_lands:
  assumes ok: "graph_ok env s" and ids: "inj (ulid env)" and evt: "pd_event d = Some evt"
    and type: "pd_type d \<noteq> Delta_Deleted" and fresh: "generateId ''event'' (ulid env (id_seq s)) \<notin> eventIds s"
  obtains res t cid where "applyProviderDelta env acct [d] s = (Inr res, t)" and "counted res = 1"
    and "landed acct (pd_origin_event_id d) evt s t cid"
proof (cases "pd_type d")
  case Delta_Created
  obtain cid t where t: "handleCreated env acct d s = (Inr cid, t)" "landed acct (pd_origin_event_id d) evt s t cid"
    by (rule handleCreated_lands [OF ok ids evt fresh])
  obtain r u where u: "afterWrite env acct d cid (noResult\<lparr> ar_created := ar_created noResult + 1 \<rparr>) t = (Inr r, u)"
    "sameRecords t u" "counted r = counted (noResult\<lparr> ar_created := ar_created noResult + 1 \<rparr>)"
    by (rule afterWrite_records)
  have "applyProviderDelta env acct [d] s = (Inr r, u)"
    using t(1) u(1) by (simp add: applyProviderDelta_def applyDelta_def Delta_Created orRecord_def andThen_def ret_run)
  moreover have "counted r = 1" using u(3) by (simp add: counted_def noResult_def)
  ultimately show thesis
    using that t(2) u(2) landed_same [of u t] by (simp add: sameRecords_def)
next
  case Delta_Updated
  obtain cid t where t: "handleUpdated env acct d s = (Inr (Some cid), t)" "landed acct (pd_origin_event_id d) evt s t cid"
    by (rule handleUpdated_lands [OF ok ids evt fresh])
  obtain r u where u: "afterWrite env acct d cid (noResult\<lparr> ar_updated := ar_updated noResult + 1 \<rparr>) t = (Inr r, u)"
    "sameRecords t u" "counted r = counted (noResult\<lparr> ar_updated := ar_updated noResult + 1 \<rparr>)"
    by (rule afterWrite_records)
  have "applyProviderDelta env acct [d] s = (Inr r, u)"
    using t(1) u(1) by (simp add: applyProviderDelta_def applyDelta_def Delta_Updated orRecord_def andThen_def ret_run)
  moreover have "counted r = 1" using u(3) by (simp add: counted_def noResult_def)
  ultimately show thesis
    using that t(2) u(2) landed_same [of u t] by (simp add: sameRecords_def)
qed (use type in simp)

section \<open>A batch is its deltas one after the other\<close>

definition addResults :: "apply_result \<Rightarrow> apply_result \<Rightarrow> apply_result" where
  "addResults a b =
     \<lparr> ar_created = ar_created a + ar_created b, ar_updated = ar_updated a + ar_updated b,
       ar_deleted = ar_deleted a + ar_deleted b, ar_mirrors_enqueued = ar_mirrors_enqueued a + ar_mirrors_enqueued b,
       ar_errors = ar_errors a @ ar_errors b \<rparr>"

lemma addResults_simps [simp]:
  "addResults a noResult = a" "addResults noResult a = a"
  "addResults (addResults a b) c = addResults a (addResults b c)"
  "addResults a (b\<lparr> ar_created := n \<rparr>) = (addResults a b)\<lparr> ar_created := ar_created a + n \<rparr>"
  "addResults a (b\<lparr> ar_updated := n \<rparr>) = (addResults a b)\<lparr> ar_updated := ar_updated a + n \<rparr>"
  "addResults a (b\<lparr> ar_deleted := n \<rparr>) = (addResults a b)\<lparr> ar_deleted := ar_deleted a + n \<rparr>"
  "addResults a (b\<lparr> ar_mirrors_enqueued := n \<rparr>) = (addResults a b)\<lparr> ar_mirrors_enqueued := ar_mirrors_enqueued a + n \<rparr>"
  "addResults a (b\<lparr> ar_errors := es \<rparr>) = (addResults a b)\<lparr> ar_errors := ar_errors a @ es \<rparr>"
  by (simp_all add: addResults_def noResult_def)

lemma addResults_fields [simp]:
  "ar_created (addResults a b) = ar_created a + ar_created b" "ar_updated (addResults a b) = ar_updated a + ar_updated b"
  "ar_deleted (addResults a b) = ar_deleted a + ar_deleted b" "ar_errors (addResults a b) = ar_errors a @ ar_errors b"
  "ar_mirrors_enqueued (addResults a b) = ar_mirrors_enqueued a + ar_mirrors_enqueued b"
  by (simp_all add: addResults_def)

text \<open>A step reports on top of what was reported before.\<close>

definition reports :: "(apply_result \<Rightarrow> apply_result graph_op) \<Rightarrow> bool" where
  "reports f \<longleftrightarrow> (\<forall>a b s r t. f b s = (Inr r, t) \<longrightarrow> f (addResults a b) s = (Inr (addResults a r), t))"

lemma reportsD: "reports f \<Longrightarrow> f b s = (Inr r, t) \<Longrightarrow> f (addResults a b) s = (Inr (addResults a r), t)"
  by (simp add: reports_def)

lemma reports_ret: "reports ret"
  by (simp add: reports_def ret_def)

lemma reports_bump:
  assumes "reports f" and "\<And>a b. g (addResults a b) = addResults a (g b)"
  shows "reports (\<lambda>res. f (g res))"
  using assms by (simp add: reports_def)

lemma reports_orRecord:
  assumes "\<And>x. reports (k x)"
  shows "reports (\<lambda>res. orRecord d res m (\<lambda>x. k x res))"
  using reportsD [OF assms] by (auto simp: reports_def orRecord_def split: prod.splits sum.splits)

lemma reports_afterWrite: "reports (afterWrite env acct d cid)"
proof -
  have inner: "reports (\<lambda>res. orRecord d res (recordParticipants env d cid) (\<lambda>_. ret res))"
    by (rule reports_orRecord) (rule reports_ret)
  have "reports (\<lambda>res. orRecord d (res\<lparr> ar_mirrors_enqueued := ar_mirrors_enqueued res + n \<rparr>) (recordParticipants env d cid)
      (\<lambda>_. ret (res\<lparr> ar_mirrors_enqueued := ar_mirrors_enqueued res + n \<rparr>)))" for n
    by (rule reports_bump [OF inner]) (simp add: add.assoc)
  from reports_orRecord [of "\<lambda>n res. orRecord d (res\<lparr> ar_mirrors_enqueued := ar_mirrors_enqueued res + n \<rparr>)
      (recordParticipants env d cid) (\<lambda>_. ret (res\<lparr> ar_mirrors_enqueued := ar_mirrors_enqueued res + n \<rparr>))", OF this]
  show ?thesis unfolding afterWrite_def Let_def .
qed

lemma reports_applyDelta: "reports (applyDelta env acct d)"
proof (cases "pd_type d")
  case Delta_Created
  have "reports (\<lambda>res. afterWrite env acct d cid (res\<lparr> ar_created := ar_created res + 1 \<rparr>))" for cid
    by (rule reports_bump [OF reports_afterWrite]) simp
  from reports_orRecord [of "\<lambda>cid res. afterWrite env acct d cid (res\<lparr> ar_created := ar_created res + 1 \<rparr>)", OF this]
  show ?thesis unfolding applyDelta_def Delta_Created delta_type.case .
next
  case Delta_Updated
  have "reports (\<lambda>res. case result of None \<Rightarrow> ret res
      | Some cid \<Rightarrow> afterWrite env acct d cid (res\<lparr> ar_updated := ar_updated res + 1 \<rparr>))" for result
    by (cases result) (simp_all add: reports_ret reports_bump [OF reports_afterWrite])
  from reports_orRecord [of "\<lambda>result res. case result of None \<Rightarrow> ret res
      | Some cid \<Rightarrow> afterWrite env acct d cid (res\<lparr> ar_updated := ar_updated res + 1 \<rparr>)", OF this]
  show ?thesis unfolding applyDelta_def Delta_Updated delta_type.case .
next
  case Delta_Deleted
  have "reports (\<lambda>res. case result of None \<Rightarrow> ret res
      | Some n \<Rightarrow> ret (res\<lparr> ar_deleted := ar_deleted res + 1, ar_mirrors_enqueued := ar_mirrors_enqueued res + n \<rparr>))" for result
    by (cases result) (simp_all add: reports_def ret_def add.assoc)
  from reports_orRecord [of "\<lambda>result res. case result of None \<Rightarrow> ret res
      | Some n \<Rightarrow> ret (res\<lparr> ar_deleted := ar_deleted res + 1, ar_mirrors_enqueued := ar_mirrors_enqueued res + n \<rparr>)", OF this]
  show ?thesis unfolding applyDelta_def Delta_Deleted delta_type.case .
qed

lemma reports_applyDeltas: "reports (applyDeltas env acct ds)"
proof (induction ds)
  case (Cons d ds)
  then show ?case
    using reportsD [OF reports_applyDelta] reportsD [OF Cons.IH]
    unfolding reports_def applyDeltas.simps andThen_result by blast
qed (simp add: reports_ret)

lemma applyDeltas_append: "applyDeltas env acct (as @ bs) = (\<lambda>res. andThen (applyDeltas env acct as res) (applyDeltas env acct bs))"
  by (induction as) (rule ext; simp add: andThen_assoc)+

lemma applyProviderDelta_append:
  "\<exists>r1 t r2 u. applyProviderDelta env acct as s = (Inr r1, t) \<and> applyProviderDelta env acct bs t = (Inr r2, u) \<and>
     applyProviderDelta env acct (as @ bs) s = (Inr (addResults r1 r2), u)"
proof -
  obtain r1 t where 1: "applyDeltas env acct as noResult s = (Inr r1, t)" using applyDeltas_total [of env acct as noResult s] by blast
  obtain r2 u where 2: "applyDeltas env acct bs noResult t = (Inr r2, u)" using applyDeltas_total [of env acct bs noResult t] by blast
  from reportsD [OF reports_applyDeltas 2, of r1] have "applyDeltas env acct bs r1 t = (Inr (addResults r1 r2), u)" by simp
  with 1 2 show ?thesis by (simp add: applyProviderDelta_def applyDeltas_append andThen_def)
qed

text \<open>How the handler of a delta ends: with the event it wrote, if any, or with an exception.\<close>

definition runHandler :: "graph_env \<Rightarrow> string \<Rightarrow> provider_delta \<Rightarrow> string option graph_op" where
  "runHandler env acct d =
     (case pd_type d of
        Delta_Created \<Rightarrow> andThen (handleCreated env acct d) (\<lambda>cid. ret (Some cid))
      | Delta_Updated \<Rightarrow> handleUpdated env acct d
      | Delta_Deleted \<Rightarrow> andThen (handleDeleted env acct d) (\<lambda>_. ret None))"

lemma thrown_recorded:
  assumes "runHandler env acct d s = (Inl e, t)"
  shows "applyProviderDelta env acct [d] s =
     (Inr (noResult\<lparr> ar_errors := [(pd_origin_event_id d, error_message e)] \<rparr>), t)"
  using assms
  by (auto simp: runHandler_def applyProviderDelta_def applyDelta_def orRecord_def andThen_def ret_def noResult_def
      split: delta_type.splits prod.splits sum.splits)

lemma projection_failure_recorded:
  assumes "runHandler env acct d s = (Inr (Some cid), t)" and "projectAndEnqueue env cid acct noOpts t = (Inl e, u)"
  shows "\<exists>r. applyProviderDelta env acct [d] s = (Inr r, u) \<and> counted r = 1 \<and>
     ar_errors r = [(pd_origin_event_id d, error_message e)]"
  using assms
  by (auto simp: runHandler_def applyProviderDelta_def applyDelta_def afterWrite_def orRecord_def andThen_def ret_def
      noResult_def counted_def split: delta_type.splits prod.splits sum.splits)

end
