(* ===== verification/Delivery_Samples.thy ===== *)
theory Delivery_Samples
  imports Redelivery Rival_Edges Delta_Landing Write_Samples
begin

text \<open>
  The first event of the sample graph billed, so that its deletion is refused; the sample event projected to one message, which a client whose calls succeed can consume, and the same account with a
  second policy that shows titles where the first shows only busy times.
\<close>

section \<open>A message to consume\<close>

lemma sampleClient_healthy: "healthy sampleClient"
  by (simp add: healthy_def sampleClient_def ret_def)

lemma sampleCreated_edges: "edgesFrom ''acc_a'' sampleCreated = [sampleEdge ''acc_a'' ''acc_b'']"
  using sampleGraph_edges by (simp add: edgesFrom_def sampleCreated_state)

lemma sample_digits:
  "readDigits 4 ''2025-06-16T10:00:00Z'' = Some (2025, ''-06-16T10:00:00Z'')"
  "readDigits 2 ''06-16T10:00:00Z'' = Some (6, ''-16T10:00:00Z'')" "readDigits 2 ''16T10:00:00Z'' = Some (16, ''T10:00:00Z'')"
  "readDigits 2 ''10:00:00Z'' = Some (10, '':00:00Z'')" "readDigits 2 ''00:00Z'' = Some (0, '':00Z'')"
  "readDigits 2 ''00Z'' = Some (0, ''Z'')"
  by code_simp+

lemma sampleEnd: "readTimestamp ''T'' ''2025-06-16T10:00:00Z'' = Some 1750068000000"
  by (simp add: readTimestamp_def readDate_def readYear_def readClock_def readSeconds_def readMillis_def
      readZone_def sample_digits daysInMonth_def daysBeforeMonth_def leapYear_def dayFromCivil_def dayFromYear_def msPerDay_def)

lemma hash_input_shape: "\<exists>r. projectionHashInput cid d k p = CHR ''{'' # r"
  unfolding projectionHashInput_def deterministicSerialize_def sortKeys.simps stringify.simps by blast

lemma sampleEnv_hash: "sha256 sampleEnv x = x"
  by (simp add: sampleEnv_def)

lemma sample_hash: "edgeHash sampleEnv ev e p \<noteq> ''h''"
  using hash_input_shape [of "ev_canonical_event_id ev" "pe_detail_level e" "pe_calendar_kind e" p]
  by (auto simp: edgeHash_def computeProjectionHash_def sampleEnv_hash)

text \<open>An event that shows the payload of the sample ends inside the window of the projection.\<close>

lemma sample_inWindow:
  assumes "showsPayload samplePayload row"
  shows "\<not> isOutOfWindowProjection sampleEnv (parseCanonicalEventEndMs sampleEnv (rowToCanonicalEvent row))"
proof -
  have "parseCanonicalEventEndMs sampleEnv (rowToCanonicalEvent row) = Some 1750068000000"
    using assms sampleEnd
    by (simp add: eventTs_def rowDateTime_def parseCanonicalEventEndMs_def rowToCanonicalEvent_def showsPayload_def samplePayload_def timed_def
        dateParse_def maxDateMs_def Let_def)
  then show ?thesis by (simp add: isOutOfWindowProjection_def sampleEnv_def dayMs_def)
qed

text \<open>The first delivery of the sample is projected to one message.\<close>

definition projectedSample :: user_graph where
  "projectedSample = snd (projectAndEnqueue sampleEnv ''evt_1'' ''acc_a'' noOpts sampleCreated)"

lemma projectedSample_sent:
  obtains n u where "projectAndEnqueue sampleEnv ''evt_1'' ''acc_a'' noOpts sampleCreated = (Inr n, projectedSample)"
    and "sentBetween sampleCreated projectedSample = [UPSERT_MIRROR u]"
proof -
  obtain row where row: "eventsWithId ''evt_1'' sampleCreated = [row]" "showsPayload samplePayload row"
    using eventHeld_row [OF sampleCreated_ok handleCreated_held [OF sampleGraph_ok sampleCreated_run]]
    by (auto simp: sampleDelta_def)
  obtain n where run: "projectAndEnqueue sampleEnv ''evt_1'' ''acc_a'' noOpts sampleCreated = (Inr n, projectedSample)"
    using sampleCreated_projected unfolding projectedSample_def by blast
  let ?e = "sampleEdge ''acc_a'' ''acc_b''" and ?ev = "rowToCanonicalEvent row"
  obtain p where p: "compileProjection ?ev (pe_detail_level ?e) = Some p"
    by (simp add: sampleEdge_def compileProjection_busy)
  have id: "ce_canonical_event_id row = ''evt_1''" using row(1) by (auto simp: eventsWithId_def filter_eq_Cons_iff)
  have held: "ev_canonical_event_id ?ev \<in> eventIds sampleCreated"
    using row(1) by (auto simp: eventsWithId_def eventIds_def filter_eq_Cons_iff)
  have one: "projectEdge sampleEnv noOpts ?ev (parseCanonicalEventEndMs sampleEnv ?ev) ?e sampleCreated = (Inr n, projectedSample)"
    using run row(1) by (auto simp: projectAndEnqueue_run sampleCreated_edges andThen_result ret_run)
  have "mirrorRows ''evt_1'' ''acc_b'' sampleCreated = [sampleMirror]"
    by (simp add: mirrorRows_def sampleCreated_state(3) sampleGraph_def sampleMirror_def)
  then have mirror: "mirrorRows (ev_canonical_event_id ?ev) (pe_to_account_id ?e) sampleCreated = [sampleMirror]"
    by (simp add: id sampleEdge_def)
  have stale: "em_last_projected_hash sampleMirror \<noteq> Some (edgeHash sampleEnv ?ev ?e p)"
    using sample_hash [of ?ev ?e p] by (simp add: sampleMirror_def)
  from projectEdge_rewrites [OF sampleCreated_ok held p one mirror stale sample_inWindow [OF row(2)]]
  have "n = 1" "\<exists>u. UPSERT_MIRROR u \<in> set (sentBetween sampleCreated projectedSample)" by auto
  moreover have "n = length (sentBetween sampleCreated projectedSample)"
    by (rule projectAndEnqueue_done(2) [OF sampleCreated_ok row(1) _ run]) (simp add: noOpts_def)
  ultimately obtain u where "sentBetween sampleCreated projectedSample = [UPSERT_MIRROR u]"
    by (auto simp: length_Suc_conv)
  with run show thesis by (rule that)
qed

text \<open>The sample with a second policy that shows titles to the same account.\<close>

definition titleEdge :: edge_row where
  "titleEdge = (sampleEdge ''acc_a'' ''acc_b'')\<lparr> pe_policy_id := ''pol_2'', pe_detail_level := ''TITLE'' \<rparr>"

definition rivalGraph :: user_graph where
  "rivalGraph = sampleGraph
     \<lparr> policies := policies sampleGraph @ [\<lparr> po_policy_id = ''pol_2'', po_name = ''Titles'', po_is_default = False,
                       po_created_at = ''2025-02-01 00:00:00'' \<rparr>],
       policy_edges := policy_edges sampleGraph @ [titleEdge] \<rparr>"

lemma rivalGraph_ok: "graph_ok sampleEnv rivalGraph"
  using sampleGraph_ok
  by (simp add: rivalGraph_def titleEdge_def graph_ok_parts sampleGraph_def emptyGraph_def sampleEvent_def newEventRow_def
        sampleMirror_def sampleEdge_def eventKey_def mirrorKey_def edgeKey_def validDetail_def validKind_def)

lemma rivalGraph_parts:
  "edgesFrom ''acc_a'' rivalGraph = [sampleEdge ''acc_a'' ''acc_b'', titleEdge]"
  "eventsWithId ''evt_1'' rivalGraph = [sampleEvent]"
  "\<not> isOutOfWindowProjection sampleEnv (parseCanonicalEventEndMs sampleEnv (rowToCanonicalEvent sampleEvent))"
  using sampleEvent_row sample_inWindow [of sampleEvent]
  by (simp_all add: edgesFrom_def rivalGraph_def sampleGraph_def sampleEdge_def titleEdge_def eventsWithId_def sampleEvent_def)

lemma rival_projections:
  obtains p q where "compileProjection (rowToCanonicalEvent sampleEvent) ''BUSY'' = Some p"
    and "compileProjection (rowToCanonicalEvent sampleEvent) ''TITLE'' = Some q"
    and "edgeHash sampleEnv (rowToCanonicalEvent sampleEvent) (sampleEdge ''acc_a'' ''acc_b'') p \<noteq>
         edgeHash sampleEnv (rowToCanonicalEvent sampleEvent) titleEdge q"
proof -
  obtain p where "compileProjection (rowToCanonicalEvent sampleEvent) ''BUSY'' = Some p"
    by (simp add: compileProjection_busy)
  moreover obtain q where "compileProjection (rowToCanonicalEvent sampleEvent) ''TITLE'' = Some q"
    using compileProjection_defined [of "rowToCanonicalEvent sampleEvent" "''TITLE''"] by (auto simp: validDetail_def)
  ultimately show thesis
    by (rule that) (simp add: edgeHash_def computeProjectionHash_def sampleEnv_hash projectionHashInput_eq sampleEdge_def titleEdge_def)
qed

section \<open>A refused deletion\<close>

lemma sampleGraph_ids: "eventIds sampleGraph = {''evt_1''}" "eventIds billedGraph = {''evt_1''}"
  by (simp_all add: eventIds_def billedGraph_def sampleGraph_def)

lemma sample_id_new: "generateId ''event'' (ulid sampleEnv (id_seq sampleGraph)) \<noteq> ''evt_1''"
proof -
  have "generateId ''event'' (showNat 0) = ''evt_0''" by code_simp
  then show ?thesis by (simp add: sampleEnv_def sampleGraph_def emptyGraph_def)
qed

lemma billedGraph_refused:
  obtains t where "handleDeleted sampleEnv ''acc_a'' (sampleDelta Delta_Deleted) billedGraph = (Inl ForeignKeyViolation, t)"
    and "canonical_events t = canonical_events billedGraph" and "id_seq t = id_seq sampleGraph" and "graph_ok sampleEnv t"
proof -
  obtain t where t: "handleDeleted sampleEnv ''acc_a'' (sampleDelta Delta_Deleted) billedGraph = (Inl ForeignKeyViolation, t)"
    "canonical_events t = canonical_events billedGraph" "id_seq t = id_seq billedGraph"
    using handleDeleted_blocked [OF sampleEnv_sends billedGraph_origin [of Delta_Deleted] refl billedGraph_held]
    by simp
  have "graph_ok sampleEnv (snd (handleDeleted sampleEnv ''acc_a'' (sampleDelta Delta_Deleted) billedGraph))"
    by (rule keepsD [OF keeps_handleDeleted billedGraph_ok])
  with t show thesis by (intro that) (simp_all add: billedGraph_def)
qed

end
