(* ===== verification/Spec2Isabelle.thy ===== *)
theory Spec2Isabelle
  imports Sample_Calls Graph_Events Graph_Mirrors Graph_Policies Graph_Maintenance Sample_People Write_Samples Sync_Samples Schedule_Samples Delivery_Samples
begin

text \<open>
  T-Minus keeps one calendar for a user out of several calendar accounts. A change at a provider reaches the
  system as a delta of one account; the user's Durable Object \<^verbatim>\<open>UserGraphDO\<close>
  (\<^verbatim>\<open>durable-objects/user-graph/src/index.ts\<close>) stores it as a canonical event, compiles it for every policy edge
  that leaves the account into the projection the target may see, and queues a message for each projection that
  changed; the write consumer (\<^verbatim>\<open>workers/write-consumer\<close>) turns the messages into events at the target provider,
  marked as managed, so that they come back classified as mirrors and not as new events. Around this core the same
  object keeps policies, constraints, scheduling sessions, allocations of time and relationships. Each calendar account
  has an \<^verbatim>\<open>AccountDO\<close> with its encrypted tokens, cursors, scopes and watch channels; the sync consumer
  (\<^verbatim>\<open>workers/sync-consumer\<close>) takes a token and the cursors from it, fetches the changes, sorts out the mirrors,
  hands the rest to the user's graph and moves the cursors. Two schedulers look for meeting times: the workflow of one
  user (\<^verbatim>\<open>workflows/scheduling\<close>) and the group scheduler (\<^verbatim>\<open>durable-objects/group-schedule\<close>); both ask the graphs for busy
  times, run the same slot solver, store a session with tentative holds and book the chosen candidate as an event.

  How the code is modelled. A method of the object is a function from the tables to an outcome and the tables it
  leaves (\<^verbatim>\<open>TM_Prelude\<close>): a return or a thrown error, with whatever was written before the throw kept, because the
  code runs outside transactions. Tables are lists of records with the columns of \<^verbatim>\<open>schema.ts\<close>; the statements
  check the keys and references the schema declares (\<^verbatim>\<open>Graph_Store\<close>). Text is the list of its UTF-8 bytes,
  JavaScript numbers are integers or rationals as the code uses them, times are milliseconds with the printed formats
  of the three clocks written out (\<^verbatim>\<open>Civil_Time\<close>). What is not in the repository is an argument: the clock, the ULID
  source, SHA-256, the date parser of the engine on text outside the printed format, the local time of a zone, the
  exponentials, the cipher, the token endpoints, the provider client and the fate of a call between workers. The clients in
  \<^verbatim>\<open>google-api.ts\<close> and \<^verbatim>\<open>microsoft-api.ts\<close> are among the arguments: their state is a type variable and what they wait
  inside a call is not seen. Deviations from the code: JSON numbers are integers, so the tests for whole numbers in
  constraints always hold; hours are exact rationals, where a total of exactly 1.2 times the target can be rated otherwise by
  the code's doubles (\<^verbatim>\<open>complianceStatus\<close>); an identifier is the next value of a sequence (\<^verbatim>\<open>freshId\<close>), and that the
  ULID source does not repeat itself is a hypothesis where it matters; the edges of an account come in the order of the
  table, where the query of the code names none.

  Theories and code.
  \<^item> \<^verbatim>\<open>Shared_Domain\<close>, \<^verbatim>\<open>Json_Text\<close>, \<^verbatim>\<open>Provider_Events\<close>, \<^verbatim>\<open>Provider_Ids\<close>: \<^verbatim>\<open>types.ts\<close>, \<^verbatim>\<open>policy.ts\<close>, \<^verbatim>\<open>hash.ts\<close>,
    \<^verbatim>\<open>id.ts\<close>, \<^verbatim>\<open>classify.ts\<close>, \<^verbatim>\<open>normalize*.ts\<close>.
  \<^item> \<^verbatim>\<open>Graph_Projection\<close>, \<^verbatim>\<open>Graph_Deltas\<close> and their laws: the projection engine and \<^verbatim>\<open>applyProviderDelta\<close>;
    \<^verbatim>\<open>Delta_Landing\<close>: what a delta leaves in the tables, and a batch as its deltas one after the other;
    \<^verbatim>\<open>Rival_Edges\<close>: two policies that lead to one target.
  \<^item> \<^verbatim>\<open>Graph_Events\<close>, \<^verbatim>\<open>Graph_Mirrors\<close>, \<^verbatim>\<open>Graph_Policies\<close>, \<^verbatim>\<open>Graph_Account\<close>, \<^verbatim>\<open>Graph_Maintenance\<close>: the methods on
    single events, mirrors, policies, accounts and repair.
  \<^item> \<^verbatim>\<open>Graph_Constraints\<close>, \<^verbatim>\<open>Intervals\<close>, \<^verbatim>\<open>Milestones\<close>, \<^verbatim>\<open>Availability\<close>, \<^verbatim>\<open>Availability_Laws\<close>: constraints and
    free-busy computation.
  \<^item> \<^verbatim>\<open>Graph_Sessions\<close>, \<^verbatim>\<open>Session_Machine\<close>: scheduling sessions and holds as a state machine.
  \<^item> \<^verbatim>\<open>Graph_Time\<close>, \<^verbatim>\<open>Graph_People\<close>, \<^verbatim>\<open>Reputation\<close>, \<^verbatim>\<open>Geo\<close>, \<^verbatim>\<open>Drift\<close>, \<^verbatim>\<open>Briefing\<close>: billing and relationships.
  \<^item> \<^verbatim>\<open>Write_Consumer\<close>, \<^verbatim>\<open>Write_Queue\<close>, \<^verbatim>\<open>Write_Laws\<close>: the consumer, the queue handler with its cached store, and
    what both guarantee; \<^verbatim>\<open>Redelivery\<close>: the loop from a delta over the messages it caused and their processing to the
    second delivery.
  \<^item> \<^verbatim>\<open>Account_Store\<close>, \<^verbatim>\<open>Account_Tokens\<close>, \<^verbatim>\<open>Account_Sync\<close>, \<^verbatim>\<open>Account_Calls\<close>: the tables, the envelope encryption, the
    methods and the routes of \<^verbatim>\<open>AccountDO\<close>; \<^verbatim>\<open>Account_Laws\<close> and \<^verbatim>\<open>Account_Cursors\<close>: unique keys, what opens the
    tokens, which cursor a write leaves where.
  \<^item> \<^verbatim>\<open>Sync_Consumer\<close>, \<^verbatim>\<open>Sync_Flow\<close>, \<^verbatim>\<open>Sync_Handlers\<close>: the world of the sync consumer with calls that may be lost, the
    fetch, the sorting and the two message handlers; \<^verbatim>\<open>Sync_Laws\<close>, \<^verbatim>\<open>Sync_Runs\<close>, \<^verbatim>\<open>Sync_Cursor\<close>: which ids a batch can
    bring, bounded retries, and a whole incremental sync.
  \<^item> \<^verbatim>\<open>Slot_Solver\<close>, \<^verbatim>\<open>Scheduling_Scores\<close>, \<^verbatim>\<open>Scheduling_Holds\<close>: \<^verbatim>\<open>solver.ts\<close>, \<^verbatim>\<open>fairness.ts\<close>, \<^verbatim>\<open>external-solver.ts\<close>,
    \<^verbatim>\<open>holds.ts\<close>; \<^verbatim>\<open>Scheduling_Calls\<close>: the graphs of all users, the queue and the registry, and a call that may be lost;
    \<^verbatim>\<open>Scheduling_Workflow\<close> and \<^verbatim>\<open>Group_Scheduling\<close>: the methods of the two schedulers.
  \<^item> \<^verbatim>\<open>Slot_Laws\<close>, \<^verbatim>\<open>Proposal_Laws\<close>, \<^verbatim>\<open>Group_Slots\<close>: which slots are proposed and why they meet no event, for one user
    and for a group; \<^verbatim>\<open>Score_Laws\<close>: the fairness adjustment; \<^verbatim>\<open>Scheduling_Laws\<close>, \<^verbatim>\<open>Group_Laws\<close>, \<^verbatim>\<open>Schedule_Promises\<close>,
    \<^verbatim>\<open>Commit_Laws\<close>, \<^verbatim>\<open>Group_Silence\<close>: what a commit books and closes, what a failed group commit leaves, and what
    becomes of holds and group meetings in the calendars.
  \<^item> \<^verbatim>\<open>Graph_Invariant\<close> holds the well-formedness of the tables every operation keeps; \<^verbatim>\<open>Sample_*\<close>,
    \<^verbatim>\<open>Write_Samples\<close>, \<^verbatim>\<open>Delivery_Samples\<close>, \<^verbatim>\<open>Sync_Samples\<close> and \<^verbatim>\<open>Schedule_Samples\<close> hold the concrete stores the properties are applied to.

  Loops are structural or have a measure. The two page loops of the sync consumer, which a provider could keep going for
  ever, stop after \<^verbatim>\<open>se_limit\<close> pages with the platform's own error for too many subrequests; no theorem needs a value
  for it. The window and limit constants are the code's.

  Not modelled: see the manifest. The other workers are HTTP entry points in front of these methods; the analytics
  modules compute advice from a list of events; feeds and CalDAV are text formats; the user interfaces keep no
  calendar state.
\<close>

text \<open>
  C1. On a well-formed store, with ids that never repeat and the next one not in use, a created
  or updated delta that carries its event always lands, whatever becomes of its projection:
  afterwards the store has exactly one event with the origin key of the delta and it shows the
  payload; if there was one before, or an orphan of an unlinked account to take over, it is that
  event with its id and creation time kept and its version one higher, else a new event of
  version 1; every other event stands, the journal has exactly one more entry, which names the
  event, the account and whether it was created or updated, and the delta is counted once.
\<close>

theorem upsert_delta_lands:
  assumes "graph_ok env s" and "inj (ulid env)" and "pd_event d = Some evt" and "pd_type d \<noteq> Delta_Deleted"
    and "generateId ''event'' (ulid env (id_seq s)) \<notin> eventIds s"
  shows "\<exists>res t cid. applyProviderDelta env acct [d] s = (Inr res, t) \<and> counted res = 1 \<and>
     landed acct (pd_origin_event_id d) evt s t cid"
  by (rule upsert_lands [OF assms]) blast

lemma upsert_delta_lands_witness:
  "\<exists>res t cid. applyProviderDelta sampleEnv ''acc_a'' [sampleDelta Delta_Updated] sampleGraph = (Inr res, t) \<and>
     counted res = 1 \<and> landed ''acc_a'' ''g1'' samplePayload sampleGraph t cid"
proof -
  have "generateId ''event'' (ulid sampleEnv (id_seq sampleGraph)) \<notin> eventIds sampleGraph"
    by (simp add: sample_id_new sampleGraph_ids)
  from upsert_delta_lands [OF sampleGraph_ok sampleEnv_ids _ _ this, of "sampleDelta Delta_Updated" samplePayload "''acc_a''"]
  show ?thesis by (simp add: sampleDelta_def)
qed

text \<open>
  C2. A created delta delivered twice converges, for an account no two of whose policy edges lead
  to the same target. From a well-formed store: once the first delivery was projected, and the
  write consumer has processed every message that run sent, in any order, repeated or not, at any
  times, with any provider clients, each with success, the second delivery, at any later time,
  returns the same canonical id and its projection run sends nothing and changes nothing.
\<close>

theorem redelivery_is_silent:
  assumes "graph_ok env s" and "inj (ulid env)"
    and "handleCreated env acct d s = (Inr cid, s1)"
    and "distinct (map pe_to_account_id (edgesFrom acct s1))"
    and "projectAndEnqueue env cid acct noOpts s1 = (Inr n, s2)"
    and "snd ` set batch = set (sentBetween s1 s2)"
    and "consumeAll env clients batch (s2, p) = (Inr rs, (s3, p'))" and "\<forall>r \<in> set rs. ps_success r"
  shows "\<exists>s4. handleCreated (env\<lparr> now_ms := now' \<rparr>) acct d s3 = (Inr cid, s4) \<and>
              projectAndEnqueue (env\<lparr> now_ms := now' \<rparr>) cid acct noOpts s4 = (Inr 0, s4)"
  by (rule redelivery_silent [OF assms refl])

lemma redelivery_is_silent_witness:
  "\<exists>u rs s3 p s4. sentBetween sampleCreated projectedSample = [UPSERT_MIRROR u] \<and>
     consumeAll sampleEnv (\<lambda>_. sampleClient) [(1750000030000, UPSERT_MIRROR u)] (projectedSample, []) = (Inr rs, (s3, p)) \<and>
     handleCreated (sampleEnv\<lparr> now_ms := 1750000060000 \<rparr>) ''acc_a'' (sampleDelta Delta_Created) s3 = (Inr ''evt_1'', s4) \<and>
     projectAndEnqueue (sampleEnv\<lparr> now_ms := 1750000060000 \<rparr>) ''evt_1'' ''acc_a'' noOpts s4 = (Inr 0, s4)"
proof -
  obtain n u where run: "projectAndEnqueue sampleEnv ''evt_1'' ''acc_a'' noOpts sampleCreated = (Inr n, projectedSample)"
    and sent: "sentBetween sampleCreated projectedSample = [UPSERT_MIRROR u]" by (rule projectedSample_sent)
  let ?batch = "[(1750000030000 :: int, UPSERT_MIRROR u)]"
  have "\<forall>msg \<in> snd ` set ?batch. \<exists>u. msg = UPSERT_MIRROR u" by simp
  then obtain rs s' where rs: "consumeAll sampleEnv (\<lambda>_. sampleClient) ?batch (projectedSample, []) = (Inr rs, s')"
    and good: "\<forall>r \<in> set rs. ps_success r" by (rule healthy_consumed [OF sampleClient_healthy])
  obtain s3 p where s': "s' = (s3, p)" by force
  have "snd ` set ?batch = set (sentBetween sampleCreated projectedSample)" by (simp add: sent)
  from redelivery_is_silent [OF sampleGraph_ok sampleEnv_ids sampleCreated_run sampleCreated_targets run this rs [unfolded s'] good]
  show ?thesis using sent rs s' by blast
qed

text \<open>
  C3. After a projection run that returned, from a well-formed store and called with any options
  except a request not to send waiting mirrors again (forceRequeuePending false): every policy
  edge leaving the account that no later edge to the same target follows has its mirror row with
  the hash of the current projection, and if that mirror is waiting for a write its message is
  among those this very run sent, whatever earlier runs lost. The returned count is the number of
  messages.
\<close>

theorem projection_loses_no_write:
  assumes "graph_ok env s" and "eventsWithId cid s = [r]"
    and "forceRequeuePending opts \<noteq> Some False"
    and "projectAndEnqueue env cid acct opts s = (Inr n, t)"
  shows "(\<forall>e \<in> set (lastEdges (edgesFrom acct s)).
            edgeDone env (rowToCanonicalEvent r) (set (sentBetween s t)) t e) \<and>
         n = length (sentBetween s t)"
  using projectAndEnqueue_done [OF assms] by blast

lemma projection_loses_no_write_witness:
  "edgeDone sampleEnv (rowToCanonicalEvent sampleEvent)
     (set (sentBetween rivalGraph (snd (projectAndEnqueue sampleEnv ''evt_1'' ''acc_a'' noOpts rivalGraph))))
     (snd (projectAndEnqueue sampleEnv ''evt_1'' ''acc_a'' noOpts rivalGraph)) titleEdge"
proof -
  obtain n where run: "projectAndEnqueue sampleEnv ''evt_1'' ''acc_a'' noOpts rivalGraph =
      (Inr n, snd (projectAndEnqueue sampleEnv ''evt_1'' ''acc_a'' noOpts rivalGraph))"
    using projectAndEnqueue_returns [OF sampleEnv_sends rivalGraph_ok] by blast
  from projection_loses_no_write [OF rivalGraph_ok rivalGraph_parts(2) _ run]
  show ?thesis by (simp add: rivalGraph_parts(1) noOpts_def titleEdge_def sampleEdge_def)
qed

text \<open>
  C4. Deleting an event that no time allocation refers to removes its row, all its mirrors and
  participants, sends exactly one DELETE_MIRROR per mirror, in order, writes one deletion entry
  in the journal and leaves every other event and its mirrors as they were.
\<close>

theorem delete_removes_event_and_mirrors:
  assumes "graph_ok env s" and "inj (ulid env)" and "\<forall>k. \<not> send_fails env k"
    and "eventsByOrigin acct (pd_origin_event_id d) s = [row]"
    and "cid = ce_canonical_event_id row"
    and "cid \<notin> ta_canonical_event_id ` set (time_allocations s)"
  shows "\<exists>t. handleDeleted env acct d s = (Inr (Some (length (mirrorsOf cid s))), t) \<and>
     eventsWithId cid t = [] \<and> mirrorsOf cid t = [] \<and>
     cid \<notin> ep_canonical_event_id ` set (event_participants t) \<and>
     sentBetween s t = map (\<lambda>m. DELETE_MIRROR (deleteMessageFor env cid m)) (mirrorsOf cid s) \<and>
     (\<exists>j. event_journal t = event_journal s @ [j] \<and> ej_canonical_event_id j = cid \<and> ej_change_type j = ''deleted'') \<and>
     (\<forall>c. c \<noteq> cid \<longrightarrow> mirrorsOf c t = mirrorsOf c s \<and> eventsWithId c t = eventsWithId c s)"
  using withoutEvent_gone [where cid = cid and s = "delivered env (deleteMessages env cid s) s"]
  by (simp add: handleDeleted_run [OF assms] deletion_views deleteMessages_def journalEntry_def)

lemma delete_removes_event_and_mirrors_witness:
  "\<exists>t. handleDeleted sampleEnv ''acc_a'' (sampleDelta Delta_Deleted) sampleGraph = (Inr (Some 1), t) \<and>
     eventsWithId ''evt_1'' t = [] \<and> mirrorsOf ''evt_1'' t = []"
  using delete_removes_event_and_mirrors [OF sampleGraph_ok sampleEnv_ids sampleEnv_sends
      sampleGraph_origin [of Delta_Deleted] refl sampleGraph_free]
  by (auto simp: sampleGraph_mirrors)

text \<open>
  C5. A deletion of an event that a time allocation refers to throws a foreign-key violation
  after the DELETE_MIRROR messages were sent and the mirror rows removed: the event stays in the
  store, without mirrors, and no journal entry records what happened.
\<close>

theorem delete_blocked_by_allocation:
  assumes "\<forall>k. \<not> send_fails env k"
    and "eventsByOrigin acct (pd_origin_event_id d) s = [row]"
    and "cid = ce_canonical_event_id row"
    and "cid \<in> ta_canonical_event_id ` set (time_allocations s)"
  shows "\<exists>t. handleDeleted env acct d s = (Inl ForeignKeyViolation, t) \<and>
     canonical_events t = canonical_events s \<and> mirrorsOf cid t = [] \<and>
     sentBetween s t = map (\<lambda>m. DELETE_MIRROR (deleteMessageFor env cid m)) (mirrorsOf cid s) \<and>
     event_journal t = event_journal s"
  by (simp add: handleDeleted_blocked [OF assms] mirrorsOf_def deleteRows_def sentBetween_def
        delivered_def deleteMessages_def)

lemma delete_blocked_by_allocation_witness:
  "\<exists>t. handleDeleted sampleEnv ''acc_a'' (sampleDelta Delta_Deleted) billedGraph = (Inl ForeignKeyViolation, t) \<and>
     canonical_events t = [sampleEvent] \<and> mirrorsOf ''evt_1'' t = [] \<and> event_journal t = []"
  using delete_blocked_by_allocation [OF sampleEnv_sends billedGraph_origin [of Delta_Deleted] refl billedGraph_held]
  by (auto simp: billedGraph_def sampleGraph_def emptyGraph_def)

text \<open>
  C6. A batch of deltas never throws and is its deltas one after the other. Applying two batches
  joined is applying the first and then the second to what the first left, with the counts added
  and the errors of the second after those of the first. A delta whose handler throws leaves what
  the handler had changed, counts for nothing and adds exactly one error, with its event id and
  the message of the exception; a delta that was written and whose projection throws is counted
  once and adds exactly one error of that kind.
\<close>

theorem failed_delta_stops_nothing:
  "(\<exists>r1 t r2 u. applyProviderDelta env acct as s = (Inr r1, t) \<and> applyProviderDelta env acct bs t = (Inr r2, u) \<and>
      applyProviderDelta env acct (as @ bs) s = (Inr (addResults r1 r2), u)) \<and>
   (\<forall>d e t. runHandler env acct d s = (Inl e, t) \<longrightarrow>
      applyProviderDelta env acct [d] s =
        (Inr (noResult\<lparr> ar_errors := [(pd_origin_event_id d, error_message e)] \<rparr>), t)) \<and>
   (\<forall>d cid t e u. runHandler env acct d s = (Inr (Some cid), t) \<and> projectAndEnqueue env cid acct noOpts t = (Inl e, u) \<longrightarrow>
      (\<exists>r. applyProviderDelta env acct [d] s = (Inr r, u) \<and> counted r = 1 \<and>
         ar_errors r = [(pd_origin_event_id d, error_message e)]))"
  using applyProviderDelta_append thrown_recorded projection_failure_recorded by blast

lemma failed_delta_stops_nothing_witness:
  "\<exists>t r u cid. applyProviderDelta sampleEnv ''acc_a'' [sampleDelta Delta_Deleted, sampleDelta Delta_Updated] billedGraph =
       (Inr (addResults (noResult\<lparr> ar_errors := [(''g1'', error_message ForeignKeyViolation)] \<rparr>) r), u) \<and>
     counted r = 1 \<and> landed ''acc_a'' ''g1'' samplePayload t u cid"
proof -
  obtain t where t: "handleDeleted sampleEnv ''acc_a'' (sampleDelta Delta_Deleted) billedGraph = (Inl ForeignKeyViolation, t)"
    and same: "canonical_events t = canonical_events billedGraph" "id_seq t = id_seq sampleGraph" "graph_ok sampleEnv t"
    by (rule billedGraph_refused)
  let ?n = "noResult\<lparr> ar_errors := [(''g1'', error_message ForeignKeyViolation)] \<rparr>"
  have "pd_type (sampleDelta Delta_Deleted) = Delta_Deleted" by (simp add: sampleDelta_def)
  then have "runHandler sampleEnv ''acc_a'' (sampleDelta Delta_Deleted) billedGraph = (Inl ForeignKeyViolation, t)"
    by (simp add: runHandler_def andThen_def t)
  moreover have "pd_origin_event_id (sampleDelta Delta_Deleted) = ''g1''" by (simp add: sampleDelta_def)
  ultimately have first: "applyProviderDelta sampleEnv ''acc_a'' [sampleDelta Delta_Deleted] billedGraph = (Inr ?n, t)"
    using failed_delta_stops_nothing [of sampleEnv "''acc_a''" "[]" billedGraph "[]"] by metis
  have "generateId ''event'' (ulid sampleEnv (id_seq t)) \<notin> eventIds t"
    using sampleGraph_ids(2) same(1) by (simp add: same(2) sample_id_new eventIds_def)
  then obtain r u cid where second: "applyProviderDelta sampleEnv ''acc_a'' [sampleDelta Delta_Updated] t = (Inr r, u)"
    "counted r = 1" "landed ''acc_a'' ''g1'' samplePayload t u cid"
    using upsert_lands [OF same(3) sampleEnv_ids, of "sampleDelta Delta_Updated" samplePayload "''acc_a''"]
    by (auto simp: sampleDelta_def)
  obtain r1 t1 r2 u2 where "applyProviderDelta sampleEnv ''acc_a'' [sampleDelta Delta_Deleted] billedGraph = (Inr r1, t1)"
    "applyProviderDelta sampleEnv ''acc_a'' [sampleDelta Delta_Updated] t1 = (Inr r2, u2)"
    "applyProviderDelta sampleEnv ''acc_a'' ([sampleDelta Delta_Deleted] @ [sampleDelta Delta_Updated]) billedGraph =
       (Inr (addResults r1 r2), u2)"
    using failed_delta_stops_nothing [of sampleEnv "''acc_a''" "[sampleDelta Delta_Deleted]" billedGraph
        "[sampleDelta Delta_Updated]"] by blast
  with first second show ?thesis by auto
qed

text \<open>
  C7. Two policies of an account may lead to one target, for which an event has one mirror. If
  their projections of an event inside the projection window hash differently (as with different
  detail levels), every projection run of that event, from any well-formed store with queues that
  accept, whatever was projected and written before, returns and sends at least one message,
  among them a write for the later of the two edges: the mirror never comes to rest.
\<close>

theorem rival_policies_never_settle:
  assumes "graph_ok env s" and "\<forall>k. \<not> send_fails env k" and "eventsWithId cid s = [r]"
    and "edgesFrom acct s = xs @ e # ys @ f # zs"
    and "pe_to_account_id f = pe_to_account_id e" and "pe_to_account_id e \<notin> pe_to_account_id ` set ys"
    and "compileProjection (rowToCanonicalEvent r) (pe_detail_level e) = Some p"
      "compileProjection (rowToCanonicalEvent r) (pe_detail_level f) = Some q"
    and "edgeHash env (rowToCanonicalEvent r) e p \<noteq> edgeHash env (rowToCanonicalEvent r) f q"
    and "\<not> isOutOfWindowProjection env (parseCanonicalEventEndMs env (rowToCanonicalEvent r))"
  shows "\<exists>n t cal. projectAndEnqueue env cid acct opts s = (Inr n, t) \<and> 0 < n \<and>
     UPSERT_MIRROR (upsertFor env (rowToCanonicalEvent r) f q cal) \<in> set (sentBetween s t)"
proof -
  obtain n t where run: "projectAndEnqueue env cid acct opts s = (Inr n, t)"
    using projectAndEnqueue_returns [OF assms(2,1)] by blast
  with rival_edges_rewrite [OF assms(1,3-10) run] show ?thesis by blast
qed

lemma rival_policies_never_settle_witness:
  "\<exists>n t u. projectAndEnqueue sampleEnv ''evt_1'' ''acc_a'' noOpts rivalGraph = (Inr n, t) \<and> 0 < n \<and>
     UPSERT_MIRROR u \<in> set (sentBetween rivalGraph t)"
proof -
  obtain p q where pq: "compileProjection (rowToCanonicalEvent sampleEvent) ''BUSY'' = Some p"
      "compileProjection (rowToCanonicalEvent sampleEvent) ''TITLE'' = Some q"
      "edgeHash sampleEnv (rowToCanonicalEvent sampleEvent) (sampleEdge ''acc_a'' ''acc_b'') p \<noteq>
       edgeHash sampleEnv (rowToCanonicalEvent sampleEvent) titleEdge q" by (rule rival_projections)
  have "edgesFrom ''acc_a'' rivalGraph = [] @ sampleEdge ''acc_a'' ''acc_b'' # [] @ titleEdge # []"
    by (simp add: rivalGraph_parts(1))
  from rival_policies_never_settle [OF rivalGraph_ok sampleEnv_sends rivalGraph_parts(2) this _ _ _ _ pq(3) rivalGraph_parts(3),
      of noOpts] pq(1,2)
  show ?thesis by (simp add: titleEdge_def sampleEdge_def) blast
qed

text \<open>
  C8. A BUSY projection depends on the times, the transparency and the two ids of the event
  alone: two events that agree on those give the same payload, so no title, description,
  location, visibility or status can reach the target calendar.
\<close>

theorem busy_projection_hides_details:
  assumes "ev_start e = ev_start f" and "ev_end e = ev_end f" and "ev_all_day e = ev_all_day f"
    and "ev_transparency e = ev_transparency f"
    and "ev_canonical_event_id e = ev_canonical_event_id f"
    and "ev_origin_account_id e = ev_origin_account_id f"
  shows "compileProjection e ''BUSY'' = compileProjection f ''BUSY'' \<and>
         (\<forall>p. compileProjection e ''BUSY'' = Some p \<longrightarrow>
            pr_summary p = ''Busy'' \<and> pr_description p = None \<and> pr_location p = None \<and>
            pr_visibility p = ''private'')"
  using assms by (simp add: compileProjection_busy)

lemma busy_projection_hides_details_witness:
  "compileProjection (rowToCanonicalEvent sampleEvent) ''BUSY'' =
   compileProjection (rowToCanonicalEvent (sampleEvent\<lparr> ce_title := Some ''Layoffs'', ce_location := None \<rparr>)) ''BUSY''"
  using busy_projection_hides_details [of "rowToCanonicalEvent sampleEvent"
      "rowToCanonicalEvent (sampleEvent\<lparr> ce_title := Some ''Layoffs'', ce_location := None \<rparr>)"]
  by (simp add: rowToCanonicalEvent_def rowDateTime_def)

text \<open>
  C9. Loop prevention for Google: an event that carries the private properties of a projection
  this system compiled is classified as a managed mirror, and its delta has no payload to
  canonicalise.
\<close>

theorem google_mirror_comes_back_as_mirror:
  assumes "compileProjection e detail = Some p" and "ge_private g = Some (pr_private p)"
  shows "classifyEvent g = Managed_Mirror \<and>
         pd_event (normalizeGoogleEvent g acct (classifyEvent g)) = None"
  using classify_google_mirror [OF assms] by (simp add: normalize_mirror_no_event)

lemma google_mirror_comes_back_as_mirror_witness:
  "classifyEvent (sampleGoogle\<lparr> ge_private := Some (pr_private sampleProjection) \<rparr>) = Managed_Mirror"
  using google_mirror_comes_back_as_mirror [OF sampleProjection_compiled,
      of "sampleGoogle\<lparr> ge_private := Some (pr_private sampleProjection) \<rparr>" "''acc_b''"] by simp

text \<open>
  C10. Loop prevention for Microsoft: the event sent for a projection is recognised when it comes
  back with either the open extension or the category it was sent with, and its delta has no
  payload.
\<close>

theorem microsoft_mirror_comes_back_as_mirror:
  assumes "compileProjection e detail = Some p"
    and "ms_extensions m = ms_extensions (projectToMicrosoftEvent p) \<or>
         ms_categories m = ms_categories (projectToMicrosoftEvent p)"
  shows "classifyMicrosoftEvent m = Managed_Mirror \<and>
         pd_event (normalizeMicrosoftEvent m acct (classifyMicrosoftEvent m)) = None"
  using classify_microsoft_mirror [OF assms(1) refl assms(2)] by (simp add: normalize_mirror_no_event)

lemma microsoft_mirror_comes_back_as_mirror_witness:
  "classifyMicrosoftEvent ((projectToMicrosoftEvent sampleProjection)\<lparr> ms_extensions := None \<rparr>) = Managed_Mirror"
  using microsoft_mirror_comes_back_as_mirror [OF sampleProjection_compiled,
      of "(projectToMicrosoftEvent sampleProjection)\<lparr> ms_extensions := None \<rparr>" "''acc_b''"] by simp

text \<open>
  C11. The projection hash of two projections is equal exactly when event id, detail level,
  calendar kind and every user-visible field agree, so a write is skipped only when the target
  already shows the same content. The digest is assumed not to collide on the two texts compared.
\<close>

theorem projection_hash_is_content:
  assumes "inj_on sha {projectionHashInput cid detail kind p, projectionHashInput cid' detail' kind' p'}"
  shows "computeProjectionHash sha cid detail kind p = computeProjectionHash sha cid' detail' kind' p' \<longleftrightarrow>
         cid = cid' \<and> detail = detail' \<and> kind = kind' \<and> sameContent p p'"
  by (simp add: computeProjectionHash_def inj_on_eq_iff [OF assms] projectionHashInput_eq)

lemma projection_hash_is_content_witness:
  "computeProjectionHash rev ''evt_1'' ''BUSY'' ''BUSY_OVERLAY'' sampleProjection \<noteq>
   computeProjectionHash rev ''evt_1'' ''BUSY'' ''BUSY_OVERLAY'' (sampleProjection\<lparr> pr_summary := ''Other'' \<rparr>)"
  using projection_hash_is_content [OF inj_on_rev, of "''evt_1''" "''BUSY''" "''BUSY_OVERLAY''" sampleProjection
      "''evt_1''" "''BUSY''" "''BUSY_OVERLAY''" "sampleProjection\<lparr> pr_summary := ''Other'' \<rparr>"]
  by (simp add: sameContent_def sampleProjection_def compileProjection_busy)

text \<open>
  C12. Canonicalising a provider event id always ends, is idempotent, never lengthens the id, and
  gives the same result for the plain ASCII id and for the id URL-encoded any number of times, so
  the two spellings of one mirror are one mirror.
\<close>

theorem provider_id_canonical_form:
  "canonicalizeProviderEventId (canonicalizeProviderEventId s) = canonicalizeProviderEventId s \<and>
   length (canonicalizeProviderEventId s) \<le> length s \<and>
   (asciiOnly s \<longrightarrow>
      canonicalizeProviderEventId ((encodeURIComponent ^^ n) s) = canonicalizeProviderEventId s)"
  using canonicalize_idem canonicalize_length canonicalize_encode_power by blast

lemma provider_id_canonical_form_witness:
  "canonicalizeProviderEventId ((encodeURIComponent ^^ 3) ''a/b=='') = canonicalizeProviderEventId ''a/b==''"
proof -
  have "asciiOnly ''a/b==''" by (simp add: asciiOnly_def)
  then show ?thesis by (rule provider_id_canonical_form [THEN conjunct2, THEN conjunct2, THEN mp])
qed

text \<open>
  C13. Unlinking an account that no time allocation holds and that was not unlinked before
  returns the exact counts and leaves no event, mirror, policy edge or calendar of the account;
  every mirror that is left is projectable, and exactly the outbound mirrors got a DELETE_MIRROR.
\<close>

theorem unlink_removes_account:
  assumes "graph_ok env s" and "inj (ulid env)" and "\<forall>k. \<not> send_fails env k" and "\<not> unlinkRecorded acct s"
    and "\<forall>a \<in> set (time_allocations s). ta_canonical_event_id a \<notin> set (originIds acct s)"
  shows "\<exists>t. unlinkAccount env acct s = (Inr (unlinkCounts acct s), t) \<and> accountGone acct t \<and>
     (\<forall>m \<in> set (event_mirrors t). projectable t m) \<and>
     sentBetween s t = map unlinkDelete (outboundMirrors acct s)"
  using unlink_run [OF assms] unlinked_gone [of acct env s] unlinked_sent [of s env acct]
    unlinked_projectable [of _ env acct s]
  by (auto simp: accountGone_def originIds_def projectable_def sentBetween_def)

lemma unlink_removes_account_witness:
  "\<exists>t. unlinkAccount sampleEnv ''acc_a'' sampleGraph = (Inr (unlinkCounts ''acc_a'' sampleGraph), t) \<and>
     accountGone ''acc_a'' t"
  using unlink_removes_account [OF sampleGraph_ok sampleEnv_ids sampleEnv_sends, of "''acc_a''"]
  by (auto simp: unlinkRecorded_def sampleGraph_def emptyGraph_def)

text \<open>
  C14. Every constraint in the table has one of the five kinds and a configuration its validator
  accepts, whatever is added, replaced or deleted and wherever a call throws.
\<close>

theorem stored_constraints_are_valid:
  assumes "constraints_valid env tz s"
  shows "constraints_valid env tz (snd (addConstraint env tz kind c f t s)) \<and>
         constraints_valid env tz (snd (updateConstraint env tz k c f t s)) \<and>
         constraints_valid env tz (snd (deleteConstraint env k s))"
  using keepsD [OF keeps_valid_add assms] keepsD [OF keeps_valid_update assms] keepsD [OF keeps_valid_delete assms]
  by blast

lemma stored_constraints_are_valid_witness:
  "constraints_valid sampleEnv knownZone (snd (deleteConstraint sampleEnv ''cst_2'' constrainedGraph))"
  using stored_constraints_are_valid [OF constrainedGraph_valid] by blast

text \<open>
  C15. In every run of the twelve scheduling-session methods, at any times and with any of them
  failing, a committed session stays committed, a committed, cancelled or expired one never
  becomes open again, a hold that left the held state never changes, and the session tables stay
  well formed.
\<close>

theorem sessions_never_reopen:
  assumes "session_run s t" and "sessions_ok s"
  shows "sessions_ok t \<and>
     (\<forall>r \<in> set (schedule_sessions s). \<exists>r' \<in> set (schedule_sessions t). ss_session_id r' = ss_session_id r \<and>
        (finished r \<longrightarrow> finished r') \<and> (ss_status r = ''committed'' \<longrightarrow> ss_status r' = ''committed'')) \<and>
     (\<forall>h \<in> set (schedule_holds s). sh_status h \<noteq> ''held'' \<longrightarrow> h \<in> set (schedule_holds t))"
  using session_run_contract [OF assms(1)] assms(2)
  unfolding sessionContract_def noReopening_def carriesOn_def by blast

lemma sessions_never_reopen_witness:
  "sessions_ok (runCommand sampleEnv (Get ''ses_1'') (runCommand sampleEnv (Cancel ''ses_1'') scheduledGraph))"
  using sessions_never_reopen [OF session_run.step [OF session_run.step [OF session_run.start]] scheduledGraph_ok]
  by blast

text \<open>
  C16. The expiry query compares an ISO text with the engine's datetime text, so a hold whose
  expiry has passed is not found on the UTC day it expires, however many hours ago that was; it
  is found on every later day.
\<close>

theorem hold_outlives_its_expiry:
  assumes "sh_expires_at h = toISOString e" and "plainYear e" and "plainYear (now_ms env)" and "e \<le> now_ms env"
    and "h \<in> set (schedule_holds s)" and "sh_status h = ''held''"
  shows "\<exists>hs. getExpiredHolds env s = (Inr hs, s) \<and>
     (h \<in> set hs \<longleftrightarrow> e div msPerDay < now_ms env div msPerDay)"
proof -
  have "e div msPerDay \<le> now_ms env div msPerDay" using assms(4) by (rule zdiv_mono1) (simp add: msPerDay_def)
  then consider "e div msPerDay = now_ms env div msPerDay" | "e div msPerDay < now_ms env div msPerDay" by linarith
  then have "toISOString e \<le> datetimeNow env \<longleftrightarrow> e div msPerDay < now_ms env div msPerDay"
    using iso_above_sql_same_day [OF assms(2), of "now_ms env"] iso_below_sql_later_day [OF assms(2,3)]
    by cases (auto simp: datetimeNow_def)
  with assms show ?thesis by (simp add: getExpiredHolds_def)
qed

lemma hold_outlives_its_expiry_witness:
  "\<exists>hs. getExpiredHolds sampleEnv scheduledGraph = (Inr hs, scheduledGraph) \<and> sampleHold \<notin> set hs"
proof -
  have "plainYear 1749990000000" "plainYear 1750000000000"
    by (simp_all add: plainYear_def msPerDay_def yearFromDay_def dayFromYear_def Let_def)
  then show ?thesis
    using hold_outlives_its_expiry [of sampleHold 1749990000000 sampleEnv scheduledGraph]
    by (auto simp: sampleHold_def sampleEnv_def scheduledGraph_def msPerDay_def)
qed

text \<open>
  C17. The free intervals of an availability query refine their specification: an instant of the
  range lies in a free interval exactly when no counted event covers it, it is inside some
  working-hours constraint (if there are any) read as local weekday and clock, and no cutoff,
  buffer or milestone day covers it. The zones have fixed offsets, the range is given as printed
  timestamps and the collation agrees with the text order on the starts.
\<close>

theorem free_time_is_free:
  assumes "computeAvailability env local collate q s = (Inr r, s')"
    and "rawIntervals env local q s = Inr raw" and "agrees collate (busyLo ` set raw)"
    and "expandBuffersToBusy env (constraintsOf ''buffer'' s) (occupyingEvents q s) = Inr buffers"
    and "printedRange q a b" and "a \<le> t" and "t < b"
    and "constraints_valid env tz s"
    and "\<forall>c \<in> set (constraintsOf ''working_hours'' s). \<exists>off. fixedOffset local (wh_timezone (workingHoursConfig c)) off"
  shows "freeAt (ar_free_intervals r) (toISOString t) \<longleftrightarrow> freeBySpec env local q s buffers t"
  by (rule free_refines [OF assms])

lemma free_time_is_free_witness:
  "\<exists>r. computeAvailability sampleEnv utcClock (\<lambda>x. x) sampleDay constrainedGraph = (Inr r, constrainedGraph) \<and>
     (freeAt (ar_free_intervals r) (toISOString 1750086000000) \<longleftrightarrow>
      freeBySpec sampleEnv utcClock sampleDay constrainedGraph [] 1750086000000)"
proof -
  obtain raw where raw: "rawIntervals sampleEnv utcClock sampleDay constrainedGraph = Inr raw" by (rule sampleDay_raw)
  then obtain r where run: "computeAvailability sampleEnv utcClock (\<lambda>x. x) sampleDay constrainedGraph = (Inr r, constrainedGraph)"
    by (simp add: computeAvailability_def Let_def)
  have "agrees (\<lambda>x. x) (busyLo ` set raw)" by (simp add: agrees_def)
  moreover have "expandBuffersToBusy sampleEnv (constraintsOf ''buffer'' constrainedGraph)
      (occupyingEvents sampleDay constrainedGraph) = Inr []"
    by (simp add: constrained_kinds expandBuffersToBusy_def)
  moreover have "\<forall>c \<in> set (constraintsOf ''working_hours'' constrainedGraph).
      \<exists>off. fixedOffset utcClock (wh_timezone (workingHoursConfig c)) off" using utcClock_fixed by blast
  ultimately have "freeAt (ar_free_intervals r) (toISOString 1750086000000) \<longleftrightarrow>
      freeBySpec sampleEnv utcClock sampleDay constrainedGraph [] 1750086000000"
    by (intro free_time_is_free [OF run raw _ _ sampleDay_printed _ _ constrainedGraph_valid]) simp_all
  with run show ?thesis by blast
qed

text \<open>
  C18. Every candidate of a session made by the greedy solver is a pair of times that do not
  overlap any event of a required account which the availability query of the window counts, when
  the busy texts of the window give instants in UTC to the second and the collation sorts them as
  texts.
\<close>

theorem session_proposals_avoid_events:
  assumes "createSession site p w = (Inr s, w')" and "\<not> truthy (st_endpoint site)" and "c \<in> set (sn_candidates s)"
    and "rawIntervals (st_env site) (st_local site) (sessionQuery p) (wd_graph w (ps_userId p)) = Inr raw"
    and "agrees (st_collate site) (busyLo ` set raw)" and "allStamped (st_env site) raw"
    and "dateParse (js_date (st_env site)) (ps_windowStart p) = Some a" "\<bar>a\<bar> \<le> maxDateMs"
      "dateParse (js_date (st_env site)) (ps_windowEnd p) = Some b" "\<bar>b\<bar> \<le> maxDateMs"
    and "e \<in> set (canonical_events (wd_graph w (ps_userId p)))" "occupies (sessionQuery p) e"
      "ce_origin_account_id e \<in> set (ps_requiredAccountIds p)"
  shows "apart (st_env site) (cd_start c) (cd_end c) e"
  by (rule session_avoids_events [OF assms])

lemma session_proposals_avoid_events_witness:
  "\<exists>s w' c. createSession sureSite sampleParams (schedWorld (\<lambda>_. bookedGraph)) = (Inr s, w') \<and>
     sn_candidates s = [c] \<and> apart sampleEnv (cd_start c) (cd_end c) bookedEvent"
proof -
  obtain s w' c where run: "createSession sureSite sampleParams (schedWorld (\<lambda>_. bookedGraph)) = (Inr s, w')"
    and c: "sn_candidates s = [c]" by (rule booked_session)
  have q: "aq_start (sessionQuery sampleParams) = toISOString nine" "aq_end (sessionQuery sampleParams) = toISOString halfPastTen"
    "aq_accounts (sessionQuery sampleParams) \<in> {Some [], Some [''acc_a'']}"
    by (simp_all add: sessionQuery_def sampleParams_def)
  have raw: "rawIntervals (st_env sureSite) (st_local sureSite) (sessionQuery sampleParams)
      (wd_graph (schedWorld (\<lambda>_. bookedGraph)) (ps_userId sampleParams)) = Inr [sampleBusy]"
    using sample_raw(1) [OF q] by (simp add: schedWorld_def)
  have "apart (st_env sureSite) (cd_start c) (cd_end c) bookedEvent"
    by (rule session_proposals_avoid_events [OF run _ _ raw, where a = nine and b = halfPastTen])
       (use c sample_stamped sample_raw(2) [OF q] in \<open>simp_all add: sampleParams_def schedWorld_def maxDateMs_def agrees_def\<close>)
  with run c show ?thesis by auto
qed

text \<open>
  C19. The greedy solver misses nothing: every slot on the half-hour grid of the window that ends
  within it and passes the hard constraints is proposed, or the solver returns as many proposals
  as were asked for and each scores at least as much.
\<close>

theorem solver_returns_the_best:
  fixes env :: graph_env and k :: nat
  defines "run \<equiv> \<lambda>input a. prepareRun env input a"
  assumes "dateParse (js_date env) (in_windowStart input) = Some a" "dateParse (js_date env) (in_windowEnd input) = Some b"
    and "0 \<le> n" and "a + int k * stepMs + in_durationMinutes input * 60000 \<le> b"
    and "admissible local (run input a) (a + int k * stepMs)"
  shows "candidateAt local (run input a) (a + int k * stepMs) \<in> set (greedySolver env local collate input n) \<or>
    length (greedySolver env local collate input n) = nat n \<and>
    (\<forall>c \<in> set (greedySolver env local collate input n).
       sd_score (candidateAt local (run input a) (a + int k * stepMs)) \<le> sd_score c)"
proof -
  have "sr_durationMs (prepareRun env input a) = in_durationMinutes input * 60000" by (simp add: prepareRun_def Let_def)
  then have "a + int k * stepMs \<in> set (slotStarts (sr_durationMs (prepareRun env input a)) b a)"
    using assms(5) unfolding slotStarts_iff by auto
  then have "candidateAt local (run input a) (a + int k * stepMs) \<in> set (allCandidates env local input)"
    using assms(2,3,6) by (auto simp: allCandidates_def Let_def run_def)
  with proposals_are_best [OF assms(4) this] show ?thesis by blast
qed

lemma solver_returns_the_best_witness:
  "candidateAt utcClock bookedRun ten \<in> set (greedySolver sampleEnv utcClock (\<lambda>x. x) bookedInput 5)"
proof -
  have slot: "nine + int 2 * stepMs = ten" by (simp add: stepMs_def SLOT_STEP_MINUTES_def)
  have ok: "admissible utcClock (prepareRun sampleEnv bookedInput nine) (nine + int 2 * stepMs)"
    unfolding bookedRun_def [symmetric] slot
    by (simp add: admissible_spec bookedRun_fields isBlockedByTrip_def busyBlocks_def nanLess_def)
  have "candidateAt utcClock (prepareRun sampleEnv bookedInput nine) (nine + int 2 * stepMs) \<in>
      set (greedySolver sampleEnv utcClock (\<lambda>x. x) bookedInput 5) \<or>
    length (greedySolver sampleEnv utcClock (\<lambda>x. x) bookedInput 5) = nat 5 \<and>
    (\<forall>c \<in> set (greedySolver sampleEnv utcClock (\<lambda>x. x) bookedInput 5).
       sd_score (candidateAt utcClock (prepareRun sampleEnv bookedInput nine) (nine + int 2 * stepMs)) \<le> sd_score c)"
    by (rule solver_returns_the_best [where b = halfPastTen, OF _ _ _ _ ok])
       (simp_all add: booked_window stepMs_def SLOT_STEP_MINUTES_def, simp add: bookedInput_def)
  then show ?thesis unfolding slot by (simp add: booked_solved bookedRun_def bookedSlot_def)
qed

text \<open>
  C20. Every candidate of a group session is free for all: whichever participant is taken, the
  times do not overlap any event of theirs that the availability query of the window counts,
  under the same condition on the texts.
\<close>

theorem group_proposals_avoid_events:
  assumes "createGroupSession site p w = (Inr s, w')" and "c \<in> set (gs_candidates s)"
    and "user \<in> set (gp_participantUserIds p)"
    and "rawIntervals (st_env site) (st_local site) (groupQuery p) (wd_graph w user) = Inr raw"
    and "agrees (st_collate site) (busyLo ` set raw)" and "allStamped (st_env site) raw"
    and "dateParse (js_date (st_env site)) (gp_windowStart p) = Some a" "\<bar>a\<bar> \<le> maxDateMs"
      "dateParse (js_date (st_env site)) (gp_windowEnd p) = Some b" "\<bar>b\<bar> \<le> maxDateMs"
    and "e \<in> set (canonical_events (wd_graph w user))" "occupies (groupQuery p) e"
  shows "apart (st_env site) (cd_start c) (cd_end c) e"
  by (rule group_avoids_events [OF assms])

lemma group_proposals_avoid_events_witness:
  "\<exists>s w' c. createGroupSession sureSite sampleGroup (schedWorld (\<lambda>_. bookedGraph)) = (Inr s, w') \<and>
     gs_candidates s = [c] \<and> apart sampleEnv (cd_start c) (cd_end c) bookedEvent"
proof -
  obtain s w' c where run: "createGroupSession sureSite sampleGroup (schedWorld (\<lambda>_. bookedGraph)) = (Inr s, w')"
    and c: "gs_candidates s = [c]" by (rule group_session)
  have q: "aq_start (groupQuery sampleGroup) = toISOString nine" "aq_end (groupQuery sampleGroup) = toISOString halfPastTen"
    "aq_accounts (groupQuery sampleGroup) \<in> {Some [], Some [''acc_a'']}"
    by (simp_all add: groupQuery_def sampleGroup_def)
  have raw: "rawIntervals (st_env sureSite) (st_local sureSite) (groupQuery sampleGroup)
      (wd_graph (schedWorld (\<lambda>_. bookedGraph)) ''user_2'') = Inr [sampleBusy]"
    using sample_raw(1) [OF q] by (simp add: schedWorld_def)
  have "apart (st_env sureSite) (cd_start c) (cd_end c) bookedEvent"
    by (rule group_proposals_avoid_events [OF run _ _ raw, where a = nine and b = halfPastTen])
       (use c sample_stamped sample_raw(2) [OF q] in \<open>simp_all add: sampleGroup_def schedWorld_def maxDateMs_def agrees_def\<close>)
  with run c show ?thesis by auto
qed

text \<open>
  C21. When every user's session tables are well formed, a commit that returns has put the
  meeting of the chosen candidate into the graph under the event id it returns, confirmed and at
  the times of the one stored candidate with the given id, which belongs to the session; it has
  marked the session committed and left no hold of it held; any further commit of the session
  whose call is delivered is refused without touching a graph.
\<close>

theorem commit_books_the_meeting_once:
  assumes run: "commitCandidate site user sid cid w = (Inr (eid, view), w')" and ok: "worldOk w"
  shows "(\<exists>c. chosenCandidate sid cid (wd_graph w user) c \<and> hasMeeting c eid (wd_graph w' user)) \<and>
    sessionCommitted sid (wd_graph w' user) \<and> noneHeld sid (wd_graph w' user) \<and>
    (st_fate again (wd_calls w') = Delivered \<longrightarrow> (\<exists>w''. commitCandidate again user sid other w' =
      (Inl (Thrown (''Session '' @ sid @ '' is already committed'')), w'') \<and> wd_graph w'' = wd_graph w'))"
proof -
  note books = commit_books [OF run ok]
  have "\<exists>w''. commitCandidate again user sid other w' =
      (Inl (Thrown (''Session '' @ sid @ '' is already committed'')), w'') \<and> wd_graph w'' = wd_graph w'"
    if "st_fate again (wd_calls w') = Delivered"
    using second_commit_refused [OF _ books(2) that] books(4) unfolding worldOk_def by metis
  with books show ?thesis by blast
qed

lemma commit_books_the_meeting_once_witness:
  "\<exists>eid view w' w'' c. commitCandidate sureSite ''user_1'' ''ses_1'' ''cnd_1'' (schedWorld (\<lambda>_. readyGraph)) = (Inr (eid, view), w') \<and>
     chosenCandidate ''ses_1'' ''cnd_1'' (wd_graph (schedWorld (\<lambda>_. readyGraph)) ''user_1'') c \<and> hasMeeting c eid (wd_graph w' ''user_1'') \<and>
     sessionCommitted ''ses_1'' (wd_graph w' ''user_1'') \<and> noneHeld ''ses_1'' (wd_graph w' ''user_1'') \<and>
     commitCandidate sureSite ''user_1'' ''ses_1'' ''cnd_1'' w' =
       (Inl (Thrown (''Session '' @ ''ses_1'' @ '' is already committed'')), w'')"
proof -
  obtain eid view w' where run: "commitCandidate sureSite ''user_1'' ''ses_1'' ''cnd_1'' (schedWorld (\<lambda>_. readyGraph)) =
      (Inr (eid, view), w')" by (rule ready_committed)
  note books = commit_books_the_meeting_once [OF run ready_ok, of sureSite "''cnd_1''"]
  then obtain w'' where "commitCandidate sureSite ''user_1'' ''ses_1'' ''cnd_1'' w' =
      (Inl (Thrown (''Session '' @ ''ses_1'' @ '' is already committed'')), w'')" by auto
  with run books show ?thesis by blast
qed

text \<open>
  C22. When every user's session tables are well formed, a group commit that returns was asked
  for by a participant, made one event for each participant in their order, has the meeting in
  the graph of each under that id, confirmed and at the times of the chosen candidate (the one
  stored candidate of the creator's graph with the given id, which belongs to the session), and
  left the session committed for each of them and in the registry.
\<close>

theorem group_commit_reaches_everyone:
  assumes "commitGroupSession site sid cid user w = (Inr (made, view), w')" and "worldOk w"
  shows "\<exists>row c. row \<in> set (wd_registry w) \<and> gr_session_id row = sid \<and> user \<in> set (gr_participant_ids row) \<and>
    map fst made = gr_participant_ids row \<and>
    chosenCandidate sid cid (wd_graph w (gr_creator_user_id row)) c \<and>
    (\<forall>(u, e) \<in> set made. hasMeeting c e (wd_graph w' u) \<and> sessionCommitted sid (wd_graph w' u)) \<and>
    (\<forall>r \<in> set (wd_registry w'). gr_session_id r = sid \<longrightarrow> gr_status r = ''committed'')"
  by (rule group_commit_everyone [OF assms])

lemma group_commit_reaches_everyone_witness:
  "\<exists>made view w' e f. commitGroupSession sureSite ''ses_1'' ''cnd_1'' ''user_1'' groupWorld = (Inr (made, view), w') \<and>
     made = [(''user_1'', e), (''user_2'', f)] \<and> sessionCommitted ''ses_1'' (wd_graph w' ''user_2'')"
proof -
  obtain made view w' where run: "commitGroupSession sureSite ''ses_1'' ''cnd_1'' ''user_1'' groupWorld = (Inr (made, view), w')"
    by (rule group_committed)
  from group_commit_reaches_everyone [OF run groupWorld_ok] have users: "map fst made = [''user_1'', ''user_2'']"
    and all: "\<forall>p \<in> set made. sessionCommitted ''ses_1'' (wd_graph w' (fst p))"
    by (auto simp: case_prod_beta)
  from users obtain e f where "made = [(''user_1'', e), (''user_2'', f)]" by (auto simp: map_eq_Cons_conv)
  with run all show ?thesis by auto
qed

text \<open>
  C23. A group commit is not atomic: when the call that books the second participant is lost, the
  commit throws and the registry says cancelled, but the first participant keeps the confirmed
  meeting and the second has none.
\<close>

theorem group_commit_stops_half_way:
  fixes site :: sched_site and w :: sched_world
  defines "eid \<equiv> generateId ''event'' (st_ulid site (wd_ids w))"
  assumes "filter (\<lambda>r. gr_session_id r = sid) (wd_registry w) = row # rows"
    and "user \<in> set (gr_participant_ids row)" and "gr_participant_ids row = u # v # rest" and "u \<noteq> v"
    and "getSchedulingSession (st_env site) sid (wd_graph w (gr_creator_user_id row)) = (Inr session, g1)"
    and "committable ''Group session'' sid cid session = Inr c"
    and "upsertCanonicalEvent (st_env site) (groupEvent sid session c eid) ''system''
      (((wd_graph w)(gr_creator_user_id row := g1)) u) = (Inr x, g2)"
    and "st_fate site (wd_calls w) = Delivered" "st_fate site (wd_calls w + 1) = Delivered"
      "st_fate site (wd_calls w + 2) = Delivered" "st_fate site (wd_calls w + 3) = Refused"
      "st_fate site (wd_calls w + 4) = Delivered" "st_fate site (wd_calls w + 5) = Delivered"
  shows "\<exists>w'. commitGroupSession site sid cid user w =
      (Inl (Thrown (''Atomic commit failed for session '' @ sid @ '': '' @ error_message networkLost)), w') \<and>
    hasMeeting c eid (wd_graph w' u) \<and> canonical_events (wd_graph w' v) = canonical_events (wd_graph w v) \<and>
    (\<forall>r \<in> set (wd_registry w'). gr_session_id r = sid \<longrightarrow> gr_status r = ''cancelled'')"
  by (rule group_commit_half_done [OF assms(2-) [unfolded eid_def], folded eid_def]) blast

lemma group_commit_stops_half_way_witness:
  "\<exists>w'. commitGroupSession (sampleSite lostBooking) ''ses_1'' ''cnd_1'' ''user_1'' groupWorld =
      (Inl (Thrown (''Atomic commit failed for session '' @ ''ses_1'' @ '': '' @ error_message networkLost)), w') \<and>
    hasMeeting readyCandidate (generateId ''event'' (showNat 0)) (wd_graph w' ''user_1'') \<and>
    canonical_events (wd_graph w' ''user_2'') = []"
proof -
  obtain x g where up: "upsertCanonicalEvent sampleEnv (groupEvent ''ses_1'' readyView readyCandidate
      (generateId ''event'' (showNat 0))) ''system'' readyGraph = (Inr x, g)" by (rule lost_upsert)
  have site: "st_env (sampleSite lostBooking) = sampleEnv" "st_ulid (sampleSite lostBooking) = showNat"
    "st_fate (sampleSite lostBooking) = lostBooking" by (simp_all add: sampleSite_def)
  have "\<exists>w'. commitGroupSession (sampleSite lostBooking) ''ses_1'' ''cnd_1'' ''user_1'' groupWorld =
      (Inl (Thrown (''Atomic commit failed for session '' @ ''ses_1'' @ '': '' @ error_message networkLost)), w') \<and>
    hasMeeting readyCandidate (generateId ''event'' (st_ulid (sampleSite lostBooking) (wd_ids groupWorld))) (wd_graph w' ''user_1'') \<and>
    canonical_events (wd_graph w' ''user_2'') = canonical_events (wd_graph groupWorld ''user_2'') \<and>
    (\<forall>r \<in> set (wd_registry w'). gr_session_id r = ''ses_1'' \<longrightarrow> gr_status r = ''cancelled'')"
    by (rule group_commit_stops_half_way [where session = readyView and ?g1.0 = readyGraph and row = readyRegistration and rows = "[]"
          and rest = "[]" and ?g2.0 = g and x = x])
       (use up in \<open>simp_all add: site ready_view ready_committable lostBooking_def\<close>)
  then show ?thesis by (auto simp: site)
qed

text \<open>
  C24. The events of a group commit are filed under the account group_ followed by the session
  id. When no policy edge leaves that account, and nothing in the code makes one, the commit
  queues no message and makes no mirror for anybody, however it ends: the meeting is in no
  calendar of any participant.
\<close>

theorem group_meeting_in_no_calendar:
  assumes "\<And>u. edgesFrom (''group_'' @ sid) (wd_graph w u) = []" and "w' = snd (commitGroupSession site sid cid user w)"
  shows "wd_queue w' = wd_queue w \<and> event_mirrors (wd_graph w' u) = event_mirrors (wd_graph w u) \<and>
    write_queue (wd_graph w' u) = write_queue (wd_graph w u)"
  using group_meeting_unmirrored [OF assms] by blast

lemma group_meeting_in_no_calendar_witness:
  "\<exists>made view w'. commitGroupSession sureSite ''ses_1'' ''cnd_1'' ''user_1'' groupWorld = (Inr (made, view), w') \<and>
     wd_queue w' = [] \<and> event_mirrors (wd_graph w' ''user_2'') = []"
proof -
  obtain made view w' where run: "commitGroupSession sureSite ''ses_1'' ''cnd_1'' ''user_1'' groupWorld = (Inr (made, view), w')"
    by (rule group_committed)
  have none: "edgesFrom (''group_'' @ ''ses_1'') (wd_graph groupWorld u) = []" for u by (simp add: edgesFrom_def)
  have "w' = snd (commitGroupSession sureSite ''ses_1'' ''cnd_1'' ''user_1'' groupWorld)" by (simp add: run)
  from group_meeting_in_no_calendar [OF none this, of "''user_2''"] run show ?thesis
    by (simp add: groupWorld_def schedWorld_def readyGraph_def emptyGraph_def)
qed

text \<open>
  C25. A tentative hold never becomes a calendar event. The message of a hold names an event the
  graph does not hold, so no mirror row exists for it and the write consumer leaves every graph
  and the provider as they were; the hold keeps no provider event id, so releasing it sends no
  deletion either.
\<close>

theorem hold_never_written:
  assumes "holdFor site p sid (c, acct) w = (Inr (h, m), w')"
    and "\<And>user. mirrors_ok (wo_graph v user)" "\<And>user. ''hold_'' @ sh_hold_id h \<notin> eventIds (wo_graph v user)"
  shows "wo_graph (snd (processQueued we clients env m v)) = wo_graph v \<and>
    wo_provider (snd (processQueued we clients env m v)) = wo_provider v \<and> buildHoldDeleteMessage h = None"
  using hold_unwritten [OF assms] by blast

lemma hold_never_written_witness:
  "\<exists>h m w'. holdFor sureSite (sampleParams\<lparr> ps_holdTimeoutMs := None \<rparr>) ''ses_1'' (sampleSlot, ''acc_b'') (schedWorld (\<lambda>_. sampleGraph))
      = (Inr (h, m), w') \<and>
    wo_provider (snd (processQueued (sampleWorker (\<lambda>_. Delivered)) (\<lambda>_. sampleClient) sampleEnv m (sampleWorld sampleGraph))) = [] \<and>
    buildHoldDeleteMessage h = None"
proof -
  obtain h m w' where run: "holdFor sureSite (sampleParams\<lparr> ps_holdTimeoutMs := None \<rparr>) ''ses_1'' (sampleSlot, ''acc_b'')
      (schedWorld (\<lambda>_. sampleGraph)) = (Inr (h, m), w')" and h: "''hold_'' @ sh_hold_id h \<notin> eventIds sampleGraph"
    by (rule sample_hold)
  have ok: "mirrors_ok (wo_graph (sampleWorld sampleGraph) user)" "''hold_'' @ sh_hold_id h \<notin> eventIds (wo_graph (sampleWorld sampleGraph) user)"
    for user using sampleGraph_ok h by (simp_all add: sampleWorld_def graph_ok_parts)
  from run hold_never_written [OF run ok, of "sampleWorker (\<lambda>_. Delivered)" "\<lambda>_. sampleClient" sampleEnv] show ?thesis
    by (auto simp: sampleWorld_def)
qed

text \<open>
  C26. The fairness adjustment lies between one half and three halves whatever the history holds,
  and of two participants with distinct hashes the one whose preferred times were chosen at the
  higher rate never gets the higher adjustment.
\<close>

theorem fairness_bounded_and_ordered:
  assumes "distinct (map ph_participant_hash history)" and "x \<in> set history" and "y \<in> set history"
    and "preferenceRate x \<le> preferenceRate y" and "ph_participant_hash x \<noteq> []" and "ph_participant_hash y \<noteq> []"
  shows "1 / 2 \<le> fst (computeFairnessScore shown history target) \<and> fst (computeFairnessScore shown history target) \<le> 3 / 2 \<and>
    fst (computeFairnessScore shown history (Some (ph_participant_hash y)))
      \<le> fst (computeFairnessScore shown history (Some (ph_participant_hash x)))"
  using fairness_in_bounds fairness_order [OF assms] by blast

lemma fairness_bounded_and_ordered_witness:
  "fst (computeFairnessScore (\<lambda>_. []) [sampleHistory ''h2'' 3, sampleHistory ''h1'' 1] (Some ''h2''))
     \<le> fst (computeFairnessScore (\<lambda>_. []) [sampleHistory ''h2'' 3, sampleHistory ''h1'' 1] (Some ''h1''))"
  using fairness_bounded_and_ordered [of "[sampleHistory ''h2'' 3, sampleHistory ''h1'' 1]" "sampleHistory ''h1'' 1"
      "sampleHistory ''h2'' 3" "\<lambda>_. []" None]
  by (simp add: sampleHistory_def preferenceRate_def)

text \<open>
  C27. A projected time written to Microsoft Graph and read back by the normaliser is the time
  that was projected: an all-day date as that date, a timed one with its zone or UTC.
\<close>

theorem microsoft_times_round_trip:
  assumes "properTime t"
  shows "msDateTime (toMicrosoftDateTime t) (if dateOnly t then Some True else None) = readBack t"
  by (rule msDateTime_roundtrip [OF assms])

lemma microsoft_times_round_trip_witness:
  "msDateTime (toMicrosoftDateTime (Projected_Date (Some ''2025-06-16''))) (Some True) =
   \<lparr> dt_dateTime = None, dt_date = Some ''2025-06-16'', dt_timeZone = None \<rparr>"
  using microsoft_times_round_trip [of "Projected_Date (Some ''2025-06-16'')"] by simp

text \<open>
  C28. A client that follows the cursors of the event listing gets every event its conditions
  admit, once, in the order of start and id, whatever the page size.
\<close>

theorem listing_returns_every_event_once:
  assumes "graph_ok env s" and "cursorSafe s" and "lq_cursor q = None" and "lq_limit q = Some limit"
    and "0 < limit" and "length (filter (baseConditions q) (canonical_events s)) \<le> n"
  shows "followCursors (Suc n) q s =
    map rowToCanonicalEvent (sort_key rowKey (filter (baseConditions q) (canonical_events s)))"
  by (rule listing_complete [OF assms])

lemma listing_returns_every_event_once_witness:
  "followCursors 2 allEvents sampleGraph = [rowToCanonicalEvent sampleEvent]"
proof -
  have "cursorSafe sampleGraph"
    by (simp add: cursorSafe_def sampleGraph_def sampleEvent_def newEventRow_def samplePayload_def timed_def eventTs_def)
  moreover have rows: "filter (baseConditions allEvents) (canonical_events sampleGraph) = [sampleEvent]"
    by (simp add: baseConditions_def whereTruthy_def allEvents_def sampleGraph_def)
  ultimately show ?thesis
    using listing_returns_every_event_once [OF sampleGraph_ok, of allEvents 1 1]
    by (simp add: rows allEvents_def del: followCursors.simps flip: numeral_2_eq_2)
qed

text \<open>
  C29. With every call to the Durable Object delivered, handling a current queue message through
  the prefetched and buffered cache does exactly what the consumer does when it works on the
  tables themselves: same result, same provider calls, same tables.
\<close>

theorem queue_handler_refines_consumer:
  assumes "\<And>n. we_fate we n = Delivered" and "current env message (wo_graph w user)"
    and "processMessage env (graphStore env) client message (wo_graph w user, wo_provider w) = (Inr x, (g', p'))"
  shows "\<exists>n. handleQueued env we user client message w =
    (Inr (decisionOf x), (moved user g' n w)\<lparr> wo_provider := p' \<rparr>)"
  using assms by (rule handleQueued_direct)

lemma queue_handler_refines_consumer_witness:
  "\<exists>g n. handleQueued sampleEnv (sampleWorker (\<lambda>_. Delivered)) ''user_1'' sampleClient (UPSERT_MIRROR sampleUpsert)
     (sampleWorld pendingGraph) =
     (Inr Ack, (moved ''user_1'' g n (sampleWorld pendingGraph))\<lparr> wo_provider := [(''cal_b'', ''g'' @ showNat 0, ''Busy'')] \<rparr>)"
proof -
  obtain g where run: "processMessage sampleEnv (graphStore sampleEnv) sampleClient (UPSERT_MIRROR sampleUpsert)
      (pendingGraph, []) = (Inr (completed Created_event), (g, [(''cal_b'', ''g'' @ showNat 0, ''Busy'')]))"
    using sample_inserted [of "[]"] by auto
  have "current sampleEnv (UPSERT_MIRROR sampleUpsert) pendingGraph"
    by (simp add: current_def pendingGraph_row superseded_def pendingMirror_def sampleMirror_def)
  with run show ?thesis
    using queue_handler_refines_consumer [of "sampleWorker (\<lambda>_. Delivered)" sampleEnv "UPSERT_MIRROR sampleUpsert"
      "sampleWorld pendingGraph" "''user_1''" sampleClient]
    by (fastforce simp: sampleWorker_def sampleWorld_def decisionOf_def completed_def)
qed

text \<open>
  C30. No message is lost silently: processing it always returns, and leaves the mirror ACTIVE
  when it was created or updated, DELETED when it was deleted, ERROR when it failed for good, and
  as it was when it is to be retried; a skipped message leaves it as it was or ACTIVE.
\<close>

theorem message_settles_its_mirror:
  assumes "concerns message cid target" and "ms_getMirror (graphStore env) cid target g = Some m"
    and "processMessage env (graphStore env) client message (g, p) = (r, (g', p'))"
  shows "\<exists>x m'. r = Inr x \<and> ms_getMirror (graphStore env) cid target g' = Some m' \<and> settled x (em_state m) (em_state m')"
  using assms by (rule message_settles)

lemma message_settles_its_mirror_witness:
  "\<exists>g m'. ms_getMirror (graphStore sampleEnv) ''evt_1'' ''acc_b'' g = Some m' \<and>
     settled (completed Created_event) PENDING (em_state m')"
proof -
  obtain g where run: "processMessage sampleEnv (graphStore sampleEnv) sampleClient (UPSERT_MIRROR sampleUpsert)
      (pendingGraph, []) = (Inr (completed Created_event), (g, [(''cal_b'', ''g'' @ showNat 0, ''Busy'')]))"
    using sample_inserted [of "[]"] by auto
  have "concerns (UPSERT_MIRROR sampleUpsert) ''evt_1'' ''acc_b''" by (simp add: concerns_def)
  from message_settles_its_mirror [OF this pendingGraph_row run] show ?thesis
    by (auto simp: pendingMirror_def)
qed

text \<open>
  C31. An upsert message with a projection hash that was written to the provider once is skipped
  when the queue delivers it again, whatever happened to the clock and the provider: no call is
  made and no table changes.
\<close>

theorem second_delivery_writes_nothing:
  assumes "givesIds client" and "truthy (um_projected_hash msg)"
    and "processMessage env (graphStore env) client (UPSERT_MIRROR msg) (g, p) = (Inr r, s)" and "wrote r"
  shows "processMessage env' (graphStore env') client' (UPSERT_MIRROR msg) s = (Inr (completed Skipped), s)"
  using assms by (rule upsert_twice)

lemma second_delivery_writes_nothing_witness:
  "\<exists>s. processMessage sampleEnv (graphStore sampleEnv) sampleClient (UPSERT_MIRROR sampleUpsert) (pendingGraph, []) =
       (Inr (completed Created_event), s) \<and>
     processMessage sampleEnv (graphStore sampleEnv) sampleClient (UPSERT_MIRROR sampleUpsert) s = (Inr (completed Skipped), s)"
proof -
  obtain g where run: "processMessage sampleEnv (graphStore sampleEnv) sampleClient (UPSERT_MIRROR sampleUpsert)
      (pendingGraph, []) = (Inr (completed Created_event), (g, [(''cal_b'', ''g'' @ showNat 0, ''Busy'')]))"
    using sample_inserted [of "[]"] by auto
  have "truthy (um_projected_hash sampleUpsert)" "wrote (completed Created_event)" by (simp_all add: wrote_def completed_def)
  from second_delivery_writes_nothing [OF sampleClient_ids this(1) run this(2)] run show ?thesis by blast
qed

text \<open>
  C32. An upsert for a mirror that was never written (no provider event id), to a calendar
  already resolved, by an account the registry knows, with either provider: if the provider
  inserts the event and the call that stores its id is refused, the message is retried and no
  table has changed. The next delivery, its calls going through, inserts the event a second time,
  acknowledges the message and stores the id of the second event alone, so that nothing refers to
  the first.
\<close>

theorem lost_flush_inserts_twice:
  assumes "we_fate we (wo_calls w) = Delivered" "we_fate we (wo_calls w + 1) = Delivered"
      "we_fate we (wo_calls w + 2) = Refused"
    and account: "we_account we (um_target_account_id msg) = Inr (Some (user, provider))"
    and "cp_getAccessToken (clientOf clients provider) (um_target_account_id msg) (wo_provider w) = (Inr token, p1)"
    and "cp_insertEvent (clientOf clients provider) token (um_target_calendar_id msg) (um_projected_payload msg) p1 = (Inr eid, p2)"
    and cal: "um_target_calendar_id msg \<noteq> um_target_account_id msg"
    and row: "ms_getMirror (graphStore env) (um_canonical_event_id msg) (um_target_account_id msg) (wo_graph w user) = Some m"
    and new: "em_provider_event_id m = None" "\<not> superseded msg m"
    and sure: "\<And>n. we_fate later n = Delivered" and later: "we_account later = we_account we"
    and again: "cp_getAccessToken (clientOf clients provider) (um_target_account_id msg) p2 = (Inr token', p3)"
      "cp_insertEvent (clientOf clients provider) token' (um_target_calendar_id msg) (um_projected_payload msg) p3 = (Inr eid', p4)"
  shows "\<exists>w1 w2 m'. processQueued we clients env (UPSERT_MIRROR msg) w = (Inr Retry, w1) \<and>
     wo_graph w1 = wo_graph w \<and> wo_provider w1 = p2 \<and>
     processQueued later clients env' (UPSERT_MIRROR msg) w1 = (Inr Ack, w2) \<and> wo_provider w2 = p4 \<and>
     ms_getMirror (graphStore env') (um_canonical_event_id msg) (um_target_account_id msg) (wo_graph w2 user) = Some m' \<and>
     em_provider_event_id m' = Some eid'"
proof -
  obtain w1 where w1: "processQueued we clients env (UPSERT_MIRROR msg) w = (Inr Retry, w1)"
    "wo_graph w1 = wo_graph w" "wo_provider w1 = p2" by (rule lost_flush [OF assms(1-10)])
  have row': "ms_getMirror (graphStore env') (um_canonical_event_id msg) (um_target_account_id msg) (wo_graph w1 user) = Some m"
    using row w1(2) graphStore_reads_any [of env' env] by simp
  obtain w2 m' where "processQueued later clients env' (UPSERT_MIRROR msg) w1 = (Inr Ack, w2)" "wo_provider w2 = p4"
    "ms_getMirror (graphStore env') (um_canonical_event_id msg) (um_target_account_id msg) (wo_graph w2 user) = Some m'"
    "em_provider_event_id m' = Some eid'"
    by (rule insert_delivered [OF sure _ _ again(2) cal row' new]) (use account later again(1) w1(3) in simp_all)
  with w1 show ?thesis by blast
qed

lemma lost_flush_inserts_twice_witness:
  "\<exists>w1 w2. processQueued (sampleWorker flushRefused) (\<lambda>_. sampleClient) sampleEnv (UPSERT_MIRROR sampleUpsert)
       (sampleWorld pendingGraph) = (Inr Retry, w1) \<and>
     processQueued (sampleWorker (\<lambda>_. Delivered)) (\<lambda>_. sampleClient) sampleEnv (UPSERT_MIRROR sampleUpsert) w1 = (Inr Ack, w2) \<and>
     wo_provider w2 = [(''cal_b'', ''g'' @ showNat 0, ''Busy''), (''cal_b'', ''g'' @ showNat 1, ''Busy'')]"
proof -
  have payload: "pr_summary (um_projected_payload sampleUpsert) = ''Busy''" by (simp add: sampleUpsert_def)
  have "\<exists>w1 w2 m'. processQueued (sampleWorker flushRefused) (\<lambda>_. sampleClient) sampleEnv (UPSERT_MIRROR sampleUpsert)
       (sampleWorld pendingGraph) = (Inr Retry, w1) \<and>
     wo_graph w1 = wo_graph (sampleWorld pendingGraph) \<and> wo_provider w1 = [(''cal_b'', ''g'' @ showNat 0, ''Busy'')] \<and>
     processQueued (sampleWorker (\<lambda>_. Delivered)) (\<lambda>_. sampleClient) sampleEnv (UPSERT_MIRROR sampleUpsert) w1 = (Inr Ack, w2) \<and>
     wo_provider w2 = [(''cal_b'', ''g'' @ showNat 0, ''Busy''), (''cal_b'', ''g'' @ showNat 1, ''Busy'')] \<and>
     ms_getMirror (graphStore sampleEnv) (um_canonical_event_id sampleUpsert) (um_target_account_id sampleUpsert)
       (wo_graph w2 ''user_1'') = Some m' \<and> em_provider_event_id m' = Some (''g'' @ showNat 1)"
    by (rule lost_flush_inserts_twice [where m = pendingMirror and provider = "''microsoft''" and ?p1.0 = "[]" and token = "''token''"
          and ?p3.0 = "[(''cal_b'', ''g'' @ showNat 0, ''Busy'')]" and token' = "''token''" and eid = "''g'' @ showNat 0"])
      (simp_all add: sampleWorker_def flushRefused_def sampleWorld_def clientOf_def sampleClient_def ret_def pendingGraph_row
        superseded_def pendingMirror_def sampleMirror_def payload)
  then show ?thesis by blast
qed

text \<open>
  C33. The compliance status of a commitment and its exported proof give the same hours and the
  same rating when every billed event lasts a whole number of hundredths of an hour (both round,
  one the sum and the other each event).
\<close>

theorem status_agrees_with_proof:
  assumes "getCommitmentStatus env k asOf s = (Inr (Some st), t)"
    and "getCommitmentProofData env k asOf s = (Inr (Some pf), u)"
    and "\<forall>(a, e) \<in> set (clientEvents (tc_client_id (cs_commitment st)) (cs_window_start st) (cs_window_end st) s).
      wholeHundredths (nullish (eventHours env e) 0)"
  shows "pf_actual_hours pf = cs_actual_hours st \<and> pf_status pf = cs_status st"
  using assms by (rule proof_agrees)

lemma status_agrees_with_proof_witness:
  "\<exists>st t pf. getCommitmentStatus sampleEnv ''cmt_1'' None committedGraph = (Inr (Some st), t) \<and>
     getCommitmentProofData sampleEnv ''cmt_1'' None committedGraph = (Inr (Some pf), committedGraph) \<and>
     pf_status pf = cs_status st"
proof -
  obtain st t pf where run: "getCommitmentStatus sampleEnv ''cmt_1'' None committedGraph = (Inr (Some st), t)"
    "getCommitmentProofData sampleEnv ''cmt_1'' None committedGraph = (Inr (Some pf), committedGraph)"
    using committed_runs by blast
  have "wholeHundredths (nullish (eventHours sampleEnv e) 0)" if "(a, e) \<in> set (clientEvents c x y committedGraph)" for a e c x y
    using committed_rows [OF that] by (simp add: printedEvent_hours wholeHundredths_def)
  then have "pf_status pf = cs_status st"
    using status_agrees_with_proof [OF run] by blast
  with run show ?thesis by blast
qed

text \<open>
  C34. Unlinking an account can block itself for ever. On a well-formed store that no earlier
  attempt has marked, with queues that accept: when a time allocation refers to an event of the
  account, unlinking fails with a foreign-key violation, with every event still there, the
  mirrors of the events gone and one deletion per event already in the journal, under an id made
  of the account and the event. From then on every call, in any later store whose journal has
  only grown and that still has one of those events, fails on the primary key of the journal and
  removes no event, also when the allocation is gone.
\<close>

theorem unlink_blocked_for_good:
  assumes "graph_ok env s" and "\<forall>k. \<not> send_fails env k" and "\<not> unlinkRecorded acct s"
    and "a \<in> set (time_allocations s)" and "ta_canonical_event_id a \<in> set (originIds acct s)"
  shows "\<exists>t. unlinkAccount env acct s = (Inl ForeignKeyViolation, t) \<and> canonical_events t = canonical_events s \<and>
     (\<forall>m \<in> set (event_mirrors t). em_canonical_event_id m \<notin> set (originIds acct s)) \<and>
     (\<forall>env' u. (\<forall>k. \<not> send_fails env' k) \<and> prefix (event_journal t) (event_journal u) \<and>
        set (originIds acct s) \<inter> set (originIds acct u) \<noteq> {} \<longrightarrow>
        (\<exists>v. unlinkAccount env' acct u = (Inl (UniqueViolation ''event_journal.journal_id''), v) \<and>
             canonical_events v = canonical_events u))"
proof -
  let ?u = "withoutMirrors acct (batchDelivered env (map unlinkDelete (outboundMirrors acct s)) s)"
  have "originIds acct ?u = originIds acct s" by simp
  with journaled_blocks [of _ env acct ?u] unlink_held [OF assms] show ?thesis
    by (auto simp: journaled_def mirrors_withoutMirrors)
qed

lemma unlink_blocked_for_good_witness:
  "\<exists>t v. unlinkAccount sampleEnv ''acc_a'' billedGraph = (Inl ForeignKeyViolation, t) \<and>
     unlinkAccount sampleEnv ''acc_a'' (t\<lparr> time_allocations := [] \<rparr>) =
       (Inl (UniqueViolation ''event_journal.journal_id''), v) \<and> canonical_events v = [sampleEvent]"
proof -
  have new: "\<not> unlinkRecorded ''acc_a'' billedGraph"
    by (simp add: unlinkRecorded_def billedGraph_def sampleGraph_def emptyGraph_def)
  have ids: "originIds ''acc_a'' g = [''evt_1'']" if "canonical_events g = [sampleEvent]" for g
    using that by (simp add: originIds_def) (simp add: sampleEvent_def newEventRow_def)
  have events: "canonical_events billedGraph = [sampleEvent]" by (simp add: billedGraph_def sampleGraph_def)
  have bill: "hd (time_allocations billedGraph) \<in> set (time_allocations billedGraph)"
    "ta_canonical_event_id (hd (time_allocations billedGraph)) \<in> set (originIds ''acc_a'' billedGraph)"
    by (simp_all add: ids [OF events]) (simp_all add: billedGraph_def)
  from unlink_blocked_for_good [OF billedGraph_ok sampleEnv_sends new bill, unfolded ids [OF events] events]
  obtain t where t: "unlinkAccount sampleEnv ''acc_a'' billedGraph = (Inl ForeignKeyViolation, t)" "canonical_events t = [sampleEvent]"
    and later: "\<And>u. prefix (event_journal t) (event_journal u) \<Longrightarrow> ''evt_1'' \<in> set (originIds ''acc_a'' u) \<Longrightarrow>
      \<exists>v. unlinkAccount sampleEnv ''acc_a'' u = (Inl (UniqueViolation ''event_journal.journal_id''), v) \<and>
          canonical_events v = canonical_events u"
    using sampleEnv_sends by auto
  have "''evt_1'' \<in> set (originIds ''acc_a'' (t\<lparr> time_allocations := [] \<rparr>))"
    using ids [of "t\<lparr> time_allocations := [] \<rparr>"] t(2) by simp
  from later [OF _ this] t show ?thesis by auto
qed

text \<open>
  C35. Rotating the master key succeeds whenever the old key opens the stored tokens and the new
  secret is a usable key, and the tokens opened with the new key are the ones stored.
\<close>

theorem rotated_tokens_open:
  assumes "opensSealed env" and "heldTokens env oldHex s = Some t" and "importMasterKey env newHex = Inr l"
  shows "\<exists>s'. rotateKey env oldHex newHex s = (Inr (), s') \<and> heldTokens env newHex s' = Some t"
proof -
  obtain s' where run: "rotateKey env oldHex newHex s = (Inr (), s')" by (rule rotate_returns [OF assms(2,3)])
  with rotated_key_opens [OF assms(1,2) run] show ?thesis by blast
qed

lemma rotated_tokens_open_witness:
  "\<exists>s'. rotateKey rotatingEnv ''secret'' ''next'' (accountWith freshTokens) = (Inr (), s') \<and>
     heldTokens rotatingEnv ''next'' s' = Some freshTokens"
  by (rule rotated_tokens_open [OF cipher_ok(4) accountWith_held(2) master_keys(3)])

text \<open>
  C36. A backup of the data key is good only until the next refresh: the refresh encrypts the
  tokens under a key drawn anew, restoring the older backup succeeds, and afterwards the account
  has no readable tokens.
\<close>

theorem backup_goes_stale:
  assumes "opensSealed env" "opensOnlyWithKey env" "drawsKeys env" "importMasterKey env (xe_masterKey env) = Inr k"
    and "ac_auth s = Some r" "au_encrypted_tokens r = sealedWith env k t m" "\<not> stillValid env t"
    and "\<forall>q. xe_fetch env (length (ac_requests s)) q = Refreshed access expiresIn rotated"
    and "\<bar>xNow env + expiresIn * 1000\<bar> \<le> maxDateMs" "xe_random env m 32 \<noteq> xe_random env (ac_draws s) 32"
  shows "\<exists>s1 s2. getAccessToken env p s = (Inr access, s1) \<and>
     heldTokens env (xe_masterKey env) s1 = Some (refreshedTokens env (tk_refresh_token t) access expiresIn rotated) \<and>
     restoreDekFromBackup env (extractDekForBackup env acct (au_encrypted_tokens r)) s1 = (Inr (), s2) \<and>
     heldTokens env (xe_masterKey env) s2 = None"
proof -
  have held: "heldTokens env (xe_masterKey env) s = Some t" by (rule heldTokens_stored [OF assms(1,3,4,5,6)])
  obtain q s1 where s1: "getAccessToken env p s = (Inr access, s1)"
    "heldTokens env (xe_masterKey env) s1 = Some (refreshedTokens env (tk_refresh_token t) access expiresIn rotated)"
    and env: "\<exists>r k. ac_auth s1 = Some r \<and> importMasterKey env (xe_masterKey env) = Inr k \<and> au_encrypted_tokens r =
       sealedWith env k (refreshedTokens env (tk_refresh_token t) access expiresIn rotated) (ac_draws s)"
    by (rule expired_token_refreshed [OF assms(1,3) held assms(7,8,9)])
  from env assms(4) obtain r' where r': "ac_auth s1 = Some r'"
    "au_encrypted_tokens r' = sealedWith env k (refreshedTokens env (tk_refresh_token t) access expiresIn rotated) (ac_draws s)"
    by auto
  obtain s2 r2 where s2: "restoreDekFromBackup env (extractDekForBackup env acct (au_encrypted_tokens r)) s1 = (Inr (), s2)"
    by (rule restore_run [OF r'(1)])
  show ?thesis
    using s1 s2 restored_too_late [OF assms(1,2,3,6) r' assms(10) s2 assms(4)] by blast
qed

lemma backup_goes_stale_witness:
  "\<exists>s2. restoreDekFromBackup sampleAccountEnv
     (extractDekForBackup sampleAccountEnv ''acc_a'' (sealedWith sampleAccountEnv masterBytes staleTokens 0))
     (snd (getAccessToken sampleAccountEnv None (accountWith staleTokens))) = (Inr (), s2) \<and>
     heldTokens sampleAccountEnv ''secret'' s2 = None"
proof -
  obtain r where r: "ac_auth (accountWith staleTokens) = Some r"
    "au_encrypted_tokens r = sealedWith sampleAccountEnv masterBytes staleTokens 0" by (rule accountWith_auth)
  have "\<forall>q. xe_fetch sampleAccountEnv (length (ac_requests (accountWith staleTokens))) q = Refreshed ''access_2'' 3600 None"
    "\<bar>xNow sampleAccountEnv + 3600 * 1000\<bar> \<le> maxDateMs"
    "xe_random sampleAccountEnv 0 32 \<noteq> xe_random sampleAccountEnv (ac_draws (accountWith staleTokens)) 32"
    by (simp_all add: sampleAccountEnv_def xNow_def sampleEnv_def maxDateMs_def accountWith_def)
  from backup_goes_stale [OF cipher_ok(1,2,3) master_keys(1) r sample_validity(2) this, of None "''acc_a''"] r(2)
  show ?thesis by (auto simp: sample_secret)
qed

text \<open>
  C37. When the stored access token has expired, asking for one sends exactly one request with
  the stored refresh token, returns the new token and stores it: asking again while it is valid
  returns the same token and sends nothing, so a provider that rejects it is asked with it again.
\<close>

theorem token_refreshed_once:
  assumes "opensSealed env" "drawsKeys env" and "heldTokens env (xe_masterKey env) s = Some t" "\<not> stillValid env t"
    and "\<forall>q. xe_fetch env (length (ac_requests s)) q = Refreshed access expiresIn rotated"
    and "\<bar>xNow env + expiresIn * 1000\<bar> \<le> maxDateMs"
    and "stillValid env (refreshedTokens env (tk_refresh_token t) access expiresIn rotated)"
  shows "\<exists>q s1 s2. getAccessToken env p s = (Inr access, s1) \<and> tokenRequest env (tk_refresh_token t) q \<and>
     ac_requests s1 = ac_requests s @ [q] \<and> getAccessToken env p' s1 = (Inr access, s2) \<and> ac_requests s2 = ac_requests s1"
proof -
  obtain q s1 where s1: "getAccessToken env p s = (Inr access, s1)" "tokenRequest env (tk_refresh_token t) q"
    "ac_requests s1 = ac_requests s @ [q]"
    and held: "heldTokens env (xe_masterKey env) s1 = Some (refreshedTokens env (tk_refresh_token t) access expiresIn rotated)"
    by (rule expired_token_refreshed [OF assms(1-6)])
  obtain s2 where "getAccessToken env p' s1 = (Inr access, s2)" "sameEnvelope s1 s2"
    using valid_token_returned [OF held assms(7), of p'] by (auto simp: refreshedTokens_def)
  with s1 show ?thesis by (auto simp: sameEnvelope_def)
qed

lemma token_refreshed_once_witness:
  "\<exists>s1 s2. getAccessToken sampleAccountEnv None (accountWith staleTokens) = (Inr ''access_2'', s1) \<and>
     length (ac_requests s1) = 1 \<and> getAccessToken sampleAccountEnv None s1 = (Inr ''access_2'', s2) \<and> ac_requests s2 = ac_requests s1"
proof -
  have now: "xNow sampleAccountEnv = 1750000000000" by (simp add: sampleAccountEnv_def xNow_def sampleEnv_def)
  have answer: "\<forall>q. xe_fetch sampleAccountEnv (length (ac_requests (accountWith staleTokens))) q = Refreshed ''access_2'' 3600 None"
    by (simp add: sampleAccountEnv_def)
  have range: "\<bar>xNow sampleAccountEnv + 3600 * 1000\<bar> \<le> maxDateMs" by (simp add: now maxDateMs_def)
  have "refreshedTokens sampleAccountEnv (tk_refresh_token staleTokens) ''access_2'' 3600 None = freshTokens\<lparr> tk_access_token := ''access_2'' \<rparr>"
    by (simp add: refreshedTokens_def freshTokens_def staleTokens_def tokensUntil_def now)
  then have valid: "stillValid sampleAccountEnv (refreshedTokens sampleAccountEnv (tk_refresh_token staleTokens) ''access_2'' 3600 None)"
    using sample_validity(1) by (simp add: stillValid_def)
  have "ac_requests (accountWith staleTokens) = []" by (simp add: accountWith_def emptyAccount_def)
  with token_refreshed_once [OF cipher_ok(1,3) accountWith_held(1) sample_validity(2) answer range valid, of None None]
  show ?thesis by auto
qed

text \<open>
  C38. Loop prevention in the sync consumer: whatever the provider lists and whichever call
  fails, the only origin ids a batch can add to the graph of the user are canonical ids of listed
  events that carry neither the Google markers (the private properties tminus and managed) nor
  the Microsoft ones (the open extension or the category), and whose id is not, in any of the
  spellings the code knows (as stored, decoded, encoded), the provider id of an ACTIVE mirror
  that the graph has for the account. Both conditions are stated on the payload and the tables,
  not through the classifier.
\<close>

theorem managed_events_never_origins:
  assumes "userOf se acct = Some user"
  shows "originIdsOf (sw_graph (snd (processAndApplyDeltas se acct events w)) user) \<subseteq>
     originIdsOf (sw_graph w user) \<union> strangerIds acct (sw_graph w user) events"
  using process_brings [OF assms, of w "originIdsOf (sw_graph w user) \<union> strangerIds acct (sw_graph w user) events" events]
    brought_strangers [of acct "sw_graph w user" events]
  by (auto simp: userIdsIn_def idsIn_def)

lemma managed_events_never_origins_witness:
  "originIdsOf (sw_graph (snd (processAndApplyDeltas sampleSync ''acc_a''
       [Google_Raw (sampleGoogle\<lparr> ge_private := Some [(''tminus'', ''true''), (''managed'', ''true'')] \<rparr>)] (syncWorld sampleGraph)))
     ''user_1'') \<subseteq> {''g1''}"
  using managed_events_never_origins [of sampleSync "''acc_a''" "''user_1''"
      "[Google_Raw (sampleGoogle\<lparr> ge_private := Some [(''tminus'', ''true''), (''managed'', ''true'')] \<rparr>)]" "syncWorld sampleGraph"]
  by (simp add: userOf_def sampleSync_def strangerIds_def syncWorld_def
      originIdsOf_def sampleGraph_def sampleEvent_def newEventRow_def)

text \<open>
  C39. An incremental sync of one calendar of a Google account, with every call delivered, a
  stored access token that can be read and is valid, a stored cursor (or the primary calendar),
  an answer to the first listing with at least one event and the next cursor, and no cancelled
  mirror among its events: the listed events are applied in one call and the cursor of the
  calendar then moves to the token of that answer whatever errors the graph reports for single
  events. A delta the graph refused is acknowledged all the same, the graph is what the batch
  left and the account is marked active.
\<close>

theorem cursor_moves_past_failures:
  assumes "allDelivered se" and "we_account (se_worker se) acct = Inr (Some (user, ''google''))" "user \<noteq> []"
    and "cursorIs cal v (sw_account w acct)" and "cal \<noteq> []" "truthy v \<or> cal = ''primary''"
    and "heldTokens (se_env se) (xe_masterKey (se_env se)) (sw_account w acct) = Some t" "stillValid (se_env se) t"
    and "sp_listEvents (se_client se) Google_api (tk_access_token t) cal v None (sw_provider w) =
      (Inr \<lparr> lr_events = events, lr_nextPageToken = page, lr_nextSyncToken = Some next' \<rparr>, p)" "next' \<noteq> []"
    and "events \<noteq> []" and "so_managed (sortAll acct (sw_graph w user) events) = []"
    and "applyProviderDelta (graphEnv se) acct (map canonDelta (so_deltas (sortAll acct (sw_graph w user) events)))
      (sw_graph w user) = (Inr res, g)"
  shows "\<exists>w'. handleSyncMessage se (SYNC_INCREMENTAL acct (Some cal)) w = (Inr Ack, w') \<and>
     sw_graph w' = (sw_graph w)(user := g) \<and> scopedToken cal (sw_account w' acct) = Some next' \<and>
     sw_status w' acct = ''active''"
  by (rule incremental_run [OF assms]) blast

lemma cursor_moves_past_failures_witness:
  "\<exists>w'. handleSyncMessage sampleSync (SYNC_INCREMENTAL ''acc_a'' (Some ''primary'')) (syncWorld billedGraph) = (Inr Ack, w') \<and>
     canonical_events (sw_graph w' ''user_1'') = [sampleEvent] \<and> scopedToken ''primary'' (sw_account w' ''acc_a'') = Some ''c2''"
proof -
  obtain g where g: "applyProviderDelta (graphEnv sampleSync) ''acc_a'' (map canonDelta (so_deltas (sortAll ''acc_a'' billedGraph
      [cancelledEvent]))) billedGraph = (Inr (noResult\<lparr> ar_errors := [(''g1'', error_message ForeignKeyViolation)] \<rparr>), g)"
     "canonical_events g = [sampleEvent]" using cancelled_refused by blast
  have "\<exists>w'. handleSyncMessage sampleSync (SYNC_INCREMENTAL ''acc_a'' (Some ''primary'')) (syncWorld billedGraph) = (Inr Ack, w') \<and>
     sw_graph w' = (sw_graph (syncWorld billedGraph))(''user_1'' := g) \<and>
     scopedToken ''primary'' (sw_account w' ''acc_a'') = Some ''c2'' \<and> sw_status w' ''acc_a'' = ''active''"
  proof (rule cursor_moves_past_failures [where v = "Some ''c1''" and t = freshTokens and events = "[cancelledEvent]"
        and page = None and p = "()" and res = "noResult\<lparr> ar_errors := [(''g1'', error_message ForeignKeyViolation)] \<rparr>"])
    show "allDelivered sampleSync" by (rule sampleSync_sure)
    show "heldTokens (se_env sampleSync) (xe_masterKey (se_env sampleSync)) (sw_account (syncWorld billedGraph) ''acc_a'') =
        Some freshTokens" "stillValid (se_env sampleSync) freshTokens"
      using accountWith_held(1) sample_validity(1) by (simp_all add: sampleSync_def syncWorld_def)
    show "cursorIs ''primary'' (Some ''c1'') (sw_account (syncWorld billedGraph) ''acc_a'')"
      by (simp add: syncWorld_def accountWith_cursor)
    show "applyProviderDelta (graphEnv sampleSync) ''acc_a'' (map canonDelta (so_deltas (sortAll ''acc_a''
        (sw_graph (syncWorld billedGraph) ''user_1'') [cancelledEvent]))) (sw_graph (syncWorld billedGraph) ''user_1'') =
      (Inr (noResult\<lparr> ar_errors := [(''g1'', error_message ForeignKeyViolation)] \<rparr>), g)"
      using g(1) by (simp add: syncWorld_def)
    show "so_managed (sortAll ''acc_a'' (sw_graph (syncWorld billedGraph) ''user_1'') [cancelledEvent]) = []"
      by (simp add: syncWorld_def cancelled_sorted addDelta_def nothingSorted_def Let_def)
  qed (simp_all add: sampleSync_def syncWorld_def sampleProvider_def ret_def)
  with g(2) show ?thesis by auto
qed

text \<open>
  C40. Listing events ends after at most nine calls of the client of the provider, however it
  answers. Every answer before the last is a rate limit or a server error, at most five of the
  one kind and three of the other; after each of them the consumer waits once, together at most
  45 seconds; the result is the last answer, and an error worth another call is returned only
  after five rate limits, or three other errors, were met. What the client waits inside one call
  (the Microsoft client has a token bucket and retries of its own) is not counted here.
\<close>

theorem provider_retries_bounded:
  fixes se :: "('c, 'p) sync_env"
  shows "\<exists>es ds p. let call = sp_listEvents (se_client se) family token cal cursor page in
     failedCalls call (sw_provider w) es p \<and> set es \<subseteq> {e. isRateLimit e \<or> isServerError e} \<and>
     listEvents se family token cal cursor page w =
       (fst (call p), w\<lparr> sw_provider := snd (call p), sw_sleeps := sw_sleeps w @ ds \<rparr>) \<and>
     length ds = length es \<and> sum_list ds \<le> 45000 \<and> rateLimits es \<le> 5 \<and> otherErrors es \<le> 3 \<and>
     givenUp 0 0 es (fst (call p))"
  unfolding listEvents_def Let_def
  by (rule retry_calls [of "sp_listEvents (se_client se) family token cal cursor page" w]) (intro exI conjI subsetI; (assumption | simp))

section \<open>Further results\<close>

text \<open>
  Setting the edges of a policy refuses an unknown policy and an invalid edge before it changes
  anything; with two inputs for one pair of accounts it throws a key violation after the old
  edges are deleted and the edges before the duplicate inserted, and nothing is projected.
\<close>

theorem policy_edges_replaced_or_refused:
  "(\<not> policyKnown pid s \<longrightarrow> setPolicyEdges env pid es s = (Inl (Thrown (''Policy not found: '' @ pid)), s)) \<and>
   (policyKnown pid s \<and> firstEdgeError es = Some m \<longrightarrow> setPolicyEdges env pid es s = (Inl (Thrown m), s)) \<and>
   (policyKnown pid s \<and> firstEdgeError (xs @ e # ys) = None \<and>
    distinct (map (\<lambda>e. (ei_from_account_id e, ei_to_account_id e)) xs) \<and>
    (ei_from_account_id e, ei_to_account_id e) \<in> (\<lambda>e. (ei_from_account_id e, ei_to_account_id e)) ` set xs \<longrightarrow>
    (\<exists>m. setPolicyEdges env pid (xs @ e # ys) s = (Inl (UniqueViolation m), edgesReplaced pid xs s)))"
  using setPolicyEdges_rejected setPolicyEdges_duplicate by blast

lemma policy_edges_replaced_or_refused_witness:
  "\<exists>m. setPolicyEdges sampleEnv ''pol_1'' [sampleInput ''acc_a'' ''acc_b'', sampleInput ''acc_a'' ''acc_b''] sampleGraph =
     (Inl (UniqueViolation m), edgesReplaced ''pol_1'' [sampleInput ''acc_a'' ''acc_b''] sampleGraph)"
  using policy_edges_replaced_or_refused [of "''pol_1''" sampleGraph sampleEnv "[]" "[]" "[sampleInput ''acc_a'' ''acc_b'']"
      "sampleInput ''acc_a'' ''acc_b''" "[]"]
  by (simp add: policyKnown_def sampleGraph_def sampleInput_def edgeError_def validDetail_def validKind_def)

text \<open>
  Storing a drift report replaces all alerts by the entries of the report, in order, when every
  entry names a stored relationship; if the first one does not (it was deleted since), the old
  alerts are deleted, the call throws and no alert is left.
\<close>

theorem drift_alerts_replaced_or_lost:
  assumes "inj (ulid env)"
  shows "((\<forall>e \<in> set (dp_overdue p). de_relationship_id e \<in> rl_relationship_id ` set (relationships s)) \<longrightarrow>
     storeDriftAlerts env p s = (Inr (length (dp_overdue p)),
       s\<lparr> id_seq := id_seq s + length (dp_overdue p),
          drift_alerts := alertRows env (dp_computed_at p) (id_seq s) (dp_overdue p) \<rparr>)) \<and>
   (\<forall>e es. dp_overdue p = e # es \<and> de_relationship_id e \<notin> rl_relationship_id ` set (relationships s) \<longrightarrow>
     storeDriftAlerts env p s = (Inl ForeignKeyViolation, s\<lparr> id_seq := Suc (id_seq s), drift_alerts := [] \<rparr>))"
  using storeDriftAlerts_run [OF assms] storeDriftAlerts_stale by blast

lemma drift_alerts_replaced_or_lost_witness:
  "fst (storeDriftAlerts sampleEnv sampleReport contactGraph) = Inr 1 \<and>
   fst (storeDriftAlerts sampleEnv sampleReport sampleGraph) = Inl ForeignKeyViolation"
  using drift_alerts_replaced_or_lost [OF sampleEnv_ids, of sampleReport contactGraph]
    drift_alerts_replaced_or_lost [OF sampleEnv_ids, of sampleReport sampleGraph]
  by (simp add: sampleReport_def sampleEntry_contact contactGraph_def sampleContact_def sampleGraph_def emptyGraph_def)

text \<open>
  Executing an ICS upgrade plan removes the mirrors of the replaced events from the store and
  sends no message at all, so the provider copies of those mirrors are orphaned.
\<close>

theorem upgrade_sends_nothing:
  "sentBetween s (snd (executeUpgradePlan env plan s)) = []"
  by (rule upgrade_silent)

text \<open>
  Parsing a generated identifier gives back its entity and its ULID, and every identifier that
  parses is the one generated from the parts it parses into.
\<close>

theorem ids_round_trip:
  "(map_of ID_PREFIXES entity \<noteq> None \<and> isUlid u \<longrightarrow> parseId (generateId entity u) = Some (entity, u)) \<and>
   (parseId s = Some (e, v) \<longrightarrow> isUlid v \<and> generateId e v = s)"
  using parse_generated parseId_inverse by blast

lemma ids_round_trip_witness:
  "parseId (generateId ''event'' ''01ARZ3NDEKTSV4RRFFQ69G5FAV'') = Some (''event'', ''01ARZ3NDEKTSV4RRFFQ69G5FAV'')"
proof -
  have "map_of ID_PREFIXES ''event'' \<noteq> None" "isUlid ''01ARZ3NDEKTSV4RRFFQ69G5FAV''" by code_simp+
  then show ?thesis using ids_round_trip [of "''event''" "''01ARZ3NDEKTSV4RRFFQ69G5FAV''" "[]" "[]" "[]"] by blast
qed

text \<open>
  The drift report of a user lists exactly the relationships with a positive target whose last
  contact is more whole days ago than the target, each with its days and ratio, most urgent
  first.
\<close>

theorem drift_report_is_exact:
  assumes "\<bar>now_ms env\<bar> \<le> maxDateMs"
  shows "\<exists>p. getDriftReport env None s = (Inr p, s) \<and>
     set (dp_overdue p) = {driftEntry (now_ms env) (driftInput r) lastMs | r lastMs. r \<in> set (relationships s) \<and>
        overdueAt (js_date env) (now_ms env) (driftInput r) \<and> lastInteraction (js_date env) (driftInput r) = Some lastMs} \<and>
     sorted_wrt (\<lambda>a b. de_urgency b \<le> de_urgency a) (dp_overdue p) \<and> dp_total_overdue p = length (dp_overdue p)"
  using assms by (rule getDriftReport_exact)

lemma drift_report_is_exact_witness:
  "\<exists>p. getDriftReport sampleEnv None contactGraph = (Inr p, contactGraph) \<and> sampleEntry \<in> set (dp_overdue p)"
proof -
  have "\<bar>now_ms sampleEnv\<bar> \<le> maxDateMs" by (simp add: sampleEnv_def maxDateMs_def)
  from drift_report_is_exact [OF this, of contactGraph] obtain p where
    p: "getDriftReport sampleEnv None contactGraph = (Inr p, contactGraph)"
    and over: "set (dp_overdue p) = {driftEntry (now_ms sampleEnv) (driftInput r) lastMs | r lastMs.
        r \<in> set (relationships contactGraph) \<and> overdueAt (js_date sampleEnv) (now_ms sampleEnv) (driftInput r) \<and>
        lastInteraction (js_date sampleEnv) (driftInput r) = Some lastMs}"
    by blast
  have "lastInteraction (js_date sampleEnv) (driftInput sampleContact) = Some 0"
    by (simp add: lastInteraction_def driftInput_def sampleContact_def)
  moreover have "sampleContact \<in> set (relationships contactGraph)" by (simp add: contactGraph_def)
  ultimately have "sampleEntry \<in> set (dp_overdue p)"
    using sampleContact_overdue unfolding over sampleEntry_def by blast
  with p show ?thesis by blast
qed

text \<open>
  The four erasure calls of an account deletion, in their order, never fail on a well-formed
  store and empty every table, with one exception: the scheduling history, which keeps
  participant hashes, is left as it was.
\<close>

theorem erasure_leaves_history:
  assumes "graph_ok env s"
  shows "\<exists>n t. eraseUser s = (Inr n, t) \<and>
     t = emptyGraph\<lparr> scheduling_history := scheduling_history s, write_queue := write_queue s,
           delete_queue := delete_queue s, id_seq := id_seq s, send_seq := send_seq s \<rparr>"
  using eraseUser_run [OF assms] by blast

lemma erasure_leaves_history_witness:
  "\<exists>n t. eraseUser billedGraph = (Inr n, t) \<and> time_allocations t = [] \<and> canonical_events t = []"
  using erasure_leaves_history [OF billedGraph_ok] by (auto simp: emptyGraph_def)

text \<open>
  The next occurrence of an annual milestone lies on or after the reference date and is the first
  such: no earlier year has its month and day, with 29 February read as the 28th in a year
  without it, on or after the reference date.
\<close>

theorem next_occurrence_is_the_first:
  "(refYear, refMd) \<le> (nextYear refYear refMd md, resolveLeapDay (nextYear refYear refMd md) md) \<and>
   (\<forall>y. (refYear, refMd) \<le> (y, resolveLeapDay y md) \<longrightarrow> nextYear refYear refMd md \<le> y)"
  using nextYear_after [of refYear refMd md] nextYear_first [of refYear refMd md]
  by (simp add: occurrence_def)

lemma next_occurrence_is_the_first_witness:
  "nextYear 2025 (3, 1) (2, 29) \<le> 2026"
  using next_occurrence_is_the_first [of 2025 "(3, 1)" "(2, 29)"]
  by (auto simp: resolveLeapDay_def isLeapYear_def less_eq_prod_def)

text \<open>
  Deleting a trip removes its row, exactly the events derived from it and their mirrors, and
  sends one DELETE_MIRROR for each of those mirrors, provided no time allocation refers to a
  derived event.
\<close>

theorem deleted_constraint_takes_its_events:
  assumes "graph_ok env s" and "inj (ulid env)" and "\<forall>k. \<not> send_fails env k"
    and "k \<in> cn_constraint_id ` set (constraints s)"
    and "set (derivedIds k s) \<inter> ta_canonical_event_id ` set (time_allocations s) = {}"
  shows "\<exists>t. deleteConstraint env k s = (Inr True, t) \<and> graph_ok env t \<and>
     k \<notin> cn_constraint_id ` set (constraints t) \<and> derivedIds k t = [] \<and>
     canonical_events t = deleteRows (\<lambda>r. ce_constraint_id r = Some k) (canonical_events s) \<and>
     set (sentBetween s t) = (\<lambda>m. DELETE_MIRROR (constraintDelete m)) `
       {m \<in> set (event_mirrors s). em_canonical_event_id m \<in> set (derivedIds k s)}"
  by (rule deleteConstraint_gone [OF assms])

lemma deleted_constraint_takes_its_events_witness:
  "\<exists>t. deleteConstraint sampleEnv ''cst_2'' constrainedGraph = (Inr True, t) \<and> derivedIds ''cst_2'' t = []"
  using deleted_constraint_takes_its_events [OF constrainedGraph_ok sampleEnv_ids sampleEnv_sends constrainedGraph_trip]
  by blast

text \<open>
  A batch of messages is sent in parts of at most a hundred, none empty, and the parts in order
  are the batch.
\<close>

theorem batches_fit_the_queue:
  "concat (chunks ms) = ms \<and> (\<forall>c \<in> set (chunks ms). c \<noteq> [] \<and> length c \<le> 100)"
  using concat_chunks chunks_bounded by blast

lemma batches_fit_the_queue_witness:
  "concat (chunks [1 :: nat, 2, 3]) = [1, 2, 3] \<and> list_all (\<lambda>c. length c \<le> 100) (chunks [1 :: nat, 2, 3])"
  using batches_fit_the_queue [of "[1 :: nat, 2, 3]"] by (auto simp: list_all_iff)

text \<open>
  On a well-formed store and with queues that accept, a projection run returns: no constraint of
  the tables can stop it.
\<close>

theorem projection_always_returns:
  assumes "\<forall>k. \<not> send_fails env k" and "graph_ok env s"
  shows "\<exists>n. projectAndEnqueue env cid acct opts s = (Inr n, snd (projectAndEnqueue env cid acct opts s))"
  by (rule projectAndEnqueue_returns [OF assms])

lemma projection_always_returns_witness:
  "\<exists>n. projectAndEnqueue sampleEnv ''evt_1'' ''acc_a'' noOpts billedGraph =
        (Inr n, snd (projectAndEnqueue sampleEnv ''evt_1'' ''acc_a'' noOpts billedGraph))"
  by (rule projection_always_returns [OF sampleEnv_sends billedGraph_ok])

text \<open>
  The shared working hours of two offsets are eight hours less their difference, if that leaves
  any; start and end are hours of a day and lie that many hours apart, and the order of the two
  zones does not matter.
\<close>

theorem shared_working_hours:
  "overlapOf a b = overlapOf b a \<and>
   overlapOf a b = (if \<bar>a - b\<bar> < 8 then
     Some \<lparr> wo_startHourUTC = (9 - min a b) mod 24, wo_endHourUTC = (17 - max a b) mod 24,
            wo_overlapHours = 8 - \<bar>a - b\<bar> \<rparr> else None)"
  using overlapOf_sym overlapOf_hours by blast

end
